(* ===== verification/Prelude.thy ===== *)
theory Prelude
  imports Main "HOL-Library.AList" "HOL-Library.Char_ord" "HOL-Library.List_Lexorder"
begin

text \<open>
  Shared vocabulary of the development.

  \<^item> \<open>py_exn\<close> and \<open>'a result\<close>: the exceptions the Python code raises, as values.
  \<^item> \<open>('s, 'a) sx\<close>: a computation over a state that may raise.  As in Python, the state
    reached before the exception survives it, so the computation returns a result and a state.
  \<^item> the string functions of Python the code uses (\<open>strip\<close>, \<open>startswith\<close>, \<open>replace\<close>,
    \<open>split\<close>, \<open>rpartition\<close>, \<open>isdigit\<close>, \<open>upper\<close>, \<open>str\<close> of an integer), on ASCII text.
  \<^item> tables with a primary key as association lists (\<open>AList.update\<close>, \<open>AList.delete\<close>), and
    \<open>sorted(set(xs))\<close>.
  \<^item> the collections \<open>sx_simps\<close> (evaluation of computations) and \<open>keeps_intros\<close>
    (invariants of computations).
\<close>

named_theorems sx_simps
named_theorems keeps_intros

section \<open>Exceptions and results\<close>

datatype py_exn =
    TransitionError string
  | RegistryError string
  | SecretError string
  | ValueError string
  | KeyError string
  | IndexError string
  | RuntimeError string
  | PermissionError string
  | FencedError string
  | SystemExit string
  | TypeError string
  | AttributeError string
  | ZeroDivisionError string
  | MultipleResultsFound string
  | DatabaseError string string \<comment> \<open>SQLSTATE and message\<close>

type_synonym 'a result = "py_exn + 'a"

text \<open>\<^verbatim>\<open>TransitionError\<close>, \<^verbatim>\<open>RegistryError\<close> and \<^verbatim>\<open>SecretError\<close> are subclasses of \<^verbatim>\<open>ValueError\<close>.\<close>

fun is_value_error :: "py_exn \<Rightarrow> bool" where
  "is_value_error (ValueError _) = True"
| "is_value_error (TransitionError _) = True"
| "is_value_error (RegistryError _) = True"
| "is_value_error (SecretError _) = True"
| "is_value_error _ = False"

definition rbind :: "'a result \<Rightarrow> ('a \<Rightarrow> 'b result) \<Rightarrow> 'b result" where
  "rbind r f = (case r of Inl e \<Rightarrow> Inl e | Inr x \<Rightarrow> f x)"

lemma rbind_simps [simp]:
  "rbind (Inl e) f = Inl e"
  "rbind (Inr x) f = f x"
  by (simp_all add: rbind_def)

lemma rbind_Inr_iff: "rbind r f = Inr y \<longleftrightarrow> (\<exists>x. r = Inr x \<and> f x = Inr y)"
  by (cases r) simp_all

text \<open>\<^verbatim>\<open>raise exn\<close> unless the condition holds: the shape of every guard of the code.\<close>

definition guard :: "bool \<Rightarrow> py_exn \<Rightarrow> 'a result \<Rightarrow> 'a result" where
  "guard c e k = (if c then k else Inl e)"

lemma guard_True [simp]: "guard True e k = k"
  and guard_False [simp]: "guard False e k = Inl e"
  by (simp_all add: guard_def)

lemma guard_Inr_iff [simp]: "guard c e k = Inr x \<longleftrightarrow> c \<and> k = Inr x"
  by (simp add: guard_def)

text \<open>A loop whose body may raise: the first exception ends it.\<close>

fun rmap :: "('a \<Rightarrow> 'b result) \<Rightarrow> 'a list \<Rightarrow> 'b list result" where
  "rmap f [] = Inr []"
| "rmap f (x # xs) = rbind (f x) (\<lambda>y. rbind (rmap f xs) (\<lambda>ys. Inr (y # ys)))"

lemma rmap_Inr_length: "rmap f xs = Inr ys \<Longrightarrow> length ys = length xs"
  by (induction xs arbitrary: ys) (auto simp: rbind_Inr_iff)

lemma rmap_Inr_nth: "rmap f xs = Inr ys \<Longrightarrow> i < length xs \<Longrightarrow> f (xs ! i) = Inr (ys ! i)"
proof (induction xs arbitrary: ys i)
  case (Cons x xs)
  then show ?case by (cases i) (auto simp: rbind_Inr_iff)
qed simp

lemma rmap_all_Inr: "(\<And>x. x \<in> set xs \<Longrightarrow> f x = Inr (g x)) \<Longrightarrow> rmap f xs = Inr (map g xs)"
  by (induction xs) auto

section \<open>Computations over a state that may raise\<close>

type_synonym ('s, 'a) sx = "'s \<Rightarrow> 'a result \<times> 's"

definition sret :: "'a \<Rightarrow> ('s, 'a) sx" where
  "sret x s = (Inr x, s)"

definition sraise :: "py_exn \<Rightarrow> ('s, 'a) sx" where
  "sraise e s = (Inl e, s)"

definition sbind :: "('s, 'a) sx \<Rightarrow> ('a \<Rightarrow> ('s, 'b) sx) \<Rightarrow> ('s, 'b) sx" where
  "sbind m f s = (case m s of (Inl e, s') \<Rightarrow> (Inl e, s') | (Inr x, s') \<Rightarrow> f x s')"

definition sseq :: "('s, 'a) sx \<Rightarrow> ('s, 'b) sx \<Rightarrow> ('s, 'b) sx" where
  "sseq m k = sbind m (\<lambda>_. k)"

definition sget :: "('s \<Rightarrow> 'a) \<Rightarrow> ('s, 'a) sx" where
  "sget f s = (Inr (f s), s)"

definition sput :: "('s \<Rightarrow> 's) \<Rightarrow> ('s, unit) sx" where
  "sput f s = (Inr (), f s)"

definition slift :: "'a result \<Rightarrow> ('s, 'a) sx" where
  "slift r s = (r, s)"

definition swhen :: "bool \<Rightarrow> ('s, unit) sx \<Rightarrow> ('s, unit) sx" where
  "swhen b m = (if b then m else sret ())"

text \<open>\<^verbatim>\<open>try: m except BaseException: h; raise\<close>\<close>

definition son_error :: "('s, 'a) sx \<Rightarrow> ('s, unit) sx \<Rightarrow> ('s, 'a) sx" where
  "son_error m h s =
     (case m s of
        (Inl e, s') \<Rightarrow> (case h s' of (Inl e', s'') \<Rightarrow> (Inl e', s'') | (Inr _, s'') \<Rightarrow> (Inl e, s''))
      | (Inr x, s') \<Rightarrow> (Inr x, s'))"

text \<open>\<^verbatim>\<open>try: m except ...: h exn\<close>\<close>

definition scatch :: "('s, 'a) sx \<Rightarrow> (py_exn \<Rightarrow> ('s, 'a) sx) \<Rightarrow> ('s, 'a) sx" where
  "scatch m h s = (case m s of (Inl e, s') \<Rightarrow> h e s' | (Inr x, s') \<Rightarrow> (Inr x, s'))"

text \<open>\<^verbatim>\<open>for x in xs: ...\<close>, collecting the values of the body.\<close>

fun sfor :: "'a list \<Rightarrow> ('a \<Rightarrow> ('s, 'b) sx) \<Rightarrow> ('s, 'b list) sx" where
  "sfor [] f = sret []"
| "sfor (x # xs) f = sbind (f x) (\<lambda>y. sbind (sfor xs f) (\<lambda>ys. sret (y # ys)))"

lemma sret_run [sx_simps]: "sret x s = (Inr x, s)"
  by (simp add: sret_def)

lemma sraise_run [sx_simps]: "sraise e s = (Inl e, s)"
  by (simp add: sraise_def)

lemma sget_run [sx_simps]: "sget f s = (Inr (f s), s)"
  by (simp add: sget_def)

lemma sput_run [sx_simps]: "sput f s = (Inr (), f s)"
  by (simp add: sput_def)

lemma slift_run [sx_simps]: "slift r s = (r, s)"
  by (simp add: slift_def)

lemma sseq_run [sx_simps]: "sseq m k s = sbind m (\<lambda>_. k) s"
  by (simp add: sseq_def)

lemma swhen_run [sx_simps]: "swhen b m s = (if b then m s else (Inr (), s))"
  by (simp add: swhen_def sret_def)

lemma sbind_Inr [sx_simps]: "m s = (Inr x, s') \<Longrightarrow> sbind m f s = f x s'"
  by (simp add: sbind_def)

lemma sbind_Inl [sx_simps]: "m s = (Inl e, s') \<Longrightarrow> sbind m f s = (Inl e, s')"
  by (simp add: sbind_def)

lemma sbind_InrE:
  assumes "sbind m f s = (Inr y, t)"
  obtains x s' where "m s = (Inr x, s')" and "f x s' = (Inr y, t)"
  using assms by (auto simp: sbind_def split: prod.splits sum.splits)

lemma sbind_InlE:
  assumes "sbind m f s = (Inl e, t)"
  obtains (first) "m s = (Inl e, t)" | (second) x s' where "m s = (Inr x, s')" and "f x s' = (Inl e, t)"
  using assms by (auto simp: sbind_def split: prod.splits sum.splits)

subsection \<open>Invariants of computations\<close>

text \<open>
  \<open>keeps I m\<close>: whatever \<open>m\<close> does, returning or raising, it takes a state with \<open>I\<close> to a state
  with \<open>I\<close>.  The introduction rules follow the constructors, so an invariant of a handler is
  an application of \<open>keeps_intros\<close> down to the state updates it performs.
\<close>

definition keeps :: "('s \<Rightarrow> bool) \<Rightarrow> ('s, 'a) sx \<Rightarrow> bool" where
  "keeps I m \<longleftrightarrow> (\<forall>s. I s \<longrightarrow> I (snd (m s)))"

lemma keepsI: "(\<And>s. I s \<Longrightarrow> I (snd (m s))) \<Longrightarrow> keeps I m"
  by (simp add: keeps_def)

lemma keepsD: "keeps I m \<Longrightarrow> I s \<Longrightarrow> I (snd (m s))"
  by (simp add: keeps_def)

lemma keeps_run: "keeps I m \<Longrightarrow> I s \<Longrightarrow> m s = (r, t) \<Longrightarrow> I t"
  by (metis keepsD snd_conv)

lemma keeps_sret [keeps_intros]: "keeps I (sret x)"
  by (simp add: keeps_def sx_simps)

lemma keeps_sraise [keeps_intros]: "keeps I (sraise e)"
  by (simp add: keeps_def sx_simps)

lemma keeps_sget [keeps_intros]: "keeps I (sget f)"
  by (simp add: keeps_def sx_simps)

lemma keeps_slift [keeps_intros]: "keeps I (slift r)"
  by (simp add: keeps_def sx_simps)

lemma keeps_sput [keeps_intros]: "(\<And>s. I s \<Longrightarrow> I (f s)) \<Longrightarrow> keeps I (sput f)"
  by (simp add: keeps_def sx_simps)

lemma keeps_sbind [keeps_intros]:
  "keeps I m \<Longrightarrow> (\<And>x. keeps I (f x)) \<Longrightarrow> keeps I (sbind m f)"
  unfolding keeps_def sbind_def by (force split: prod.splits sum.splits)

lemma keeps_sseq [keeps_intros]: "keeps I m \<Longrightarrow> keeps I k \<Longrightarrow> keeps I (sseq m k)"
  by (simp add: sseq_def keeps_sbind)

lemma keeps_swhen [keeps_intros]: "keeps I m \<Longrightarrow> keeps I (swhen b m)"
  by (simp add: swhen_def keeps_sret)

lemma keeps_son_error [keeps_intros]:
  "keeps I m \<Longrightarrow> keeps I h \<Longrightarrow> keeps I (son_error m h)"
  unfolding keeps_def son_error_def by (force split: prod.splits sum.splits)

lemma keeps_scatch [keeps_intros]:
  "keeps I m \<Longrightarrow> (\<And>e. keeps I (h e)) \<Longrightarrow> keeps I (scatch m h)"
  unfolding keeps_def scatch_def by (force split: prod.splits sum.splits)

lemma keeps_sfor [keeps_intros]: "(\<And>x. x \<in> set xs \<Longrightarrow> keeps I (f x)) \<Longrightarrow> keeps I (sfor xs f)"
  by (induction xs) (auto intro!: keeps_intros)

lemma keeps_if [keeps_intros]:
  "(b \<Longrightarrow> keeps I m) \<Longrightarrow> (\<not> b \<Longrightarrow> keeps I k) \<Longrightarrow> keeps I (if b then m else k)"
  by simp

lemma keeps_case_option [keeps_intros]:
  "(x = None \<Longrightarrow> keeps I m) \<Longrightarrow> (\<And>y. x = Some y \<Longrightarrow> keeps I (f y)) \<Longrightarrow>
   keeps I (case x of None \<Rightarrow> m | Some y \<Rightarrow> f y)"
  by (cases x) simp_all

lemma sfor_Inr_length: "sfor xs f s = (Inr ys, t) \<Longrightarrow> length ys = length xs"
  by (induction xs arbitrary: s t ys) (auto simp: sx_simps elim!: sbind_InrE)

section \<open>Strings\<close>

definition starts_with :: "string \<Rightarrow> string \<Rightarrow> bool" where
  "starts_with p s \<longleftrightarrow> take (length p) s = p"

lemma starts_with_append [simp]: "starts_with p (p @ s)"
  by (simp add: starts_with_def)

lemma starts_with_iff: "starts_with p s \<longleftrightarrow> (\<exists>r. s = p @ r)"
  by (metis append_take_drop_id starts_with_append starts_with_def)

definition is_digit_char :: "char \<Rightarrow> bool" where
  "is_digit_char c \<longleftrightarrow> CHR ''0'' \<le> c \<and> c \<le> CHR ''9''"

definition is_lower_char :: "char \<Rightarrow> bool" where
  "is_lower_char c \<longleftrightarrow> CHR ''a'' \<le> c \<and> c \<le> CHR ''z''"

definition is_upper_char :: "char \<Rightarrow> bool" where
  "is_upper_char c \<longleftrightarrow> CHR ''A'' \<le> c \<and> c \<le> CHR ''Z''"

definition is_alpha_char :: "char \<Rightarrow> bool" where
  "is_alpha_char c \<longleftrightarrow> is_lower_char c \<or> is_upper_char c"

definition newline_char :: char where
  "newline_char = CHR 0x0A"

definition is_space_char :: "char \<Rightarrow> bool" where
  "is_space_char c \<longleftrightarrow>
     (let n = of_char c :: nat in n = 32 \<or> 9 \<le> n \<and> n \<le> 13 \<or> 28 \<le> n \<and> n \<le> 31)"

text \<open>\<^verbatim>\<open>s.isdigit()\<close>: non-empty and digits only.\<close>

definition py_isdigit :: "string \<Rightarrow> bool" where
  "py_isdigit s \<longleftrightarrow> s \<noteq> [] \<and> list_all is_digit_char s"

definition py_strip :: "string \<Rightarrow> string" where
  "py_strip s = rev (dropWhile is_space_char (rev (dropWhile is_space_char s)))"

definition to_upper_char :: "char \<Rightarrow> char" where
  "to_upper_char c = (if is_lower_char c then char_of (of_char c - 32 :: nat) else c)"

definition to_lower_char :: "char \<Rightarrow> char" where
  "to_lower_char c = (if is_upper_char c then char_of (of_char c + 32 :: nat) else c)"

definition py_upper :: "string \<Rightarrow> string" where
  "py_upper s = map to_upper_char s"

definition py_lower :: "string \<Rightarrow> string" where
  "py_lower s = map to_lower_char s"

text \<open>\<^verbatim>\<open>s.replace(c, r)\<close> for a one-character pattern.\<close>

definition replace_char :: "char \<Rightarrow> string \<Rightarrow> string \<Rightarrow> string" where
  "replace_char c r s = concat (map (\<lambda>x. if x = c then r else [x]) s)"

text \<open>\<^verbatim>\<open>s.split(c)\<close> for a one-character separator.\<close>

fun split_char :: "char \<Rightarrow> string \<Rightarrow> string list" where
  "split_char c [] = [[]]"
| "split_char c (x # xs) =
     (if x = c then [] # split_char c xs
      else case split_char c xs of [] \<Rightarrow> [[x]] | w # ws \<Rightarrow> (x # w) # ws)"

text \<open>\<^verbatim>\<open>sep.join(xs)\<close>\<close>

fun py_join :: "string \<Rightarrow> string list \<Rightarrow> string" where
  "py_join sep [] = []"
| "py_join sep [x] = x"
| "py_join sep (x # y # ys) = x @ sep @ py_join sep (y # ys)"

subsection \<open>Decimal numerals\<close>

definition digit_char :: "nat \<Rightarrow> char" where
  "digit_char d = char_of (48 + d)"

fun nat_str :: "nat \<Rightarrow> string" where
  "nat_str n = (if n < 10 then [digit_char n] else nat_str (n div 10) @ [digit_char (n mod 10)])"

declare nat_str.simps [simp del]

definition int_str :: "int \<Rightarrow> string" where
  "int_str i = (if i < 0 then CHR ''-'' # nat_str (nat (- i)) else nat_str (nat i))"

lemma of_char_digit: "d < 10 \<Longrightarrow> of_char (digit_char d) = (48 + d :: nat)"
  by (simp add: digit_char_def)

lemma is_digit_digit_char: "d < 10 \<Longrightarrow> is_digit_char (digit_char d)"
  by (simp add: is_digit_char_def less_eq_char_def of_char_digit)

lemma digit_char_inject: "a < 10 \<Longrightarrow> b < 10 \<Longrightarrow> digit_char a = digit_char b \<longleftrightarrow> a = b"
  by (metis add_left_cancel of_char_digit)

lemma nat_str_nonempty [simp]: "nat_str n \<noteq> []" "[] \<noteq> nat_str n"
  by (subst nat_str.simps, simp)+

lemma nat_str_digits: "list_all is_digit_char (nat_str n)"
proof (induction n rule: nat_str.induct)
  case (1 n)
  then show ?case
    by (subst nat_str.simps) (auto simp: is_digit_digit_char)
qed

lemma py_isdigit_nat_str [simp]: "py_isdigit (nat_str n)"
  by (simp add: py_isdigit_def nat_str_digits)

lemma nat_str_step: "\<not> n < 10 \<Longrightarrow> nat_str n = nat_str (n div 10) @ [digit_char (n mod 10)]"
  by (subst nat_str.simps) simp

lemma nat_str_small: "n < 10 \<Longrightarrow> nat_str n = [digit_char n]"
  by (subst nat_str.simps) simp

lemma nat_str_inject: "nat_str m = nat_str n \<longleftrightarrow> m = n"
proof
  assume "nat_str m = nat_str n"
  then show "m = n"
  proof (induction m arbitrary: n rule: nat_str.induct)
    case (1 m)
    show ?case
    proof (cases "m < 10"; cases "n < 10")
      assume "m < 10" "n < 10"
      with "1.prems" show ?thesis by (simp add: nat_str_small digit_char_inject)
    next
      assume "m < 10" "\<not> n < 10"
      with "1.prems" show ?thesis by (simp add: nat_str_small nat_str_step)
    next
      assume "\<not> m < 10" "n < 10"
      with "1.prems" show ?thesis by (simp add: nat_str_small nat_str_step)
    next
      assume big: "\<not> m < 10" "\<not> n < 10"
      with "1.prems" have "nat_str (m div 10) = nat_str (n div 10)"
        and "digit_char (m mod 10) = digit_char (n mod 10)"
        by (simp_all add: nat_str_step)
      with big "1.IH" have "m div 10 = n div 10" and "m mod 10 = n mod 10"
        by (simp_all add: digit_char_inject)
      then show ?thesis by (metis div_mult_mod_eq)
    qed
  qed
qed simp

text \<open>\<^verbatim>\<open>int(s)\<close>, and the integer casts of SQL: blanks around, a sign, digits (no underscores).\<close>

definition digits_value :: "string \<Rightarrow> nat" where
  "digits_value s = foldl (\<lambda>v c. 10 * v + (of_char c - 48)) 0 s"

definition int_of_str :: "string \<Rightarrow> int option" where
  "int_of_str s =
     (case py_strip s of
        [] \<Rightarrow> None
      | c # cs \<Rightarrow>
          if c = CHR ''-'' then (if py_isdigit cs then Some (- int (digits_value cs)) else None)
          else if c = CHR ''+'' then (if py_isdigit cs then Some (int (digits_value cs)) else None)
          else if py_isdigit (c # cs) then Some (int (digits_value (c # cs))) else None)"

lemma digits_value_snoc: "digits_value (s @ [c]) = 10 * digits_value s + (of_char c - 48)"
  by (simp add: digits_value_def)

lemma digits_value_nat_str [simp]: "digits_value (nat_str n) = n"
proof (induction n rule: nat_str.induct)
  case (1 n)
  show ?case
  proof (cases "n < 10")
    case True
    then show ?thesis using digits_value_snoc[of "[]"]
      by (simp add: nat_str_small of_char_digit digits_value_def)
  next
    case False
    with 1 have "digits_value (nat_str (n div 10)) = n div 10" by simp
    with False show ?thesis by (simp add: nat_str_step digits_value_snoc of_char_digit)
  qed
qed

lemma strip_no_space: "list_all (\<lambda>c. \<not> is_space_char c) s \<Longrightarrow> py_strip s = s"
proof -
  have keep: "dropWhile is_space_char xs = xs" if "list_all (\<lambda>c. \<not> is_space_char c) xs" for xs :: string
    using that by (cases xs) auto
  assume "list_all (\<lambda>c. \<not> is_space_char c) s"
  then show ?thesis using keep[of s] keep[of "rev s"] by (simp add: py_strip_def)
qed

lemma digit_not_space: "is_digit_char c \<Longrightarrow> \<not> is_space_char c \<and> c \<noteq> CHR ''-'' \<and> c \<noteq> CHR ''+''"
  by (auto simp: is_digit_char_def is_space_char_def less_eq_char_def Let_def)

lemma int_of_str_int_str [simp]: "int_of_str (int_str i) = Some i"
proof -
  have ns: "list_all (\<lambda>c. \<not> is_space_char c) (nat_str n)" for n
    using nat_str_digits[of n] digit_not_space by (auto simp: list_all_iff)
  obtain c cs where n: "nat_str (nat i) = c # cs" by (cases "nat_str (nat i)") auto
  then have "is_digit_char c" using nat_str_digits[of "nat i"] by simp
  with n ns[of "nat i"] digit_not_space[of c] have pos: "int_of_str (nat_str (nat i)) = Some (int (nat i))"
    using py_isdigit_nat_str[of "nat i"] digits_value_nat_str[of "nat i"]
    by (simp add: int_of_str_def strip_no_space)
  have "\<not> is_space_char CHR ''-''" by (simp add: is_space_char_def)
  with ns[of "nat (- i)"] have neg: "int_of_str (CHR ''-'' # nat_str (nat (- i))) = Some (- int (nat (- i)))"
    by (simp add: int_of_str_def strip_no_space)
  show ?thesis using pos neg by (simp add: int_str_def)
qed

subsection \<open>The last occurrence of a separator\<close>

text \<open>\<^verbatim>\<open>s.rpartition(sep)\<close>, as the pair before and after the last occurrence of a non-empty separator.\<close>

fun rpartition :: "string \<Rightarrow> string \<Rightarrow> (string \<times> string) option" where
  "rpartition sep [] = None"
| "rpartition sep (x # xs) =
     (case rpartition sep xs of
        Some (b, a) \<Rightarrow> Some (x # b, a)
      | None \<Rightarrow> (if starts_with sep (x # xs) then Some ([], drop (length sep) (x # xs)) else None))"

lemma rpartition_Some: "rpartition sep s = Some (b, a) \<Longrightarrow> s = b @ sep @ a"
proof (induction s arbitrary: b a)
  case (Cons x xs)
  then show ?case
    by (auto simp: starts_with_iff split: option.splits if_splits)
qed simp

lemma rpartition_append:
  assumes "sep \<noteq> []" and "rpartition sep (tl (sep @ a)) = None"
  shows "rpartition sep (b @ sep @ a) = Some (b, a)"
proof (induction b)
  case Nil
  from assms obtain x xs where sep: "sep = x # xs" by (cases sep) auto
  with assms have "rpartition sep (xs @ a) = None" by simp
  with sep show ?case by (simp add: starts_with_def)
qed simp

lemma rpartition_None_no_hd: "sep = c # r \<Longrightarrow> c \<notin> set s \<Longrightarrow> rpartition sep s = None"
  by (induction s) (auto simp: starts_with_def)

section \<open>Sorted sets and tables with a primary key\<close>

text \<open>\<^verbatim>\<open>sorted(set(xs))\<close>\<close>

definition sorted_set :: "'a::linorder list \<Rightarrow> 'a list" where
  "sorted_set xs = sort (remdups xs)"

lemma set_sorted_set [simp]: "set (sorted_set xs) = set xs"
  by (simp add: sorted_set_def)

lemma distinct_sorted_set [simp]: "distinct (sorted_set xs)"
  by (simp add: sorted_set_def)

lemma sorted_sorted_set [simp]: "sorted (sorted_set xs)"
  by (simp add: sorted_set_def)

lemma sorted_set_eq_iff: "sorted_set xs = sorted_set ys \<longleftrightarrow> set xs = set ys"
proof
  assume "set xs = set ys"
  then have "set (sorted_set xs) = set (sorted_set ys)" by simp
  then show "sorted_set xs = sorted_set ys"
    by (metis distinct_sorted_set sorted_distinct_set_unique sorted_sorted_set)
qed (metis set_sorted_set)

lemma map_of_filter_key:
  "map_of (filter (\<lambda>(k, v). P k) al) k = (if P k then map_of al k else None)"
  by (induction al) auto

lemma map_of_filter_fst:
  "map_of (filter (\<lambda>kr. P (fst kr)) al) k = (if P k then map_of al k else None)"
  by (induction al) auto

lemma keys_filter_fst: "fst ` set (filter (\<lambda>kr. P (fst kr)) al) = {k \<in> fst ` set al. P k}"
  by force

lemma distinct_keys_filter: "distinct (map fst al) \<Longrightarrow> distinct (map fst (filter P al))"
  by (induction al) auto

lemma map_of_alist_update [simp]: "map_of (AList.update k v al) = (map_of al)(k \<mapsto> v)"
  by (rule update_conv')

lemma distinct_keys_update [simp]:
  "distinct (map fst al) \<Longrightarrow> distinct (map fst (AList.update k v al))"
  by (rule distinct_update)

section \<open>Guarded state machines\<close>

text \<open>
  A component whose every operation either raises and leaves its state alone or returns the
  next state.  \<open>run_steps\<close> feeds it a list of requests and stops at the first refusal.  The
  locale states the contract the state machines of the control plane keep (an invariant every
  accepted request preserves, a measure it never lowers), and derives it for whole runs.
\<close>

fun run_steps :: "('s \<Rightarrow> 'e \<Rightarrow> 's result) \<Rightarrow> 's \<Rightarrow> 'e list \<Rightarrow> 's result" where
  "run_steps step s [] = Inr s"
| "run_steps step s (e # es) = rbind (step s e) (\<lambda>t. run_steps step t es)"

lemma run_steps_append:
  "run_steps step s (xs @ ys) = rbind (run_steps step s xs) (\<lambda>t. run_steps step t ys)"
proof (induction xs arbitrary: s)
  case (Cons x xs)
  then show ?case by (cases "step s x") auto
qed simp

lemma run_steps_snoc_Inr:
  "run_steps step s (xs @ [x]) = Inr u \<longleftrightarrow> (\<exists>t. run_steps step s xs = Inr t \<and> step t x = Inr u)"
  by (simp add: run_steps_append rbind_Inr_iff)

locale guarded_machine =
  fixes step :: "'s \<Rightarrow> 'e \<Rightarrow> 's result"
    and inv :: "'s \<Rightarrow> bool"
    and rank :: "'s \<Rightarrow> int"
  assumes step_inv: "inv s \<Longrightarrow> step s e = Inr t \<Longrightarrow> inv t"
    and step_rank: "inv s \<Longrightarrow> step s e = Inr t \<Longrightarrow> rank s \<le> rank t"
begin

lemma run_inv: "inv s \<Longrightarrow> run_steps step s es = Inr t \<Longrightarrow> inv t"
proof (induction es arbitrary: s)
  case (Cons e es)
  then show ?case by (auto simp: rbind_Inr_iff intro: step_inv)
qed simp

lemma run_rank: "inv s \<Longrightarrow> run_steps step s es = Inr t \<Longrightarrow> rank s \<le> rank t"
proof (induction es arbitrary: s)
  case (Cons e es)
  then obtain u where u: "step s e = Inr u" "run_steps step u es = Inr t"
    by (auto simp: rbind_Inr_iff)
  from Cons.prems(1) u(1) have "inv u" "rank s \<le> rank u"
    by (rule step_inv, rule step_rank)
  with u(2) Cons.IH show ?case by fastforce
qed simp

lemma run_rank_strict:
  assumes "inv s" and "run_steps step s (xs @ e # ys) = Inr t"
    and "\<And>u v. inv u \<Longrightarrow> step u e = Inr v \<Longrightarrow> rank u < rank v"
  shows "rank s < rank t"
proof -
  from assms(2) obtain u v where uv: "run_steps step s xs = Inr u" "step u e = Inr v"
      "run_steps step v ys = Inr t"
    by (auto simp: run_steps_append rbind_Inr_iff)
  from assms(1) uv(1) have "inv u" "rank s \<le> rank u" by (rule run_inv, rule run_rank)
  moreover from this uv(2) have "rank u < rank v" "inv v" using assms(3) step_inv by blast+
  moreover from this uv(3) have "rank v \<le> rank t" using run_rank by blast
  ultimately show ?thesis by linarith
qed

end

end
