(* ===== verification/Secrets.thy ===== *)
theory Secrets
  imports Prelude
begin

text \<open>
  Secret references, \<^verbatim>\<open>src/controlplane/secrets.py\<close>: which environment variable or file a source
  may take its database password from.  The process environment, the file system
  (\<^verbatim>\<open>os.path.realpath\<close>, reading a file) and the operator's own allow-list pattern are the fields
  of \<open>os_env\<close>.  The regular expressions are the recognisers \<open>match_env\<close> and \<open>match_file\<close>;
  \<^verbatim>\<open>$\<close> in \<^verbatim>\<open>re.match\<close> also matches before a final newline, which they keep.

  Shown: an accepted unshared reference of a source is bound to that source; the binding is
  injective on ids without adjacent separators, and is not injective in general.
\<close>

record os_env =
  e_vars :: "string \<Rightarrow> string option"
  e_fullmatch :: "string \<Rightarrow> string \<Rightarrow> bool"
  e_realpath :: "string \<Rightarrow> string"
  e_read_lines :: "string \<Rightarrow> string list option"

definition getenv :: "os_env \<Rightarrow> string \<Rightarrow> string \<Rightarrow> string" where
  "getenv env name d = (case e_vars env name of None \<Rightarrow> d | Some v \<Rightarrow> v)"

section \<open>Recognisers\<close>

definition is_word_char :: "char \<Rightarrow> bool" where
  "is_word_char c \<longleftrightarrow> is_alpha_char c \<or> is_digit_char c \<or> c = CHR ''_''"

text \<open>The text a pattern ending in \<^verbatim>\<open>$\<close> has to cover: one final newline may be left out.\<close>

definition chomp :: "string \<Rightarrow> string" where
  "chomp s = (if s \<noteq> [] \<and> last s = newline_char then butlast s else s)"

definition env_name_ok :: "string \<Rightarrow> bool" where
  "env_name_ok n \<longleftrightarrow> (case n of [] \<Rightarrow> False
     | c # cs \<Rightarrow> (is_alpha_char c \<or> c = CHR ''_'') \<and> list_all is_word_char cs)"

definition match_env :: "string \<Rightarrow> string option" where
  "match_env s =
     (if starts_with ''env:'' s \<and> env_name_ok (chomp (drop 4 s)) then Some (chomp (drop 4 s)) else None)"

definition is_key_char :: "char \<Rightarrow> bool" where
  "is_key_char c \<longleftrightarrow> is_word_char c \<or> c = CHR ''.'' \<or> c = CHR ''-''"

definition match_file :: "string \<Rightarrow> (string \<times> string) option" where
  "match_file s =
     (if starts_with ''file:'' s then
        (let rest = drop 5 s;
             path = takeWhile (\<lambda>c. c \<noteq> CHR '':'') rest;
             tail = dropWhile (\<lambda>c. c \<noteq> CHR '':'') rest
         in if starts_with ''/'' path \<and> 2 \<le> length path \<and> tail \<noteq> [] \<and>
               chomp (tl tail) \<noteq> [] \<and> list_all is_key_char (chomp (tl tail))
            then Some (path, chomp (tl tail)) else None)
      else None)"

section \<open>What a source may reference\<close>

definition default_env_allowed :: "string \<Rightarrow> bool" where
  "default_env_allowed name \<longleftrightarrow>
     starts_with ''FBI_SRC_'' name \<and> drop 8 name \<noteq> [] \<and> list_all is_word_char (drop 8 name)"

definition env_allowed :: "os_env \<Rightarrow> string \<Rightarrow> bool" where
  "env_allowed env name = (case e_vars env ''FBI_SECRET_ENV_ALLOWLIST'' of
      None \<Rightarrow> default_env_allowed name
    | Some pattern \<Rightarrow> e_fullmatch env pattern name)"

definition bound_env_name :: "string \<Rightarrow> string" where
  "bound_env_name source_id =
     ''FBI_SRC_'' @ replace_char CHR ''-'' ''_'' (replace_char CHR ''_'' ''__'' (py_upper source_id))
       @ ''_PASSWORD''"

definition shared_ref :: "os_env \<Rightarrow> string \<Rightarrow> bool" where
  "shared_ref env secret_ref \<longleftrightarrow>
     secret_ref \<in> set (filter (\<lambda>r. r \<noteq> [])
       (map py_strip (split_char CHR '','' (getenv env ''FBI_SHARED_SECRET_REFS'' []))))"

text \<open>\<^verbatim>\<open>os.path.commonpath\<close> of two absolute paths and \<^verbatim>\<open>os.path.join\<close>, as in \<^verbatim>\<open>posixpath\<close>.\<close>

definition path_parts :: "string \<Rightarrow> string list" where
  "path_parts p = filter (\<lambda>w. w \<noteq> [] \<and> w \<noteq> ''.'') (split_char CHR ''/'' p)"

fun common_prefix :: "'a list \<Rightarrow> 'a list \<Rightarrow> 'a list" where
  "common_prefix (x # xs) (y # ys) = (if x = y then x # common_prefix xs ys else [])"
| "common_prefix _ _ = []"

definition commonpath :: "string \<Rightarrow> string \<Rightarrow> string" where
  "commonpath a b = ''/'' @ py_join ''/'' (common_prefix (path_parts a) (path_parts b))"

definition path_join :: "string \<Rightarrow> string \<Rightarrow> string" where
  "path_join a b =
     (if starts_with ''/'' b then b
      else if a = [] \<or> last a = CHR ''/'' then a @ b else a @ ''/'' @ b)"

definition under :: "os_env \<Rightarrow> string \<Rightarrow> string \<Rightarrow> bool" where
  "under env base path \<longleftrightarrow>
     (let real_base = e_realpath env base in commonpath real_base (e_realpath env path) = real_base)"

definition before_colon :: "string \<Rightarrow> string" where
  "before_colon s = takeWhile (\<lambda>c. c \<noteq> CHR '':'') s"

definition check_reference :: "os_env \<Rightarrow> string option \<Rightarrow> string \<Rightarrow> unit result" where
  "check_reference env secret_ref source_id = (case secret_ref of
      None \<Rightarrow> Inl (SecretError ''No secret_ref configured for this source'')
    | Some ref \<Rightarrow>
      if ref = [] then Inl (SecretError ''No secret_ref configured for this source'') else
      let shared = shared_ref env ref in
      (case match_env ref of
         Some name \<Rightarrow>
           if \<not> env_allowed env name then
             Inl (SecretError (''Environment variable '' @ name @ '' is not allowed in a secret_ref ''
               @ ''(see FBI_SECRET_ENV_ALLOWLIST; source credentials should use the FBI_SRC_ prefix)''))
           else if \<not> shared \<and> name \<noteq> bound_env_name source_id then
             Inl (SecretError (''Source '' @ source_id @ '' may only use env:'' @ bound_env_name source_id
               @ '' (each secret is bound to its own source; see FBI_SHARED_SECRET_REFS for development)''))
           else Inr ()
       | None \<Rightarrow>
         (case match_file ref of
            Some (path, key) \<Rightarrow>
              (let base = getenv env ''FBI_SECRET_DIR'' [] in
               if base = [] \<or> \<not> under env base path then
                 Inl (SecretError (''Secret file '' @ path
                   @ '' is outside FBI_SECRET_DIR or FBI_SECRET_DIR is not set''))
               else if \<not> shared \<and> \<not> under env (path_join base source_id) path then
                 Inl (SecretError (''Source '' @ source_id
                   @ '' may only read secret files below FBI_SECRET_DIR/'' @ source_id @ ''/''))
               else Inr ())
          | None \<Rightarrow>
              Inl (SecretError (''Unsupported secret_ref format: '' @ before_colon ref
                @ '':... (use env: or file:)'')))))"

text \<open>\<^verbatim>\<open>stripped.split("=", 1)\<close> on a line that contains \<^verbatim>\<open>=\<close>.\<close>

definition split_assignment :: "string \<Rightarrow> string \<times> string" where
  "split_assignment l =
     (takeWhile (\<lambda>c. c \<noteq> CHR ''='') l, tl (dropWhile (\<lambda>c. c \<noteq> CHR ''='') l))"

fun find_key :: "string \<Rightarrow> string list \<Rightarrow> string option" where
  "find_key key [] = None"
| "find_key key (line # lines) =
     (let stripped = py_strip line in
      if stripped = [] \<or> starts_with ''#'' stripped \<or> CHR ''='' \<notin> set stripped then find_key key lines
      else (let (k, v) = split_assignment stripped in
            if py_strip k = key then Some (py_strip v) else find_key key lines))"

definition resolve :: "os_env \<Rightarrow> string option \<Rightarrow> string \<Rightarrow> string result" where
  "resolve env secret_ref source_id =
     rbind (check_reference env secret_ref source_id) (\<lambda>_.
     case match_env (the secret_ref) of
       Some name \<Rightarrow>
         (case e_vars env name of
            None \<Rightarrow> Inl (SecretError (''Environment variable '' @ name @ '' referenced by secret_ref is not set''))
          | Some value \<Rightarrow> Inr value)
     | None \<Rightarrow>
         (let (path, key) = the (match_file (the secret_ref)) in
          case e_read_lines env (e_realpath env path) of
            None \<Rightarrow> Inl (RuntimeError (''cannot open '' @ e_realpath env path))
          | Some lines \<Rightarrow>
              (case find_key key lines of
                 Some v \<Rightarrow> Inr v
               | None \<Rightarrow> Inl (SecretError (''Key '' @ key @ '' not found in '' @ path)))))"

definition connect_placeholder :: "os_env \<Rightarrow> string option \<Rightarrow> string \<Rightarrow> string result" where
  "connect_placeholder env secret_ref source_id =
     rbind (check_reference env secret_ref source_id) (\<lambda>_.
     case match_env (the secret_ref) of
       Some name \<Rightarrow> Inr (''${env:'' @ name @ ''}'')
     | None \<Rightarrow>
         (let (path, key) = the (match_file (the secret_ref)) in
          Inr (''${file:'' @ e_realpath env path @ '':'' @ key @ ''}'')))"

section \<open>Accepted references\<close>

lemma check_reference_Inr:
  assumes "check_reference env secret_ref source_id = Inr ()"
  obtains (env_ref) ref name where "secret_ref = Some ref" "match_env ref = Some name" "env_allowed env name"
      "\<not> shared_ref env ref \<Longrightarrow> name = bound_env_name source_id"
  | (file_ref) ref path key base where "secret_ref = Some ref" "match_env ref = None"
      "match_file ref = Some (path, key)" "base = getenv env ''FBI_SECRET_DIR'' []" "base \<noteq> []"
      "under env base path" "\<not> shared_ref env ref \<Longrightarrow> under env (path_join base source_id) path"
  using assms
  by (auto simp: check_reference_def Let_def split: option.splits if_splits intro: that)

lemma check_reference_errors:
  "check_reference env secret_ref source_id = Inl e \<Longrightarrow> \<exists>msg. e = SecretError msg"
  by (auto simp: check_reference_def Let_def split: option.splits if_splits)

section \<open>The name a source is bound to\<close>

definition is_source_char :: "char \<Rightarrow> bool" where
  "is_source_char c \<longleftrightarrow> is_lower_char c \<or> is_digit_char c \<or> c = CHR ''_'' \<or> c = CHR ''-''"

definition is_separator :: "char \<Rightarrow> bool" where
  "is_separator c \<longleftrightarrow> c = CHR ''_'' \<or> c = CHR ''-''"

text \<open>No two separators side by side.\<close>

fun simple_separators :: "string \<Rightarrow> bool" where
  "simple_separators (a # b # s) = (\<not> (is_separator a \<and> is_separator b) \<and> simple_separators (b # s))"
| "simple_separators s = True"

text \<open>What the three string operations of \<^verbatim>\<open>bound_env_name\<close> do to one character.\<close>

definition env_code :: "char \<Rightarrow> string" where
  "env_code c = (if c = CHR ''_'' then ''__'' else if c = CHR ''-'' then ''_'' else [to_upper_char c])"

lemma char_range_cases:
  "is_lower_char c \<longleftrightarrow> (97 \<le> (of_char c :: nat) \<and> of_char c \<le> (122 :: nat))"
  "is_upper_char c \<longleftrightarrow> (65 \<le> (of_char c :: nat) \<and> of_char c \<le> (90 :: nat))"
  "is_digit_char c \<longleftrightarrow> (48 \<le> (of_char c :: nat) \<and> of_char c \<le> (57 :: nat))"
  by (simp_all add: is_lower_char_def is_upper_char_def is_digit_char_def less_eq_char_def)

lemma of_char_to_upper:
  "of_char (to_upper_char c) = (if is_lower_char c then of_char c - 32 else of_char c :: nat)"
proof (cases "is_lower_char c")
  case True
  then have "of_char c \<le> (122 :: nat)" by (simp add: char_range_cases)
  then have "of_char (char_of (of_char c - 32 :: nat)) = (of_char c - 32 :: nat)"
    by (simp add: of_char_of)
  with True show ?thesis by (simp add: to_upper_char_def)
qed (simp add: to_upper_char_def)

lemma to_upper_not_separator:
  assumes "is_source_char c" "\<not> is_separator c"
  shows "\<not> is_separator (to_upper_char c)"
proof
  assume "is_separator (to_upper_char c)"
  then have "of_char (to_upper_char c) = (95 :: nat) \<or> of_char (to_upper_char c) = (45 :: nat)"
    by (auto simp: is_separator_def)
  with assms(1) have "c = to_upper_char c"
    unfolding of_char_to_upper is_source_char_def char_range_cases
    by (auto simp: to_upper_char_def char_range_cases split: if_splits)
  with \<open>is_separator (to_upper_char c)\<close> assms(2) show False by simp
qed

lemma to_upper_inj:
  assumes "is_source_char c" "\<not> is_separator c" "is_source_char d" "\<not> is_separator d"
    and eq: "to_upper_char c = to_upper_char d"
  shows "c = d"
proof -
  define m n where mn: "m = (of_char c :: nat)" "n = (of_char d :: nat)"
  from eq have "of_char (to_upper_char c) = (of_char (to_upper_char d) :: nat)" by simp
  with assms(1-4) have "m = n"
    unfolding of_char_to_upper is_source_char_def is_separator_def char_range_cases mn[symmetric]
    by (auto split: if_splits)
  then show ?thesis by (simp add: mn)
qed

lemma to_upper_separator [simp]: "to_upper_char CHR ''_'' = CHR ''_''" "to_upper_char CHR ''-'' = CHR ''-''"
  by (simp_all add: to_upper_char_def is_lower_char_def less_eq_char_def)

lemma bound_env_name_code:
  "list_all is_source_char s \<Longrightarrow>
   bound_env_name s = ''FBI_SRC_'' @ concat (map env_code s) @ ''_PASSWORD''"
proof -
  have "replace_char CHR ''-'' ''_'' (replace_char CHR ''_'' ''__'' (py_upper s)) = concat (map env_code s)"
    if "list_all is_source_char s"
    using that
  proof (induction s)
    case (Cons c s)
    have "to_upper_char c = CHR ''_'' \<longleftrightarrow> c = CHR ''_''" "to_upper_char c = CHR ''-'' \<longleftrightarrow> c = CHR ''-''"
      using to_upper_not_separator[of c] Cons.prems by (cases "is_separator c"; force simp: is_separator_def)+
    with Cons show ?case by (auto simp: replace_char_def py_upper_def env_code_def)
  qed (simp add: replace_char_def py_upper_def)
  then show "list_all is_source_char s \<Longrightarrow> ?thesis" by (simp add: bound_env_name_def)
qed

lemma env_code_nonempty [simp]: "env_code c \<noteq> []"
  by (simp add: env_code_def)

lemma env_code_separator: "env_code CHR ''_'' = ''__''" "env_code CHR ''-'' = ''_''"
  by (simp_all add: env_code_def)

lemma env_code_plain:
  "is_source_char c \<Longrightarrow> \<not> is_separator c \<Longrightarrow> env_code c = [to_upper_char c]"
  by (auto simp: env_code_def is_separator_def)

lemma env_code_not_underscore:
  assumes "list_all is_source_char s" "simple_separators (x # s)" "is_separator x"
    "concat (map env_code s) = CHR ''_'' # r"
  shows False
proof (cases s)
  case (Cons c s')
  with assms have "is_source_char c" "\<not> is_separator c" by auto
  with to_upper_not_separator[of c] assms(4) Cons show ?thesis
    by (auto simp: env_code_plain is_separator_def)
qed (use assms in simp)

lemma simple_separators_tl: "simple_separators (x # s) \<Longrightarrow> simple_separators s"
  by (cases s) auto

lemma env_code_inj:
  assumes "list_all is_source_char s" "list_all is_source_char t"
    "simple_separators s" "simple_separators t"
    "concat (map env_code s) = concat (map env_code t)"
  shows "s = t"
  using assms
proof (induction s arbitrary: t)
  case Nil
  then show ?case by (cases t) simp_all
next
  case (Cons x s)
  from Cons.prems(5) obtain y u where t: "t = y # u"
    by (cases t) simp_all
  note prems = Cons.prems[unfolded t]
  have IH: "concat (map env_code s) = concat (map env_code u) \<Longrightarrow> s = u"
    using Cons.IH[of u] prems by (auto dest: simple_separators_tl)
  have src: "is_source_char x" "is_source_char y" using prems by auto
  show ?case
  proof (cases "is_separator x \<and> is_separator y")
    case True
    then consider "x = y" | "x = CHR ''_''" "y = CHR ''-''" | "x = CHR ''-''" "y = CHR ''_''"
      by (auto simp: is_separator_def)
    then show ?thesis
    proof cases
      case 1
      with prems(5) IH t show ?thesis by simp
    next
      case 2
      with prems(5) have "concat (map env_code u) = CHR ''_'' # concat (map env_code s)"
        by (simp add: env_code_separator)
      with env_code_not_underscore[of u y] prems 2 show ?thesis by (auto simp: is_separator_def)
    next
      case 3
      with prems(5) have "concat (map env_code s) = CHR ''_'' # concat (map env_code u)"
        by (simp add: env_code_separator)
      with env_code_not_underscore[of s x] prems 3 show ?thesis by (auto simp: is_separator_def)
    qed
  next
    case False
    have hd: "hd (env_code c) = CHR ''_'' \<longleftrightarrow> is_separator c" if "is_source_char c" for c
      using to_upper_not_separator[OF that] by (auto simp: env_code_def is_separator_def)
    have ne: "env_code c \<noteq> []" for c by (simp add: env_code_def)
    from prems(5) have "hd (env_code x) = hd (env_code y)"
      by (metis concat.simps(2) hd_append2 list.map(2) ne)
    with False hd src have "\<not> is_separator x" "\<not> is_separator y" by metis+
    with src prems(5) have "to_upper_char x = to_upper_char y"
      "concat (map env_code s) = concat (map env_code u)"
      by (simp_all add: env_code_plain)
    with to_upper_inj[OF src(1) \<open>\<not> is_separator x\<close> src(2) \<open>\<not> is_separator y\<close>] IH t
    show ?thesis by simp
  qed
qed

lemma bound_env_name_inj:
  assumes "list_all is_source_char s" "list_all is_source_char t"
    "simple_separators s" "simple_separators t" "bound_env_name s = bound_env_name t"
  shows "s = t"
  using assms by (auto simp: bound_env_name_code intro: env_code_inj)

text \<open>
  Credential isolation.  If the same unshared \<^verbatim>\<open>env:\<close> reference is accepted for two sources
  whose ids use the registry's alphabet and have no two adjacent separators, the two are the
  same source: the operator's environment gives each such source a variable of its own.
\<close>

theorem env_secret_bound_to_one_source:
  assumes "check_reference env (Some ref) s = Inr ()" and "check_reference env (Some ref) t = Inr ()"
    and "match_env ref \<noteq> None" and "\<not> shared_ref env ref"
    and "list_all is_source_char s" and "list_all is_source_char t"
    and "simple_separators s" and "simple_separators t"
  shows "s = t"
proof -
  have "the (match_env ref) = bound_env_name s" using assms(1,3,4)
    by (cases rule: check_reference_Inr) auto
  moreover have "the (match_env ref) = bound_env_name t" using assms(2,3,4)
    by (cases rule: check_reference_Inr) auto
  ultimately show ?thesis using bound_env_name_inj assms(5-8) by simp
qed

text \<open>
  The binding is not injective on all valid ids: \<^verbatim>\<open>bank--a\<close> and \<^verbatim>\<open>bank_a\<close> share the variable
  \<^verbatim>\<open>FBI_SRC_BANK__A_PASSWORD\<close>, so in every environment that has the default allow-list an
  unshared reference to it is accepted for both sources.
\<close>

theorem env_secret_collision:
  fixes env :: os_env
  assumes "e_vars env ''FBI_SECRET_ENV_ALLOWLIST'' = None"
  shows "check_reference env (Some ''env:FBI_SRC_BANK__A_PASSWORD'') ''bank--a'' = Inr () \<and>
    check_reference env (Some ''env:FBI_SRC_BANK__A_PASSWORD'') ''bank_a'' = Inr () \<and>
    list_all is_source_char ''bank--a'' \<and> list_all is_source_char ''bank_a''"
proof -
  have names: "bound_env_name ''bank--a'' = ''FBI_SRC_BANK__A_PASSWORD''"
    "bound_env_name ''bank_a'' = ''FBI_SRC_BANK__A_PASSWORD''"
    by code_simp+
  have "match_env ''env:FBI_SRC_BANK__A_PASSWORD'' = Some ''FBI_SRC_BANK__A_PASSWORD''" by code_simp
  moreover have "default_env_allowed ''FBI_SRC_BANK__A_PASSWORD''" by code_simp
  moreover have "list_all is_source_char ''bank--a''" "list_all is_source_char ''bank_a''" by code_simp+
  ultimately show ?thesis using assms names
    by (simp add: check_reference_def env_allowed_def Let_def)
qed

text \<open>
  No secret without its check.  \<^verbatim>\<open>resolve\<close> returns a value only for a reference that
  \<^verbatim>\<open>check_reference\<close> accepts, and then from the place the reference names: the environment
  variable, or the first assignment to the key in a file under \<^verbatim>\<open>FBI_SECRET_DIR\<close>; the placeholder
  given to Kafka Connect names the same place and never the value.
\<close>

theorem resolve_only_accepted:
  assumes "resolve env (Some ref) source_id = Inr value"
  shows "check_reference env (Some ref) source_id = Inr () \<and>
    (case match_env ref of
       Some name \<Rightarrow> env_allowed env name \<and> e_vars env name = Some value \<and>
         connect_placeholder env (Some ref) source_id = Inr (''${env:'' @ name @ ''}'')
     | None \<Rightarrow> \<exists>path key lines. match_file ref = Some (path, key) \<and>
         under env (getenv env ''FBI_SECRET_DIR'' []) path \<and>
         e_read_lines env (e_realpath env path) = Some lines \<and> find_key key lines = Some value \<and>
         connect_placeholder env (Some ref) source_id =
           Inr (''${file:'' @ e_realpath env path @ '':'' @ key @ ''}''))"
proof -
  from assms have ok: "check_reference env (Some ref) source_id = Inr ()"
    by (simp add: resolve_def rbind_Inr_iff)
  from ok show ?thesis
  proof (cases rule: check_reference_Inr)
    case (env_ref r name)
    with assms ok show ?thesis
      by (auto simp: resolve_def connect_placeholder_def rbind_Inr_iff split: option.splits)
  next
    case (file_ref r path key base)
    with assms ok show ?thesis
      by (auto simp: resolve_def connect_placeholder_def rbind_Inr_iff split: option.splits)
  qed
qed

section \<open>Instances\<close>

definition demo_env :: os_env where
  "demo_env = \<lparr>e_vars = (\<lambda>n. if n = ''FBI_SRC_BANK_A_PASSWORD'' then Some ''pw'' else None),
     e_fullmatch = (\<lambda>p n. False), e_realpath = (\<lambda>p. p), e_read_lines = (\<lambda>p. None)\<rparr>"

lemma demo_names:
  "match_env ''env:FBI_SRC_BANK_A_PASSWORD'' = Some ''FBI_SRC_BANK_A_PASSWORD''"
  "default_env_allowed ''FBI_SRC_BANK_A_PASSWORD''"
  "bound_env_name ''bank-a'' = ''FBI_SRC_BANK_A_PASSWORD''"
  by code_simp+

lemma demo_reference:
  "check_reference demo_env (Some ''env:FBI_SRC_BANK_A_PASSWORD'') ''bank-a'' = Inr ()"
  "shared_ref demo_env ''env:FBI_SRC_BANK_A_PASSWORD'' = False"
  "resolve demo_env (Some ''env:FBI_SRC_BANK_A_PASSWORD'') ''bank-a'' = Inr ''pw''"
  by (simp_all add: check_reference_def resolve_def shared_ref_def getenv_def demo_env_def demo_names
      env_allowed_def py_strip_def)

theorem env_secret_bound_to_one_source_witness:
  "check_reference demo_env (Some ''env:FBI_SRC_BANK_A_PASSWORD'') ''bank_a'' \<noteq> Inr ()"
proof
  assume other: "check_reference demo_env (Some ''env:FBI_SRC_BANK_A_PASSWORD'') ''bank_a'' = Inr ()"
  have "''bank-a'' = ''bank_a''"
  proof (rule env_secret_bound_to_one_source[OF demo_reference(1) other])
    show "match_env ''env:FBI_SRC_BANK_A_PASSWORD'' \<noteq> None" by (simp add: demo_names)
    show "\<not> shared_ref demo_env ''env:FBI_SRC_BANK_A_PASSWORD''" by (simp add: demo_reference(2))
  qed code_simp+
  then show False by simp
qed

theorem env_secret_collision_witness:
  "check_reference demo_env (Some ''env:FBI_SRC_BANK__A_PASSWORD'') ''bank--a'' = Inr () \<and>
   check_reference demo_env (Some ''env:FBI_SRC_BANK__A_PASSWORD'') ''bank_a'' = Inr ()"
  using env_secret_collision[of demo_env] by (simp add: demo_env_def)

theorem resolve_only_accepted_witness:
  "connect_placeholder demo_env (Some ''env:FBI_SRC_BANK_A_PASSWORD'') ''bank-a'' =
     Inr ''${env:FBI_SRC_BANK_A_PASSWORD}''"
proof -
  from resolve_only_accepted[OF demo_reference(3)] show ?thesis by (simp add: demo_names)
qed

end
