(* ===== verification/Registry.thy ===== *)
theory Registry
  imports Secrets
begin

text \<open>
  Source records, \<^verbatim>\<open>src/controlplane/registry.py\<close> without its database operations (those are in
  \<open>Registry_Store\<close>): the record, its validation, the lifecycle table, and the names derived from a
  source (connector, replication slot) with the parser that recovers the source from a
  connector's name.

  Shown: the connector name round trip, that the parser accepts only names built that way, that
  slot names identify the normalised source and its generation, that lifecycle states
  are closed, that \<^verbatim>\<open>RETIRED\<close> is terminal and reachable from every state, and that the id check
  lets a final newline through.
\<close>

section \<open>Records\<close>

datatype label = LText string | LBool bool

fun label_truthy :: "label \<Rightarrow> bool" where
  "label_truthy (LText s) = (s \<noteq> [])"
| "label_truthy (LBool b) = b"

record source_record =
  s_source_id :: string
  s_tenant_id :: string
  s_display_name :: "string option"
  s_region :: string
  s_tier :: string
  s_db_host :: "string option"
  s_db_port :: int
  s_db_name :: "string option"
  s_db_schema :: string
  s_compat_schema :: string
  s_db_user :: "string option"
  s_secret_ref :: "string option"
  s_connect_cluster :: string
  s_lifecycle_state :: string
  s_capture_generation :: int
  s_cob_job_name :: string
  s_labels :: "(string \<times> label) list"

definition new_source :: "string \<Rightarrow> string \<Rightarrow> source_record" where
  "new_source sid tenant =
     \<lparr>s_source_id = sid, s_tenant_id = tenant, s_display_name = None, s_region = ''default'',
      s_tier = ''standard'', s_db_host = None, s_db_port = 5432, s_db_name = None,
      s_db_schema = ''public'', s_compat_schema = ''bi_connector_source'', s_db_user = None,
      s_secret_ref = None, s_connect_cluster = ''default'', s_lifecycle_state = ''REQUESTED'',
      s_capture_generation = 0, s_cob_job_name = ''LOAN_COB'', s_labels = []\<rparr>"

text \<open>\<^verbatim>\<open>labels.get(key)\<close> in a condition; \<^verbatim>\<open>not x\<close> of an optional string.\<close>

definition label_set :: "source_record \<Rightarrow> string \<Rightarrow> bool" where
  "label_set s key = (case map_of (s_labels s) key of None \<Rightarrow> False | Some l \<Rightarrow> label_truthy l)"

fun given :: "string option \<Rightarrow> bool" where
  "given None = False"
| "given (Some s) = (s \<noteq> [])"

section \<open>Lifecycle\<close>

definition lifecycle_transitions :: "(string \<times> string list) list" where
  "lifecycle_transitions =
     [(''REQUESTED'', [''VALIDATING'', ''RETIRED'']),
      (''VALIDATING'', [''PROVISIONING'', ''REQUESTED'', ''RETIRED'']),
      (''PROVISIONING'', [''ACTIVE'', ''DEGRADED'', ''RETIRING'']),
      (''ACTIVE'', [''PAUSED'', ''DEGRADED'', ''RETIRING'']),
      (''PAUSED'', [''ACTIVE'', ''RETIRING'']),
      (''DEGRADED'', [''ACTIVE'', ''PAUSED'', ''RETIRING'']),
      (''RETIRING'', [''RETIRED'']),
      (''RETIRED'', [])]"

definition lifecycle_known :: "string \<Rightarrow> bool" where
  "lifecycle_known st \<longleftrightarrow> map_of lifecycle_transitions st \<noteq> None"

text \<open>\<^verbatim>\<open>new_state in LIFECYCLE_TRANSITIONS.get(current, frozenset())\<close>\<close>

definition lifecycle_allowed :: "string \<Rightarrow> string \<Rightarrow> bool" where
  "lifecycle_allowed cur new \<longleftrightarrow>
     (case map_of lifecycle_transitions cur of None \<Rightarrow> False | Some ts \<Rightarrow> new \<in> set ts)"

definition running_states :: "string list" where
  "running_states = [''PROVISIONING'', ''ACTIVE'', ''DEGRADED'']"

section \<open>Validation\<close>

definition source_id_ok :: "string \<Rightarrow> bool" where
  "source_id_ok s \<longleftrightarrow> (case chomp s of [] \<Rightarrow> False
     | c # cs \<Rightarrow> (is_lower_char c \<or> is_digit_char c) \<and> list_all is_source_char cs \<and> length cs \<le> 62)"

definition validate :: "os_env \<Rightarrow> source_record \<Rightarrow> unit result" where
  "validate env r =
     guard (source_id_ok (s_source_id r))
       (RegistryError (''source_id '' @ s_source_id r @ '' must match ^[a-z0-9][a-z0-9_-]{0,62}$ ''
          @ ''(it becomes a Kafka topic prefix and a replication slot name)'')) (
     guard (lifecycle_known (s_lifecycle_state r))
       (RegistryError (''Unknown lifecycle state '' @ s_lifecycle_state r)) (
     if given (s_secret_ref r) then
       (case check_reference env (s_secret_ref r) (s_source_id r) of
          Inr _ \<Rightarrow> Inr ()
        | Inl (SecretError msg) \<Rightarrow> Inl (RegistryError (''secret_ref rejected: '' @ msg))
        | Inl e \<Rightarrow> Inl e)
     else Inr ()))"

section \<open>Names\<close>

definition slot_prefix :: "string \<Rightarrow> string" where
  "slot_prefix sid = ''fbi_'' @ replace_char CHR ''-'' ''_'' sid @ ''_g''"

definition slot_name :: "source_record \<Rightarrow> string" where
  "slot_name s = slot_prefix (s_source_id s) @ int_str (s_capture_generation s)"

definition connector_name :: "string \<Rightarrow> int \<Rightarrow> string" where
  "connector_name sid generation = ''fbi-src-'' @ sid @ ''-g'' @ int_str generation"

definition source_id_from_connector :: "string \<Rightarrow> string option" where
  "source_id_from_connector name =
     (if \<not> starts_with ''fbi-src-'' name \<or> rpartition ''-g'' name = None then None
      else case rpartition ''-g'' (drop 8 name) of
        None \<Rightarrow> None
      | Some (base, gen) \<Rightarrow> if base \<noteq> [] \<and> py_isdigit gen then Some base else None)"

section \<open>Names are faithful\<close>

lemma digits_no_letter: "py_isdigit s \<Longrightarrow> CHR ''g'' \<notin> set s \<and> CHR ''-'' \<notin> set s \<and> CHR ''_'' \<notin> set s"
  by (auto simp: py_isdigit_def list_all_iff is_digit_char_def less_eq_char_def)

lemma rpartition_digits:
  assumes "py_isdigit digits" and "sep \<in> {''-g'', ''_g''}"
  shows "rpartition sep (b @ sep @ digits) = Some (b, digits)"
proof (rule rpartition_append)
  show "sep \<noteq> []" using assms(2) by auto
  have no: "hd sep \<notin> set (CHR ''g'' # digits)" using digits_no_letter[OF assms(1)] assms(2) by auto
  from assms(2) have "sep = hd sep # tl sep" "tl (sep @ digits) = CHR ''g'' # digits" by auto
  with no show "rpartition sep (tl (sep @ digits)) = None"
    by (metis rpartition_None_no_hd)
qed

lemma py_isdigit_int_str: "0 \<le> i \<Longrightarrow> py_isdigit (int_str i)"
  by (simp add: int_str_def)

lemma rpartition_prepend: "rpartition sep s \<noteq> None \<Longrightarrow> rpartition sep (p @ s) \<noteq> None"
  by (induction p) (auto split: option.splits)

lemma source_id_from_connector_parts:
  assumes "sid \<noteq> []" and "py_isdigit digits"
  shows "source_id_from_connector (''fbi-src-'' @ sid @ ''-g'' @ digits) = Some sid"
proof -
  have "rpartition ''-g'' (sid @ ''-g'' @ digits) = Some (sid, digits)"
    using rpartition_digits assms(2) by blast
  moreover from this have "rpartition ''-g'' (''fbi-src-'' @ sid @ ''-g'' @ digits) \<noteq> None"
    using rpartition_prepend by blast
  ultimately show ?thesis using assms by (simp add: source_id_from_connector_def starts_with_def)
qed

lemma source_id_from_connector_Some:
  assumes "source_id_from_connector name = Some sid"
  obtains digits where "name = ''fbi-src-'' @ sid @ ''-g'' @ digits" "sid \<noteq> []" "py_isdigit digits"
proof -
  from assms obtain r gen where "name = ''fbi-src-'' @ r" "rpartition ''-g'' r = Some (sid, gen)"
      "sid \<noteq> []" "py_isdigit gen"
    by (auto simp: source_id_from_connector_def starts_with_iff split: option.splits prod.splits if_splits)
  with that rpartition_Some show thesis by blast
qed

lemma connector_roundtrip:
  "sid \<noteq> [] \<Longrightarrow> 0 \<le> g \<Longrightarrow> source_id_from_connector (connector_name sid g) = Some sid"
  by (simp add: connector_name_def source_id_from_connector_parts py_isdigit_int_str del: append.simps)

text \<open>
  The reconciler identifies its connectors by name.  The source recovered from the name of a
  connector is the source it was built for, whatever the id contains (also \<^verbatim>\<open>-g\<close> and digits);
  and a name yields a source only if it is \<^verbatim>\<open>fbi-src-\<close>, the non-empty id, \<^verbatim>\<open>-g\<close> and digits.
\<close>

theorem connector_name_roundtrip:
  "(\<forall>sid g. sid \<noteq> [] \<and> 0 \<le> g \<longrightarrow> source_id_from_connector (connector_name sid g) = Some sid) \<and>
   (\<forall>name sid. source_id_from_connector name = Some sid \<longleftrightarrow>
      (\<exists>digits. name = ''fbi-src-'' @ sid @ ''-g'' @ digits \<and> sid \<noteq> [] \<and> py_isdigit digits))"
  using connector_roundtrip source_id_from_connector_parts source_id_from_connector_Some by metis

lemma slot_prefix_digits_inj:
  assumes "slot_prefix a @ d1 = slot_prefix b @ d2" and "py_isdigit d1" and "py_isdigit d2"
  shows "replace_char CHR ''-'' ''_'' a = replace_char CHR ''-'' ''_'' b \<and> d1 = d2"
proof -
  let ?na = "''fbi_'' @ replace_char CHR ''-'' ''_'' a" and ?nb = "''fbi_'' @ replace_char CHR ''-'' ''_'' b"
  have "?na @ ''_g'' @ d1 = ?nb @ ''_g'' @ d2" using assms(1) by (simp add: slot_prefix_def)
  then have "rpartition ''_g'' (?na @ ''_g'' @ d1) = rpartition ''_g'' (?nb @ ''_g'' @ d2)" by (rule arg_cong)
  moreover have "rpartition ''_g'' (?na @ ''_g'' @ d1) = Some (?na, d1)"
    by (rule rpartition_digits) (use assms in simp_all)
  moreover have "rpartition ''_g'' (?nb @ ''_g'' @ d2) = Some (?nb, d2)"
    by (rule rpartition_digits) (use assms in simp_all)
  ultimately have "Some (?na, d1) = Some (?nb, d2)" by (simp only:)
  then show ?thesis by simp
qed

section \<open>The lifecycle table\<close>

lemma lifecycle_known_iff:
  "lifecycle_known st \<longleftrightarrow> st \<in> {''REQUESTED'', ''VALIDATING'', ''PROVISIONING'', ''ACTIVE'', ''PAUSED'',
     ''DEGRADED'', ''RETIRING'', ''RETIRED''}"
  by (auto simp: lifecycle_known_def lifecycle_transitions_def map_of_eq_None_iff)

lemma lifecycle_allowed_known: "lifecycle_allowed a b \<Longrightarrow> lifecycle_known a \<and> lifecycle_known b"
  by (auto simp: lifecycle_allowed_def lifecycle_known_iff lifecycle_transitions_def
      split: option.splits if_splits)

inductive lifecycle_path_to :: "string \<Rightarrow> string \<Rightarrow> bool" where
  here: "lifecycle_path_to a a"
| step: "lifecycle_allowed a b \<Longrightarrow> lifecycle_path_to b c \<Longrightarrow> lifecycle_path_to a c"

text \<open>
  The lifecycle table is closed and ends.  Every transition leads between known states, a
  retired source has no way back, and from every known state a retired source can be reached.
\<close>

theorem lifecycle_closed_and_ends:
  "(\<forall>a b. lifecycle_allowed a b \<longrightarrow> lifecycle_known a \<and> lifecycle_known b) \<and>
   (\<forall>b. \<not> lifecycle_allowed ''RETIRED'' b) \<and>
   (\<forall>a. lifecycle_known a \<longrightarrow> lifecycle_path_to a ''RETIRED'')"
proof (intro conjI allI impI)
  show "lifecycle_allowed a b \<Longrightarrow> lifecycle_known a" "lifecycle_allowed a b \<Longrightarrow> lifecycle_known b" for a b
    by (simp_all add: lifecycle_allowed_known)
  show "\<not> lifecycle_allowed ''RETIRED'' b" for b
    by (simp add: lifecycle_allowed_def lifecycle_transitions_def)
  have one: "lifecycle_path_to a ''RETIRED''" if "lifecycle_allowed a ''RETIRED''" for a
    using that lifecycle_path_to.intros by blast
  have two: "lifecycle_path_to a ''RETIRED''" if "lifecycle_allowed a ''RETIRING''" for a
    using that one[of "''RETIRING''"] lifecycle_path_to.step
    by (simp add: lifecycle_allowed_def lifecycle_transitions_def)
  show "lifecycle_path_to a ''RETIRED''" if "lifecycle_known a" for a
    using that one two lifecycle_path_to.here
    by (auto simp: lifecycle_known_iff lifecycle_allowed_def lifecycle_transitions_def)
qed

section \<open>The id check\<close>

lemma validate_Inr_iff:
  "validate env r = Inr () \<longleftrightarrow> source_id_ok (s_source_id r) \<and> lifecycle_known (s_lifecycle_state r) \<and>
     (given (s_secret_ref r) \<longrightarrow> check_reference env (s_secret_ref r) (s_source_id r) = Inr ())"
  by (auto simp: validate_def split: sum.splits py_exn.splits)

lemma source_id_ok_chars:
  "source_id_ok s \<Longrightarrow> list_all is_source_char (chomp s) \<and> chomp s \<noteq> [] \<and> length (chomp s) \<le> 63"
  by (auto simp: source_id_ok_def is_source_char_def split: list.splits)

text \<open>
  \<^verbatim>\<open>validate\<close> does not enforce the documented alphabet: because \<^verbatim>\<open>$\<close> also matches before a final
  newline, every accepted id is accepted with a newline appended, although it no longer matches
  the pattern the error message quotes (and would become part of topic and slot names).
\<close>

theorem validate_accepts_trailing_newline:
  assumes "validate env r = Inr ()" and "s_secret_ref r = None" and "last (s_source_id r) \<noteq> newline_char"
  shows "validate env (r\<lparr>s_source_id := s_source_id r @ [newline_char]\<rparr>) = Inr () \<and>
    \<not> list_all is_source_char (s_source_id r @ [newline_char])"
proof -
  have "\<not> is_source_char newline_char"
    by (simp add: is_source_char_def newline_char_def is_lower_char_def is_digit_char_def less_eq_char_def)
  moreover have "chomp (s_source_id r @ [newline_char]) = chomp (s_source_id r)"
    using assms(3) by (auto simp: chomp_def)
  ultimately show ?thesis using assms(1,2)
    by (simp add: validate_Inr_iff source_id_ok_def)
qed

section \<open>Instances\<close>

theorem connector_name_roundtrip_witness:
  "source_id_from_connector (connector_name ''bank-g7'' 3) = Some ''bank-g7''"
  by (rule connector_name_roundtrip[THEN conjunct1, rule_format]) simp

theorem lifecycle_closed_and_ends_witness: "lifecycle_path_to ''PAUSED'' ''RETIRED''"
  by (rule lifecycle_closed_and_ends[THEN conjunct2, THEN conjunct2, rule_format])
    (simp add: lifecycle_known_iff)

theorem validate_accepts_trailing_newline_witness:
  "validate demo_env (new_source (''bank'' @ [newline_char]) ''t'') = Inr ()"
proof -
  have "source_id_ok ''bank''" by code_simp
  then have "validate demo_env (new_source ''bank'' ''t'') = Inr ()"
    by (simp add: validate_Inr_iff new_source_def lifecycle_known_iff)
  from validate_accepts_trailing_newline[OF this] show ?thesis
    by (simp add: new_source_def newline_char_def)
qed

end
