(* ===== verification/Ownership.thy ===== *)
theory Ownership
  imports Prelude
begin

text \<open>
  The ownership state machine, \<^verbatim>\<open>src/controlplane/ownership.py\<close>: which engine owns production
  for a table of a source, which engine runs in the shadow, and the guarded transitions between
  them.  The operation \<open>transition\<close> is the whole Python function, one branch per action, with
  every \<^verbatim>\<open>_require\<close> in the order of the code and its message.

  Shown: an accepted transition keeps the row inside the CHECK constraints of
  \<^verbatim>\<open>meta.ingestion_ownership\<close> (\<open>wf_ownership\<close>); epochs grow by one exactly when the fencing of
  writers must change; the engine changes by assignment, reconciled cutover or forced
  assignment only; the machine refines an abstract migration protocol; and a run without
  forced assignments that ends with another owner contains a shadow, a passed
  reconciliation and an approved cutover, in this order.
\<close>

section \<open>Data\<close>

datatype engine = PYTHON | KAFKA | NONE

datatype cutover_state = STEADY | SHADOWING | RECONCILING | CUTOVER_READY | PAUSED

datatype action =
    ASSIGN | START_SHADOW | BEGIN_RECONCILIATION | RECORD_RECONCILIATION | CUTOVER
  | ABORT_SHADOW | PAUSE | RESUME | FORCE_ASSIGN

datatype side_effect = CLEAR_SHADOW | PROMOTE_SHADOW

fun engine_value :: "engine \<Rightarrow> string" where
  "engine_value PYTHON = ''PYTHON''"
| "engine_value KAFKA = ''KAFKA''"
| "engine_value NONE = ''NONE''"

fun state_value :: "cutover_state \<Rightarrow> string" where
  "state_value STEADY = ''STEADY''"
| "state_value SHADOWING = ''SHADOWING''"
| "state_value RECONCILING = ''RECONCILING''"
| "state_value CUTOVER_READY = ''CUTOVER_READY''"
| "state_value PAUSED = ''PAUSED''"

fun action_value :: "action \<Rightarrow> string" where
  "action_value ASSIGN = ''assign''"
| "action_value START_SHADOW = ''start_shadow''"
| "action_value BEGIN_RECONCILIATION = ''begin_reconciliation''"
| "action_value RECORD_RECONCILIATION = ''record_reconciliation''"
| "action_value CUTOVER = ''cutover''"
| "action_value ABORT_SHADOW = ''abort_shadow''"
| "action_value PAUSE = ''pause''"
| "action_value RESUME = ''resume''"
| "action_value FORCE_ASSIGN = ''force_assign''"

record ownership =
  o_source_id :: string
  o_table_name :: string
  o_engine :: engine
  o_shadow_engine :: "engine option"
  o_cutover_state :: cutover_state
  o_epoch :: int
  o_last_reconciliation_id :: "int option"
  o_shadow_requested_by :: "string option"

record transition_request =
  r_action :: action
  r_actor :: string
  r_reason :: string
  r_engine :: "engine option"
  r_approved_by :: "string option"
  r_reconciliation_passed :: "bool option"
  r_reconciliation_id :: "int option"
  r_require_dual_control :: bool
  r_reconciliation_valid :: "bool option"
  r_database_enforced_approval :: bool

record transition_result =
  t_previous :: ownership
  t_current :: ownership
  t_side_effects :: "side_effect list"

text \<open>The defaults of the dataclass \<^verbatim>\<open>TransitionRequest\<close>.\<close>

definition new_request :: "action \<Rightarrow> string \<Rightarrow> string \<Rightarrow> transition_request" where
  "new_request a actor reason =
     \<lparr>r_action = a, r_actor = actor, r_reason = reason, r_engine = None, r_approved_by = None,
      r_reconciliation_passed = None, r_reconciliation_id = None, r_require_dual_control = True,
      r_reconciliation_valid = None, r_database_enforced_approval = False\<rparr>"

section \<open>The transition function\<close>

text \<open>\<^verbatim>\<open>_require\<close> with a \<^verbatim>\<open>TransitionError\<close>; truth of an optional string; \<^verbatim>\<open>None\<close> in an f-string.\<close>

definition require_cond :: "bool \<Rightarrow> string \<Rightarrow> 'a result \<Rightarrow> 'a result" where
  "require_cond c msg k = guard c (TransitionError msg) k"

fun truthy :: "string option \<Rightarrow> bool" where
  "truthy None = False"
| "truthy (Some s) = (s \<noteq> [])"

fun show_opt :: "string option \<Rightarrow> string" where
  "show_opt None = ''None''"
| "show_opt (Some s) = s"

fun show_engine_opt :: "engine option \<Rightarrow> string" where
  "show_engine_opt None = ''None''"
| "show_engine_opt (Some e) = engine_value e"

definition bump :: "ownership \<Rightarrow> ownership" where
  "bump o1 = o1\<lparr>o_epoch := o_epoch o1 + 1\<rparr>"

definition where_of :: "ownership \<Rightarrow> string" where
  "where_of o1 = o_source_id o1 @ ''/'' @ o_table_name o1"

definition mk_result :: "ownership \<Rightarrow> ownership \<Rightarrow> side_effect list \<Rightarrow> transition_result result" where
  "mk_result prev cur eff = Inr \<lparr>t_previous = prev, t_current = cur, t_side_effects = eff\<rparr>"

definition transition :: "ownership \<Rightarrow> transition_request \<Rightarrow> transition_result result" where
  "transition o1 req =
   require_cond (r_actor req \<noteq> [] \<and> py_strip (r_actor req) \<noteq> []) ''actor is required'' (
   require_cond (r_reason req \<noteq> [] \<and> py_strip (r_reason req) \<noteq> []) ''reason is required'' (
   let w = where_of o1 in
   case r_action req of
     ASSIGN \<Rightarrow>
       require_cond (r_engine req \<in> {Some PYTHON, Some KAFKA}) ''assign needs engine PYTHON or KAFKA'' (
       require_cond (o_engine o1 = NONE)
         (w @ '': already owned by '' @ engine_value (o_engine o1) @ ''; use start_shadow to migrate'') (
       require_cond (o_shadow_engine o1 = None) (w @ '': shadow in progress'') (
       mk_result o1 ((bump o1)\<lparr>o_engine := the (r_engine req), o_cutover_state := STEADY\<rparr>) [])))
   | START_SHADOW \<Rightarrow>
       require_cond (r_engine req \<in> {Some PYTHON, Some KAFKA})
         ''start_shadow needs engine PYTHON or KAFKA'' (
       require_cond (o_cutover_state o1 = STEADY)
         (w @ '': start_shadow requires STEADY, is '' @ state_value (o_cutover_state o1)) (
       require_cond (o_engine o1 \<noteq> NONE) (w @ '': no production owner yet; use assign'') (
       require_cond (r_engine req \<noteq> Some (o_engine o1))
         (w @ '': '' @ show_engine_opt (r_engine req) @ '' already owns production'') (
       mk_result o1
         ((bump o1)\<lparr>o_shadow_engine := r_engine req, o_cutover_state := SHADOWING,
                    o_last_reconciliation_id := None,
                    o_shadow_requested_by := Some (r_actor req)\<rparr>)
         [CLEAR_SHADOW]))))
   | BEGIN_RECONCILIATION \<Rightarrow>
       require_cond (o_cutover_state o1 \<in> {SHADOWING, RECONCILING, CUTOVER_READY})
         (w @ '': reconciliation requires an active shadow, state is '' @ state_value (o_cutover_state o1)) (
       mk_result o1 (o1\<lparr>o_cutover_state := RECONCILING\<rparr>) [])
   | RECORD_RECONCILIATION \<Rightarrow>
       require_cond (o_cutover_state o1 = RECONCILING) (w @ '': not RECONCILING'') (
       require_cond (r_reconciliation_passed req \<noteq> None) ''reconciliation_passed is required'' (
       mk_result o1
         (o1\<lparr>o_cutover_state :=
               (if r_reconciliation_passed req = Some True then CUTOVER_READY else SHADOWING),
             o_last_reconciliation_id := r_reconciliation_id req\<rparr>)
         []))
   | CUTOVER \<Rightarrow>
       require_cond (o_cutover_state o1 = CUTOVER_READY)
         (w @ '': cutover requires CUTOVER_READY, is '' @ state_value (o_cutover_state o1)) (
       require_cond (o_shadow_engine o1 \<noteq> None) (w @ '': no shadow engine'') (
       require_cond (o_last_reconciliation_id o1 \<noteq> None) (w @ '': no passing reconciliation recorded'') (
       require_cond (r_reconciliation_valid req = Some True)
         (w @ '': the recorded reconciliation is not a recent PASSED shadow_vs_prod run for this table'') (
       require_cond (r_require_dual_control req \<longrightarrow> truthy (r_approved_by req))
         (w @ '': cutover requires approved_by (dual control)'') (
       require_cond (r_require_dual_control req \<and> \<not> r_database_enforced_approval req \<longrightarrow>
                     r_approved_by req \<noteq> Some (r_actor req))
         (w @ '': approver must differ from requester'') (
       require_cond (r_require_dual_control req \<and> \<not> r_database_enforced_approval req \<longrightarrow>
                     r_approved_by req \<noteq> o_shadow_requested_by o1)
         (w @ '': approver must differ from whoever started the shadow ('' @
          show_opt (o_shadow_requested_by o1) @ '')'') (
       mk_result o1
         ((bump o1)\<lparr>o_engine := the (o_shadow_engine o1), o_shadow_engine := None,
                    o_cutover_state := STEADY, o_shadow_requested_by := None\<rparr>)
         [PROMOTE_SHADOW])))))))
   | ABORT_SHADOW \<Rightarrow>
       require_cond (o_shadow_engine o1 \<noteq> None) (w @ '': no shadow to abort'') (
       mk_result o1
         ((bump o1)\<lparr>o_shadow_engine := None, o_cutover_state := STEADY,
                    o_last_reconciliation_id := None, o_shadow_requested_by := None\<rparr>)
         [CLEAR_SHADOW])
   | PAUSE \<Rightarrow>
       require_cond (o_cutover_state o1 \<noteq> PAUSED) (w @ '': already paused'') (
       mk_result o1 ((bump o1)\<lparr>o_cutover_state := PAUSED\<rparr>) [])
   | RESUME \<Rightarrow>
       require_cond (o_cutover_state o1 = PAUSED) (w @ '': not paused'') (
       mk_result o1
         ((bump o1)\<lparr>o_cutover_state := (if o_shadow_engine o1 \<noteq> None then SHADOWING else STEADY)\<rparr>) [])
   | FORCE_ASSIGN \<Rightarrow>
       require_cond (r_engine req \<in> {Some PYTHON, Some KAFKA, Some NONE}) ''force_assign needs an engine'' (
       require_cond (o_shadow_engine o1 = None) (w @ '': abort the shadow first'') (
       require_cond (truthy (r_approved_by req)) (w @ '': force_assign requires approved_by'') (
       require_cond (r_require_dual_control req \<longrightarrow> r_approved_by req \<noteq> Some (r_actor req))
         (w @ '': approver must differ from requester'') (
       mk_result o1 ((bump o1)\<lparr>o_engine := the (r_engine req), o_cutover_state := STEADY\<rparr>) []))))))"

lemma require_cond_Inr [simp]: "require_cond c msg k = Inr x \<longleftrightarrow> c \<and> k = Inr x"
  by (simp add: require_cond_def)

lemma require_cond_True [simp]: "require_cond True msg k = k"
  by (simp add: require_cond_def)

lemma mk_result_Inr [simp]:
  "mk_result p c e = Inr res \<longleftrightarrow> res = \<lparr>t_previous = p, t_current = c, t_side_effects = e\<rparr>"
  by (auto simp: mk_result_def)

text \<open>The next state alone, as a step of a guarded machine.\<close>

definition own_step :: "ownership \<Rightarrow> transition_request \<Rightarrow> ownership result" where
  "own_step o1 req = rbind (transition o1 req) (\<lambda>res. Inr (t_current res))"

lemma own_step_Inr:
  "own_step o1 req = Inr o2 \<longleftrightarrow> (\<exists>res. transition o1 req = Inr res \<and> t_current res = o2)"
  by (auto simp: own_step_def rbind_Inr_iff)

section \<open>The table's CHECK constraints\<close>

definition wf_ownership :: "ownership \<Rightarrow> bool" where
  "wf_ownership o1 \<longleftrightarrow>
     o_shadow_engine o1 \<noteq> Some NONE \<and>
     o_shadow_engine o1 \<noteq> Some (o_engine o1) \<and>
     (if o_shadow_engine o1 = None then o_cutover_state o1 \<in> {STEADY, PAUSED}
      else o_cutover_state o1 \<in> {SHADOWING, RECONCILING, CUTOVER_READY, PAUSED})"

lemmas transition_unfold = transition_def Let_def bump_def own_step_Inr


section \<open>One transition\<close>

lemma transition_wf:
  assumes "wf_ownership o1" and "transition o1 req = Inr res"
  shows "wf_ownership (t_current res)"
  using assms
  by (cases "r_action req")
    (auto simp: transition_unfold wf_ownership_def split: if_splits)

lemma transition_previous: "transition o1 req = Inr res \<Longrightarrow> t_previous res = o1"
  by (cases "r_action req") (auto simp: transition_unfold)

lemma transition_keys:
  assumes "transition o1 req = Inr res"
  shows "o_source_id (t_current res) = o_source_id o1" "o_table_name (t_current res) = o_table_name o1"
  using assms by (cases "r_action req"; auto simp: transition_unfold)+

lemma transition_epoch:
  assumes "transition o1 req = Inr res"
  shows "o_epoch (t_current res) =
    o_epoch o1 + (if r_action req \<in> {BEGIN_RECONCILIATION, RECORD_RECONCILIATION} then 0 else 1)"
  using assms by (cases "r_action req") (auto simp: transition_unfold)

lemma transition_reconciliation_frame:
  assumes "transition o1 req = Inr res"
    and "r_action req \<in> {BEGIN_RECONCILIATION, RECORD_RECONCILIATION}"
  shows "o_engine (t_current res) = o_engine o1"
    and "o_shadow_engine (t_current res) = o_shadow_engine o1"
    and "o_cutover_state o1 \<noteq> PAUSED" and "o_cutover_state (t_current res) \<noteq> PAUSED"
  using assms by (auto simp: transition_unfold split: if_splits)

text \<open>
  C14: An accepted transition of a row that satisfies the CHECK constraints of
  \<^verbatim>\<open>meta.ingestion_ownership\<close> produces a row that satisfies them, whatever the request: the
  Python machine never asks the database to store a row it refuses.
\<close>

theorem transition_keeps_constraints:
  assumes "wf_ownership o1" and "transition o1 req = Inr res"
  shows "wf_ownership (t_current res)"
  using assms by (rule transition_wf)

text \<open>
  The fencing epoch.  An accepted transition keeps the row's key and moves the epoch by 0
  or 1; it moves by exactly 1 whenever the owner, the shadow engine or the paused state
  changes (what a writer's right to write depends on), and it stays during a
  reconciliation, which must not interrupt the writers it compares.
\<close>

theorem epoch_tracks_write_rights:
  assumes "transition o1 req = Inr res"
  defines "o2 \<equiv> t_current res"
  shows "o_source_id o2 = o_source_id o1 \<and> o_table_name o2 = o_table_name o1 \<and>
    o_epoch o2 \<in> {o_epoch o1, o_epoch o1 + 1} \<and>
    ((o_engine o2, o_shadow_engine o2, o_cutover_state o2 = PAUSED) \<noteq>
       (o_engine o1, o_shadow_engine o1, o_cutover_state o1 = PAUSED) \<longrightarrow> o_epoch o2 = o_epoch o1 + 1) \<and>
    (r_action req \<in> {BEGIN_RECONCILIATION, RECORD_RECONCILIATION} \<longrightarrow> o_epoch o2 = o_epoch o1)"
  unfolding o2_def
  using transition_keys[OF assms(1)] transition_epoch[OF assms(1)]
    transition_reconciliation_frame[OF assms(1)]
  by auto

text \<open>
  The engine that owns production changes in three ways only: it is assigned while nobody
  owns the table; it is the shadow engine of a table that is CUTOVER_READY with a valid
  reconciliation and, under dual control, an approver who is neither the requester nor (unless
  the database enforces the approval) whoever started the shadow; or it is forced, with no
  shadow running and an approver.
\<close>

theorem engine_change_causes:
  assumes "transition o1 req = Inr res" and "o_engine (t_current res) \<noteq> o_engine o1"
  shows "(r_action req = ASSIGN \<and> o_engine o1 = NONE \<and> r_engine req = Some (o_engine (t_current res)))
    \<or> (r_action req = CUTOVER \<and> o_shadow_engine o1 = Some (o_engine (t_current res)) \<and>
       o_cutover_state o1 = CUTOVER_READY \<and> o_last_reconciliation_id o1 \<noteq> None \<and>
       r_reconciliation_valid req = Some True \<and>
       (r_require_dual_control req \<longrightarrow> truthy (r_approved_by req)) \<and>
       (r_require_dual_control req \<and> \<not> r_database_enforced_approval req \<longrightarrow>
          r_approved_by req \<notin> {Some (r_actor req), o_shadow_requested_by o1}))
    \<or> (r_action req = FORCE_ASSIGN \<and> o_shadow_engine o1 = None \<and>
       r_engine req = Some (o_engine (t_current res)) \<and> truthy (r_approved_by req) \<and>
       (r_require_dual_control req \<longrightarrow> r_approved_by req \<noteq> Some (r_actor req)))"
  using assms by (cases "r_action req") (auto simp: transition_unfold)

text \<open>
  The data side effects.  A transition asks for the shadow to be promoted exactly when it
  is a cutover, and for it to be cleared exactly when a shadow starts or is aborted; so the
  production copy is never replaced outside a cutover.
\<close>

theorem side_effects_exact:
  assumes "transition o1 req = Inr res"
  shows "t_side_effects res =
    (case r_action req of CUTOVER \<Rightarrow> [PROMOTE_SHADOW]
     | START_SHADOW \<Rightarrow> [CLEAR_SHADOW] | ABORT_SHADOW \<Rightarrow> [CLEAR_SHADOW] | _ \<Rightarrow> [])"
  using assms by (cases "r_action req") (auto simp: transition_unfold)

section \<open>Refinement of an abstract migration protocol\<close>

text \<open>
  The contract of the feature flag, without rows, epochs, actors or reconciliation ids: a table
  is free, owned, or being migrated from an owner to a shadow, with or without a passed
  comparison; and it may be suspended.
\<close>

datatype phase = Free | Owned engine | Migrating engine engine bool

datatype protocol = Active phase | Suspended phase

definition owned_phase :: "engine \<Rightarrow> phase" where
  "owned_phase e = (if e = NONE then Free else Owned e)"

fun unverified :: "phase \<Rightarrow> phase" where
  "unverified (Migrating e s v) = Migrating e s False"
| "unverified p = p"

inductive protocol_step :: "action \<Rightarrow> protocol \<Rightarrow> protocol \<Rightarrow> bool" where
  assign: "e \<noteq> NONE \<Longrightarrow> p \<in> {Active Free, Suspended Free} \<Longrightarrow>
    protocol_step ASSIGN p (Active (Owned e))"
| start: "e \<noteq> s \<Longrightarrow> s \<noteq> NONE \<Longrightarrow>
    protocol_step START_SHADOW (Active (Owned e)) (Active (Migrating e s False))"
| begin_compare: "protocol_step BEGIN_RECONCILIATION (Active (Migrating e s v)) (Active (Migrating e s False))"
| compared: "protocol_step RECORD_RECONCILIATION (Active (Migrating e s False)) (Active (Migrating e s v))"
| cutover: "protocol_step CUTOVER (Active (Migrating e s True)) (Active (Owned s))"
| abort: "p \<in> {Active (Migrating e s v), Suspended (Migrating e s v)} \<Longrightarrow>
    protocol_step ABORT_SHADOW p (Active (owned_phase e))"
| suspend: "protocol_step PAUSE (Active ph) (Suspended (unverified ph))"
| continue: "protocol_step RESUME (Suspended ph) (Active ph)"
| force: "ph \<in> {Free, Owned e} \<Longrightarrow> p \<in> {Active ph, Suspended ph} \<Longrightarrow>
    protocol_step FORCE_ASSIGN p (Active (owned_phase e'))"

definition phase_of :: "ownership \<Rightarrow> phase" where
  "phase_of o1 = (case o_shadow_engine o1 of
      None \<Rightarrow> owned_phase (o_engine o1)
    | Some s \<Rightarrow> Migrating (o_engine o1) s (o_cutover_state o1 = CUTOVER_READY))"

definition abs_ownership :: "ownership \<Rightarrow> protocol" where
  "abs_ownership o1 =
     (if o_cutover_state o1 = PAUSED then Suspended (phase_of o1) else Active (phase_of o1))"

inductive_simps protocol_step_iffs:
  "protocol_step ASSIGN p q"
  "protocol_step START_SHADOW p q"
  "protocol_step BEGIN_RECONCILIATION p q"
  "protocol_step RECORD_RECONCILIATION p q"
  "protocol_step CUTOVER p q"
  "protocol_step ABORT_SHADOW p q"
  "protocol_step PAUSE p q"
  "protocol_step RESUME p q"
  "protocol_step FORCE_ASSIGN p q"

lemmas abs_unfold = abs_ownership_def phase_of_def owned_phase_def wf_ownership_def

text \<open>
  C13: Refinement.  Every accepted transition of a well-formed row is a step of the abstract
  migration protocol under the same action: rows, epochs, approvals and reconciliation ids
  only restrict it.
\<close>

theorem transition_refines_protocol:
  assumes "wf_ownership o1" and "transition o1 req = Inr res"
  shows "protocol_step (r_action req) (abs_ownership o1) (abs_ownership (t_current res))"
  using assms
  by (cases "r_action req"; cases "o_shadow_engine o1")
    (auto simp: transition_unfold abs_unfold protocol_step_iffs split: if_splits)

section \<open>Runs\<close>

interpretation own: guarded_machine own_step wf_ownership o_epoch
proof unfold_locales
  show "wf_ownership o1 \<Longrightarrow> own_step o1 req = Inr o2 \<Longrightarrow> wf_ownership o2" for o1 req o2
    by (auto simp: own_step_Inr intro: transition_wf)
  show "wf_ownership o1 \<Longrightarrow> own_step o1 req = Inr o2 \<Longrightarrow> o_epoch o1 \<le> o_epoch o2" for o1 req o2
    by (auto simp: own_step_Inr dest!: transition_epoch)
qed

abbreviation own_run :: "ownership \<Rightarrow> transition_request list \<Rightarrow> ownership result" where
  "own_run \<equiv> run_steps own_step"

text \<open>
  Along any run of accepted requests the row stays inside its CHECK constraints and the
  epoch never falls; if one of the requests is not a reconciliation step, the epoch at
  the end is greater than at the start, so a writer that read its epoch before the run is
  recognised as stale after it.
\<close>

theorem run_invalidates_old_epochs:
  assumes "wf_ownership o1" and "own_run o1 reqs = Inr o2"
  shows "wf_ownership o2 \<and> o_epoch o1 \<le> o_epoch o2 \<and>
    ((\<exists>r \<in> set reqs. r_action r \<notin> {BEGIN_RECONCILIATION, RECORD_RECONCILIATION}) \<longrightarrow>
       o_epoch o1 < o_epoch o2)"
proof -
  have strict: "o_epoch u < o_epoch v"
    if "own_step u r = Inr v" "r_action r \<notin> {BEGIN_RECONCILIATION, RECORD_RECONCILIATION}" for u v r
    using that by (auto simp: own_step_Inr dest: transition_epoch)
  have "o_epoch o1 < o_epoch o2"
    if "r \<in> set reqs" and r: "r_action r \<notin> {BEGIN_RECONCILIATION, RECORD_RECONCILIATION}" for r
  proof -
    from that(1) obtain xs ys where "reqs = xs @ r # ys" by (meson split_list)
    with assms(2) have "own_run o1 (xs @ r # ys) = Inr o2" by simp
    from own.run_rank_strict[OF assms(1) this] strict r show ?thesis by blast
  qed
  with own.run_inv[OF assms] own.run_rank[OF assms] show ?thesis by blast
qed

section \<open>A change of owner needs a whole migration\<close>

definition starts_shadow :: "transition_request \<Rightarrow> bool" where
  "starts_shadow r \<longleftrightarrow> r_action r = START_SHADOW"

definition passes_reconciliation :: "transition_request \<Rightarrow> bool" where
  "passes_reconciliation r \<longleftrightarrow>
     r_action r = RECORD_RECONCILIATION \<and> r_reconciliation_passed r = Some True"

definition approved_cutover :: "transition_request \<Rightarrow> bool" where
  "approved_cutover r \<longleftrightarrow>
     r_action r = CUTOVER \<and> r_reconciliation_valid r = Some True \<and>
     (r_require_dual_control r \<longrightarrow> truthy (r_approved_by r)) \<and>
     (r_require_dual_control r \<and> \<not> r_database_enforced_approval r \<longrightarrow>
        r_approved_by r \<noteq> Some (r_actor r))"

text \<open>\<open>in_order ps rs\<close>: \<open>rs\<close> holds requests satisfying the predicates \<open>ps\<close>, in this order.\<close>

fun in_order :: "('a \<Rightarrow> bool) list \<Rightarrow> 'a list \<Rightarrow> bool" where
  "in_order [] rs = True"
| "in_order (p # ps) [] = False"
| "in_order (p # ps) (r # rs) = (p r \<and> in_order ps rs \<or> in_order (p # ps) rs)"

lemma in_order_Cons_skip: "in_order ps rs \<Longrightarrow> in_order ps (r # rs)"
  by (cases ps) auto

lemma in_order_append: "in_order ps rs \<Longrightarrow> in_order qs rs' \<Longrightarrow> in_order (ps @ qs) (rs @ rs')"
proof (induction ps rs rule: in_order.induct)
  case (1 rs)
  then show ?case by (induction rs) (auto intro: in_order_Cons_skip)
qed auto

lemma in_order_snoc: "in_order ps rs \<Longrightarrow> p r \<Longrightarrow> in_order (ps @ [p]) (rs @ [r])"
  by (rule in_order_append) simp_all

lemma in_order_extend: "in_order ps rs \<Longrightarrow> in_order ps (rs @ rs')"
  using in_order_append[of ps rs "[]" rs'] by simp

lemma own_step_shadow_origin:
  assumes "own_step o1 r = Inr o2" and "o_shadow_engine o2 \<noteq> None"
  shows "starts_shadow r \<or> o_shadow_engine o1 \<noteq> None"
  using assms
  by (cases "r_action r") (auto simp: transition_unfold starts_shadow_def)

lemma own_step_ready_origin:
  assumes "own_step o1 r = Inr o2" and "o_cutover_state o2 = CUTOVER_READY"
  shows "passes_reconciliation r \<and> o_cutover_state o1 = RECONCILING"
  using assms
  by (cases "r_action r")
    (auto simp: transition_unfold passes_reconciliation_def split: if_splits)

lemma own_step_owner_origin:
  assumes "own_step o1 r = Inr o2" and "o_engine o1 \<noteq> NONE" and "r_action r \<noteq> FORCE_ASSIGN"
    and "o_engine o2 \<noteq> o_engine o1"
  shows "approved_cutover r \<and> o_cutover_state o1 = CUTOVER_READY \<and> o_shadow_engine o1 = Some (o_engine o2)"
  using assms
  by (cases "r_action r") (auto simp: transition_unfold approved_cutover_def)

lemma own_run_history:
  assumes "wf_ownership o1" and "o_shadow_engine o1 = None" and "o_engine o1 \<noteq> NONE"
    and "\<forall>r \<in> set reqs. r_action r \<noteq> FORCE_ASSIGN" and "own_run o1 reqs = Inr o2"
  shows "o_engine o2 \<noteq> NONE
    \<and> (o_shadow_engine o2 \<noteq> None \<longrightarrow> in_order [starts_shadow] reqs)
    \<and> (o_cutover_state o2 = CUTOVER_READY \<longrightarrow> in_order [starts_shadow, passes_reconciliation] reqs)
    \<and> (o_engine o2 \<noteq> o_engine o1 \<longrightarrow>
         in_order [starts_shadow, passes_reconciliation, approved_cutover] reqs)"
  using assms(4,5)
proof (induction reqs arbitrary: o2 rule: rev_induct)
  case Nil
  with assms show ?case by (auto simp: wf_ownership_def)
next
  case (snoc r rs)
  then obtain om where om: "own_run o1 rs = Inr om" "own_step om r = Inr o2"
    by (auto simp: run_steps_snoc_Inr)
  from snoc have IH: "o_engine om \<noteq> NONE"
      "o_shadow_engine om \<noteq> None \<Longrightarrow> in_order [starts_shadow] rs"
      "o_cutover_state om = CUTOVER_READY \<Longrightarrow> in_order [starts_shadow, passes_reconciliation] rs"
      "o_engine om \<noteq> o_engine o1 \<Longrightarrow>
         in_order [starts_shadow, passes_reconciliation, approved_cutover] rs"
    using om(1) by auto
  from snoc.prems have noforce: "r_action r \<noteq> FORCE_ASSIGN" by simp
  have wf: "wf_ownership om" using assms(1) om(1) by (rule own.run_inv)
  note owner = own_step_owner_origin[OF om(2) IH(1) noforce]
  have "o_engine o2 \<noteq> NONE"
    using owner wf IH(1) by (cases "o_engine o2 = o_engine om") (auto simp: wf_ownership_def)
  moreover have "in_order [starts_shadow] (rs @ [r])" if "o_shadow_engine o2 \<noteq> None"
    using own_step_shadow_origin[OF om(2) that] IH(2)
      in_order_append[of "[]" rs "[starts_shadow]" "[r]"] in_order_extend
    by (auto simp: in_order_extend)
  moreover have "in_order [starts_shadow, passes_reconciliation] (rs @ [r])"
    if "o_cutover_state o2 = CUTOVER_READY"
  proof -
    from own_step_ready_origin[OF om(2) that]
    have "passes_reconciliation r" "o_cutover_state om = RECONCILING" by simp_all
    moreover from this(2) wf IH(2) have "in_order [starts_shadow] rs"
      by (auto simp: wf_ownership_def split: if_splits)
    ultimately show ?thesis using in_order_snoc[of "[starts_shadow]" rs] by simp
  qed
  moreover have "in_order [starts_shadow, passes_reconciliation, approved_cutover] (rs @ [r])"
    if "o_engine o2 \<noteq> o_engine o1"
  proof (cases "o_engine om = o_engine o1")
    case True
    with that owner have "approved_cutover r" "o_cutover_state om = CUTOVER_READY" by auto
    with IH(3) in_order_snoc[of "[starts_shadow, passes_reconciliation]" rs approved_cutover r]
    show ?thesis by simp
  next
    case False
    with IH(4) show ?thesis by (blast intro: in_order_extend)
  qed
  ultimately show ?case by blast
qed


text \<open>
  C15: Migrations complete.  From a steady owned table, starting a shadow on the other engine,
  beginning and passing a reconciliation and cutting over with a valid reconciliation and an
  approver who is neither the requester nor the initiator is accepted at every step; it ends
  steady, owned by the new engine, with no shadow and an epoch two higher.
\<close>

theorem migration_completes:
  fixes o1 :: ownership and actor reason boss :: string and e :: engine and rid :: int
  assumes "o_cutover_state o1 = STEADY" and "o_engine o1 \<noteq> NONE" and "e \<notin> {NONE, o_engine o1}"
    and "actor \<noteq> []" and "py_strip actor \<noteq> []" and "reason \<noteq> []" and "py_strip reason \<noteq> []"
    and "boss \<noteq> []" and "boss \<noteq> actor"
  shows "own_run o1
     [(new_request START_SHADOW actor reason)\<lparr>r_engine := Some e\<rparr>,
      new_request BEGIN_RECONCILIATION actor reason,
      (new_request RECORD_RECONCILIATION actor reason)
        \<lparr>r_reconciliation_passed := Some True, r_reconciliation_id := Some rid\<rparr>,
      (new_request CUTOVER actor reason)
        \<lparr>r_approved_by := Some boss, r_reconciliation_valid := Some True\<rparr>]
   = Inr (o1\<lparr>o_engine := e, o_shadow_engine := None, o_cutover_state := STEADY,
             o_epoch := o_epoch o1 + 2, o_last_reconciliation_id := Some rid,
             o_shadow_requested_by := None\<rparr>)"
proof -
  have "e \<in> {PYTHON, KAFKA}" using assms(3) by (cases e) auto
  with assms show ?thesis
    by (auto simp: own_step_def transition_def bump_def mk_result_def new_request_def)
qed

section \<open>Instances\<close>

text \<open>A table owned by the Python engine, and the requests of its migration to Kafka.\<close>

definition demo_row :: ownership where
  "demo_row = \<lparr>o_source_id = ''bank'', o_table_name = ''m_loan'', o_engine = PYTHON,
     o_shadow_engine = None, o_cutover_state = STEADY, o_epoch = 4,
     o_last_reconciliation_id = None, o_shadow_requested_by = None\<rparr>"

definition demo_ready :: ownership where
  "demo_ready = demo_row\<lparr>o_shadow_engine := Some KAFKA, o_cutover_state := CUTOVER_READY,
     o_last_reconciliation_id := Some 9, o_shadow_requested_by := Some ''alice''\<rparr>"

definition demo_start :: transition_request where
  "demo_start = (new_request START_SHADOW ''alice'' ''migrate'')\<lparr>r_engine := Some KAFKA\<rparr>"

definition demo_begin :: transition_request where
  "demo_begin = new_request BEGIN_RECONCILIATION ''alice'' ''migrate''"

definition demo_record :: transition_request where
  "demo_record = (new_request RECORD_RECONCILIATION ''alice'' ''migrate'')
     \<lparr>r_reconciliation_passed := Some True, r_reconciliation_id := Some 9\<rparr>"

definition demo_cutover :: transition_request where
  "demo_cutover = (new_request CUTOVER ''alice'' ''migrate'')
     \<lparr>r_approved_by := Some ''bob'', r_reconciliation_valid := Some True\<rparr>"

lemmas demo_defs = demo_row_def demo_ready_def demo_start_def demo_begin_def demo_record_def
  demo_cutover_def new_request_def

lemma strip_demo [simp]:
  "py_strip ''alice'' = ''alice''" "py_strip ''migrate'' = ''migrate''"
  by (simp_all add: py_strip_def is_space_char_def)

lemma demo_cutover_accepted:
  "\<exists>res. transition demo_ready demo_cutover = Inr res \<and> o_engine (t_current res) = KAFKA"
  by (simp add: demo_defs transition_def bump_def mk_result_def)

lemma demo_ready_wf: "wf_ownership demo_ready" and demo_row_wf: "wf_ownership demo_row"
  by (simp_all add: demo_defs wf_ownership_def)

lemma demo_migration:
  "own_run demo_row [demo_start, demo_begin, demo_record, demo_cutover] =
     Inr (demo_row\<lparr>o_engine := KAFKA, o_epoch := 6, o_last_reconciliation_id := Some 9\<rparr>)"
  by (simp add: demo_defs own_step_def transition_def bump_def mk_result_def)

theorem transition_keeps_constraints_witness:
  "\<exists>res. transition demo_ready demo_cutover = Inr res \<and> wf_ownership (t_current res)"
  using demo_cutover_accepted transition_keeps_constraints[OF demo_ready_wf] by blast

theorem epoch_tracks_write_rights_witness:
  "\<exists>res. transition demo_ready demo_cutover = Inr res \<and> o_epoch (t_current res) = 5"
proof -
  obtain res where res: "transition demo_ready demo_cutover = Inr res" "o_engine (t_current res) = KAFKA"
    using demo_cutover_accepted by blast
  from epoch_tracks_write_rights[OF res(1)] res(2) have "o_epoch (t_current res) = 5"
    by (auto simp: demo_ready_def demo_row_def)
  with res(1) show ?thesis by blast
qed

theorem engine_change_causes_witness:
  "\<exists>res. transition demo_ready demo_cutover = Inr res \<and>
     o_engine (t_current res) \<noteq> o_engine demo_ready \<and> r_approved_by demo_cutover = Some ''bob''"
proof -
  obtain res where res: "transition demo_ready demo_cutover = Inr res" "o_engine (t_current res) = KAFKA"
    using demo_cutover_accepted by blast
  have change: "o_engine (t_current res) \<noteq> o_engine demo_ready"
    using res(2) by (simp add: demo_defs)
  from engine_change_causes[OF res(1) change] res(1) change show ?thesis
    by (auto simp: demo_cutover_def)
qed

theorem side_effects_exact_witness:
  "\<exists>res. transition demo_ready demo_cutover = Inr res \<and> t_side_effects res = [PROMOTE_SHADOW]"
proof -
  obtain res where res: "transition demo_ready demo_cutover = Inr res"
    using demo_cutover_accepted by blast
  with side_effects_exact[OF res] show ?thesis by (simp add: demo_cutover_def new_request_def)
qed

theorem transition_refines_protocol_witness:
  "\<exists>res. transition demo_ready demo_cutover = Inr res \<and>
     protocol_step CUTOVER (Active (Migrating PYTHON KAFKA True)) (abs_ownership (t_current res))"
proof -
  obtain res where res: "transition demo_ready demo_cutover = Inr res"
    using demo_cutover_accepted by blast
  from transition_refines_protocol[OF demo_ready_wf res] res show ?thesis
    by (auto simp: demo_defs abs_unfold)
qed

theorem run_invalidates_old_epochs_witness:
  "\<exists>o2. own_run demo_row [demo_start, demo_begin, demo_record, demo_cutover] = Inr o2 \<and>
     o_epoch demo_row < o_epoch o2"
  using run_invalidates_old_epochs[OF demo_row_wf demo_migration] demo_migration
  by (auto simp: demo_start_def new_request_def)


theorem migration_completes_witness:
  "own_run demo_row [demo_start, demo_begin, demo_record, demo_cutover] =
     Inr (demo_row\<lparr>o_engine := KAFKA, o_shadow_engine := None, o_cutover_state := STEADY, o_epoch := 6,
       o_last_reconciliation_id := Some 9, o_shadow_requested_by := None\<rparr>)"
  using migration_completes[of demo_row KAFKA "''alice''" "''migrate''" "''bob''" 9]
  by (simp add: demo_start_def demo_begin_def demo_record_def demo_cutover_def demo_row_def)

end
