(* ===== verification/Contract.thy ===== *)
theory Contract
  imports Prelude
begin

text \<open>
  The table contract, \<^verbatim>\<open>src/controlplane/contract.py\<close>: the columns of every mirrored table, its
  primary key, its incremental cursor.  \<open>parse_contract\<close> reads the JSON document, given here as
  records whose fields are optional where a key may be missing from the document; a missing
  mandatory key is the \<^verbatim>\<open>KeyError\<close> of the code.  The text of the document and the
  shipped document are in \<open>Contract_File\<close>.

  Shown: lookups and name lists agree, parsing keeps the order and names of tables and columns
  and fails exactly when a mandatory key is missing.
\<close>

record column_spec =
  c_name :: string
  c_type :: string
  c_cdc :: "string list"
  c_synthetic :: bool
  c_pii :: bool

definition cdc_candidates :: "column_spec \<Rightarrow> string list" where
  "cdc_candidates c = (if c_cdc c \<noteq> [] then c_cdc c else [c_name c])"

record table_contract =
  tc_table_name :: string
  tc_raw_table :: string
  tc_primary_key :: string
  tc_columns :: "column_spec list"
  tc_python_cursor :: "string option"
  tc_kafka_partitions :: int
  tc_change_entity :: "string option"
  tc_indexes :: "string list list"

definition column_names :: "table_contract \<Rightarrow> string list" where
  "column_names t = map c_name (tc_columns t)"

definition business_columns :: "table_contract \<Rightarrow> column_spec list" where
  "business_columns t = filter (\<lambda>c. \<not> c_synthetic c) (tc_columns t)"

definition column_of :: "table_contract \<Rightarrow> string \<Rightarrow> column_spec result" where
  "column_of t name = (case find (\<lambda>c. c_name c = name) (tc_columns t) of
      Some c \<Rightarrow> Inr c
    | None \<Rightarrow> Inl (KeyError (tc_table_name t @ '' has no column '' @ name)))"

definition cursor_is_usable :: "table_contract \<Rightarrow> bool result" where
  "cursor_is_usable t = (case tc_python_cursor t of
      None \<Rightarrow> Inr False
    | Some cur \<Rightarrow> rbind (column_of t cur) (\<lambda>c. Inr (\<not> c_synthetic c)))"

record contract =
  ct_version :: int
  ct_topic_prefix :: string
  ct_source_schema :: string
  ct_tables :: "table_contract list"

definition contract_table :: "contract \<Rightarrow> string \<Rightarrow> table_contract result" where
  "contract_table ct name = (case find (\<lambda>t. tc_table_name t = name) (ct_tables ct) of
      Some t \<Rightarrow> Inr t
    | None \<Rightarrow> Inl (KeyError (''Unknown contract table '' @ name)))"

definition table_names :: "contract \<Rightarrow> string list" where
  "table_names ct = map tc_table_name (ct_tables ct)"

definition topic_for :: "contract \<Rightarrow> string \<Rightarrow> string" where
  "topic_for ct table = ct_topic_prefix ct @ ''.'' @ table"

section \<open>Parsing\<close>

record raw_column =
  rc_name :: "string option"
  rc_type :: "string option"
  rc_cdc :: "string list option"
  rc_synthetic :: "bool option"
  rc_pii :: "bool option"

record raw_table_doc =
  rt_table_name :: "string option"
  rt_raw_table :: "string option"
  rt_primary_key :: "string option"
  rt_columns :: "raw_column list option"
  rt_python_cursor :: "string option"
  rt_kafka_partitions :: "int option"
  rt_change_entity :: "string option"
  rt_indexes :: "string list list option"

record raw_contract =
  rw_contract_version :: "int option"
  rw_topic_prefix :: "string option"
  rw_source_schema :: "string option"
  rw_tables :: "raw_table_doc list option"

text \<open>\<^verbatim>\<open>d[key]\<close> and \<^verbatim>\<open>d.get(key, default)\<close>\<close>

definition need :: "string \<Rightarrow> 'a option \<Rightarrow> 'a result" where
  "need key v = (case v of None \<Rightarrow> Inl (KeyError key) | Some x \<Rightarrow> Inr x)"

definition get_or :: "'a \<Rightarrow> 'a option \<Rightarrow> 'a" where
  "get_or d v = (case v of None \<Rightarrow> d | Some x \<Rightarrow> x)"

lemma need_Inr_iff [simp]: "need key v = Inr x \<longleftrightarrow> v = Some x"
  by (auto simp: need_def split: option.splits)

definition parse_column :: "raw_column \<Rightarrow> column_spec result" where
  "parse_column c =
     rbind (need ''name'' (rc_name c)) (\<lambda>name.
     rbind (need ''type'' (rc_type c)) (\<lambda>ty.
     Inr \<lparr>c_name = name, c_type = ty, c_cdc = get_or [] (rc_cdc c),
          c_synthetic = get_or False (rc_synthetic c), c_pii = get_or False (rc_pii c)\<rparr>))"

definition parse_table :: "raw_table_doc \<Rightarrow> table_contract result" where
  "parse_table t =
     rbind (need ''columns'' (rt_columns t)) (\<lambda>cols.
     rbind (rmap parse_column cols) (\<lambda>columns.
     rbind (need ''table_name'' (rt_table_name t)) (\<lambda>name.
     rbind (need ''raw_table'' (rt_raw_table t)) (\<lambda>raw.
     rbind (need ''primary_key'' (rt_primary_key t)) (\<lambda>pk.
     Inr \<lparr>tc_table_name = name, tc_raw_table = raw, tc_primary_key = pk, tc_columns = columns,
          tc_python_cursor = rt_python_cursor t,
          tc_kafka_partitions = get_or 1 (rt_kafka_partitions t),
          tc_change_entity = rt_change_entity t,
          tc_indexes = get_or [] (rt_indexes t)\<rparr>)))))"

definition parse_contract :: "raw_contract \<Rightarrow> contract result" where
  "parse_contract raw =
     rbind (need ''tables'' (rw_tables raw)) (\<lambda>ts.
     rbind (rmap parse_table ts) (\<lambda>tables.
     rbind (need ''contract_version'' (rw_contract_version raw)) (\<lambda>v.
     Inr \<lparr>ct_version = v, ct_topic_prefix = get_or ''fineract.cdc'' (rw_topic_prefix raw),
          ct_source_schema = get_or ''public'' (rw_source_schema raw), ct_tables = tables\<rparr>)))"

section \<open>Lookups\<close>

lemma find_Some_name: "find P xs = Some x \<Longrightarrow> x \<in> set xs \<and> P x"
  by (induction xs) (auto split: if_splits)

lemma contract_table_Inr:
  assumes "contract_table ct name = Inr t"
  shows "t \<in> set (ct_tables ct)" "tc_table_name t = name"
  using assms by (auto simp: contract_table_def split: option.splits dest!: find_Some_name)

lemma contract_table_iff: "(\<exists>t. contract_table ct name = Inr t) \<longleftrightarrow> name \<in> set (table_names ct)"
  by (auto simp: contract_table_def table_names_def find_None_iff split: option.splits
      dest!: find_Some_name)

lemma column_of_Inr:
  assumes "column_of t name = Inr c"
  shows "c \<in> set (tc_columns t)" "c_name c = name"
  using assms by (auto simp: column_of_def split: option.splits dest!: find_Some_name)

lemma column_of_iff: "(\<exists>c. column_of t name = Inr c) \<longleftrightarrow> name \<in> set (column_names t)"
  by (auto simp: column_of_def column_names_def find_None_iff split: option.splits
      dest!: find_Some_name)

lemma cursor_is_usable_True:
  assumes "cursor_is_usable t = Inr True"
  obtains cur c where "tc_python_cursor t = Some cur" "c \<in> set (tc_columns t)" "c_name c = cur"
    "\<not> c_synthetic c"
  using assms
  by (auto simp: cursor_is_usable_def rbind_Inr_iff split: option.splits dest: column_of_Inr)

section \<open>What parsing keeps\<close>

definition complete_column :: "raw_column \<Rightarrow> bool" where
  "complete_column c \<longleftrightarrow> rc_name c \<noteq> None \<and> rc_type c \<noteq> None"

definition complete_table :: "raw_table_doc \<Rightarrow> bool" where
  "complete_table t \<longleftrightarrow> rt_table_name t \<noteq> None \<and> rt_raw_table t \<noteq> None \<and> rt_primary_key t \<noteq> None \<and>
     (case rt_columns t of None \<Rightarrow> False | Some cs \<Rightarrow> list_all complete_column cs)"

definition complete_contract :: "raw_contract \<Rightarrow> bool" where
  "complete_contract raw \<longleftrightarrow> rw_contract_version raw \<noteq> None \<and>
     (case rw_tables raw of None \<Rightarrow> False | Some ts \<Rightarrow> list_all complete_table ts)"

lemma parse_column_iff: "(\<exists>c'. parse_column c = Inr c') \<longleftrightarrow> complete_column c"
  by (auto simp: parse_column_def complete_column_def rbind_Inr_iff)

lemma rmap_iff: "(\<exists>ys. rmap f xs = Inr ys) \<longleftrightarrow> (\<forall>x \<in> set xs. \<exists>y. f x = Inr y)"
  by (induction xs) (auto simp: rbind_Inr_iff)

lemma parse_table_iff: "(\<exists>t'. parse_table t = Inr t') \<longleftrightarrow> complete_table t"
  using rmap_iff[of parse_column]
  by (auto simp: parse_table_def complete_table_def rbind_Inr_iff list_all_iff parse_column_iff
      split: option.splits)

lemma rmap_parse_table_names:
  "rmap parse_table ts = Inr tables \<Longrightarrow> map (Some \<circ> tc_table_name) tables = map rt_table_name ts"
proof (induction ts arbitrary: tables)
  case (Cons t ts)
  then show ?case by (auto simp: rbind_Inr_iff parse_table_def)
qed simp

text \<open>
  Parsing the contract succeeds exactly when every mandatory key of the document is present,
  and the parsed contract has the tables of the document, in its order, with its version.
\<close>

theorem parse_contract_total:
  "(\<exists>ct. parse_contract raw = Inr ct) = complete_contract raw \<and>
   (\<forall>ct. parse_contract raw = Inr ct \<longrightarrow>
      map Some (table_names ct) = map rt_table_name (the (rw_tables raw)) \<and>
      Some (ct_version ct) = rw_contract_version raw)"
proof
  show "(\<exists>ct. parse_contract raw = Inr ct) = complete_contract raw"
    using rmap_iff[of parse_table]
    by (auto simp: parse_contract_def complete_contract_def rbind_Inr_iff list_all_iff parse_table_iff
        split: option.splits)
  show "\<forall>ct. parse_contract raw = Inr ct \<longrightarrow>
      map Some (table_names ct) = map rt_table_name (the (rw_tables raw)) \<and>
      Some (ct_version ct) = rw_contract_version raw"
    by (auto simp: parse_contract_def rbind_Inr_iff table_names_def o_def
        dest!: rmap_parse_table_names)
qed

end
