(* ===== verification/Warehouse.thy ===== *)
theory Warehouse
  imports Registry Ownership Contract
begin

text \<open>
  The warehouse as the control plane sees it: the tables of schema \<^verbatim>\<open>meta\<close> and the raw copies, a
  connection with its transaction, and the SQL functions, triggers and constraints of
  \<^verbatim>\<open>src/warehouse/schema/platform.sql\<close> that guard table ownership.

  \<^item> A table with a primary key is an association list from its key; times are microseconds;
    \<^verbatim>\<open>NOW()\<close> is the clock reading of the current transaction; sequences belong to the connection
    because \<^verbatim>\<open>nextval\<close> is not rolled back.
  \<^item> A connection sees the committed database plus its own changes.  The model has one session at
    a time: the advisory lock of a row orders the sessions that transition it.
  \<^item> An SQL error is \<open>DatabaseError\<close> with its SQLSTATE.

  Shown: the update trigger keeps the CHECK constraints, the key and the epoch order; it lets the
  engine change only for a first assignment, a reconciled (and in database mode approved) cutover or
  a platform administrator; every accepted change leaves an audit entry and nothing else does.
\<close>

section \<open>Rows\<close>

datatype val = VNull | VInt int | VText string | VTime int | VDate int | VBool bool

type_synonym tkey = "string \<times> string" \<comment> \<open>source and table\<close>
type_synonym raw_key = "string \<times> string \<times> string \<times> int" \<comment> \<open>raw table, source, tenant, primary key\<close>

record ownership_row =
  w_own :: ownership
  w_shadow_db_user :: "string option"
  w_shadow_started_at :: "int option"
  w_ever_owned :: bool
  w_updated_by :: string
  w_change_reason :: "string option"

record approval =
  ap_id :: int
  ap_source :: string
  ap_table :: string
  ap_epoch :: int
  ap_db_user :: string
  ap_label :: "string option"
  ap_at :: int

record recon_run =
  rr_id :: int
  rr_source :: string
  rr_table :: string
  rr_comparison :: string
  rr_status :: string
  rr_compared :: int
  rr_mismatched :: int
  rr_missing_left :: int
  rr_missing_right :: int
  rr_started_at :: int
  rr_finished_at :: "int option"

datatype audit_state = ANull | ARow ownership_row | ASummary "(string \<times> int) list"

record audit_entry =
  a_source :: string
  a_table :: string
  a_action :: string
  a_previous :: audit_state
  a_new :: audit_state
  a_actor :: string
  a_approved_by :: "string option"
  a_reason :: "string option"
  a_db_user :: string

record raw_row =
  x_cols :: "(string \<times> val) list"
  x_generation :: int
  x_lsn :: "int option"
  x_source_ts :: "int option"
  x_ingested_at :: int
  x_engine :: string
  x_deleted :: bool

record change_entry =
  ce_source :: string
  ce_tenant :: string
  ce_entity :: string
  ce_entity_id :: int
  ce_min_date :: int

text \<open>A row of \<^verbatim>\<open>meta.table_contract\<close>: the contract of the table and what its change log records.\<close>

record contract_row =
  cr_table :: table_contract
  cr_change_key :: "string option"
  cr_change_date :: "string option"
  cr_history :: "string list"

record watermark_row =
  wm_cursor :: "int option"
  wm_last_pk :: "int option"

record progress_row =
  pg_rows_applied :: int
  pg_last_source_ts :: "int option"
  pg_last_applied_at :: int

record pipeline_row =
  pr_source :: string
  pr_tenant :: string
  pr_mode :: string
  pr_started_at :: int
  pr_completed_at :: "int option"
  pr_status :: string
  pr_rows_extracted :: "int option"
  pr_rows_loaded :: "int option"
  pr_error :: "string option"

record connector_row =
  cs_connector :: string
  cs_cluster :: string
  cs_desired :: string
  cs_observed :: "string option"
  cs_error :: "string option"

record db =
  d_settings :: "(string \<times> string) list"
  d_contract :: "contract_row list"
  d_registry :: "(string \<times> source_record) list"
  d_floor :: "(string \<times> int) list"
  d_ownership :: "(tkey \<times> ownership_row) list"
  d_approvals :: "approval list"
  d_runs :: "recon_run list"
  d_audit :: "audit_entry list"
  d_raw :: "(raw_key \<times> raw_row) list"
  d_shadow :: "(raw_key \<times> raw_row) list"
  d_changes :: "change_entry list"
  d_watermarks :: "((string \<times> string \<times> string) \<times> watermark_row) list"
  d_progress :: "((string \<times> string \<times> string \<times> string) \<times> progress_row) list"
  d_connectors :: "(string \<times> connector_row) list"
  d_slot_checks :: "(string \<times> string \<times> int) list"
  d_derived :: "(string \<times> string list) list"
  d_pipeline :: "(string \<times> pipeline_row) list"

section \<open>Connections\<close>

record conn =
  k_committed :: db
  k_working :: db
  k_txn :: nat
  k_clock :: "nat \<Rightarrow> int"
  k_session_user :: string
  k_admin :: bool
  k_run_seq :: int
  k_approval_seq :: int

type_synonym 'a dbop = "(conn, 'a) sx"

definition now :: "conn \<Rightarrow> int" where
  "now c = k_clock c (k_txn c)"

definition commit :: "unit dbop" where
  "commit = sput (\<lambda>c. c\<lparr>k_committed := k_working c, k_txn := k_txn c + 1\<rparr>)"

definition rollback :: "unit dbop" where
  "rollback = sput (\<lambda>c. c\<lparr>k_working := k_committed c, k_txn := k_txn c + 1\<rparr>)"

text \<open>A statement: it reads the connection and either fails or returns a value and the new tables.\<close>

definition stmt :: "(conn \<Rightarrow> ('a \<times> db) result) \<Rightarrow> 'a dbop" where
  "stmt f c = (case f c of Inl e \<Rightarrow> (Inl e, c) | Inr (x, d) \<Rightarrow> (Inr x, c\<lparr>k_working := d\<rparr>))"

definition query :: "(conn \<Rightarrow> 'a result) \<Rightarrow> 'a dbop" where
  "query f c = (f c, c)"

lemma stmt_run [sx_simps]:
  "stmt f c = (case f c of Inl e \<Rightarrow> (Inl e, c) | Inr (x, d) \<Rightarrow> (Inr x, c\<lparr>k_working := d\<rparr>))"
  by (rule stmt_def)

lemma query_run [sx_simps]: "query f c = (f c, c)"
  by (rule query_def)

lemma commit_run [sx_simps]:
  "commit c = (Inr (), c\<lparr>k_committed := k_working c, k_txn := k_txn c + 1\<rparr>)"
  by (simp add: commit_def sx_simps)

lemma rollback_run [sx_simps]:
  "rollback c = (Inr (), c\<lparr>k_working := k_committed c, k_txn := k_txn c + 1\<rparr>)"
  by (simp add: rollback_def sx_simps)

lemma keeps_query [keeps_intros]: "keeps I (query f)"
  by (simp add: keeps_def sx_simps)

text \<open>An invariant of the tables, held by what is committed and by what the session sees.\<close>

definition both :: "(db \<Rightarrow> bool) \<Rightarrow> conn \<Rightarrow> bool" where
  "both I c \<longleftrightarrow> I (k_committed c) \<and> I (k_working c)"

lemma keeps_both_commit [keeps_intros]: "keeps (both I) commit"
  by (simp add: keeps_def sx_simps both_def)

lemma keeps_both_rollback [keeps_intros]: "keeps (both I) rollback"
  by (simp add: keeps_def sx_simps both_def)

lemma keeps_both_stmt:
  assumes "\<And>c x d. I (k_working c) \<Longrightarrow> f c = Inr (x, d) \<Longrightarrow> I d"
  shows "keeps (both I) (stmt f)"
  using assms by (auto simp: keeps_def sx_simps both_def split: sum.splits prod.splits)

section \<open>Settings\<close>

text \<open>\<^verbatim>\<open>meta.setting(key, default)\<close>, and the cast of its text to an integer.\<close>

definition setting :: "db \<Rightarrow> string \<Rightarrow> string \<Rightarrow> string" where
  "setting d key dflt = (case map_of (d_settings d) key of None \<Rightarrow> dflt | Some v \<Rightarrow> v)"

definition sql_int :: "string \<Rightarrow> int result" where
  "sql_int s = (case int_of_str s of
      Some i \<Rightarrow> Inr i
    | None \<Rightarrow> Inl (DatabaseError ''22P02'' (''invalid input syntax for type integer: '' @ s)))"

definition minutes :: "int \<Rightarrow> int" where
  "minutes m = m * 60000000"

definition table_row :: "db \<Rightarrow> string \<Rightarrow> contract_row option" where
  "table_row d t = find (\<lambda>r. tc_table_name (cr_table r) = t) (d_contract d)"

section \<open>Ownership guard\<close>

text \<open>
  A recorded comparison that justifies a cutover: passed, of this table, taken during the current
  shadow and recent.  \<open>started\<close> is the row's \<^verbatim>\<open>shadow_started_at\<close>, no value meaning minus infinity.
\<close>

definition run_justifies :: "int \<Rightarrow> int \<Rightarrow> int \<Rightarrow> tkey \<Rightarrow> int option \<Rightarrow> recon_run \<Rightarrow> bool" where
  "run_justifies t max_age rid key started r \<longleftrightarrow>
     rr_id r = rid \<and> (rr_source r, rr_table r) = key \<and> rr_comparison r = ''shadow_vs_prod'' \<and>
     rr_status r = ''PASSED'' \<and>
     (case started of None \<Rightarrow> True | Some s \<Rightarrow> s \<le> rr_started_at r) \<and>
     (case rr_finished_at r of None \<Rightarrow> False | Some f \<Rightarrow> t - minutes max_age < f)"

definition approval_counts :: "string \<Rightarrow> tkey \<Rightarrow> int \<Rightarrow> string option \<Rightarrow> approval \<Rightarrow> bool" where
  "approval_counts session key epoch requester a \<longleftrightarrow>
     (ap_source a, ap_table a) = key \<and> ap_epoch a = epoch \<and>
     ap_db_user a \<noteq> get_or [] requester \<and> ap_db_user a \<noteq> session"

definition own_key :: "ownership \<Rightarrow> tkey" where
  "own_key o1 = (o_source_id o1, o_table_name o1)"

definition fbi03 :: "string \<Rightarrow> py_exn" where
  "fbi03 msg = DatabaseError ''FBI03'' msg"

definition guard_engine_change :: "conn \<Rightarrow> int \<Rightarrow> ownership_row \<Rightarrow> ownership_row \<Rightarrow> unit result" where
  "guard_engine_change c max_age old new =
     (let oo = w_own old; no = w_own new; d = k_working c in
      if o_engine no = o_engine oo then Inr ()
      else if o_engine oo = NONE \<and> \<not> w_ever_owned old \<and> o_shadow_engine oo = None then Inr ()
      else if o_shadow_engine oo \<noteq> None \<and> o_shadow_engine oo = Some (o_engine no) \<and>
              o_shadow_engine no = None \<and> o_cutover_state oo = CUTOVER_READY then
        guard (\<exists>r \<in> set (d_runs d).
                 case o_last_reconciliation_id oo of
                   None \<Rightarrow> False
                 | Some rid \<Rightarrow> run_justifies (now c) max_age rid (own_key oo) (w_shadow_started_at old) r)
          (fbi03 (''Cutover of '' @ where_of oo @ '' needs a PASSED shadow_vs_prod reconciliation of this '' @
             ''table, taken during the current shadow and newer than '' @ int_str max_age @ '' minutes'')) (
        guard (setting d ''dual_control_mode'' ''parameter'' = ''database'' \<longrightarrow>
               (\<exists>a \<in> set (d_approvals d).
                  approval_counts (k_session_user c) (own_key oo) (o_epoch oo) (w_shadow_db_user old) a))
          (fbi03 (''Cutover of '' @ where_of oo @
             '' needs an approval recorded by a different database login (meta.approve_cutover)'')) (
        Inr ()))
      else guard (k_admin c)
        (fbi03 (''Engine change '' @ engine_value (o_engine oo) @ '' -> '' @ engine_value (o_engine no) @
           '' for '' @ where_of oo @ '' needs a reconciled cutover, or a login that is a member of fbi_platform_admin''))
        (Inr ()))"

definition guard_ownership_update :: "conn \<Rightarrow> ownership_row \<Rightarrow> ownership_row \<Rightarrow> ownership_row result" where
  "guard_ownership_update c old new =
     rbind (sql_int (setting (k_working c) ''reconciliation_max_age_minutes'' ''120'')) (\<lambda>max_age.
     let oo = w_own old; no = w_own new in
     guard (own_key no = own_key oo) (fbi03 ''The key of an ownership row cannot change'') (
     rbind (guard_engine_change c max_age old new) (\<lambda>_.
     guard (\<not> ((o_engine no \<noteq> o_engine oo \<or> o_shadow_engine no \<noteq> o_shadow_engine oo) \<and>
               o_epoch no \<le> o_epoch oo))
       (fbi03 (''Ownership of '' @ where_of oo @ '' changed without a higher epoch'')) (
     rbind
       (if o_shadow_engine no \<noteq> None \<and> o_shadow_engine oo = None then
          Inr (new\<lparr>w_shadow_db_user := Some (k_session_user c), w_shadow_started_at := Some (now c)\<rparr>)
        else if o_shadow_engine no = None then
          Inr (new\<lparr>w_shadow_db_user := None, w_own := no\<lparr>o_shadow_requested_by := None\<rparr>,
                   w_shadow_started_at := None\<rparr>)
        else if o_shadow_engine no \<noteq> o_shadow_engine oo then
          Inl (fbi03 (''Shadow of '' @ where_of oo @ '' cannot switch engines; abort it first''))
        else Inr (new\<lparr>w_shadow_db_user := w_shadow_db_user old,
                      w_shadow_started_at := w_shadow_started_at old\<rparr>)) (\<lambda>new'.
     Inr (new'\<lparr>w_ever_owned := w_ever_owned old \<or> o_engine no \<noteq> NONE\<rparr>))))))"

section \<open>Audit\<close>

record audit_ctx =
  ac_action :: string
  ac_actor :: string
  ac_approved_by :: string
  ac_reason :: string

text \<open>\<^verbatim>\<open>NULLIF(x, '')\<close> and the trigger \<^verbatim>\<open>meta.audit_ownership_change\<close>.\<close>

definition nullif_empty :: "string \<Rightarrow> string option" where
  "nullif_empty s = (if s = [] then None else Some s)"

definition audited_fields :: "ownership_row \<Rightarrow> engine \<times> engine option \<times> cutover_state \<times> int \<times> int option" where
  "audited_fields r = (o_engine (w_own r), o_shadow_engine (w_own r), o_cutover_state (w_own r),
     o_epoch (w_own r), o_last_reconciliation_id (w_own r))"

definition audit_ownership_change :: "conn \<Rightarrow> audit_ctx \<Rightarrow> ownership_row \<Rightarrow> ownership_row \<Rightarrow> audit_entry list" where
  "audit_ownership_change c ctx old new =
     (if audited_fields new = audited_fields old then []
      else [\<lparr>a_source = o_source_id (w_own new), a_table = o_table_name (w_own new),
             a_action = get_or ''direct_update'' (nullif_empty (ac_action ctx)),
             a_previous = ARow old, a_new = ARow new,
             a_actor = get_or (k_session_user c) (nullif_empty (ac_actor ctx)),
             a_approved_by = nullif_empty (ac_approved_by ctx),
             a_reason = (case nullif_empty (ac_reason ctx) of None \<Rightarrow> w_change_reason new | Some r \<Rightarrow> Some r),
             a_db_user = k_session_user c\<rparr>])"

section \<open>Updating a row\<close>

text \<open>
  One row of an \<^verbatim>\<open>UPDATE meta.ingestion_ownership\<close>: the trigger before it, the CHECK constraints, the
  new row, the audit trigger after it.
\<close>

definition update_ownership_row ::
    "conn \<Rightarrow> audit_ctx \<Rightarrow> ownership_row \<Rightarrow> ownership_row \<Rightarrow> db \<Rightarrow> db result" where
  "update_ownership_row c ctx old proposed d =
     rbind (guard_ownership_update (c\<lparr>k_working := d\<rparr>) old proposed) (\<lambda>new.
     guard (wf_ownership (w_own new)) (DatabaseError ''23514'' ''violates check constraint'') (
     Inr (d\<lparr>d_ownership := AList.update (own_key (w_own new)) new (d_ownership d),
            d_audit := d_audit d @ audit_ownership_change c ctx old new\<rparr>)))"

text \<open>\<^verbatim>\<open>btrim(x)\<close> removes spaces only.\<close>

definition btrim_empty :: "string \<Rightarrow> bool" where
  "btrim_empty s \<longleftrightarrow> list_all (\<lambda>ch. ch = CHR '' '') s"

definition transition_ownership ::
    "conn \<Rightarrow> string \<Rightarrow> string \<Rightarrow> int \<Rightarrow> ownership \<Rightarrow> audit_ctx \<Rightarrow> (bool \<times> db) result" where
  "transition_ownership c sid table expected cur ctx =
     guard (\<not> (btrim_empty (ac_actor ctx) \<or> btrim_empty (ac_reason ctx) \<or> btrim_empty (ac_action ctx)))
       (DatabaseError ''22023'' ''action, actor and reason are required'') (
     case map_of (d_ownership (k_working c)) (sid, table) of
       None \<Rightarrow> Inr (False, k_working c)
     | Some old \<Rightarrow>
         if o_epoch (w_own old) \<noteq> expected then Inr (False, k_working c)
         else rbind (update_ownership_row c ctx old
                (old\<lparr>w_own := (w_own old)\<lparr>o_engine := o_engine cur, o_shadow_engine := o_shadow_engine cur,
                        o_cutover_state := o_cutover_state cur, o_epoch := o_epoch cur,
                        o_last_reconciliation_id := o_last_reconciliation_id cur,
                        o_shadow_requested_by := o_shadow_requested_by cur\<rparr>,
                      w_updated_by := ac_actor ctx, w_change_reason := Some (ac_reason ctx)\<rparr>)
                (k_working c)) (\<lambda>d. Inr (True, d)))"

section \<open>Registration and approval\<close>

definition new_ownership_row :: "string \<Rightarrow> string \<Rightarrow> string \<Rightarrow> ownership_row" where
  "new_ownership_row session sid table =
     \<lparr>w_own = \<lparr>o_source_id = sid, o_table_name = table, o_engine = NONE, o_shadow_engine = None,
        o_cutover_state = STEADY, o_epoch = 1, o_last_reconciliation_id = None, o_shadow_requested_by = None\<rparr>,
      w_shadow_db_user = None, w_shadow_started_at = None, w_ever_owned = False,
      w_updated_by = session, w_change_reason = Some ''registered''\<rparr>"

fun insert_ownership_rows :: "string \<Rightarrow> string \<Rightarrow> string list \<Rightarrow> db \<Rightarrow> (int \<times> db) result" where
  "insert_ownership_rows session sid [] d = Inr (0, d)"
| "insert_ownership_rows session sid (t # ts) d =
     (if map_of (d_ownership d) (sid, t) \<noteq> None then insert_ownership_rows session sid ts d
      else if map_of (d_registry d) sid = None \<or> table_row d t = None then
        Inl (DatabaseError ''23503'' ''violates foreign key constraint'')
      else rbind (insert_ownership_rows session sid ts
             (d\<lparr>d_ownership := AList.update (sid, t) (new_ownership_row session sid t) (d_ownership d)\<rparr>))
             (\<lambda>(n, d'). Inr (n + 1, d')))"

definition ensure_ownership_rows :: "conn \<Rightarrow> string \<Rightarrow> string list \<Rightarrow> (int \<times> db) result" where
  "ensure_ownership_rows c sid tables = insert_ownership_rows (k_session_user c) sid tables (k_working c)"

definition same_approval :: "string \<Rightarrow> string \<Rightarrow> int \<Rightarrow> string \<Rightarrow> approval \<Rightarrow> bool" where
  "same_approval sid table epoch user a \<longleftrightarrow>
     ap_source a = sid \<and> ap_table a = table \<and> ap_epoch a = epoch \<and> ap_db_user a = user"

text \<open>
  \<^verbatim>\<open>meta.approve_cutover\<close>.  The default of \<^verbatim>\<open>approval_id\<close> draws from the sequence also when the
  insert ends in the conflict branch.
\<close>

definition sql_approve_cutover :: "string \<Rightarrow> string \<Rightarrow> string option \<Rightarrow> int dbop" where
  "sql_approve_cutover sid table label =
     sbind (query (\<lambda>c. case map_of (d_ownership (k_working c)) (sid, table) of
         None \<Rightarrow> Inl (fbi03 (sid @ ''/'' @ table @ '' is not CUTOVER_READY''))
       | Some row \<Rightarrow>
           guard (o_cutover_state (w_own row) = CUTOVER_READY)
             (fbi03 (sid @ ''/'' @ table @ '' is not CUTOVER_READY'')) (
           guard (w_shadow_db_user row \<noteq> Some (k_session_user c))
             (fbi03 (''The database login that requested the shadow ('' @ k_session_user c @
                '') cannot approve its own cutover'')) (
           Inr (o_epoch (w_own row)))))) (\<lambda>epoch.
     sbind (sput (\<lambda>c. c\<lparr>k_approval_seq := k_approval_seq c + 1\<rparr>)) (\<lambda>_.
     stmt (\<lambda>c. let d = k_working c; user = k_session_user c in
       case find (same_approval sid table epoch user) (d_approvals d) of
         Some a \<Rightarrow> Inr (ap_id a, d\<lparr>d_approvals :=
           map (\<lambda>b. if same_approval sid table epoch user b then b\<lparr>ap_at := now c\<rparr> else b) (d_approvals d)\<rparr>)
       | None \<Rightarrow> Inr (k_approval_seq c, d\<lparr>d_approvals := d_approvals d @
           [\<lparr>ap_id = k_approval_seq c, ap_source = sid, ap_table = table, ap_epoch = epoch,
             ap_db_user = user, ap_label = label, ap_at = now c\<rparr>]\<rparr>))))"

section \<open>Well-formed tables\<close>

definition row_ok :: "tkey \<times> ownership_row \<Rightarrow> bool" where
  "row_ok kr \<longleftrightarrow> fst kr = own_key (w_own (snd kr)) \<and> wf_ownership (w_own (snd kr)) \<and>
     (o_engine (w_own (snd kr)) \<noteq> NONE \<longrightarrow> w_ever_owned (snd kr)) \<and>
     (o_shadow_engine (w_own (snd kr)) = None \<longrightarrow>
        w_shadow_started_at (snd kr) = None \<and> o_shadow_requested_by (w_own (snd kr)) = None)"

definition wf_db :: "db \<Rightarrow> bool" where
  "wf_db d \<longleftrightarrow> distinct (map fst (d_ownership d)) \<and> list_all row_ok (d_ownership d)"

lemma wf_db_lookup:
  assumes "wf_db d" and "map_of (d_ownership d) k = Some r"
  shows "own_key (w_own r) = k" "wf_ownership (w_own r)" "row_ok (k, r)"
  using assms map_of_SomeD by (fastforce simp: wf_db_def list_all_iff row_ok_def)+

lemma list_all_update:
  "list_all P al \<Longrightarrow> P (k, v) \<Longrightarrow> list_all P (AList.update k v al)"
  by (induction al) auto

lemma wf_db_update:
  "wf_db d \<Longrightarrow> row_ok (k, r) \<Longrightarrow> wf_db (d\<lparr>d_ownership := AList.update k r (d_ownership d), d_audit := a\<rparr>)"
  by (simp add: wf_db_def list_all_update)

lemma wf_db_cong [simp]: "wf_db (d\<lparr>d_approvals := x\<rparr>) = wf_db d" "wf_db (d\<lparr>d_runs := y\<rparr>) = wf_db d"
  by (simp_all add: wf_db_def)

section \<open>The update trigger\<close>

lemma guard_ownership_update_facts:
  assumes "guard_ownership_update c old new = Inr row"
  shows "own_key (w_own row) = own_key (w_own old)"
    and "o_engine (w_own row) = o_engine (w_own new)"
    and "o_shadow_engine (w_own row) = o_shadow_engine (w_own new)"
    and "o_cutover_state (w_own row) = o_cutover_state (w_own new)"
    and "o_epoch (w_own row) = o_epoch (w_own new)"
    and "o_last_reconciliation_id (w_own row) = o_last_reconciliation_id (w_own new)"
    and "o_shadow_engine (w_own new) \<noteq> None \<longrightarrow> o_shadow_requested_by (w_own row) = o_shadow_requested_by (w_own new)"
    and "w_ever_owned row \<longleftrightarrow> w_ever_owned old \<or> o_engine (w_own new) \<noteq> NONE"
    and "o_shadow_engine (w_own new) = None \<longrightarrow>
      w_shadow_started_at row = None \<and> o_shadow_requested_by (w_own row) = None"
    and "w_updated_by row = w_updated_by new" "w_change_reason row = w_change_reason new"
  using assms
  by (auto simp: guard_ownership_update_def rbind_Inr_iff Let_def own_key_def split: if_splits)

lemma guard_ownership_update_epoch:
  assumes "guard_ownership_update c old new = Inr row"
    and "o_engine (w_own row) \<noteq> o_engine (w_own old) \<or> o_shadow_engine (w_own row) \<noteq> o_shadow_engine (w_own old)"
  shows "o_epoch (w_own old) < o_epoch (w_own row)"
  using assms guard_ownership_update_facts(2,3,5)[OF assms(1)]
  by (auto simp: guard_ownership_update_def rbind_Inr_iff Let_def)

text \<open>What lets the engine of a row change.\<close>

definition cutover_justified :: "conn \<Rightarrow> ownership_row \<Rightarrow> bool" where
  "cutover_justified c old \<longleftrightarrow>
     o_cutover_state (w_own old) = CUTOVER_READY \<and>
     (\<exists>max_age rid r. sql_int (setting (k_working c) ''reconciliation_max_age_minutes'' ''120'') = Inr max_age \<and>
        o_last_reconciliation_id (w_own old) = Some rid \<and> r \<in> set (d_runs (k_working c)) \<and>
        run_justifies (now c) max_age rid (own_key (w_own old)) (w_shadow_started_at old) r) \<and>
     (setting (k_working c) ''dual_control_mode'' ''parameter'' = ''database'' \<longrightarrow>
        (\<exists>a \<in> set (d_approvals (k_working c)).
           approval_counts (k_session_user c) (own_key (w_own old)) (o_epoch (w_own old)) (w_shadow_db_user old) a))"

lemma guard_engine_change_cases:
  assumes "guard_engine_change c max_age old new = Inr u"
    and "sql_int (setting (k_working c) ''reconciliation_max_age_minutes'' ''120'') = Inr max_age"
    and "o_engine (w_own new) \<noteq> o_engine (w_own old)"
  obtains (first) "o_engine (w_own old) = NONE" "\<not> w_ever_owned old" "o_shadow_engine (w_own old) = None"
  | (cutover) "o_shadow_engine (w_own old) = Some (o_engine (w_own new))" "cutover_justified c old"
  | (admin) "k_admin c"
  using assms
  by (fastforce simp: guard_engine_change_def Let_def cutover_justified_def split: if_splits option.splits)

lemma guard_ownership_update_engine:
  assumes "guard_ownership_update c old new = Inr row"
    and "o_engine (w_own row) \<noteq> o_engine (w_own old)"
  shows "(o_engine (w_own old) = NONE \<and> \<not> w_ever_owned old \<and> o_shadow_engine (w_own old) = None)
    \<or> (o_shadow_engine (w_own old) = Some (o_engine (w_own row)) \<and> cutover_justified c old)
    \<or> k_admin c"
proof -
  from assms(1) obtain max_age u
    where ma: "sql_int (setting (k_working c) ''reconciliation_max_age_minutes'' ''120'') = Inr max_age"
      and ge: "guard_engine_change c max_age old new = Inr u"
    by (auto simp: guard_ownership_update_def rbind_Inr_iff Let_def)
  have eng: "o_engine (w_own row) = o_engine (w_own new)"
    by (rule guard_ownership_update_facts(2)[OF assms(1)])
  with assms(2) have "o_engine (w_own new) \<noteq> o_engine (w_own old)" by simp
  with ge ma show ?thesis
    by (cases rule: guard_engine_change_cases[consumes 3]) (auto simp: eng)
qed

section \<open>An accepted update\<close>

lemma update_ownership_row_Inr:
  assumes "update_ownership_row c ctx old prop d = Inr d'"
  obtains new where "guard_ownership_update (c\<lparr>k_working := d\<rparr>) old prop = Inr new" "wf_ownership (w_own new)"
    "d' = d\<lparr>d_ownership := AList.update (own_key (w_own new)) new (d_ownership d),
             d_audit := d_audit d @ audit_ownership_change c ctx old new\<rparr>"
  using assms by (auto simp: update_ownership_row_def rbind_Inr_iff)

lemma update_ownership_row_wf:
  assumes "update_ownership_row c ctx old prop d = Inr d'" and "wf_db d"
  shows "wf_db d'"
  using assms(1)
proof (rule update_ownership_row_Inr)
  fix new
  assume g: "guard_ownership_update (c\<lparr>k_working := d\<rparr>) old prop = Inr new" and w: "wf_ownership (w_own new)"
    and d': "d' = d\<lparr>d_ownership := AList.update (own_key (w_own new)) new (d_ownership d),
             d_audit := d_audit d @ audit_ownership_change c ctx old new\<rparr>"
  from w guard_ownership_update_facts[OF g] have "row_ok (own_key (w_own new), new)"
    by (simp add: row_ok_def)
  with assms(2) show ?thesis unfolding d' by (rule wf_db_update)
qed

lemma insert_ownership_rows_wf:
  "wf_db d \<Longrightarrow> insert_ownership_rows session sid ts d = Inr (n, d') \<Longrightarrow> wf_db d'"
proof (induction ts arbitrary: d n)
  case (Cons t ts)
  let ?d1 = "d\<lparr>d_ownership := AList.update (sid, t) (new_ownership_row session sid t) (d_ownership d)\<rparr>"
  have "row_ok ((sid, t), new_ownership_row session sid t)"
    by (simp add: row_ok_def new_ownership_row_def own_key_def wf_ownership_def)
  with Cons.prems(1) have "wf_db ?d1" by (simp add: wf_db_def list_all_update)
  with Cons show ?case by (auto simp: rbind_Inr_iff split: if_splits)
qed simp

lemma transition_ownership_wf:
  assumes "transition_ownership c sid table e cur ctx = Inr (b, d)" and "wf_db (k_working c)"
  shows "wf_db d"
  using assms by (auto simp: transition_ownership_def rbind_Inr_iff split: option.splits if_splits
      intro: update_ownership_row_wf)

lemma keeps_approve [keeps_intros]: "keeps (both wf_db) (sql_approve_cutover sid table label)"
  unfolding sql_approve_cutover_def
  by (intro keeps_intros keeps_both_stmt)
    (auto simp: both_def Let_def split: option.splits)

end
