(* ===== verification/Raw_Store.thy ===== *)
theory Raw_Store
  imports Warehouse "HOL-Library.Product_Lexorder"
begin

text \<open>
  The raw copies of a source's tables: the production copy and the shadow copy, and the functions of
  \<^verbatim>\<open>src/warehouse/schema/platform.sql\<close> that write them: \<^verbatim>\<open>meta.apply_staged_batch\<close> (the only way an
  engine writes rows), \<^verbatim>\<open>meta.promote_shadow\<close>, \<^verbatim>\<open>meta.clear_shadow\<close>, and the comparison
  \<^verbatim>\<open>meta.run_shadow_reconciliation\<close>.  The temporary staging table is the argument \<open>stage\<close>, in the
  order of its \<^verbatim>\<open>_stage_seq\<close>; the digest of a row (\<^verbatim>\<open>md5(ROW(...)::TEXT)\<close>) is a parameter.

  Shown: a batch is accepted only if every row carries the current epoch of a table that is not
  paused and whose owner (or shadow) is the writer, and a refused batch changes nothing; a batch
  touches only the rows it names; a Kafka writer never moves a row back in the log; the two ways
  of deduplicating a batch agree where both apply; promotion moves exactly one source's
  shadow into production; a passed comparison means equal settled rows.
\<close>

section \<open>Staged rows\<close>

record staged =
  st_source :: string
  st_tenant :: string
  st_pk :: int
  st_cols :: "(string \<times> val) list"
  st_generation :: int
  st_lsn :: "int option"
  st_ts :: "int option"
  st_op :: char
  st_unavailable :: "string list"
  st_epoch :: int
  st_target :: string

definition col_val :: "(string \<times> val) list \<Rightarrow> string \<Rightarrow> val" where
  "col_val cols n = (case map_of cols n of None \<Rightarrow> VNull | Some v \<Rightarrow> v)"

definition stage_key :: "staged \<Rightarrow> string \<times> string \<times> int" where
  "stage_key s = (st_source s, st_tenant s, st_pk s)"

text \<open>The WHERE clause of the fence, as the condition a staged row must meet.\<close>

definition writer_ok :: "db \<Rightarrow> string \<Rightarrow> engine \<Rightarrow> staged \<Rightarrow> bool" where
  "writer_ok d table eng s =
     (case map_of (d_ownership d) (st_source s, table) of
        None \<Rightarrow> False
      | Some row \<Rightarrow> (let o1 = w_own row in
          o_epoch o1 = st_epoch s \<and> o_cutover_state o1 \<noteq> PAUSED \<and>
          (st_target s = ''prod'' \<and> o_engine o1 = eng \<or>
           st_target s = ''shadow'' \<and> o_shadow_engine o1 = Some eng)))"

section \<open>Deduplication\<close>

text \<open>\<^verbatim>\<open>ORDER BY _source_generation DESC, _source_lsn DESC NULLS LAST, _stage_seq DESC\<close>\<close>

definition stage_rank :: "staged \<Rightarrow> int \<times> nat \<times> int" where
  "stage_rank s = (- st_generation s, case st_lsn s of None \<Rightarrow> (1, 0) | Some l \<Rightarrow> (0, - l))"

definition newest_first :: "staged list \<Rightarrow> staged list" where
  "newest_first rows = sort_key stage_rank (rev rows)"

definition key_group :: "staged list \<Rightarrow> string \<times> string \<times> int \<Rightarrow> staged list" where
  "key_group rows k = newest_first (filter (\<lambda>s. stage_key s = k) rows)"

text \<open>Newest value of a column over the rows that carry it.\<close>

definition newest_available :: "staged list \<Rightarrow> string \<Rightarrow> val" where
  "newest_available g n =
     (case find (\<lambda>s. n \<notin> set (st_unavailable s)) g of None \<Rightarrow> VNull | Some s \<Rightarrow> col_val (st_cols s) n)"

definition merge_group :: "table_contract \<Rightarrow> staged list \<Rightarrow> staged" where
  "merge_group c g =
     (hd g)\<lparr>st_cols := map (\<lambda>n. (n, if n = tc_primary_key c then col_val (st_cols (hd g)) n
                                     else newest_available g n)) (column_names c),
            st_unavailable := filter (\<lambda>n. n \<noteq> tc_primary_key c \<and> list_all (\<lambda>s. n \<in> set (st_unavailable s)) g)
              (column_names c)\<rparr>"

definition dedup :: "table_contract \<Rightarrow> bool \<Rightarrow> staged list \<Rightarrow> staged list" where
  "dedup c has_unavailable rows =
     map (\<lambda>k. if has_unavailable then merge_group c (key_group rows k) else hd (key_group rows k))
       (remdups (map stage_key rows))"

section \<open>Merging a batch\<close>

definition raw_of :: "string \<Rightarrow> db \<Rightarrow> (raw_key \<times> raw_row) list" where
  "raw_of target d = (if target = ''prod'' then d_raw d else d_shadow d)"

definition set_raw :: "string \<Rightarrow> (raw_key \<times> raw_row) list \<Rightarrow> db \<Rightarrow> db" where
  "set_raw target t d = (if target = ''prod'' then d\<lparr>d_raw := t\<rparr> else d\<lparr>d_shadow := t\<rparr>)"

definition raw_key_of :: "table_contract \<Rightarrow> staged \<Rightarrow> raw_key" where
  "raw_key_of c s = (tc_raw_table c, st_source s, st_tenant s, st_pk s)"

text \<open>A Kafka row replaces a stored row only if it is not older in the log.\<close>

definition log_pos :: "int \<Rightarrow> int option \<Rightarrow> int \<times> int" where
  "log_pos g l = (g, get_or (- 1) l)"

definition merge_guard :: "engine \<Rightarrow> staged \<Rightarrow> raw_row \<Rightarrow> bool" where
  "merge_guard eng s t \<longleftrightarrow>
     (eng = KAFKA \<longrightarrow> log_pos (x_generation t) (x_lsn t) \<le> log_pos (st_generation s) (st_lsn s))"

definition merged_cols :: "table_contract \<Rightarrow> staged \<Rightarrow> raw_row option \<Rightarrow> (string \<times> val) list" where
  "merged_cols c s t = map (\<lambda>n. (n, case t of
       None \<Rightarrow> col_val (st_cols s) n
     | Some r \<Rightarrow> if n \<noteq> tc_primary_key c \<and> (st_op s = CHR ''d'' \<or> n \<in> set (st_unavailable s))
                 then col_val (x_cols r) n else col_val (st_cols s) n)) (column_names c)"

definition merged_row :: "table_contract \<Rightarrow> engine \<Rightarrow> int \<Rightarrow> staged \<Rightarrow> raw_row option \<Rightarrow> raw_row" where
  "merged_row c eng t s old =
     \<lparr>x_cols = merged_cols c s old, x_generation = st_generation s, x_lsn = st_lsn s, x_source_ts = st_ts s,
      x_ingested_at = t, x_engine = engine_value eng, x_deleted = (st_op s = CHR ''d'')\<rparr>"

text \<open>One deduplicated row: the applied row with its previous version, if the guard lets it through.\<close>

definition merge_one :: "table_contract \<Rightarrow> engine \<Rightarrow> int \<Rightarrow> (raw_key \<times> raw_row) list \<Rightarrow> staged \<Rightarrow>
    (raw_key \<times> raw_row \<times> raw_row option) option" where
  "merge_one c eng t tbl s =
     (let k = raw_key_of c s; old = map_of tbl k in
      if (case old of None \<Rightarrow> True | Some r \<Rightarrow> merge_guard eng s r) then Some (k, merged_row c eng t s old, old)
      else None)"

type_synonym applied = "raw_key \<times> raw_row \<times> raw_row option"

text \<open>One statement over the rows of a target: every row sees the table before the statement.\<close>

definition merge_stmt :: "table_contract \<Rightarrow> engine \<Rightarrow> int \<Rightarrow> (raw_key \<times> raw_row) list \<Rightarrow> staged list \<Rightarrow>
    applied list \<times> (raw_key \<times> raw_row) list" where
  "merge_stmt c eng t tbl rows =
     (let applied = List.map_filter (merge_one c eng t tbl) rows in
      (applied, fold (\<lambda>(k, r, _). AList.update k r) applied tbl))"

section \<open>The change log\<close>

definition day_1900 :: int where "day_1900 = - 25567"
definition day_9999 :: int where "day_9999 = 2932896"

definition current_date :: "int \<Rightarrow> int" where
  "current_date t = t div 86400000000"

fun date_of :: "val \<Rightarrow> int option" where
  "date_of (VDate d) = Some d"
| "date_of (VTime t) = Some (t div 86400000000)"
| "date_of _ = None"

fun id_of :: "val \<Rightarrow> int option" where
  "id_of (VInt i) = Some i"
| "id_of _ = None"

definition date_col :: "string option \<Rightarrow> raw_row option \<Rightarrow> int option" where
  "date_col n r = (case (n, r) of (Some m, Some x) \<Rightarrow> date_of (col_val (x_cols x) m) | _ \<Rightarrow> None)"

definition log_changed :: "contract_row \<Rightarrow> applied \<Rightarrow> bool" where
  "log_changed cr a = (case a of (_, new, old) \<Rightarrow>
     (case old of
        None \<Rightarrow> True
      | Some r \<Rightarrow> x_deleted new \<noteq> x_deleted r \<or> cr_history cr = [] \<or>
          map (col_val (x_cols new)) (cr_history cr) \<noteq> map (col_val (x_cols r)) (cr_history cr)))"

definition change_id :: "contract_row \<Rightarrow> applied \<Rightarrow> int option" where
  "change_id cr a = (case cr_change_key cr of None \<Rightarrow> None | Some n \<Rightarrow> id_of (col_val (x_cols (fst (snd a))) n))"

definition affected_date :: "contract_row \<Rightarrow> int \<Rightarrow> applied \<Rightarrow> int" where
  "affected_date cr t a =
     (if log_changed cr a
      then min (get_or day_1900 (date_col (cr_change_date cr) (Some (fst (snd a)))))
             (min (get_or day_9999 (date_col (cr_change_date cr) (snd (snd a)))) (current_date t))
      else current_date t)"

definition owner_of :: "applied \<Rightarrow> string \<times> string" where
  "owner_of a = (fst (snd (fst a)), fst (snd (snd (fst a))))"

definition min_list_int :: "int list \<Rightarrow> int" where
  "min_list_int xs = foldr min (tl xs) (hd xs)"

definition change_log :: "contract_row \<Rightarrow> int \<Rightarrow> applied list \<Rightarrow> change_entry list" where
  "change_log cr t as =
     (if tc_change_entity (cr_table cr) = Some ''loan'' then
        (let keyed = List.map_filter (\<lambda>a. map_option (\<lambda>i. ((owner_of a, i), a)) (change_id cr a)) as in
         map (\<lambda>g. \<lparr>ce_source = fst (fst g), ce_tenant = snd (fst g), ce_entity = ''loan'', ce_entity_id = snd g,
                    ce_min_date = min_list_int (map (\<lambda>ka. affected_date cr t (snd ka))
                      (filter (\<lambda>ka. fst ka = g) keyed))\<rparr>)
           (remdups (map fst keyed)))
      else if tc_change_entity (cr_table cr) = Some ''client'' then
        List.map_filter (\<lambda>a. case change_id cr a of
            None \<Rightarrow> None
          | Some i \<Rightarrow> if log_changed cr a then
              Some \<lparr>ce_source = fst (owner_of a), ce_tenant = snd (owner_of a), ce_entity = ''client'',
                    ce_entity_id = i, ce_min_date = day_1900\<rparr> else None) as
      else if tc_change_entity (cr_table cr) = Some ''global'' then
        map (\<lambda>ow. \<lparr>ce_source = fst ow, ce_tenant = snd ow, ce_entity = ''global'', ce_entity_id = 0,
                    ce_min_date = day_1900\<rparr>) (remdups (map owner_of as))
      else [])"

section \<open>Applying a staged batch\<close>

definition apply_pass :: "contract_row \<Rightarrow> engine \<Rightarrow> int \<Rightarrow> string \<Rightarrow> staged list \<Rightarrow> db \<Rightarrow> applied list \<times> db" where
  "apply_pass cr eng t target rows d =
     (case merge_stmt (cr_table cr) eng t (raw_of target d) rows of (as, tbl) \<Rightarrow>
        (as, let d1 = set_raw target tbl d in
             if target = ''prod'' then d1\<lparr>d_changes := d_changes d1 @ change_log cr t as\<rparr> else d1))"

definition apply_target :: "contract_row \<Rightarrow> engine \<Rightarrow> int \<Rightarrow> bool \<Rightarrow> staged list \<Rightarrow> string \<Rightarrow> db \<Rightarrow>
    (string \<times> int \<times> int) list \<times> db" where
  "apply_target cr eng t has_unavailable stage target d =
     (let rows = dedup (cr_table cr) has_unavailable (filter (\<lambda>s. st_target s = target) stage) in
      case apply_pass cr eng t target (filter (\<lambda>s. st_unavailable s = []) rows) d of (a1, d1) \<Rightarrow>
      case (if has_unavailable then apply_pass cr eng t target (filter (\<lambda>s. st_unavailable s \<noteq> []) rows) d1
            else ([], d1)) of (a2, d2) \<Rightarrow>
      (let n = int (length (a1 @ a2)) in
       (if n > 0 then [(target, n, int (length (filter (\<lambda>a. x_deleted (fst (snd a))) (a1 @ a2))))] else [], d2)))"

definition apply_staged_batch :: "conn \<Rightarrow> string \<Rightarrow> string \<Rightarrow> staged list \<Rightarrow> ((string \<times> int \<times> int) list \<times> db) result" where
  "apply_staged_batch c table engine stage =
     (let d = k_working c in
      guard (engine \<in> {''PYTHON'', ''KAFKA''}) (DatabaseError ''22023'' (''Unknown engine '' @ engine)) (
      let eng = (if engine = ''PYTHON'' then PYTHON else KAFKA) in
      case table_row d table of
        None \<Rightarrow> Inl (DatabaseError ''FBI02'' (''Unknown contract table '' @ table))
      | Some cr \<Rightarrow>
          guard (list_all (writer_ok d table eng) stage)
            (DatabaseError ''FBI01'' (''Writer '' @ engine @ '' fenced for table '' @ table)) (
          let has_unavailable = list_ex (\<lambda>s. st_unavailable s \<noteq> []) stage in
          case apply_target cr eng (now c) has_unavailable stage ''prod'' d of (r1, d1) \<Rightarrow>
          case apply_target cr eng (now c) has_unavailable stage ''shadow'' d1 of (r2, d2) \<Rightarrow>
          Inr (r1 @ r2, d2))))"

section \<open>Promotion and clearing\<close>

definition of_source :: "string \<Rightarrow> string \<Rightarrow> raw_key \<Rightarrow> bool" where
  "of_source raw sid k \<longleftrightarrow> fst k = raw \<and> fst (snd k) = sid"

definition promote_shadow :: "string \<Rightarrow> string \<Rightarrow> db \<Rightarrow> (int \<times> db) result" where
  "promote_shadow sid table d =
     (case table_row d table of
        None \<Rightarrow> Inl (DatabaseError ''FBI02'' (''Unknown contract table '' @ table))
      | Some cr \<Rightarrow>
          (let raw = tc_raw_table (cr_table cr);
               moved = filter (\<lambda>kr. of_source raw sid (fst kr)) (d_shadow d) in
           Inr (int (length moved),
             d\<lparr>d_raw := filter (\<lambda>kr. \<not> of_source raw sid (fst kr)) (d_raw d) @ moved,
               d_shadow := filter (\<lambda>kr. \<not> of_source raw sid (fst kr)) (d_shadow d),
               d_changes := d_changes d @
                 (case map_of (d_registry d) sid of
                    None \<Rightarrow> []
                  | Some s \<Rightarrow> [\<lparr>ce_source = sid, ce_tenant = s_tenant_id s, ce_entity = ''source'',
                                ce_entity_id = 0, ce_min_date = day_1900\<rparr>])\<rparr>)))"

text \<open>For an unknown table the generated statement names no relation, which is an SQL error.\<close>

definition clear_shadow :: "string \<Rightarrow> string \<Rightarrow> db \<Rightarrow> (int \<times> db) result" where
  "clear_shadow sid table d =
     (case table_row d table of
        None \<Rightarrow> Inl (DatabaseError ''22004'' ''null values cannot be formatted as an SQL identifier'')
      | Some cr \<Rightarrow>
          (let raw = tc_raw_table (cr_table cr) in
           Inr (int (length (filter (\<lambda>kr. of_source raw sid (fst kr)) (d_shadow d))),
             d\<lparr>d_shadow := filter (\<lambda>kr. \<not> of_source raw sid (fst kr)) (d_shadow d),
               d_watermarks := filter (\<lambda>(k, _). k \<noteq> (sid, table, ''shadow'')) (d_watermarks d)\<rparr>)))"

section \<open>Comparing shadow and production\<close>

type_synonym row_digest = "val list \<Rightarrow> string"

definition compared_columns :: "table_contract \<Rightarrow> string list" where
  "compared_columns c = map c_name (filter (\<lambda>col. \<not> c_synthetic col \<and> \<not> c_pii col) (tc_columns c))"

definition live_rows :: "string \<Rightarrow> string \<Rightarrow> (raw_key \<times> raw_row) list \<Rightarrow> (raw_key \<times> raw_row) list" where
  "live_rows raw sid tbl = filter (\<lambda>(k, r). of_source raw sid k \<and> \<not> x_deleted r) tbl"

text \<open>\<^verbatim>\<open>GREATEST\<close> ignores NULLs; a row that is missing contributes none of its times.\<close>

definition row_times :: "raw_row option \<Rightarrow> int list" where
  "row_times r = (case r of None \<Rightarrow> []
     | Some x \<Rightarrow> x_ingested_at x # (case x_source_ts x of None \<Rightarrow> [] | Some ts \<Rightarrow> [ts]))"

definition settled :: "int \<Rightarrow> raw_row option \<Rightarrow> raw_row option \<Rightarrow> bool" where
  "settled bound p s \<longleftrightarrow> list_all (\<lambda>x. x < bound) (row_times p @ row_times s)"

definition row_digest_of :: "row_digest \<Rightarrow> table_contract \<Rightarrow> raw_row option \<Rightarrow> string" where
  "row_digest_of digest c r = digest (map (\<lambda>n. case r of None \<Rightarrow> VNull | Some x \<Rightarrow> col_val (x_cols x) n)
     (compared_columns c))"

record shadow_counts =
  sc_compared :: int
  sc_mismatched :: int
  sc_missing_prod :: int
  sc_missing_shadow :: int
  sc_sample :: "int list"

definition sql_reconcile_shadow :: "row_digest \<Rightarrow> int \<Rightarrow> string \<Rightarrow> string \<Rightarrow> int \<Rightarrow> db \<Rightarrow> shadow_counts result" where
  "sql_reconcile_shadow digest t sid table settle_seconds d =
     (case table_row d table of
        None \<Rightarrow> Inl (DatabaseError ''FBI02'' (''Unknown contract table '' @ table))
      | Some cr \<Rightarrow>
          (let c = cr_table cr;
               p = live_rows (tc_raw_table c) sid (d_raw d);
               s = live_rows (tc_raw_table c) sid (d_shadow d);
               j = filter (\<lambda>k. settled (t - settle_seconds * 1000000) (map_of p k) (map_of s k))
                     (remdups (map fst p @ map fst s));
               differs = (\<lambda>k. row_digest_of digest c (map_of p k) \<noteq> row_digest_of digest c (map_of s k)) in
           Inr \<lparr>sc_compared = int (length j),
                sc_mismatched = int (length (filter (\<lambda>k. differs k \<and> map_of p k \<noteq> None \<and> map_of s k \<noteq> None) j)),
                sc_missing_prod = int (length (filter (\<lambda>k. map_of p k = None) j)),
                sc_missing_shadow = int (length (filter (\<lambda>k. map_of s k = None) j)),
                sc_sample = map (\<lambda>k. snd (snd (snd k))) (take 20 (filter differs j))\<rparr>))"

definition sql_run_shadow_reconciliation ::
    "row_digest \<Rightarrow> string \<Rightarrow> string \<Rightarrow> int \<Rightarrow> (int \<times> bool \<times> shadow_counts \<times> int) dbop" where
  "sql_run_shadow_reconciliation digest sid table settle_seconds =
     sbind (query (\<lambda>c.
       rbind (sql_int (setting (k_working c) ''reconciliation_max_settle_seconds'' ''3600'')) (\<lambda>max_settle.
       rbind (sql_int (setting (k_working c) ''reconciliation_max_discrepancies'' ''0'')) (\<lambda>tolerance.
       let settle = min (max settle_seconds 0) max_settle in
       rbind (sql_reconcile_shadow digest (now c) sid table settle (k_working c)) (\<lambda>v.
       Inr (settle, sc_mismatched v + sc_missing_prod v + sc_missing_shadow v \<le> tolerance, v)))))) (\<lambda>(settle, passed, v).
     sbind (sput (\<lambda>c. c\<lparr>k_run_seq := k_run_seq c + 1\<rparr>)) (\<lambda>_.
     stmt (\<lambda>c. Inr ((k_run_seq c, passed, v, settle),
       (k_working c)\<lparr>d_runs := d_runs (k_working c) @
         [\<lparr>rr_id = k_run_seq c, rr_source = sid, rr_table = table, rr_comparison = ''shadow_vs_prod'',
           rr_status = (if passed then ''PASSED'' else ''FAILED''), rr_compared = sc_compared v,
           rr_mismatched = sc_mismatched v, rr_missing_left = sc_missing_prod v,
           rr_missing_right = sc_missing_shadow v, rr_started_at = now c, rr_finished_at = Some (now c)\<rparr>]\<rparr>))))"

section \<open>Deduplicated rows\<close>

lemma set_newest_first [simp]: "set (newest_first rows) = set rows"
  by (simp add: newest_first_def)

lemma newest_first_Nil [simp]: "newest_first rows = [] \<longleftrightarrow> rows = []"
  by (metis set_empty set_newest_first)

lemma key_group_hd:
  assumes "k \<in> stage_key ` set rows"
  shows "key_group rows k \<noteq> []" "hd (key_group rows k) \<in> set rows" "stage_key (hd (key_group rows k)) = k"
proof -
  from assms show ne: "key_group rows k \<noteq> []" by (auto simp: key_group_def filter_empty_conv)
  then have "hd (key_group rows k) \<in> set (key_group rows k)" by simp
  then show "hd (key_group rows k) \<in> set rows" "stage_key (hd (key_group rows k)) = k"
    by (auto simp: key_group_def)
qed

lemma merge_group_key [simp]: "stage_key (merge_group c g) = stage_key (hd g)"
  by (simp add: merge_group_def stage_key_def)

lemma dedup_keys: "map stage_key (dedup c u rows) = remdups (map stage_key rows)"
  by (auto simp: dedup_def key_group_hd intro!: map_idI)

lemma distinct_dedup: "distinct (map stage_key (dedup c u rows))"
  by (simp add: dedup_keys)

lemma dedup_available:
  assumes "list_all (\<lambda>s. st_unavailable s = []) rows"
  shows "list_all (\<lambda>s. st_unavailable s = []) (dedup c False rows)"
proof -
  have "st_unavailable (hd (key_group rows k)) = []" if "k \<in> stage_key ` set rows" for k
    using key_group_hd(2)[OF that] assms by (simp add: list_all_iff)
  then show ?thesis by (simp add: dedup_def list_all_iff)
qed

text \<open>Where no staged row has an unavailable column, merging and picking the newest row agree.\<close>

lemma merge_group_available:
  assumes "g \<noteq> []" and "list_all (\<lambda>s. st_unavailable s = []) g"
  shows "merge_group c g = (hd g)\<lparr>st_cols := map (\<lambda>n. (n, col_val (st_cols (hd g)) n)) (column_names c)\<rparr>"
proof -
  from assms have hd: "st_unavailable (hd g) = []" and f: "find (\<lambda>s. n \<notin> set (st_unavailable s)) g = Some (hd g)" for n
    by (cases g; simp)+
  from assms have "\<not> list_all (\<lambda>s. n \<in> set (st_unavailable s)) g" for n by (cases g) auto
  with f hd show ?thesis by (simp add: merge_group_def newest_available_def)
qed

lemma newest_first_hd:
  assumes "s \<in> set rows"
  shows "stage_rank (hd (newest_first rows)) \<le> stage_rank s"
proof -
  have "sorted (map stage_rank (newest_first rows))" by (simp add: newest_first_def)
  moreover obtain x xs where "newest_first rows = x # xs" "s = x \<or> s \<in> set xs"
    using assms set_newest_first[of rows] by (cases "newest_first rows") auto
  ultimately show ?thesis by auto
qed

section \<open>What a statement does to a row\<close>

lemma stage_key_inj: "raw_key_of c s = raw_key_of c s' \<longleftrightarrow> stage_key s = stage_key s'"
  by (auto simp: raw_key_of_def stage_key_def)

lemma merge_one_Some: "merge_one c eng t tbl s = Some (k, r, old) \<Longrightarrow> k = raw_key_of c s"
  by (auto simp: merge_one_def Let_def split: if_splits)

definition merged_value :: "table_contract \<Rightarrow> engine \<Rightarrow> int \<Rightarrow> (raw_key \<times> raw_row) list \<Rightarrow> staged list \<Rightarrow>
    raw_key \<Rightarrow> raw_row option" where
  "merged_value c eng t tbl rows k =
     (case find (\<lambda>s. raw_key_of c s = k) rows of
        None \<Rightarrow> map_of tbl k
      | Some s \<Rightarrow> if (case map_of tbl k of None \<Rightarrow> True | Some r \<Rightarrow> merge_guard eng s r)
                  then Some (merged_row c eng t s (map_of tbl k)) else map_of tbl k)"

lemma fold_merge_lookup:
  assumes "distinct (map stage_key rows)"
  shows "map_of (fold (\<lambda>(k, r, _). AList.update k r) (List.map_filter (merge_one c eng t tbl) rows) acc) k =
    (case find (\<lambda>s. raw_key_of c s = k) rows of
       None \<Rightarrow> map_of acc k
     | Some s \<Rightarrow> (case merge_one c eng t tbl s of None \<Rightarrow> map_of acc k | Some (_, r, _) \<Rightarrow> Some r))"
  using assms
proof (induction rows arbitrary: acc)
  case (Cons s rows)
  have other: "find (\<lambda>s'. raw_key_of c s' = raw_key_of c s) rows = None"
    using Cons.prems by (auto simp: find_None_iff stage_key_inj image_iff)
  show ?case
  proof (cases "merge_one c eng t tbl s")
    case None
    with Cons other show ?thesis by (auto simp: List.map_filter_simps split: option.splits)
  next
    case (Some a)
    obtain k' r' old' where a: "a = (k', r', old')" by (cases a)
    with Some have "k' = raw_key_of c s" by (simp add: merge_one_Some)
    with a Some Cons other show ?thesis by (auto simp: List.map_filter_simps split: option.splits)
  qed
qed (simp add: List.map_filter_simps)

lemma merge_stmt_lookup:
  assumes "distinct (map stage_key rows)"
  shows "map_of (snd (merge_stmt c eng t tbl rows)) k = merged_value c eng t tbl rows k"
proof -
  have "raw_key_of c s = k" if "find (\<lambda>s. raw_key_of c s = k) rows = Some s" for s
    using find_Some_name[OF that] by simp
  then show ?thesis
    using fold_merge_lookup[OF assms, of c eng t tbl tbl k]
    by (auto simp: merge_stmt_def merged_value_def merge_one_def Let_def split: option.splits if_splits)
qed

section \<open>What a batch does to a row\<close>

lemma raw_of_set_raw [simp]:
  "raw_of target (set_raw target tbl d) = tbl"
  "target \<noteq> target' \<Longrightarrow> target \<in> {''prod'', ''shadow''} \<Longrightarrow> target' \<in> {''prod'', ''shadow''} \<Longrightarrow>
     raw_of target' (set_raw target tbl d) = raw_of target' d"
  by (auto simp: raw_of_def set_raw_def)

lemma raw_of_changes [simp]: "raw_of target (d\<lparr>d_changes := x\<rparr>) = raw_of target d"
  by (simp add: raw_of_def)

lemma apply_pass_raw:
  "raw_of target (snd (apply_pass cr eng t target rows d)) =
     snd (merge_stmt (cr_table cr) eng t (raw_of target d) rows)"
  by (simp add: apply_pass_def Let_def split: prod.splits)

lemma apply_pass_other:
  "target \<noteq> target' \<Longrightarrow> target \<in> {''prod'', ''shadow''} \<Longrightarrow> target' \<in> {''prod'', ''shadow''} \<Longrightarrow>
   raw_of target' (snd (apply_pass cr eng t target rows d)) = raw_of target' d"
  by (auto simp: apply_pass_def Let_def split: prod.splits)

lemma find_filter_split:
  assumes "distinct (map f xs)"
  shows "find (\<lambda>x. f x = k) (filter P xs) =
    (case find (\<lambda>x. f x = k) xs of None \<Rightarrow> None | Some x \<Rightarrow> if P x then Some x else None)"
  using assms
proof (induction xs)
  case (Cons x xs)
  have "find (\<lambda>y. f y = f x) xs = None"
    using Cons.prems by (auto simp: find_None_iff image_iff)
  with Cons show ?case by (cases "f x = k") auto
qed simp

lemma apply_target_raw:
  assumes u: "u = list_ex (\<lambda>s. st_unavailable s \<noteq> []) stage"
  shows "map_of (raw_of target (snd (apply_target cr eng t u stage target d))) k =
    merged_value (cr_table cr) eng t (raw_of target d)
      (dedup (cr_table cr) u (filter (\<lambda>s. st_target s = target) stage)) k"
proof -
  let ?c = "cr_table cr" and ?tbl = "raw_of target d"
  let ?rows = "dedup ?c u (filter (\<lambda>s. st_target s = target) stage)"
  let ?r1 = "filter (\<lambda>s. st_unavailable s = []) ?rows" and ?r2 = "filter (\<lambda>s. st_unavailable s \<noteq> []) ?rows"
  have dist: "distinct (map stage_key ?rows)" by (rule distinct_dedup)
  then have d1: "distinct (map stage_key ?r1)" and d2: "distinct (map stage_key ?r2)"
    and dk: "distinct (map (raw_key_of ?c) ?rows)"
    by (auto simp: distinct_map inj_on_def stage_key_inj)
  let ?t1 = "snd (merge_stmt ?c eng t ?tbl ?r1)"
  have t1: "map_of ?t1 k = merged_value ?c eng t ?tbl ?r1 k" using d1 by (rule merge_stmt_lookup)
  have f1: "find (\<lambda>s. raw_key_of ?c s = k) ?r1 = (case find (\<lambda>s. raw_key_of ?c s = k) ?rows of
      None \<Rightarrow> None | Some s \<Rightarrow> if st_unavailable s = [] then Some s else None)"
    and f2: "find (\<lambda>s. raw_key_of ?c s = k) ?r2 = (case find (\<lambda>s. raw_key_of ?c s = k) ?rows of
      None \<Rightarrow> None | Some s \<Rightarrow> if st_unavailable s \<noteq> [] then Some s else None)"
    using dk by (rule find_filter_split)+
  show ?thesis
  proof (cases u)
    case True
    have "map_of (raw_of target (snd (apply_target cr eng t u stage target d))) k =
        map_of (snd (merge_stmt ?c eng t ?t1 ?r2)) k"
      using True by (simp add: apply_target_def Let_def apply_pass_raw split_beta)
    also have "\<dots> = merged_value ?c eng t ?t1 ?r2 k" using d2 by (rule merge_stmt_lookup)
    also have "\<dots> = merged_value ?c eng t ?tbl ?rows k"
      using t1 f1 f2 by (auto simp: merged_value_def split: option.splits)
    finally show ?thesis .
  next
    case False
    with u have "list_all (\<lambda>s. st_unavailable s = []) (filter (\<lambda>s. st_target s = target) stage)"
      by (auto simp: list_all_iff list_ex_iff)
    from dedup_available[OF this, of ?c] False have "?r1 = ?rows" by (simp add: list_all_iff)
    with False t1 show ?thesis by (simp add: apply_target_def Let_def apply_pass_raw split_beta)
  qed
qed

lemma apply_target_other:
  "target \<noteq> target' \<Longrightarrow> target \<in> {''prod'', ''shadow''} \<Longrightarrow> target' \<in> {''prod'', ''shadow''} \<Longrightarrow>
   raw_of target' (snd (apply_target cr eng t u stage target d)) = raw_of target' d"
  by (simp add: apply_target_def Let_def apply_pass_other split_beta)

lemma apply_target_frame:
  "d_ownership (snd (apply_target cr eng t u stage target d)) = d_ownership d"
  "d_audit (snd (apply_target cr eng t u stage target d)) = d_audit d"
  "d_registry (snd (apply_target cr eng t u stage target d)) = d_registry d"
  by (simp_all add: apply_target_def apply_pass_def set_raw_def Let_def split_beta)

lemma apply_target_rest:
  "snd (apply_target cr eng t u stage target d) =
     d\<lparr>d_raw := d_raw (snd (apply_target cr eng t u stage target d)),
       d_shadow := d_shadow (snd (apply_target cr eng t u stage target d)),
       d_changes := d_changes (snd (apply_target cr eng t u stage target d))\<rparr>"
  by (simp add: apply_target_def apply_pass_def set_raw_def Let_def split_beta)

lemma copies_chain:
  "d1 = d\<lparr>d_raw := a, d_shadow := b, d_changes := e\<rparr> \<Longrightarrow> d2 = d1\<lparr>d_raw := a', d_shadow := b', d_changes := e'\<rparr> \<Longrightarrow>
   d2 = d\<lparr>d_raw := a', d_shadow := b', d_changes := e'\<rparr>"
  by simp

lemma apply_staged_batch_rest:
  assumes "apply_staged_batch c table engine stage = Inr (rep, d')"
  shows "d' = (k_working c)\<lparr>d_raw := d_raw d', d_shadow := d_shadow d', d_changes := d_changes d'\<rparr>"
proof -
  let ?u = "list_ex (\<lambda>s. st_unavailable s \<noteq> []) stage"
  define eng where "eng = (if engine = ''PYTHON'' then PYTHON else KAFKA)"
  from assms obtain cr where "table_row (k_working c) table = Some cr"
    and d': "d' = snd (apply_target cr eng (now c) ?u stage ''shadow''
        (snd (apply_target cr eng (now c) ?u stage ''prod'' (k_working c))))"
    by (auto simp: apply_staged_batch_def Let_def eng_def split: option.splits prod.splits)
  define d1 where d1: "d1 = snd (apply_target cr eng (now c) ?u stage ''prod'' (k_working c))"
  have "d1 = (k_working c)\<lparr>d_raw := d_raw d1, d_shadow := d_shadow d1, d_changes := d_changes d1\<rparr>"
    unfolding d1 by (rule apply_target_rest)
  moreover have "d' = d1\<lparr>d_raw := d_raw d', d_shadow := d_shadow d', d_changes := d_changes d'\<rparr>"
    unfolding d' d1[symmetric] by (rule apply_target_rest)
  ultimately show ?thesis by (rule copies_chain)
qed

lemma apply_staged_batch_Inr:
  assumes "apply_staged_batch c table engine stage = Inr (rep, d')"
  obtains cr eng where "engine = engine_value eng" "eng \<in> {PYTHON, KAFKA}" "table_row (k_working c) table = Some cr"
    "list_all (writer_ok (k_working c) table eng) stage"
    "d_ownership d' = d_ownership (k_working c)" "d_audit d' = d_audit (k_working c)"
    "d_registry d' = d_registry (k_working c)"
    "\<And>target k. target \<in> {''prod'', ''shadow''} \<Longrightarrow> map_of (raw_of target d') k =
       merged_value (cr_table cr) eng (now c) (raw_of target (k_working c))
         (dedup (cr_table cr) (list_ex (\<lambda>s. st_unavailable s \<noteq> []) stage)
            (filter (\<lambda>s. st_target s = target) stage)) k"
proof -
  let ?d = "k_working c" and ?u = "list_ex (\<lambda>s. st_unavailable s \<noteq> []) stage"
  define eng where "eng = (if engine = ''PYTHON'' then PYTHON else KAFKA)"
  from assms obtain cr where e: "engine \<in> {''PYTHON'', ''KAFKA''}" and cr: "table_row ?d table = Some cr"
    and ok: "list_all (writer_ok ?d table eng) stage"
    and d': "d' = snd (apply_target cr eng (now c) ?u stage ''shadow''
        (snd (apply_target cr eng (now c) ?u stage ''prod'' ?d)))"
    by (auto simp: apply_staged_batch_def Let_def eng_def split: option.splits prod.splits)
  have raw: "map_of (raw_of target d') k = merged_value (cr_table cr) eng (now c) (raw_of target ?d)
         (dedup (cr_table cr) ?u (filter (\<lambda>s. st_target s = target) stage)) k"
    if "target \<in> {''prod'', ''shadow''}" for target k
    using that unfolding d' by (auto simp: apply_target_raw apply_target_other)
  show thesis
    by (rule that[OF _ _ cr ok _ _ _ raw]) (use e in \<open>auto simp: eng_def d' apply_target_frame\<close>)
qed

lemma dedup_find_None:
  assumes "\<And>s. s \<in> set rows \<Longrightarrow> raw_key_of c s \<noteq> k"
  shows "find (\<lambda>s. raw_key_of c s = k) (dedup c u rows) = None"
proof -
  have "stage_key s \<in> stage_key ` set rows" if "s \<in> set (dedup c u rows)" for s
    using that dedup_keys[of c u rows] by (metis image_eqI set_map set_remdups)
  with assms show ?thesis by (auto simp: find_None_iff stage_key_inj image_iff) (metis stage_key_inj)
qed

lemma dedup_find_Some:
  assumes "s \<in> set rows"
  shows "find (\<lambda>x. raw_key_of c x = raw_key_of c s) (dedup c u rows) =
    Some (if u then merge_group c (key_group rows (stage_key s)) else hd (key_group rows (stage_key s)))"
proof -
  let ?f = "\<lambda>k. if u then merge_group c (key_group rows k) else hd (key_group rows k)"
  have f: "stage_key (?f k) = k" if "k \<in> stage_key ` set rows" for k
    using key_group_hd(3)[OF that] by (simp only: if_distrib[of stage_key] merge_group_key if_cancel)
  have "find (\<lambda>x. stage_key x = k) (map ?f ks) = (if k \<in> set ks then Some (?f k) else None)"
    if "set ks \<subseteq> stage_key ` set rows" for k ks
    using that
  proof (induction ks)
    case (Cons a ks)
    then have "stage_key (?f a) = a" using f[of a] by (simp del: if_split)
    with Cons show ?case by (simp only: list.simps find.simps) (auto simp del: if_split simp: if_distribR)
  qed simp
  from this[of "remdups (map stage_key rows)" "stage_key s"] assms
  show ?thesis by (simp add: dedup_def stage_key_inj)
qed

text \<open>
  C2: Fencing.  A batch is accepted only if, for every staged row, the source owns a row of the
  table whose epoch is the one the writer staged with, which is not paused, and whose engine
  (for production rows) or shadow engine (for shadow rows) is the writer.  An accepted batch
  changes neither ownership, audit nor registry, and no stored row other than the ones it names,
  in the copy it names them for.
\<close>

theorem staged_batch_fenced_and_framed:
  assumes "apply_staged_batch c table engine stage = Inr (rep, d')"
  shows "(\<forall>s \<in> set stage. \<exists>row. map_of (d_ownership (k_working c)) (st_source s, table) = Some row \<and>
       o_epoch (w_own row) = st_epoch s \<and> o_cutover_state (w_own row) \<noteq> PAUSED \<and>
       (st_target s = ''prod'' \<and> engine_value (o_engine (w_own row)) = engine \<or>
        st_target s = ''shadow'' \<and> map_option engine_value (o_shadow_engine (w_own row)) = Some engine)) \<and>
    d_ownership d' = d_ownership (k_working c) \<and> d_audit d' = d_audit (k_working c) \<and>
    d_registry d' = d_registry (k_working c) \<and>
    (\<forall>target \<in> {''prod'', ''shadow''}. \<forall>raw sid tenant pk.
       (\<forall>s \<in> set stage. (st_target s, st_source s, st_tenant s, st_pk s) \<noteq> (target, sid, tenant, pk)) \<longrightarrow>
       map_of (raw_of target d') (raw, sid, tenant, pk) = map_of (raw_of target (k_working c)) (raw, sid, tenant, pk))"
  using assms
proof (rule apply_staged_batch_Inr)
  fix cr eng
  assume e: "engine = engine_value eng" and ok: "list_all (writer_ok (k_working c) table eng) stage"
    and fr: "d_ownership d' = d_ownership (k_working c)" "d_audit d' = d_audit (k_working c)"
      "d_registry d' = d_registry (k_working c)"
    and raw: "\<And>target k. target \<in> {''prod'', ''shadow''} \<Longrightarrow> map_of (raw_of target d') k =
       merged_value (cr_table cr) eng (now c) (raw_of target (k_working c))
         (dedup (cr_table cr) (list_ex (\<lambda>s. st_unavailable s \<noteq> []) stage)
            (filter (\<lambda>s. st_target s = target) stage)) k"
  have same: "map_of (raw_of target d') (raw, sid, tenant, pk) = map_of (raw_of target (k_working c)) (raw, sid, tenant, pk)"
    if "target \<in> {''prod'', ''shadow''}"
      and "\<forall>s \<in> set stage. (st_target s, st_source s, st_tenant s, st_pk s) \<noteq> (target, sid, tenant, pk)"
    for target raw sid tenant pk
  proof -
    have "raw_key_of (cr_table cr) s \<noteq> (raw, sid, tenant, pk)"
      if "s \<in> set (filter (\<lambda>s. st_target s = target) stage)" for s
      using that \<open>\<forall>s \<in> set stage. _ s\<close> by (auto simp: raw_key_of_def)
    then have "find (\<lambda>s. raw_key_of (cr_table cr) s = (raw, sid, tenant, pk))
        (dedup (cr_table cr) u (filter (\<lambda>s. st_target s = target) stage)) = None" for u
      by (rule dedup_find_None)
    then show ?thesis by (simp only: raw[OF that(1)] merged_value_def option.case)
  qed
  have "writer_ok (k_working c) table eng s" if "s \<in> set stage" for s
    using ok that by (simp add: list_all_iff)
  then show ?thesis
    using same fr e by (fastforce simp: writer_ok_def Let_def split: option.splits)
qed

text \<open>
  C18: A Kafka writer never moves a stored row back in the source's log: after any accepted batch
  of its, a row that was stored is still stored, at the same or a later (generation, LSN),
  whatever the batch contains and in whatever order.
\<close>

theorem kafka_rows_never_go_back:
  assumes "apply_staged_batch c table ''KAFKA'' stage = Inr (rep, d')" and "target \<in> {''prod'', ''shadow''}"
    and "map_of (raw_of target (k_working c)) k = Some old"
  shows "\<exists>new. map_of (raw_of target d') k = Some new \<and>
    log_pos (x_generation old) (x_lsn old) \<le> log_pos (x_generation new) (x_lsn new)"
  using assms(1)
proof (rule apply_staged_batch_Inr)
  fix cr eng
  assume "''KAFKA'' = engine_value eng"
    and raw: "\<And>target k. target \<in> {''prod'', ''shadow''} \<Longrightarrow> map_of (raw_of target d') k =
       merged_value (cr_table cr) eng (now c) (raw_of target (k_working c))
         (dedup (cr_table cr) (list_ex (\<lambda>s. st_unavailable s \<noteq> []) stage)
            (filter (\<lambda>s. st_target s = target) stage)) k"
  then have "eng = KAFKA" by (cases eng) simp_all
  then show ?thesis
    using raw[OF assms(2), of k] assms(3)
    by (simp add: merged_value_def merge_guard_def merged_row_def split: option.splits)
qed

lemma col_val_map: "n \<in> set ns \<Longrightarrow> col_val (map (\<lambda>m. (m, f m)) ns) n = f n"
  by (simp add: col_val_def map_of_map_restrict restrict_map_def)

lemma merged_cols_fresh:
  assumes "st_op s \<noteq> CHR ''d''" and "st_unavailable s = []" and "n \<in> set (column_names c)"
  shows "col_val (merged_cols c s old) n = col_val (st_cols s) n"
  unfolding merged_cols_def using assms by (subst col_val_map) (auto split: option.splits)

text \<open>
  What the Python engine stages is what the copy holds afterwards.  For an accepted batch of
  live rows with all their columns, every staged key is stored, live and marked as written by
  Python, with the columns of a staged row of that key that no other staged row of the key and
  target outranks in (generation, LSN).
\<close>

theorem python_batch_readback:
  assumes "apply_staged_batch c table ''PYTHON'' stage = Inr (rep, d')"
    and "list_all (\<lambda>s. st_op s \<noteq> CHR ''d'' \<and> st_unavailable s = []) stage"
    and "s \<in> set stage" and "table_row (k_working c) table = Some cr"
  shows "\<exists>row w. map_of (raw_of (st_target s) d') (raw_key_of (cr_table cr) s) = Some row \<and>
    \<not> x_deleted row \<and> x_engine row = ''PYTHON'' \<and> x_ingested_at row = now c \<and>
    w \<in> set stage \<and> st_target w = st_target s \<and> stage_key w = stage_key s \<and>
    (\<forall>n \<in> set (column_names (cr_table cr)). col_val (x_cols row) n = col_val (st_cols w) n) \<and>
    (\<forall>v \<in> set stage. st_target v = st_target s \<and> stage_key v = stage_key s \<longrightarrow> stage_rank w \<le> stage_rank v)"
  using assms(1)
proof (rule apply_staged_batch_Inr)
  fix cr' eng
  assume e: "''PYTHON'' = engine_value eng" and cr': "table_row (k_working c) table = Some cr'"
    and ok: "list_all (writer_ok (k_working c) table eng) stage"
    and raw: "\<And>target k. target \<in> {''prod'', ''shadow''} \<Longrightarrow> map_of (raw_of target d') k =
       merged_value (cr_table cr') eng (now c) (raw_of target (k_working c))
         (dedup (cr_table cr') (list_ex (\<lambda>s. st_unavailable s \<noteq> []) stage)
            (filter (\<lambda>s. st_target s = target) stage)) k"
  let ?c = "cr_table cr" and ?rows = "filter (\<lambda>v. st_target v = st_target s) stage"
  let ?k = "raw_key_of ?c s" and ?g = "filter (\<lambda>v. stage_key v = stage_key s) ?rows"
  define w where "w = hd (key_group ?rows (stage_key s))"
  from e have eng: "eng = PYTHON" by (cases eng) simp_all
  from cr' assms(4) have [simp]: "cr' = cr" by simp
  from ok assms(3) have tgt: "st_target s \<in> {''prod'', ''shadow''}"
    by (auto simp: list_all_iff writer_ok_def Let_def split: option.splits)
  have u: "\<not> list_ex (\<lambda>s. st_unavailable s \<noteq> []) stage"
    using assms(2) by (auto simp: list_all_iff list_ex_iff)
  have in_rows: "s \<in> set ?rows" using assms(3) by simp
  then have "stage_key s \<in> stage_key ` set ?rows" by (rule imageI)
  then have w: "w \<in> set ?rows" "stage_key w = stage_key s"
    unfolding w_def by (rule key_group_hd)+
  have "find (\<lambda>x. raw_key_of ?c x = ?k) (dedup ?c False ?rows) = Some w"
    using dedup_find_Some[OF in_rows, of ?c False] by (simp add: w_def)
  with raw[OF tgt, of ?k] u have
    stored: "map_of (raw_of (st_target s) d') ?k =
      Some (merged_row ?c PYTHON (now c) w (map_of (raw_of (st_target s) (k_working c)) ?k))"
    by (simp add: merged_value_def eng merge_guard_def option.case_eq_if)
  have fresh: "st_op w \<noteq> CHR ''d''" "st_unavailable w = []"
    using w(1) assms(2) by (auto simp: list_all_iff)
  have rank: "stage_rank w \<le> stage_rank v" if "v \<in> set stage" "st_target v = st_target s" "stage_key v = stage_key s" for v
    unfolding w_def key_group_def by (rule newest_first_hd) (use that in simp)
  show ?thesis
    using stored fresh w rank by (intro exI) (auto simp: merged_row_def merged_cols_fresh)
qed

section \<open>Promotion\<close>

text \<open>
  Promotion replaces the production copy of one source's table by its shadow: afterwards
  production holds for this source and raw table exactly what the shadow held, the shadow holds
  nothing for it, and every other source and table is untouched in both copies.
\<close>

theorem promote_moves_shadow:
  assumes "promote_shadow sid table d = Inr (n, d')" and "table_row d table = Some cr"
  defines "raw \<equiv> tc_raw_table (cr_table cr)"
  shows "(\<forall>k. map_of (d_raw d') k = (if of_source raw sid k then map_of (d_shadow d) k else map_of (d_raw d) k)) \<and>
    (\<forall>k. map_of (d_shadow d') k = (if of_source raw sid k then None else map_of (d_shadow d) k)) \<and>
    n = int (length (filter (\<lambda>kr. of_source raw sid (fst kr)) (d_shadow d))) \<and>
    d_ownership d' = d_ownership d \<and> d_audit d' = d_audit d"
proof -
  have d': "d_raw d' = filter (\<lambda>kr. \<not> of_source raw sid (fst kr)) (d_raw d) @
        filter (\<lambda>kr. of_source raw sid (fst kr)) (d_shadow d)"
      "d_shadow d' = filter (\<lambda>kr. \<not> of_source raw sid (fst kr)) (d_shadow d)"
      "n = int (length (filter (\<lambda>kr. of_source raw sid (fst kr)) (d_shadow d)))"
      "d_ownership d' = d_ownership d" "d_audit d' = d_audit d"
    using assms(1,2) unfolding raw_def by (auto simp: promote_shadow_def Let_def)
  note look = map_of_filter_fst[of "of_source raw sid"] map_of_filter_fst[of "\<lambda>k. \<not> of_source raw sid k"]
  have "map_of (d_raw d') k = (if of_source raw sid k then map_of (d_shadow d) k else map_of (d_raw d) k)" for k
    unfolding d' map_of_append map_add_def look by (cases "map_of (d_shadow d) k"; cases "map_of (d_raw d) k") simp_all
  moreover have "map_of (d_shadow d') k = (if of_source raw sid k then None else map_of (d_shadow d) k)" for k
    unfolding d' look by simp
  ultimately show ?thesis using d'(3-5) by blast
qed

section \<open>A passed comparison\<close>

lemma filter_count_zero: "int (length (filter P xs)) \<le> 0 \<longleftrightarrow> (\<forall>x \<in> set xs. \<not> P x)"
  by (simp add: filter_empty_conv)

text \<open>
  A shadow comparison without discrepancies is a statement about the data: every row of the
  source that is live in production or in the shadow, and settled, is live in both, and its
  compared columns have the same digest in both.
\<close>

theorem clean_comparison_means_equal_rows:
  assumes "sql_reconcile_shadow digest t sid table settle d = Inr v" and "table_row d table = Some cr"
    and "sc_mismatched v + sc_missing_prod v + sc_missing_shadow v \<le> 0"
  defines "c \<equiv> cr_table cr"
  defines "p \<equiv> map_of (live_rows (tc_raw_table c) sid (d_raw d))"
    and "s \<equiv> map_of (live_rows (tc_raw_table c) sid (d_shadow d))"
  shows "\<forall>k. (p k \<noteq> None \<or> s k \<noteq> None) \<and> settled (t - settle * 1000000) (p k) (s k) \<longrightarrow>
    (\<exists>x y. p k = Some x \<and> s k = Some y \<and>
       digest (map (col_val (x_cols x)) (compared_columns c)) = digest (map (col_val (x_cols y)) (compared_columns c)))"
proof (intro allI impI)
  fix k
  assume k: "(p k \<noteq> None \<or> s k \<noteq> None) \<and> settled (t - settle * 1000000) (p k) (s k)"
  let ?P = "live_rows (tc_raw_table c) sid (d_raw d)" and ?S = "live_rows (tc_raw_table c) sid (d_shadow d)"
  let ?j = "filter (\<lambda>k. settled (t - settle * 1000000) (p k) (s k)) (remdups (map fst ?P @ map fst ?S))"
  let ?differs = "\<lambda>k. row_digest_of digest c (p k) \<noteq> row_digest_of digest c (s k)"
  have "p k \<noteq> None \<or> s k \<noteq> None \<Longrightarrow> k \<in> set (map fst ?P @ map fst ?S)"
    unfolding p_def s_def by (auto simp: map_of_eq_None_iff)
  with k have kj: "k \<in> set ?j" by auto
  have v: "sc_mismatched v = int (length (filter (\<lambda>k. ?differs k \<and> p k \<noteq> None \<and> s k \<noteq> None) ?j))"
      "sc_missing_prod v = int (length (filter (\<lambda>k. p k = None) ?j))"
      "sc_missing_shadow v = int (length (filter (\<lambda>k. s k = None) ?j))"
    using assms(1,2) unfolding p_def s_def c_def by (auto simp: sql_reconcile_shadow_def Let_def)
  with assms(3) have "int (length (filter (\<lambda>k. ?differs k \<and> p k \<noteq> None \<and> s k \<noteq> None) ?j)) \<le> 0"
    "int (length (filter (\<lambda>k. p k = None) ?j)) \<le> 0" "int (length (filter (\<lambda>k. s k = None) ?j)) \<le> 0"
    by linarith+
  then have "\<forall>k \<in> set ?j. \<not> (?differs k \<and> p k \<noteq> None \<and> s k \<noteq> None)" "\<forall>k \<in> set ?j. p k \<noteq> None" "\<forall>k \<in> set ?j. s k \<noteq> None"
    unfolding filter_count_zero by blast+
  with kj have "p k \<noteq> None" "s k \<noteq> None" "\<not> ?differs k" by blast+
  then obtain x y where xy: "p k = Some x" "s k = Some y" by blast
  with \<open>\<not> ?differs k\<close> show "\<exists>x y. p k = Some x \<and> s k = Some y \<and>
       digest (map (col_val (x_cols x)) (compared_columns c)) = digest (map (col_val (x_cols y)) (compared_columns c))"
    by (auto simp: row_digest_of_def)
qed

end
