(* ===== verification/Ownership_Repo.thy ===== *)
theory Ownership_Repo
  imports Raw_Store
begin

text \<open>
  \<^verbatim>\<open>src/controlplane/ownership_repo.py\<close>: reading ownership rows, the settings and evidence a transition
  needs, and \<open>apply_ownership\<close>, the handler every change of ownership goes through: it takes a
  request for a set of tables of a source, runs the state machine on each row under its lock,
  stores the result through \<^verbatim>\<open>meta.transition_ownership\<close> (with its triggers, from \<open>Warehouse\<close>),
  moves the data, and commits once, or per table for a cutover.  The contract file is the argument
  \<open>ct\<close>; \<^verbatim>\<open>VACUUM\<close> has no logical effect and swallows its errors.

  Shown: a request other than a cutover is all or nothing; a cutover commits a prefix of its
  tables; an accepted request moves each named row exactly as the state machine says and no
  other row; the audit trail only grows, by one entry per changed row; every operation keeps the
  tables well formed; and without a platform administrator an engine changes only by a first
  assignment or a justified cutover.
\<close>

section \<open>Reading\<close>

definition row_for :: "db \<Rightarrow> string \<Rightarrow> string \<Rightarrow> ownership_row option" where
  "row_for d sid table = map_of (d_ownership d) (sid, table)"

definition engine_matches :: "engine \<Rightarrow> ownership \<Rightarrow> bool" where
  "engine_matches e o1 \<longleftrightarrow> o_engine o1 = e \<or> o_shadow_engine o1 = Some e"

definition list_ownership :: "string option \<Rightarrow> engine option \<Rightarrow> ownership list dbop" where
  "list_ownership sid eng = sget (\<lambda>c.
     map (\<lambda>kr. w_own (snd kr)) (sort_key fst (filter (\<lambda>kr.
         (truthy sid \<longrightarrow> sid = Some (fst (fst kr))) \<and>
         (case eng of None \<Rightarrow> True | Some e \<Rightarrow> engine_matches e (w_own (snd kr))))
       (d_ownership (k_working c)))))"

definition get_ownership :: "string \<Rightarrow> string \<Rightarrow> ownership dbop" where
  "get_ownership sid table = query (\<lambda>c. case row_for (k_working c) sid table of
     None \<Rightarrow> Inl (KeyError (''No ownership row for '' @ sid @ ''/'' @ table))
   | Some row \<Rightarrow> Inr (w_own row))"

definition ensure_rows :: "string \<Rightarrow> string list \<Rightarrow> int dbop" where
  "ensure_rows sid tables = stmt (\<lambda>c. ensure_ownership_rows c sid (sorted_set tables))"

definition dual_control_required :: "bool dbop" where
  "dual_control_required = sget (\<lambda>c. py_lower (setting (k_working c) ''require_dual_control'' ''true'') = ''true'')"

definition dual_control_mode :: "string dbop" where
  "dual_control_mode = sget (\<lambda>c. py_lower (setting (k_working c) ''dual_control_mode'' ''parameter''))"

text \<open>
  \<^verbatim>\<open>reconciliation_is_valid\<close>: the same condition as the trigger's, on the row as it is stored now.  A
  setting that is no integer is taken to fail the query.
\<close>

definition reconciliation_is_valid :: "ownership \<Rightarrow> bool dbop" where
  "reconciliation_is_valid o1 = query (\<lambda>c.
     case o_last_reconciliation_id o1 of
       None \<Rightarrow> Inr False
     | Some rid \<Rightarrow>
         rbind (sql_int (setting (k_working c) ''reconciliation_max_age_minutes'' ''120'')) (\<lambda>max_age.
         Inr (\<exists>r \<in> set (d_runs (k_working c)). run_justifies (now c) max_age rid (own_key o1)
           (case row_for (k_working c) (o_source_id o1) (o_table_name o1) of
              None \<Rightarrow> None | Some row \<Rightarrow> w_shadow_started_at row) r)))"

definition database_approver :: "ownership \<Rightarrow> string option dbop" where
  "database_approver o1 = sget (\<lambda>c.
     case row_for (k_working c) (o_source_id o1) (o_table_name o1) of
       None \<Rightarrow> None
     | Some row \<Rightarrow>
         (case sort_key (\<lambda>a. - ap_at a)
             (filter (approval_counts (k_session_user c) (own_key o1) (o_epoch o1) (w_shadow_db_user row))
               (d_approvals (k_working c))) of
            [] \<Rightarrow> None
          | a # _ \<Rightarrow> Some (ap_db_user a)))"

definition approve_cutover :: "string \<Rightarrow> string list \<Rightarrow> string option \<Rightarrow> int list dbop" where
  "approve_cutover sid tables label =
     son_error
       (sbind (sfor (sorted_set tables) (\<lambda>table. sql_approve_cutover sid table label)) (\<lambda>ids.
        sbind commit (\<lambda>_. sret ids)))
       rollback"

section \<open>Applying a request\<close>

text \<open>The request as the state machine sees it: what the caller sent plus what the database knows.\<close>

definition complete_request :: "string \<Rightarrow> string \<Rightarrow> bool \<Rightarrow> string \<Rightarrow> transition_request \<Rightarrow> ownership \<Rightarrow>
    transition_request dbop" where
  "complete_request sid table dual mode req current =
     (let fields = req\<lparr>r_require_dual_control := dual\<rparr> in
      if r_action req = CUTOVER then
        sbind (reconciliation_is_valid current) (\<lambda>valid.
        let fields = fields\<lparr>r_reconciliation_valid := Some valid\<rparr> in
        if dual \<and> mode = ''database'' then
          sbind (database_approver current) (\<lambda>approver.
          case approver of
            None \<Rightarrow> sraise (TransitionError (sid @ ''/'' @ table @ '': dual_control_mode=database needs an '' @
              ''approval recorded by a different database login (controlplane approve-cutover)''))
          | Some a \<Rightarrow> sret (fields\<lparr>r_approved_by := Some a, r_database_enforced_approval := True\<rparr>))
        else sret fields)
      else sret fields)"

definition request_ctx :: "transition_request \<Rightarrow> audit_ctx" where
  "request_ctx treq = \<lparr>ac_action = action_value (r_action treq), ac_actor = r_actor treq,
     ac_approved_by = get_or [] (r_approved_by treq), ac_reason = r_reason treq\<rparr>"

definition run_effect :: "string \<Rightarrow> string \<Rightarrow> side_effect \<Rightarrow> int dbop" where
  "run_effect sid table eff = (case eff of
     PROMOTE_SHADOW \<Rightarrow> stmt (\<lambda>c. promote_shadow sid table (k_working c))
   | CLEAR_SHADOW \<Rightarrow> stmt (\<lambda>c. clear_shadow sid table (k_working c)))"

definition store_result :: "string \<Rightarrow> string \<Rightarrow> transition_request \<Rightarrow> transition_result \<Rightarrow> transition_result dbop" where
  "store_result sid table treq result =
     sbind (stmt (\<lambda>c. transition_ownership c sid table (o_epoch (t_previous result)) (t_current result)
              (request_ctx treq))) (\<lambda>found.
     sbind (if found then sret () else
              sraise (RuntimeError (''Optimistic concurrency failure on '' @ sid @ ''/'' @ table))) (\<lambda>_.
     sbind (sfor (t_side_effects result) (run_effect sid table)) (\<lambda>_.
     sret result)))"

definition move_table :: "string \<Rightarrow> bool \<Rightarrow> string \<Rightarrow> transition_request \<Rightarrow> string \<Rightarrow> transition_result dbop" where
  "move_table sid dual mode req table =
     sbind (get_ownership sid table) (\<lambda>current.
     sbind (complete_request sid table dual mode req current) (\<lambda>treq.
     sbind (slift (transition current treq)) (\<lambda>result.
     store_result sid table treq result)))"

definition apply_table :: "contract \<Rightarrow> string \<Rightarrow> bool \<Rightarrow> string \<Rightarrow> transition_request \<Rightarrow> string \<Rightarrow>
    transition_result dbop" where
  "apply_table ct sid dual mode req table =
     sbind (move_table sid dual mode req table) (\<lambda>result.
     sbind (swhen (r_action req = CUTOVER)
       (sbind commit (\<lambda>_. sbind (slift (contract_table ct table)) (\<lambda>_. sret ())))) (\<lambda>_.
     sret result))"

definition bump_generation :: "string \<Rightarrow> db \<Rightarrow> db" where
  "bump_generation sid d = (case map_of (d_registry d) sid of
     None \<Rightarrow> d
   | Some s \<Rightarrow> d\<lparr>d_registry := AList.update sid (s\<lparr>s_capture_generation := s_capture_generation s + 1\<rparr>) (d_registry d)\<rparr>)"

definition apply_ownership :: "contract \<Rightarrow> string \<Rightarrow> string list \<Rightarrow> transition_request \<Rightarrow> transition_result list dbop" where
  "apply_ownership ct sid tables req =
     sbind dual_control_required (\<lambda>dual.
     sbind dual_control_mode (\<lambda>mode.
     sbind commit (\<lambda>_.
     son_error
       (sbind (sfor (sorted_set tables) (apply_table ct sid dual mode req)) (\<lambda>results.
        sbind (swhen (r_action req = START_SHADOW \<and> r_engine req = Some KAFKA \<and> results \<noteq> [])
          (stmt (\<lambda>c. Inr ((), bump_generation sid (k_working c))))) (\<lambda>_.
        sbind commit (\<lambda>_. sret results))))
       rollback)))"

section \<open>One table\<close>

lemma complete_request_state: "complete_request sid table dual mode req o1 c = (r, c') \<Longrightarrow> c' = c"
  by (auto simp: complete_request_def reconciliation_is_valid_def database_approver_def Let_def sbind_def sx_simps
      split: if_splits sum.splits option.splits list.splits prod.splits)

text \<open>What the handler may add to a request: the settings and the database's evidence.\<close>

definition same_request :: "bool \<Rightarrow> transition_request \<Rightarrow> transition_request \<Rightarrow> bool" where
  "same_request dual req treq \<longleftrightarrow> r_action treq = r_action req \<and> r_actor treq = r_actor req \<and>
     r_reason treq = r_reason req \<and> r_engine treq = r_engine req \<and>
     r_reconciliation_passed treq = r_reconciliation_passed req \<and>
     r_reconciliation_id treq = r_reconciliation_id req \<and> r_require_dual_control treq = dual \<and>
     (r_action req \<noteq> CUTOVER \<longrightarrow> r_approved_by treq = r_approved_by req)"

lemma complete_request_same:
  "complete_request sid table dual mode req o1 c = (Inr treq, c') \<Longrightarrow> same_request dual req treq"
  by (auto simp: complete_request_def reconciliation_is_valid_def database_approver_def same_request_def
      Let_def sbind_def sx_simps split: if_splits sum.splits option.splits list.splits prod.splits)

lemma transition_requester:
  assumes "transition o1 req = Inr res" and "o_shadow_engine (t_current res) = None"
    and "o_shadow_engine o1 = None \<longrightarrow> o_shadow_requested_by o1 = None"
  shows "o_shadow_requested_by (t_current res) = None"
  using assms by (cases "r_action req") (auto simp: transition_unfold split: if_splits)

text \<open>The side effects move data; they leave ownership, evidence and audit alone.\<close>

definition same_control :: "db \<Rightarrow> db \<Rightarrow> bool" where
  "same_control d d' \<longleftrightarrow> d_ownership d' = d_ownership d \<and> d_audit d' = d_audit d \<and> d_runs d' = d_runs d \<and>
     d_approvals d' = d_approvals d \<and> d_settings d' = d_settings d \<and> d_registry d' = d_registry d \<and>
     d_contract d' = d_contract d"

definition same_session :: "conn \<Rightarrow> conn \<Rightarrow> bool" where
  "same_session c c' \<longleftrightarrow> k_session_user c' = k_session_user c \<and> k_admin c' = k_admin c \<and> k_clock c' = k_clock c"

text \<open>What a cutover's justification reads.\<close>

definition same_evidence :: "db \<Rightarrow> db \<Rightarrow> bool" where
  "same_evidence d d' \<longleftrightarrow> d_runs d' = d_runs d \<and> d_approvals d' = d_approvals d \<and> d_settings d' = d_settings d \<and>
     d_registry d' = d_registry d \<and> d_contract d' = d_contract d"

lemma run_effect_keeps:
  "keeps (\<lambda>c'. k_committed c' = k_committed c \<and> k_txn c' = k_txn c \<and> same_session c c' \<and> same_control d (k_working c'))
     (run_effect sid table eff)"
  by (cases eff)
    (auto simp: keeps_def run_effect_def sx_simps promote_shadow_def clear_shadow_def Let_def same_control_def
      same_session_def split: sum.splits prod.splits option.splits)

lemma effects_frame:
  assumes "sfor effs (run_effect sid table) c = (r, c')"
  shows "k_committed c' = k_committed c \<and> k_txn c' = k_txn c \<and> same_session c c' \<and> same_control (k_working c) (k_working c')"
proof -
  let ?I = "\<lambda>c'. k_committed c' = k_committed c \<and> k_txn c' = k_txn c \<and> same_session c c' \<and>
    same_control (k_working c) (k_working c')"
  have "keeps ?I (sfor effs (run_effect sid table))" by (rule keeps_sfor) (rule run_effect_keeps)
  moreover have "?I c" by (simp add: same_control_def same_session_def)
  ultimately show ?thesis using assms by (rule keeps_run)
qed

lemma transition_ownership_True:
  assumes "transition_ownership c sid table e cur ctx = Inr (True, d)" and "wf_db (k_working c)"
  obtains old new where "row_for (k_working c) sid table = Some old" "o_epoch (w_own old) = e"
    "wf_ownership (w_own new)"
    "guard_ownership_update c old (old\<lparr>w_own := (w_own old)\<lparr>o_engine := o_engine cur,
        o_shadow_engine := o_shadow_engine cur, o_cutover_state := o_cutover_state cur, o_epoch := o_epoch cur,
        o_last_reconciliation_id := o_last_reconciliation_id cur,
        o_shadow_requested_by := o_shadow_requested_by cur\<rparr>,
      w_updated_by := ac_actor ctx, w_change_reason := Some (ac_reason ctx)\<rparr>) = Inr new"
    "d = (k_working c)\<lparr>d_ownership := AList.update (sid, table) new (d_ownership (k_working c)),
           d_audit := d_audit (k_working c) @ audit_ownership_change c ctx old new\<rparr>"
proof -
  from assms(1) obtain old where old: "map_of (d_ownership (k_working c)) (sid, table) = Some old" "o_epoch (w_own old) = e"
    and upd: "update_ownership_row c ctx old (old\<lparr>w_own := (w_own old)\<lparr>o_engine := o_engine cur,
        o_shadow_engine := o_shadow_engine cur, o_cutover_state := o_cutover_state cur, o_epoch := o_epoch cur,
        o_last_reconciliation_id := o_last_reconciliation_id cur,
        o_shadow_requested_by := o_shadow_requested_by cur\<rparr>,
      w_updated_by := ac_actor ctx, w_change_reason := Some (ac_reason ctx)\<rparr>) (k_working c) = Inr d"
    by (auto simp: transition_ownership_def rbind_Inr_iff split: option.splits if_splits)
  show thesis
    using upd
  proof (rule update_ownership_row_Inr)
    fix new
    assume g: "guard_ownership_update (c\<lparr>k_working := k_working c\<rparr>) old (old\<lparr>w_own := (w_own old)\<lparr>o_engine := o_engine cur,
        o_shadow_engine := o_shadow_engine cur, o_cutover_state := o_cutover_state cur, o_epoch := o_epoch cur,
        o_last_reconciliation_id := o_last_reconciliation_id cur,
        o_shadow_requested_by := o_shadow_requested_by cur\<rparr>,
      w_updated_by := ac_actor ctx, w_change_reason := Some (ac_reason ctx)\<rparr>) = Inr new"
      and w: "wf_ownership (w_own new)"
      and d: "d = (k_working c)\<lparr>d_ownership := AList.update (own_key (w_own new)) new (d_ownership (k_working c)),
           d_audit := d_audit (k_working c) @ audit_ownership_change c ctx old new\<rparr>"
    have "own_key (w_own new) = (sid, table)"
      using guard_ownership_update_facts(1)[OF g] wf_db_lookup(1)[OF assms(2) old(1)] by simp
    with that old g w d show thesis by (simp add: row_for_def)
  qed
qed

text \<open>One table moved: from the row before to the row after, with the request that was checked.\<close>

definition moved :: "conn \<Rightarrow> string \<Rightarrow> bool \<Rightarrow> transition_request \<Rightarrow> string \<Rightarrow> transition_result \<Rightarrow> db \<Rightarrow> db \<Rightarrow> bool" where
  "moved c sid dual req table res d d' \<longleftrightarrow>
     (\<exists>old new treq. row_for d sid table = Some old \<and> row_for d' sid table = Some new \<and>
        same_request dual req treq \<and> transition (w_own old) treq = Inr res \<and> w_own new = t_current res \<and>
        (o_engine (w_own new) \<noteq> o_engine (w_own old) \<longrightarrow>
           o_engine (w_own old) = NONE \<and> \<not> w_ever_owned old \<or>
           o_shadow_engine (w_own old) = Some (o_engine (w_own new)) \<and>
             (\<exists>t. cutover_justified (c\<lparr>k_txn := t, k_working := d\<rparr>) old) \<or> k_admin c))"

lemma movedE:
  assumes "moved c sid dual req table res d d'"
  obtains old new treq where "row_for d sid table = Some old" "row_for d' sid table = Some new"
    "same_request dual req treq" "transition (w_own old) treq = Inr res" "w_own new = t_current res"
  using assms unfolding moved_def by (elim exE conjE)

definition audited_at :: "db \<Rightarrow> string \<Rightarrow> string \<Rightarrow> (engine \<times> engine option \<times> cutover_state \<times> int \<times> int option) option" where
  "audited_at d sid table = map_option audited_fields (row_for d sid table)"

definition audit_by :: "string \<Rightarrow> transition_request \<Rightarrow> string list \<Rightarrow> audit_entry list \<Rightarrow> bool" where
  "audit_by sid req tables es \<longleftrightarrow> map a_table es = tables \<and>
     list_all (\<lambda>e. a_source e = sid \<and> a_action e = action_value (r_action req) \<and> a_actor e = r_actor req \<and>
       a_reason e = Some (r_reason req)) es"

lemma transition_actor: "transition o1 req = Inr res \<Longrightarrow> r_actor req \<noteq> [] \<and> r_reason req \<noteq> []"
  by (auto simp: transition_def)

lemma action_value_nonempty [simp]: "action_value a \<noteq> []"
  by (cases a) simp_all

lemma audit_change_by:
  assumes "own_key (w_own new) = (sid, table)" and "same_request dual req treq"
    and "r_actor req \<noteq> []" and "r_reason req \<noteq> []"
  shows "audit_by sid req (if audited_fields new = audited_fields old then [] else [table])
    (audit_ownership_change c (request_ctx treq) old new)"
  using assms
  by (simp add: audit_by_def audit_ownership_change_def own_key_def request_ctx_def nullif_empty_def get_or_def
      same_request_def)

lemma wf_db_same_control: "same_control d d' \<Longrightarrow> wf_db d' = wf_db d"
  by (simp add: same_control_def wf_db_def)

lemma store_result_Inr:
  assumes "store_result sid table treq result c = (Inr res, c')"
  obtains d1 ns where "res = result"
    "transition_ownership c sid table (o_epoch (t_previous result)) (t_current result) (request_ctx treq) = Inr (True, d1)"
    "sfor (t_side_effects result) (run_effect sid table) (c\<lparr>k_working := d1\<rparr>) = (Inr ns, c')"
proof -
  from assms obtain found c1 where st: "stmt (\<lambda>c. transition_ownership c sid table (o_epoch (t_previous result))
      (t_current result) (request_ctx treq)) c = (Inr found, c1)"
    and m: "sbind (if found then sret () else
              sraise (RuntimeError (''Optimistic concurrency failure on '' @ sid @ ''/'' @ table))) (\<lambda>_.
       sbind (sfor (t_side_effects result) (run_effect sid table)) (\<lambda>_. sret result)) c1 = (Inr res, c')"
    unfolding store_result_def by (rule sbind_InrE)
  from m obtain x c2 where "(if found then sret () else
              sraise (RuntimeError (''Optimistic concurrency failure on '' @ sid @ ''/'' @ table))) c1 = (Inr x, c2)"
    and m2: "sbind (sfor (t_side_effects result) (run_effect sid table)) (\<lambda>_. sret result) c2 = (Inr res, c')"
    by (rule sbind_InrE)
  then have "found" "c2 = c1" by (auto simp: sx_simps split: if_splits)
  moreover from m2 obtain ns c3 where "sfor (t_side_effects result) (run_effect sid table) c2 = (Inr ns, c3)"
    "sret result c3 = (Inr res, c')"
    by (rule sbind_InrE)
  moreover from st obtain d1 where "transition_ownership c sid table (o_epoch (t_previous result)) (t_current result)
      (request_ctx treq) = Inr (found, d1)" "c1 = c\<lparr>k_working := d1\<rparr>"
    by (auto simp: sx_simps split: sum.splits)
  ultimately show thesis using that[of d1 ns] by (simp add: sx_simps)
qed

lemma move_table_steps:
  assumes "move_table sid dual mode req table c = (Inr res, c')"
  obtains old treq d1 ns where "row_for (k_working c) sid table = Some old" "same_request dual req treq"
    "transition (w_own old) treq = Inr res"
    "transition_ownership c sid table (o_epoch (w_own old)) (t_current res) (request_ctx treq) = Inr (True, d1)"
    "sfor (t_side_effects res) (run_effect sid table) (c\<lparr>k_working := d1\<rparr>) = (Inr ns, c')"
proof -
  from assms obtain cur c1 where cur: "get_ownership sid table c = (Inr cur, c1)"
    and m1: "sbind (complete_request sid table dual mode req cur) (\<lambda>treq.
       sbind (slift (transition cur treq)) (\<lambda>result. store_result sid table treq result)) c1 = (Inr res, c')"
    unfolding move_table_def by (rule sbind_InrE)
  from cur obtain old where old: "row_for (k_working c) sid table = Some old" "w_own old = cur" "c1 = c"
    unfolding get_ownership_def query_run by (cases "row_for (k_working c) sid table") simp_all
  from m1 obtain treq c2 where treq: "complete_request sid table dual mode req cur c1 = (Inr treq, c2)"
    and m2: "sbind (slift (transition cur treq)) (\<lambda>result. store_result sid table treq result) c2 = (Inr res, c')"
    by (rule sbind_InrE)
  from treq have c2: "c2 = c1" and same: "same_request dual req treq"
    by (rule complete_request_state, rule complete_request_same)
  from m2 obtain result c3 where "slift (transition cur treq) c2 = (Inr result, c3)"
    and m3: "store_result sid table treq result c3 = (Inr res, c')"
    by (rule sbind_InrE)
  then have tr: "transition (w_own old) treq = Inr result" and c3: "c3 = c" using c2 old by (simp_all add: sx_simps)
  from m3 show thesis
  proof (rule store_result_Inr)
    fix d1 ns
    assume "res = result"
      "transition_ownership c3 sid table (o_epoch (t_previous result)) (t_current result) (request_ctx treq) = Inr (True, d1)"
      "sfor (t_side_effects result) (run_effect sid table) (c3\<lparr>k_working := d1\<rparr>) = (Inr ns, c')"
    with that[OF old(1) same] tr c3 transition_previous[OF tr] show thesis by simp
  qed
qed

lemma move_table_Inr:
  assumes wf: "wf_db (k_working c)" and mv: "move_table sid dual mode req table c = (Inr res, c')"
  shows "moved c sid dual req table res (k_working c) (k_working c')"
    and "\<And>k. k \<noteq> (sid, table) \<Longrightarrow> map_of (d_ownership (k_working c')) k = map_of (d_ownership (k_working c)) k"
    and "\<exists>es. d_audit (k_working c') = d_audit (k_working c) @ es \<and>
      audit_by sid req (if audited_at (k_working c') sid table = audited_at (k_working c) sid table then [] else [table]) es"
    and "k_committed c' = k_committed c" "k_txn c' = k_txn c" "same_session c c'" "wf_db (k_working c')"
    and "same_evidence (k_working c) (k_working c')"
proof -
  from mv obtain old treq d1 ns where old: "row_for (k_working c) sid table = Some old"
    and same: "same_request dual req treq" and tr: "transition (w_own old) treq = Inr res"
    and st: "transition_ownership c sid table (o_epoch (w_own old)) (t_current res) (request_ctx treq) = Inr (True, d1)"
    and eff: "sfor (t_side_effects res) (run_effect sid table) (c\<lparr>k_working := d1\<rparr>) = (Inr ns, c')"
    by (rule move_table_steps)
  let ?cur = "t_current res"
  from st wf obtain new
    where wfo: "wf_ownership (w_own new)"
      and g: "guard_ownership_update c old (old\<lparr>w_own := (w_own old)\<lparr>o_engine := o_engine ?cur,
          o_shadow_engine := o_shadow_engine ?cur, o_cutover_state := o_cutover_state ?cur, o_epoch := o_epoch ?cur,
          o_last_reconciliation_id := o_last_reconciliation_id ?cur,
          o_shadow_requested_by := o_shadow_requested_by ?cur\<rparr>,
        w_updated_by := ac_actor (request_ctx treq), w_change_reason := Some (ac_reason (request_ctx treq))\<rparr>) = Inr new"
      and d1: "d1 = (k_working c)\<lparr>d_ownership := AList.update (sid, table) new (d_ownership (k_working c)),
           d_audit := d_audit (k_working c) @ audit_ownership_change c (request_ctx treq) old new\<rparr>"
    by (rule transition_ownership_True) (use old in simp)
  note facts = guard_ownership_update_facts[OF g, simplified]
  have oldk: "own_key (w_own old) = (sid, table)" "row_ok ((sid, table), old)"
    using wf_db_lookup[OF wf] old by (simp_all add: row_for_def)
  note fr = effects_frame[OF eff, simplified]
  then have own': "d_ownership (k_working c') = AList.update (sid, table) new (d_ownership (k_working c))"
    and aud': "d_audit (k_working c') = d_audit (k_working c) @ audit_ownership_change c (request_ctx treq) old new"
    by (simp_all add: same_control_def d1)
  have new': "row_for (k_working c') sid table = Some new" by (simp add: row_for_def own')
  have req: "o_shadow_requested_by (w_own new) = o_shadow_requested_by ?cur"
  proof (cases "o_shadow_engine ?cur")
    case None
    with transition_requester[OF tr] oldk(2) facts show ?thesis by (simp add: row_ok_def)
  next
    case Some
    with facts show ?thesis by simp
  qed
  have w_new: "w_own new = ?cur"
    using facts(1-6) req transition_keys[OF tr] by (auto simp: own_key_def intro: ownership.equality)
  have eng: "o_engine (w_own new) \<noteq> o_engine (w_own old) \<longrightarrow>
      o_engine (w_own old) = NONE \<and> \<not> w_ever_owned old \<or>
      o_shadow_engine (w_own old) = Some (o_engine (w_own new)) \<and>
        (\<exists>t. cutover_justified (c\<lparr>k_txn := t, k_working := k_working c\<rparr>) old) \<or> k_admin c"
  proof
    assume "o_engine (w_own new) \<noteq> o_engine (w_own old)"
    moreover have "cutover_justified c old \<Longrightarrow> \<exists>t. cutover_justified (c\<lparr>k_txn := t, k_working := k_working c\<rparr>) old"
      by (rule exI[of _ "k_txn c"]) simp
    ultimately show "o_engine (w_own old) = NONE \<and> \<not> w_ever_owned old \<or>
      o_shadow_engine (w_own old) = Some (o_engine (w_own new)) \<and>
        (\<exists>t. cutover_justified (c\<lparr>k_txn := t, k_working := k_working c\<rparr>) old) \<or> k_admin c"
      using guard_ownership_update_engine[OF g] by blast
  qed
  show "moved c sid dual req table res (k_working c) (k_working c')"
    unfolding moved_def using old new' same tr w_new eng by blast
  show "map_of (d_ownership (k_working c')) k = map_of (d_ownership (k_working c)) k" if "k \<noteq> (sid, table)" for k
    using that by (simp add: own')
  show "\<exists>es. d_audit (k_working c') = d_audit (k_working c) @ es \<and>
      audit_by sid req (if audited_at (k_working c') sid table = audited_at (k_working c) sid table then [] else [table]) es"
  proof (intro exI conjI)
    show "d_audit (k_working c') = d_audit (k_working c) @ audit_ownership_change c (request_ctx treq) old new"
      by (rule aud')
    have "own_key (w_own new) = (sid, table)" using facts(1) oldk by simp
    moreover have "r_actor req \<noteq> [] \<and> r_reason req \<noteq> []"
      using transition_actor[OF tr] same by (simp add: same_request_def)
    ultimately show "audit_by sid req
        (if audited_at (k_working c') sid table = audited_at (k_working c) sid table then [] else [table])
        (audit_ownership_change c (request_ctx treq) old new)"
      using audit_change_by[OF _ same] by (simp add: audited_at_def old new')
  qed
  have "row_ok ((sid, table), new)" using wfo facts oldk req w_new by (simp add: row_ok_def)
  then show "wf_db (k_working c')"
    using wf by (simp add: wf_db_def own' list_all_update)
  show "k_committed c' = k_committed c" "k_txn c' = k_txn c" "same_session c c'"
    "same_evidence (k_working c) (k_working c')"
    using fr by (simp_all add: same_session_def same_evidence_def same_control_def d1)
qed

section \<open>Several tables\<close>

lemma moved_session: "same_session c c1 \<Longrightarrow> moved c1 sid dual req t res d d' = moved c sid dual req t res d d'"
  by (simp add: moved_def same_session_def cutover_justified_def now_def)

lemma moved_cong:
  assumes "row_for e sid t = row_for d sid t" and "row_for e' sid t = row_for d' sid t" and "same_evidence d e"
  shows "moved c sid dual req t res e e' = moved c sid dual req t res d d'"
  using assms by (simp add: moved_def cutover_justified_def same_evidence_def now_def setting_def)

text \<open>
  The tables \<open>ts\<close> of source \<open>sid\<close> were moved by the request, from \<open>d\<close> to \<open>d'\<close>: each row by the state
  machine, no other row, one audit entry per changed row.
\<close>

definition all_moved :: "conn \<Rightarrow> string \<Rightarrow> bool \<Rightarrow> transition_request \<Rightarrow> string list \<Rightarrow> db \<Rightarrow> db \<Rightarrow> bool" where
  "all_moved c sid dual req ts d d' \<longleftrightarrow>
     (\<forall>t \<in> set ts. \<exists>res. moved c sid dual req t res d d') \<and>
     (\<forall>k. k \<notin> Pair sid ` set ts \<longrightarrow> map_of (d_ownership d') k = map_of (d_ownership d) k) \<and>
     (\<exists>es. d_audit d' = d_audit d @ es \<and>
        audit_by sid req (filter (\<lambda>t. audited_at d' sid t \<noteq> audited_at d sid t) ts) es) \<and>
     same_evidence d d' \<and> wf_db d'"

lemma all_moved_Nil: "wf_db d \<Longrightarrow> all_moved c sid dual req [] d d"
  by (simp add: all_moved_def audit_by_def same_evidence_def)

lemma audit_by_append: "audit_by sid req xs es \<Longrightarrow> audit_by sid req ys fs \<Longrightarrow> audit_by sid req (xs @ ys) (es @ fs)"
  by (simp add: audit_by_def)

lemma all_moved_Cons:
  assumes one: "all_moved c sid dual req [t] d d1" and rest: "all_moved c sid dual req ts d1 d'" and "t \<notin> set ts"
  shows "all_moved c sid dual req (t # ts) d d'"
proof -
  have ev1: "same_evidence d d1" and ev2: "same_evidence d1 d'" and wf: "wf_db d'"
    and out1: "\<And>k. k \<noteq> (sid, t) \<Longrightarrow> map_of (d_ownership d1) k = map_of (d_ownership d) k"
    and out2: "\<And>k. k \<notin> Pair sid ` set ts \<Longrightarrow> map_of (d_ownership d') k = map_of (d_ownership d1) k"
    using one rest by (simp_all add: all_moved_def del: split_paired_All)
  have t': "row_for d' sid t = row_for d1 sid t" using assms(3) out2 by (auto simp: row_for_def)
  have ts1: "row_for d1 sid u = row_for d sid u" if "u \<in> set ts" for u
  proof -
    have "(sid, u) \<noteq> (sid, t)" using that assms(3) by auto
    then show ?thesis unfolding row_for_def by (rule out1)
  qed
  have "\<exists>res. moved c sid dual req u res d d'" if "u \<in> set (t # ts)" for u
  proof (cases "u = t")
    case True
    have "moved c sid dual req t res d d' = moved c sid dual req t res d d1" for res
      by (rule moved_cong) (simp_all add: t' same_evidence_def)
    with one True show ?thesis by (simp add: all_moved_def)
  next
    case False
    with that have u: "u \<in> set ts" by simp
    with rest obtain res where "moved c sid dual req u res d1 d'" by (auto simp: all_moved_def)
    then have "moved c sid dual req u res d d'"
      using moved_cong[OF ts1[OF u] refl ev1] by simp
    then show ?thesis by blast
  qed
  moreover have "map_of (d_ownership d') k = map_of (d_ownership d) k" if "k \<notin> Pair sid ` set (t # ts)" for k
    using that out1 out2 by auto
  moreover have "\<exists>es. d_audit d' = d_audit d @ es \<and>
        audit_by sid req (filter (\<lambda>t. audited_at d' sid t \<noteq> audited_at d sid t) (t # ts)) es"
  proof -
    from one obtain e1 where e1: "d_audit d1 = d_audit d @ e1"
      "audit_by sid req (filter (\<lambda>t. audited_at d1 sid t \<noteq> audited_at d sid t) [t]) e1"
      by (auto simp: all_moved_def)
    from rest obtain e2 where e2: "d_audit d' = d_audit d1 @ e2"
      "audit_by sid req (filter (\<lambda>t. audited_at d' sid t \<noteq> audited_at d1 sid t) ts) e2"
      by (auto simp: all_moved_def)
    have "filter (\<lambda>t. audited_at d' sid t \<noteq> audited_at d1 sid t) ts =
        filter (\<lambda>t. audited_at d' sid t \<noteq> audited_at d sid t) ts"
      by (rule filter_cong) (simp_all add: audited_at_def ts1)
    moreover have "filter (\<lambda>t. audited_at d1 sid t \<noteq> audited_at d sid t) [t] =
        filter (\<lambda>t. audited_at d' sid t \<noteq> audited_at d sid t) [t]"
      by (simp add: audited_at_def t')
    moreover have "filter P (t # ts) = filter P [t] @ filter P ts" for P :: "string \<Rightarrow> bool" by simp
    ultimately show ?thesis
      using e1 e2 audit_by_append[of sid req _ e1 _ e2] by (metis append_assoc)
  qed
  moreover have "same_evidence d d'" using ev1 ev2 by (simp add: same_evidence_def)
  ultimately show ?thesis using wf by (simp only: all_moved_def) blast
qed

lemma move_table_all_moved:
  assumes "wf_db (k_working c)" and "move_table sid dual mode req table c = (Inr res, c')"
  shows "all_moved c sid dual req [table] (k_working c) (k_working c')"
  using move_table_Inr[OF assms] by (auto simp: all_moved_def)

lemma all_moved_session: "same_session c c1 \<Longrightarrow> all_moved c1 sid dual req ts d d' = all_moved c sid dual req ts d d'"
  by (simp add: all_moved_def moved_session)

lemma apply_table_Inr:
  assumes "apply_table ct sid dual mode req table c = (Inr res, c')"
  obtains c1 where "move_table sid dual mode req table c = (Inr res, c1)"
    "c' = (if r_action req = CUTOVER then c1\<lparr>k_committed := k_working c1, k_txn := k_txn c1 + 1\<rparr> else c1)"
proof -
  from assms obtain r c1 where mv: "move_table sid dual mode req table c = (Inr r, c1)"
    and m: "sbind (swhen (r_action req = CUTOVER)
       (sbind commit (\<lambda>_. sbind (slift (contract_table ct table)) (\<lambda>_. sret ())))) (\<lambda>_. sret r) c1 = (Inr res, c')"
    unfolding apply_table_def by (rule sbind_InrE)
  have "res = r \<and> c' = (if r_action req = CUTOVER then c1\<lparr>k_committed := k_working c1, k_txn := k_txn c1 + 1\<rparr> else c1)"
  proof (cases "r_action req = CUTOVER")
    case True
    with m show ?thesis by (cases "contract_table ct table") (simp_all add: swhen_def sbind_def sx_simps)
  next
    case False
    with m show ?thesis by (simp add: swhen_def sbind_def sx_simps)
  qed
  with mv that show thesis by simp
qed

lemma same_session_trans: "same_session a b \<Longrightarrow> same_session b c \<Longrightarrow> same_session a c"
  by (simp add: same_session_def)

lemma apply_table_facts:
  assumes wf: "wf_db (k_working c)" and ap: "apply_table ct sid dual mode req table c = (Inr res, c')"
  shows "all_moved c sid dual req [table] (k_working c) (k_working c')" "same_session c c'"
    "k_committed c' = (if r_action req = CUTOVER then k_working c' else k_committed c)"
proof -
  from ap obtain c1 where mv: "move_table sid dual mode req table c = (Inr res, c1)"
    and c': "c' = (if r_action req = CUTOVER then c1\<lparr>k_committed := k_working c1, k_txn := k_txn c1 + 1\<rparr> else c1)"
    by (rule apply_table_Inr)
  show "all_moved c sid dual req [table] (k_working c) (k_working c')"
    using move_table_all_moved[OF wf mv] by (simp add: c')
  show "same_session c c'" "k_committed c' = (if r_action req = CUTOVER then k_working c' else k_committed c)"
    using move_table_Inr(4,6)[OF wf mv] by (simp_all add: c' same_session_def)
qed

lemma apply_loop_Inr:
  assumes "wf_db (k_working c)" and "distinct ts" and "sfor ts (apply_table ct sid dual mode req) c = (Inr rs, c')"
  shows "all_moved c sid dual req ts (k_working c) (k_working c')" "same_session c c'"
  using assms
proof (induction ts arbitrary: c rs)
  case Nil
  { case 1 then show ?case by (simp add: sx_simps all_moved_Nil)
  next case 2 then show ?case by (simp add: sx_simps same_session_def) }
next
  case (Cons t ts)
  have step: "all_moved c sid dual req (t # ts) (k_working c) (k_working c') \<and> same_session c c'"
    if wf: "wf_db (k_working c)" and ds: "distinct (t # ts)"
      and run: "sfor (t # ts) (apply_table ct sid dual mode req) c = (Inr rs, c')" for c rs
  proof -
    from run obtain r c1 where ap: "apply_table ct sid dual mode req t c = (Inr r, c1)"
      and m: "sbind (sfor ts (apply_table ct sid dual mode req)) (\<lambda>ys. sret (r # ys)) c1 = (Inr rs, c')"
      unfolding sfor.simps by (rule sbind_InrE)
    from m obtain rs' c2 where m2: "sfor ts (apply_table ct sid dual mode req) c1 = (Inr rs', c2)"
      and "sret (r # rs') c2 = (Inr rs, c')"
      by (rule sbind_InrE)
    then have rest: "sfor ts (apply_table ct sid dual mode req) c1 = (Inr rs', c')" by (simp add: sx_simps)
    note one = apply_table_facts[OF wf ap]
    then have "wf_db (k_working c1)" by (simp add: all_moved_def)
    with ds rest have "all_moved c1 sid dual req ts (k_working c1) (k_working c')" "same_session c1 c'"
      using Cons.IH by auto
    with one ds show ?thesis
      using all_moved_Cons all_moved_session[OF one(2)] same_session_trans by auto
  qed
  { case 1 then show ?case using step by blast
  next case 2 then show ?case using step by blast }
qed

section \<open>Invariants of the operations\<close>

lemma keeps_complete_request [keeps_intros]: "keeps I (complete_request sid table dual mode req o1)"
  by (rule keepsI) (metis complete_request_state prod.collapse)

lemma keeps_get_ownership [keeps_intros]: "keeps I (get_ownership sid table)"
  unfolding get_ownership_def by (rule keeps_query)

lemma keeps_committed_stmt [keeps_intros]: "keeps (\<lambda>c. k_committed c = D) (stmt f)"
  by (auto simp: keeps_def sx_simps split: sum.splits prod.splits)

lemma keeps_committed_effect [keeps_intros]: "keeps (\<lambda>c. k_committed c = D) (run_effect sid table eff)"
  unfolding run_effect_def by (cases eff) (simp_all add: keeps_committed_stmt)

lemma keeps_committed_move: "keeps (\<lambda>c. k_committed c = D) (move_table sid dual mode req table)"
  unfolding move_table_def store_result_def by (intro keeps_intros)

lemma keeps_committed_apply_table:
  "r_action req \<noteq> CUTOVER \<Longrightarrow> keeps (\<lambda>c. k_committed c = D) (apply_table ct sid dual mode req table)"
  unfolding apply_table_def swhen_def by (auto intro!: keeps_sbind keeps_committed_move keeps_sret)

lemma keeps_wf_effect [keeps_intros]: "keeps (both wf_db) (run_effect sid table eff)"
proof -
  have "keeps (both wf_db) (stmt (\<lambda>c. promote_shadow sid table (k_working c)))"
    "keeps (both wf_db) (stmt (\<lambda>c. clear_shadow sid table (k_working c)))"
    by (rule keeps_both_stmt, auto simp: promote_shadow_def clear_shadow_def wf_db_def Let_def split: option.splits)+
  then show ?thesis unfolding run_effect_def by (cases eff) simp_all
qed

lemma keeps_wf_move [keeps_intros]: "keeps (both wf_db) (move_table sid dual mode req table)"
  unfolding move_table_def store_result_def
  by (intro keeps_intros keeps_both_stmt) (rule transition_ownership_wf)

lemma keeps_wf_apply: "keeps (both wf_db) (apply_ownership ct sid tables req)"
  unfolding apply_ownership_def apply_table_def dual_control_required_def dual_control_mode_def
  by (intro keeps_intros keeps_both_stmt) (auto simp: bump_generation_def wf_db_def split: option.splits)

lemma keeps_wf_approve: "keeps (both wf_db) (approve_cutover sid tables label)"
  unfolding approve_cutover_def by (intro keeps_intros)

lemma keeps_wf_ensure: "keeps (both wf_db) (ensure_rows sid tables)"
  unfolding ensure_rows_def
  by (rule keeps_both_stmt) (auto simp: ensure_ownership_rows_def intro: insert_ownership_rows_wf)

text \<open>
  Every state-changing operation of the repository keeps the ownership table well formed
  (unique keys, CHECK constraints, \<^verbatim>\<open>ever_owned\<close> for every owned table, no shadow data without a
  shadow), in what is committed and in what the session sees, whether it returns or raises.
\<close>

theorem repository_keeps_tables:
  assumes "both wf_db c"
  shows "both wf_db (snd (apply_ownership ct sid tables req c)) \<and>
    both wf_db (snd (approve_cutover sid tables label c)) \<and> both wf_db (snd (ensure_rows sid tables c))"
  using keepsD[OF keeps_wf_apply assms] keepsD[OF keeps_wf_approve assms] keepsD[OF keeps_wf_ensure assms] by blast

section \<open>The whole handler\<close>

lemma son_error_Inr: "son_error m h s = (Inr x, t) \<longleftrightarrow> m s = (Inr x, t)"
  by (auto simp: son_error_def split: prod.splits sum.splits)

lemma son_error_rollback:
  assumes "son_error m rollback c = (Inl e, c')"
  obtains c1 where "m c = (Inl e, c1)" "c' = c1\<lparr>k_working := k_committed c1, k_txn := k_txn c1 + 1\<rparr>"
  using assms by (auto simp: son_error_def sx_simps split: prod.splits sum.splits)

definition apply_body :: "contract \<Rightarrow> string \<Rightarrow> string list \<Rightarrow> transition_request \<Rightarrow> bool \<Rightarrow> string \<Rightarrow>
    transition_result list dbop" where
  "apply_body ct sid tables req dual mode =
     sbind (sfor (sorted_set tables) (apply_table ct sid dual mode req)) (\<lambda>results.
     sbind (swhen (r_action req = START_SHADOW \<and> r_engine req = Some KAFKA \<and> results \<noteq> [])
       (stmt (\<lambda>c. Inr ((), bump_generation sid (k_working c))))) (\<lambda>_.
     sbind commit (\<lambda>_. sret results)))"

definition dual_of :: "conn \<Rightarrow> bool" where
  "dual_of c \<longleftrightarrow> py_lower (setting (k_working c) ''require_dual_control'' ''true'') = ''true''"

definition mode_of :: "conn \<Rightarrow> string" where
  "mode_of c = py_lower (setting (k_working c) ''dual_control_mode'' ''parameter'')"

definition fresh_txn :: "conn \<Rightarrow> conn" where
  "fresh_txn c = c\<lparr>k_committed := k_working c, k_txn := k_txn c + 1\<rparr>"

lemma apply_ownership_eq:
  "apply_ownership ct sid tables req c =
     son_error (apply_body ct sid tables req (dual_of c) (mode_of c)) rollback (fresh_txn c)"
  by (simp add: apply_ownership_def apply_body_def dual_control_required_def dual_control_mode_def sbind_def
      sx_simps dual_of_def mode_of_def fresh_txn_def)

lemma apply_body_Inr:
  assumes "apply_body ct sid tables req dual mode c = (Inr rs, c')"
  obtains c1 where "sfor (sorted_set tables) (apply_table ct sid dual mode req) c = (Inr rs, c1)"
    "k_committed c' = k_working c'"
    "k_working c' = (if r_action req = START_SHADOW \<and> r_engine req = Some KAFKA \<and> rs \<noteq> []
       then bump_generation sid (k_working c1) else k_working c1)"
proof -
  from assms obtain rs' c1 where l: "sfor (sorted_set tables) (apply_table ct sid dual mode req) c = (Inr rs', c1)"
    and m: "sbind (swhen (r_action req = START_SHADOW \<and> r_engine req = Some KAFKA \<and> rs' \<noteq> [])
       (stmt (\<lambda>c. Inr ((), bump_generation sid (k_working c))))) (\<lambda>_.
     sbind commit (\<lambda>_. sret rs')) c1 = (Inr rs, c')"
    unfolding apply_body_def by (rule sbind_InrE)
  from m have "rs = rs'" "k_committed c' = k_working c'"
    "k_working c' = (if r_action req = START_SHADOW \<and> r_engine req = Some KAFKA \<and> rs' \<noteq> []
       then bump_generation sid (k_working c1) else k_working c1)"
    by (auto simp: sbind_def swhen_def sx_simps split: if_splits)
  with l that show thesis by simp
qed

lemma apply_failed:
  assumes "apply_ownership ct sid tables req c = (Inl e, c')" and "r_action req \<noteq> CUTOVER"
  shows "k_committed c' = k_working c \<and> k_working c' = k_working c"
proof -
  from assms(1) obtain c1 where b: "apply_body ct sid tables req (dual_of c) (mode_of c) (fresh_txn c) = (Inl e, c1)"
    and c': "c' = c1\<lparr>k_working := k_committed c1, k_txn := k_txn c1 + 1\<rparr>"
    unfolding apply_ownership_eq by (rule son_error_rollback)
  have "k_committed c1 = k_working c"
    using b unfolding apply_body_def
  proof (cases rule: sbind_InlE)
    case first
    have "keeps (\<lambda>x. k_committed x = k_working c)
        (sfor (sorted_set tables) (apply_table ct sid (dual_of c) (mode_of c) req))"
      using assms(2) by (intro keeps_sfor keeps_committed_apply_table)
    from keeps_run[OF this _ first] show ?thesis by (simp add: fresh_txn_def)
  next
    case (second x s')
    then show ?thesis by (auto simp: sbind_def swhen_def sx_simps split: if_splits)
  qed
  with c' show ?thesis by simp
qed

text \<open>
  C16: A request other than a cutover is all or nothing over its tables: if it raises, for
  whatever reason and at whatever table, the committed database is what the session saw when the
  request started, and so is what the session sees now.
\<close>

theorem apply_all_or_nothing:
  assumes "apply_ownership ct sid tables req c = (Inl e, c')" and "r_action req \<noteq> CUTOVER"
  shows "k_committed c' = k_working c \<and> k_working c' = k_working c"
  using assms by (rule apply_failed)

lemma apply_ownership_moved:
  assumes "wf_db (k_working c)" and "apply_ownership ct sid tables req c = (Inr rs, c')"
  obtains d where "all_moved c sid (dual_of c) req (sorted_set tables) (k_working c) d"
    "k_committed c' = k_working c'" "k_working c' = d \<or> r_action req = START_SHADOW \<and> k_working c' = bump_generation sid d"
proof -
  from assms(2) have "apply_body ct sid tables req (dual_of c) (mode_of c) (fresh_txn c) = (Inr rs, c')"
    by (simp add: apply_ownership_eq son_error_Inr)
  then show thesis
  proof (rule apply_body_Inr)
    fix c1
    assume l: "sfor (sorted_set tables) (apply_table ct sid (dual_of c) (mode_of c) req) (fresh_txn c) = (Inr rs, c1)"
      and cw: "k_committed c' = k_working c'"
        "k_working c' = (if r_action req = START_SHADOW \<and> r_engine req = Some KAFKA \<and> rs \<noteq> []
           then bump_generation sid (k_working c1) else k_working c1)"
    have wf: "wf_db (k_working (fresh_txn c))" using assms(1) by (simp add: fresh_txn_def)
    have "same_session c (fresh_txn c)" by (simp add: same_session_def fresh_txn_def)
    with apply_loop_Inr(1)[OF wf distinct_sorted_set l]
    have "all_moved c sid (dual_of c) req (sorted_set tables) (k_working c) (k_working c1)"
      using all_moved_session by (simp add: fresh_txn_def)
    with that cw show thesis by (cases "r_action req = START_SHADOW \<and> r_engine req = Some KAFKA \<and> rs \<noteq> []") simp_all
  qed
qed

lemma bump_generation_frame [simp]:
  "d_ownership (bump_generation sid d) = d_ownership d" "d_audit (bump_generation sid d) = d_audit d"
  "row_for (bump_generation sid d) s t = row_for d s t" "audited_at (bump_generation sid d) s t = audited_at d s t"
  "d_runs (bump_generation sid d) = d_runs d" "wf_db (bump_generation sid d) = wf_db d"
  by (simp_all add: bump_generation_def row_for_def audited_at_def wf_db_def split: option.splits)

text \<open>
  C9: An accepted request is committed, and does exactly what it says: every named table's row
  goes where the state machine takes it from its row before, under the caller's action,
  actor, reason and engine; no row of another table or source changes; and the audit trail is
  extended by one entry, with the caller's actor, action and reason, for each named table
  whose row changed, in the order of the tables.
\<close>

theorem accepted_request_effect:
  assumes "wf_db (k_working c)" and "apply_ownership ct sid tables req c = (Inr rs, c')"
  shows "k_committed c' = k_working c' \<and>
    (\<forall>t \<in> set tables. \<exists>old new treq res. row_for (k_working c) sid t = Some old \<and>
       row_for (k_committed c') sid t = Some new \<and> same_request (dual_of c) req treq \<and>
       transition (w_own old) treq = Inr res \<and> w_own new = t_current res) \<and>
    (\<forall>s t. s \<noteq> sid \<or> t \<notin> set tables \<longrightarrow> row_for (k_committed c') s t = row_for (k_working c) s t) \<and>
    (\<exists>es. d_audit (k_committed c') = d_audit (k_working c) @ es \<and>
       audit_by sid req (filter (\<lambda>t. audited_at (k_committed c') sid t \<noteq> audited_at (k_working c) sid t)
         (sorted_set tables)) es)"
  using assms
proof (rule apply_ownership_moved)
  fix d
  assume am: "all_moved c sid (dual_of c) req (sorted_set tables) (k_working c) d"
    and cw: "k_committed c' = k_working c'" and d: "k_working c' = d \<or> r_action req = START_SHADOW \<and> k_working c' = bump_generation sid d"
  from d have same: "row_for (k_working c') = row_for d" "audited_at (k_working c') = audited_at d"
      "d_audit (k_working c') = d_audit d"
    by (auto simp: fun_eq_iff)
  have rows: "\<forall>t \<in> set tables. \<exists>old new treq res. row_for (k_working c) sid t = Some old \<and>
       row_for d sid t = Some new \<and> same_request (dual_of c) req treq \<and>
       transition (w_own old) treq = Inr res \<and> w_own new = t_current res"
    using am unfolding all_moved_def moved_def by (simp only: set_sorted_set) blast
  have out: "\<forall>s t. s \<noteq> sid \<or> t \<notin> set tables \<longrightarrow> row_for d s t = row_for (k_working c) s t"
  proof (intro allI impI)
    fix s t
    assume "s \<noteq> sid \<or> t \<notin> set tables"
    then have "(s, t) \<notin> Pair sid ` set (sorted_set tables)" by auto
    with am show "row_for d s t = row_for (k_working c) s t"
      unfolding all_moved_def row_for_def by blast
  qed
  from am have aud: "\<exists>es. d_audit d = d_audit (k_working c) @ es \<and>
       audit_by sid req (filter (\<lambda>t. audited_at d sid t \<noteq> audited_at (k_working c) sid t) (sorted_set tables)) es"
    by (simp add: all_moved_def)
  show ?thesis unfolding cw same using cw rows out aud by blast
qed


section \<open>Cutovers\<close>

lemma apply_loop_Inl_cutover:
  assumes "wf_db (k_working c)" and "k_committed c = k_working c" and "distinct ts" and "r_action req = CUTOVER"
    and "sfor ts (apply_table ct sid dual mode req) c = (Inl e, c')"
  shows "\<exists>done rest. ts = done @ rest \<and> all_moved c sid dual req done (k_working c) (k_committed c')"
  using assms
proof (induction ts arbitrary: c)
  case (Cons t ts)
  from Cons.prems(5) show ?case
    unfolding sfor.simps
  proof (cases rule: sbind_InlE)
    case first
    show ?thesis
      using first unfolding apply_table_def
    proof (cases rule: sbind_InlE)
      case first
      from keeps_run[OF keeps_committed_move refl first] have "k_committed c' = k_working c"
        using Cons.prems(2) by simp
      with all_moved_Nil[OF Cons.prems(1)] show ?thesis by (metis append_Nil)
    next
      case (second r c1)
      then have "k_committed c' = k_working c1"
        using Cons.prems(4) by (auto simp: sbind_def swhen_def sx_simps split: sum.splits)
      moreover have "all_moved c sid dual req [t] (k_working c) (k_working c1)"
        using Cons.prems(1) second(1) by (rule move_table_all_moved)
      ultimately show ?thesis by (metis append_Cons append_Nil)
    qed
  next
    case (second r c1)
    note one = apply_table_facts[OF Cons.prems(1) second(1)]
    from second(2) have "sfor ts (apply_table ct sid dual mode req) c1 = (Inl e, c')"
      by (cases rule: sbind_InlE) (simp_all add: sx_simps)
    moreover have "wf_db (k_working c1)" "k_committed c1 = k_working c1"
      using one Cons.prems(4) by (simp_all add: all_moved_def)
    ultimately obtain dn rest where "ts = dn @ rest" "all_moved c1 sid dual req dn (k_working c1) (k_committed c')"
      using Cons.IH Cons.prems(3,4) by (metis distinct.simps(2))
    moreover from this have "all_moved c sid dual req (t # dn) (k_working c) (k_committed c')"
      using all_moved_Cons[OF one(1)] all_moved_session[OF one(2)] Cons.prems(3) by auto
    ultimately show ?thesis by (metis append_Cons)
  qed
qed (simp add: sx_simps)

text \<open>
  C17: A cutover commits table by table.  If it raises, what is committed is the effect of the
  request on an initial segment of its tables in their order (possibly none or all of them),
  each moved completely with its audit entry, and nothing of the others; and the session sees
  exactly what is committed.
\<close>

theorem failed_cutover_commits_prefix:
  assumes "wf_db (k_working c)" and "r_action req = CUTOVER"
    and "apply_ownership ct sid tables req c = (Inl e, c')"
  shows "k_working c' = k_committed c' \<and>
    (\<exists>done rest. sorted_set tables = done @ rest \<and>
       all_moved c sid (dual_of c) req done (k_working c) (k_committed c'))"
proof -
  from assms(3) obtain c1 where b: "apply_body ct sid tables req (dual_of c) (mode_of c) (fresh_txn c) = (Inl e, c1)"
    and c': "c' = c1\<lparr>k_working := k_committed c1, k_txn := k_txn c1 + 1\<rparr>"
    unfolding apply_ownership_eq by (rule son_error_rollback)
  have f: "k_working (fresh_txn c) = k_working c" "k_committed (fresh_txn c) = k_working c"
    "same_session c (fresh_txn c)"
    by (simp_all add: fresh_txn_def same_session_def)
  have "sfor (sorted_set tables) (apply_table ct sid (dual_of c) (mode_of c) req) (fresh_txn c) = (Inl e, c1)"
    using b unfolding apply_body_def
  proof (cases rule: sbind_InlE)
    case (second x s')
    then show ?thesis using assms(2) by (simp add: sbind_def swhen_def sx_simps)
  qed
  from apply_loop_Inl_cutover[OF _ _ distinct_sorted_set assms(2) this] assms(1) f
  have "\<exists>done rest. sorted_set tables = done @ rest \<and>
       all_moved c sid (dual_of c) req done (k_working c) (k_committed c1)"
    using all_moved_session[OF f(3)] by simp
  with c' show ?thesis by simp
qed

end
