(* ===== verification/Pg.thy ===== *)
theory Pg
  imports Warehouse
begin

text \<open>
  \<^verbatim>\<open>src/controlplane/db.py\<close>: connection settings, the transaction block and identifier quoting.  The
  driver itself (\<^verbatim>\<open>pg8000\<close>) and socket options are not modelled; a connection is the one of
  \<open>Warehouse\<close>.  Time-outs are given as integers (the unit is the caller's).

  Shown: quoting is injective and an identifier cannot end its own quotes;
  a transaction block is all or nothing.
\<close>

section \<open>Connection settings\<close>

datatype tls = TlsVerified | TlsUnverified

record pg_config =
  g_host :: string
  g_port :: int
  g_database :: string
  g_user :: string
  g_password :: string
  g_ssl_mode :: string
  g_application_name :: string
  g_timeout :: "int option"
  g_statement_timeout_ms :: "int option"

record pg_kwargs =
  kw_host :: string
  kw_port :: int
  kw_database :: string
  kw_user :: string
  kw_password :: string
  kw_application_name :: string
  kw_timeout :: "int option"
  kw_statement_timeout :: "string option"
  kw_ssl :: "tls option"

fun nonzero :: "int option \<Rightarrow> bool" where
  "nonzero None = False"
| "nonzero (Some i) = (i \<noteq> 0)"

definition connect_kwargs :: "pg_config \<Rightarrow> pg_kwargs" where
  "connect_kwargs g =
     \<lparr>kw_host = g_host g, kw_port = g_port g, kw_database = g_database g, kw_user = g_user g,
      kw_password = g_password g, kw_application_name = g_application_name g,
      kw_timeout = (if nonzero (g_timeout g) then g_timeout g else None),
      kw_statement_timeout =
        (if nonzero (g_statement_timeout_ms g) then Some (int_str (the (g_statement_timeout_ms g))) else None),
      kw_ssl = (if g_ssl_mode g = ''require'' then Some TlsUnverified
                else if g_ssl_mode g = ''verify-full'' then Some TlsVerified else None)\<rparr>"

definition default_source_sslmode :: "os_env \<Rightarrow> string" where
  "default_source_sslmode env = getenv env ''FBI_DEFAULT_SSLMODE'' ''verify-full''"

text \<open>\<^verbatim>\<open>os.getenv(a) or os.getenv(b, d)\<close>\<close>

definition env_or :: "os_env \<Rightarrow> string \<Rightarrow> string \<Rightarrow> string \<Rightarrow> string" where
  "env_or env a b d = (if truthy (e_vars env a) then the (e_vars env a) else getenv env b d)"

definition py_int :: "string \<Rightarrow> int result" where
  "py_int s = (case int_of_str s of Some i \<Rightarrow> Inr i
     | None \<Rightarrow> Inl (ValueError (''invalid literal for int() with base 10: '' @ s)))"

definition warehouse_config_from_env :: "os_env \<Rightarrow> string \<Rightarrow> bool \<Rightarrow> pg_config result" where
  "warehouse_config_from_env env application_name engine =
     (let use_engine = engine \<and> truthy (e_vars env ''WAREHOUSE_ENGINE_USER'');
          user = (if use_engine then the (e_vars env ''WAREHOUSE_ENGINE_USER'')
                  else env_or env ''WAREHOUSE_DB_USER'' ''WAREHOUSE_LOADER_USER'' ''analytics_loader'');
          password = (if use_engine then getenv env ''WAREHOUSE_ENGINE_PASSWORD'' []
                      else env_or env ''WAREHOUSE_DB_PASSWORD'' ''WAREHOUSE_LOADER_PASSWORD'' []) in
      rbind (py_int (getenv env ''WAREHOUSE_DB_PORT'' ''5434'')) (\<lambda>port.
      Inr \<lparr>g_host = getenv env ''WAREHOUSE_DB_HOST'' ''localhost'', g_port = port,
           g_database = getenv env ''WAREHOUSE_DB_NAME'' ''analytics'', g_user = user, g_password = password,
           g_ssl_mode = getenv env ''WAREHOUSE_DB_SSL_MODE'' ''disable'', g_application_name = application_name,
           g_timeout = None, g_statement_timeout_ms = None\<rparr>))"

section \<open>Transactions\<close>

definition transaction :: "'a dbop \<Rightarrow> 'a dbop" where
  "transaction body = son_error (sbind body (\<lambda>x. sbind commit (\<lambda>_. sret x))) rollback"

section \<open>Identifiers\<close>

definition dquote :: char where
  "dquote = CHR 0x22"

definition quote_ident :: "string \<Rightarrow> string" where
  "quote_ident name = [dquote] @ replace_char dquote [dquote, dquote] name @ [dquote]"

text \<open>How SQL reads a quoted identifier: up to the first quote that is not doubled.\<close>

fun read_quoted :: "string \<Rightarrow> (string \<times> string) option" where
  "read_quoted [] = None"
| "read_quoted [c] = (if c = dquote then Some ([], []) else None)"
| "read_quoted (c # d # cs) =
     (if c = dquote then
        (if d = dquote then map_option (\<lambda>(n, r). (c # n, r)) (read_quoted cs) else Some ([], d # cs))
      else map_option (\<lambda>(n, r). (c # n, r)) (read_quoted (d # cs)))"

definition read_ident :: "string \<Rightarrow> (string \<times> string) option" where
  "read_ident s = (case s of [] \<Rightarrow> None | c # cs \<Rightarrow> if c = dquote then read_quoted cs else None)"

lemma read_quoted_step: "c \<noteq> dquote \<Longrightarrow> cs \<noteq> [] \<Longrightarrow> read_quoted (c # cs) = map_option (\<lambda>(n, r). (c # n, r)) (read_quoted cs)"
  by (cases cs) simp_all

lemma read_quoted_replace:
  assumes "rest = [] \<or> hd rest \<noteq> dquote"
  shows "read_quoted (replace_char dquote [dquote, dquote] name @ dquote # rest) = Some (name, rest)"
proof (induction name)
  case Nil
  show ?case using assms by (cases rest) (simp_all add: replace_char_def)
next
  case (Cons c cs)
  then show ?case by (cases "c = dquote") (simp_all add: replace_char_def read_quoted_step)
qed

text \<open>
  Quoting an identifier is safe: SQL reads the quoted text back as exactly the identifier,
  whatever characters it contains, and goes on with whatever follows it (which must not itself be
  a quote); so a table or column name cannot break out of its quotes, and different names
  are quoted differently.
\<close>

theorem quote_ident_roundtrip:
  "(\<forall>name rest. rest = [] \<or> hd rest \<noteq> dquote \<longrightarrow> read_ident (quote_ident name @ rest) = Some (name, rest)) \<and>
   (\<forall>a b. quote_ident a = quote_ident b \<longleftrightarrow> a = b)"
proof -
  have 1: "read_ident (quote_ident name @ rest) = Some (name, rest)" if "rest = [] \<or> hd rest \<noteq> dquote" for name rest
    using read_quoted_replace[OF that, of name] by (simp add: quote_ident_def read_ident_def)
  have "a = b" if "quote_ident a = quote_ident b" for a b
    using 1[of "[]" a] 1[of "[]" b] that by simp
  with 1 show ?thesis by blast
qed

theorem quote_ident_roundtrip_witness:
  "read_ident (quote_ident [CHR ''a'', dquote, CHR '';''] @ '' WHERE'') = Some ([CHR ''a'', dquote, CHR '';''], '' WHERE'')"
  by (rule quote_ident_roundtrip[THEN conjunct1, rule_format]) (simp add: dquote_def)

section \<open>Transaction blocks\<close>

lemma transaction_Inr:
  "transaction body c = (Inr x, c') \<Longrightarrow> \<exists>c1. body c = (Inr x, c1) \<and> k_committed c' = k_working c1 \<and> k_working c' = k_working c1"
  by (auto simp: transaction_def son_error_def sbind_def sx_simps split: prod.splits sum.splits)

lemma transaction_Inl:
  assumes "keeps (\<lambda>c. k_committed c = D) body" and "k_committed c = D" and "transaction body c = (Inl e, c')"
  shows "k_committed c' = D \<and> k_working c' = D"
proof -
  obtain r c1 where b: "body c = (r, c1)" by fastforce
  with assms(1,2) have "k_committed c1 = D" using keeps_run by fast
  with b assms(3) show ?thesis
    by (cases r) (auto simp: transaction_def son_error_def sbind_def sx_simps)
qed

end
