(* ===== verification/Reconcile.thy ===== *)
theory Reconcile
  imports Ownership_Repo Pg "HOL-Library.Multiset"
begin

text \<open>
  \<^verbatim>\<open>src/controlplane/reconcile.py\<close>: comparing a shadow with production (through
  \<^verbatim>\<open>meta.run_shadow_reconciliation\<close>), the cutover gate that drives the state machine with the
  outcome, and the comparison of a source's table with its raw copy, bucket by bucket.

  The source database is outside the program: a source table is the list of its rows, and the
  64-bit row hash (\<^verbatim>\<open>hashtextextended\<close>) and SQL casts are parameters.  The SQL text of the row
  expressions is built as in the code; \<open>source_row_values\<close> and \<open>warehouse_row_values\<close> are the values
  these expressions denote.

  Shown: every key reported missing in the source is in the copy and not in the source (so no
  live row is ever deleted on its account); the report is complete when the copy holds
  all keys of the source; equal tables give a clean report; with keys only, a deleted row can be
  masked by a row not yet copied; after the gate a table that passed is ready for cutover with a
  recorded passed comparison, and one that failed is back in the shadow.
\<close>

section \<open>Results\<close>

record recon_result =
  q_source :: string
  q_table :: string
  q_comparison :: string
  q_compared :: int
  q_mismatched :: int
  q_missing_left :: int
  q_missing_right :: int
  q_sample_keys :: "int list"
  q_missing_in_source_keys :: "int list"
  q_missing_in_warehouse_sample :: "int list"
  q_truncated :: bool

definition discrepancies :: "recon_result \<Rightarrow> int" where
  "discrepancies q = q_mismatched q + q_missing_left q + q_missing_right q"

definition passed :: "recon_result \<Rightarrow> int \<Rightarrow> bool" where
  "passed q max_discrepancies \<longleftrightarrow> discrepancies q \<le> max_discrepancies"

text \<open>\<^verbatim>\<open>meta.record_source_reconciliation\<close> and its caller.\<close>

definition record_run :: "recon_result \<Rightarrow> string \<Rightarrow> int dbop" where
  "record_run q status =
     (if q_comparison q \<noteq> ''source_vs_warehouse'' then
        sraise (ValueError ''shadow_vs_prod runs are computed and recorded by meta.run_shadow_reconciliation'')
      else
        sbind (sput (\<lambda>c. c\<lparr>k_run_seq := k_run_seq c + 1\<rparr>)) (\<lambda>_.
        sbind (stmt (\<lambda>c.
          guard (status \<in> {''RUNNING'', ''PASSED'', ''FAILED'', ''ERROR''})
            (DatabaseError ''23514'' ''violates check constraint'') (
          Inr (k_run_seq c, (k_working c)\<lparr>d_runs := d_runs (k_working c) @
            [\<lparr>rr_id = k_run_seq c, rr_source = q_source q, rr_table = q_table q,
              rr_comparison = ''source_vs_warehouse'', rr_status = status, rr_compared = q_compared q,
              rr_mismatched = q_mismatched q, rr_missing_left = q_missing_left q,
              rr_missing_right = q_missing_right q, rr_started_at = now c, rr_finished_at = Some (now c)\<rparr>]\<rparr>)))) (\<lambda>rid.
        sbind commit (\<lambda>_. sret rid))))"

section \<open>Shadow against production\<close>

definition reconcile_shadow :: "row_digest \<Rightarrow> string \<Rightarrow> string \<Rightarrow> int \<Rightarrow> (int \<times> bool \<times> recon_result) dbop" where
  "reconcile_shadow digest sid table settle_seconds =
     sbind (sql_run_shadow_reconciliation digest sid table settle_seconds) (\<lambda>(rid, ok, v, settle).
     sbind commit (\<lambda>_.
     sret (rid, ok, \<lparr>q_source = sid, q_table = table, q_comparison = ''shadow_vs_prod'',
       q_compared = sc_compared v, q_mismatched = sc_mismatched v, q_missing_left = sc_missing_prod v,
       q_missing_right = sc_missing_shadow v, q_sample_keys = sc_sample v, q_missing_in_source_keys = [],
       q_missing_in_warehouse_sample = [], q_truncated = False\<rparr>)))"

record gate_outcome =
  go_table :: string
  go_reconciliation_id :: int
  go_passed :: bool
  go_compared_rows :: int
  go_discrepancies :: int
  go_sample_keys :: "int list"

definition gate_reason :: "int \<Rightarrow> recon_result \<Rightarrow> string" where
  "gate_reason rid result = ''reconciliation '' @ int_str rid @ '': '' @ int_str (discrepancies result) @
     '' discrepancies over '' @ int_str (q_compared result) @ '' rows''"

definition gate_table :: "contract \<Rightarrow> row_digest \<Rightarrow> string \<Rightarrow> string \<Rightarrow> int \<Rightarrow> int \<Rightarrow> string \<Rightarrow> gate_outcome dbop" where
  "gate_table ct digest sid actor settle_seconds max_discrepancies table =
     sbind (reconcile_shadow digest sid table settle_seconds) (\<lambda>(rid, db_passed, result).
     let ok = (db_passed \<and> passed result max_discrepancies) in
     sbind (apply_ownership ct sid [table]
       ((new_request RECORD_RECONCILIATION actor (gate_reason rid result))
        \<lparr>r_reconciliation_passed := Some ok, r_reconciliation_id := Some rid\<rparr>)) (\<lambda>_.
     sret \<lparr>go_table = table, go_reconciliation_id = rid, go_passed = ok, go_compared_rows = q_compared result,
           go_discrepancies = discrepancies result, go_sample_keys = take 10 (q_sample_keys result)\<rparr>))"

definition run_cutover_gate :: "contract \<Rightarrow> row_digest \<Rightarrow> string \<Rightarrow> string list \<Rightarrow> string \<Rightarrow> int \<Rightarrow> int \<Rightarrow>
    gate_outcome list dbop" where
  "run_cutover_gate ct digest sid tables actor settle_seconds max_discrepancies =
     sbind (apply_ownership ct sid tables (new_request BEGIN_RECONCILIATION actor ''cutover gate started'')) (\<lambda>_.
     sfor (sort tables) (gate_table ct digest sid actor settle_seconds max_discrepancies))"

section \<open>Source against warehouse\<close>

definition exclude_pii :: "os_env \<Rightarrow> bool" where
  "exclude_pii env \<longleftrightarrow> py_lower (py_strip (getenv env ''FBI_EXCLUDE_PII'' ''true'')) \<in> {''1'', ''true'', ''yes'', ''on''}"

definition comparable_columns :: "os_env \<Rightarrow> table_contract \<Rightarrow> column_spec list" where
  "comparable_columns env c = filter (\<lambda>col. \<not> (exclude_pii env \<and> c_pii col)) (business_columns c)"

definition source_candidate :: "string list \<Rightarrow> column_spec \<Rightarrow> string option" where
  "source_candidate available col = find (\<lambda>cand. cand \<in> set available) (cdc_candidates col)"

definition source_row_expression :: "os_env \<Rightarrow> table_contract \<Rightarrow> string list \<Rightarrow> string" where
  "source_row_expression env c available =
     ''ROW('' @ py_join '', '' (map (\<lambda>col. case source_candidate available col of
         Some src \<Rightarrow> if src \<noteq> [] then ''CAST('' @ quote_ident src @ '' AS '' @ c_type col @ '')''
                     else ''CAST(NULL AS '' @ c_type col @ '')''
       | None \<Rightarrow> ''CAST(NULL AS '' @ c_type col @ '')'') (comparable_columns env c)) @ '')::text''"

definition warehouse_row_expression :: "os_env \<Rightarrow> table_contract \<Rightarrow> string" where
  "warehouse_row_expression env c =
     ''ROW('' @ py_join '', '' (map (\<lambda>col. ''CAST('' @ quote_ident (c_name col) @ '' AS '' @ c_type col @ '')'')
       (comparable_columns env c)) @ '')::text''"

type_synonym sql_cast = "string \<Rightarrow> val \<Rightarrow> val"
type_synonym row_hash = "val list \<Rightarrow> int"

definition source_row_values :: "sql_cast \<Rightarrow> os_env \<Rightarrow> table_contract \<Rightarrow> string list \<Rightarrow> (string \<times> val) list \<Rightarrow> val list" where
  "source_row_values cast env c available row =
     map (\<lambda>col. case source_candidate available col of
         Some src \<Rightarrow> if src \<noteq> [] then cast (c_type col) (col_val row src) else cast (c_type col) VNull
       | None \<Rightarrow> cast (c_type col) VNull) (comparable_columns env c)"

definition warehouse_row_values :: "sql_cast \<Rightarrow> os_env \<Rightarrow> table_contract \<Rightarrow> (string \<times> val) list \<Rightarrow> val list" where
  "warehouse_row_values cast env c row = map (\<lambda>col. cast (c_type col) (col_val row (c_name col))) (comparable_columns env c)"

text \<open>Integer division of SQL truncates towards zero.\<close>

definition sql_div :: "int \<Rightarrow> int \<Rightarrow> int" where
  "sql_div a b = (if 0 \<le> a then a div b else - (- a div b))"

text \<open>\<^verbatim>\<open>SELECT pk / width, COUNT(*), SUM(hash) ... GROUP BY 1\<close>, as the code's dictionary; rows are pairs of key and hash.\<close>

definition bucket_aggregates :: "int \<Rightarrow> (int \<times> int) list \<Rightarrow> (int \<times> int \<times> int) list" where
  "bucket_aggregates width rows =
     map (\<lambda>b. let rs = filter (\<lambda>r. sql_div (fst r) width = b) rows in (b, int (length rs), sum_list (map snd rs)))
       (remdups (map (\<lambda>r. sql_div (fst r) width) rows))"

definition bucket_rows :: "int \<Rightarrow> int \<Rightarrow> (int \<times> int) list \<Rightarrow> (int \<times> int) list" where
  "bucket_rows lo hi rows = filter (\<lambda>r. lo \<le> fst r \<and> fst r < hi) rows"

text \<open>A dictionary built from pairs: the last pair of a key counts.\<close>

definition py_dict :: "(int \<times> int) list \<Rightarrow> int \<Rightarrow> int option" where
  "py_dict rows = map_of (rev rows)"

record drill =
  dr_missing_in_wh :: "int list"
  dr_missing_in_src :: "int list"
  dr_mismatched :: int
  dr_sample :: "int list"

definition drill_bucket :: "int \<Rightarrow> (int \<times> int) list \<Rightarrow> (int \<times> int) list \<Rightarrow> drill \<Rightarrow> int \<Rightarrow> drill" where
  "drill_bucket width src wh acc b =
     (let lo = b * width; hi = (b + 1) * width;
          s = bucket_rows lo hi src; w = bucket_rows lo hi wh;
          sk = map fst s; wk = map fst w;
          differing = sorted_set (filter (\<lambda>k. k \<in> set wk \<and> py_dict s k \<noteq> py_dict w k) sk) in
      acc\<lparr>dr_missing_in_wh := dr_missing_in_wh acc @ sorted_set (filter (\<lambda>k. k \<notin> set wk) sk),
          dr_missing_in_src := dr_missing_in_src acc @ sorted_set (filter (\<lambda>k. k \<notin> set sk) wk),
          dr_mismatched := dr_mismatched acc + int (length differing),
          dr_sample := dr_sample acc @ take (20 - length (dr_sample acc)) differing\<rparr>)"

definition mismatched_buckets :: "int \<Rightarrow> (int \<times> int) list \<Rightarrow> (int \<times> int) list \<Rightarrow> int list" where
  "mismatched_buckets width src wh =
     (let sb = bucket_aggregates width src; wb = bucket_aggregates width wh in
      sorted_set (filter (\<lambda>b. map_of sb b \<noteq> map_of wb b) (map fst sb @ map fst wb)))"

definition compare_rows :: "int \<Rightarrow> nat \<Rightarrow> (int \<times> int) list \<Rightarrow> (int \<times> int) list \<Rightarrow> drill" where
  "compare_rows width max_drilldown src wh =
     foldl (drill_bucket width src wh)
       \<lparr>dr_missing_in_wh = [], dr_missing_in_src = [], dr_mismatched = 0, dr_sample = []\<rparr>
       (take max_drilldown (mismatched_buckets width src wh))"

text \<open>The rows of a copy that belong to the source and are live.\<close>

definition warehouse_rows :: "string \<Rightarrow> string \<Rightarrow> string \<Rightarrow> db \<Rightarrow> (int \<times> raw_row) list" where
  "warehouse_rows schema raw sid d =
     map (\<lambda>(k, r). (snd (snd (snd k)), r)) (live_rows raw sid (if schema = ''raw'' then d_raw d else d_shadow d))"

record source_table =
  src_columns :: "string list"
  src_rows :: "(int \<times> (string \<times> val) list) list"

definition source_vs_warehouse :: "sql_cast \<Rightarrow> row_hash \<Rightarrow> os_env \<Rightarrow> source_table \<Rightarrow> string \<Rightarrow> table_contract \<Rightarrow>
    int \<Rightarrow> nat \<Rightarrow> bool \<Rightarrow> string \<Rightarrow> recon_result dbop" where
  "source_vs_warehouse cast hash env st sid c bucket_size max_drilldown keys_only schema =
     (if schema \<notin> {''raw'', ''raw_shadow''} then sraise (ValueError ''warehouse_schema must be raw or raw_shadow'')
      else
        sbind (query (\<lambda>cn.
          let src = map (\<lambda>(k, row). (k, if keys_only then 0 else hash (source_row_values cast env c (src_columns st) row)))
                      (src_rows st);
              wh = map (\<lambda>(k, r). (k, if keys_only then 0 else hash (warehouse_row_values cast env c (x_cols r))))
                      (warehouse_rows schema (tc_raw_table c) sid (k_working cn)) in
          guard (bucket_size \<noteq> 0 \<or> src = [] \<and> wh = []) (DatabaseError ''22012'' ''division by zero'') (Inr (src, wh)))) (\<lambda>(src, wh).
        sbind commit (\<lambda>_.
        let dr = compare_rows bucket_size max_drilldown src wh in
        sbind commit (\<lambda>_.
        sret \<lparr>q_source = sid, q_table = tc_table_name c, q_comparison = ''source_vs_warehouse'',
              q_compared = sum_list (map (fst \<circ> snd) (bucket_aggregates bucket_size src)),
              q_mismatched = dr_mismatched dr, q_missing_left = int (length (dr_missing_in_wh dr)),
              q_missing_right = int (length (dr_missing_in_src dr)), q_sample_keys = dr_sample dr,
              q_missing_in_source_keys = dr_missing_in_src dr,
              q_missing_in_warehouse_sample = take 20 (dr_missing_in_wh dr),
              q_truncated = (max_drilldown < length (mismatched_buckets bucket_size src wh))\<rparr>))))"

section \<open>What the comparison reports\<close>

lemma foldl_missing_in_src:
  "dr_missing_in_src (foldl (drill_bucket w src wh) acc bs) = dr_missing_in_src acc @
     concat (map (\<lambda>b. sorted_set (filter (\<lambda>k. k \<notin> fst ` set (bucket_rows (b * w) ((b + 1) * w) src))
       (map fst (bucket_rows (b * w) ((b + 1) * w) wh)))) bs)"
  by (induction bs arbitrary: acc) (simp_all add: drill_bucket_def Let_def)

lemma missing_in_src_iff:
  "k \<in> set (dr_missing_in_src (compare_rows w n src wh)) \<longleftrightarrow>
     k \<in> fst ` set wh \<and> k \<notin> fst ` set src \<and>
     (\<exists>b \<in> set (take n (mismatched_buckets w src wh)). b * w \<le> k \<and> k < (b + 1) * w)"
proof -
  have keys: "fst ` set (bucket_rows lo hi rows) = {k \<in> fst ` set rows. lo \<le> k \<and> k < hi}" for lo hi rows
    unfolding bucket_rows_def by (rule keys_filter_fst)
  have "set (dr_missing_in_src (compare_rows w n src wh)) =
      (\<Union>b \<in> set (take n (mismatched_buckets w src wh)). fst ` set (bucket_rows (b * w) ((b + 1) * w) wh) -
         fst ` set (bucket_rows (b * w) ((b + 1) * w) src))"
    unfolding compare_rows_def foldl_missing_in_src by auto
  then show ?thesis unfolding keys by blast
qed

lemma sql_div_nonneg: "0 \<le> a \<Longrightarrow> sql_div a b = a div b"
  by (simp add: sql_div_def)

lemma div_bucket: "0 < (w :: int) \<Longrightarrow> k div w * w \<le> k \<and> k < (k div w + 1) * w"
  by (metis add.commute add_less_cancel_left mult.commute mult_div_mod_eq nle_le pos_mod_bound pos_mod_sign
      add_le_same_cancel1 distrib_right mult_1 le_add_same_cancel1)

lemma bucket_aggregates_lookup:
  "map_of (bucket_aggregates w rows) b =
     (let rs = filter (\<lambda>r. sql_div (fst r) w = b) rows in
      if rs = [] then None else Some (int (length rs), sum_list (map snd rs)))"
proof -
  have "map_of (bucket_aggregates w rows) b = (if b \<in> (\<lambda>r. sql_div (fst r) w) ` set rows
      then Some (let rs = filter (\<lambda>r. sql_div (fst r) w = b) rows in (int (length rs), sum_list (map snd rs))) else None)"
    by (simp add: bucket_aggregates_def Let_def map_of_map_restrict restrict_map_def)
  then show ?thesis by (auto simp: Let_def filter_empty_conv)
qed

lemma mismatched_iff:
  "b \<in> set (mismatched_buckets w src wh) \<longleftrightarrow> map_of (bucket_aggregates w src) b \<noteq> map_of (bucket_aggregates w wh) b"
proof -
  have "b \<in> fst ` set xs \<or> b \<in> fst ` set ys" if "map_of xs b \<noteq> map_of ys b" for xs ys :: "(int \<times> int \<times> int) list"
    using that map_of_eq_None_iff[of xs b] map_of_eq_None_iff[of ys b] by (cases "map_of xs b") auto
  then show ?thesis unfolding mismatched_buckets_def Let_def set_sorted_set set_filter by auto
qed

text \<open>A key that is only in the copy makes its bucket differ, if the copy has every key of the source.\<close>

lemma extra_key_mismatch:
  assumes "distinct (map fst src)" and "distinct (map fst wh)" and "fst ` set src \<subseteq> fst ` set wh"
    and "k \<in> fst ` set wh" and "k \<notin> fst ` set src"
  shows "sql_div k w \<in> set (mismatched_buckets w src wh)"
proof -
  let ?P = "\<lambda>r. sql_div (fst r) w = sql_div k w"
  let ?S = "map fst (filter ?P src)" and ?W = "map fst (filter ?P wh)"
  have "distinct ?S" "distinct ?W" using assms(1,2) by (simp_all add: distinct_map_filter)
  moreover have "set ?S \<subset> set ?W"
  proof (rule psubsetI)
    have keys: "set (map fst (filter ?P rows)) = {j \<in> fst ` set rows. sql_div j w = sql_div k w}"
      for rows :: "(int \<times> int) list"
      unfolding set_map by (rule keys_filter_fst)
    show "set ?S \<subseteq> set ?W" unfolding keys using assms(3) by blast
    have "k \<in> set ?W" "k \<notin> set ?S" unfolding keys using assms(4,5) by blast+
    then show "set ?S \<noteq> set ?W" by blast
  qed
  ultimately have "length ?S < length ?W"
    by (metis distinct_card psubset_card_mono finite_set)
  then have "map_of (bucket_aggregates w src) (sql_div k w) \<noteq> map_of (bucket_aggregates w wh) (sql_div k w)"
    by (auto simp: bucket_aggregates_lookup Let_def)
  then show ?thesis by (simp add: mismatched_iff)
qed

lemma compare_complete:
  assumes "0 < w" and "distinct (map fst src)" and "distinct (map fst wh)" and "fst ` set src \<subseteq> fst ` set wh"
    and "\<forall>k \<in> fst ` set wh. 0 \<le> k" and "length (mismatched_buckets w src wh) \<le> n"
  shows "set (dr_missing_in_src (compare_rows w n src wh)) = fst ` set wh - fst ` set src"
proof (intro subset_antisym subsetI)
  fix k
  assume "k \<in> fst ` set wh - fst ` set src"
  then have k: "k \<in> fst ` set wh" "k \<notin> fst ` set src" by auto
  from extra_key_mismatch[OF assms(2-4) k, of w] k(1) assms(5)
  have "k div w \<in> set (take n (mismatched_buckets w src wh))"
    using assms(6) by (simp add: sql_div_nonneg)
  with k div_bucket[OF assms(1), of k] show "k \<in> set (dr_missing_in_src (compare_rows w n src wh))"
    unfolding missing_in_src_iff by blast
qed (auto simp: missing_in_src_iff)

lemma mset_same_buckets:
  assumes "mset src = mset wh"
  shows "mismatched_buckets w src wh = []"
proof -
  have f: "mset (filter P src) = mset (filter P wh)" for P using assms by simp
  have len: "length (filter P src) = length (filter P wh)" for P using f by (rule mset_eq_length)
  moreover have "sum_list (map snd (filter P src)) = sum_list (map snd (filter P wh))" for P
    unfolding sum_mset_sum_list[symmetric] mset_map f ..
  moreover have "filter P src = [] \<longleftrightarrow> filter P wh = []" for P using len[of P] by (simp only: length_0_conv[symmetric])
  ultimately
  have "map_of (bucket_aggregates w src) b = map_of (bucket_aggregates w wh) b" for b
    by (simp add: bucket_aggregates_lookup Let_def)
  then have "b \<notin> set (mismatched_buckets w src wh)" for b by (simp add: mismatched_iff)
  then show ?thesis by (metis list.set_intros(1) neq_Nil_conv)
qed

section \<open>The report\<close>

definition source_keys :: "source_table \<Rightarrow> int set" where
  "source_keys st = fst ` set (src_rows st)"

definition copy_keys :: "string \<Rightarrow> table_contract \<Rightarrow> string \<Rightarrow> db \<Rightarrow> int set" where
  "copy_keys schema c sid d = fst ` set (warehouse_rows schema (tc_raw_table c) sid d)"

lemma source_vs_warehouse_Inr:
  assumes "source_vs_warehouse cast hash env st sid c width n ko schema cn = (Inr q, cn')"
  obtains src wh where "map fst src = map fst (src_rows st)"
    "map fst wh = map fst (warehouse_rows schema (tc_raw_table c) sid (k_working cn))"
    "q_missing_in_source_keys q = dr_missing_in_src (compare_rows width n src wh)"
    "q_truncated q \<longleftrightarrow> n < length (mismatched_buckets width src wh)"
    "k_working cn' = k_working cn"
    "src = map (\<lambda>(k, row). (k, if ko then 0 else hash (source_row_values cast env c (src_columns st) row))) (src_rows st)"
    "wh = map (\<lambda>(k, r). (k, if ko then 0 else hash (warehouse_row_values cast env c (x_cols r))))
       (warehouse_rows schema (tc_raw_table c) sid (k_working cn))"
    "q_mismatched q = dr_mismatched (compare_rows width n src wh)"
    "q_missing_left q = int (length (dr_missing_in_wh (compare_rows width n src wh)))"
    "q_missing_right q = int (length (dr_missing_in_src (compare_rows width n src wh)))"
  using assms
  by (auto simp: source_vs_warehouse_def sbind_def sx_simps Let_def guard_def o_def split_beta split: if_splits)

text \<open>
  The keys a comparison reports as missing in the source are really gone: each is the key of a
  live row of this source in the copy, and of no row of the source table.  The reconciliation
  that soft-deletes these keys therefore never deletes a row the source still has.
\<close>

theorem reported_keys_are_gone:
  assumes "source_vs_warehouse cast hash env st sid c width n ko schema cn = (Inr q, cn')"
  shows "set (q_missing_in_source_keys q) \<subseteq> copy_keys schema c sid (k_working cn) - source_keys st"
  using assms
proof (rule source_vs_warehouse_Inr)
  fix src wh
  assume "map fst src = map fst (src_rows st)" "map fst wh = map fst (warehouse_rows schema (tc_raw_table c) sid (k_working cn))"
    and q: "q_missing_in_source_keys q = dr_missing_in_src (compare_rows width n src wh)"
  then have "fst ` set src = source_keys st" "fst ` set wh = copy_keys schema c sid (k_working cn)"
    unfolding source_keys_def copy_keys_def by (metis set_map)+
  then show ?thesis unfolding q by (auto simp: missing_in_src_iff simp del: image_iff)
qed

text \<open>
  The report is complete when nothing hides a deletion: for non-negative keys, unique on both
  sides, a positive bucket size and a drill-down that was not cut off, if the copy has every key
  of the source then the keys reported missing in the source are exactly the keys of the copy
  that the source does not have.
\<close>

theorem report_complete_for_supersets:
  assumes "source_vs_warehouse cast hash env st sid c width n ko schema cn = (Inr q, cn')"
    and "0 < width" and "\<not> q_truncated q"
    and "distinct (map fst (src_rows st))"
    and "distinct (map fst (warehouse_rows schema (tc_raw_table c) sid (k_working cn)))"
    and "source_keys st \<subseteq> copy_keys schema c sid (k_working cn)"
    and "\<forall>k \<in> copy_keys schema c sid (k_working cn). 0 \<le> k"
  shows "set (q_missing_in_source_keys q) = copy_keys schema c sid (k_working cn) - source_keys st"
  using assms(1)
proof (rule source_vs_warehouse_Inr)
  fix src wh
  assume k: "map fst src = map fst (src_rows st)" "map fst wh = map fst (warehouse_rows schema (tc_raw_table c) sid (k_working cn))"
    and q: "q_missing_in_source_keys q = dr_missing_in_src (compare_rows width n src wh)"
    and tr: "q_truncated q \<longleftrightarrow> n < length (mismatched_buckets width src wh)"
  have keys: "fst ` set src = source_keys st" "fst ` set wh = copy_keys schema c sid (k_working cn)"
    unfolding source_keys_def copy_keys_def using k by (metis set_map)+
  show ?thesis
    unfolding q keys[symmetric] by (rule compare_complete) (use assms(2-7) k keys tr in simp_all)
qed

text \<open>
  A faithful copy gives a clean report: if the keys with the hashes of their compared columns
  are the same on both sides, no discrepancy is reported, whatever the hash and the buckets.
\<close>

theorem equal_tables_clean_report:
  assumes "source_vs_warehouse cast hash env st sid c width n False schema cn = (Inr q, cn')"
    and "mset (map (\<lambda>(k, row). (k, source_row_values cast env c (src_columns st) row)) (src_rows st)) =
      mset (map (\<lambda>(k, r). (k, warehouse_row_values cast env c (x_cols r)))
        (warehouse_rows schema (tc_raw_table c) sid (k_working cn)))"
  shows "discrepancies q = 0 \<and> q_missing_in_source_keys q = [] \<and> \<not> q_truncated q"
  using assms(1)
proof (rule source_vs_warehouse_Inr)
  fix src wh
  let ?s = "map (\<lambda>(k, row). (k, source_row_values cast env c (src_columns st) row)) (src_rows st)"
  let ?w = "map (\<lambda>(k, r). (k, warehouse_row_values cast env c (x_cols r)))
        (warehouse_rows schema (tc_raw_table c) sid (k_working cn))"
  assume src: "src = map (\<lambda>(k, row). (k, if False then 0 else hash (source_row_values cast env c (src_columns st) row))) (src_rows st)"
    and wh: "wh = map (\<lambda>(k, r). (k, if False then 0 else hash (warehouse_row_values cast env c (x_cols r))))
       (warehouse_rows schema (tc_raw_table c) sid (k_working cn))"
    and q: "q_missing_in_source_keys q = dr_missing_in_src (compare_rows width n src wh)"
      "q_truncated q \<longleftrightarrow> n < length (mismatched_buckets width src wh)"
      "q_mismatched q = dr_mismatched (compare_rows width n src wh)"
      "q_missing_left q = int (length (dr_missing_in_wh (compare_rows width n src wh)))"
      "q_missing_right q = int (length (dr_missing_in_src (compare_rows width n src wh)))"
  have "src = map (\<lambda>(k, v). (k, hash v)) ?s" "wh = map (\<lambda>(k, v). (k, hash v)) ?w"
    by (simp_all add: src wh split_beta comp_def)
  with assms(2) have "mset src = mset wh" by (simp only: mset_map)
  then have "mismatched_buckets width src wh = []" by (rule mset_same_buckets)
  with q show ?thesis by (simp add: discrepancies_def compare_rows_def)
qed

text \<open>
  With keys only, equal counts hide a deletion: when the source lost one row and gained another
  that is not copied yet, with keys in the same bucket, the comparison reports nothing at all.
\<close>

theorem keys_only_masks_deletion:
  assumes "0 \<le> j" and "0 \<le> k" and "j div width = k div width" and "width \<noteq> 0"
    and "src_rows st = [(j, row)]" and "schema \<in> {''raw'', ''raw_shadow''}"
    and "warehouse_rows schema (tc_raw_table c) sid (k_working cn) = [(k, r)]"
  shows "\<exists>q. fst (source_vs_warehouse cast hash env st sid c width n True schema cn) = Inr q \<and>
    discrepancies q = 0 \<and> q_missing_in_source_keys q = []"
proof -
  have "map_of (bucket_aggregates width [(j, 0)]) b = map_of (bucket_aggregates width [(k, 0)]) b" for b
    using assms(1-3) by (simp add: bucket_aggregates_lookup sql_div_nonneg)
  then have "b \<notin> set (mismatched_buckets width [(j, 0)] [(k, 0)])" for b by (simp add: mismatched_iff)
  then have "mismatched_buckets width [(j, 0)] [(k, 0)] = []" by (metis list.set_intros(1) neq_Nil_conv)
  with assms(4-7) show ?thesis
    by (auto simp: source_vs_warehouse_def sbind_def sx_simps Let_def discrepancies_def compare_rows_def)
qed

section \<open>The cutover gate\<close>

lemma reconcile_shadow_Inr:
  assumes "reconcile_shadow digest sid table settle c = (Inr (rid, ok, q), c')"
  obtains run where "k_working c' = (k_working c)\<lparr>d_runs := d_runs (k_working c) @ [run]\<rparr>" "k_committed c' = k_working c'"
    "rr_id run = rid" "rr_source run = sid" "rr_table run = table" "rr_comparison run = ''shadow_vs_prod''"
    "rr_status run = (if ok then ''PASSED'' else ''FAILED'')"
  using assms
  by (auto simp: reconcile_shadow_def sql_run_shadow_reconciliation_def sbind_def sx_simps Let_def rbind_Inr_iff
      split: sum.splits prod.splits)

text \<open>The state in which the gate leaves a table.\<close>

definition gated :: "string \<Rightarrow> gate_outcome \<Rightarrow> db \<Rightarrow> bool" where
  "gated sid out d \<longleftrightarrow> (\<exists>row run. row_for d sid (go_table out) = Some row \<and> run \<in> set (d_runs d) \<and>
     o_cutover_state (w_own row) = (if go_passed out then CUTOVER_READY else SHADOWING) \<and>
     o_last_reconciliation_id (w_own row) = Some (go_reconciliation_id out) \<and>
     rr_id run = go_reconciliation_id out \<and> rr_source run = sid \<and> rr_table run = go_table out \<and>
     rr_comparison run = ''shadow_vs_prod'' \<and> (go_passed out \<longrightarrow> rr_status run = ''PASSED''))"

lemma transition_record:
  assumes "transition o1 req = Inr res" and "r_action req = RECORD_RECONCILIATION"
  shows "o_cutover_state (t_current res) = (if r_reconciliation_passed req = Some True then CUTOVER_READY else SHADOWING)"
    and "o_last_reconciliation_id (t_current res) = r_reconciliation_id req"
  using assms by (auto simp: transition_unfold)

lemma wf_db_runs: "wf_db (d\<lparr>d_runs := x\<rparr>) = wf_db d"
  by (simp add: wf_db_def)

lemma gate_table_Inr:
  assumes wf: "wf_db (k_working c)" and gt: "gate_table ct digest sid actor settle max_d table c = (Inr out, c')"
  shows "go_table out = table" "gated sid out (k_working c')" "k_committed c' = k_working c'" "wf_db (k_working c')"
    "\<And>t. t \<noteq> table \<Longrightarrow> row_for (k_working c') sid t = row_for (k_working c) sid t"
    "set (d_runs (k_working c)) \<subseteq> set (d_runs (k_working c'))"
proof -
  from gt obtain x c1 where rs: "reconcile_shadow digest sid table settle c = (Inr x, c1)"
    and m: "(case x of (rid, db_passed, result) \<Rightarrow>
     let ok = (db_passed \<and> passed result max_d) in
     sbind (apply_ownership ct sid [table]
       ((new_request RECORD_RECONCILIATION actor (gate_reason rid result))
        \<lparr>r_reconciliation_passed := Some ok, r_reconciliation_id := Some rid\<rparr>)) (\<lambda>_.
     sret \<lparr>go_table = table, go_reconciliation_id = rid, go_passed = ok, go_compared_rows = q_compared result,
           go_discrepancies = discrepancies result, go_sample_keys = take 10 (q_sample_keys result)\<rparr>)) c1 = (Inr out, c')"
    unfolding gate_table_def by (rule sbind_InrE)
  obtain rid dbp q where x: "x = (rid, dbp, q)" by (cases x)
  let ?ok = "dbp \<and> passed q max_d"
  let ?req = "(new_request RECORD_RECONCILIATION actor (gate_reason rid q))
        \<lparr>r_reconciliation_passed := Some ?ok, r_reconciliation_id := Some rid\<rparr>"
  from m obtain rs' where ap: "apply_ownership ct sid [table] ?req c1 = (Inr rs', c')"
    and out: "go_table out = table" "go_reconciliation_id out = rid" "go_passed out = ?ok"
    by (auto simp: x Let_def sx_simps elim!: sbind_InrE)
  from rs[unfolded x] obtain run where c1: "k_working c1 = (k_working c)\<lparr>d_runs := d_runs (k_working c) @ [run]\<rparr>"
    and run: "rr_id run = rid" "rr_source run = sid" "rr_table run = table" "rr_comparison run = ''shadow_vs_prod''"
      "rr_status run = (if dbp then ''PASSED'' else ''FAILED'')"
    by (rule reconcile_shadow_Inr)
  have wf1: "wf_db (k_working c1)" using wf by (simp add: c1 wf_db_runs)
  from wf1 ap obtain d where am: "all_moved c1 sid (dual_of c1) ?req (sorted_set [table]) (k_working c1) d"
    and cw: "k_committed c' = k_working c'" "k_working c' = d \<or> r_action ?req = START_SHADOW \<and> k_working c' = bump_generation sid d"
    by (rule apply_ownership_moved)
  have same: "row_for (k_working c') = row_for d" "d_runs (k_working c') = d_runs d" "wf_db (k_working c')"
    using cw(2) am by (auto simp: fun_eq_iff all_moved_def)
  from am obtain res where "moved c1 sid (dual_of c1) ?req table res (k_working c1) d"
    by (auto simp: all_moved_def)
  then obtain old new treq where mv: "row_for (k_working c1) sid table = Some old" "row_for d sid table = Some new"
      "same_request (dual_of c1) ?req treq"
      "transition (w_own old) treq = Inr res" "w_own new = t_current res"
    by (rule movedE)
  then have "r_action treq = RECORD_RECONCILIATION" "r_reconciliation_passed treq = Some ?ok"
      "r_reconciliation_id treq = Some rid"
    by (simp_all add: same_request_def new_request_def)
  with transition_record[OF mv(4)] mv(5) have st: "o_cutover_state (w_own new) = (if ?ok then CUTOVER_READY else SHADOWING)"
    "o_last_reconciliation_id (w_own new) = Some rid" by simp_all
  have runs: "d_runs d = d_runs (k_working c) @ [run]" using am by (simp add: all_moved_def same_evidence_def c1)
  show "go_table out = table" "k_committed c' = k_working c'" "wf_db (k_working c')" by fact+
  show "gated sid out (k_working c')"
    unfolding gated_def using mv(2) st runs run out same by (intro exI[of _ new] exI[of _ run]) auto
  show "set (d_runs (k_working c)) \<subseteq> set (d_runs (k_working c'))" using same runs by auto
  show "row_for (k_working c') sid t = row_for (k_working c) sid t" if "t \<noteq> table" for t
    using am that by (simp add: same all_moved_def row_for_def c1 sorted_set_def)
qed

lemma gated_keep:
  "gated sid out d \<Longrightarrow> row_for d' sid (go_table out) = row_for d sid (go_table out) \<Longrightarrow> set (d_runs d) \<subseteq> set (d_runs d') \<Longrightarrow>
   gated sid out d'"
  unfolding gated_def by (simp only:) blast

lemma gate_loop:
  assumes "wf_db (k_working c)" and "distinct ts"
    and "sfor ts (gate_table ct digest sid actor settle max_d) c = (Inr outs, c')" and "k_committed c = k_working c"
  shows "map go_table outs = ts \<and> (\<forall>out \<in> set outs. gated sid out (k_working c')) \<and> k_committed c' = k_working c' \<and>
    (\<forall>t. t \<notin> set ts \<longrightarrow> row_for (k_working c') sid t = row_for (k_working c) sid t) \<and>
    set (d_runs (k_working c)) \<subseteq> set (d_runs (k_working c'))"
  using assms
proof (induction ts arbitrary: c outs)
  case Nil
  then show ?case by (simp add: sx_simps)
next
  case (Cons t ts)
  from Cons.prems(3) obtain o1 c1 where g: "gate_table ct digest sid actor settle max_d t c = (Inr o1, c1)"
    and m: "sbind (sfor ts (gate_table ct digest sid actor settle max_d)) (\<lambda>ys. sret (o1 # ys)) c1 = (Inr outs, c')"
    unfolding sfor.simps by (rule sbind_InrE)
  from m obtain os c2 where m2: "sfor ts (gate_table ct digest sid actor settle max_d) c1 = (Inr os, c2)"
    and "sret (o1 # os) c2 = (Inr outs, c')" by (rule sbind_InrE)
  then have outs: "outs = o1 # os" "c2 = c'" by (simp_all add: sx_simps)
  note one = gate_table_Inr[OF Cons.prems(1) g]
  from Cons.IH[OF one(4) _ m2[unfolded outs(2)] one(3)] Cons.prems(2)
  have IH: "map go_table os = ts" "\<forall>out \<in> set os. gated sid out (k_working c')" "k_committed c' = k_working c'"
    "\<forall>u. u \<notin> set ts \<longrightarrow> row_for (k_working c') sid u = row_for (k_working c1) sid u"
    "set (d_runs (k_working c1)) \<subseteq> set (d_runs (k_working c'))"
    by simp_all
  have "gated sid o1 (k_working c')"
    using one(2) IH(5) IH(4) one(1) Cons.prems(2) by (intro gated_keep[OF one(2)]) simp_all
  with IH one outs show ?case by (auto simp: subset_iff)
qed

text \<open>
  C19: The cutover gate leaves every table in a state that follows from its evidence: when the gate
  returns, each table that passed is committed as CUTOVER_READY with the id of a recorded, PASSED
  shadow comparison of exactly this table, and each table that failed is back in SHADOWING
  with the id of its comparison; one outcome per table, in order.
\<close>

theorem cutover_gate_outcome:
  assumes "wf_db (k_working c)" and "distinct tables"
    and "run_cutover_gate ct digest sid tables actor settle max_d c = (Inr outs, c')"
  shows "map go_table outs = sort tables \<and>
    (\<forall>out \<in> set outs. \<exists>row run. row_for (k_committed c') sid (go_table out) = Some row \<and>
       run \<in> set (d_runs (k_committed c')) \<and>
       o_cutover_state (w_own row) = (if go_passed out then CUTOVER_READY else SHADOWING) \<and>
       o_last_reconciliation_id (w_own row) = Some (rr_id run) \<and>
       (rr_source run, rr_table run, rr_comparison run) = (sid, go_table out, ''shadow_vs_prod'') \<and>
       (go_passed out \<longrightarrow> rr_status run = ''PASSED''))"
proof -
  from assms(3) obtain rs c1 where ap: "apply_ownership ct sid tables (new_request BEGIN_RECONCILIATION actor ''cutover gate started'') c = (Inr rs, c1)"
    and l: "sfor (sort tables) (gate_table ct digest sid actor settle max_d) c1 = (Inr outs, c')"
    unfolding run_cutover_gate_def by (rule sbind_InrE)
  from assms(1) ap obtain d where d: "all_moved c sid (dual_of c) (new_request BEGIN_RECONCILIATION actor ''cutover gate started'')
      (sorted_set tables) (k_working c) d" "k_committed c1 = k_working c1" "k_working c1 = d \<or>
        r_action (new_request BEGIN_RECONCILIATION actor ''cutover gate started'') = START_SHADOW \<and> k_working c1 = bump_generation sid d"
    by (rule apply_ownership_moved)
  then have "wf_db (k_working c1)"
    by (auto simp: all_moved_def)
  from gate_loop[OF this _ l d(2)] assms(2)
  have "map go_table outs = sort tables" "\<forall>out \<in> set outs. gated sid out (k_committed c')" by simp_all
  then show ?thesis unfolding gated_def by (metis (no_types, lifting))
qed

end
