(* ===== verification/Connectors.thy ===== *)
theory Connectors
  imports Pg
begin

text \<open>
  \<^verbatim>\<open>src/controlplane/connectors.py\<close>: the settings, the configuration of a Debezium connector for a
  source, and \<open>plan_actions\<close>, which compares the connectors that should run with the ones that do
  and plans the changes, bounded per run.  A configuration is an association list in the order of
  the code's dictionary.  JSON parsing and the SHA-256 digest are parameters; HTTP is not modelled
  beyond the request each action sends.

  Shown: a plan creates and deletes at most as many connectors as the settings allow; it deletes
  only managed, observed, undesired and unprotected connectors; every desired connector is
  observed, created or deferred, and every orphan deleted or deferred; the plan is empty exactly
  when the clusters match the desired state; the built configuration names the source's slot, its
  secret reference (never a secret) and no excluded personal column.
\<close>

section \<open>Identifiers\<close>

definition ident_part :: "string \<Rightarrow> bool" where
  "ident_part s \<longleftrightarrow> (case s of [] \<Rightarrow> False
     | c # cs \<Rightarrow> (is_alpha_char c \<or> c = CHR ''_'') \<and> list_all is_word_char cs \<and> length cs \<le> 62)"

definition qualified_identifier :: "string \<Rightarrow> bool" where
  "qualified_identifier s \<longleftrightarrow> (case split_char CHR ''.'' (chomp s) of
      [a] \<Rightarrow> ident_part a | [a, b] \<Rightarrow> ident_part a \<and> ident_part b | _ \<Rightarrow> False)"

definition check_identifier :: "label \<Rightarrow> string \<Rightarrow> string result" where
  "check_identifier l what = (case l of
     LText s \<Rightarrow> guard (qualified_identifier s)
       (ValueError (what @ '' '' @ s @ '' is not a valid (optionally schema-qualified) identifier'')) (Inr s)
   | LBool _ \<Rightarrow> Inl (TypeError ''expected string or bytes-like object''))"

section \<open>Settings\<close>

record cdc_settings =
  z_connect_clusters :: "(string \<times> string) list"
  z_kafka_bootstrap :: string
  z_snapshot_mode :: string
  z_snapshot_threads :: int
  z_heartbeat_ms :: int
  z_max_batch_size :: int
  z_max_queue_size :: int
  z_poll_interval_ms :: int
  z_publication_mode :: string
  z_publication_name :: string
  z_signal_topic :: string
  z_max_creates_per_run :: int
  z_max_deletes_per_run :: int
  z_delete_orphans :: bool
  z_drop_stale_slots :: bool
  z_exclude_pii :: bool
  z_connect_user :: string
  z_connect_password :: string
  z_overrides :: "(string \<times> string) list"

definition env_int :: "os_env \<Rightarrow> string \<Rightarrow> string \<Rightarrow> int result" where
  "env_int env name d = py_int (getenv env name d)"

definition env_flag :: "os_env \<Rightarrow> string \<Rightarrow> bool" where
  "env_flag env name \<longleftrightarrow> py_lower (getenv env name ''true'') = ''true''"

definition env_nonempty_or :: "os_env \<Rightarrow> string \<Rightarrow> string \<Rightarrow> string" where
  "env_nonempty_or env name d = (if truthy (e_vars env name) then the (e_vars env name) else d)"

definition default_clusters :: string where
  "default_clusters = ''{'' @ [dquote] @ ''default'' @ [dquote] @ '': '' @ [dquote] @ ''http://connect:8083'' @ [dquote] @ ''}''"

definition settings_from_env :: "(string \<Rightarrow> (string \<times> string) list result) \<Rightarrow> os_env \<Rightarrow> cdc_settings result" where
  "settings_from_env json_dict env =
     rbind (json_dict (env_nonempty_or env ''FBI_CONNECT_CLUSTERS'' default_clusters)) (\<lambda>clusters.
     rbind (env_int env ''FBI_DEBEZIUM_SNAPSHOT_THREADS'' ''1'') (\<lambda>threads.
     rbind (env_int env ''FBI_DEBEZIUM_HEARTBEAT_MS'' ''10000'') (\<lambda>heartbeat.
     rbind (env_int env ''FBI_DEBEZIUM_MAX_BATCH_SIZE'' ''4096'') (\<lambda>batch.
     rbind (env_int env ''FBI_DEBEZIUM_MAX_QUEUE_SIZE'' ''16384'') (\<lambda>queue.
     rbind (env_int env ''FBI_DEBEZIUM_POLL_INTERVAL_MS'' ''200'') (\<lambda>poll.
     rbind (env_int env ''FBI_RECONCILER_MAX_CREATES'' ''5'') (\<lambda>creates.
     rbind (env_int env ''FBI_RECONCILER_MAX_DELETES'' ''10'') (\<lambda>deletes.
     rbind (json_dict (env_nonempty_or env ''FBI_CONNECTOR_OVERRIDES'' ''{}'')) (\<lambda>overrides.
     Inr \<lparr>z_connect_clusters = clusters,
          z_kafka_bootstrap = getenv env ''FBI_KAFKA_BOOTSTRAP'' ''kafka:9092'',
          z_snapshot_mode = getenv env ''FBI_DEBEZIUM_SNAPSHOT_MODE'' ''initial'',
          z_snapshot_threads = threads, z_heartbeat_ms = heartbeat, z_max_batch_size = batch,
          z_max_queue_size = queue, z_poll_interval_ms = poll,
          z_publication_mode = getenv env ''FBI_DEBEZIUM_PUBLICATION_MODE'' ''filtered'',
          z_publication_name = getenv env ''FBI_DEBEZIUM_PUBLICATION_NAME'' ''fbi_cdc'',
          z_signal_topic = getenv env ''FBI_DEBEZIUM_SIGNAL_TOPIC'' ''fineract.cdc.signals'',
          z_max_creates_per_run = creates, z_max_deletes_per_run = deletes,
          z_delete_orphans = env_flag env ''FBI_RECONCILER_DELETE_ORPHANS'',
          z_drop_stale_slots = env_flag env ''FBI_RECONCILER_DROP_STALE_SLOTS'',
          z_exclude_pii = env_flag env ''FBI_EXCLUDE_PII'',
          z_connect_user = getenv env ''FBI_CONNECT_USER'' [],
          z_connect_password = getenv env ''FBI_CONNECT_PASSWORD'' [],
          z_overrides = overrides\<rparr>)))))))))"

section \<open>The configuration of a connector\<close>

type_synonym config = "(string \<times> string) list"

definition capture_columns :: "cdc_settings \<Rightarrow> string \<Rightarrow> contract \<Rightarrow> string list" where
  "capture_columns z schema ct = sorted_set (concat (map (\<lambda>t. concat (map (\<lambda>c.
       map (\<lambda>cand. schema @ ''.'' @ tc_table_name t @ ''.'' @ cand) (cdc_candidates c))
     (filter (\<lambda>c. \<not> c_synthetic c \<and> \<not> (z_exclude_pii z \<and> c_pii c)) (tc_columns t)))) (ct_tables ct)))"

text \<open>A boolean label that ends up in a configuration is written as Python prints it.\<close>

definition label_text :: "label \<Rightarrow> string" where
  "label_text l = (case l of LText s \<Rightarrow> s | LBool b \<Rightarrow> if b then ''True'' else ''False'')"

definition source_sslmode :: "os_env \<Rightarrow> source_record \<Rightarrow> string" where
  "source_sslmode env s = (case map_of (s_labels s) ''sslmode'' of
     Some l \<Rightarrow> if label_truthy l then label_text l else default_source_sslmode env
   | None \<Rightarrow> default_source_sslmode env)"

definition backslash :: char where
  "backslash = CHR 0x5C"

definition base_config :: "os_env \<Rightarrow> source_record \<Rightarrow> contract \<Rightarrow> cdc_settings \<Rightarrow> string \<Rightarrow> config" where
  "base_config env s ct z placeholder =
     (let schema = (if s_db_schema s \<noteq> [] then s_db_schema s else ct_source_schema ct) in
      [(''connector.class'', ''io.debezium.connector.postgresql.PostgresConnector''),
       (''tasks.max'', ''1''),
       (''database.hostname'', the (s_db_host s)),
       (''database.port'', int_str (s_db_port s)),
       (''database.user'', the (s_db_user s)),
       (''database.password'', placeholder),
       (''database.dbname'', the (s_db_name s)),
       (''database.sslmode'', source_sslmode env s),
       (''topic.prefix'', s_source_id s),
       (''plugin.name'', ''pgoutput''),
       (''slot.name'', slot_name s),
       (''slot.drop.on.stop'', ''false''),
       (''publication.name'', z_publication_name z),
       (''publication.autocreate.mode'', z_publication_mode z),
       (''table.include.list'', py_join '','' (map (\<lambda>t. schema @ ''.'' @ tc_table_name t) (ct_tables ct))),
       (''column.include.list'', replace_char CHR ''.'' [backslash, CHR ''.''] (py_join '','' (capture_columns z schema ct))),
       (''snapshot.mode'', z_snapshot_mode z),
       (''snapshot.max.threads'', int_str (z_snapshot_threads z)),
       (''decimal.handling.mode'', ''string''),
       (''time.precision.mode'', ''adaptive_time_microseconds''),
       (''interval.handling.mode'', ''string''),
       (''tombstones.on.delete'', ''false''),
       (''heartbeat.interval.ms'', int_str (z_heartbeat_ms z)),
       (''max.batch.size'', int_str (z_max_batch_size z)),
       (''max.queue.size'', int_str (z_max_queue_size z)),
       (''poll.interval.ms'', int_str (z_poll_interval_ms z)),
       (''signal.enabled.channels'', ''kafka''),
       (''signal.kafka.topic'', z_signal_topic z),
       (''signal.kafka.bootstrap.servers'', z_kafka_bootstrap z),
       (''key.converter'', ''org.apache.kafka.connect.json.JsonConverter''),
       (''key.converter.schemas.enable'', ''false''),
       (''value.converter'', ''org.apache.kafka.connect.json.JsonConverter''),
       (''value.converter.schemas.enable'', ''false''),
       (''transforms'', ''route,heartbeat''),
       (''transforms.route.type'', ''org.apache.kafka.connect.transforms.RegexRouter''),
       (''transforms.route.regex'', ''[^.]+'' @ [backslash] @ ''.[^.]+'' @ [backslash] @ ''.(.*)''),
       (''transforms.route.replacement'', ct_topic_prefix ct @ ''.$1''),
       (''transforms.heartbeat.type'', ''org.apache.kafka.connect.transforms.RegexRouter''),
       (''transforms.heartbeat.regex'', ''__debezium-heartbeat'' @ [backslash] @ ''..*''),
       (''transforms.heartbeat.replacement'', ct_topic_prefix ct @ ''.heartbeats''),
       (''errors.retry.timeout'', ''-1''),
       (''errors.tolerance'', ''none'')])"

definition heartbeat_query :: "string \<Rightarrow> string" where
  "heartbeat_query table = ''INSERT INTO '' @ table @
     '' (id, ts) VALUES (1, NOW()) ON CONFLICT (id) DO UPDATE SET ts = EXCLUDED.ts''"

definition with_heartbeat :: "source_record \<Rightarrow> config \<Rightarrow> config result" where
  "with_heartbeat s cfg =
     (if label_set s ''heartbeat_table'' then
        rbind (check_identifier (the (map_of (s_labels s) ''heartbeat_table'')) ''heartbeat_table'') (\<lambda>t.
        Inr (AList.update ''heartbeat.action.query'' (heartbeat_query t) cfg))
      else Inr cfg)"

definition with_signal :: "source_record \<Rightarrow> config \<Rightarrow> config result" where
  "with_signal s cfg =
     (if label_set s ''signal_table'' then
        rbind (check_identifier (the (map_of (s_labels s) ''signal_table'')) ''signal_table'') (\<lambda>t.
        Inr (AList.update ''signal.data.collection'' t (AList.update ''signal.enabled.channels'' ''source,kafka'' cfg)))
      else Inr cfg)"

definition config_update :: "config \<Rightarrow> config \<Rightarrow> config" where
  "config_update cfg overrides = fold (\<lambda>(k, v). AList.update k v) overrides cfg"

definition build_connector_config :: "os_env \<Rightarrow> source_record \<Rightarrow> contract \<Rightarrow> cdc_settings \<Rightarrow> config result" where
  "build_connector_config env s ct z =
     guard (given (s_db_host s) \<and> given (s_db_name s) \<and> given (s_db_user s))
       (ValueError (s_source_id s @ '': db_host, db_name and db_user are required for CDC'')) (
     rbind (connect_placeholder env (s_secret_ref s) (s_source_id s)) (\<lambda>placeholder.
     rbind (with_heartbeat s (base_config env s ct z placeholder)) (\<lambda>cfg.
     rbind (with_signal s cfg) (\<lambda>cfg'.
     Inr (config_update cfg' (z_overrides z))))))"

text \<open>The digest covers the configuration with its keys sorted.\<close>

definition config_hash :: "((string \<times> string) list \<Rightarrow> string) \<Rightarrow> config \<Rightarrow> string" where
  "config_hash sha256_hex cfg = take 16 (sha256_hex (sort_key fst cfg))"

section \<open>Planning\<close>

datatype action_kind = CREATE | UPDATE | RESTART_FAILED | PAUSE_CONNECTOR | RESUME_CONNECTOR | DELETE

record desired_connector =
  dc_source_id :: string
  dc_name :: string
  dc_cluster :: string
  dc_config :: config
  dc_paused :: bool

record observed_connector =
  ob_name :: string
  ob_config :: config
  ob_state :: string
  ob_task_states :: "string list"
  ob_trace :: "string option"

record connector_action =
  ca_kind :: action_kind
  ca_name :: string
  ca_cluster :: string
  ca_source_id :: "string option"
  ca_config :: "config option"

type_synonym observed = "(string \<times> (string \<times> observed_connector) list) list"

definition managed_prefix :: string where
  "managed_prefix = ''fbi-src-''"

definition obs_of :: "observed \<Rightarrow> string \<Rightarrow> string \<Rightarrow> observed_connector option" where
  "obs_of observed cluster name = (case map_of observed cluster of None \<Rightarrow> None | Some m \<Rightarrow> map_of m name)"

definition act :: "action_kind \<Rightarrow> desired_connector \<Rightarrow> config option \<Rightarrow> connector_action" where
  "act kind d cfg = \<lparr>ca_kind = kind, ca_name = dc_name d, ca_cluster = dc_cluster d,
     ca_source_id = Some (dc_source_id d), ca_config = cfg\<rparr>"

text \<open>Keys the configuration lacks or has with another value, or has beyond the desired ones.\<close>

definition drifted :: "desired_connector \<Rightarrow> observed_connector \<Rightarrow> bool" where
  "drifted d ob \<longleftrightarrow> (\<exists>kv \<in> set (dc_config d). map_of (ob_config ob) (fst kv) \<noteq> map_of (dc_config d) (fst kv)) \<or>
     (\<exists>k \<in> fst ` set (ob_config ob). k \<notin> fst ` set (dc_config d) \<and> k \<noteq> ''name'')"

definition failed :: "observed_connector \<Rightarrow> bool" where
  "failed ob \<longleftrightarrow> ob_state ob = ''FAILED'' \<or> ''FAILED'' \<in> set (ob_task_states ob)"

definition adjust_actions :: "desired_connector \<Rightarrow> observed_connector \<Rightarrow> connector_action list" where
  "adjust_actions d ob =
     (if drifted d ob then [act UPDATE d (Some (dc_config d))] else []) @
     (if dc_paused d \<and> ob_state ob \<noteq> ''PAUSED'' then [act PAUSE_CONNECTOR d None]
      else if \<not> dc_paused d \<and> ob_state ob = ''PAUSED'' then [act RESUME_CONNECTOR d None] else []) @
     (if failed ob then [act RESTART_FAILED d None] else [])"

fun plan_desired :: "cdc_settings \<Rightarrow> observed \<Rightarrow> int \<Rightarrow> desired_connector list \<Rightarrow> connector_action list \<times> string list" where
  "plan_desired z observed creates [] = ([], [])"
| "plan_desired z observed creates (d # ds) =
     (case obs_of observed (dc_cluster d) (dc_name d) of
        None \<Rightarrow>
          (if creates \<ge> z_max_creates_per_run z then
             (case plan_desired z observed creates ds of (acts, def) \<Rightarrow> (acts, dc_name d # def))
           else
             (case plan_desired z observed (creates + 1) ds of (acts, def) \<Rightarrow>
               (act CREATE d (Some (dc_config d)) # (if dc_paused d then [act PAUSE_CONNECTOR d None] else []) @ acts, def)))
      | Some ob \<Rightarrow>
          (case plan_desired z observed creates ds of (acts, def) \<Rightarrow> (adjust_actions d ob @ acts, def)))"

definition orphan :: "desired_connector list \<Rightarrow> string list \<Rightarrow> string \<Rightarrow> string \<Rightarrow> bool" where
  "orphan desired protected cluster name \<longleftrightarrow> starts_with managed_prefix name \<and>
     \<not> (\<exists>d \<in> set desired. dc_cluster d = cluster \<and> dc_name d = name) \<and> name \<notin> set protected"

fun plan_orphans :: "cdc_settings \<Rightarrow> (string \<Rightarrow> string \<Rightarrow> bool) \<Rightarrow> int \<Rightarrow> (string \<times> string) list \<Rightarrow>
    connector_action list \<times> string list" where
  "plan_orphans z is_orphan deletes [] = ([], [])"
| "plan_orphans z is_orphan deletes ((cluster, name) # rest) =
     (if \<not> is_orphan cluster name then plan_orphans z is_orphan deletes rest
      else if deletes \<ge> z_max_deletes_per_run z then
        (case plan_orphans z is_orphan deletes rest of (acts, def) \<Rightarrow> (acts, name # def))
      else
        (case plan_orphans z is_orphan (deletes + 1) rest of (acts, def) \<Rightarrow>
          (\<lparr>ca_kind = DELETE, ca_name = name, ca_cluster = cluster,
            ca_source_id = source_id_from_connector name, ca_config = None\<rparr> # acts, def)))"

definition observed_names :: "observed \<Rightarrow> (string \<times> string) list" where
  "observed_names observed = concat (map (\<lambda>(cluster, conns). map (Pair cluster) (sort (map fst conns)))
     (sort_key fst observed))"

definition plan_actions :: "desired_connector list \<Rightarrow> observed \<Rightarrow> cdc_settings \<Rightarrow> string list \<Rightarrow>
    connector_action list \<times> string list" where
  "plan_actions desired observed z protected =
     (case plan_desired z observed 0 (sort_key dc_name desired) of (acts, def) \<Rightarrow>
      if z_delete_orphans z then
        (case plan_orphans z (orphan desired protected) 0 (observed_names observed) of (acts', def') \<Rightarrow>
           (acts @ acts', def @ def'))
      else (acts, def))"

section \<open>Requests\<close>

definition hex_digit :: "nat \<Rightarrow> char" where
  "hex_digit n = (if n < 10 then char_of (48 + n) else char_of (55 + n))"

text \<open>\<^verbatim>\<open>urllib.parse.quote\<close> on ASCII text.\<close>

definition url_quote :: "string \<Rightarrow> string" where
  "url_quote s = concat (map (\<lambda>c. if is_word_char c \<or> c \<in> {CHR ''.'', CHR ''-'', CHR ''~'', CHR ''/''} then [c]
     else let n = of_char c :: nat in [CHR ''%'', hex_digit (n div 16), hex_digit (n mod 16)]) s)"

record http_request =
  h_method :: string
  h_path :: string
  h_body :: "config option"

definition execute_request :: "connector_action \<Rightarrow> http_request" where
  "execute_request a =
     (let base = ''/connectors/'' @ url_quote (ca_name a) in
      case ca_kind a of
        CREATE \<Rightarrow> \<lparr>h_method = ''PUT'', h_path = base @ ''/config'', h_body = Some (get_or [] (ca_config a))\<rparr>
      | UPDATE \<Rightarrow> \<lparr>h_method = ''PUT'', h_path = base @ ''/config'', h_body = Some (get_or [] (ca_config a))\<rparr>
      | RESTART_FAILED \<Rightarrow> \<lparr>h_method = ''POST'', h_path = base @ ''/restart?includeTasks=true&onlyFailed=true'', h_body = None\<rparr>
      | PAUSE_CONNECTOR \<Rightarrow> \<lparr>h_method = ''PUT'', h_path = base @ ''/pause'', h_body = None\<rparr>
      | RESUME_CONNECTOR \<Rightarrow> \<lparr>h_method = ''PUT'', h_path = base @ ''/resume'', h_body = None\<rparr>
      | DELETE \<Rightarrow> \<lparr>h_method = ''DELETE'', h_path = base, h_body = None\<rparr>)"

section \<open>What a plan contains\<close>

definition count_kind :: "action_kind \<Rightarrow> connector_action list \<Rightarrow> int" where
  "count_kind k acts = int (length (filter (\<lambda>a. ca_kind a = k) acts))"

lemma count_kind_simps [simp]:
  "count_kind k [] = 0"
  "count_kind k (a # as) = (if ca_kind a = k then 1 else 0) + count_kind k as"
  "count_kind k (as @ bs) = count_kind k as + count_kind k bs"
  by (simp_all add: count_kind_def)

lemma count_kind_none: "(\<And>a. a \<in> set as \<Longrightarrow> ca_kind a \<noteq> k) \<Longrightarrow> count_kind k as = 0"
  by (simp add: count_kind_def filter_empty_conv)

lemma act_simps [simp]: "ca_kind (act k d c) = k" "ca_name (act k d c) = dc_name d" "ca_cluster (act k d c) = dc_cluster d"
  by (simp_all add: act_def)

lemma adjust_kinds: "a \<in> set (adjust_actions d ob) \<Longrightarrow> ca_kind a \<in> {UPDATE, PAUSE_CONNECTOR, RESUME_CONNECTOR, RESTART_FAILED}"
  by (auto simp: adjust_actions_def split: if_splits)

lemma adjust_target: "a \<in> set (adjust_actions d ob) \<Longrightarrow> ca_name a = dc_name d \<and> ca_cluster a = dc_cluster d"
  by (auto simp: adjust_actions_def split: if_splits)

lemma adjust_no_create [simp]: "count_kind CREATE (adjust_actions d ob) = 0" "count_kind DELETE (adjust_actions d ob) = 0"
  by (rule count_kind_none, auto dest: adjust_kinds)+

lemma adjust_empty:
  "adjust_actions d ob = [] \<longleftrightarrow> \<not> drifted d ob \<and> (dc_paused d \<longleftrightarrow> ob_state ob = ''PAUSED'') \<and> \<not> failed ob"
  by (auto simp: adjust_actions_def)

lemma plan_desired_creates:
  "count_kind CREATE (fst (plan_desired z obs n ds)) \<le> max 0 (z_max_creates_per_run z - n)"
proof (induction ds arbitrary: n)
  case (Cons d ds)
  show ?case
    using Cons[of n] Cons[of "n + 1"] by (auto split: option.splits prod.splits)
qed simp

lemma plan_desired_target:
  "a \<in> set (fst (plan_desired z obs n ds)) \<Longrightarrow>
     ca_kind a \<noteq> DELETE \<and> (\<exists>d \<in> set ds. ca_name a = dc_name d \<and> ca_cluster a = dc_cluster d)"
proof (induction ds arbitrary: n)
  case (Cons d ds)
  show ?case
    using Cons.prems Cons.IH[of n] Cons.IH[of "n + 1"]
    by (auto simp: split_beta dest: adjust_kinds adjust_target split: option.splits if_splits)
qed simp

lemma plan_desired_covers:
  "d \<in> set ds \<Longrightarrow> obs_of obs (dc_cluster d) (dc_name d) \<noteq> None \<or>
     act CREATE d (Some (dc_config d)) \<in> set (fst (plan_desired z obs n ds)) \<or>
     dc_name d \<in> set (snd (plan_desired z obs n ds))"
proof (induction ds arbitrary: n)
  case (Cons e ds)
  show ?case
  proof (cases "d = e")
    case True
    then show ?thesis by (auto split: option.splits prod.splits)
  next
    case False
    with Cons.prems have "d \<in> set ds" by simp
    with Cons.IH[of n] Cons.IH[of "n + 1"] show ?thesis by (auto split: option.splits prod.splits)
  qed
qed simp

lemma plan_desired_empty:
  "plan_desired z obs n ds = ([], []) \<longleftrightarrow>
     (\<forall>d \<in> set ds. \<exists>ob. obs_of obs (dc_cluster d) (dc_name d) = Some ob \<and> adjust_actions d ob = [])"
  by (induction ds arbitrary: n) (auto split: option.splits prod.splits)

lemma plan_orphans_deletes:
  "count_kind DELETE (fst (plan_orphans z P n xs)) \<le> max 0 (z_max_deletes_per_run z - n)"
proof (induction xs arbitrary: n)
  case (Cons x xs)
  show ?case
    using Cons[of n] Cons[of "n + 1"] by (cases x) (auto split: prod.splits)
qed simp

lemma plan_orphans_safe:
  "a \<in> set (fst (plan_orphans z P n xs)) \<Longrightarrow>
     ca_kind a = DELETE \<and> P (ca_cluster a) (ca_name a) \<and> (ca_cluster a, ca_name a) \<in> set xs"
proof (induction xs arbitrary: n)
  case (Cons x xs)
  show ?case
    using Cons.prems Cons.IH[of n] Cons.IH[of "n + 1"] by (cases x) (auto simp: split_beta split: if_splits)
qed simp

lemma plan_orphans_covers:
  "(c, m) \<in> set xs \<Longrightarrow> P c m \<Longrightarrow>
     (\<exists>a \<in> set (fst (plan_orphans z P n xs)). ca_kind a = DELETE \<and> ca_cluster a = c \<and> ca_name a = m) \<or>
     m \<in> set (snd (plan_orphans z P n xs))"
proof (induction xs arbitrary: n)
  case (Cons x xs)
  show ?case
    using Cons.prems Cons.IH[of n] Cons.IH[of "n + 1"] by (cases x) (auto simp: split_beta)
qed simp

lemma plan_orphans_empty: "plan_orphans z P n xs = ([], []) \<longleftrightarrow> (\<forall>(c, m) \<in> set xs. \<not> P c m)"
proof (induction xs arbitrary: n)
  case (Cons x xs)
  then show ?case by (cases x) (auto split: prod.splits)
qed simp

lemma set_observed_names:
  "(c, m) \<in> set (observed_names obs) \<longleftrightarrow> (\<exists>conns. (c, conns) \<in> set obs \<and> m \<in> fst ` set conns)"
  by (force simp: observed_names_def)

lemma plan_actions_split:
  "plan_actions desired obs z prot = (acts, def) \<Longrightarrow>
     (let (a1, d1) = plan_desired z obs 0 (sort_key dc_name desired);
          (a2, d2) = (if z_delete_orphans z then plan_orphans z (orphan desired prot) 0 (observed_names obs) else ([], []))
      in acts = a1 @ a2 \<and> def = d1 @ d2)"
  by (auto simp: plan_actions_def Let_def split: prod.splits if_splits)

text \<open>
  C20: A plan is bounded and careful.  It creates at most \<^verbatim>\<open>max_creates_per_run\<close> and deletes at most
  \<^verbatim>\<open>max_deletes_per_run\<close> connectors; a connector it deletes is observed in that cluster, carries the
  managed prefix, is not desired there and not protected, and deletion is enabled; every other
  action is for a desired connector, in its cluster.
\<close>

theorem plan_bounded_and_careful:
  assumes "plan_actions desired obs z prot = (acts, def)"
  shows "count_kind CREATE acts \<le> max 0 (z_max_creates_per_run z) \<and>
    count_kind DELETE acts \<le> max 0 (z_max_deletes_per_run z) \<and>
    (\<forall>a \<in> set acts. if ca_kind a = DELETE
       then z_delete_orphans z \<and> starts_with managed_prefix (ca_name a) \<and> ca_name a \<notin> set prot \<and>
         (\<exists>conns. (ca_cluster a, conns) \<in> set obs \<and> ca_name a \<in> fst ` set conns) \<and>
         (\<forall>d \<in> set desired. (dc_cluster d, dc_name d) \<noteq> (ca_cluster a, ca_name a))
       else \<exists>d \<in> set desired. (dc_cluster d, dc_name d) = (ca_cluster a, ca_name a))"
proof -
  obtain a1 d1 where p1: "plan_desired z obs 0 (sort_key dc_name desired) = (a1, d1)" by fastforce
  obtain a2 d2 where p2: "(if z_delete_orphans z then plan_orphans z (orphan desired prot) 0 (observed_names obs) else ([], [])) = (a2, d2)"
    by fastforce
  from plan_actions_split[OF assms] p1 p2 have acts: "acts = a1 @ a2" by (simp add: Let_def)
  have t1: "ca_kind a \<noteq> DELETE \<and> (\<exists>d \<in> set desired. ca_name a = dc_name d \<and> ca_cluster a = dc_cluster d)" if "a \<in> set a1" for a
    using plan_desired_target[of a z obs 0 "sort_key dc_name desired"] p1 that by simp
  have t2: "z_delete_orphans z \<and> ca_kind a = DELETE \<and> orphan desired prot (ca_cluster a) (ca_name a) \<and>
      (ca_cluster a, ca_name a) \<in> set (observed_names obs)" if "a \<in> set a2" for a
    using plan_orphans_safe[of a z "orphan desired prot" 0 "observed_names obs"] p2 that by (auto split: if_splits)
  have "count_kind CREATE a1 \<le> max 0 (z_max_creates_per_run z)" "count_kind DELETE a1 = 0" "count_kind CREATE a2 = 0"
    using plan_desired_creates[of z obs 0 "sort_key dc_name desired"] p1 t1 t2 by (auto intro!: count_kind_none)
  moreover have "count_kind DELETE a2 \<le> max 0 (z_max_deletes_per_run z)"
    using plan_orphans_deletes[of z "orphan desired prot" 0 "observed_names obs"] p2 by (auto split: if_splits)
  moreover have "if ca_kind a = DELETE
       then z_delete_orphans z \<and> starts_with managed_prefix (ca_name a) \<and> ca_name a \<notin> set prot \<and>
         (\<exists>conns. (ca_cluster a, conns) \<in> set obs \<and> ca_name a \<in> fst ` set conns) \<and>
         (\<forall>d \<in> set desired. (dc_cluster d, dc_name d) \<noteq> (ca_cluster a, ca_name a))
       else \<exists>d \<in> set desired. (dc_cluster d, dc_name d) = (ca_cluster a, ca_name a)" if "a \<in> set acts" for a
  proof (cases "a \<in> set a1")
    case True
    from t1[OF this] show ?thesis by force
  next
    case False
    with that have "a \<in> set a2" by (simp add: acts)
    from t2[OF this] show ?thesis by (simp add: orphan_def set_observed_names)
  qed
  moreover have "count_kind CREATE acts = count_kind CREATE a1 + count_kind CREATE a2"
    "count_kind DELETE acts = count_kind DELETE a1 + count_kind DELETE a2"
    by (simp_all add: acts)
  ultimately show ?thesis by (intro conjI ballI) (linarith | blast)+
qed

text \<open>
  A plan forgets nothing.  Every desired connector is observed, created by the plan or named
  among the deferred ones; and, when deletion is enabled, every observed connector that is managed,
  undesired and unprotected is deleted by the plan or named among the deferred ones.
\<close>

theorem plan_forgets_nothing:
  assumes "plan_actions desired obs z prot = (acts, def)"
  shows "(\<forall>d \<in> set desired. obs_of obs (dc_cluster d) (dc_name d) \<noteq> None \<or>
       act CREATE d (Some (dc_config d)) \<in> set acts \<or> dc_name d \<in> set def) \<and>
    (z_delete_orphans z \<longrightarrow> (\<forall>(c, conns) \<in> set obs. \<forall>m \<in> fst ` set conns. orphan desired prot c m \<longrightarrow>
       (\<exists>a \<in> set acts. ca_kind a = DELETE \<and> ca_cluster a = c \<and> ca_name a = m) \<or> m \<in> set def))"
proof -
  obtain a1 d1 where p1: "plan_desired z obs 0 (sort_key dc_name desired) = (a1, d1)" by fastforce
  obtain a2 d2 where p2: "(if z_delete_orphans z then plan_orphans z (orphan desired prot) 0 (observed_names obs) else ([], [])) = (a2, d2)"
    by fastforce
  from plan_actions_split[OF assms] p1 p2 have acts: "acts = a1 @ a2" "def = d1 @ d2" by (simp_all add: Let_def)
  have "obs_of obs (dc_cluster d) (dc_name d) \<noteq> None \<or> act CREATE d (Some (dc_config d)) \<in> set acts \<or> dc_name d \<in> set def"
    if "d \<in> set desired" for d
    using plan_desired_covers[of d "sort_key dc_name desired" obs z 0] that p1 by (auto simp: acts)
  moreover have "(\<exists>a \<in> set acts. ca_kind a = DELETE \<and> ca_cluster a = c \<and> ca_name a = m) \<or> m \<in> set def"
    if "z_delete_orphans z" "(c, conns) \<in> set obs" "m \<in> fst ` set conns" "orphan desired prot c m" for c conns m
    using plan_orphans_covers[of c m "observed_names obs" "orphan desired prot" z 0] that p2 set_observed_names[of c m obs]
    by (auto simp: acts)
  ultimately show ?thesis by blast
qed

definition converged :: "desired_connector list \<Rightarrow> observed \<Rightarrow> string list \<Rightarrow> bool" where
  "converged desired obs prot \<longleftrightarrow>
     (\<forall>d \<in> set desired. \<exists>ob. obs_of obs (dc_cluster d) (dc_name d) = Some ob \<and> \<not> drifted d ob \<and>
        (dc_paused d \<longleftrightarrow> ob_state ob = ''PAUSED'') \<and> \<not> failed ob) \<and>
     (\<forall>(c, conns) \<in> set obs. \<forall>m \<in> fst ` set conns. \<not> orphan desired prot c m)"

text \<open>
  C21: Planning is a fixed point exactly at the desired state: with deletion enabled, nothing is
  planned and nothing deferred if and only if every desired connector is observed with its
  configuration, paused or running as desired and not failed, and no orphan is observed.
\<close>

theorem plan_empty_iff_converged:
  assumes "z_delete_orphans z"
  shows "plan_actions desired obs z prot = ([], []) \<longleftrightarrow> converged desired obs prot"
proof -
  have "plan_actions desired obs z prot = ([], []) \<longleftrightarrow>
      plan_desired z obs 0 (sort_key dc_name desired) = ([], []) \<and>
      plan_orphans z (orphan desired prot) 0 (observed_names obs) = ([], [])"
    using assms by (auto simp: plan_actions_def split: prod.splits)
  also have "\<dots> \<longleftrightarrow> converged desired obs prot"
  proof -
    have "(\<forall>(c, m) \<in> set (observed_names obs). \<not> orphan desired prot c m) \<longleftrightarrow>
        (\<forall>(c, conns) \<in> set obs. \<forall>m \<in> fst ` set conns. \<not> orphan desired prot c m)"
      using set_observed_names[of _ _ obs] by fast
    then show ?thesis
      unfolding plan_desired_empty plan_orphans_empty converged_def adjust_empty by simp
  qed
  finally show ?thesis .
qed

section \<open>What a configuration contains\<close>

lemma config_update_other: "k \<notin> fst ` set ov \<Longrightarrow> map_of (config_update cfg ov) k = map_of cfg k"
  unfolding config_update_def by (induction ov arbitrary: cfg) (auto simp: fun_upd_def)

lemma build_connector_config_Inr:
  assumes "build_connector_config env s ct z = Inr cfg"
  obtains placeholder cfg' where "connect_placeholder env (s_secret_ref s) (s_source_id s) = Inr placeholder"
    "cfg = config_update cfg' (z_overrides z)"
    "\<And>k. k \<notin> {''heartbeat.action.query'', ''signal.enabled.channels'', ''signal.data.collection''} \<Longrightarrow>
       map_of cfg' k = map_of (base_config env s ct z placeholder) k"
  using assms
  by (auto simp: build_connector_config_def with_heartbeat_def with_signal_def rbind_Inr_iff split: if_splits)

lemma base_config_lookup:
  "map_of (base_config env s ct z p) ''slot.name'' = Some (slot_name s)"
  "map_of (base_config env s ct z p) ''topic.prefix'' = Some (s_source_id s)"
  "map_of (base_config env s ct z p) ''database.password'' = Some p"
  "map_of (base_config env s ct z p) ''slot.drop.on.stop'' = Some ''false''"
  by (simp_all add: base_config_def Let_def)

text \<open>
  A connector's configuration is the source's own.  Where the overrides do not say otherwise,
  a built configuration captures through the slot of the source's current generation, writes under
  the source's topic prefix, keeps the slot when it stops, and carries a placeholder
  that Kafka Connect resolves, never the secret.
\<close>

theorem config_is_the_sources_own:
  assumes "build_connector_config env s ct z = Inr cfg"
    and "fst ` set (z_overrides z) \<inter> {''slot.name'', ''topic.prefix'', ''database.password'', ''slot.drop.on.stop''} = {}"
  shows "map_of cfg ''slot.name'' = Some (slot_name s) \<and> map_of cfg ''topic.prefix'' = Some (s_source_id s) \<and>
    map_of cfg ''slot.drop.on.stop'' = Some ''false'' \<and>
    (\<exists>placeholder. connect_placeholder env (s_secret_ref s) (s_source_id s) = Inr placeholder \<and>
       map_of cfg ''database.password'' = Some placeholder)"
  using assms(1)
proof (rule build_connector_config_Inr)
  fix placeholder cfg'
  assume p: "connect_placeholder env (s_secret_ref s) (s_source_id s) = Inr placeholder"
    and cfg: "cfg = config_update cfg' (z_overrides z)"
    and base: "\<And>k. k \<notin> {''heartbeat.action.query'', ''signal.enabled.channels'', ''signal.data.collection''} \<Longrightarrow>
       map_of cfg' k = map_of (base_config env s ct z placeholder) k"
  have "map_of cfg k = map_of (base_config env s ct z placeholder) k"
    if "k \<in> {''slot.name'', ''topic.prefix'', ''database.password'', ''slot.drop.on.stop''}" for k
  proof -
    from that assms(2) have "k \<notin> fst ` set (z_overrides z)" by blast
    moreover have "k \<notin> {''heartbeat.action.query'', ''signal.enabled.channels'', ''signal.data.collection''}"
      using that by auto
    ultimately show ?thesis unfolding cfg by (rule trans[OF config_update_other base])
  qed
  then show ?thesis using p by (simp add: base_config_lookup)
qed

text \<open>
  Personal data stays at the source.  With personal columns excluded, every column of the
  capture list is a candidate of a contract column that is neither synthetic nor personal; and
  without the exclusion, of one that is not synthetic.
\<close>

theorem captured_columns_allowed:
  assumes "col \<in> set (capture_columns z schema ct)"
  shows "\<exists>t \<in> set (ct_tables ct). \<exists>c \<in> set (tc_columns t). \<exists>cand \<in> set (cdc_candidates c).
    col = schema @ ''.'' @ tc_table_name t @ ''.'' @ cand \<and> \<not> c_synthetic c \<and> (z_exclude_pii z \<longrightarrow> \<not> c_pii c)"
  using assms by (auto simp: capture_columns_def)

end
