(* ===== verification/Registry_Store.thy ===== *)
theory Registry_Store
  imports Warehouse
begin

text \<open>
  The class \<^verbatim>\<open>SourceRegistry\<close> of \<^verbatim>\<open>src/controlplane/registry.py\<close>: the operations on
  \<^verbatim>\<open>meta.source_registry\<close>, with the constraints the table puts on a row.  The hash that spreads
  sources over shards is PostgreSQL's and is a parameter.

  Shown: re-registering a source never moves its lifecycle or its capture generation and, unless
  it is allowed to, never changes where the source connects; a new source starts at or above the
  generation floor left by a retired one; lifecycle changes follow the table; shards partition
  the registry.
\<close>

section \<open>Constraints of the table\<close>

text \<open>In SQL \<^verbatim>\<open>$\<close> matches at the very end only.\<close>

definition sql_source_id_ok :: "string \<Rightarrow> bool" where
  "sql_source_id_ok s \<longleftrightarrow> (case s of [] \<Rightarrow> False
     | c # cs \<Rightarrow> (is_lower_char c \<or> is_digit_char c) \<and> list_all is_source_char cs \<and> length cs \<le> 62)"

definition sql_secret_ref_ok :: "string option \<Rightarrow> bool" where
  "sql_secret_ref_ok r \<longleftrightarrow> (case r of None \<Rightarrow> True | Some s \<Rightarrow> starts_with ''env:'' s \<or> starts_with ''file:'' s)"

definition check_registry_row :: "source_record \<Rightarrow> unit result" where
  "check_registry_row r = guard (sql_source_id_ok (s_source_id r) \<and> lifecycle_known (s_lifecycle_state r) \<and>
       sql_secret_ref_ok (s_secret_ref r)) (DatabaseError ''23514'' ''violates check constraint'') (Inr ())"

section \<open>Operations\<close>

definition create_source :: "os_env \<Rightarrow> source_record \<Rightarrow> unit dbop" where
  "create_source env r =
     sbind (slift (validate env r)) (\<lambda>_.
     sbind (stmt (\<lambda>c. rbind (check_registry_row r) (\<lambda>_. let d = k_working c in
       if map_of (d_registry d) (s_source_id r) = None
       then Inr (1 :: int, d\<lparr>d_registry := d_registry d @ [(s_source_id r, r)]\<rparr>) else Inr (0, d)))) (\<lambda>rowcount.
     if rowcount \<noteq> 1 then sraise (RegistryError (''Source '' @ s_source_id r @ '' is already registered''))
     else sret ()))"

definition connection_fields :: "source_record \<Rightarrow> string option \<times> int \<times> string option \<times> string option \<times> string option" where
  "connection_fields r = (s_db_host r, s_db_port r, s_db_name r, s_db_user r, s_secret_ref r)"

definition changed_fields :: "source_record \<Rightarrow> source_record \<Rightarrow> string list" where
  "changed_fields old r =
     (if s_db_host old \<noteq> s_db_host r then [''db_host''] else []) @
     (if s_db_port old \<noteq> s_db_port r then [''db_port''] else []) @
     (if s_db_name old \<noteq> s_db_name r then [''db_name''] else []) @
     (if s_db_user old \<noteq> s_db_user r then [''db_user''] else []) @
     (if s_secret_ref old \<noteq> s_secret_ref r then [''secret_ref''] else [])"

fun refuse_connection_changes :: "(string \<times> source_record) list \<Rightarrow> source_record list \<Rightarrow> unit result" where
  "refuse_connection_changes existing [] = Inr ()"
| "refuse_connection_changes existing (r # rs) =
     (case map_of existing (s_source_id r) of
        None \<Rightarrow> refuse_connection_changes existing rs
      | Some old \<Rightarrow>
          guard (changed_fields old r = [])
            (RegistryError (''Source '' @ s_source_id r @ '' is already registered with different '' @
               py_join '', '' (changed_fields old r) @ ''; changing where an existing source connects needs '' @
               ''allow_connection_change (CLI --allow-connection-change)''))
            (refuse_connection_changes existing rs))"

definition generation_floor :: "db \<Rightarrow> string \<Rightarrow> int" where
  "generation_floor d sid = get_or 0 (map_of (d_floor d) sid)"

text \<open>One \<^verbatim>\<open>INSERT ... ON CONFLICT DO UPDATE\<close>: lifecycle and generation of an existing row stay.\<close>

definition upsert_row :: "source_record \<Rightarrow> db \<Rightarrow> db result" where
  "upsert_row r d =
     rbind (check_registry_row r) (\<lambda>_.
     Inr (case map_of (d_registry d) (s_source_id r) of
        None \<Rightarrow> d\<lparr>d_registry := d_registry d @ [(s_source_id r,
                 r\<lparr>s_capture_generation := max (s_capture_generation r) (generation_floor d (s_source_id r))\<rparr>)]\<rparr>
      | Some old \<Rightarrow> d\<lparr>d_registry := AList.update (s_source_id r)
                 (r\<lparr>s_lifecycle_state := s_lifecycle_state old,
                    s_capture_generation := s_capture_generation old\<rparr>) (d_registry d)\<rparr>))"

definition upsert_sources :: "os_env \<Rightarrow> source_record list \<Rightarrow> bool \<Rightarrow> nat dbop" where
  "upsert_sources env records allow_connection_change =
     sbind (query (\<lambda>c. if records \<noteq> [] \<and> \<not> allow_connection_change
              then refuse_connection_changes (d_registry (k_working c)) records else Inr ())) (\<lambda>_.
     sbind (slift (rmap (validate env) records)) (\<lambda>_.
     if records = [] then sret 0
     else sbind (sfor records (\<lambda>r. stmt (\<lambda>c. rbind (upsert_row r (k_working c)) (\<lambda>d. Inr ((), d))))) (\<lambda>_.
     sret (length records))))"

definition get_source :: "string \<Rightarrow> source_record dbop" where
  "get_source sid = query (\<lambda>c. case map_of (d_registry (k_working c)) sid of
     None \<Rightarrow> Inl (RegistryError (''Unknown source '' @ sid)) | Some r \<Rightarrow> Inr r)"

definition in_shard :: "(string \<Rightarrow> int) \<Rightarrow> int option \<Rightarrow> int option \<Rightarrow> string \<Rightarrow> bool" where
  "in_shard hashtext index count sid =
     (case count of None \<Rightarrow> True
      | Some n \<Rightarrow> n = 0 \<or> \<bar>hashtext sid\<bar> mod n = get_or 0 index)"

definition list_sources :: "(string \<Rightarrow> int) \<Rightarrow> string list \<Rightarrow> string option \<Rightarrow> int option \<Rightarrow> int option \<Rightarrow>
    source_record list dbop" where
  "list_sources hashtext states region index count = sget (\<lambda>c.
     map snd (sort_key fst (filter (\<lambda>(sid, r).
         (states \<noteq> [] \<longrightarrow> s_lifecycle_state r \<in> set states) \<and>
         (truthy region \<longrightarrow> Some (s_region r) = region) \<and> in_shard hashtext index count sid)
       (d_registry (k_working c)))))"

definition set_lifecycle :: "string \<Rightarrow> string \<Rightarrow> unit dbop" where
  "set_lifecycle sid new_state =
     sbind (get_source sid) (\<lambda>r.
     let current = s_lifecycle_state r in
     if new_state = current then sret ()
     else if \<not> lifecycle_allowed current new_state then
       sraise (RegistryError (sid @ '': lifecycle '' @ current @ '' -> '' @ new_state @ '' is not allowed''))
     else sbind (stmt (\<lambda>c. let d = k_working c in
         case map_of (d_registry d) sid of
           None \<Rightarrow> Inr (0 :: int, d)
         | Some r' \<Rightarrow> if s_lifecycle_state r' \<noteq> current then Inr (0, d)
             else Inr (1, d\<lparr>d_registry := AList.update sid (r'\<lparr>s_lifecycle_state := new_state\<rparr>) (d_registry d)\<rparr>))) (\<lambda>rowcount.
       if rowcount \<noteq> 1 then sraise (RegistryError (sid @ '': concurrent lifecycle change detected''))
       else sret ()))"

definition bump_capture_generation :: "string \<Rightarrow> int dbop" where
  "bump_capture_generation sid = stmt (\<lambda>c. let d = k_working c in
     case map_of (d_registry d) sid of
       None \<Rightarrow> Inl (RegistryError (''Unknown source '' @ sid))
     | Some r \<Rightarrow> (let g = s_capture_generation r + 1 in
         Inr (g, d\<lparr>d_registry := AList.update sid (r\<lparr>s_capture_generation := g\<rparr>) (d_registry d)\<rparr>)))"

text \<open>
  \<^verbatim>\<open>DELETE FROM meta.source_registry\<close> with the trigger \<^verbatim>\<open>meta.guard_source_delete\<close> and the cascade to the
  ownership rows.
\<close>

definition owns_something :: "string \<Rightarrow> tkey \<times> ownership_row \<Rightarrow> bool" where
  "owns_something sid kr \<longleftrightarrow> fst (fst kr) = sid \<and>
     (o_engine (w_own (snd kr)) \<noteq> NONE \<or> o_shadow_engine (w_own (snd kr)) \<noteq> None)"

definition delete_source :: "string \<Rightarrow> db \<Rightarrow> db result" where
  "delete_source sid d =
     (if map_of (d_registry d) sid = None then Inr d
      else guard (\<not> list_ex (owns_something sid) (d_ownership d))
        (fbi03 (''Source '' @ sid @ '' still owns tables; retire it (as a platform administrator) before deleting it''))
        (Inr (d\<lparr>d_registry := filter (\<lambda>kr. fst kr \<noteq> sid) (d_registry d),
                d_ownership := filter (\<lambda>kr. fst (fst kr) \<noteq> sid) (d_ownership d)\<rparr>)))"

section \<open>Registration\<close>

lemma changed_fields_Nil: "changed_fields old r = [] \<longleftrightarrow> connection_fields r = connection_fields old"
  by (auto simp: changed_fields_def connection_fields_def)

lemma refuse_connection_changes_Inr:
  "refuse_connection_changes existing rs = Inr () \<longleftrightarrow>
     (\<forall>r \<in> set rs. \<forall>old. map_of existing (s_source_id r) = Some old \<longrightarrow> connection_fields r = connection_fields old)"
  by (induction rs) (auto simp: changed_fields_Nil split: option.splits)

lemma map_of_snoc: "map_of xs k = None \<Longrightarrow> map_of (xs @ [(k, v)]) = (map_of xs)(k \<mapsto> v)"
  by (auto simp: fun_eq_iff map_add_def map_of_append split: option.splits)

text \<open>What upserting records that satisfy \<open>P\<close> may do to the entry of a source, and to the registry.\<close>

definition entry_upserted :: "(source_record \<Rightarrow> bool) \<Rightarrow> string \<Rightarrow> int \<Rightarrow> source_record option \<Rightarrow> source_record option \<Rightarrow> bool" where
  "entry_upserted P sid flr o1 o2 \<longleftrightarrow> (case o1 of
     Some old \<Rightarrow> (\<exists>new. o2 = Some new \<and> s_lifecycle_state new = s_lifecycle_state old \<and>
       s_capture_generation new = s_capture_generation old \<and>
       (new = old \<or> (\<exists>r. P r \<and> s_source_id r = sid \<and> connection_fields new = connection_fields r)))
   | None \<Rightarrow> (case o2 of None \<Rightarrow> True
       | Some new \<Rightarrow> flr \<le> s_capture_generation new \<and> (\<exists>r. P r \<and> s_source_id r = sid)))"

definition upserted :: "(source_record \<Rightarrow> bool) \<Rightarrow> db \<Rightarrow> db \<Rightarrow> bool" where
  "upserted P d d' \<longleftrightarrow> d_floor d' = d_floor d \<and>
     (\<forall>sid. entry_upserted P sid (generation_floor d sid) (map_of (d_registry d) sid) (map_of (d_registry d') sid))"

lemma upserted_refl: "upserted P d d"
  by (simp add: upserted_def entry_upserted_def split: option.splits)

lemma entry_upserted_trans:
  "entry_upserted P sid flr o1 o2 \<Longrightarrow> entry_upserted P sid flr o2 o3 \<Longrightarrow> entry_upserted P sid flr o1 o3"
  by (cases o1; cases o2; cases o3) (auto simp: entry_upserted_def)

lemma upserted_trans:
  assumes "upserted P d d1" and "upserted P d1 d'"
  shows "upserted P d d'"
proof -
  have "generation_floor d1 = generation_floor d"
    using assms(1) by (simp add: upserted_def generation_floor_def fun_eq_iff)
  with assms show ?thesis unfolding upserted_def using entry_upserted_trans by metis
qed

lemma upsert_row_upserted:
  assumes "upsert_row r d = Inr d'" and "P r"
  shows "upserted P d d'"
proof (cases "map_of (d_registry d) (s_source_id r)")
  case None
  with assms(1) have d': "d_floor d' = d_floor d" "map_of (d_registry d') = (map_of (d_registry d))(s_source_id r \<mapsto>
      r\<lparr>s_capture_generation := max (s_capture_generation r) (generation_floor d (s_source_id r))\<rparr>)"
    by (auto simp: upsert_row_def rbind_Inr_iff map_of_snoc simp del: map_of_append)
  show ?thesis
    unfolding upserted_def d' using None assms(2) by (auto simp: entry_upserted_def split: option.splits)
next
  case (Some old)
  with assms(1) have d': "d_floor d' = d_floor d" "map_of (d_registry d') = (map_of (d_registry d))(s_source_id r \<mapsto>
      r\<lparr>s_lifecycle_state := s_lifecycle_state old, s_capture_generation := s_capture_generation old\<rparr>)"
    by (auto simp: upsert_row_def rbind_Inr_iff)
  have "connection_fields (r\<lparr>s_lifecycle_state := x, s_capture_generation := y\<rparr>) = connection_fields r" for x y
    by (simp add: connection_fields_def)
  then show ?thesis
    unfolding upserted_def d' using Some assms(2) by (auto simp: entry_upserted_def split: option.splits)
qed

lemma keeps_upsert_loop:
  assumes "\<And>r. r \<in> set records \<Longrightarrow> P r"
  shows "keeps (\<lambda>c. upserted P d (k_working c))
    (sfor records (\<lambda>r. stmt (\<lambda>c. rbind (upsert_row r (k_working c)) (\<lambda>d. Inr ((), d)))))"
proof (rule keeps_sfor)
  fix r assume "r \<in> set records"
  then have "P r" by (rule assms)
  then have "upserted P d d'" if "upserted P d d1" "upsert_row r d1 = Inr d'" for d1 d'
    using that upsert_row_upserted upserted_trans by blast
  then show "keeps (\<lambda>c. upserted P d (k_working c)) (stmt (\<lambda>c. rbind (upsert_row r (k_working c)) (\<lambda>d. Inr ((), d))))"
    by (auto simp: keeps_def sx_simps rbind_def split: sum.splits)
qed

text \<open>
  Registering sources again is safe.  An accepted \<^verbatim>\<open>upsert\<close> leaves every registered source
  registered, with its lifecycle state and capture generation, changes only sources it names
  and, unless connection changes are allowed, leaves the host, port, database, user and
  secret of every source already registered as they were; a source it adds starts at or above
  the generation floor of its id.
\<close>

theorem upsert_preserves_sources:
  assumes "upsert_sources env records allow c = (Inr n, c')"
  shows "(\<forall>sid old. map_of (d_registry (k_working c)) sid = Some old \<longrightarrow>
      (\<exists>new. map_of (d_registry (k_working c')) sid = Some new \<and>
         s_lifecycle_state new = s_lifecycle_state old \<and> s_capture_generation new = s_capture_generation old \<and>
         (sid \<notin> s_source_id ` set records \<longrightarrow> new = old) \<and>
         (\<not> allow \<longrightarrow> connection_fields new = connection_fields old))) \<and>
    (\<forall>sid new. map_of (d_registry (k_working c)) sid = None \<and> map_of (d_registry (k_working c')) sid = Some new \<longrightarrow>
       sid \<in> s_source_id ` set records \<and> generation_floor (k_working c) sid \<le> s_capture_generation new)"
proof (cases "records = []")
  case True
  with assms have "c' = c" by (simp add: upsert_sources_def sbind_def sx_simps)
  then show ?thesis by auto
next
  case False
  define P where "P r \<longleftrightarrow> r \<in> set records" for r
  from assms False have nofuse: "\<not> allow \<longrightarrow> refuse_connection_changes (d_registry (k_working c)) records = Inr ()"
    and loop: "\<exists>us. sfor records (\<lambda>r. stmt (\<lambda>c. rbind (upsert_row r (k_working c)) (\<lambda>d. Inr ((), d)))) c = (Inr us, c')"
    by (auto simp: upsert_sources_def sbind_def sx_simps split: sum.splits prod.splits if_splits)
  from loop obtain us where "sfor records (\<lambda>r. stmt (\<lambda>c. rbind (upsert_row r (k_working c)) (\<lambda>d. Inr ((), d)))) c = (Inr us, c')"
    by blast
  then have "upserted P (k_working c) (k_working c')"
    by (rule keeps_run[OF keeps_upsert_loop, rotated 2]) (simp_all add: P_def upserted_refl)
  then have up: "entry_upserted P sid (generation_floor (k_working c) sid) (map_of (d_registry (k_working c)) sid)
      (map_of (d_registry (k_working c')) sid)" for sid
    by (simp add: upserted_def)
  have same: "connection_fields r = connection_fields old"
    if "\<not> allow" "P r" "map_of (d_registry (k_working c)) (s_source_id r) = Some old" for r old
    using that nofuse by (auto simp: P_def refuse_connection_changes_Inr)
  show ?thesis
  proof (intro conjI allI impI)
    fix sid old
    assume old: "map_of (d_registry (k_working c)) sid = Some old"
    with up[of sid] obtain new where "map_of (d_registry (k_working c')) sid = Some new"
      "s_lifecycle_state new = s_lifecycle_state old" "s_capture_generation new = s_capture_generation old"
      "new = old \<or> (\<exists>r. P r \<and> s_source_id r = sid \<and> connection_fields new = connection_fields r)"
      by (auto simp: entry_upserted_def)
    then show "\<exists>new. map_of (d_registry (k_working c')) sid = Some new \<and>
         s_lifecycle_state new = s_lifecycle_state old \<and> s_capture_generation new = s_capture_generation old \<and>
         (sid \<notin> s_source_id ` set records \<longrightarrow> new = old) \<and>
         (\<not> allow \<longrightarrow> connection_fields new = connection_fields old)"
      using same old by (intro exI[of _ new]) (auto simp: P_def)
  next
    fix sid new
    assume "map_of (d_registry (k_working c)) sid = None \<and> map_of (d_registry (k_working c')) sid = Some new"
    with up[of sid] show "sid \<in> s_source_id ` set records" "generation_floor (k_working c) sid \<le> s_capture_generation new"
      by (auto simp: entry_upserted_def P_def)
  qed
qed

section \<open>Lifecycle\<close>

lemma set_lifecycle_Inr:
  assumes "set_lifecycle sid st c = (Inr u, c')"
  obtains r where "map_of (d_registry (k_working c)) sid = Some r"
    "s_lifecycle_state r = st \<and> c' = c \<or> lifecycle_allowed (s_lifecycle_state r) st \<and>
       c' = c\<lparr>k_working := (k_working c)\<lparr>d_registry := AList.update sid (r\<lparr>s_lifecycle_state := st\<rparr>)
         (d_registry (k_working c))\<rparr>\<rparr>"
  using assms
  by (cases "map_of (d_registry (k_working c)) sid")
    (auto simp: set_lifecycle_def get_source_def sbind_def sx_simps Let_def split: if_splits)

lemma set_lifecycle_Inl: "set_lifecycle sid st c = (Inl e, c') \<Longrightarrow> c' = c"
  by (cases "map_of (d_registry (k_working c)) sid")
    (auto simp: set_lifecycle_def get_source_def sbind_def sx_simps Let_def split: if_splits)

text \<open>
  Lifecycle changes follow the table.  After an accepted \<^verbatim>\<open>set_lifecycle\<close> the source is in the
  requested state, which it was in already or which the table allows from its state, and
  nothing else of the source and no other source changed; a refused change leaves the registry
  as it was, and a retired source is refused every other state.
\<close>

theorem set_lifecycle_follows_table:
  "(set_lifecycle sid st c = (Inr (), c') \<longrightarrow>
      (\<exists>r. map_of (d_registry (k_working c)) sid = Some r \<and>
         (s_lifecycle_state r = st \<or> lifecycle_allowed (s_lifecycle_state r) st) \<and>
         map_of (d_registry (k_working c')) = (map_of (d_registry (k_working c)))(sid \<mapsto> r\<lparr>s_lifecycle_state := st\<rparr>))) \<and>
   (set_lifecycle sid st c = (Inl e, c') \<longrightarrow> c' = c) \<and>
   (map_option s_lifecycle_state (map_of (d_registry (k_working c)) sid) = Some ''RETIRED'' \<and> st \<noteq> ''RETIRED'' \<longrightarrow>
      (\<exists>msg. fst (set_lifecycle sid st c) = Inl (RegistryError msg)))"
proof (intro conjI impI)
  assume "set_lifecycle sid st c = (Inr (), c')"
  then show "\<exists>r. map_of (d_registry (k_working c)) sid = Some r \<and>
         (s_lifecycle_state r = st \<or> lifecycle_allowed (s_lifecycle_state r) st) \<and>
         map_of (d_registry (k_working c')) = (map_of (d_registry (k_working c)))(sid \<mapsto> r\<lparr>s_lifecycle_state := st\<rparr>)"
  proof (rule set_lifecycle_Inr)
    fix r
    assume "map_of (d_registry (k_working c)) sid = Some r"
      "s_lifecycle_state r = st \<and> c' = c \<or> lifecycle_allowed (s_lifecycle_state r) st \<and>
       c' = c\<lparr>k_working := (k_working c)\<lparr>d_registry := AList.update sid (r\<lparr>s_lifecycle_state := st\<rparr>)
         (d_registry (k_working c))\<rparr>\<rparr>"
    then show ?thesis by (intro exI[of _ r]) auto
  qed
next
  assume "set_lifecycle sid st c = (Inl e, c')"
  then show "c' = c" by (rule set_lifecycle_Inl)
next
  assume "map_option s_lifecycle_state (map_of (d_registry (k_working c)) sid) = Some ''RETIRED'' \<and> st \<noteq> ''RETIRED''"
  moreover have "\<not> lifecycle_allowed ''RETIRED'' st"
    by (simp add: lifecycle_allowed_def lifecycle_transitions_def)
  ultimately show "\<exists>msg. fst (set_lifecycle sid st c) = Inl (RegistryError msg)"
    by (auto simp: set_lifecycle_def get_source_def sbind_def sx_simps Let_def)
qed

section \<open>Shards\<close>

text \<open>
  Shards partition the registry: with \<open>n\<close> shards every source is listed by exactly one of
  the shards 0 to n - 1, whatever the hash, so no source is reconciled twice or skipped.
\<close>

theorem shards_partition_sources:
  assumes "n > 0"
  shows "\<exists>!i. 0 \<le> i \<and> i < n \<and> in_shard hashtext (Some i) (Some n) sid"
  using assms by (intro ex1I[of _ "\<bar>hashtext sid\<bar> mod n"]) (auto simp: in_shard_def get_or_def)

end
