(* ===== verification/Reconciler.thy ===== *)
theory Reconciler
  imports Connectors Registry_Store
begin

text \<open>
  \<^verbatim>\<open>src/controlplane/reconciler.py\<close>: from the registry and ownership tables to the connectors that
  should run, from the Connect clusters to the ones that do, the execution of the plan, and the
  cleanup of replication slots and tombstones.

  The Connect clusters and the source databases are outside the program.  They are the argument
  \<open>api\<close>, a record of operations on a state \<open>'w\<close> the model says nothing about: each may fail, and
  each may have changed that state when it fails.  The handlers run over the warehouse
  connection and that outside state together.

  Shown: a dry run changes nothing, neither in the warehouse nor outside; no planned
  action concerns a cluster that could not be observed, and no deletion a connector of a source
  whose configuration could not be built; only inactive slots of the source itself, and never the
  one in use, are dropped; a source is forgotten only as a marked tombstone with its slots
  and connectors confirmed gone.
\<close>

section \<open>The outside world\<close>

record 'w connect_api =
  api_list_names :: "string \<Rightarrow> 'w \<Rightarrow> string list result"
  api_describe :: "string \<Rightarrow> string \<Rightarrow> 'w \<Rightarrow> observed_connector result"
  api_execute :: "string \<Rightarrow> http_request \<Rightarrow> 'w \<Rightarrow> unit result \<times> 'w"
  api_slots :: "source_record \<Rightarrow> string \<Rightarrow> 'w \<Rightarrow> (string \<times> bool) list result"
  api_drop_slot :: "source_record \<Rightarrow> string \<Rightarrow> 'w \<Rightarrow> unit result \<times> 'w"

record 'w sys =
  y_conn :: conn
  y_world :: 'w

definition on_conn :: "'a dbop \<Rightarrow> ('w sys, 'a) sx" where
  "on_conn m s = (case m (y_conn s) of (r, c) \<Rightarrow> (r, s\<lparr>y_conn := c\<rparr>))"

definition on_world :: "('w \<Rightarrow> 'a result \<times> 'w) \<Rightarrow> ('w sys, 'a) sx" where
  "on_world f s = (case f (y_world s) of (r, w) \<Rightarrow> (r, s\<lparr>y_world := w\<rparr>))"

definition ask_world :: "('w \<Rightarrow> 'a result) \<Rightarrow> ('w sys, 'a) sx" where
  "ask_world f s = (f (y_world s), s)"

fun exn_message :: "py_exn \<Rightarrow> string" where
  "exn_message (TransitionError m) = m"
| "exn_message (RegistryError m) = m"
| "exn_message (SecretError m) = m"
| "exn_message (ValueError m) = m"
| "exn_message (KeyError m) = m"
| "exn_message (IndexError m) = m"
| "exn_message (RuntimeError m) = m"
| "exn_message (PermissionError m) = m"
| "exn_message (FencedError m) = m"
| "exn_message (SystemExit m) = m"
| "exn_message (TypeError m) = m"
| "exn_message (AttributeError m) = m"
| "exn_message (MultipleResultsFound m) = m"
| "exn_message (ZeroDivisionError m) = m"
| "exn_message (DatabaseError st m) = m"

section \<open>Desired connectors\<close>

record desired_state =
  ds_connectors :: "desired_connector list"
  ds_shard_source_ids :: "string list"
  ds_errors :: "(string \<times> string) list"
  ds_unknown_sources :: "string list"

definition kafka_owned_sources :: "db \<Rightarrow> string list" where
  "kafka_owned_sources d = remdups (map (fst \<circ> fst) (filter (\<lambda>kr.
     o_engine (w_own (snd kr)) = KAFKA \<or> o_shadow_engine (w_own (snd kr)) = Some KAFKA) (d_ownership d)))"

fun collect_desired :: "os_env \<Rightarrow> contract \<Rightarrow> cdc_settings \<Rightarrow> string list \<Rightarrow> source_record list \<Rightarrow>
    (desired_connector list \<times> (string \<times> string) list \<times> string list) result" where
  "collect_desired env ct z kafka [] = Inr ([], [], [])"
| "collect_desired env ct z kafka (s # ss) =
     (if s_source_id s \<notin> set kafka \<or> label_set s ''synthetic'' then collect_desired env ct z kafka ss
      else if s_lifecycle_state s \<notin> set running_states \<and> s_lifecycle_state s \<noteq> ''PAUSED'' then
        collect_desired env ct z kafka ss
      else (case build_connector_config env s ct z of
          Inr cfg \<Rightarrow> rbind (collect_desired env ct z kafka ss) (\<lambda>(ds, es, us).
            Inr (\<lparr>dc_source_id = s_source_id s, dc_name = connector_name (s_source_id s) (s_capture_generation s),
                  dc_cluster = s_connect_cluster s, dc_config = cfg,
                  dc_paused = (s_lifecycle_state s = ''PAUSED'')\<rparr> # ds, es, us))
        | Inl e \<Rightarrow>
            if is_value_error e then rbind (collect_desired env ct z kafka ss) (\<lambda>(ds, es, us).
              Inr (ds, (s_source_id s, exn_message e) # es, s_source_id s # us))
            else Inl e))"

definition desired_connectors :: "(string \<Rightarrow> int) \<Rightarrow> os_env \<Rightarrow> contract \<Rightarrow> cdc_settings \<Rightarrow> int option \<Rightarrow> int option \<Rightarrow>
    desired_state dbop" where
  "desired_connectors hashtext env ct z index count =
     sbind (list_sources hashtext [] None index count) (\<lambda>sources.
     sbind (sget (\<lambda>c. kafka_owned_sources (k_working c))) (\<lambda>kafka.
     sbind (slift (collect_desired env ct z kafka sources)) (\<lambda>(ds, es, us).
     sret \<lparr>ds_connectors = ds, ds_shard_source_ids = map s_source_id sources, ds_errors = es,
           ds_unknown_sources = us\<rparr>)))"

section \<open>Observed connectors\<close>

definition mine :: "string list \<Rightarrow> string list \<Rightarrow> int option \<Rightarrow> string \<Rightarrow> bool" where
  "mine shard_ids registered index name =
     (case source_id_from_connector name of
        Some sid \<Rightarrow> sid \<in> set shard_ids \<or> get_or 0 index = 0 \<and> sid \<notin> set registered
      | None \<Rightarrow> get_or 0 index = 0)"

definition observe_cluster :: "'w connect_api \<Rightarrow> string \<Rightarrow> string list \<Rightarrow> string list \<Rightarrow> int option \<Rightarrow>
    ('w sys, (string \<times> observed_connector) list) sx" where
  "observe_cluster api cluster shard_ids registered index =
     sbind (ask_world (api_list_names api cluster)) (\<lambda>names.
     sfor (filter (\<lambda>n. starts_with managed_prefix n \<and> mine shard_ids registered index n) names)
       (\<lambda>n. sbind (ask_world (api_describe api cluster n)) (\<lambda>ob. sret (n, ob))))"

fun observe_all :: "'w connect_api \<Rightarrow> string list \<Rightarrow> string list \<Rightarrow> int option \<Rightarrow> string list \<Rightarrow>
    ('w sys, observed \<times> (string \<times> string) list) sx" where
  "observe_all api shard_ids registered index [] = sret ([], [])"
| "observe_all api shard_ids registered index (cl # cls) =
     sbind (scatch (sbind (observe_cluster api cl shard_ids registered index) (\<lambda>m. sret (Inr m)))
              (\<lambda>e. sret (Inl (exn_message e)))) (\<lambda>r.
     sbind (observe_all api shard_ids registered index cls) (\<lambda>(obs, errs).
     case r of Inr m \<Rightarrow> sret ((cl, m) # obs, errs) | Inl msg \<Rightarrow> sret (obs, (cl, msg) # errs)))"

definition protected_names :: "desired_state \<Rightarrow> observed \<Rightarrow> string list" where
  "protected_names st observed = filter (\<lambda>n. case source_id_from_connector n of
       None \<Rightarrow> False | Some sid \<Rightarrow> sid \<in> set (ds_unknown_sources st)) (concat (map (\<lambda>(cl, m). map fst m) observed))"

definition reconcile_plan :: "desired_state \<Rightarrow> observed \<Rightarrow> cdc_settings \<Rightarrow> connector_action list \<times> string list" where
  "reconcile_plan st observed z =
     plan_actions (filter (\<lambda>d. dc_cluster d \<in> fst ` set observed) (ds_connectors st)) observed z
       (protected_names st observed)"

section \<open>Slots\<close>

text \<open>\<^verbatim>\<open>name.startswith(prefix) and name[len(prefix):].isdigit()\<close>\<close>

definition own_slot :: "string \<Rightarrow> string \<Rightarrow> bool" where
  "own_slot sid name \<longleftrightarrow> starts_with (slot_prefix sid) name \<and> py_isdigit (drop (length (slot_prefix sid)) name)"

definition stale_slots :: "(string \<times> bool) list \<Rightarrow> string \<Rightarrow> string option \<Rightarrow> string list" where
  "stale_slots slots sid keep =
     sort (map fst (filter (\<lambda>(name, active). own_slot sid name \<and> Some name \<noteq> keep \<and> \<not> active) slots))"

definition slot_cleanup_decision :: "source_record \<Rightarrow> string list \<Rightarrow> (string \<times> string option) list \<Rightarrow> string list \<Rightarrow>
    bool \<times> string option" where
  "slot_cleanup_decision s kafka desired_slots unknown =
     (if s_source_id s \<in> set unknown then (False, None)
      else case map_of desired_slots (s_source_id s) of
        Some slot \<Rightarrow> (True, slot)
      | None \<Rightarrow> if s_lifecycle_state s \<in> {''RETIRING'', ''RETIRED''} \<or> s_source_id s \<notin> set kafka
                then (True, None) else (False, None))"

definition slot_check_key :: "source_record \<Rightarrow> string list \<Rightarrow> string" where
  "slot_check_key s kafka = int_str (s_capture_generation s) @ '':'' @
     (if s_source_id s \<in> set kafka then ''kafka'' else ''other'') @ '':'' @ s_lifecycle_state s"

definition slot_check_due :: "string \<Rightarrow> string \<Rightarrow> int \<Rightarrow> bool dbop" where
  "slot_check_due sid key interval = sget (\<lambda>c.
     case map_of (map (\<lambda>(s, k, t). (s, (k, t))) (d_slot_checks (k_working c))) sid of
       None \<Rightarrow> True
     | Some (k, t) \<Rightarrow> k \<noteq> key \<or> t < now c - minutes interval)"

definition mark_slot_checked :: "string \<Rightarrow> string \<Rightarrow> unit dbop" where
  "mark_slot_checked sid key = stmt (\<lambda>c. Inr ((), (k_working c)\<lparr>d_slot_checks :=
     (sid, key, now c) # filter (\<lambda>(s, _). s \<noteq> sid) (d_slot_checks (k_working c))\<rparr>))"

record slot_cleanup =
  sl_dropped :: "string list"
  sl_remaining :: "string list"

text \<open>The connection to the source is opened with the resolved secret, which may itself fail.\<close>

definition drop_slots :: "os_env \<Rightarrow> 'w connect_api \<Rightarrow> source_record \<Rightarrow> string option \<Rightarrow> ('w sys, slot_cleanup) sx" where
  "drop_slots env api s keep =
     sbind (slift (resolve env (s_secret_ref s) (s_source_id s))) (\<lambda>password.
     sbind (ask_world (api_slots api s password)) (\<lambda>slots.
     sbind (sfor (stale_slots slots (s_source_id s) keep)
       (\<lambda>slot. sbind (on_world (api_drop_slot api s slot)) (\<lambda>_. sret slot))) (\<lambda>dropped.
     sbind (ask_world (api_slots api s password)) (\<lambda>left.
     sret \<lparr>sl_dropped = dropped,
           sl_remaining = sort (filter (\<lambda>n. own_slot (s_source_id s) n \<and> Some n \<noteq> keep) (map fst left))\<rparr>))))"

section \<open>Cleaning up\<close>

datatype report_entry =
    Executed action_kind string string
  | DroppedSlot string string
  | ForgotSource string

definition tombstone :: "source_record \<Rightarrow> bool" where
  "tombstone s \<longleftrightarrow> s_lifecycle_state s = ''RETIRED'' \<and> label_set s ''forget_after_cleanup''"

definition forget_source :: "string \<Rightarrow> unit dbop" where
  "forget_source sid =
     sbind (stmt (\<lambda>c. rbind (delete_source sid (k_working c)) (\<lambda>d. Inr ((), d)))) (\<lambda>_. commit)"

definition has_connector :: "string \<Rightarrow> observed \<Rightarrow> bool" where
  "has_connector sid observed \<longleftrightarrow>
     list_ex (\<lambda>n. source_id_from_connector n = Some sid) (concat (map (\<lambda>(cl, m). map fst m) observed))"

type_synonym cleanup_report = "report_entry list \<times> (string \<times> string) list"

definition after_cleanup :: "source_record \<Rightarrow> observed \<Rightarrow> bool \<Rightarrow> string \<Rightarrow> slot_cleanup \<Rightarrow> ('w sys, cleanup_report) sx" where
  "after_cleanup s observed all_observed key cleanup =
     (let dropped = map (\<lambda>slot. DroppedSlot slot (s_source_id s)) (sl_dropped cleanup) in
      sbind (on_conn (mark_slot_checked (s_source_id s) key)) (\<lambda>_.
      sbind (on_conn commit) (\<lambda>_.
      if \<not> tombstone s then sret (dropped, [])
      else if sl_remaining cleanup \<noteq> [] \<or> has_connector (s_source_id s) observed \<or> \<not> all_observed then
        sret (dropped, [(s_source_id s, ''retired source kept as a tombstone: '' @
          (if sl_remaining cleanup \<noteq> [] then ''slots still present '' @ py_join '', '' (sl_remaining cleanup)
           else if has_connector (s_source_id s) observed then ''a connector still exists''
           else ''not every Connect cluster could be observed''))])
      else sbind (on_conn (forget_source (s_source_id s))) (\<lambda>_.
        sret (dropped @ [ForgotSource (s_source_id s)], [])))))"

definition cleanup_failed :: "source_record \<Rightarrow> string \<Rightarrow> py_exn \<Rightarrow> ('w sys, cleanup_report) sx" where
  "cleanup_failed s key e =
     sbind (on_conn rollback) (\<lambda>_.
     sbind (on_conn (mark_slot_checked (s_source_id s) key)) (\<lambda>_.
     sbind (on_conn commit) (\<lambda>_.
     sret ([], [(s_source_id s, ''slot cleanup: '' @ exn_message e)]))))"

definition cleanup_source :: "os_env \<Rightarrow> 'w connect_api \<Rightarrow> string list \<Rightarrow> (string \<times> string option) list \<Rightarrow> string list \<Rightarrow>
    observed \<Rightarrow> bool \<Rightarrow> int \<Rightarrow> int \<Rightarrow> source_record \<Rightarrow> ('w sys, cleanup_report) sx" where
  "cleanup_source env api kafka desired_slots unknown observed all_observed interval tomb_interval s =
     (if \<not> given (s_db_host s) \<or> \<not> given (s_secret_ref s) \<or> label_set s ''synthetic'' then sret ([], [])
      else case slot_cleanup_decision s kafka desired_slots unknown of (inspect, keep) \<Rightarrow>
      if \<not> inspect then sret ([], [])
      else if s_capture_generation s = 0 \<and> map_of desired_slots (s_source_id s) = None \<and> s_lifecycle_state s \<noteq> ''RETIRED''
      then sret ([], [])
      else let key = slot_check_key s kafka in
      sbind (on_conn (slot_check_due (s_source_id s) key (if tombstone s then tomb_interval else interval))) (\<lambda>due.
      if \<not> due then sret ([], [])
      else sbind (scatch (sbind (drop_slots env api s keep) (\<lambda>cl. sret (Inr cl))) (\<lambda>e. sret (Inl e))) (\<lambda>r.
        case r of
          Inl e \<Rightarrow> cleanup_failed s key e
        | Inr cleanup \<Rightarrow> after_cleanup s observed all_observed key cleanup)))"

definition cleanup_stale_slots :: "(string \<Rightarrow> int) \<Rightarrow> os_env \<Rightarrow> 'w connect_api \<Rightarrow> desired_state \<Rightarrow> observed \<Rightarrow>
    int option \<Rightarrow> int option \<Rightarrow> bool \<Rightarrow> ('w sys, cleanup_report) sx" where
  "cleanup_stale_slots hashtext env api st observed index count all_observed =
     sbind (slift (env_int env ''FBI_SLOT_CLEANUP_INTERVAL_MINUTES'' ''1440'')) (\<lambda>interval.
     sbind (slift (env_int env ''FBI_TOMBSTONE_RETRY_MINUTES'' ''30'')) (\<lambda>tomb_interval.
     let desired_slots = map (\<lambda>d. (dc_source_id d, map_of (dc_config d) ''slot.name'')) (ds_connectors st) in
     sbind (on_conn (sget (\<lambda>c. kafka_owned_sources (k_working c)))) (\<lambda>kafka.
     sbind (on_conn (list_sources hashtext [] None index count)) (\<lambda>sources.
     sbind (sfor sources (cleanup_source env api kafka (rev desired_slots) (ds_unknown_sources st) observed all_observed
              interval tomb_interval)) (\<lambda>reports.
     sret (concat (map fst reports), concat (map snd reports)))))))"

section \<open>One run of the reconciler\<close>

definition record_observed :: "desired_connector list \<Rightarrow> observed \<Rightarrow> unit dbop" where
  "record_observed desired observed =
     sbind (sfor desired (\<lambda>d. stmt (\<lambda>c. let ob = obs_of observed (dc_cluster d) (dc_name d) in
       Inr ((), (k_working c)\<lparr>d_connectors := AList.update (dc_source_id d)
         \<lparr>cs_connector = dc_name d, cs_cluster = dc_cluster d,
          cs_desired = (if dc_paused d then ''PAUSED'' else ''RUNNING''),
          cs_observed = Some (case ob of None \<Rightarrow> ''MISSING'' | Some x \<Rightarrow> ob_state x),
          cs_error = (case ob of None \<Rightarrow> None | Some x \<Rightarrow> Some (take 2000 (get_or [] (ob_trace x))))\<rparr>
         (d_connectors (k_working c))\<rparr>)))) (\<lambda>_. commit)"

record reconcile_report =
  rp_desired :: nat
  rp_observed :: nat
  rp_actions :: "report_entry list"
  rp_deferred :: "string list"
  rp_errors :: "(string \<times> string) list"

definition execute_action :: "'w connect_api \<Rightarrow> bool \<Rightarrow> connector_action \<Rightarrow> ('w sys, cleanup_report) sx" where
  "execute_action api dry_run a =
     (let entry = Executed (ca_kind a) (ca_name a) (ca_cluster a) in
      if dry_run then sret ([entry], [])
      else scatch (sbind (on_world (api_execute api (ca_cluster a) (execute_request a))) (\<lambda>_. sret ([entry], [])))
        (\<lambda>e. sret ([], [(ca_name a, exn_message e)])))"

definition reconcile :: "(string \<Rightarrow> int) \<Rightarrow> os_env \<Rightarrow> 'w connect_api \<Rightarrow> contract \<Rightarrow> cdc_settings \<Rightarrow> int option \<Rightarrow>
    int option \<Rightarrow> bool \<Rightarrow> ('w sys, reconcile_report) sx" where
  "reconcile hashtext env api ct z index count dry_run =
     sbind (on_conn (desired_connectors hashtext env ct z index count)) (\<lambda>st.
     sbind (on_conn (sget (\<lambda>c. map fst (d_registry (k_working c))))) (\<lambda>registered.
     sbind (observe_all api (ds_shard_source_ids st) registered index (map fst (z_connect_clusters z))) (\<lambda>(observed, errs).
     let plan = reconcile_plan st observed z in
     sbind (sfor (fst plan) (execute_action api dry_run)) (\<lambda>done.
     sbind (if dry_run then sret ([], [])
            else sbind (on_conn (record_observed (ds_connectors st) observed)) (\<lambda>_.
              if z_drop_stale_slots z then
                cleanup_stale_slots hashtext env api st observed index count
                  (set (map fst observed) = set (map fst (z_connect_clusters z)))
              else sret ([], []))) (\<lambda>cleanup.
     sret \<lparr>rp_desired = length (ds_connectors st),
           rp_observed = sum_list (map (length \<circ> snd) observed),
           rp_actions = concat (map fst done) @ fst cleanup,
           rp_deferred = snd plan,
           rp_errors = ds_errors st @ errs @ concat (map snd done) @ snd cleanup\<rparr>)))))"

section \<open>Retiring the artifacts of a source\<close>

record artifacts =
  af_connectors_deleted :: "string list"
  af_slots_dropped :: "string list"
  af_slots_remaining :: "string list"
  af_errors :: "string list"

definition delete_action :: "string \<Rightarrow> string \<Rightarrow> connector_action" where
  "delete_action cluster name = \<lparr>ca_kind = DELETE, ca_name = name, ca_cluster = cluster, ca_source_id = None, ca_config = None\<rparr>"

text \<open>Deleting a source's connectors in one cluster: what was deleted counts also when a later one fails.\<close>

fun delete_names :: "'w connect_api \<Rightarrow> string \<Rightarrow> string list \<Rightarrow> ('w sys, string list \<times> string list) sx" where
  "delete_names api cl [] = sret ([], [])"
| "delete_names api cl (n # ns) =
     sbind (scatch (sbind (on_world (api_execute api cl (execute_request (delete_action cl n)))) (\<lambda>_. sret None))
              (\<lambda>e. sret (Some (exn_message e)))) (\<lambda>r.
     case r of
       Some msg \<Rightarrow> sret ([], [''connect '' @ cl @ '': '' @ msg])
     | None \<Rightarrow> sbind (delete_names api cl ns) (\<lambda>(ds, es). sret (n # ds, es)))"

definition delete_connectors :: "'w connect_api \<Rightarrow> string \<Rightarrow> string \<Rightarrow> ('w sys, string list \<times> string list) sx" where
  "delete_connectors api sid cl =
     sbind (scatch (sbind (ask_world (api_list_names api cl)) (\<lambda>ns. sret (Inr ns))) (\<lambda>e. sret (Inl (exn_message e)))) (\<lambda>r.
     case r of
       Inl msg \<Rightarrow> sret ([], [''connect '' @ cl @ '': '' @ msg])
     | Inr names \<Rightarrow> delete_names api cl
         (filter (\<lambda>n. starts_with managed_prefix n \<and> source_id_from_connector n = Some sid) names))"

text \<open>The retry loop; \<open>attempts\<close> is how often the clock is read before it has passed the deadline.\<close>

fun drop_until :: "os_env \<Rightarrow> 'w connect_api \<Rightarrow> source_record \<Rightarrow> nat \<Rightarrow> ('w sys, string list \<times> string list \<times> string list) sx" where
  "drop_until env api s attempts =
     sbind (scatch (sbind (drop_slots env api s None) (\<lambda>cl. sret (Inr cl))) (\<lambda>e. sret (Inl (exn_message e)))) (\<lambda>r.
     case r of
       Inl msg \<Rightarrow> sret ([], [], [''source slots: '' @ msg])
     | Inr cl \<Rightarrow>
         (if sl_remaining cl = [] then sret (sl_dropped cl, [], [])
          else case attempts of
            0 \<Rightarrow> sret (sl_dropped cl, sl_remaining cl, [])
          | Suc n \<Rightarrow> sbind (drop_until env api s n) (\<lambda>(dr, left, es).
              sret (sl_dropped cl @ dr, if es = [] then left else (if left = [] then sl_remaining cl else left), es))))"

declare drop_until.simps [simp del]

definition retire_artifacts :: "os_env \<Rightarrow> 'w connect_api \<Rightarrow> cdc_settings \<Rightarrow> nat \<Rightarrow> source_record \<Rightarrow> ('w sys, artifacts) sx" where
  "retire_artifacts env api z attempts s =
     sbind (sfor (map fst (z_connect_clusters z)) (delete_connectors api (s_source_id s))) (\<lambda>del.
     sbind (if given (s_db_host s) \<and> given (s_secret_ref s) \<and> \<not> label_set s ''synthetic''
            then drop_until env api s attempts else sret ([], [], [])) (\<lambda>(dropped, left, es).
     sret \<lparr>af_connectors_deleted = concat (map fst del), af_slots_dropped = dropped, af_slots_remaining = left,
           af_errors = concat (map snd del) @ es\<rparr>))"

section \<open>Operations on one side only\<close>

lemma on_conn_run [sx_simps]: "on_conn m s = (fst (m (y_conn s)), s\<lparr>y_conn := snd (m (y_conn s))\<rparr>)"
  by (simp add: on_conn_def split_beta)

lemma on_world_run [sx_simps]: "on_world f s = (fst (f (y_world s)), s\<lparr>y_world := snd (f (y_world s))\<rparr>)"
  by (simp add: on_world_def split_beta)

lemma ask_world_run [sx_simps]: "ask_world f s = (f (y_world s), s)"
  by (simp add: ask_world_def)

lemma keeps_ask_world [keeps_intros]: "keeps I (ask_world f)"
  by (simp add: keeps_def sx_simps)

lemma keeps_conn_on_world [keeps_intros]: "keeps (\<lambda>s. y_conn s = c) (on_world f)"
  by (simp add: keeps_def sx_simps)

text \<open>A computation that only reads: it leaves every state as it is.\<close>

definition reads_only :: "('s, 'a) sx \<Rightarrow> bool" where
  "reads_only m \<longleftrightarrow> (\<forall>s. snd (m s) = s)"

lemma reads_only_keeps: "reads_only m \<longleftrightarrow> (\<forall>s0. keeps (\<lambda>s. s = s0) m)"
  by (auto simp: reads_only_def keeps_def)

lemma reads_onlyD: "reads_only m \<Longrightarrow> keeps (\<lambda>s. s = s0) m"
  by (simp add: reads_only_keeps)

lemma reads_only_on_conn: "reads_only m \<Longrightarrow> reads_only (on_conn m)"
  by (simp add: reads_only_def sx_simps)

lemma desired_connectors_reads: "reads_only (desired_connectors h env ct z i n)"
  unfolding reads_only_keeps desired_connectors_def list_sources_def split_beta by (intro allI keeps_intros)

lemma observe_cluster_reads: "reads_only (observe_cluster api cl ids reg i)"
  unfolding reads_only_keeps observe_cluster_def by (intro allI keeps_intros)

lemma keeps_case_sum [keeps_intros]:
  "(\<And>x. keeps I (f x)) \<Longrightarrow> (\<And>y. keeps I (g y)) \<Longrightarrow> keeps I (case r of Inl x \<Rightarrow> f x | Inr y \<Rightarrow> g y)"
  by (cases r) simp_all

lemma observe_all_reads: "reads_only (observe_all api ids reg i cls)"
proof (induction cls)
  case Nil
  show ?case by (simp add: reads_only_def sx_simps)
next
  case (Cons cl cls)
  then have "keeps (\<lambda>s. s = s0) (observe_all api ids reg i cls)" for s0 by (simp add: reads_only_keeps)
  moreover have "keeps (\<lambda>s. s = s0) (observe_cluster api cl ids reg i)" for s0
    by (intro reads_onlyD observe_cluster_reads)
  ultimately show ?case
    unfolding reads_only_keeps observe_all.simps split_beta by (intro allI keeps_intros)
qed

text \<open>
  C22: A dry run is one: it leaves the warehouse connection (committed and uncommitted tables, even
  the transaction) and everything outside exactly as they were, whatever the clusters answer and
  whether it returns a report or raises.
\<close>

theorem dry_run_changes_nothing: "snd (reconcile hashtext env api ct z index count True s) = s"
proof -
  have "reads_only (reconcile hashtext env api ct z index count True)"
    unfolding reads_only_keeps reconcile_def split_beta
  proof (intro allI, goal_cases)
    case (1 s0)
    have 1: "keeps (\<lambda>s. s = s0) (on_conn (desired_connectors hashtext env ct z index count))"
      by (intro reads_onlyD reads_only_on_conn desired_connectors_reads)
    have 2: "keeps (\<lambda>s. s = s0) (observe_all api ids reg index cls)" for ids reg cls
      by (intro reads_onlyD observe_all_reads)
    have 3: "keeps (\<lambda>s. s = s0) (execute_action api True a)" for a
      by (simp add: execute_action_def keeps_sret)
    have 4: "keeps (\<lambda>s. s = s0) (on_conn (sget f))" for f :: "conn \<Rightarrow> string list"
      by (simp add: keeps_def sx_simps)
    show ?case unfolding Let_def if_True by (intro keeps_intros 1 2 3 4)
  qed
  then show ?thesis by (simp add: reads_only_def)
qed

section \<open>The plan of a run\<close>

text \<open>
  C23: What could not be seen is not touched.  Every action of a run is for a cluster that was
  observed, so a cluster that could not be reached keeps its connectors; and a deletion never
  hits a connector of a source whose configuration could not be built, nor one that some desired
  connector of that cluster bears the name of.
\<close>

theorem unseen_is_untouched:
  assumes "reconcile_plan st observed z = (acts, def)" and "a \<in> set acts"
  shows "ca_cluster a \<in> fst ` set observed \<and>
    (ca_kind a = DELETE \<longrightarrow> (\<forall>sid. source_id_from_connector (ca_name a) = Some sid \<longrightarrow> sid \<notin> set (ds_unknown_sources st)) \<and>
       (\<forall>d \<in> set (ds_connectors st). (dc_cluster d, dc_name d) \<noteq> (ca_cluster a, ca_name a)))"
proof -
  let ?des = "filter (\<lambda>d. dc_cluster d \<in> fst ` set observed) (ds_connectors st)"
  obtain a1 d1 where p1: "plan_desired z observed 0 (sort_key dc_name ?des) = (a1, d1)" by fastforce
  obtain a2 d2 where p2: "(if z_delete_orphans z then plan_orphans z (orphan ?des (protected_names st observed)) 0
      (observed_names observed) else ([], [])) = (a2, d2)"
    by fastforce
  from plan_actions_split[OF assms(1)[unfolded reconcile_plan_def]] p1 p2 have "acts = a1 @ a2" by (simp add: Let_def)
  with assms(2) consider "a \<in> set a1" | "a \<in> set a2" by auto
  then show ?thesis
  proof cases
    case 1
    then have "a \<in> set (fst (plan_desired z observed 0 (sort_key dc_name ?des)))" by (simp add: p1)
    from plan_desired_target[OF this] obtain d where "ca_kind a \<noteq> DELETE" "d \<in> set ?des" "ca_cluster a = dc_cluster d"
      by auto
    then show ?thesis by (simp del: image_iff)
  next
    case 2
    with p2 have "a \<in> set (fst (plan_orphans z (orphan ?des (protected_names st observed)) 0 (observed_names observed)))"
      by (auto split: if_splits)
    from plan_orphans_safe[OF this] have orph: "orphan ?des (protected_names st observed) (ca_cluster a) (ca_name a)"
      and seen: "(ca_cluster a, ca_name a) \<in> set (observed_names observed)" by simp_all
    from seen obtain conns where conns: "(ca_cluster a, conns) \<in> set observed" "ca_name a \<in> fst ` set conns"
      by (auto simp: set_observed_names)
    then have cl: "ca_cluster a \<in> fst ` set observed" by force
    have "sid \<notin> set (ds_unknown_sources st)" if "source_id_from_connector (ca_name a) = Some sid" for sid
    proof
      assume "sid \<in> set (ds_unknown_sources st)"
      then have "ca_name a \<in> set (protected_names st observed)"
        using that conns by (force simp: protected_names_def)
      with orph show False by (simp add: orphan_def)
    qed
    moreover have "(dc_cluster d, dc_name d) \<noteq> (ca_cluster a, ca_name a)" if "d \<in> set (ds_connectors st)" for d
      using orph that cl by (auto simp: orphan_def)
    ultimately show ?thesis using cl by blast
  qed
qed

section \<open>Slots\<close>

lemma own_slot_iff: "own_slot sid n \<longleftrightarrow> (\<exists>digits. n = slot_prefix sid @ digits \<and> py_isdigit digits)"
  by (auto simp: own_slot_def starts_with_iff)

lemma stale_slots_iff:
  "n \<in> set (stale_slots slots sid keep) \<longleftrightarrow> (n, False) \<in> set slots \<and> Some n \<noteq> keep \<and> own_slot sid n"
  by (force simp: stale_slots_def)

text \<open>
  Which slots may be dropped.  A slot the cleanup of a source drops exists, is inactive, is not
  the slot to keep, and is named by the source's prefix and a generation; so it is not the slot
  of any source whose id differs from this one by more than exchanging dashes and underscores.
\<close>

theorem dropped_slots_are_stale:
  assumes "n \<in> set (stale_slots slots sid keep)"
  shows "(n, False) \<in> set slots \<and> Some n \<noteq> keep \<and> (\<exists>digits. n = slot_prefix sid @ digits \<and> py_isdigit digits) \<and>
    (\<forall>other. 0 \<le> s_capture_generation other \<and>
       replace_char CHR ''-'' ''_'' (s_source_id other) \<noteq> replace_char CHR ''-'' ''_'' sid \<longrightarrow> n \<noteq> slot_name other)"
proof -
  from assms obtain digits where n: "(n, False) \<in> set slots" "Some n \<noteq> keep" "n = slot_prefix sid @ digits" "py_isdigit digits"
    by (auto simp: stale_slots_iff own_slot_iff)
  have "n \<noteq> slot_name other"
    if "0 \<le> s_capture_generation other"
      and "replace_char CHR ''-'' ''_'' (s_source_id other) \<noteq> replace_char CHR ''-'' ''_'' sid" for other
    using slot_prefix_digits_inj[of sid digits "s_source_id other" "int_str (s_capture_generation other)"] that n(3,4)
      py_isdigit_int_str by (auto simp: slot_name_def)
  with n show ?thesis by blast
qed

text \<open>
  The prefix is not the source's alone: exchanging a dash and an underscore gives another valid
  id with the same slots, so the cleanup of one of two such sources takes the other's
  inactive slot for a stale slot of its own.
\<close>

theorem slot_prefix_shared:
  assumes "slots = [(slot_name other, False)]" and "s_source_id other = ''bank_a''" and "0 \<le> s_capture_generation other"
    and "keep \<noteq> Some (slot_name other)"
  shows "source_id_ok ''bank-a'' \<and> source_id_ok ''bank_a'' \<and> slot_name other \<in> set (stale_slots slots ''bank-a'' keep)"
proof -
  have "slot_prefix ''bank_a'' = slot_prefix ''bank-a''" by code_simp
  then have "slot_name other = slot_prefix ''bank-a'' @ int_str (s_capture_generation other)"
    using assms(2) by (simp add: slot_name_def)
  then have "slot_name other \<in> set (stale_slots slots ''bank-a'' keep)"
    using assms py_isdigit_int_str by (auto simp: stale_slots_iff own_slot_iff)
  moreover have "source_id_ok ''bank-a''" "source_id_ok ''bank_a''" by code_simp+
  ultimately show ?thesis by blast
qed

section \<open>Forgetting a source\<close>

lemma drop_slots_conn: "drop_slots env api s keep y = (r, y') \<Longrightarrow> y_conn y' = y_conn y"
proof -
  assume run: "drop_slots env api s keep y = (r, y')"
  have "keeps (\<lambda>x. y_conn x = y_conn y) (drop_slots env api s keep)"
    unfolding drop_slots_def by (intro keeps_intros)
  from keeps_run[OF this refl run] show ?thesis .
qed

lemma sort_filter_empty: "sort (filter P xs) = [] \<longleftrightarrow> (\<forall>x \<in> set xs. \<not> P x)"
  by (metis filter_empty_conv set_empty set_sort)

lemma drop_slots_remaining:
  assumes "drop_slots env api s keep y = (Inr cl, y')" and "sl_remaining cl = []"
  shows "\<exists>password left. resolve env (s_secret_ref s) (s_source_id s) = Inr password \<and>
    api_slots api s password (y_world y') = Inr left \<and>
    (\<forall>n \<in> fst ` set left. own_slot (s_source_id s) n \<longrightarrow> Some n = keep)"
proof -
  from assms(1) obtain pw y1 where pw: "slift (resolve env (s_secret_ref s) (s_source_id s)) y = (Inr pw, y1)"
    and m1: "sbind (ask_world (api_slots api s pw)) (\<lambda>slots.
     sbind (sfor (stale_slots slots (s_source_id s) keep)
       (\<lambda>slot. sbind (on_world (api_drop_slot api s slot)) (\<lambda>_. sret slot))) (\<lambda>dropped.
     sbind (ask_world (api_slots api s pw)) (\<lambda>left.
     sret \<lparr>sl_dropped = dropped,
           sl_remaining = sort (filter (\<lambda>n. own_slot (s_source_id s) n \<and> Some n \<noteq> keep) (map fst left))\<rparr>))) y1 = (Inr cl, y')"
    unfolding drop_slots_def by (rule sbind_InrE)
  from m1 obtain slots y2 where m2: "sbind (sfor (stale_slots slots (s_source_id s) keep)
       (\<lambda>slot. sbind (on_world (api_drop_slot api s slot)) (\<lambda>_. sret slot))) (\<lambda>dropped.
     sbind (ask_world (api_slots api s pw)) (\<lambda>left.
     sret \<lparr>sl_dropped = dropped,
           sl_remaining = sort (filter (\<lambda>n. own_slot (s_source_id s) n \<and> Some n \<noteq> keep) (map fst left))\<rparr>)) y2 = (Inr cl, y')"
    by (rule sbind_InrE)
  from m2 obtain dropped y3 where m3: "sbind (ask_world (api_slots api s pw)) (\<lambda>left.
     sret \<lparr>sl_dropped = dropped,
           sl_remaining = sort (filter (\<lambda>n. own_slot (s_source_id s) n \<and> Some n \<noteq> keep) (map fst left))\<rparr>) y3 = (Inr cl, y')"
    by (rule sbind_InrE)
  from m3 obtain left y4 where "ask_world (api_slots api s pw) y3 = (Inr left, y4)"
    and "sret \<lparr>sl_dropped = dropped,
           sl_remaining = sort (filter (\<lambda>n. own_slot (s_source_id s) n \<and> Some n \<noteq> keep) (map fst left))\<rparr> y4 = (Inr cl, y')"
    by (rule sbind_InrE)
  then have left: "api_slots api s pw (y_world y') = Inr left"
    and cl: "sl_remaining cl = sort (filter (\<lambda>n. own_slot (s_source_id s) n \<and> Some n \<noteq> keep) (map fst left))"
    by (auto simp: sx_simps)
  from assms(2) cl have "\<forall>n \<in> set (map fst left). \<not> (own_slot (s_source_id s) n \<and> Some n \<noteq> keep)"
    by (simp only: sort_filter_empty)
  with pw left show ?thesis by (auto simp: sx_simps)
qed

lemma mark_slot_checked_registry [simp]:
  "d_registry (k_working (snd (mark_slot_checked sid key c))) = d_registry (k_working c)"
  "k_committed (snd (mark_slot_checked sid key c)) = k_committed c"
  by (simp_all add: mark_slot_checked_def sx_simps)

lemma mark_slot_checked_Inr [simp]: "fst (mark_slot_checked sid key c) = Inr ()"
  by (simp add: mark_slot_checked_def sx_simps)

lemma delete_source_other:
  assumes "delete_source sid d = Inr d'" and "k \<noteq> sid"
  shows "map_of (d_registry d') k = map_of (d_registry d) k"
  using assms map_of_filter_fst[of "\<lambda>x. x \<noteq> sid" "d_registry d" k]
  by (auto simp: delete_source_def split: if_splits)

lemma cleanup_failed_registry:
  "cleanup_failed s key e y = (r, y') \<Longrightarrow> d_registry (k_committed (y_conn y')) = d_registry (k_committed (y_conn y))"
  by (auto simp: cleanup_failed_def sbind_def sx_simps)

lemma after_cleanup_registry:
  assumes "after_cleanup s observed all_observed key cl y = (r, y')"
    and "d_registry (k_committed (y_conn y)) = d_registry (k_working (y_conn y))"
    and "map_of (d_registry (k_committed (y_conn y'))) sid \<noteq> map_of (d_registry (k_committed (y_conn y))) sid"
  shows "sid = s_source_id s \<and> tombstone s \<and> sl_remaining cl = [] \<and> \<not> has_connector sid observed \<and> all_observed \<and>
    y_world y' = y_world y"
proof -
  let ?c1 = "snd (mark_slot_checked (s_source_id s) key (y_conn y))"
  let ?c2 = "?c1\<lparr>k_committed := k_working ?c1, k_txn := k_txn ?c1 + 1\<rparr>"
  have reg: "d_registry (k_committed ?c2) = d_registry (k_committed (y_conn y))" using assms(2) by simp
  consider "\<not> tombstone s" | "tombstone s" "sl_remaining cl \<noteq> [] \<or> has_connector (s_source_id s) observed \<or> \<not> all_observed"
    | "tombstone s" "sl_remaining cl = []" "\<not> has_connector (s_source_id s) observed" "all_observed" by blast
  then show ?thesis
  proof cases
    case 1
    with assms(1) have "y' = y\<lparr>y_conn := ?c2\<rparr>" by (simp add: after_cleanup_def Let_def sbind_def sx_simps)
    with assms(3) reg show ?thesis by simp
  next
    case 2
    with assms(1) have "y' = y\<lparr>y_conn := ?c2\<rparr>" by (simp add: after_cleanup_def Let_def sbind_def sx_simps)
    with assms(3) reg show ?thesis by simp
  next
    case 3
    with assms(1) have y': "y' = y\<lparr>y_conn := snd (forget_source (s_source_id s) ?c2)\<rparr>"
      by (simp add: after_cleanup_def Let_def sbind_def sx_simps split: prod.splits sum.splits)
    have "sid = s_source_id s"
    proof (rule ccontr)
      assume ne: "sid \<noteq> s_source_id s"
      have "map_of (d_registry (k_committed (y_conn y'))) sid = map_of (d_registry (k_committed (y_conn y))) sid"
      proof (cases "delete_source (s_source_id s) (k_working ?c2)")
        case (Inl e)
        then show ?thesis using reg by (simp add: y' forget_source_def sbind_def sx_simps)
      next
        case (Inr d)
        with delete_source_other[OF Inr ne] reg show ?thesis by (simp add: y' forget_source_def sbind_def sx_simps)
      qed
      with assms(3) show False by simp
    qed
    with 3 y' show ?thesis by simp
  qed
qed

text \<open>
  C24: A source is forgotten only when it is known to be gone.  If cleaning up after a source
  removes a source from the registry, it is this source; it is retired and marked to be
  forgotten; every cluster was observed and no connector of it was seen; and the source database,
  asked with its own credentials, reports no replication slot of it beyond one still in use.
\<close>

theorem forgotten_source_is_gone:
  assumes "cleanup_source env api kafka dslots unknown observed all_observed i ti s y = (r, y')"
    and "d_registry (k_committed (y_conn y)) = d_registry (k_working (y_conn y))"
    and "map_of (d_registry (k_committed (y_conn y'))) sid \<noteq> map_of (d_registry (k_committed (y_conn y))) sid"
  shows "sid = s_source_id s \<and> s_lifecycle_state s = ''RETIRED'' \<and> label_set s ''forget_after_cleanup'' \<and>
    all_observed \<and> \<not> has_connector sid observed \<and>
    (\<exists>password left keep. resolve env (s_secret_ref s) sid = Inr password \<and>
       api_slots api s password (y_world y') = Inr left \<and>
       slot_cleanup_decision s kafka dslots unknown = (True, keep) \<and>
       (\<forall>n \<in> fst ` set left. own_slot sid n \<longrightarrow> Some n = keep))"
proof -
  have ne: "y' \<noteq> y" using assms(3) by auto
  obtain inspect keep where dec: "slot_cleanup_decision s kafka dslots unknown = (inspect, keep)" by fastforce
  let ?key = "slot_check_key s kafka" and ?iv = "if tombstone s then ti else i"
  have due_state: "snd (slot_check_due sid' key n c) = c" for sid' key n c
    by (simp add: slot_check_due_def sx_simps)
  obtain due where due: "fst (slot_check_due (s_source_id s) ?key ?iv (y_conn y)) = Inr due"
    by (simp add: slot_check_due_def sx_simps)
  obtain res y1 where ds: "drop_slots env api s keep y = (res, y1)" by fastforce
  have c1: "y_conn y1 = y_conn y" using ds by (rule drop_slots_conn)
  from assms(1) ne dec due have ins: "inspect" "due"
    and run: "(case res of Inl e \<Rightarrow> cleanup_failed s ?key e | Inr cl \<Rightarrow> after_cleanup s observed all_observed ?key cl) y1 = (r, y')"
    by (auto simp: cleanup_source_def Let_def sbind_def scatch_def sx_simps due_state ds split: if_splits sum.splits)
  show ?thesis
  proof (cases res)
    case (Inl e)
    with run have "cleanup_failed s ?key e y1 = (r, y')" by simp
    from cleanup_failed_registry[OF this] assms(3) c1 show ?thesis by simp
  next
    case (Inr cl)
    with run have ac1: "after_cleanup s observed all_observed ?key cl y1 = (r, y')" by simp
    have "sid = s_source_id s \<and> tombstone s \<and> sl_remaining cl = [] \<and> \<not> has_connector sid observed \<and> all_observed \<and>
        y_world y' = y_world y1"
      by (rule after_cleanup_registry[OF ac1]) (use assms(2,3) c1 in simp_all)
    then have ac: "sid = s_source_id s" "tombstone s" "sl_remaining cl = []" "\<not> has_connector sid observed" "all_observed"
      "y_world y' = y_world y1" by blast+
    from drop_slots_remaining[OF ds[unfolded Inr] ac(3)] ac(1,6) obtain password left
      where "resolve env (s_secret_ref s) sid = Inr password" "api_slots api s password (y_world y') = Inr left"
        "\<forall>n \<in> fst ` set left. own_slot sid n \<longrightarrow> Some n = keep" by auto
    moreover have "slot_cleanup_decision s kafka dslots unknown = (True, keep)" using dec ins(1) by simp
    ultimately show ?thesis using ac(1,2,4,5) unfolding tombstone_def by blast
  qed
qed

end
