(* ===== verification/Extract_Config.thy ===== *)
theory Extract_Config
  imports Reconciler
begin

text \<open>
  \<^verbatim>\<open>src/extractor/config.py\<close> and \<^verbatim>\<open>src/extractor/watermark_manager.py\<close>: the settings of the Python engine
  read from the environment, the description of the default source, and the watermarks of an
  extraction.  The host name is a parameter.

  Shown: the watermark operations form a keyed store (what is read is what was last written for
  this source, table and target; other keys are untouched), stated as the interface
  \<open>watermark_store\<close> the extractor relies on; accepted settings name a known engine.
\<close>

section \<open>Settings\<close>

definition require_env :: "os_env \<Rightarrow> string \<Rightarrow> string result" where
  "require_env env name = (if truthy (e_vars env name) then Inr (the (e_vars env name))
     else Inl (ValueError (''Required environment variable '' @ name @ '' is not set.'')))"

definition env_bool :: "os_env \<Rightarrow> string \<Rightarrow> bool \<Rightarrow> bool" where
  "env_bool env name d \<longleftrightarrow> py_lower (py_strip (getenv env name (if d then ''True'' else ''False'')))
     \<in> {''1'', ''true'', ''yes'', ''on''}"

record extract_settings =
  es_page_size :: int
  es_lookback_seconds :: int
  es_replica_lag_threshold :: int
  es_cob_gate_enabled :: bool
  es_cob_lookback_hours :: int
  es_reconcile_bucket_size :: int
  es_parallelism :: int
  es_default_engine :: string
  es_writer_id :: string
  es_exclude_pii :: bool

definition extract_settings_from_env :: "string \<Rightarrow> os_env \<Rightarrow> extract_settings result" where
  "extract_settings_from_env hostname env =
     (let engine = py_upper (py_strip (getenv env ''INGESTION_ENGINE_DEFAULT'' ''PYTHON'')) in
      guard (engine \<in> {''PYTHON'', ''KAFKA'', ''NONE''})
        (ValueError (''INGESTION_ENGINE_DEFAULT must be PYTHON, KAFKA or NONE, got '' @ engine)) (
      rbind (py_int (getenv env ''EXTRACT_PAGE_SIZE'' (getenv env ''EXTRACT_BATCH_SIZE'' ''5000''))) (\<lambda>page.
      rbind (env_int env ''EXTRACT_LOOKBACK_SECONDS'' ''600'') (\<lambda>lookback.
      rbind (env_int env ''REPLICA_LAG_THRESHOLD_SECONDS'' ''300'') (\<lambda>lag.
      rbind (env_int env ''COB_LOOKBACK_HOURS'' ''48'') (\<lambda>cob.
      rbind (env_int env ''RECONCILE_BUCKET_SIZE'' ''100000'') (\<lambda>bucket.
      rbind (env_int env ''EXTRACT_PARALLELISM'' ''4'') (\<lambda>par.
      Inr \<lparr>es_page_size = page, es_lookback_seconds = lookback, es_replica_lag_threshold = lag,
           es_cob_gate_enabled = env_bool env ''COB_GATE_ENABLED'' True, es_cob_lookback_hours = cob,
           es_reconcile_bucket_size = bucket, es_parallelism = par, es_default_engine = engine,
           es_writer_id = getenv env ''EXTRACT_WRITER_ID'' (''python-'' @ hostname),
           es_exclude_pii = env_bool env ''FBI_EXCLUDE_PII'' True\<rparr>))))))))"

record env_bootstrap =
  eb_source_id :: string
  eb_tenant_id :: string
  eb_host :: string
  eb_port :: int
  eb_dbname :: string
  eb_user :: string
  eb_compat_schema :: string
  eb_ssl_mode :: string
  eb_cob_job_name :: string
  eb_secret_ref :: string

definition bootstrap_from_env :: "os_env \<Rightarrow> env_bootstrap option result" where
  "bootstrap_from_env env =
     (if \<not> truthy (e_vars env ''SOURCE_DB_USER'') then Inr None
      else rbind (env_int env ''SOURCE_DB_PORT'' ''5433'') (\<lambda>port.
        Inr (Some \<lparr>eb_source_id = getenv env ''SOURCE_ID'' ''default'', eb_tenant_id = getenv env ''TENANT_ID'' ''default'',
          eb_host = getenv env ''SOURCE_DB_HOST'' ''localhost'', eb_port = port,
          eb_dbname = getenv env ''SOURCE_DB_NAME'' ''fineract_default'', eb_user = getenv env ''SOURCE_DB_USER'' [],
          eb_compat_schema = getenv env ''SOURCE_DB_SCHEMA'' ''bi_connector_source'',
          eb_ssl_mode = getenv env ''SOURCE_DB_SSL_MODE'' ''disable'',
          eb_cob_job_name = getenv env ''COB_JOB_NAME'' ''LOAN_COB'',
          eb_secret_ref = getenv env ''SOURCE_DB_SECRET_REF'' ''env:FBI_SRC_DEFAULT_PASSWORD''\<rparr>)))"

definition warehouse_config :: "os_env \<Rightarrow> pg_config result" where
  "warehouse_config env = warehouse_config_from_env env ''fbi-python-engine'' True"

lemma settings_engine_known:
  "extract_settings_from_env hostname env = Inr es \<Longrightarrow> es_default_engine es \<in> {''PYTHON'', ''KAFKA'', ''NONE''}"
  by (auto simp: extract_settings_from_env_def Let_def rbind_Inr_iff)

section \<open>Watermarks\<close>

definition wm_get :: "string \<Rightarrow> string \<Rightarrow> string \<Rightarrow> watermark_row option dbop" where
  "wm_get sid table target = sget (\<lambda>c. map_of (d_watermarks (k_working c)) (sid, table, target))"

text \<open>The table refuses a target other than the two copies.\<close>

definition wm_update :: "string \<Rightarrow> string \<Rightarrow> string \<Rightarrow> int option \<Rightarrow> int option \<Rightarrow> unit dbop" where
  "wm_update sid table target cur pk = stmt (\<lambda>c.
     guard (target \<in> {''prod'', ''shadow''}) (DatabaseError ''23514'' ''violates check constraint'') (
     Inr ((), (k_working c)\<lparr>d_watermarks := AList.update (sid, table, target) \<lparr>wm_cursor = cur, wm_last_pk = pk\<rparr>
       (d_watermarks (k_working c))\<rparr>)))"

definition wm_reset :: "string \<Rightarrow> string \<Rightarrow> string \<Rightarrow> unit dbop" where
  "wm_reset sid table target = stmt (\<lambda>c.
     Inr ((), (k_working c)\<lparr>d_watermarks := filter (\<lambda>kr. fst kr \<noteq> (sid, table, target)) (d_watermarks (k_working c))\<rparr>))"

text \<open>What the extractor relies on: a store from (source, table, target) to a position.\<close>

locale watermark_store =
  fixes get :: "string \<Rightarrow> string \<Rightarrow> string \<Rightarrow> ('s, watermark_row option) sx"
    and update :: "string \<Rightarrow> string \<Rightarrow> string \<Rightarrow> int option \<Rightarrow> int option \<Rightarrow> ('s, unit) sx"
    and reset :: "string \<Rightarrow> string \<Rightarrow> string \<Rightarrow> ('s, unit) sx"
  assumes get_reads: "snd (get s t g st) = st" "\<exists>w. fst (get s t g st) = Inr w"
    and get_update: "update s t g cur pk st = (Inr (), st') \<Longrightarrow>
      fst (get s' t' g' st') = (if (s', t', g') = (s, t, g) then Inr (Some \<lparr>wm_cursor = cur, wm_last_pk = pk\<rparr>)
        else fst (get s' t' g' st))"
    and update_fails: "update s t g cur pk st = (Inl e, st') \<Longrightarrow> st' = st"
    and get_reset: "reset s t g st = (Inr (), st') \<Longrightarrow>
      fst (get s' t' g' st') = (if (s', t', g') = (s, t, g) then Inr None else fst (get s' t' g' st))"
begin

text \<open>After a sequence of updates of one key the last one counts.\<close>

lemma last_update_counts:
  assumes "sfor ws (\<lambda>(cur, pk). update s t g cur pk) st = (Inr us, st')" and "ws \<noteq> []"
  shows "fst (get s t g st') = Inr (Some \<lparr>wm_cursor = fst (last ws), wm_last_pk = snd (last ws)\<rparr>)"
  using assms
proof (induction ws arbitrary: st us)
  case (Cons w ws)
  obtain cur pk where w: "w = (cur, pk)" by (cases w)
  from Cons.prems(1) obtain st1 us' where u: "update s t g cur pk st = (Inr (), st1)"
    and r: "sfor ws (\<lambda>(cur, pk). update s t g cur pk) st1 = (Inr us', st')"
    by (auto simp: w sx_simps elim!: sbind_InrE)
  show ?case
  proof (cases "ws = []")
    case True
    with r u show ?thesis using get_update[OF u, of s t g] by (simp add: w sx_simps)
  next
    case False
    with Cons.IH[OF r] show ?thesis by simp
  qed
qed simp

lemma reset_then_fresh: "reset s t g st = (Inr (), st') \<Longrightarrow> fst (get s t g st') = Inr None"
  using get_reset[of s t g st st' s t g] by simp

end

interpretation wm: watermark_store wm_get wm_update wm_reset
proof
  show "snd (wm_get s t g st) = st" "\<exists>w. fst (wm_get s t g st) = Inr w" for s t g st
    by (simp_all add: wm_get_def sx_simps)
  show "wm_update s t g cur pk st = (Inl e, st') \<Longrightarrow> st' = st" for s t g cur pk st e st'
    by (auto simp: wm_update_def sx_simps guard_def split: if_splits)
  show "fst (wm_get s' t' g' st') = (if (s', t', g') = (s, t, g) then Inr (Some \<lparr>wm_cursor = cur, wm_last_pk = pk\<rparr>)
        else fst (wm_get s' t' g' st))" if "wm_update s t g cur pk st = (Inr (), st')" for s t g cur pk st st' s' t' g'
    using that by (auto simp: wm_update_def wm_get_def sx_simps guard_def split: if_splits)
  show "fst (wm_get s' t' g' st') = (if (s', t', g') = (s, t, g) then Inr None else fst (wm_get s' t' g' st))"
    if "wm_reset s t g st = (Inr (), st')" for s t g st st' s' t' g'
    using that map_of_filter_fst[of "\<lambda>k. k \<noteq> (s, t, g)" _ "(s', t', g')"]
    by (auto simp: wm_reset_def wm_get_def sx_simps)
qed

end
