(* ===== verification/Paging.thy ===== *)
theory Paging
  imports Reconcile Extract_Config
begin

text \<open>
  The page query of the extractor (\<^verbatim>\<open>src/extractor/extractor.py\<close>: \<^verbatim>\<open>in_null_cursor_phase\<close>,
  \<^verbatim>\<open>build_page_query\<close>): which page comes after a watermark, its SQL text, and the rows it selects.

  A table with a usable cursor is read in two phases, first the rows without a cursor value in key order,
  then the others in the order of (cursor, key); a table without one is read in key order.  The
  interface \<open>keyset\<close> states what reading page by page rests on; it holds for the three kinds of page.

  Shown: a page has the first rows after its start, so that a row after the start that the page leaves
  out means that the page is full and the row lies behind its last row.
\<close>

section \<open>Pages\<close>

definition min_pk :: int where
  "min_pk = - (2 ^ 63)"

datatype page = NullPage string int | CursorPage string int int | KeyPage int

definition in_null_cursor_phase :: "table_contract \<Rightarrow> watermark_row option \<Rightarrow> bool result" where
  "in_null_cursor_phase t start = rbind (cursor_is_usable t) (\<lambda>usable.
     Inr (usable \<and> (case start of None \<Rightarrow> True | Some w \<Rightarrow> wm_cursor w = None)))"

definition start_pk :: "watermark_row option \<Rightarrow> int" where
  "start_pk start = (case start of None \<Rightarrow> min_pk | Some w \<Rightarrow> get_or min_pk (wm_last_pk w))"

definition page_after :: "table_contract \<Rightarrow> watermark_row option \<Rightarrow> page result" where
  "page_after t start =
     rbind (cursor_is_usable t) (\<lambda>usable.
     rbind (in_null_cursor_phase t start) (\<lambda>null_phase.
     Inr (if usable then
            (if null_phase then NullPage (the (tc_python_cursor t)) (start_pk start)
             else CursorPage (the (tc_python_cursor t)) (the (wm_cursor (the start))) (start_pk start))
          else KeyPage (start_pk start))))"

definition select_item :: "bool \<Rightarrow> column_spec \<Rightarrow> string" where
  "select_item exclude c =
     (if c_synthetic c \<or> exclude \<and> c_pii c then ''CAST(NULL AS '' @ c_type c @ '') AS '' @ quote_ident (c_name c)
      else quote_ident (c_name c))"

fun page_condition :: "string \<Rightarrow> page \<Rightarrow> string" where
  "page_condition pk (NullPage cur p) = quote_ident cur @ '' IS NULL AND '' @ pk @ '' > %s ORDER BY '' @ pk @ '' LIMIT %s''"
| "page_condition pk (CursorPage cur c p) = ''('' @ quote_ident cur @ '', '' @ pk @ '') > (%s, %s) ORDER BY '' @
     quote_ident cur @ '', '' @ pk @ '' LIMIT %s''"
| "page_condition pk (KeyPage p) = pk @ '' > %s ORDER BY '' @ pk @ '' LIMIT %s''"

fun page_params :: "page \<Rightarrow> int \<Rightarrow> val list" where
  "page_params (NullPage cur p) n = [VInt p, VInt n]"
| "page_params (CursorPage cur c p) n = [VTime c, VInt p, VInt n]"
| "page_params (KeyPage p) n = [VInt p, VInt n]"

definition build_page_query :: "string \<Rightarrow> table_contract \<Rightarrow> watermark_row option \<Rightarrow> int \<Rightarrow> bool \<Rightarrow> (string \<times> val list) result" where
  "build_page_query schema t start page_size exclude =
     rbind (page_after t start) (\<lambda>page.
     Inr (''SELECT '' @ py_join '', '' (map (select_item exclude) (tc_columns t)) @ '' FROM '' @ quote_ident schema @ ''.'' @
          quote_ident (tc_table_name t) @ '' WHERE '' @ page_condition (quote_ident (tc_primary_key t)) page,
          page_params page page_size))"

section \<open>The rows of a page\<close>

type_synonym src_row = "int \<times> (string \<times> val) list" \<comment> \<open>primary key and columns\<close>

fun time_of :: "val \<Rightarrow> int option" where
  "time_of (VTime x) = Some x"
| "time_of _ = None"

definition cursor_val :: "string \<Rightarrow> src_row \<Rightarrow> val" where
  "cursor_val cur r = col_val (snd r) cur"

definition cursor_pos :: "string \<Rightarrow> src_row \<Rightarrow> int \<times> int" where
  "cursor_pos cur r = (get_or 0 (time_of (cursor_val cur r)), fst r)"

fun page_rows :: "page \<Rightarrow> nat \<Rightarrow> src_row list \<Rightarrow> src_row list" where
  "page_rows (NullPage cur p) n rows = take n (sort_key fst (filter (\<lambda>r. cursor_val cur r = VNull \<and> p < fst r) rows))"
| "page_rows (CursorPage cur c p) n rows =
     take n (sort_key (cursor_pos cur) (filter (\<lambda>r. time_of (cursor_val cur r) \<noteq> None \<and> (c, p) < cursor_pos cur r) rows))"
| "page_rows (KeyPage p) n rows = take n (sort_key fst (filter (\<lambda>r. p < fst r) rows))"

section \<open>Reading by key\<close>

locale keyset =
  fixes pos :: "'r \<Rightarrow> 'k::linorder"
    and segment :: "'r \<Rightarrow> bool"
    and fetch :: "'k \<Rightarrow> nat \<Rightarrow> 'r list \<Rightarrow> 'r list"
  assumes fetch_sound: "r \<in> set (fetch p n rows) \<Longrightarrow> r \<in> set rows \<and> segment r \<and> p < pos r"
    and fetch_sorted: "sorted (map pos (fetch p n rows))"
    and fetch_bound: "length (fetch p n rows) \<le> n"
    and fetch_first: "r \<in> set rows \<Longrightarrow> segment r \<Longrightarrow> p < pos r \<Longrightarrow> r \<notin> set (fetch p n rows) \<Longrightarrow>
      length (fetch p n rows) = n \<and> (\<forall>x \<in> set (fetch p n rows). pos x \<le> pos r)"
    and fetch_distinct: "distinct (map f rows) \<Longrightarrow> distinct (map f (fetch p n rows))"
begin

lemma fetch_advances: "fetch p n rows \<noteq> [] \<Longrightarrow> p < pos (last (fetch p n rows))"
  using fetch_sound[of "last (fetch p n rows)" p n rows] by simp

lemma short_page_has_all:
  "r \<in> set rows \<Longrightarrow> segment r \<Longrightarrow> p < pos r \<Longrightarrow> length (fetch p n rows) < n \<Longrightarrow> r \<in> set (fetch p n rows)"
  using fetch_first by fastforce

lemma page_has_all_before:
  assumes "r \<in> set rows" and "segment r" and "p < pos r" and "fetch p n rows \<noteq> []"
    and "pos r \<le> pos (last (fetch p n rows))" and "inj_on pos {x \<in> set rows. segment x}"
  shows "r \<in> set (fetch p n rows)"
proof (rule ccontr)
  assume out: "r \<notin> set (fetch p n rows)"
  have last: "last (fetch p n rows) \<in> set (fetch p n rows)" using assms(4) by simp
  with fetch_first[OF assms(1-3) out] have "pos (last (fetch p n rows)) \<le> pos r" by blast
  with assms(5) have "pos r = pos (last (fetch p n rows))" by simp
  with assms(6) assms(1,2) fetch_sound[OF last] have "r = last (fetch p n rows)" by (auto dest: inj_onD)
  with last out show False by simp
qed

end

text \<open>Filtering, sorting and limiting is reading by key.\<close>

definition limited :: "('r \<Rightarrow> 'k::linorder) \<Rightarrow> ('r \<Rightarrow> bool) \<Rightarrow> 'k \<Rightarrow> nat \<Rightarrow> 'r list \<Rightarrow> 'r list" where
  "limited pos segment p n rows = take n (sort_key pos (filter (\<lambda>r. segment r \<and> p < pos r) rows))"

interpretation limited: keyset pos segment "limited pos segment" for pos :: "'r \<Rightarrow> 'k::linorder" and segment
proof
  fix r p n rows and f :: "'r \<Rightarrow> 'b"
  let ?s = "sort_key pos (filter (\<lambda>r. segment r \<and> p < pos r) rows)"
  show "r \<in> set rows \<and> segment r \<and> p < pos r" if "r \<in> set (limited pos segment p n rows)"
    using in_set_takeD[of r n ?s] that by (simp add: limited_def)
  show "sorted (map pos (limited pos segment p n rows))"
    unfolding limited_def take_map[symmetric] by (intro sorted_wrt_take sorted_sort_key)
  show "length (limited pos segment p n rows) \<le> n" by (simp add: limited_def)
  show "length (limited pos segment p n rows) = n \<and> (\<forall>x \<in> set (limited pos segment p n rows). pos x \<le> pos r)"
    if "r \<in> set rows" "segment r" "p < pos r" "r \<notin> set (limited pos segment p n rows)"
  proof -
    have "r \<in> set (take n ?s @ drop n ?s)" using that(1-3) by (simp only: append_take_drop_id) simp
    then have drop: "r \<in> set (drop n ?s)" using that(4) unfolding set_append limited_def by blast
    then have "n < length ?s" by (cases "n < length ?s") simp_all
    moreover have "sorted (map pos (take n ?s @ drop n ?s))"
      by (simp only: append_take_drop_id sorted_sort_key)
    ultimately show ?thesis using drop unfolding map_append sorted_append limited_def by auto
  qed
  show "distinct (map f (limited pos segment p n rows))" if "distinct (map f rows)"
  proof -
    have "distinct (map f (filter (\<lambda>r. segment r \<and> p < pos r) rows))" using that by (rule distinct_map_filter)
    then have "distinct (map f ?s)" by (simp add: distinct_map)
    then show ?thesis unfolding limited_def take_map[symmetric] by (rule distinct_take)
  qed
qed

section \<open>One order for all pages\<close>

text \<open>
  The place of a row in the reading order of its table: rows without a cursor value first.  A start
  has the place just before the first row of its page.
\<close>

definition row_pos :: "string option \<Rightarrow> src_row \<Rightarrow> int \<times> int \<times> int" where
  "row_pos cur r = (case cur of
      None \<Rightarrow> (0, 0, fst r)
    | Some n \<Rightarrow> (case time_of (cursor_val n r) of None \<Rightarrow> (0, 0, fst r) | Some x \<Rightarrow> (1, x, fst r)))"

fun page_pos :: "page \<Rightarrow> int \<times> int \<times> int" where
  "page_pos (NullPage cur p) = (0, 0, p)"
| "page_pos (CursorPage cur c p) = (1, c, p)"
| "page_pos (KeyPage p) = (0, 0, p)"

fun page_cursor :: "page \<Rightarrow> string option" where
  "page_cursor (NullPage cur p) = Some cur"
| "page_cursor (CursorPage cur c p) = Some cur"
| "page_cursor (KeyPage p) = None"

text \<open>The cursor column holds times.\<close>

definition typed_row :: "string option \<Rightarrow> src_row \<Rightarrow> bool" where
  "typed_row cur r = (case cur of None \<Rightarrow> True | Some n \<Rightarrow> cursor_val n r = VNull \<or> time_of (cursor_val n r) \<noteq> None)"

lemma insort_key_cong:
  "(\<And>y. y \<in> set ys \<Longrightarrow> f x \<le> f y \<longleftrightarrow> g x \<le> g y) \<Longrightarrow> insort_key f x ys = insort_key g x ys"
  by (induction ys) auto

lemma sort_key_cong_order:
  "(\<And>x y. x \<in> set xs \<Longrightarrow> y \<in> set xs \<Longrightarrow> f x \<le> f y \<longleftrightarrow> g x \<le> g y) \<Longrightarrow> sort_key f xs = sort_key g xs"
proof (induction xs)
  case (Cons x xs)
  then have "sort_key f xs = sort_key g xs" by simp
  moreover have "insort_key f x (sort_key g xs) = insort_key g x (sort_key g xs)"
    using Cons.prems by (intro insort_key_cong) simp
  ultimately show ?case by simp
qed simp

lemma page_rows_limited:
  assumes "list_all (typed_row (page_cursor pg)) rows"
  shows "page_rows pg n rows =
    limited (row_pos (page_cursor pg)) (\<lambda>r. fst (row_pos (page_cursor pg) r) = fst (page_pos pg)) (page_pos pg) n rows"
proof (cases pg)
  case (NullPage cur p)
  have "(cursor_val cur r = VNull \<and> p < fst r) \<longleftrightarrow> (fst (row_pos (Some cur) r) = 0 \<and> (0, 0, p) < row_pos (Some cur) r)"
    if "r \<in> set rows" for r
    using assms that by (auto simp: NullPage list_all_iff typed_row_def row_pos_def split: option.splits)
  then have "filter (\<lambda>r. cursor_val cur r = VNull \<and> p < fst r) rows =
    filter (\<lambda>r. fst (row_pos (Some cur) r) = 0 \<and> (0, 0, p) < row_pos (Some cur) r) rows"
    by (rule filter_cong[OF refl])
  moreover have "sort_key fst (filter (\<lambda>r. fst (row_pos (Some cur) r) = 0 \<and> (0, 0, p) < row_pos (Some cur) r) rows) =
    sort_key (row_pos (Some cur)) (filter (\<lambda>r. fst (row_pos (Some cur) r) = 0 \<and> (0, 0, p) < row_pos (Some cur) r) rows)"
    by (rule sort_key_cong_order) (auto simp: row_pos_def split: option.splits)
  ultimately show ?thesis by (simp add: NullPage limited_def)
next
  case (CursorPage cur c p)
  have "(time_of (cursor_val cur r) \<noteq> None \<and> (c, p) < cursor_pos cur r) \<longleftrightarrow>
      (fst (row_pos (Some cur) r) = 1 \<and> (1, c, p) < row_pos (Some cur) r)" for r
    by (auto simp: row_pos_def cursor_pos_def get_or_def split: option.splits)
  then have "filter (\<lambda>r. time_of (cursor_val cur r) \<noteq> None \<and> (c, p) < cursor_pos cur r) rows =
    filter (\<lambda>r. fst (row_pos (Some cur) r) = 1 \<and> (1, c, p) < row_pos (Some cur) r) rows"
    by (rule filter_cong[OF refl])
  moreover have "sort_key (cursor_pos cur) (filter (\<lambda>r. fst (row_pos (Some cur) r) = 1 \<and> (1, c, p) < row_pos (Some cur) r) rows) =
    sort_key (row_pos (Some cur)) (filter (\<lambda>r. fst (row_pos (Some cur) r) = 1 \<and> (1, c, p) < row_pos (Some cur) r) rows)"
    by (rule sort_key_cong_order) (auto simp: row_pos_def cursor_pos_def get_or_def split: option.splits)
  ultimately show ?thesis by (simp add: CursorPage limited_def)
next
  case (KeyPage p)
  have "sort_key fst (filter (\<lambda>r. p < fst r) rows) = sort_key (row_pos None) (filter (\<lambda>r. p < fst r) rows)"
    by (rule sort_key_cong_order) (auto simp: row_pos_def)
  then show ?thesis by (simp add: KeyPage limited_def row_pos_def)
qed

lemma row_pos_inj: "distinct (map fst rows) \<Longrightarrow> inj_on (row_pos cur) (set rows)"
  by (rule inj_onI) (auto simp: row_pos_def distinct_map inj_on_def split: option.splits)

end
