(* ===== verification/Copy_Payload.thy ===== *)
theory Copy_Payload
  imports Pg
begin

text \<open>
  The payload the extractor copies into its staging table (\<^verbatim>\<open>src/extractor/extractor.py\<close>:
  \<^verbatim>\<open>as_utc_datetime\<close>, \<^verbatim>\<open>csv_field\<close>, \<^verbatim>\<open>build_copy_payload\<close>).

  A cell is a Python value of a row: a value of the model, a decimal given by its text, or a list of
  texts (the unavailable columns).  Times are microseconds since the epoch in UTC and are rendered as
  \<^verbatim>\<open>isoformat\<close> does.  The reader is the CSV format of \<^verbatim>\<open>COPY\<close> for fields that are quoted as a whole or
  not at all: an unquoted empty field is NULL, a quoted one the empty text.

  Shown: reading the payload gives back the text of every field of every row, NULL and the empty
  text kept apart, whatever quotes, commas and line breaks the texts contain.
\<close>

section \<open>Calendar\<close>

definition pad :: "nat \<Rightarrow> nat \<Rightarrow> string" where
  "pad w n = replicate (w - length (nat_str n)) CHR ''0'' @ nat_str n"

text \<open>Year, month and day of a day number (days since 1970-01-01) in the Gregorian calendar.\<close>

definition civil :: "int \<Rightarrow> int \<times> int \<times> int" where
  "civil d =
     (let z = d + 719468; era = z div 146097; doe = z mod 146097;
          yoe = (doe - doe div 1460 + doe div 36524 - doe div 146096) div 365;
          doy = doe - (365 * yoe + yoe div 4 - yoe div 100);
          mp = (5 * doy + 2) div 153;
          m = (if mp < 10 then mp + 3 else mp - 9) in
      (yoe + era * 400 + (if m \<le> 2 then 1 else 0), m, doy - (153 * mp + 2) div 5 + 1))"

definition iso_date :: "int \<Rightarrow> string" where
  "iso_date d = (case civil d of (y, m, dd) \<Rightarrow> pad 4 (nat y) @ ''-'' @ pad 2 (nat m) @ ''-'' @ pad 2 (nat dd))"

definition iso_time :: "int \<Rightarrow> string" where
  "iso_time t =
     (let us = t mod 86400000000; s = us div 1000000; frac = us mod 1000000 in
      iso_date (t div 86400000000) @ ''T'' @ pad 2 (nat (s div 3600)) @ '':'' @ pad 2 (nat (s div 60 mod 60)) @ '':'' @
      pad 2 (nat (s mod 60)) @ (if frac = 0 then [] else CHR ''.'' # pad 6 (nat frac)) @ ''+00:00'')"

section \<open>Fields\<close>

datatype cell = CVal val | CDecimal string | CList "string list"

definition backslash_char :: char where
  "backslash_char = CHR 0x5C"

definition array_item :: "string \<Rightarrow> string" where
  "array_item v = dquote # replace_char dquote [backslash_char, dquote] (replace_char backslash_char [backslash_char, backslash_char] v) @ [dquote]"

definition array_text :: "string list \<Rightarrow> string" where
  "array_text vs = ''{'' @ py_join '','' (map array_item vs) @ ''}''"

fun quoted_text :: "cell \<Rightarrow> string" where
  "quoted_text (CVal (VTime t)) = iso_time t"
| "quoted_text (CVal (VDate d)) = iso_date d"
| "quoted_text (CVal (VInt i)) = int_str i"
| "quoted_text (CVal (VText s)) = s"
| "quoted_text (CVal (VBool b)) = (if b then ''t'' else ''f'')"
| "quoted_text (CVal VNull) = []"
| "quoted_text (CDecimal s) = s"
| "quoted_text (CList vs) = array_text vs"

definition csv_field :: "cell \<Rightarrow> string" where
  "csv_field v =
     (if v = CVal VNull then []
      else case v of
        CVal (VBool b) \<Rightarrow> (if b then ''t'' else ''f'')
      | _ \<Rightarrow> [dquote] @ replace_char dquote [dquote, dquote] (quoted_text v) @ [dquote])"

definition csv_line :: "cell list \<Rightarrow> string" where
  "csv_line row = py_join '','' (map csv_field row) @ [newline_char]"

definition build_copy_payload :: "cell list list \<Rightarrow> string" where
  "build_copy_payload rows = concat (map csv_line rows)"

text \<open>What the field means: NULL or a text.\<close>

definition field_value :: "cell \<Rightarrow> string option" where
  "field_value v = (if v = CVal VNull then None else Some (quoted_text v))"

section \<open>Reading\<close>

definition is_sep :: "char \<Rightarrow> bool" where
  "is_sep ch \<longleftrightarrow> ch = CHR '','' \<or> ch = newline_char"

definition read_field :: "string \<Rightarrow> (string option \<times> string) option" where
  "read_field s =
     (case s of
        [] \<Rightarrow> None
      | ch # cs \<Rightarrow>
          if ch = dquote then (case read_quoted cs of None \<Rightarrow> None | Some (tx, rest) \<Rightarrow> Some (Some tx, rest))
          else (let tx = takeWhile (\<lambda>x. \<not> is_sep x) s in
            if dquote \<in> set tx then None
            else Some (if tx = [] then None else Some tx, dropWhile (\<lambda>x. \<not> is_sep x) s)))"

lemma read_quoted_shorter: "read_quoted s = Some (tx, rest) \<Longrightarrow> length rest < length s"
  by (induction s arbitrary: tx rest rule: read_quoted.induct) (fastforce split: if_splits)+

lemma read_field_shorter: "read_field s = Some (v, rest) \<Longrightarrow> length rest \<le> length s"
  using read_quoted_shorter length_dropWhile_le[of "\<lambda>x. \<not> is_sep x" s]
  by (fastforce simp: read_field_def Let_def split: list.splits if_splits option.splits)

function read_record :: "string \<Rightarrow> (string option list \<times> string) option" where
  "read_record s =
     (case read_field s of
        None \<Rightarrow> None
      | Some (v, rest) \<Rightarrow>
          (case rest of
             [] \<Rightarrow> None
           | ch # cs \<Rightarrow>
               if ch = newline_char then Some ([v], cs)
               else if ch = CHR '','' then (case read_record cs of None \<Rightarrow> None | Some (vs, r) \<Rightarrow> Some (v # vs, r))
               else None))"
  by pat_completeness auto
termination by (relation "measure length") (auto dest!: read_field_shorter)

declare read_record.simps [simp del]

lemma read_record_shorter: "read_record s = Some (vs, rest) \<Longrightarrow> length rest < length s"
proof (induction s arbitrary: vs rest rule: read_record.induct)
  case (1 s)
  from "1.prems" obtain v ch cs where f: "read_field s = Some (v, ch # cs)"
    by (subst (asm) read_record.simps) (auto split: option.splits list.splits)
  have short: "length cs < length s" using read_field_shorter[OF f] by simp
  show ?case
  proof (cases "ch = newline_char")
    case True
    with "1.prems" f short show ?thesis by (subst (asm) read_record.simps) simp
  next
    case False
    with "1.prems" f obtain vs' where "ch = CHR '',''" "read_record cs = Some (vs', rest)"
      by (subst (asm) read_record.simps) (auto split: if_splits option.splits)
    with "1.IH"[OF f _ refl False] f short show ?thesis by fastforce
  qed
qed

function read_csv :: "string \<Rightarrow> string option list list option" where
  "read_csv s =
     (if s = [] then Some []
      else case read_record s of None \<Rightarrow> None | Some (vs, r) \<Rightarrow> map_option (\<lambda>rows. vs # rows) (read_csv r))"
  by pat_completeness auto
termination by (relation "measure length") (auto dest: read_record_shorter)

declare read_csv.simps [simp del]

section \<open>Round trip\<close>

lemma read_field_csv_field:
  assumes "rest \<noteq> []" and "is_sep (hd rest)"
  shows "read_field (csv_field v @ rest) = Some (field_value v, rest)"
proof -
  obtain ch cs where rest: "rest = ch # cs" and sep: "is_sep ch" using assms by (cases rest) auto
  have chars: "ch \<noteq> dquote" "\<not> is_sep CHR ''t''" "\<not> is_sep CHR ''f''" "CHR ''t'' \<noteq> dquote" "CHR ''f'' \<noteq> dquote"
    using sep by (auto simp: is_sep_def dquote_def newline_char_def)
  have quoted: "read_field ([dquote] @ replace_char dquote [dquote, dquote] tx @ [dquote] @ rest) = Some (Some tx, rest)" for tx
    using read_quoted_replace[of rest tx] chars(1) by (simp add: read_field_def rest)
  have plain: "read_field ([x] @ rest) = Some (Some [x], rest)" if "x \<noteq> dquote" "\<not> is_sep x" for x
    using that sep by (simp add: read_field_def Let_def rest)
  show ?thesis
  proof (cases v)
    case (CVal w)
    show ?thesis
    proof (cases w)
      case VNull
      with CVal sep chars(1) show ?thesis by (simp add: csv_field_def field_value_def read_field_def rest Let_def)
    next
      case (VBool b)
      with CVal plain chars show ?thesis by (simp add: csv_field_def field_value_def)
    qed (use CVal quoted in \<open>simp_all add: csv_field_def field_value_def\<close>)
  qed (use quoted in \<open>simp_all add: csv_field_def field_value_def\<close>)
qed

lemma read_record_csv_line:
  "row \<noteq> [] \<Longrightarrow> read_record (csv_line row @ rest) = Some (map field_value row, rest)"
proof (induction row)
  case (Cons v row)
  show ?case
  proof (cases row)
    case Nil
    have "read_field (csv_field v @ newline_char # rest) = Some (field_value v, newline_char # rest)"
      by (rule read_field_csv_field) (simp_all add: is_sep_def)
    then show ?thesis by (subst read_record.simps) (simp add: Nil csv_line_def)
  next
    case (Cons w ws)
    have "read_field (csv_field v @ CHR '','' # csv_line row @ rest) = Some (field_value v, CHR '','' # csv_line row @ rest)"
      by (rule read_field_csv_field) (simp_all add: is_sep_def)
    moreover have "csv_line (v # row) @ rest = csv_field v @ CHR '','' # csv_line row @ rest"
      by (simp add: csv_line_def Cons)
    moreover have "read_record (csv_line row @ rest) = Some (map field_value row, rest)"
      using Cons.IH Cons by simp
    ultimately show ?thesis by (subst read_record.simps) (simp add: newline_char_def)
  qed
qed simp

text \<open>
  C25: What is copied is what was meant: reading the payload gives back, row by row and column by column, NULL
  or the text of the value, whatever quotes, commas and line breaks the texts contain.
\<close>

theorem copy_payload_roundtrip:
  assumes "list_all (\<lambda>row. row \<noteq> []) rows"
  shows "read_csv (build_copy_payload rows) = Some (map (map field_value) rows)"
  using assms
proof (induction rows)
  case Nil
  show ?case by (subst read_csv.simps) (simp add: build_copy_payload_def)
next
  case (Cons row rows)
  have "csv_line row \<noteq> []" by (simp add: csv_line_def)
  moreover have "build_copy_payload (row # rows) = csv_line row @ build_copy_payload rows"
    by (simp add: build_copy_payload_def)
  ultimately show ?case
    using Cons read_record_csv_line[of row "build_copy_payload rows"] by (subst read_csv.simps) simp
qed

theorem copy_payload_roundtrip_witness:
  "read_csv (build_copy_payload [[CVal VNull, CVal (VText []), CVal (VText [dquote, CHR '','', newline_char]), CVal (VTime 1)]]) =
     Some [[None, Some [], Some [dquote, CHR '','', newline_char], Some ''1970-01-01T00:00:00.000001+00:00'']]"
proof -
  have "iso_time 1 = ''1970-01-01T00:00:00.000001+00:00''" by code_simp
  then show ?thesis
    using copy_payload_roundtrip[of "[[CVal VNull, CVal (VText []), CVal (VText [dquote, CHR '','', newline_char]), CVal (VTime 1)]]"]
    by (simp add: field_value_def)
qed

end
