(* ===== verification/Owners.thy ===== *)
theory Owners
  imports Ownership_Repo Registry_Store Pg
begin

text \<open>
  Giving the tables nobody owns to an engine, as three entry points do it: the registration commands
  (\<^verbatim>\<open>src/controlplane/cli.py\<close>), onboarding (\<^verbatim>\<open>src/controlplane/tasks.py\<close>) and the bootstrap of the extractor
  (\<^verbatim>\<open>src/extractor/extractor.py\<close>).

  Shown for the steps such an entry point is made of, and so for each of them: the row of a table that has an
  owner stays as it is, whether the entry point returns or raises.
\<close>

section \<open>Assigning what nobody owns\<close>

text \<open>\<^verbatim>\<open>Engine(value)\<close> and \<^verbatim>\<open>Action(value)\<close>\<close>

definition parse_engine :: "string \<Rightarrow> engine result" where
  "parse_engine s = (case find (\<lambda>e. engine_value e = s) [PYTHON, KAFKA, NONE] of
      Some e \<Rightarrow> Inr e
    | None \<Rightarrow> Inl (ValueError (s @ '' is not a valid Engine'')))"

definition parse_action :: "string \<Rightarrow> action result" where
  "parse_action s = (case find (\<lambda>a. action_value a = s) [ASSIGN, START_SHADOW, BEGIN_RECONCILIATION, RECORD_RECONCILIATION,
        CUTOVER, ABORT_SHADOW, PAUSE, RESUME, FORCE_ASSIGN] of
      Some a \<Rightarrow> Inr a
    | None \<Rightarrow> Inl (ValueError (s @ '' is not a valid Action'')))"

definition unowned_tables :: "ownership list \<Rightarrow> string list" where
  "unowned_tables owns = map o_table_name (filter (\<lambda>o1. o_engine o1 = NONE) owns)"

definition assign_tables :: "contract \<Rightarrow> string \<Rightarrow> string list \<Rightarrow> string \<Rightarrow> string \<Rightarrow> string \<Rightarrow> nat dbop" where
  "assign_tables ct sid tables engine actor reason =
     (if tables = [] then sret 0
      else sbind (slift (parse_engine engine)) (\<lambda>e.
        sbind (apply_ownership ct sid tables ((new_request ASSIGN actor reason)\<lparr>r_engine := Some e\<rparr>)) (\<lambda>_.
        sret (length tables))))"

definition assign_unowned :: "contract \<Rightarrow> string \<Rightarrow> string \<Rightarrow> string \<Rightarrow> string \<Rightarrow> nat dbop" where
  "assign_unowned ct sid engine actor reason =
     sbind (list_ownership (Some sid) None) (\<lambda>owns.
     sbind commit (\<lambda>_. assign_tables ct sid (unowned_tables owns) engine actor reason))"

section \<open>Owned tables are left alone\<close>

lemma parse_engine_value [simp]: "parse_engine (engine_value e) = Inr e"
  by (cases e) (simp_all add: parse_engine_def)

lemma parse_action_value [simp]: "parse_action (action_value a) = Inr a"
  by (cases a) (simp_all add: parse_action_def)

definition owners_kept :: "db \<Rightarrow> db \<Rightarrow> bool" where
  "owners_kept d0 d \<longleftrightarrow> wf_db d \<and>
     (\<forall>s t row. row_for d0 s t = Some row \<and> o_engine (w_own row) \<noteq> NONE \<longrightarrow> row_for d s t = Some row)"

lemma owners_kept_refl [simp]: "wf_db d \<Longrightarrow> owners_kept d d"
  by (simp add: owners_kept_def)

lemma owners_kept_registry [simp]: "owners_kept d0 (d\<lparr>d_registry := x\<rparr>) = owners_kept d0 d"
  by (simp add: owners_kept_def wf_db_def row_for_def)

lemma assign_only_unowned: "transition o1 req = Inr res \<Longrightarrow> r_action req = ASSIGN \<Longrightarrow> o_engine o1 = NONE"
  by (auto simp: transition_def require_cond_def rbind_Inr_iff Let_def split: if_splits)

lemma assigned_owners_kept:
  assumes "owners_kept d0 (k_working c)" and "r_action req = ASSIGN" and "apply_ownership ct sid tables req c = (Inr rs, c')"
  shows "owners_kept d0 (k_working c')"
proof -
  have wf: "wf_db (k_working c)" using assms(1) by (simp add: owners_kept_def)
  from wf assms(3) show ?thesis
  proof (rule apply_ownership_moved)
    fix d
    assume am: "all_moved c sid (dual_of c) req (sorted_set tables) (k_working c) d"
      and "k_committed c' = k_working c'" and d: "k_working c' = d \<or> r_action req = START_SHADOW \<and> k_working c' = bump_generation sid d"
    have rows: "row_for (k_working c') = row_for d" "wf_db (k_working c') = wf_db d" using d by (auto simp: fun_eq_iff)
    have "row_for d s t = Some row" if row: "row_for (k_working c) s t = Some row" "o_engine (w_own row) \<noteq> NONE" for s t row
    proof (cases "(s, t) \<in> Pair sid ` set (sorted_set tables)")
      case True
      with am obtain res where "moved c sid (dual_of c) req t res (k_working c) d" and "s = sid"
        unfolding all_moved_def by blast
      with row(1) obtain treq where "same_request (dual_of c) req treq" "transition (w_own row) treq = Inr res"
        unfolding moved_def by force
      with assms(2) assign_only_unowned row(2) show ?thesis by (auto simp: same_request_def)
    next
      case False
      with am row(1) show ?thesis unfolding all_moved_def row_for_def by metis
    qed
    with assms(1) am rows show ?thesis by (auto simp: owners_kept_def all_moved_def)
  qed
qed

lemma assign_new_owner: "transition o1 req = Inr res \<Longrightarrow> r_action req = ASSIGN \<Longrightarrow> o_engine (t_current res) \<noteq> NONE"
  by (auto simp: transition_def require_cond_def mk_result_def Let_def split: if_splits)

lemma assigned_all:
  assumes "wf_db (k_working c)" and "r_action req = ASSIGN" and "apply_ownership ct sid tables req c = (Inr rs, c')"
  shows "k_committed c' = k_working c' \<and> d_registry (k_working c') = d_registry (k_working c) \<and> wf_db (k_working c') \<and>
    (\<forall>t \<in> set tables. \<exists>row. row_for (k_working c') sid t = Some row \<and> o_engine (w_own row) \<noteq> NONE)"
  using assms(1,3)
proof (rule apply_ownership_moved)
  fix d
  assume am: "all_moved c sid (dual_of c) req (sorted_set tables) (k_working c) d" and "k_committed c' = k_working c'"
    and "k_working c' = d \<or> r_action req = START_SHADOW \<and> k_working c' = bump_generation sid d"
  with assms(2) have c': "k_committed c' = d" "k_working c' = d" by auto
  have "\<exists>row. row_for d sid t = Some row \<and> o_engine (w_own row) \<noteq> NONE" if "t \<in> set tables" for t
  proof -
    from am that obtain res where "moved c sid (dual_of c) req t res (k_working c) d"
      unfolding all_moved_def by (auto simp: set_sorted_set)
    then show ?thesis
    proof (rule movedE)
      fix old new treq
      assume "row_for d sid t = Some new" "same_request (dual_of c) req treq" "transition (w_own old) treq = Inr res" "w_own new = t_current res"
      with assign_new_owner[of "w_own old" treq res] assms(2) show ?thesis by (simp add: same_request_def)
    qed
  qed
  with c' am show ?thesis by (simp add: all_moved_def same_evidence_def)
qed

lemma insert_ownership_rows_present:
  "insert_ownership_rows session sid ts d = Inr (n, d') \<Longrightarrow>
   d_registry d' = d_registry d \<and> (\<forall>t \<in> set ts. row_for d' sid t \<noteq> None) \<and> (\<forall>s t. row_for d s t \<noteq> None \<longrightarrow> row_for d' s t \<noteq> None)"
proof (induction ts arbitrary: d n)
  case (Cons t ts)
  from Cons.prems consider (old) "map_of (d_ownership d) (sid, t) \<noteq> None" "insert_ownership_rows session sid ts d = Inr (n, d')"
    | (new) m where "insert_ownership_rows session sid ts
        (d\<lparr>d_ownership := AList.update (sid, t) (new_ownership_row session sid t) (d_ownership d)\<rparr>) = Inr (m, d')"
    by (auto simp: rbind_Inr_iff split: if_splits)
  then show ?case
  proof cases
    case old
    with Cons.IH[OF old(2)] show ?thesis by (auto simp: row_for_def)
  next
    case new
    with Cons.IH[OF new] show ?thesis by (auto simp: row_for_def update_conv' split: if_splits)
  qed
qed simp

text \<open>Owners kept, and a property of the registry that the registry operations of the entry point keep.\<close>

definition kept :: "db \<Rightarrow> ((string \<times> source_record) list \<Rightarrow> bool) \<Rightarrow> db \<Rightarrow> bool" where
  "kept d0 Q d \<longleftrightarrow> owners_kept d0 d \<and> Q (d_registry d)"

lemma keeps_owners_apply:
  assumes "r_action req = ASSIGN"
  shows "keeps (both (kept d0 Q)) (apply_ownership ct sid tables req)"
proof (rule keepsI)
  fix c
  assume I: "both (kept d0 Q) c"
  then have w: "owners_kept d0 (k_working c)" "wf_db (k_working c)" "Q (d_registry (k_working c))"
    by (simp_all add: both_def kept_def owners_kept_def)
  obtain r c' where run: "apply_ownership ct sid tables req c = (r, c')" by fastforce
  have "both (kept d0 Q) c'"
  proof (cases r)
    case (Inl e)
    with apply_failed[of ct sid tables req c e c'] run assms w show ?thesis by (simp add: both_def kept_def)
  next
    case (Inr rs)
    with assigned_all[OF w(2) assms] assigned_owners_kept[OF w(1) assms] run w(3) show ?thesis
      by (simp add: both_def kept_def)
  qed
  with run show "both (kept d0 Q) (snd (apply_ownership ct sid tables req c))" by simp
qed

lemma insert_ownership_rows_kept:
  "owners_kept d0 d \<Longrightarrow> insert_ownership_rows session sid ts d = Inr (n, d') \<Longrightarrow> owners_kept d0 d'"
proof (induction ts arbitrary: d n)
  case (Cons t ts)
  let ?d1 = "d\<lparr>d_ownership := AList.update (sid, t) (new_ownership_row session sid t) (d_ownership d)\<rparr>"
  have wf: "wf_db ?d1" if "map_of (d_ownership d) (sid, t) = None" "map_of (d_registry d) sid \<noteq> None" "table_row d t \<noteq> None"
    using that insert_ownership_rows_wf[of d session sid "[t]" 1 ?d1] Cons.prems(1) by (simp add: owners_kept_def)
  have "owners_kept d0 ?d1"
    if "map_of (d_ownership d) (sid, t) = None" "map_of (d_registry d) sid \<noteq> None" "table_row d t \<noteq> None"
    using wf[OF that] that(1) Cons.prems(1) by (auto simp: owners_kept_def row_for_def update_conv')
  with Cons show ?case by (auto simp: rbind_Inr_iff split: if_splits)
qed simp

lemma keeps_owners_ensure: "keeps (both (kept d0 Q)) (ensure_rows sid tables)"
  unfolding ensure_rows_def
  by (rule keeps_both_stmt)
    (auto simp: ensure_ownership_rows_def kept_def dest: insert_ownership_rows_kept insert_ownership_rows_present)

lemma keeps_owners_registry:
  "(\<And>reg. Q reg \<Longrightarrow> map_of reg (s_source_id r) = None \<Longrightarrow> Q (reg @ [(s_source_id r, r)])) \<Longrightarrow> keeps (both (kept d0 Q)) (create_source env r)"
  "keeps (both (kept d0 Q)) (get_source sid)"
  "(\<And>reg r. Q reg \<Longrightarrow> Q (AList.update sid r reg)) \<Longrightarrow> keeps (both (kept d0 Q)) (set_lifecycle sid st)"
  "(\<And>reg. Q reg) \<Longrightarrow> keeps (both (kept d0 Q)) (upsert_sources env records allow)"
  unfolding create_source_def get_source_def set_lifecycle_def upsert_sources_def Let_def
  by (intro keeps_intros keeps_both_stmt; auto simp: rbind_Inr_iff upsert_row_def Let_def kept_def split: if_splits option.splits)+

lemma keeps_owners_assign: "keeps (both (kept d0 Q)) (assign_unowned ct sid engine actor reason)"
  unfolding assign_unowned_def assign_tables_def list_ownership_def
  by (intro keeps_intros keeps_owners_apply) (simp add: new_request_def)

lemmas keeps_owners = keeps_owners_ensure keeps_owners_registry keeps_owners_assign

section \<open>Nothing stays unowned\<close>

definition owns_listed :: "string \<Rightarrow> db \<Rightarrow> ownership list" where
  "owns_listed sid d = map (\<lambda>kr. w_own (snd kr)) (sort_key fst (filter (\<lambda>kr. sid = [] \<or> fst (fst kr) = sid) (d_ownership d)))"

lemma list_ownership_run [sx_simps]: "list_ownership (Some sid) None c = (Inr (owns_listed sid (k_working c)), c)"
  unfolding list_ownership_def sget_run owns_listed_def by (auto intro!: arg_cong[where f = "map _"] arg_cong[where f = "sort_key _"] filter_cong)

lemma listed_unowned:
  assumes "wf_db d" and "row_for d sid t = Some row" and "o_engine (w_own row) = NONE"
  shows "t \<in> set (unowned_tables (owns_listed sid d))"
proof -
  have "((sid, t), row) \<in> set (d_ownership d)" using assms(2) by (simp add: row_for_def map_of_SomeD)
  moreover from this assms(1) have "o_table_name (w_own row) = t" by (auto simp: wf_db_def row_ok_def own_key_def list_all_iff)
  ultimately show ?thesis using assms(3) by (force simp: unowned_tables_def owns_listed_def)
qed

lemma assign_tables_Inr:
  assumes "assign_tables ct sid tables engine actor reason c = (Inr n, c')"
  obtains "tables = []" "c' = c"
    | req rs where "tables \<noteq> []" "r_action req = ASSIGN" "apply_ownership ct sid tables req c = (Inr rs, c')"
proof (cases "tables = []")
  case True
  with assms that(1) show thesis by (simp add: assign_tables_def sx_simps)
next
  case False
  with assms obtain e rs where ap: "apply_ownership ct sid tables ((new_request ASSIGN actor reason)\<lparr>r_engine := Some e\<rparr>) c = (Inr rs, c')"
    by (auto simp: assign_tables_def sbind_def sx_simps split: prod.splits sum.splits)
  show thesis by (rule that(2)[OF False _ ap]) (simp add: new_request_def)
qed

lemma assign_unowned_all:
  assumes "wf_db (k_working c)" and "assign_unowned ct sid engine actor reason c = (Inr n, c')"
  shows "k_committed c' = k_working c' \<and> d_registry (k_working c') = d_registry (k_working c) \<and>
    (\<forall>t row. row_for (k_working c) sid t = Some row \<longrightarrow>
      (\<exists>row'. row_for (k_working c') sid t = Some row' \<and> o_engine (w_own row') \<noteq> NONE))"
proof -
  let ?un = "unowned_tables (owns_listed sid (k_working c))" and ?c1 = "c\<lparr>k_committed := k_working c, k_txn := k_txn c + 1\<rparr>"
  note none = listed_unowned[OF assms(1)]
  have "assign_tables ct sid ?un engine actor reason ?c1 = (Inr n, c')"
    using assms(2) by (simp add: assign_unowned_def sbind_def sx_simps)
  then show ?thesis
  proof (cases rule: assign_tables_Inr)
    case 1
    have "o_engine (w_own row) \<noteq> NONE" if "row_for (k_working c) sid t = Some row" for t row
      using none[OF that] 1(1) by force
    with 1 show ?thesis by auto
  next
    case (2 req rs)
    have wf1: "wf_db (k_working ?c1)" using assms(1) by simp
    note all = assigned_all[OF wf1 2(2,3)]
    have kept: "owners_kept (k_working c) (k_working c')"
      using assigned_owners_kept[OF _ 2(2,3), of "k_working c"] assms(1) by simp
    have "\<exists>row'. row_for (k_working c') sid t = Some row' \<and> o_engine (w_own row') \<noteq> NONE"
      if row: "row_for (k_working c) sid t = Some row" for t row
      using none[OF row] all kept row by (cases "o_engine (w_own row) = NONE") (auto simp: owners_kept_def)
    with all show ?thesis by simp
  qed
qed

end
