(* ===== verification/Extractor.thy ===== *)
theory Extractor
  imports Paging Copy_Payload Owners
begin

text \<open>
  \<^verbatim>\<open>src/extractor/extractor.py\<close> and \<^verbatim>\<open>src/extractor/replica_lag_check.py\<close>: the batch engine that copies the
  tables it owns from a source to the warehouse.

  \<^item> The source database is outside: \<open>source_db\<close> gives, for the n-th query, the contents of a table (or
    the failure of the query), the replication lag and the last completed close of business; so the
    source may change between any two queries.  The clock of the process is read at the same points.
  \<^item> The state is the warehouse connection together with the number of queries made, the outcome of
    the table in work and the outcomes of the tables done (the code mutates these objects, so
    they survive an exception).
  \<^item> The loop over the pages ends only with the source's rows; it has fuel, and running out of it is the
    value \<open>None\<close>, told apart from every result and every exception.
\<close>

section \<open>The outside and the state\<close>

record source_db =
  sd_connect :: "nat \<Rightarrow> unit result"
  sd_table :: "string \<Rightarrow> nat \<Rightarrow> source_table result"
  sd_lag :: "nat \<Rightarrow> int option result"
  sd_cob :: "string \<Rightarrow> nat \<Rightarrow> int option result"
  sd_clock :: "nat \<Rightarrow> int"

record table_outcome =
  to_table :: string
  to_target :: string
  to_rows_read :: int
  to_rows_applied :: int
  to_rows_deleted :: int
  to_status :: string
  to_detail :: "string option"

record source_outcome =
  so_source :: string
  so_mode :: string
  so_status :: string
  so_tables :: "table_outcome list"
  so_error :: "string option"

record xworld =
  xw_queries :: nat
  xw_out :: table_outcome
  xw_tables :: "table_outcome list"

type_synonym xstate = "xworld sys"

definition source_query :: "(nat \<Rightarrow> 'a result) \<Rightarrow> (xstate, 'a) sx" where
  "source_query f = on_world (\<lambda>w. (f (xw_queries w), w\<lparr>xw_queries := xw_queries w + 1\<rparr>))"

definition update_out :: "(table_outcome \<Rightarrow> table_outcome) \<Rightarrow> (xstate, unit) sx" where
  "update_out f = on_world (\<lambda>w. (Inr (), w\<lparr>xw_out := f (xw_out w)\<rparr>))"

text \<open>Sequencing of computations that may run out of fuel, and \<^verbatim>\<open>try: m finally: h\<close>.\<close>

definition obind :: "('s, 'a option) sx \<Rightarrow> ('a \<Rightarrow> ('s, 'b option) sx) \<Rightarrow> ('s, 'b option) sx" where
  "obind m f = sbind m (\<lambda>r. case r of None \<Rightarrow> sret None | Some x \<Rightarrow> f x)"

definition olift :: "('s, 'a) sx \<Rightarrow> ('s, 'a option) sx" where
  "olift m = sbind m (\<lambda>x. sret (Some x))"

fun ofor :: "'a list \<Rightarrow> ('a \<Rightarrow> ('s, 'b option) sx) \<Rightarrow> ('s, 'b list option) sx" where
  "ofor [] f = sret (Some [])"
| "ofor (x # xs) f = obind (f x) (\<lambda>y. obind (ofor xs f) (\<lambda>ys. sret (Some (y # ys))))"

definition sfinally :: "('s, 'a) sx \<Rightarrow> ('s, unit) sx \<Rightarrow> ('s, 'a) sx" where
  "sfinally m h s = (case m s of (r, s') \<Rightarrow> (case h s' of (Inl e, s'') \<Rightarrow> (Inl e, s'') | (Inr _, s'') \<Rightarrow> (r, s'')))"

section \<open>Assignments\<close>

record assignment =
  as_table :: table_contract
  as_target :: string
  as_epoch :: int

definition assignments_of :: "contract \<Rightarrow> string list option \<Rightarrow> ownership \<Rightarrow> assignment list" where
  "assignments_of ct tables o1 =
     (if o_cutover_state o1 = PAUSED \<or> (case tables of None \<Rightarrow> False | Some ts \<Rightarrow> ts \<noteq> [] \<and> o_table_name o1 \<notin> set ts) then []
      else case find (\<lambda>t. tc_table_name t = o_table_name o1) (ct_tables ct) of
        None \<Rightarrow> []
      | Some t \<Rightarrow>
          (if o_engine o1 = PYTHON then [\<lparr>as_table = t, as_target = ''prod'', as_epoch = o_epoch o1\<rparr>] else []) @
          (if o_shadow_engine o1 = Some PYTHON then [\<lparr>as_table = t, as_target = ''shadow'', as_epoch = o_epoch o1\<rparr>] else []))"

definition plan_assignments :: "ownership list \<Rightarrow> contract \<Rightarrow> string list option \<Rightarrow> assignment list" where
  "plan_assignments owns ct tables =
     sort_key (\<lambda>a. (tc_table_name (as_table a), as_target a)) (concat (map (assignments_of ct tables) owns))"

section \<open>Reading a page\<close>

record extractor =
  xe_source :: source_record
  xe_settings :: extract_settings
  xe_contract :: contract
  xe_tables :: "string list option"

definition withheld_column :: "bool \<Rightarrow> column_spec \<Rightarrow> bool" where
  "withheld_column exclude c \<longleftrightarrow> c_synthetic c \<or> exclude \<and> c_pii c"

definition select_row :: "table_contract \<Rightarrow> bool \<Rightarrow> src_row \<Rightarrow> (string \<times> val) list" where
  "select_row t exclude r =
     map (\<lambda>c. (c_name c, if withheld_column exclude c then VNull else col_val (snd r) (c_name c))) (tc_columns t)"

definition selected_names :: "table_contract \<Rightarrow> bool \<Rightarrow> string list" where
  "selected_names t exclude = map c_name (filter (\<lambda>c. \<not> withheld_column exclude c) (tc_columns t))"

definition fetch_page :: "extractor \<Rightarrow> source_db \<Rightarrow> table_contract \<Rightarrow> watermark_row option \<Rightarrow> (xstate, (string \<times> val) list list) sx" where
  "fetch_page xe db t start =
     sbind (slift (page_after t start)) (\<lambda>page.
     source_query (\<lambda>n. rbind (sd_table db (tc_table_name t) n) (\<lambda>st.
       guard (0 \<le> es_page_size (xe_settings xe)) (DatabaseError ''2201W'' ''LIMIT must not be negative'') (
       guard (set (selected_names t (es_exclude_pii (xe_settings xe))) \<subseteq> set (src_columns st))
         (DatabaseError ''42703'' ''column does not exist'') (
       Inr (map (select_row t (es_exclude_pii (xe_settings xe)))
              (page_rows page (nat (es_page_size (xe_settings xe))) (src_rows st))))))))"

definition key_of :: "table_contract \<Rightarrow> (string \<times> val) list \<Rightarrow> int option" where
  "key_of t sel = (case col_val sel (tc_primary_key t) of VInt k \<Rightarrow> Some k | _ \<Rightarrow> None)"

section \<open>Writing a page\<close>

definition stage_row :: "extractor \<Rightarrow> assignment \<Rightarrow> int \<Rightarrow> string option \<Rightarrow> char \<Rightarrow> (string \<times> val) list \<Rightarrow> staged result" where
  "stage_row xe a pynow cursor op sel =
     (case key_of (as_table a) sel of
        None \<Rightarrow> Inl (DatabaseError ''23502'' ''null value in the primary key column'')
      | Some k \<Rightarrow> Inr
          \<lparr>st_source = s_source_id (xe_source xe), st_tenant = s_tenant_id (xe_source xe), st_pk = k, st_cols = sel,
           st_generation = s_capture_generation (xe_source xe), st_lsn = None,
           st_ts = Some (case cursor of None \<Rightarrow> pynow | Some cur \<Rightarrow> get_or pynow (time_of (col_val sel cur))),
           st_op = op,
           st_unavailable = (if es_exclude_pii (xe_settings xe) \<and> op \<noteq> CHR ''d''
             then map c_name (filter c_pii (tc_columns (as_table a))) else []),
           st_epoch = as_epoch a, st_target = as_target a\<rparr>)"

definition write_page :: "extractor \<Rightarrow> source_db \<Rightarrow> assignment \<Rightarrow> (string \<times> val) list list \<Rightarrow> string option \<Rightarrow> char \<Rightarrow>
    (xstate, int \<times> int) sx" where
  "write_page xe db a rows cursor op =
     sbind (sget (\<lambda>y. sd_clock db (xw_queries (y_world y)))) (\<lambda>pynow.
     sbind (scatch
       (on_conn (stmt (\<lambda>c. rbind (rmap (stage_row xe a pynow cursor op) rows) (\<lambda>stage.
          apply_staged_batch c (tc_table_name (as_table a)) ''PYTHON'' stage))))
       (\<lambda>e. case e of
           DatabaseError code msg \<Rightarrow> sbind (on_conn rollback) (\<lambda>_.
             if code = ''FBI01'' then sraise (FencedError msg) else sraise e)
         | _ \<Rightarrow> sraise e)) (\<lambda>results.
     sret (sum_list (map (\<lambda>r. fst (snd r)) results), sum_list (map (\<lambda>r. snd (snd r)) results))))"

section \<open>Extraction\<close>

definition table_cursor :: "table_contract \<Rightarrow> string option result" where
  "table_cursor t = rbind (cursor_is_usable t) (\<lambda>usable. Inr (if usable then tc_python_cursor t else None))"

definition next_watermark :: "table_contract \<Rightarrow> string option \<Rightarrow> bool \<Rightarrow> (string \<times> val) list \<Rightarrow> watermark_row" where
  "next_watermark t cursor null_phase row =
     \<lparr>wm_cursor = (if null_phase then None else case cursor of None \<Rightarrow> None | Some cur \<Rightarrow> time_of (col_val row cur)),
      wm_last_pk = key_of t row\<rparr>"

definition epoch_start :: watermark_row where
  "epoch_start = \<lparr>wm_cursor = Some 0, wm_last_pk = None\<rparr>"

definition save_watermark :: "extractor \<Rightarrow> assignment \<Rightarrow> watermark_row \<Rightarrow> (xstate, unit) sx" where
  "save_watermark xe a w = on_conn (wm_update (s_source_id (xe_source xe)) (tc_table_name (as_table a)) (as_target a)
     (wm_cursor w) (wm_last_pk w))"

definition copy_page :: "extractor \<Rightarrow> source_db \<Rightarrow> assignment \<Rightarrow> string option \<Rightarrow> bool \<Rightarrow> (string \<times> val) list list \<Rightarrow>
    watermark_row option \<Rightarrow> (xstate, watermark_row option) sx" where
  "copy_page xe db a cursor null_phase rows start =
     (if rows = [] then sret start
      else let next = next_watermark (as_table a) cursor null_phase (last rows) in
        sbind (write_page xe db a rows cursor CHR ''u'') (\<lambda>(applied, _).
        sbind (if cursor = None then sret () else save_watermark xe a next) (\<lambda>_.
        sbind (on_conn commit) (\<lambda>_.
        sbind (update_out (\<lambda>out. out\<lparr>to_rows_read := to_rows_read out + int (length rows),
            to_rows_applied := to_rows_applied out + applied\<rparr>)) (\<lambda>_.
        sret (Some next))))))"

fun extract_loop :: "nat \<Rightarrow> extractor \<Rightarrow> source_db \<Rightarrow> assignment \<Rightarrow> string option \<Rightarrow> watermark_row option \<Rightarrow> bool \<Rightarrow>
    (xstate, unit option) sx" where
  "extract_loop 0 xe db a cursor start null_phase = sret None"
| "extract_loop (Suc fuel) xe db a cursor start null_phase =
     sbind (fetch_page xe db (as_table a) start) (\<lambda>rows.
     sbind (copy_page xe db a cursor null_phase rows start) (\<lambda>start'.
     if int (length rows) < es_page_size (xe_settings xe) then
       (if \<not> null_phase then sret (Some ())
        else sbind (save_watermark xe a epoch_start) (\<lambda>_.
             sbind (on_conn commit) (\<lambda>_.
             extract_loop fuel xe db a cursor (Some epoch_start) False)))
     else extract_loop fuel xe db a cursor start' null_phase))"

definition extract_start :: "extractor \<Rightarrow> string option \<Rightarrow> watermark_row option \<Rightarrow> watermark_row option" where
  "extract_start xe cursor stored =
     (if cursor = None then None
      else case stored of
        Some w \<Rightarrow> (case wm_cursor w of
            Some c \<Rightarrow> if 0 < es_lookback_seconds (xe_settings xe)
              then Some \<lparr>wm_cursor = Some (c - es_lookback_seconds (xe_settings xe) * 1000000), wm_last_pk = None\<rparr> else stored
          | None \<Rightarrow> stored)
      | None \<Rightarrow> None)"

definition extract_table :: "nat \<Rightarrow> extractor \<Rightarrow> source_db \<Rightarrow> assignment \<Rightarrow> (xstate, unit option) sx" where
  "extract_table fuel xe db a =
     (let t = as_table a in
      sbind (on_conn (wm_get (s_source_id (xe_source xe)) (tc_table_name t) (as_target a))) (\<lambda>stored.
      sbind (slift (table_cursor t)) (\<lambda>cursor.
      if tc_primary_key t \<notin> set (column_names t) then sraise (ValueError ''tuple.index(x): x not in tuple'')
      else
        let start = extract_start xe cursor stored in
        sbind (slift (in_null_cursor_phase t start)) (\<lambda>null_phase.
        extract_loop fuel xe db a cursor start null_phase))))"

section \<open>Soft deletes\<close>

text \<open>\<^verbatim>\<open>xs[i : i + n]\<close> for \<^verbatim>\<open>i in range(0, len(xs), n)\<close> with positive \<open>n\<close>.\<close>

function chunks :: "nat \<Rightarrow> 'a list \<Rightarrow> 'a list list" where
  "chunks n xs = (if n = 0 \<or> xs = [] then [] else take n xs # chunks n (drop n xs))"
  by pat_completeness auto
termination by (relation "measure (\<lambda>(n, xs). length xs)") auto

declare chunks.simps [simp del]

definition probe_keys :: "source_db \<Rightarrow> table_contract \<Rightarrow> int list \<Rightarrow> (xstate, int list) sx" where
  "probe_keys db t chunk = source_query (\<lambda>n.
     rbind (sd_table db (tc_table_name t) n) (\<lambda>st. Inr (filter (\<lambda>k. k \<in> set chunk) (map fst (src_rows st)))))"

definition still_missing :: "source_db \<Rightarrow> table_contract \<Rightarrow> int list \<Rightarrow> (xstate, int list) sx" where
  "still_missing db t keys =
     (if keys = [] then sret []
      else sbind (sfor (chunks 5000 keys) (probe_keys db t)) (\<lambda>present.
           sret (filter (\<lambda>k. k \<notin> set (concat present)) keys)))"

definition delete_row :: "table_contract \<Rightarrow> int \<Rightarrow> (string \<times> val) list" where
  "delete_row t k = map (\<lambda>n. (n, if n = tc_primary_key t then VInt k else VNull)) (column_names t)"

definition warehouse_schema :: "string \<Rightarrow> string" where
  "warehouse_schema target = (if target = ''prod'' then ''raw'' else ''raw_shadow'')"

definition delete_chunk :: "extractor \<Rightarrow> source_db \<Rightarrow> assignment \<Rightarrow> int list \<Rightarrow> (xstate, unit) sx" where
  "delete_chunk xe db a chunk =
     sbind (write_page xe db a (map (delete_row (as_table a)) chunk) None CHR ''d'') (\<lambda>(_, deleted).
     sbind (on_conn commit) (\<lambda>_.
     update_out (\<lambda>out. out\<lparr>to_rows_deleted := to_rows_deleted out + deleted\<rparr>)))"

definition delete_missing :: "extractor \<Rightarrow> source_db \<Rightarrow> assignment \<Rightarrow> int list \<Rightarrow> (xstate, unit) sx" where
  "delete_missing xe db a missing =
     (let n = es_page_size (xe_settings xe) in
      if missing = [] then sret ()
      else if tc_primary_key (as_table a) \<notin> set (column_names (as_table a)) then sraise (ValueError ''tuple.index(x): x not in tuple'')
      else if n = 0 then sraise (ValueError ''range() arg 3 must not be zero'')
      else sbind (sfor (chunks (nat n) missing) (delete_chunk xe db a)) (\<lambda>_. sret ()))"

definition reconcile_deletes :: "sql_cast \<Rightarrow> row_hash \<Rightarrow> os_env \<Rightarrow> extractor \<Rightarrow> source_db \<Rightarrow> assignment \<Rightarrow> (xstate, unit) sx" where
  "reconcile_deletes cast hash env xe db a =
     (let t = as_table a in
      sbind (source_query (sd_table db (tc_table_name t))) (\<lambda>st.
      sbind (on_conn (source_vs_warehouse cast hash env st (s_source_id (xe_source xe)) t
               (es_reconcile_bucket_size (xe_settings xe)) 10000 True (warehouse_schema (as_target a)))) (\<lambda>q.
      sbind (still_missing db t (q_missing_in_source_keys q)) (delete_missing xe db a))))"

section \<open>One table\<close>

definition record_progress :: "extractor \<Rightarrow> assignment \<Rightarrow> (xstate, unit) sx" where
  "record_progress xe a =
     sbind (sget (\<lambda>y. let out = xw_out (y_world y) in to_rows_applied out + to_rows_deleted out)) (\<lambda>rows.
     sbind (on_conn (stmt (\<lambda>c.
       let d = k_working c; sid = s_source_id (xe_source xe); table = tc_table_name (as_table a);
           key = (sid, table, as_target a, es_writer_id (xe_settings xe));
           ts = (case map_of (d_watermarks d) (sid, table, as_target a) of None \<Rightarrow> None | Some w \<Rightarrow> wm_cursor w) in
       Inr ((), d\<lparr>d_progress := AList.update key (case map_of (d_progress d) key of
           None \<Rightarrow> \<lparr>pg_rows_applied = rows, pg_last_source_ts = ts, pg_last_applied_at = now c\<rparr>
         | Some p \<Rightarrow> p\<lparr>pg_rows_applied := pg_rows_applied p + rows,
               pg_last_source_ts := (if ts = None then pg_last_source_ts p else ts), pg_last_applied_at := now c\<rparr>)
         (d_progress d)\<rparr>)))) (\<lambda>_.
     on_conn commit))"

definition table_work :: "nat \<Rightarrow> sql_cast \<Rightarrow> row_hash \<Rightarrow> os_env \<Rightarrow> extractor \<Rightarrow> source_db \<Rightarrow> string \<Rightarrow> assignment \<Rightarrow>
    (xstate, unit option) sx" where
  "table_work fuel cast hash env xe db mode a =
     (let t = as_table a in
      sbind (if mode = ''backfill''
             then sbind (on_conn (wm_reset (s_source_id (xe_source xe)) (tc_table_name t) (as_target a))) (\<lambda>_. on_conn commit)
             else sret ()) (\<lambda>_.
      obind (if mode \<in> {''backfill'', ''incremental''} then extract_table fuel xe db a else sret (Some ())) (\<lambda>_.
      sbind (if mode \<in> {''backfill'', ''reconcile''} then sret True
             else slift (rbind (cursor_is_usable t) (\<lambda>u. Inr (\<not> u)))) (\<lambda>deletes.
      sbind (swhen deletes (reconcile_deletes cast hash env xe db a)) (\<lambda>_.
      olift (record_progress xe a))))))"

definition process_locked :: "nat \<Rightarrow> sql_cast \<Rightarrow> row_hash \<Rightarrow> os_env \<Rightarrow> extractor \<Rightarrow> source_db \<Rightarrow> string \<Rightarrow> assignment \<Rightarrow>
    (xstate, table_outcome option) sx" where
  "process_locked fuel cast hash env xe db mode a =
     obind (scatch (table_work fuel cast hash env xe db mode a)
       (\<lambda>e. case e of
           FencedError msg \<Rightarrow> sbind (on_conn rollback) (\<lambda>_.
             olift (update_out (\<lambda>out. out\<lparr>to_status := ''fenced'', to_detail := Some msg\<rparr>)))
         | _ \<Rightarrow> sraise e)) (\<lambda>_.
     olift (sget (\<lambda>y. xw_out (y_world y))))"

definition new_outcome :: "assignment \<Rightarrow> table_outcome" where
  "new_outcome a = \<lparr>to_table = tc_table_name (as_table a), to_target = as_target a, to_rows_read = 0, to_rows_applied = 0,
     to_rows_deleted = 0, to_status = ''ok'', to_detail = None\<rparr>"

text \<open>The advisory lock of the table is taken and released around this.\<close>

definition process :: "nat \<Rightarrow> sql_cast \<Rightarrow> row_hash \<Rightarrow> os_env \<Rightarrow> extractor \<Rightarrow> source_db \<Rightarrow> string \<Rightarrow> assignment \<Rightarrow>
    (xstate, table_outcome option) sx" where
  "process fuel cast hash env xe db mode a =
     sbind (update_out (\<lambda>_. new_outcome a)) (\<lambda>_.
     sfinally (process_locked fuel cast hash env xe db mode a)
       (sbind (on_conn rollback) (\<lambda>_. on_conn commit)))"

section \<open>One source\<close>

definition ensure_replica_safe :: "source_db \<Rightarrow> int \<Rightarrow> (xstate, int) sx" where
  "ensure_replica_safe db threshold =
     sbind (source_query (sd_connect db)) (\<lambda>_.
     sbind (source_query (sd_lag db)) (\<lambda>lag.
     let seconds = get_or 0 lag in
     if threshold < seconds then sraise (RuntimeError (''Replica lag '' @ int_str seconds @
       ''s exceeds configured threshold '' @ int_str threshold @ ''s.''))
     else sret seconds))"

definition ensure_cob_completed :: "extractor \<Rightarrow> source_db \<Rightarrow> (xstate, unit) sx" where
  "ensure_cob_completed xe db =
     (let job = s_cob_job_name (xe_source xe); hours = es_cob_lookback_hours (xe_settings xe) in
      sbind (source_query (sd_cob db job)) (\<lambda>completed.
      sbind (sget (\<lambda>y. sd_clock db (xw_queries (y_world y)))) (\<lambda>pynow.
      case completed of
        None \<Rightarrow> sraise (RuntimeError (''No completed '' @ job @ '' execution found in batch_job_execution.''))
      | Some t \<Rightarrow>
          if t < pynow - hours * 3600000000 then sraise (RuntimeError (''Latest '' @ job @ '' completion '' @ iso_time t @
            '' is older than '' @ int_str hours @ '' hours.''))
          else sret ())))"

definition start_pipeline :: "extractor \<Rightarrow> string \<Rightarrow> string \<Rightarrow> string \<Rightarrow> unit dbop" where
  "start_pipeline xe run_id mode status =
     sbind (stmt (\<lambda>c. let d = k_working c in
       guard (map_of (d_pipeline d) run_id = None) (DatabaseError ''23505'' ''duplicate key value'') (
       Inr ((), d\<lparr>d_pipeline := AList.update run_id \<lparr>pr_source = s_source_id (xe_source xe), pr_tenant = s_tenant_id (xe_source xe),
          pr_mode = mode, pr_started_at = now c, pr_completed_at = None, pr_status = status, pr_rows_extracted = None,
          pr_rows_loaded = None, pr_error = None\<rparr> (d_pipeline d)\<rparr>)))) (\<lambda>_. commit)"

definition end_pipeline :: "string \<Rightarrow> source_outcome \<Rightarrow> unit dbop" where
  "end_pipeline run_id so =
     sbind (stmt (\<lambda>c. let d = k_working c in
       Inr ((), case map_of (d_pipeline d) run_id of
          None \<Rightarrow> d
        | Some p \<Rightarrow> d\<lparr>d_pipeline := AList.update run_id (p\<lparr>pr_completed_at := Some (now c), pr_status := so_status so,
            pr_rows_extracted := Some (sum_list (map to_rows_read (so_tables so))),
            pr_rows_loaded := Some (sum_list (map to_rows_applied (so_tables so))), pr_error := so_error so\<rparr>) (d_pipeline d)\<rparr>))) (\<lambda>_. commit)"

definition run_tables :: "nat \<Rightarrow> sql_cast \<Rightarrow> row_hash \<Rightarrow> os_env \<Rightarrow> extractor \<Rightarrow> source_db \<Rightarrow> string \<Rightarrow> assignment list \<Rightarrow>
    (xstate, unit option) sx" where
  "run_tables fuel cast hash env xe db mode as =
     obind (ofor as (\<lambda>a. obind (process fuel cast hash env xe db mode a) (\<lambda>out.
       olift (on_world (\<lambda>w. (Inr (), w\<lparr>xw_tables := xw_tables w @ [out]\<rparr>)))))) (\<lambda>_. sret (Some ()))"

definition source_work :: "nat \<Rightarrow> sql_cast \<Rightarrow> row_hash \<Rightarrow> os_env \<Rightarrow> extractor \<Rightarrow> source_db \<Rightarrow> string \<Rightarrow> string \<Rightarrow>
    (xstate, source_outcome option) sx" where
  "source_work fuel cast hash env xe db run_id mode =
     (let sid = s_source_id (xe_source xe) in
      sbind (on_conn (list_ownership (Some sid) (Some PYTHON))) (\<lambda>owns.
      let as = plan_assignments owns (xe_contract xe) (xe_tables xe) in
      sbind (on_conn commit) (\<lambda>_.
      if as = [] then sret (Some \<lparr>so_source = sid, so_mode = mode, so_status = ''skipped'', so_tables = [],
          so_error = Some ''no tables owned by the PYTHON engine''\<rparr>)
      else
        sbind (on_conn (start_pipeline xe run_id mode ''running'')) (\<lambda>_.
        sbind (slift (resolve env (s_secret_ref (xe_source xe)) sid)) (\<lambda>_.
        sbind (source_query (sd_connect db)) (\<lambda>_.
        sbind (ensure_replica_safe db (es_replica_lag_threshold (xe_settings xe))) (\<lambda>_.
        sbind (swhen (mode \<noteq> ''reconcile'' \<and> es_cob_gate_enabled (xe_settings xe)) (ensure_cob_completed xe db)) (\<lambda>_.
        obind (run_tables fuel cast hash env xe db mode as) (\<lambda>_.
        sbind (sget (\<lambda>y. xw_tables (y_world y))) (\<lambda>outs.
        let so = \<lparr>so_source = sid, so_mode = mode,
                  so_status = (if list_ex (\<lambda>o1. to_status o1 = ''fenced'') outs then ''partial'' else ''success''),
                  so_tables = outs, so_error = None\<rparr> in
        sbind (on_conn (end_pipeline run_id so)) (\<lambda>_. sret (Some so))))))))))))"

definition run_source :: "nat \<Rightarrow> sql_cast \<Rightarrow> row_hash \<Rightarrow> os_env \<Rightarrow> extractor \<Rightarrow> source_db \<Rightarrow> string \<Rightarrow> string \<Rightarrow>
    (xstate, source_outcome option) sx" where
  "run_source fuel cast hash env xe db run_id mode =
     (if mode \<notin> {''backfill'', ''incremental'', ''reconcile''} then sraise (ValueError (''Unsupported mode: '' @ mode))
      else
        sbind (on_world (\<lambda>w. (Inr (), w\<lparr>xw_tables := []\<rparr>))) (\<lambda>_.
        scatch (source_work fuel cast hash env xe db run_id mode)
          (\<lambda>e. sbind (on_conn rollback) (\<lambda>_.
            sbind (sget (\<lambda>y. xw_tables (y_world y))) (\<lambda>outs.
            sbind (scatch (on_conn (end_pipeline run_id \<lparr>so_source = s_source_id (xe_source xe), so_mode = mode, so_status = ''failed'',
                so_tables = outs, so_error = Some (exn_message e)\<rparr>)) (\<lambda>_. on_conn rollback)) (\<lambda>_.
            sraise e))))))"

section \<open>Several sources\<close>

definition boot_record :: "env_bootstrap \<Rightarrow> string \<Rightarrow> int \<Rightarrow> (string \<times> label) list \<Rightarrow> source_record" where
  "boot_record boot lifecycle generation labels =
     (new_source (eb_source_id boot) (eb_tenant_id boot))
       \<lparr>s_display_name := Some (eb_dbname boot @ ''@'' @ eb_host boot), s_db_host := Some (eb_host boot), s_db_port := eb_port boot,
        s_db_name := Some (eb_dbname boot), s_db_user := Some (eb_user boot), s_compat_schema := eb_compat_schema boot,
        s_secret_ref := Some (eb_secret_ref boot), s_lifecycle_state := lifecycle, s_capture_generation := generation,
        s_cob_job_name := eb_cob_job_name boot, s_labels := AList.update ''sslmode'' (LText (eb_ssl_mode boot)) labels\<rparr>"

definition ensure_env_source :: "os_env \<Rightarrow> contract \<Rightarrow> extract_settings \<Rightarrow> env_bootstrap \<Rightarrow> source_record dbop" where
  "ensure_env_source env ct es boot =
     (let sid = eb_source_id boot in
      sbind (scatch (sbind (get_source sid) (\<lambda>s. sret (s_lifecycle_state s, s_capture_generation s, s_labels s)))
              (\<lambda>_. sbind rollback (\<lambda>_. sret (''ACTIVE'', 0, [])))) (\<lambda>(lifecycle, generation, labels).
      sbind (upsert_sources env [boot_record boot lifecycle generation labels] True) (\<lambda>_.
      sbind (ensure_rows sid (table_names ct)) (\<lambda>_.
      sbind commit (\<lambda>_.
      sbind (if es_default_engine es = ''NONE'' then sret 0
             else assign_unowned ct sid (es_default_engine es) ''bootstrap'' ''initial engine from INGESTION_ENGINE_DEFAULT'') (\<lambda>_.
      get_source sid))))))"

datatype source_report = RunDone source_outcome | RunFailed string string string

fun report_source :: "source_report \<Rightarrow> string" where
  "report_source (RunDone so) = so_source so"
| "report_source (RunFailed sid mode msg) = sid"

text \<open>A connection of another login: what it leaves uncommitted is gone when it is closed.\<close>

definition with_login :: "string \<Rightarrow> bool \<Rightarrow> 'a dbop \<Rightarrow> 'a dbop" where
  "with_login user admin m c =
     (case m (c\<lparr>k_session_user := user, k_admin := admin, k_working := k_committed c\<rparr>) of (r, c') \<Rightarrow>
        (r, c'\<lparr>k_session_user := k_session_user c, k_admin := k_admin c, k_working := k_committed c', k_txn := k_txn c' + 1\<rparr>))"

definition boot_wanted :: "string list \<Rightarrow> (int \<times> int) option \<Rightarrow> env_bootstrap \<Rightarrow> bool" where
  "boot_wanted source_ids shard boot \<longleftrightarrow> (source_ids = [] \<or> eb_source_id boot \<in> set source_ids) \<and>
     (case shard of None \<Rightarrow> True | Some (i, n) \<Rightarrow> i = 0)"

definition chosen_sources :: "(string \<Rightarrow> int) \<Rightarrow> string list \<Rightarrow> (int \<times> int) option \<Rightarrow> source_record list dbop" where
  "chosen_sources hashtext source_ids shard =
     sbind (if source_ids \<noteq> [] then sfor source_ids get_source
            else list_sources hashtext [''ACTIVE'', ''DEGRADED'', ''PROVISIONING''] None (map_option fst shard) (map_option snd shard)) (\<lambda>sources.
     sbind commit (\<lambda>_. sret sources))"

definition run_one :: "nat \<Rightarrow> sql_cast \<Rightarrow> row_hash \<Rightarrow> os_env \<Rightarrow> contract \<Rightarrow> string list option \<Rightarrow> extract_settings \<Rightarrow>
    (string \<Rightarrow> source_db) \<Rightarrow> (string \<Rightarrow> string) \<Rightarrow> string \<Rightarrow> source_record \<Rightarrow> (xstate, source_report option) sx" where
  "run_one fuel cast hash env ct tables es dbs run_ids mode s =
     (let sid = s_source_id s in
      scatch
        (sbind (on_conn rollback) (\<lambda>_.
         obind (run_source fuel cast hash env \<lparr>xe_source = s, xe_settings = es, xe_contract = ct, xe_tables = tables\<rparr>
                  (dbs sid) (run_ids sid) mode) (\<lambda>so. sret (Some (RunDone so)))))
        (\<lambda>e. sret (Some (RunFailed sid mode (exn_message e)))))"

definition run_sources :: "nat \<Rightarrow> sql_cast \<Rightarrow> row_hash \<Rightarrow> (string \<Rightarrow> int) \<Rightarrow> string \<Rightarrow> os_env \<Rightarrow> contract \<Rightarrow> (string \<times> bool) \<Rightarrow>
    (string \<Rightarrow> source_db) \<Rightarrow> (string \<Rightarrow> string) \<Rightarrow> string \<Rightarrow> string list \<Rightarrow> (int \<times> int) option \<Rightarrow> string list option \<Rightarrow>
    extract_settings option \<Rightarrow> (xstate, source_report list option) sx" where
  "run_sources fuel cast hash hashtext hostname env ct control dbs run_ids mode source_ids shard tables settings =
     sbind (slift (case settings of None \<Rightarrow> extract_settings_from_env hostname env | Some es \<Rightarrow> Inr es)) (\<lambda>es.
     sbind (slift (warehouse_config env)) (\<lambda>_.
     sbind (slift (bootstrap_from_env env)) (\<lambda>boot.
     sbind (case boot of
         None \<Rightarrow> sret ()
       | Some b \<Rightarrow> swhen (boot_wanted source_ids shard b)
           (sbind (on_conn (with_login (fst control) (snd control) (ensure_env_source env ct es b))) (\<lambda>_. sret ()))) (\<lambda>_.
     sbind (on_conn (chosen_sources hashtext source_ids shard)) (\<lambda>sources.
     obind (ofor sources (run_one fuel cast hash env ct tables es dbs run_ids mode)) (\<lambda>reports.
     sret (Some (sort_key report_source reports))))))))"

end
