(* ===== verification/Table_Extract.thy ===== *)
theory Table_Extract
  imports Extractor
begin

text \<open>
  What the extractor achieves.  The source may change while it is read: the statements are about the rows
  that are there, unchanged, at every query of the run.

  Shown: a page is copied as a whole and nothing else is touched; the committed watermark is never ahead
  of the copy, whatever interrupts the run; a run that ends has copied every row that stayed; over a source
  that does not change the loop ends, provided the page size is positive, and with page size zero it never
  does; only rows missing at the source are soft-deleted; a writer that lost the table changes nothing.
\<close>

section \<open>Writing a page\<close>

lemma key_group_single:
  assumes "distinct (map stage_key stage)" and "s \<in> set stage"
  shows "key_group stage (stage_key s) = [s]"
proof -
  have "filter (\<lambda>x. stage_key x = stage_key s) stage = [s]"
    using assms
  proof (induction stage)
    case (Cons x xs)
    have none: "filter (\<lambda>y. stage_key y = stage_key x) xs = []"
      using Cons.prems(1) by (auto simp: filter_empty_conv image_iff)
    show ?case
    proof (cases "s = x")
      case True
      with none show ?thesis by simp
    next
      case False
      with Cons.prems have "stage_key x \<noteq> stage_key s" "s \<in> set xs" by (auto simp: image_iff)
      with Cons show ?thesis by simp
    qed
  qed simp
  then show ?thesis by (simp add: key_group_def newest_first_def)
qed

text \<open>A batch with one row per key: every row is stored as staged, up to the columns it does not carry.\<close>

lemma distinct_batch_readback:
  assumes "apply_staged_batch c table ''PYTHON'' stage = Inr (rep, d')" and "table_row (k_working c) table = Some cr"
    and "distinct (map stage_key stage)" and "list_all (\<lambda>s. st_target s = target) stage"
    and "s \<in> set stage" and "st_op s \<noteq> CHR ''d''"
  obtains row where "map_of (raw_of target d') (raw_key_of (cr_table cr) s) = Some row" "\<not> x_deleted row"
    "\<And>n. n \<in> set (column_names (cr_table cr)) \<Longrightarrow> n \<notin> set (st_unavailable s) \<Longrightarrow> col_val (x_cols row) n = col_val (st_cols s) n"
  using assms(1)
proof (rule apply_staged_batch_Inr)
  fix cr' eng
  assume e: "''PYTHON'' = engine_value eng" and cr': "table_row (k_working c) table = Some cr'"
    and ok: "list_all (writer_ok (k_working c) table eng) stage"
    and raw: "\<And>target k. target \<in> {''prod'', ''shadow''} \<Longrightarrow> map_of (raw_of target d') k =
       merged_value (cr_table cr') eng (now c) (raw_of target (k_working c))
         (dedup (cr_table cr') (list_ex (\<lambda>s. st_unavailable s \<noteq> []) stage)
            (filter (\<lambda>s. st_target s = target) stage)) k"
  let ?c = "cr_table cr" and ?u = "list_ex (\<lambda>s. st_unavailable s \<noteq> []) stage"
  define w where "w = (if ?u then merge_group ?c [s] else s)"
  from e have eng: "eng = PYTHON" by (cases eng) simp_all
  from cr' assms(2) have cr: "cr' = cr" by simp
  have all: "filter (\<lambda>s. st_target s = target) stage = stage"
    using assms(4) by (simp add: list_all_iff filter_id_conv)
  have tgt: "target \<in> {''prod'', ''shadow''}"
    using ok assms(4,5) by (auto simp: list_all_iff writer_ok_def Let_def split: option.splits)
  have find: "find (\<lambda>x. raw_key_of ?c x = raw_key_of ?c s) (dedup ?c ?u stage) = Some w"
    using dedup_find_Some[OF assms(5), of ?c ?u] key_group_single[OF assms(3,5)] by (simp add: w_def)
  let ?row = "merged_row ?c PYTHON (now c) w (map_of (raw_of target (k_working c)) (raw_key_of ?c s))"
  have stored: "map_of (raw_of target d') (raw_key_of ?c s) = Some ?row"
    using raw[OF tgt, of "raw_key_of ?c s"] find by (simp add: merged_value_def eng cr all merge_guard_def option.case_eq_if)
  have op: "st_op w = st_op s" by (simp add: w_def merge_group_def)
  have col: "col_val (x_cols ?row) n = col_val (st_cols s) n"
    if n: "n \<in> set (column_names ?c)" "n \<notin> set (st_unavailable s)" for n
  proof -
    have "n \<notin> set (st_unavailable w)" and "col_val (st_cols w) n = col_val (st_cols s) n"
      using n(2) by (simp_all add: w_def merge_group_def newest_available_def col_val_map[OF n(1)])
    then show ?thesis
      using n(1) assms(6) op unfolding merged_row_def merged_cols_def raw_row.select_convs
      by (subst col_val_map) (auto split: option.splits)
  qed
  show thesis
    by (rule that[OF stored]) (use op assms(6) col in \<open>simp_all add: merged_row_def\<close>)
qed

lemma batch_frame:
  assumes "apply_staged_batch c table engine stage = Inr (rep, d')" and "target \<in> {''prod'', ''shadow''}"
    and "\<And>s. s \<in> set stage \<Longrightarrow> (st_target s, st_source s, st_tenant s, st_pk s) \<noteq> (target, snd k)"
  shows "map_of (raw_of target d') k = map_of (raw_of target (k_working c)) k"
  using assms(1)
proof (rule apply_staged_batch_Inr)
  fix cr eng
  assume raw: "\<And>target k. target \<in> {''prod'', ''shadow''} \<Longrightarrow> map_of (raw_of target d') k =
       merged_value (cr_table cr) eng (now c) (raw_of target (k_working c))
         (dedup (cr_table cr) (list_ex (\<lambda>s. st_unavailable s \<noteq> []) stage)
            (filter (\<lambda>s. st_target s = target) stage)) k"
  have "find (\<lambda>s. raw_key_of (cr_table cr) s = k) (dedup (cr_table cr) u (filter (\<lambda>s. st_target s = target) stage)) = None" for u
    by (rule dedup_find_None) (use assms(3) in \<open>force simp: raw_key_of_def\<close>)
  then show ?thesis by (simp only: raw[OF assms(2)] merged_value_def option.case)
qed

definition staged_rows :: "extractor \<Rightarrow> source_db \<Rightarrow> assignment \<Rightarrow> (string \<times> val) list list \<Rightarrow> string option \<Rightarrow> char \<Rightarrow> xstate \<Rightarrow>
    ((string \<times> int \<times> int) list \<times> db) result" where
  "staged_rows xe db a rows cursor op y =
     rbind (rmap (stage_row xe a (sd_clock db (xw_queries (y_world y))) cursor op) rows) (\<lambda>stage.
       apply_staged_batch (y_conn y) (tc_table_name (as_table a)) ''PYTHON'' stage)"

lemma write_page_ok:
  assumes "staged_rows xe db a rows cursor op y = Inr (rep, d')"
  shows "write_page xe db a rows cursor op y =
    (Inr (sum_list (map (\<lambda>r. fst (snd r)) rep), sum_list (map (\<lambda>r. snd (snd r)) rep)), y\<lparr>y_conn := (y_conn y)\<lparr>k_working := d'\<rparr>\<rparr>)"
  using assms by (simp add: staged_rows_def write_page_def sbind_def scatch_def sx_simps)

lemma write_page_fails:
  assumes "staged_rows xe db a rows cursor op y = Inl e"
  shows "\<exists>e' y'. write_page xe db a rows cursor op y = (Inl e', y') \<and>
    (y' = y \<or> y' = y\<lparr>y_conn := (y_conn y)\<lparr>k_working := k_committed (y_conn y), k_txn := k_txn (y_conn y) + 1\<rparr>\<rparr>) \<and>
    (\<forall>msg. e = DatabaseError ''FBI01'' msg \<longrightarrow> e' = FencedError msg)"
  using assms
  by (cases e) (simp_all add: staged_rows_def write_page_def sbind_def scatch_def sx_simps)

lemma write_page_Inr:
  assumes "write_page xe db a rows cursor op y = (Inr res, y')"
  obtains stage rep d' where
    "rmap (stage_row xe a (sd_clock db (xw_queries (y_world y))) cursor op) rows = Inr stage"
    "apply_staged_batch (y_conn y) (tc_table_name (as_table a)) ''PYTHON'' stage = Inr (rep, d')"
    "y' = y\<lparr>y_conn := (y_conn y)\<lparr>k_working := d'\<rparr>\<rparr>"
proof (cases "staged_rows xe db a rows cursor op y")
  case (Inl e)
  with write_page_fails[OF Inl] assms show thesis by auto
next
  case (Inr rd)
  obtain rep d' where rd: "rd = (rep, d')" by (cases rd)
  from Inr rd obtain stage where "rmap (stage_row xe a (sd_clock db (xw_queries (y_world y))) cursor op) rows = Inr stage"
    and "apply_staged_batch (y_conn y) (tc_table_name (as_table a)) ''PYTHON'' stage = Inr (rep, d')"
    by (auto simp: staged_rows_def rbind_Inr_iff)
  with write_page_ok[of xe db a rows cursor op y rep d'] Inr rd assms show thesis by (intro that) auto
qed

lemma write_page_Inl:
  assumes "write_page xe db a rows cursor op y = (Inl e, y')"
  shows "k_committed (y_conn y') = k_committed (y_conn y)"
proof (cases "staged_rows xe db a rows cursor op y")
  case (Inl e)
  with write_page_fails[OF Inl] assms show ?thesis by auto
next
  case (Inr rd)
  obtain rep d' where "rd = (rep, d')" by (cases rd)
  with write_page_ok[of xe db a rows cursor op y rep d'] Inr assms show ?thesis by auto
qed

text \<open>What is assumed of a table: the contract of the warehouse, its key among the columns and selected, its columns distinct.\<close>

definition table_ok :: "table_contract \<Rightarrow> bool \<Rightarrow> bool" where
  "table_ok t exclude \<longleftrightarrow> distinct (column_names t) \<and>
     (\<exists>c \<in> set (tc_columns t). c_name c = tc_primary_key t \<and> \<not> withheld_column exclude c) \<and>
     (\<forall>cur. table_cursor t = Inr (Some cur) \<longrightarrow> (\<exists>c \<in> set (tc_columns t). c_name c = cur \<and> \<not> withheld_column exclude c))"

definition keyed_row :: "table_contract \<Rightarrow> src_row \<Rightarrow> bool" where
  "keyed_row t r \<longleftrightarrow> col_val (snd r) (tc_primary_key t) = VInt (fst r)"

definition copied :: "extractor \<Rightarrow> assignment \<Rightarrow> db \<Rightarrow> src_row \<Rightarrow> bool" where
  "copied xe a d r \<longleftrightarrow> (\<exists>row. map_of (raw_of (as_target a) d)
       (tc_raw_table (as_table a), s_source_id (xe_source xe), s_tenant_id (xe_source xe), fst r) = Some row \<and> \<not> x_deleted row \<and>
     (\<forall>c \<in> set (tc_columns (as_table a)). \<not> withheld_column (es_exclude_pii (xe_settings xe)) c \<longrightarrow>
        col_val (x_cols row) (c_name c) = col_val (snd r) (c_name c)))"

lemma select_row_col:
  assumes "distinct (column_names t)" and "c \<in> set (tc_columns t)" and "\<not> withheld_column ex c"
  shows "col_val (select_row t ex r) (c_name c) = col_val (snd r) (c_name c)"
proof -
  have "map fst (select_row t ex r) = column_names t" by (simp add: select_row_def column_names_def o_def)
  with assms(1) have "distinct (map fst (select_row t ex r))" by simp
  moreover have "(c_name c, col_val (snd r) (c_name c)) \<in> set (select_row t ex r)"
    using assms(2,3) by (auto simp: select_row_def image_iff intro!: bexI[of _ c])
  ultimately have "map_of (select_row t ex r) (c_name c) = Some (col_val (snd r) (c_name c))" by simp
  then show ?thesis by (simp add: col_val_def)
qed

lemma key_of_select:
  assumes "table_ok t ex" and "keyed_row t r"
  shows "key_of t (select_row t ex r) = Some (fst r)"
proof -
  from assms(1) obtain c where "distinct (column_names t)" "c \<in> set (tc_columns t)" "\<not> withheld_column ex c" "c_name c = tc_primary_key t"
    by (auto simp: table_ok_def)
  with select_row_col[of t c ex r] assms(2) show ?thesis by (simp add: key_of_def keyed_row_def)
qed

text \<open>A staged row and the source row it was made from.\<close>

definition staged_from :: "extractor \<Rightarrow> assignment \<Rightarrow> char \<Rightarrow> staged \<Rightarrow> src_row \<Rightarrow> bool" where
  "staged_from xe a op s r \<longleftrightarrow> st_cols s = select_row (as_table a) (es_exclude_pii (xe_settings xe)) r \<and> st_op s = op \<and>
     st_target s = as_target a \<and> st_epoch s = as_epoch a \<and> st_source s = s_source_id (xe_source xe) \<and>
     st_tenant s = s_tenant_id (xe_source xe) \<and> st_pk s = fst r \<and>
     set (st_unavailable s) \<subseteq> {c_name c |c. c \<in> set (tc_columns (as_table a)) \<and> withheld_column (es_exclude_pii (xe_settings xe)) c}"

lemma stage_page:
  assumes "rmap (stage_row xe a pynow cursor op) (map (select_row (as_table a) (es_exclude_pii (xe_settings xe))) page) = Inr stage"
    and "table_ok (as_table a) (es_exclude_pii (xe_settings xe))" and "list_all (keyed_row (as_table a)) page"
  shows "list_all2 (staged_from xe a op) stage page"
  using assms(1,3)
proof (induction page arbitrary: stage)
  case (Cons r page)
  then show ?case
    by (auto simp: rbind_Inr_iff stage_row_def key_of_select[OF assms(2)] withheld_column_def staged_from_def)
qed simp

lemma staged_from_keys:
  "list_all2 (staged_from xe a op) stage page \<Longrightarrow>
   map stage_key stage = map (\<lambda>r. (s_source_id (xe_source xe), s_tenant_id (xe_source xe), fst r)) page"
  by (induction stage page rule: list_all2_induct) (auto simp: staged_from_def stage_key_def)

lemma staged_from_target: "list_all2 (staged_from xe a op) stage page \<Longrightarrow> list_all (\<lambda>s. st_target s = as_target a) stage"
  by (induction stage page rule: list_all2_induct) (auto simp: staged_from_def)

lemma staged_from_ex: "list_all2 (staged_from xe a op) stage page \<Longrightarrow> r \<in> set page \<Longrightarrow> \<exists>s \<in> set stage. staged_from xe a op s r"
  by (induction stage page rule: list_all2_induct) auto

lemma stored_row_copied:
  assumes "staged_from xe a op s r" and "table_ok (as_table a) (es_exclude_pii (xe_settings xe))"
    and "map_of (raw_of (as_target a) d') (raw_key_of (as_table a) s) = Some row" and "\<not> x_deleted row"
    and cols: "\<And>n. n \<in> set (column_names (as_table a)) \<Longrightarrow> n \<notin> set (st_unavailable s) \<Longrightarrow> col_val (x_cols row) n = col_val (st_cols s) n"
  shows "copied xe a d' r"
proof -
  let ?t = "as_table a" and ?ex = "es_exclude_pii (xe_settings xe)"
  have dist: "distinct (column_names ?t)" using assms(2) by (simp add: table_ok_def)
  have "col_val (x_cols row) (c_name c) = col_val (snd r) (c_name c)"
    if c: "c \<in> set (tc_columns ?t)" "\<not> withheld_column ?ex c" for c
  proof -
    have "c_name c \<notin> set (st_unavailable s)"
    proof
      assume "c_name c \<in> set (st_unavailable s)"
      with assms(1) obtain c' where "c' \<in> set (tc_columns ?t)" "c_name c' = c_name c" "withheld_column ?ex c'"
        by (auto simp: staged_from_def)
      with dist c show False unfolding column_names_def by (metis distinct_map inj_onD)
    qed
    moreover have "c_name c \<in> set (column_names ?t)" using c(1) by (simp add: column_names_def)
    ultimately have "col_val (x_cols row) (c_name c) = col_val (st_cols s) (c_name c)" using cols by blast
    also have "\<dots> = col_val (snd r) (c_name c)"
      using assms(1) select_row_col[OF dist c] by (simp add: staged_from_def)
    finally show ?thesis .
  qed
  with assms(1,3,4) show ?thesis by (auto simp: copied_def raw_key_of_def staged_from_def)
qed

lemma other_row_kept:
  assumes "apply_staged_batch c (tc_table_name (as_table a)) ''PYTHON'' stage = Inr (rep, d')"
    and "list_all2 (staged_from xe a op) stage page" and "as_target a \<in> {''prod'', ''shadow''}"
    and "fst r \<notin> fst ` set page" and "copied xe a (k_working c) r"
  shows "copied xe a d' r"
proof -
  let ?k = "(tc_raw_table (as_table a), s_source_id (xe_source xe), s_tenant_id (xe_source xe), fst r)"
  have "map_of (raw_of (as_target a) d') ?k = map_of (raw_of (as_target a) (k_working c)) ?k"
  proof (rule batch_frame[OF assms(1,3)])
    fix s
    assume "s \<in> set stage"
    then have "stage_key s \<in> set (map stage_key stage)" by simp
    then have "stage_key s \<in> (\<lambda>r. (s_source_id (xe_source xe), s_tenant_id (xe_source xe), fst r)) ` set page"
      unfolding staged_from_keys[OF assms(2)] by simp
    with assms(4) show "(st_target s, st_source s, st_tenant s, st_pk s) \<noteq> (as_target a, snd ?k)"
      by (force simp: stage_key_def)
  qed
  with assms(5) show ?thesis by (simp add: copied_def)
qed

lemma page_written:
  assumes "write_page xe db a (map (select_row (as_table a) (es_exclude_pii (xe_settings xe))) page) cursor CHR ''u'' y = (Inr res, y')"
    and "table_ok (as_table a) (es_exclude_pii (xe_settings xe))" and "list_all (keyed_row (as_table a)) page"
    and "distinct (map fst page)"
    and "table_row (k_working (y_conn y)) (tc_table_name (as_table a)) = Some cr" and "cr_table cr = as_table a"
    and "as_target a \<in> {''prod'', ''shadow''}"
  obtains d' where "y' = y\<lparr>y_conn := (y_conn y)\<lparr>k_working := d'\<rparr>\<rparr>"
    "d' = (k_working (y_conn y))\<lparr>d_raw := d_raw d', d_shadow := d_shadow d', d_changes := d_changes d'\<rparr>"
    "\<And>r. r \<in> set page \<Longrightarrow> copied xe a d' r"
    "\<And>r. fst r \<notin> fst ` set page \<Longrightarrow> copied xe a (k_working (y_conn y)) r \<Longrightarrow> copied xe a d' r"
proof -
  from assms(1) obtain stage rep d' where
    st: "rmap (stage_row xe a (sd_clock db (xw_queries (y_world y))) cursor CHR ''u'')
      (map (select_row (as_table a) (es_exclude_pii (xe_settings xe))) page) = Inr stage"
    and ap: "apply_staged_batch (y_conn y) (tc_table_name (as_table a)) ''PYTHON'' stage = Inr (rep, d')"
    and y': "y' = y\<lparr>y_conn := (y_conn y)\<lparr>k_working := d'\<rparr>\<rparr>"
    by (rule write_page_Inr)
  note from_page = stage_page[OF st assms(2,3)]
  have dist: "distinct (map stage_key stage)"
    unfolding staged_from_keys[OF from_page] using assms(4) by (auto simp: distinct_map inj_on_def)
  have new: "copied xe a d' r" if "r \<in> set page" for r
  proof -
    from staged_from_ex[OF from_page that] obtain s where s: "s \<in> set stage" "staged_from xe a CHR ''u'' s r" by blast
    from s(2) have "st_op s \<noteq> CHR ''d''" by (simp add: staged_from_def)
    with ap assms(5) dist staged_from_target[OF from_page] s(1) obtain row where
      row: "map_of (raw_of (as_target a) d') (raw_key_of (cr_table cr) s) = Some row" "\<not> x_deleted row"
      "\<And>n. n \<in> set (column_names (cr_table cr)) \<Longrightarrow> n \<notin> set (st_unavailable s) \<Longrightarrow> col_val (x_cols row) n = col_val (st_cols s) n"
      by (rule distinct_batch_readback) blast
    show ?thesis by (rule stored_row_copied[OF s(2) assms(2) row[unfolded assms(6)]])
  qed
  show thesis
    by (rule that[OF y' apply_staged_batch_rest[OF ap] new other_row_kept[OF ap from_page assms(7)]])
qed

section \<open>Reading order\<close>

text \<open>The place a watermark stands for.\<close>

definition start_pos :: "string option \<Rightarrow> watermark_row option \<Rightarrow> int \<times> int \<times> int" where
  "start_pos cur start = (case cur of
      None \<Rightarrow> (0, 0, start_pk start)
    | Some _ \<Rightarrow> (case start of
        None \<Rightarrow> (0, 0, start_pk start)
      | Some w \<Rightarrow> (case wm_cursor w of None \<Rightarrow> (0, 0, start_pk start) | Some c \<Rightarrow> (1, c, start_pk start))))"

lemma page_after_pos:
  assumes "table_cursor t = Inr cur" and "page_after t start = Inr pg"
  shows "page_cursor pg = cur \<and> page_pos pg = start_pos cur start"
proof -
  from assms(1) obtain u where u: "cursor_is_usable t = Inr u" and cur: "cur = (if u then tc_python_cursor t else None)"
    by (auto simp: table_cursor_def rbind_Inr_iff)
  have "tc_python_cursor t \<noteq> None" if u using u that by (auto simp: cursor_is_usable_def split: option.splits)
  with assms(2) u cur show ?thesis
    by (auto simp: page_after_def in_null_cursor_phase_def start_pos_def start_pk_def rbind_Inr_iff split: option.splits if_splits)
qed

text \<open>Rows with a key above the smallest one and, if they have a cursor value, with one not before 1970.\<close>

definition readable :: "string option \<Rightarrow> src_row \<Rightarrow> bool" where
  "readable cur r \<longleftrightarrow> fst (row_pos cur r) = 0 \<and> (0, 0, min_pk) < row_pos cur r \<or> (1, 0, min_pk) < row_pos cur r"

definition stays :: "source_db \<Rightarrow> table_contract \<Rightarrow> src_row \<Rightarrow> bool" where
  "stays db t r \<longleftrightarrow> (\<forall>n st. sd_table db (tc_table_name t) n = Inr st \<longrightarrow> r \<in> set (src_rows st))"

definition sound_source :: "source_db \<Rightarrow> table_contract \<Rightarrow> string option \<Rightarrow> bool" where
  "sound_source db t cur \<longleftrightarrow> (\<forall>n st. sd_table db (tc_table_name t) n = Inr st \<longrightarrow>
     distinct (map fst (src_rows st)) \<and> list_all (keyed_row t) (src_rows st) \<and> list_all (typed_row cur) (src_rows st))"

text \<open>What a run assumes: the table as in the contract of the warehouse, a sound source, one of the two copies.\<close>

definition run_ok :: "extractor \<Rightarrow> source_db \<Rightarrow> assignment \<Rightarrow> string option \<Rightarrow> bool" where
  "run_ok xe db a cur \<longleftrightarrow> table_ok (as_table a) (es_exclude_pii (xe_settings xe)) \<and> sound_source db (as_table a) cur \<and>
     table_cursor (as_table a) = Inr cur \<and> as_target a \<in> {''prod'', ''shadow''}"

definition contract_ok :: "assignment \<Rightarrow> db \<Rightarrow> bool" where
  "contract_ok a d \<longleftrightarrow> (\<exists>cr. table_row d (tc_table_name (as_table a)) = Some cr \<and> cr_table cr = as_table a)"

definition covered :: "extractor \<Rightarrow> source_db \<Rightarrow> assignment \<Rightarrow> string option \<Rightarrow> int \<times> int \<times> int \<Rightarrow> db \<Rightarrow> bool" where
  "covered xe db a cur p d \<longleftrightarrow> (\<forall>r. stays db (as_table a) r \<and> readable cur r \<and> row_pos cur r \<le> p \<longrightarrow> copied xe a d r)"

definition all_copied :: "extractor \<Rightarrow> source_db \<Rightarrow> assignment \<Rightarrow> string option \<Rightarrow> db \<Rightarrow> bool" where
  "all_copied xe db a cur d \<longleftrightarrow> (\<forall>r. stays db (as_table a) r \<and> readable cur r \<longrightarrow> copied xe a d r)"

text \<open>A stored watermark is honest when every row up to its place is in the copy.\<close>

definition honest :: "extractor \<Rightarrow> source_db \<Rightarrow> assignment \<Rightarrow> string option \<Rightarrow> db \<Rightarrow> bool" where
  "honest xe db a cur d \<longleftrightarrow> (\<forall>w. map_of (d_watermarks d) (s_source_id (xe_source xe), tc_table_name (as_table a), as_target a) = Some w \<longrightarrow>
     covered xe db a cur (start_pos cur (Some w)) d)"

lemma copied_rest [simp]:
  "copied xe a (d\<lparr>d_watermarks := x\<rparr>) r = copied xe a d r"
  by (simp add: copied_def raw_of_def)

lemma table_row_rest [simp]:
  "table_row (d\<lparr>d_watermarks := x\<rparr>) n = table_row d n"
  "table_row (d\<lparr>d_raw := p, d_shadow := q, d_changes := z\<rparr>) n = table_row d n"
  by (simp_all add: table_row_def)

lemma page_has_row:
  assumes "run_ok xe db a cur" and "sd_table db (tc_table_name (as_table a)) n = Inr st" and "stays db (as_table a) r"
    and "page_cursor pg = cur" and "fst (row_pos cur r) = fst (page_pos pg)" and "page_pos pg < row_pos cur r"
    and "length (page_rows pg m (src_rows st)) < m \<or>
      page_rows pg m (src_rows st) \<noteq> [] \<and> row_pos cur r \<le> row_pos cur (last (page_rows pg m (src_rows st)))"
  shows "r \<in> set (page_rows pg m (src_rows st))"
proof -
  have sound: "distinct (map fst (src_rows st))" "list_all (typed_row cur) (src_rows st)"
    using assms(1,2) by (auto simp: run_ok_def sound_source_def)
  have lim: "page_rows pg m (src_rows st) =
      limited (row_pos cur) (\<lambda>r. fst (row_pos cur r) = fst (page_pos pg)) (page_pos pg) m (src_rows st)"
    using page_rows_limited[of pg "src_rows st" m] sound(2) assms(4) by simp
  have r: "r \<in> set (src_rows st)" using assms(2,3) by (auto simp: stays_def)
  have inj: "inj_on (row_pos cur) {x \<in> set (src_rows st). fst (row_pos cur x) = fst (page_pos pg)}"
    by (rule inj_on_subset[OF row_pos_inj[OF sound(1)]]) auto
  note short = limited.short_page_has_all[where pos = "row_pos cur" and segment = "\<lambda>r. fst (row_pos cur r) = fst (page_pos pg)", OF r assms(5,6)]
  note full = limited.page_has_all_before[where pos = "row_pos cur" and segment = "\<lambda>r. fst (row_pos cur r) = fst (page_pos pg)", OF r assms(5,6) _ _ inj]
  from assms(7) show ?thesis
    unfolding lim by (elim disjE conjE) (rule short, assumption, rule full, assumption+)
qed

lemma page_row_facts:
  assumes "run_ok xe db a cur" and "sd_table db (tc_table_name (as_table a)) n = Inr st" and "page_cursor pg = cur"
    and "x \<in> set (page_rows pg m (src_rows st))"
  shows "x \<in> set (src_rows st) \<and> keyed_row (as_table a) x \<and> fst (row_pos cur x) = fst (page_pos pg) \<and> page_pos pg < row_pos cur x"
proof -
  have sound: "list_all (keyed_row (as_table a)) (src_rows st)" "list_all (typed_row cur) (src_rows st)"
    using assms(1,2) by (auto simp: run_ok_def sound_source_def)
  from assms(4) have "x \<in> set (limited (row_pos cur) (\<lambda>r. fst (row_pos cur r) = fst (page_pos pg)) (page_pos pg) m (src_rows st))"
    using page_rows_limited[of pg "src_rows st" m] sound(2) assms(3) by simp
  from limited.fetch_sound[OF this] sound(1) show ?thesis by (auto simp: list_all_iff)
qed

section \<open>One turn of the loop\<close>

lemma fetch_page_conn: "fetch_page xe db t start y = (r, y') \<Longrightarrow> y_conn y' = y_conn y"
  by (auto simp: fetch_page_def source_query_def sbind_def sx_simps split: sum.splits)

lemma fetch_page_Inr:
  assumes "fetch_page xe db t start y = (Inr rows, y')"
  obtains pg st where "page_after t start = Inr pg" "sd_table db (tc_table_name t) (xw_queries (y_world y)) = Inr st"
    "rows = map (select_row t (es_exclude_pii (xe_settings xe))) (page_rows pg (nat (es_page_size (xe_settings xe))) (src_rows st))"
    "0 \<le> es_page_size (xe_settings xe)"
  using assms
  by (auto simp: fetch_page_def source_query_def sbind_def sx_simps rbind_Inr_iff split: sum.splits)

lemma next_pos:
  assumes "run_ok xe db a cur" and "keyed_row (as_table a) r" and "np \<longleftrightarrow> cur \<noteq> None \<and> fst (row_pos cur r) = 0"
  shows "start_pos cur (Some (next_watermark (as_table a) cur np (select_row (as_table a) (es_exclude_pii (xe_settings xe)) r))) = row_pos cur r"
proof -
  let ?ex = "es_exclude_pii (xe_settings xe)" and ?t = "as_table a"
  have ok: "table_ok ?t ?ex" and cur: "table_cursor ?t = Inr cur" using assms(1) by (simp_all add: run_ok_def)
  have pk: "start_pk (Some (next_watermark ?t cur np (select_row ?t ?ex r))) = fst r"
    by (simp add: start_pk_def next_watermark_def key_of_select[OF ok assms(2)] get_or_def)
  show ?thesis
  proof (cases cur)
    case None
    with pk show ?thesis by (simp add: start_pos_def row_pos_def)
  next
    case (Some n)
    with ok cur obtain c where c: "c \<in> set (tc_columns ?t)" "c_name c = n" "\<not> withheld_column ?ex c" and "distinct (column_names ?t)"
      by (auto simp: table_ok_def)
    with select_row_col[of ?t c ?ex r] have "col_val (select_row ?t ?ex r) n = cursor_val n r" by (simp add: cursor_val_def)
    with pk Some assms(3) show ?thesis
      by (auto simp: start_pos_def row_pos_def next_watermark_def split: option.splits)
  qed
qed

text \<open>A page is written in one transaction with its watermark.\<close>

definition finish_page :: "extractor \<Rightarrow> assignment \<Rightarrow> string option \<Rightarrow> bool \<Rightarrow> (string \<times> val) list list \<Rightarrow> int \<times> int \<Rightarrow>
    (xstate, watermark_row option) sx" where
  "finish_page xe a cur np rows res =
     (let next = next_watermark (as_table a) cur np (last rows) in
      sbind (if cur = None then sret () else save_watermark xe a next) (\<lambda>_.
      sbind (on_conn commit) (\<lambda>_.
      sbind (update_out (\<lambda>out. out\<lparr>to_rows_read := to_rows_read out + int (length rows),
          to_rows_applied := to_rows_applied out + fst res\<rparr>)) (\<lambda>_.
      sret (Some next)))))"

lemma watermark_eta [simp]: "\<lparr>wm_cursor = wm_cursor w, wm_last_pk = wm_last_pk w\<rparr> = w"
  by (cases w) simp

lemma save_watermark_run [sx_simps]:
  "save_watermark xe a w y =
     (if as_target a \<in> {''prod'', ''shadow''}
      then (Inr (), y\<lparr>y_conn := (y_conn y)\<lparr>k_working := (k_working (y_conn y))\<lparr>d_watermarks :=
        AList.update (s_source_id (xe_source xe), tc_table_name (as_table a), as_target a) w (d_watermarks (k_working (y_conn y)))\<rparr>\<rparr>\<rparr>)
      else (Inl (DatabaseError ''23514'' ''violates check constraint''), y))"
  by (simp add: save_watermark_def wm_update_def guard_def sx_simps)

lemma copy_page_split:
  assumes "rows \<noteq> []"
  shows "copy_page xe db a cur np rows start = sbind (write_page xe db a rows cur CHR ''u'') (finish_page xe a cur np rows)"
proof -
  let ?next = "next_watermark (as_table a) cur np (last rows)"
  have "finish_page xe a cur np rows = (\<lambda>(applied, _).
      sbind (if cur = None then sret () else save_watermark xe a ?next) (\<lambda>_.
      sbind (on_conn commit) (\<lambda>_.
      sbind (update_out (\<lambda>out. out\<lparr>to_rows_read := to_rows_read out + int (length rows),
          to_rows_applied := to_rows_applied out + applied\<rparr>)) (\<lambda>_. sret (Some ?next)))))"
    by (simp add: fun_eq_iff finish_page_def Let_def)
  with assms show ?thesis by (simp add: copy_page_def Let_def)
qed

lemma copy_page_Inl:
  assumes "copy_page xe db a cur np rows start y = (Inl e, y')"
  shows "k_committed (y_conn y') = k_committed (y_conn y)"
proof -
  have ne: "rows \<noteq> []" using assms by (auto simp: copy_page_def sx_simps)
  from assms[unfolded copy_page_split[OF ne]] show ?thesis
  proof (cases rule: sbind_InlE)
    case first
    then show ?thesis by (rule write_page_Inl)
  next
    case (second res y1)
    from second(1) have "k_committed (y_conn y1) = k_committed (y_conn y)" by (rule write_page_Inr) simp
    moreover from second(2) have "k_committed (y_conn y') = k_committed (y_conn y1)"
      by (auto simp: finish_page_def Let_def sbind_def sx_simps update_out_def split: if_splits)
    ultimately show ?thesis by simp
  qed
qed

lemma copy_page_Inr:
  assumes "copy_page xe db a cur np rows start y = (Inr start', y')" and "rows \<noteq> []"
  obtains res y1 where "write_page xe db a rows cur CHR ''u'' y = (Inr res, y1)"
    "start' = Some (next_watermark (as_table a) cur np (last rows))"
    "k_working (y_conn y') = k_committed (y_conn y')"
    "k_committed (y_conn y') = (if cur = None then k_working (y_conn y1)
       else (k_working (y_conn y1))\<lparr>d_watermarks := AList.update (s_source_id (xe_source xe), tc_table_name (as_table a), as_target a)
         (next_watermark (as_table a) cur np (last rows)) (d_watermarks (k_working (y_conn y1)))\<rparr>)"
proof -
  from assms(1)[unfolded copy_page_split[OF assms(2)]] obtain res y1
    where w: "write_page xe db a rows cur CHR ''u'' y = (Inr res, y1)" and rest: "finish_page xe a cur np rows res y1 = (Inr start', y')"
    by (rule sbind_InrE)
  show thesis
    by (rule that[OF w])
      (use rest in \<open>auto simp: finish_page_def Let_def sbind_def sx_simps update_out_def split: if_splits\<close>)
qed

lemma stays_page_row:
  assumes "run_ok xe db a cur" and "sd_table db (tc_table_name (as_table a)) n = Inr st" and "stays db (as_table a) r"
    and "set page \<subseteq> set (src_rows st)" and "fst r \<in> fst ` set page"
  shows "r \<in> set page"
proof -
  have "distinct (map fst (src_rows st))" using assms(1,2) by (auto simp: run_ok_def sound_source_def)
  moreover have "r \<in> set (src_rows st)" using assms(2,3) by (auto simp: stays_def)
  ultimately show ?thesis using assms(4,5) by (auto simp: distinct_map inj_on_def)
qed

text \<open>After a page every row up to its last one is copied, and every row of its phase if the page is not full.\<close>

lemma page_turn:
  assumes run: "run_ok xe db a cur" and st: "sd_table db (tc_table_name (as_table a)) n = Inr st"
    and page: "page = page_rows pg m (src_rows st)" "page_cursor pg = cur"
    and "write_page xe db a (map (select_row (as_table a) (es_exclude_pii (xe_settings xe))) page) cur CHR ''u'' y = (Inr res, y1)"
    and "contract_ok a (k_working (y_conn y))" and cov: "covered xe db a cur (page_pos pg) (k_working (y_conn y))" and "page \<noteq> []"
  obtains "contract_ok a (k_working (y_conn y1))" "d_watermarks (k_working (y_conn y1)) = d_watermarks (k_working (y_conn y))"
    "covered xe db a cur (row_pos cur (last page)) (k_working (y_conn y1))"
    "\<And>r. stays db (as_table a) r \<Longrightarrow> copied xe a (k_working (y_conn y)) r \<Longrightarrow> copied xe a (k_working (y_conn y1)) r"
    "\<And>r. r \<in> set page \<Longrightarrow> copied xe a (k_working (y_conn y1)) r"
proof -
  have facts: "x \<in> set (src_rows st) \<and> keyed_row (as_table a) x \<and> fst (row_pos cur x) = fst (page_pos pg) \<and> page_pos pg < row_pos cur x"
    if "x \<in> set page" for x
    using page_row_facts[OF run st page(2)] that unfolding page(1) by blast
  have keyed: "list_all (keyed_row (as_table a)) page" and sub: "set page \<subseteq> set (src_rows st)"
    using facts by (auto simp: list_all_iff)
  have dist: "distinct (map fst page)"
    using run st limited.fetch_distinct[of fst "src_rows st"] page_rows_limited[of pg "src_rows st" m] page
    by (simp add: run_ok_def sound_source_def)
  obtain cr where cr: "table_row (k_working (y_conn y)) (tc_table_name (as_table a)) = Some cr" "cr_table cr = as_table a"
    using assms(6) by (auto simp: contract_ok_def)
  obtain d' where y1: "y1 = y\<lparr>y_conn := (y_conn y)\<lparr>k_working := d'\<rparr>\<rparr>"
    and d': "d' = (k_working (y_conn y))\<lparr>d_raw := d_raw d', d_shadow := d_shadow d', d_changes := d_changes d'\<rparr>"
    and new: "\<And>r. r \<in> set page \<Longrightarrow> copied xe a d' r"
    and old: "\<And>r. fst r \<notin> fst ` set page \<Longrightarrow> copied xe a (k_working (y_conn y)) r \<Longrightarrow> copied xe a d' r"
    by (rule page_written[OF assms(5) _ keyed dist cr]) (use run in \<open>auto simp: run_ok_def\<close>)
  have keep: "copied xe a d' r" if "stays db (as_table a) r" "copied xe a (k_working (y_conn y)) r" for r
    using new old[OF _ that(2)] stays_page_row[OF run st that(1) sub] by blast
  have "table_row d' (tc_table_name (as_table a)) = Some cr"
    using cr(1) by (subst d') simp
  with cr(2) have "contract_ok a d'" by (simp add: contract_ok_def)
  moreover have "d_watermarks d' = d_watermarks (k_working (y_conn y))" by (subst d') simp
  moreover have "covered xe db a cur (row_pos cur (last page)) d'"
    unfolding covered_def
  proof (intro allI impI)
    fix r
    assume r: "stays db (as_table a) r \<and> readable cur r \<and> row_pos cur r \<le> row_pos cur (last page)"
    show "copied xe a d' r"
    proof (cases "row_pos cur r \<le> page_pos pg")
      case True
      with cov r keep show ?thesis unfolding covered_def by blast
    next
      case False
      have "fst (row_pos cur (last page)) = fst (page_pos pg)" using facts[of "last page"] assms(8) by simp
      with False r have "fst (row_pos cur r) = fst (page_pos pg)" by (auto simp: less_eq_prod_def)
      with page_has_row[OF run st _ page(2), of r m] False r assms(8) new show ?thesis unfolding page(1) by (simp add: not_le)
    qed
  qed
  ultimately show thesis using new keep by (intro that) (simp_all add: y1)
qed


section \<open>The loop\<close>

definition loop_inv :: "extractor \<Rightarrow> source_db \<Rightarrow> assignment \<Rightarrow> string option \<Rightarrow> watermark_row option \<Rightarrow> conn \<Rightarrow> bool" where
  "loop_inv xe db a cur start c \<longleftrightarrow> k_working c = k_committed c \<and> contract_ok a (k_committed c) \<and>
     honest xe db a cur (k_committed c) \<and> covered xe db a cur (start_pos cur start) (k_committed c)"

lemma covered_mono:
  "covered xe db a cur p d \<Longrightarrow> q \<le> p \<Longrightarrow> (\<And>r. stays db (as_table a) r \<Longrightarrow> copied xe a d r \<Longrightarrow> copied xe a d' r) \<Longrightarrow>
   covered xe db a cur q d'"
  unfolding covered_def by (meson order_trans)

lemma covered_watermarks [simp]: "covered xe db a cur p (d\<lparr>d_watermarks := x\<rparr>) = covered xe db a cur p d"
  by (simp add: covered_def)

lemma contract_ok_watermarks [simp]: "contract_ok a (d\<lparr>d_watermarks := x\<rparr>) = contract_ok a d"
  by (simp add: contract_ok_def)

lemma honest_saved:
  "covered xe db a cur (start_pos cur (Some w)) d \<Longrightarrow>
   honest xe db a cur (d\<lparr>d_watermarks := AList.update (s_source_id (xe_source xe), tc_table_name (as_table a), as_target a) w x\<rparr>)"
  by (simp add: honest_def update_conv')

lemma honest_kept:
  assumes "honest xe db a cur d" and "d_watermarks d' = d_watermarks d"
    and "\<And>r. stays db (as_table a) r \<Longrightarrow> copied xe a d r \<Longrightarrow> copied xe a d' r"
  shows "honest xe db a cur d'"
  unfolding honest_def assms(2)
proof (intro allI impI)
  fix w
  assume "map_of (d_watermarks d) (s_source_id (xe_source xe), tc_table_name (as_table a), as_target a) = Some w"
  with assms(1) have "covered xe db a cur (start_pos cur (Some w)) d" by (simp add: honest_def)
  from this order_refl assms(3) show "covered xe db a cur (start_pos cur (Some w)) d'" by (rule covered_mono)
qed

text \<open>One turn that fetches and copies a page keeps the invariant and stays in its phase.\<close>

lemma loop_turn:
  assumes run: "run_ok xe db a cur" and inv: "loop_inv xe db a cur start (y_conn y)"
    and np: "np \<longleftrightarrow> cur \<noteq> None \<and> fst (start_pos cur start) = 0"
    and fetch: "fetch_page xe db (as_table a) start y = (Inr rows, y1)"
    and copy: "copy_page xe db a cur np rows start y1 = (Inr start', y2)"
  shows "loop_inv xe db a cur start' (y_conn y2) \<and> fst (start_pos cur start') = fst (start_pos cur start) \<and>
    (int (length rows) < es_page_size (xe_settings xe) \<longrightarrow>
      (\<forall>r. stays db (as_table a) r \<and> readable cur r \<and> fst (row_pos cur r) \<le> fst (start_pos cur start) \<longrightarrow>
        copied xe a (k_committed (y_conn y2)) r))"
proof -
  let ?n = "nat (es_page_size (xe_settings xe))" and ?sel = "select_row (as_table a) (es_exclude_pii (xe_settings xe))"
  from fetch obtain pg st where pg: "page_after (as_table a) start = Inr pg"
    and st: "sd_table db (tc_table_name (as_table a)) (xw_queries (y_world y)) = Inr st"
    and rows: "rows = map ?sel (page_rows pg ?n (src_rows st))" and n: "0 \<le> es_page_size (xe_settings xe)"
    by (rule fetch_page_Inr)
  have pos: "page_cursor pg = cur" "page_pos pg = start_pos cur start"
    using page_after_pos[OF _ pg, of cur] run by (auto simp: run_ok_def)
  have conn: "y_conn y1 = y_conn y" using fetch by (rule fetch_page_conn)
  let ?page = "page_rows pg ?n (src_rows st)" and ?d = "k_committed (y_conn y)"
  have inv': "k_working (y_conn y1) = ?d" "contract_ok a ?d" "honest xe db a cur ?d" "covered xe db a cur (page_pos pg) ?d"
    using inv conn by (simp_all add: loop_inv_def pos)
  have short: "r \<in> set ?page" if "length ?page < ?n" "stays db (as_table a) r" "fst (row_pos cur r) = fst (page_pos pg)" "page_pos pg < row_pos cur r" for r
    using page_has_row[OF run st that(2) pos(1) that(3,4)] that(1) by blast
  have all: "copied xe a d' r"
    if "length ?page < ?n" "covered xe db a cur (page_pos pg) d'" "\<And>r. r \<in> set ?page \<Longrightarrow> copied xe a d' r"
      "stays db (as_table a) r" "readable cur r" "fst (row_pos cur r) \<le> fst (page_pos pg)" for d' r
  proof (cases "row_pos cur r \<le> page_pos pg")
    case True
    with that(2,4,5) show ?thesis unfolding covered_def by blast
  next
    case False
    with that(6) have "fst (row_pos cur r) = fst (page_pos pg)" by (auto simp: less_eq_prod_def)
    with False short[OF that(1,4)] that(3) show ?thesis by (simp add: not_le)
  qed
  show ?thesis
  proof (cases "?page = []")
    case True
    with copy rows have "start' = start" "y2 = y1" by (simp_all add: copy_page_def sx_simps)
    with True all[of ?d] inv inv' conn rows n show ?thesis by (simp add: pos)
  next
    case False
    then have ne: "rows \<noteq> []" using rows by simp
    from copy ne obtain res y3 where w: "write_page xe db a rows cur CHR ''u'' y1 = (Inr res, y3)"
      and start': "start' = Some (next_watermark (as_table a) cur np (last rows))"
      and same: "k_working (y_conn y2) = k_committed (y_conn y2)"
      and d2: "k_committed (y_conn y2) = (if cur = None then k_working (y_conn y3)
        else (k_working (y_conn y3))\<lparr>d_watermarks := AList.update (s_source_id (xe_source xe), tc_table_name (as_table a), as_target a)
         (next_watermark (as_table a) cur np (last rows)) (d_watermarks (k_working (y_conn y3)))\<rparr>)"
      by (rule copy_page_Inr)
    let ?d3 = "k_working (y_conn y3)"
    have turn: "contract_ok a ?d3" "d_watermarks ?d3 = d_watermarks ?d" "covered xe db a cur (row_pos cur (last ?page)) ?d3"
      "\<And>r. stays db (as_table a) r \<Longrightarrow> copied xe a ?d r \<Longrightarrow> copied xe a ?d3 r" "\<And>r. r \<in> set ?page \<Longrightarrow> copied xe a ?d3 r"
      using page_turn[OF run st refl pos(1) w[unfolded rows] _ _ False] inv' by auto
    have last: "keyed_row (as_table a) (last ?page)" "fst (row_pos cur (last ?page)) = fst (page_pos pg)"
      using page_row_facts[OF run st pos(1), of "last ?page" ?n] False by simp_all
    have next_row: "last rows = ?sel (last ?page)" using False rows by (simp add: last_map)
    have pos': "start_pos cur start' = row_pos cur (last ?page)"
      unfolding start' next_row by (rule next_pos[OF run last(1)]) (simp add: np last(2) pos)
    have honest: "honest xe db a cur (k_committed (y_conn y2))"
      using honest_kept[OF inv'(3) turn(2,4)] honest_saved[of xe db a cur "the start'" ?d3] turn(3) pos'
      by (auto simp: d2 start')
    have "loop_inv xe db a cur start' (y_conn y2)"
      using honest same turn(1,3) pos' by (auto simp: loop_inv_def d2)
    moreover have "copied xe a (k_committed (y_conn y2)) r"
      if "length ?page < ?n" "stays db (as_table a) r" "readable cur r" "fst (row_pos cur r) \<le> fst (page_pos pg)" for r
      using all[OF that(1) covered_mono[OF inv'(4) order_refl turn(4)] turn(5) that(2-4)] by (simp add: d2)
    ultimately show ?thesis using pos' last(2) rows n by (auto simp: pos)
  qed
qed

text \<open>When the rows without a cursor value are copied, reading goes on from 1970.\<close>

lemma start_pos_epoch: "start_pos (Some cur) (Some epoch_start) = (1, 0, min_pk)"
  by (simp add: start_pos_def epoch_start_def start_pk_def get_or_def)

lemma row_pos_phase: "fst (row_pos cur r) = 0 \<or> cur \<noteq> None \<and> fst (row_pos cur r) = 1"
  by (simp add: row_pos_def split: option.splits)

lemma start_pos_phase: "fst (start_pos cur s) = 0 \<or> cur \<noteq> None \<and> fst (start_pos cur s) = 1"
  by (simp add: start_pos_def split: option.splits)

lemma covered_epoch:
  assumes "\<And>r. stays db (as_table a) r \<Longrightarrow> readable (Some cur) r \<Longrightarrow> fst (row_pos (Some cur) r) = 0 \<Longrightarrow> copied xe a d r"
  shows "covered xe db a (Some cur) (start_pos (Some cur) (Some epoch_start)) d"
  unfolding covered_def start_pos_epoch
proof (intro allI impI)
  fix r
  assume r: "stays db (as_table a) r \<and> readable (Some cur) r \<and> row_pos (Some cur) r \<le> (1, 0, min_pk)"
  then have "fst (row_pos (Some cur) r) = 0" by (auto simp: readable_def)
  with r assms show "copied xe a d r" by blast
qed

lemma epoch_saved:
  assumes "loop_inv xe db a cur start c" and "cur \<noteq> None" and "fst (start_pos cur start) = 0"
    and "\<And>r. stays db (as_table a) r \<Longrightarrow> readable cur r \<Longrightarrow> fst (row_pos cur r) \<le> fst (start_pos cur start) \<Longrightarrow> copied xe a (k_committed c) r"
    and "d = (k_committed c)\<lparr>d_watermarks := AList.update (s_source_id (xe_source xe), tc_table_name (as_table a), as_target a) epoch_start x\<rparr>"
  shows "loop_inv xe db a cur (Some epoch_start) (c\<lparr>k_working := d, k_committed := d, k_txn := n\<rparr>)"
proof -
  obtain m where m: "cur = Some m" using assms(2) by blast
  have "covered xe db a cur (start_pos cur (Some epoch_start)) (k_committed c)"
    unfolding m by (rule covered_epoch) (use assms(3,4) m in simp)
  with assms(1,5) honest_saved[of xe db a cur epoch_start "k_committed c" x] show ?thesis by (simp add: loop_inv_def)
qed

lemma extract_loop_inv:
  assumes run: "run_ok xe db a cur"
  shows "loop_inv xe db a cur start (y_conn y) \<Longrightarrow> (np \<longleftrightarrow> cur \<noteq> None \<and> fst (start_pos cur start) = 0) \<Longrightarrow>
    extract_loop fuel xe db a cur start np y = (r, y') \<Longrightarrow>
    honest xe db a cur (k_committed (y_conn y')) \<and> (r = Inr (Some ()) \<longrightarrow> all_copied xe db a cur (k_committed (y_conn y')))"
proof (induction fuel arbitrary: start np y)
  case 0
  then show ?case by (auto simp: sx_simps loop_inv_def)
next
  case (Suc fuel)
  note inv = Suc.prems(1) and np = Suc.prems(2)
  obtain r1 y1 where f: "fetch_page xe db (as_table a) start y = (r1, y1)" by fastforce
  have conn: "y_conn y1 = y_conn y" using f by (rule fetch_page_conn)
  show ?case
  proof (cases r1)
    case (Inl e)
    with Suc.prems f conn show ?thesis by (auto simp: sx_simps loop_inv_def)
  next
    case (Inr rows)
    obtain r2 y2 where c: "copy_page xe db a cur np rows start y1 = (r2, y2)" by fastforce
    show ?thesis
    proof (cases r2)
      case (Inl e)
      with copy_page_Inl[of xe db a cur np rows start y1 e y2] Suc.prems f c conn Inr show ?thesis
        by (auto simp: sx_simps loop_inv_def)
    next
      case (Inr start')
      note turn = loop_turn[OF run inv np f[unfolded \<open>r1 = Inr rows\<close>] c[unfolded Inr]]
      have rest: "(r, y') = (if int (length rows) < es_page_size (xe_settings xe) then
         (if \<not> np then sret (Some ())
          else sbind (save_watermark xe a epoch_start) (\<lambda>_. sbind (on_conn commit) (\<lambda>_.
            extract_loop fuel xe db a cur (Some epoch_start) False)))
         else extract_loop fuel xe db a cur start' np) y2"
        using Suc.prems(3) f c Inr \<open>r1 = Inr rows\<close> by (simp add: sx_simps)
      consider (full) "\<not> int (length rows) < es_page_size (xe_settings xe)"
        | (last) "int (length rows) < es_page_size (xe_settings xe)" "\<not> np"
        | (nulls) "int (length rows) < es_page_size (xe_settings xe)" np by blast
      then show ?thesis
      proof cases
        case full
        with rest turn np show ?thesis by (intro Suc.IH[of start' y2 np]) simp_all
      next
        case last
        have "fst (row_pos cur x) \<le> fst (start_pos cur start)" for x
          using row_pos_phase[of cur x] start_pos_phase[of cur start] last(2) np by auto
        with last rest turn show ?thesis by (simp add: sx_simps all_copied_def loop_inv_def)
      next
        case nulls
        have tgt: "as_target a \<in> {''prod'', ''shadow''}" using run by (simp add: run_ok_def)
        define d where "d = (k_committed (y_conn y2))\<lparr>d_watermarks := AList.update
          (s_source_id (xe_source xe), tc_table_name (as_table a), as_target a) epoch_start (d_watermarks (k_committed (y_conn y2)))\<rparr>"
        define y3 where "y3 = y2\<lparr>y_conn := (y_conn y2)\<lparr>k_working := d, k_committed := d, k_txn := k_txn (y_conn y2) + 1\<rparr>\<rparr>"
        have "k_working (y_conn y2) = k_committed (y_conn y2)" using turn by (simp add: loop_inv_def)
        with rest nulls tgt have "extract_loop fuel xe db a cur (Some epoch_start) False y3 = (r, y')"
          by (simp add: sx_simps sbind_def y3_def d_def)
        moreover have "loop_inv xe db a cur (Some epoch_start) (y_conn y3)"
          unfolding y3_def
          using epoch_saved[where start = start' and c = "y_conn y2" and cur = cur and db = db and n = "k_txn (y_conn y2) + 1", OF _ _ _ _ d_def]
            turn nulls np
          by (simp del: split_paired_All)
        ultimately show ?thesis
          using nulls(2) np by (intro Suc.IH[of "Some epoch_start" y3 False]) (auto simp: start_pos_epoch)
      qed
    qed
  qed
qed


section \<open>Extracting a table\<close>

lemma extract_start_pos:
  assumes "honest xe db a cur d"
    and "stored = map_of (d_watermarks d) (s_source_id (xe_source xe), tc_table_name (as_table a), as_target a)"
  shows "covered xe db a cur (start_pos cur (extract_start xe cur stored)) d"
proof (cases "extract_start xe cur stored")
  case None
  have "\<not> (readable cur r \<and> row_pos cur r \<le> (0, 0, min_pk))" for r
    by (cases "row_pos cur r") (auto simp: readable_def less_prod_def less_eq_prod_def)
  moreover have "start_pos cur None = (0, 0, min_pk)" by (simp add: start_pos_def start_pk_def split: option.splits)
  ultimately show ?thesis unfolding None covered_def by metis
next
  case (Some w')
  then obtain m w where m: "cur = Some m" "stored = Some w"
    by (auto simp: extract_start_def split: if_splits option.splits)
  with Some have "start_pos cur (Some w') \<le> start_pos cur (Some w)"
    by (auto simp: extract_start_def start_pos_def split: if_splits option.splits)
  moreover have "covered xe db a cur (start_pos cur (Some w)) d" using assms(1) m(2)[unfolded assms(2)] m(1) by (simp add: honest_def)
  ultimately show ?thesis unfolding Some using covered_mono[of xe db a cur "start_pos cur (Some w)" d] by blast
qed

lemma null_phase_pos:
  "table_cursor t = Inr cur \<Longrightarrow> in_null_cursor_phase t start = Inr np \<Longrightarrow> np \<longleftrightarrow> cur \<noteq> None \<and> fst (start_pos cur start) = 0"
  by (auto simp: table_cursor_def in_null_cursor_phase_def rbind_Inr_iff start_pos_def cursor_is_usable_def split: option.splits if_splits)

lemma extract_table_inv:
  assumes run: "run_ok xe db a cur" and "k_working (y_conn y) = k_committed (y_conn y)" and "contract_ok a (k_committed (y_conn y))"
    and "honest xe db a cur (k_committed (y_conn y))" and "extract_table fuel xe db a y = (r, y')"
  shows "honest xe db a cur (k_committed (y_conn y')) \<and> (r = Inr (Some ()) \<longrightarrow> all_copied xe db a cur (k_committed (y_conn y')))"
proof -
  let ?t = "as_table a"
  let ?stored = "map_of (d_watermarks (k_committed (y_conn y))) (s_source_id (xe_source xe), tc_table_name ?t, as_target a)"
  have cur: "table_cursor ?t = Inr cur" using run by (simp add: run_ok_def)
  then obtain u where "cursor_is_usable ?t = Inr u" by (auto simp: table_cursor_def rbind_Inr_iff)
  then obtain np where np: "in_null_cursor_phase ?t (extract_start xe cur ?stored) = Inr np"
    by (simp add: in_null_cursor_phase_def)
  have "tc_primary_key ?t \<in> set (column_names ?t)" using run by (force simp: run_ok_def table_ok_def column_names_def)
  with assms(2,5) cur np have "extract_loop fuel xe db a cur (extract_start xe cur ?stored) np y = (r, y')"
    by (simp add: extract_table_def Let_def sx_simps sbind_def wm_get_def)
  moreover have "loop_inv xe db a cur (extract_start xe cur ?stored) (y_conn y)"
    using assms(2-4) extract_start_pos[OF assms(4) refl] by (simp add: loop_inv_def)
  ultimately show ?thesis using extract_loop_inv[OF run] null_phase_pos[OF cur np] by blast
qed

text \<open>
  C6: The stored watermark is never ahead of the copy: however an extraction of a table ends (it finishes, is
  fenced, fails in the source or the warehouse, or is cut short), if every row that stays at the source and
  lies up to the watermark was in the copy before, it is so after, for the committed state.
\<close>

theorem watermark_never_ahead:
  assumes "run_ok xe db a cur" and "k_working (y_conn y) = k_committed (y_conn y)" and "contract_ok a (k_committed (y_conn y))"
    and "honest xe db a cur (k_committed (y_conn y))"
  shows "honest xe db a cur (k_committed (y_conn (snd (extract_table fuel xe db a y))))"
  using extract_table_inv[OF assms] by (cases "extract_table fuel xe db a y") auto


section \<open>Termination\<close>

definition unchanging :: "source_db \<Rightarrow> table_contract \<Rightarrow> src_row list \<Rightarrow> bool" where
  "unchanging db t rs \<longleftrightarrow> (\<forall>n st. sd_table db (tc_table_name t) n = Inr st \<longrightarrow> src_rows st = rs)"

definition turns_left :: "string option \<Rightarrow> src_row list \<Rightarrow> watermark_row option \<Rightarrow> nat" where
  "turns_left cur rs start = length (filter (\<lambda>r. start_pos cur start < row_pos cur r) rs) +
     (if cur \<noteq> None \<and> fst (start_pos cur start) = 0 then 1 else 0)"

lemma length_filter_mono: "(\<And>x. x \<in> set xs \<Longrightarrow> Q x \<Longrightarrow> P x) \<Longrightarrow> length (filter Q xs) \<le> length (filter P xs)"
  by (induction xs) (auto intro: le_SucI)

lemma length_filter_less:
  "(\<And>x. x \<in> set xs \<Longrightarrow> Q x \<Longrightarrow> P x) \<Longrightarrow> y \<in> set xs \<Longrightarrow> P y \<Longrightarrow> \<not> Q y \<Longrightarrow> length (filter Q xs) < length (filter P xs)"
proof (induction xs)
  case (Cons x xs)
  have "length (filter Q xs) \<le> length (filter P xs)" using Cons.prems(1) by (intro length_filter_mono) auto
  with Cons show ?case by (cases "x = y") auto
qed simp

text \<open>A page with rows moves the start forward, past its last row.\<close>

lemma turn_advances:
  assumes run: "run_ok xe db a cur" and np: "np \<longleftrightarrow> cur \<noteq> None \<and> fst (start_pos cur start) = 0"
    and fetch: "fetch_page xe db (as_table a) start y = (Inr rows, y1)" and "rows \<noteq> []"
    and rs: "unchanging db (as_table a) rs"
    and start': "start' = Some (next_watermark (as_table a) cur np (last rows))"
  shows "turns_left cur rs start' < turns_left cur rs start \<and> fst (start_pos cur start') = fst (start_pos cur start)"
proof -
  let ?n = "nat (es_page_size (xe_settings xe))" and ?sel = "select_row (as_table a) (es_exclude_pii (xe_settings xe))"
  from fetch obtain pg st where pg: "page_after (as_table a) start = Inr pg"
    and st: "sd_table db (tc_table_name (as_table a)) (xw_queries (y_world y)) = Inr st"
    and rows: "rows = map ?sel (page_rows pg ?n (src_rows st))"
    by (rule fetch_page_Inr)
  let ?page = "page_rows pg ?n (src_rows st)"
  have pos: "page_cursor pg = cur" "page_pos pg = start_pos cur start"
    using page_after_pos[OF _ pg, of cur] run by (auto simp: run_ok_def)
  have ne: "?page \<noteq> []" using assms(4) rows by simp
  have last: "last ?page \<in> set rs" "keyed_row (as_table a) (last ?page)" "fst (row_pos cur (last ?page)) = fst (start_pos cur start)"
    "start_pos cur start < row_pos cur (last ?page)"
    using page_row_facts[OF run st pos(1), of "last ?page" ?n] ne rs st pos(2) by (auto simp: unchanging_def)
  have "last rows = ?sel (last ?page)" using ne rows by (simp add: last_map)
  then have pos': "start_pos cur start' = row_pos cur (last ?page)"
    unfolding start' by (simp only:) (rule next_pos[OF run last(2)], simp add: np last(3))
  have "length (filter (\<lambda>r. row_pos cur (last ?page) < row_pos cur r) rs) < length (filter (\<lambda>r. start_pos cur start < row_pos cur r) rs)"
    by (rule length_filter_less[OF _ last(1)]) (use last(4) in auto)
  with last(3) show ?thesis by (simp add: turns_left_def pos')
qed

lemma turns_left_epoch:
  assumes "cur = Some m" and "fst (start_pos cur start) = 0"
  shows "turns_left cur rs (Some epoch_start) < turns_left cur rs start"
proof -
  have "length (filter (\<lambda>r. (1, 0, min_pk) < row_pos cur r) rs) \<le> length (filter (\<lambda>r. start_pos cur start < row_pos cur r) rs)"
    by (rule length_filter_mono) (use assms(2) in \<open>auto simp: less_prod_def\<close>)
  with assms show ?thesis by (simp add: turns_left_def start_pos_epoch)
qed

lemma extract_loop_ends:
  assumes run: "run_ok xe db a cur" and size: "0 < es_page_size (xe_settings xe)"
    and rs: "unchanging db (as_table a) rs"
  shows "(np \<longleftrightarrow> cur \<noteq> None \<and> fst (start_pos cur start) = 0) \<Longrightarrow> turns_left cur rs start < fuel \<Longrightarrow>
    fst (extract_loop fuel xe db a cur start np y) \<noteq> Inr None"
proof (induction fuel arbitrary: start np y)
  case (Suc fuel)
  obtain r1 y1 where f: "fetch_page xe db (as_table a) start y = (r1, y1)" by fastforce
  show ?case
  proof (cases r1)
    case (Inr rows)
    note f = f[unfolded Inr]
    obtain r2 y2 where c: "copy_page xe db a cur np rows start y1 = (r2, y2)" by fastforce
    show ?thesis
    proof (cases r2)
      case (Inr start')
      note c = c[unfolded Inr]
      show ?thesis
      proof (cases "int (length rows) < es_page_size (xe_settings xe)")
        case False
        with size have ne: "rows \<noteq> []" by auto
        from c ne have start': "start' = Some (next_watermark (as_table a) cur np (last rows))" by (rule copy_page_Inr)
        from turn_advances[OF run Suc.prems(1) f ne rs start'] Suc.prems
        have "fst (extract_loop fuel xe db a cur start' np y2) \<noteq> Inr None" by (intro Suc.IH) auto
        with False f c show ?thesis by (simp add: sx_simps)
      next
        case True
        show ?thesis
        proof (cases np)
          case np: True
          with Suc.prems(1) obtain m where m: "cur = Some m" "fst (start_pos cur start) = 0" by auto
          have "turns_left cur rs (Some epoch_start) < fuel" using turns_left_epoch[OF m, of rs] Suc.prems(2) by simp
          then have "fst (extract_loop fuel xe db a cur (Some epoch_start) False y3) \<noteq> Inr None" for y3
            by (intro Suc.IH) (simp_all add: m(1) start_pos_epoch)
          with True np f c show ?thesis by (simp add: sx_simps sbind_def)
        qed (use True f c in \<open>simp add: sx_simps\<close>)
      qed
    qed (use f c in \<open>simp add: sx_simps\<close>)
  qed (use f in \<open>simp add: sx_simps\<close>)
qed simp

text \<open>
  C7: Over a source whose rows do not change (its queries may still fail), with a positive page size, the
  extraction of a table ends: two turns more than the source has rows are enough.
\<close>

theorem extraction_terminates:
  assumes "run_ok xe db a cur" and "0 < es_page_size (xe_settings xe)"
    and "unchanging db (as_table a) rs"
    and "length rs + 2 \<le> fuel"
  shows "fst (extract_table fuel xe db a y) \<noteq> Inr None"
proof -
  have cur: "table_cursor (as_table a) = Inr cur" using assms(1) by (simp add: run_ok_def)
  have bound: "turns_left cur rs start < fuel" for start
    using length_filter_le[of "\<lambda>r. start_pos cur start < row_pos cur r" rs] assms(4) unfolding turns_left_def by (simp split: if_split del: length_filter_le)
  have "fst (extract_loop fuel xe db a cur start np y) \<noteq> Inr None" if "in_null_cursor_phase (as_table a) start = Inr np" for start np y
    using extract_loop_ends[OF assms(1-3) null_phase_pos[OF cur that] bound] by blast
  then show ?thesis
    by (auto simp: extract_table_def Let_def sbind_def sx_simps wm_get_def cur split: sum.splits)
qed

text \<open>
  With page size zero, which the settings admit, the extraction of a readable table never ends: no amount
  of fuel is enough, and nothing is written.
\<close>

theorem page_size_zero_never_ends:
  assumes "table_cursor (as_table a) = Inr cur" and "tc_primary_key (as_table a) \<in> set (column_names (as_table a))"
    and "es_page_size (xe_settings xe) = 0"
    and "\<And>n. sd_table db (tc_table_name (as_table a)) n = Inr (st n)"
    and "\<And>n. set (selected_names (as_table a) (es_exclude_pii (xe_settings xe))) \<subseteq> set (src_columns (st n))"
  shows "fst (extract_table fuel xe db a y) = Inr None \<and> y_conn (snd (extract_table fuel xe db a y)) = y_conn y"
proof -
  obtain u where u: "cursor_is_usable (as_table a) = Inr u" using assms(1) by (auto simp: table_cursor_def rbind_Inr_iff)
  have page: "\<exists>pg. page_after (as_table a) start = Inr pg" for start
    by (simp add: page_after_def in_null_cursor_phase_def u)
  have no_rows: "page_rows pg 0 rows = []" for pg rows by (cases pg) simp_all
  have fetch: "fetch_page xe db (as_table a) start y = (Inr [], y\<lparr>y_world := (y_world y)\<lparr>xw_queries := xw_queries (y_world y) + 1\<rparr>\<rparr>)" for start y
    using page[of start] assms(3-5) by (auto simp: fetch_page_def source_query_def sbind_def sx_simps guard_def no_rows)
  have loop: "fst (extract_loop fuel xe db a cur start np y) = Inr None \<and> y_conn (snd (extract_loop fuel xe db a cur start np y)) = y_conn y"
    for start np y
    by (induction fuel arbitrary: y) (simp_all add: sx_simps fetch copy_page_def assms(3) sbind_def)
  show ?thesis
    using assms(1,2) loop by (simp add: extract_table_def Let_def sbind_def sx_simps wm_get_def in_null_cursor_phase_def u)
qed

end
