(* ===== verification/Fencing.thy ===== *)
theory Fencing
  imports Table_Extract
begin

text \<open>
  What an extraction leaves alone: an assignment that lost its table changes no row of either copy, however
  the work on the table goes, and the reconciliation of deletes touches only keys that two reads of
  the source, one after the other, did not have.  Both are invariants of the tables, kept by every step.
\<close>

section \<open>Invariants of the tables across the extractor\<close>

abbreviation both_copies :: "(db \<Rightarrow> bool) \<Rightarrow> xstate \<Rightarrow> bool" where
  "both_copies I \<equiv> \<lambda>y. both I (y_conn y)"

lemma keeps_on_conn [keeps_intros]: "keeps (both I) m \<Longrightarrow> keeps (both_copies I) (on_conn m)"
  by (simp add: keeps_def sx_simps)

lemma keeps_on_world [keeps_intros]: "keeps (both_copies I) (on_world f)"
  by (simp add: keeps_def sx_simps)

lemma keeps_source_query [keeps_intros]: "keeps (both_copies I) (source_query f)"
  unfolding source_query_def by (rule keeps_on_world)

lemma keeps_update_out [keeps_intros]: "keeps (both_copies I) (update_out f)"
  unfolding update_out_def by (rule keeps_on_world)

lemma keeps_obind [keeps_intros]: "keeps I m \<Longrightarrow> (\<And>x. keeps I (f x)) \<Longrightarrow> keeps I (obind m f)"
  unfolding obind_def by (intro keeps_intros)

lemma keeps_olift [keeps_intros]: "keeps I m \<Longrightarrow> keeps I (olift m)"
  unfolding olift_def by (intro keeps_intros)

lemma keeps_sfinally [keeps_intros]: "keeps I m \<Longrightarrow> keeps I h \<Longrightarrow> keeps I (sfinally m h)"
  unfolding keeps_def sfinally_def by (force split: prod.splits sum.splits)

text \<open>The batches that the rows of a page are staged into.\<close>

definition batch_keeps :: "(db \<Rightarrow> bool) \<Rightarrow> extractor \<Rightarrow> assignment \<Rightarrow> (string \<times> val) list list \<Rightarrow> bool" where
  "batch_keeps I xe a rows \<longleftrightarrow> (\<forall>c t cursor op stage rep d'. rmap (stage_row xe a t cursor op) rows = Inr stage \<longrightarrow>
     apply_staged_batch c (tc_table_name (as_table a)) ''PYTHON'' stage = Inr (rep, d') \<longrightarrow> I (k_working c) \<longrightarrow> I d')"

lemma keeps_write_page:
  assumes "batch_keeps I xe a rows"
  shows "keeps (both_copies I) (write_page xe db a rows cursor op)"
  unfolding write_page_def using assms
  by (auto intro!: keeps_intros keeps_both_stmt simp: batch_keeps_def rbind_Inr_iff split: py_exn.split)

text \<open>Invariants that do not look at the tables the extractor writes beside the copies.\<close>

definition ignores_books :: "(db \<Rightarrow> bool) \<Rightarrow> bool" where
  "ignores_books I \<longleftrightarrow> (\<forall>d x y. I (d\<lparr>d_watermarks := x\<rparr>) = I d \<and> I (d\<lparr>d_progress := y\<rparr>) = I d)"

lemma keeps_save_watermark: "ignores_books I \<Longrightarrow> keeps (both_copies I) (save_watermark xe a w)"
  by (simp add: keeps_def sx_simps both_def ignores_books_def)

lemma keeps_wm_get [keeps_intros]: "keeps I (wm_get sid table target)"
  by (simp add: wm_get_def keeps_sget)

lemma keeps_wm_reset: "ignores_books I \<Longrightarrow> keeps (both I) (wm_reset sid table target)"
  by (auto simp: wm_reset_def ignores_books_def intro!: keeps_both_stmt)

lemma keeps_fetch_page: "keeps (both_copies I) (fetch_page xe db t start)"
  by (auto intro!: keepsI) (metis fetch_page_conn prod.collapse)

lemma keeps_copy_page:
  assumes "ignores_books I" and "batch_keeps I xe a rows"
  shows "keeps (both_copies I) (copy_page xe db a cursor np rows start)"
  unfolding copy_page_def Let_def split_beta
  by (intro keeps_intros keeps_write_page assms keeps_save_watermark)

lemma keeps_extract_loop:
  assumes "ignores_books I" and "\<And>rows. batch_keeps I xe a rows"
  shows "keeps (both_copies I) (extract_loop fuel xe db a cursor start np)"
  by (induction fuel arbitrary: start np)
    (auto intro!: keeps_intros keeps_fetch_page keeps_copy_page keeps_save_watermark assms)

lemma keeps_extract_table:
  assumes "ignores_books I" and "\<And>rows. batch_keeps I xe a rows"
  shows "keeps (both_copies I) (extract_table fuel xe db a)"
  unfolding extract_table_def Let_def by (intro keeps_intros keeps_extract_loop assms)

lemma keeps_delete_missing:
  assumes "tc_primary_key (as_table a) \<in> set (column_names (as_table a)) \<Longrightarrow>
      (\<And>chunk. set chunk \<subseteq> set missing \<Longrightarrow> batch_keeps I xe a (map (delete_row (as_table a)) chunk))"
  shows "keeps (both_copies I) (delete_missing xe db a missing)"
proof -
  have "keeps (both_copies I) (delete_chunk xe db a chunk)"
    if "tc_primary_key (as_table a) \<in> set (column_names (as_table a))" "set chunk \<subseteq> set missing" for chunk
    unfolding delete_chunk_def split_beta by (intro keeps_intros keeps_write_page assms that)
  moreover have "set chunk \<subseteq> set xs" if "chunk \<in> set (chunks n xs)" for chunk n and xs :: "int list"
    using that
  proof (induction n xs rule: chunks.induct)
    case (1 n xs)
    then show ?case by (subst (asm) (2) chunks.simps) (auto split: if_splits dest: in_set_takeD in_set_dropD)
  qed
  ultimately show ?thesis
    unfolding delete_missing_def Let_def by (intro keeps_intros) auto
qed

lemma keeps_still_missing [keeps_intros]: "keeps (both_copies I) (still_missing db t keys)"
  unfolding still_missing_def probe_keys_def by (intro keeps_intros)

lemma keeps_source_vs_warehouse [keeps_intros]:
  "keeps (both I) (source_vs_warehouse cast hash env st sid t w n ko schema)"
  unfolding source_vs_warehouse_def Let_def split_beta by (intro keeps_intros)

lemma keeps_record_progress: "ignores_books I \<Longrightarrow> keeps (both_copies I) (record_progress xe a)"
  unfolding record_progress_def Let_def
  by (intro keeps_intros keeps_both_stmt) (auto simp: ignores_books_def)

lemma keeps_process:
  assumes "ignores_books I" and "\<And>rows. batch_keeps I xe a rows"
  shows "keeps (both_copies I) (process fuel cast hash env xe db mode a)"
proof -
  have deletes: "keeps (both_copies I) (reconcile_deletes cast hash env xe db a)"
    unfolding reconcile_deletes_def Let_def by (intro keeps_intros keeps_delete_missing assms)
  have work: "keeps (both_copies I) (table_work fuel cast hash env xe db mode a)"
    unfolding table_work_def Let_def
    by (intro keeps_intros keeps_extract_table keeps_wm_reset keeps_record_progress deletes assms)
  have "keeps (both_copies I) (process_locked fuel cast hash env xe db mode a)"
    unfolding process_locked_def by (auto intro!: keeps_intros work split: py_exn.split)
  then show ?thesis
    unfolding process_def by (intro keeps_intros)
qed

section \<open>A writer that lost its table\<close>

definition may_write :: "extractor \<Rightarrow> assignment \<Rightarrow> db \<Rightarrow> bool" where
  "may_write xe a d =
     (case map_of (d_ownership d) (s_source_id (xe_source xe), tc_table_name (as_table a)) of
        None \<Rightarrow> False
      | Some row \<Rightarrow> o_epoch (w_own row) = as_epoch a \<and> o_cutover_state (w_own row) \<noteq> PAUSED \<and>
          (as_target a = ''prod'' \<and> o_engine (w_own row) = PYTHON \<or>
           as_target a = ''shadow'' \<and> o_shadow_engine (w_own row) = Some PYTHON))"

lemma stage_row_facts:
  "stage_row xe a t cursor op row = Inr s \<Longrightarrow> st_source s = s_source_id (xe_source xe) \<and> st_tenant s = s_tenant_id (xe_source xe) \<and>
     st_epoch s = as_epoch a \<and> st_target s = as_target a \<and> key_of (as_table a) row = Some (st_pk s)"
  by (auto simp: stage_row_def split: option.splits)

lemma rmap_Inr_ex: "rmap f xs = Inr ys \<Longrightarrow> y \<in> set ys \<Longrightarrow> \<exists>x \<in> set xs. f x = Inr y"
  by (induction xs arbitrary: ys) (auto simp: rbind_Inr_iff)

lemma staged_may_write:
  "rmap (stage_row xe a t cursor op) rows = Inr stage \<Longrightarrow> s \<in> set stage \<Longrightarrow>
   writer_ok d (tc_table_name (as_table a)) PYTHON s \<longleftrightarrow> may_write xe a d"
  by (auto dest!: rmap_Inr_ex stage_row_facts simp: writer_ok_def may_write_def Let_def split: option.splits)

definition same_copies :: "db \<Rightarrow> (string \<Rightarrow> raw_key \<Rightarrow> bool) \<Rightarrow> db \<Rightarrow> bool" where
  "same_copies d0 held d \<longleftrightarrow> (\<forall>target \<in> {''prod'', ''shadow''}. \<forall>k. held target k \<longrightarrow> map_of (raw_of target d) k = map_of (raw_of target d0) k)"

lemma same_copies_refl [simp]: "same_copies d held d"
  by (simp add: same_copies_def)

lemma stale_batch_keeps:
  assumes "\<not> may_write xe a d0"
  shows "batch_keeps (\<lambda>d. d_ownership d = d_ownership d0 \<and> same_copies d0 (\<lambda>_ _. True) d) xe a rows"
  unfolding batch_keeps_def
proof (intro allI impI)
  fix c t cursor op stage rep d'
  assume st: "rmap (stage_row xe a t cursor op) rows = Inr stage"
    and ap: "apply_staged_batch c (tc_table_name (as_table a)) ''PYTHON'' stage = Inr (rep, d')"
    and I: "d_ownership (k_working c) = d_ownership d0 \<and> same_copies d0 (\<lambda>_ _. True) (k_working c)"
  from ap obtain eng where "''PYTHON'' = engine_value eng" and ok: "list_all (writer_ok (k_working c) (tc_table_name (as_table a)) eng) stage"
    and own: "d_ownership d' = d_ownership (k_working c)"
    by (rule apply_staged_batch_Inr) blast
  then have "eng = PYTHON" by (cases eng) simp_all
  have "\<not> may_write xe a (k_working c)" using assms I by (simp add: may_write_def)
  with ok staged_may_write[OF st] \<open>eng = PYTHON\<close> have "stage = []" by (cases stage) simp_all
  with batch_frame[OF ap] own I show "d_ownership d' = d_ownership d0 \<and> same_copies d0 (\<lambda>_ _. True) d'"
    by (simp add: same_copies_def)
qed

lemma stale_process_keeps:
  assumes "\<not> may_write xe a (k_committed (y_conn y))" and "k_working (y_conn y) = k_committed (y_conn y)"
    and "target \<in> {''prod'', ''shadow''}"
  shows "map_of (raw_of target (k_committed (y_conn (snd (process fuel cast hash env xe db mode a y))))) k =
    map_of (raw_of target (k_committed (y_conn y))) k"
proof -
  let ?I = "\<lambda>d. d_ownership d = d_ownership (k_committed (y_conn y)) \<and> same_copies (k_committed (y_conn y)) (\<lambda>_ _. True) d"
  have "ignores_books ?I" by (simp add: ignores_books_def same_copies_def raw_of_def)
  from keepsD[OF keeps_process[OF this stale_batch_keeps[OF assms(1)]]] assms(2)
  have "both ?I (y_conn (snd (process fuel cast hash env xe db mode a y)))" by (simp add: both_def)
  with assms(3) show ?thesis unfolding both_def same_copies_def by blast
qed

text \<open>
  A writer that lost its table writes nothing: when the ownership of the table has moved to another epoch or
  engine, or is paused, since the assignment was planned, the work on the table leaves every row of
  both copies as it was, in every mode and however the work ends.
\<close>

theorem stale_writer_changes_nothing:
  assumes "\<not> may_write xe a (k_committed (y_conn y))" and "k_working (y_conn y) = k_committed (y_conn y)"
    and "target \<in> {''prod'', ''shadow''}"
  shows "map_of (raw_of target (k_committed (y_conn (snd (process fuel cast hash env xe db mode a y))))) k =
    map_of (raw_of target (k_committed (y_conn y))) k"
  using assms by (rule stale_process_keeps)

section \<open>Reconciliation of deletes\<close>

lemma concat_chunks: "0 < n \<Longrightarrow> concat (chunks n xs) = xs"
proof (induction n xs rule: chunks.induct)
  case (1 n xs)
  then show ?case by (cases "xs = []") (simp_all add: chunks.simps[of n])
qed

definition absent_at :: "source_db \<Rightarrow> table_contract \<Rightarrow> int \<Rightarrow> nat \<Rightarrow> bool" where
  "absent_at db t k n \<longleftrightarrow> (\<exists>st. sd_table db (tc_table_name t) n = Inr st \<and> k \<notin> source_keys st)"

lemma source_query_world:
  "source_query f y = (Inr x, y') \<Longrightarrow> xw_queries (y_world y') = xw_queries (y_world y) + 1 \<and> f (xw_queries (y_world y)) = Inr x"
  by (auto simp: source_query_def sx_simps)

lemma probes:
  assumes "sfor cs (probe_keys db t) y = (Inr present, y')" and "k \<in> set (concat cs)" and "k \<notin> set (concat present)"
  shows "\<exists>n \<ge> xw_queries (y_world y). absent_at db t k n"
  using assms
proof (induction cs arbitrary: y present)
  case (Cons c cs)
  from Cons.prems(1)[unfolded sfor.simps] obtain p y1 where p: "probe_keys db t c y = (Inr p, y1)"
    and r: "sbind (sfor cs (probe_keys db t)) (\<lambda>ys. sret (p # ys)) y1 = (Inr present, y')"
    by (rule sbind_InrE)
  from r obtain rest where rest: "sfor cs (probe_keys db t) y1 = (Inr rest, y')" and present: "present = p # rest"
    by (rule sbind_InrE) (auto simp: sx_simps)
  note q = source_query_world[OF p[unfolded probe_keys_def]]
  show ?case
  proof (cases "k \<in> set c")
    case True
    with Cons.prems(3) q present have "absent_at db t k (xw_queries (y_world y))"
      by (auto simp: absent_at_def source_keys_def rbind_Inr_iff)
    then show ?thesis by blast
  next
    case False
    with Cons.IH[OF rest] Cons.prems(2,3) present obtain n where "xw_queries (y_world y1) \<le> n" "absent_at db t k n" by auto
    with q show ?thesis by (intro exI[of _ n]) simp
  qed
qed simp

lemma still_missing_absent:
  assumes "still_missing db t keys y = (Inr missing, y')" and "k \<in> set missing"
  shows "k \<in> set keys \<and> (\<exists>n \<ge> xw_queries (y_world y). absent_at db t k n)"
proof (cases "keys = []")
  case False
  with assms(1) have "sbind (sfor (chunks 5000 keys) (probe_keys db t)) (\<lambda>present.
      sret (filter (\<lambda>k. k \<notin> set (concat present)) keys)) y = (Inr missing, y')"
    by (simp add: still_missing_def)
  then obtain present y1 where p: "sfor (chunks 5000 keys) (probe_keys db t) y = (Inr present, y1)"
    and m: "missing = filter (\<lambda>k. k \<notin> set (concat present)) keys"
    by (rule sbind_InrE) (auto simp: sx_simps)
  from m assms(2) have k: "k \<in> set keys" "k \<notin> set (concat present)" by simp_all
  then have "k \<in> set (concat (chunks 5000 keys))" by (simp add: concat_chunks del: set_concat)
  with probes[OF p _ k(2)] k(1) show ?thesis by blast
qed (use assms in \<open>simp add: still_missing_def sx_simps\<close>)

text \<open>A page of deletes writes the keys of its rows.\<close>

lemma key_of_delete_row: "tc_primary_key t \<in> set (column_names t) \<Longrightarrow> key_of t (delete_row t k) = Some k"
  by (simp add: key_of_def delete_row_def col_val_map)

lemma delete_batch_keeps:
  assumes "tc_primary_key (as_table a) \<in> set (column_names (as_table a))"
    and "\<And>target k. held target k \<Longrightarrow> target = as_target a \<Longrightarrow> fst (snd k) = s_source_id (xe_source xe) \<Longrightarrow>
      fst (snd (snd k)) = s_tenant_id (xe_source xe) \<Longrightarrow> snd (snd (snd k)) \<notin> set chunk"
  shows "batch_keeps (same_copies d0 held) xe a (map (delete_row (as_table a)) chunk)"
  unfolding batch_keeps_def
proof (intro allI impI)
  fix c t cursor op stage rep d'
  assume st: "rmap (stage_row xe a t cursor op) (map (delete_row (as_table a)) chunk) = Inr stage"
    and ap: "apply_staged_batch c (tc_table_name (as_table a)) ''PYTHON'' stage = Inr (rep, d')"
    and I: "same_copies d0 held (k_working c)"
  have key: "st_pk s \<in> set chunk \<and> st_source s = s_source_id (xe_source xe) \<and> st_tenant s = s_tenant_id (xe_source xe) \<and> st_target s = as_target a"
    if "s \<in> set stage" for s
    using rmap_Inr_ex[OF st that] by (auto dest!: stage_row_facts simp: key_of_delete_row[OF assms(1)])
  have "map_of (raw_of target d') k = map_of (raw_of target (k_working c)) k"
    if "target \<in> {''prod'', ''shadow''}" "held target k" for target k
    by (rule batch_frame[OF ap that(1)]) (use key assms(2)[OF that(2)] in \<open>cases k, fastforce\<close>)
  with I show "same_copies d0 held d'" by (simp add: same_copies_def del: split_paired_All)
qed

text \<open>The state after a sequence, from what its parts keep where they are reached.\<close>

lemma sbind_keeps_at:
  "I (snd (m s)) \<Longrightarrow> (\<And>x s'. m s = (Inr x, s') \<Longrightarrow> I s' \<Longrightarrow> I (snd (f x s'))) \<Longrightarrow> I (snd (sbind m f s))"
  by (auto simp: sbind_def split: prod.splits sum.splits)

lemma reported_absent:
  assumes "source_vs_warehouse cast hash env st sid c width n ko schema cn = (Inr q, cn')" and "k \<in> set (q_missing_in_source_keys q)"
  shows "k \<notin> source_keys st"
  using assms(1)
proof (rule source_vs_warehouse_Inr)
  fix src wh
  assume "map fst src = map fst (src_rows st)" and "q_missing_in_source_keys q = dr_missing_in_src (compare_rows width n src wh)"
  with assms(2) show ?thesis by (metis missing_in_src_iff set_map source_keys_def)
qed

lemma twice_absent:
  assumes "source_query (sd_table db (tc_table_name t)) y = (Inr st, y1)"
    and "on_conn (source_vs_warehouse cast hash env st sid t w n ko schema) y1 = (Inr q, y2)"
    and "still_missing db t (q_missing_in_source_keys q) y2 = (Inr missing, y3)" and "k \<in> set missing"
  shows "\<exists>n n'. n < n' \<and> absent_at db t k n \<and> absent_at db t k n'"
proof -
  note q = source_query_world[OF assms(1)]
  from still_missing_absent[OF assms(3,4)] obtain n' where n': "k \<in> set (q_missing_in_source_keys q)"
    "xw_queries (y_world y2) \<le> n'" "absent_at db t k n'" by blast
  from assms(2) have cmp: "source_vs_warehouse cast hash env st sid t w n ko schema (y_conn y1) = (Inr q, y_conn y2)"
    and same: "y_world y2 = y_world y1"
    by (auto simp: on_conn_def split: prod.splits)
  have "absent_at db t k (xw_queries (y_world y))"
    using reported_absent[OF cmp n'(1)] q by (auto simp: absent_at_def)
  with n' q same show ?thesis by (intro exI[of _ "xw_queries (y_world y)"] exI[of _ n']) simp
qed


end
