(* ===== verification/Retire.thy ===== *)
theory Retire
  imports Reconciler Ownership_Repo
begin

text \<open>
  \<^verbatim>\<open>src/controlplane/retire.py\<close>: retiring a source.  One transaction raises the generation floor,
  walks the lifecycle to RETIRED, unassigns every table through the ownership triggers, purges the
  raw copies, derived tables and bookkeeping, and leaves an audit entry; after it the connectors
  and slots outside are removed, and the source is forgotten or kept as a tombstone.

  Shown: the lifecycle walk is legal from every state; without administrator rights nothing
  happens; a failure before the commit leaves the database as it was; after the commit the source
  owns nothing, stores nothing and is retired, and no other source is touched.
\<close>

definition derived_tables :: "string list" where
  "derived_tables = [''fact_loan_snapshot'', ''fact_delinquency_event'', ''mart_delinquency_par'',
     ''mart_portfolio_health'', ''mart_repayment_behavior'']"

definition lifecycle_path :: "string \<Rightarrow> string list" where
  "lifecycle_path st = (if st = ''RETIRED'' then []
     else if st \<in> {''REQUESTED'', ''VALIDATING'', ''RETIRING''} then [''RETIRED'']
     else [''RETIRING'', ''RETIRED''])"

section \<open>Counting and purging\<close>

definition count_source :: "string \<Rightarrow> string \<Rightarrow> (raw_key \<times> raw_row) list \<Rightarrow> int" where
  "count_source raw sid tbl = int (length (filter (\<lambda>kr. of_source raw sid (fst kr)) tbl))"

text \<open>A derived table is the list of the sources of its rows; a table that is not built yet is absent.\<close>

definition derived_counts :: "string \<Rightarrow> db \<Rightarrow> (string \<times> int) list" where
  "derived_counts sid d = List.map_filter (\<lambda>name. map_option (\<lambda>rows. (name, int (length (filter (\<lambda>s. s = sid) rows))))
     (map_of (d_derived d) name)) derived_tables"

record retire_summary =
  rs_raw_rows :: int
  rs_shadow_rows :: int
  rs_derived_rows :: "(string \<times> int) list"
  rs_next_generation :: "int option"
  rs_lifecycle :: string
  rs_registered :: bool
  rs_artifacts :: "artifacts option"

definition dry_run_summary :: "contract \<Rightarrow> string \<Rightarrow> bool \<Rightarrow> retire_summary dbop" where
  "dry_run_summary ct sid registered =
     sbind (sget (\<lambda>c. let d = k_working c in
       \<lparr>rs_raw_rows = sum_list (map (\<lambda>t. count_source (tc_raw_table t) sid (d_raw d)) (ct_tables ct)),
        rs_shadow_rows = sum_list (map (\<lambda>t. count_source (tc_raw_table t) sid (d_shadow d)) (ct_tables ct)),
        rs_derived_rows = derived_counts sid d, rs_next_generation = None, rs_lifecycle = [],
        rs_registered = registered, rs_artifacts = None\<rparr>)) (\<lambda>out.
     sbind rollback (\<lambda>_. sret out))"

definition raise_floor :: "string \<Rightarrow> int \<Rightarrow> unit dbop" where
  "raise_floor sid next = stmt (\<lambda>c. let d = k_working c in
     Inr ((), d\<lparr>d_floor := AList.update sid (case map_of (d_floor d) sid of None \<Rightarrow> next | Some g \<Rightarrow> max g next) (d_floor d)\<rparr>))"

definition retire_ctx :: "string \<Rightarrow> string option \<Rightarrow> audit_ctx" where
  "retire_ctx actor approved_by = \<lparr>ac_action = ''retire'', ac_actor = actor,
     ac_approved_by = get_or [] approved_by, ac_reason = ''source retired''\<rparr>"

definition unassigned :: "ownership_row \<Rightarrow> ownership_row" where
  "unassigned row = row\<lparr>w_own := (w_own row)\<lparr>o_engine := NONE, o_shadow_engine := None, o_cutover_state := STEADY,
       o_epoch := o_epoch (w_own row) + 1\<rparr>,
     w_updated_by := ''retire'', w_change_reason := Some ''source retired''\<rparr>"

fun unassign_rows :: "conn \<Rightarrow> audit_ctx \<Rightarrow> (tkey \<times> ownership_row) list \<Rightarrow> db \<Rightarrow> db result" where
  "unassign_rows c ctx [] d = Inr d"
| "unassign_rows c ctx ((k, row) # rows) d =
     rbind (update_ownership_row c ctx row (unassigned row) d) (\<lambda>d'. unassign_rows c ctx rows d')"

definition unassign_source :: "string \<Rightarrow> audit_ctx \<Rightarrow> unit dbop" where
  "unassign_source sid ctx = stmt (\<lambda>c.
     rbind (unassign_rows c ctx (filter (\<lambda>kr. fst (fst kr) = sid) (d_ownership (k_working c))) (k_working c)) (\<lambda>d.
     Inr ((), d)))"

definition purged_key :: "contract \<Rightarrow> string \<Rightarrow> raw_key \<Rightarrow> bool" where
  "purged_key ct sid k \<longleftrightarrow> (\<exists>t \<in> set (ct_tables ct). of_source (tc_raw_table t) sid k)"

definition purge_source :: "contract \<Rightarrow> string \<Rightarrow> (int \<times> (string \<times> int) list) dbop" where
  "purge_source ct sid = stmt (\<lambda>c. let d = k_working c in
     Inr ((int (length (filter (\<lambda>kr. purged_key ct sid (fst kr)) (d_raw d))), derived_counts sid d),
       d\<lparr>d_raw := filter (\<lambda>kr. \<not> purged_key ct sid (fst kr)) (d_raw d),
         d_shadow := filter (\<lambda>kr. \<not> purged_key ct sid (fst kr)) (d_shadow d),
         d_derived := map (\<lambda>(name, rows). (name, if name \<in> set derived_tables then filter (\<lambda>s. s \<noteq> sid) rows else rows)) (d_derived d),
         d_changes := filter (\<lambda>e. ce_source e \<noteq> sid) (d_changes d),
         d_watermarks := filter (\<lambda>kr. fst (fst kr) \<noteq> sid) (d_watermarks d),
         d_progress := filter (\<lambda>kr. fst (fst kr) \<noteq> sid) (d_progress d),
         d_connectors := filter (\<lambda>kr. fst kr \<noteq> sid) (d_connectors d)\<rparr>))"

definition audit_retirement :: "string \<Rightarrow> string \<Rightarrow> string option \<Rightarrow> (string \<times> int) list \<Rightarrow> unit dbop" where
  "audit_retirement sid actor approved_by summary = stmt (\<lambda>c. let d = k_working c in
     Inr ((), d\<lparr>d_audit := d_audit d @ [\<lparr>a_source = sid, a_table = ''*'', a_action = ''retire'', a_previous = ANull,
       a_new = ASummary summary, a_actor = actor, a_approved_by = approved_by,
       a_reason = Some ''source retired and purged'', a_db_user = k_session_user c\<rparr>]\<rparr>))"

section \<open>Retiring\<close>

text \<open>The first part of the transaction: floor and lifecycle.\<close>

definition close_source :: "string \<Rightarrow> source_record option \<Rightarrow> unit dbop" where
  "close_source sid existing = (case existing of None \<Rightarrow> sret () | Some s \<Rightarrow>
       sbind (raise_floor sid (s_capture_generation s + 1)) (\<lambda>_.
       sbind (sfor (lifecycle_path (s_lifecycle_state s)) (set_lifecycle sid)) (\<lambda>_. sret ())))"

text \<open>The rest of it: release the tables, purge, audit, commit.\<close>

definition empty_source :: "contract \<Rightarrow> string \<Rightarrow> source_record option \<Rightarrow> string \<Rightarrow> string option \<Rightarrow> retire_summary dbop" where
  "empty_source ct sid existing actor approved_by =
     sbind (unassign_source sid (retire_ctx actor approved_by)) (\<lambda>_.
     sbind (purge_source ct sid) (\<lambda>(raw_rows, derived).
     sbind (audit_retirement sid actor approved_by ((''raw_rows'', raw_rows) # derived)) (\<lambda>_.
     sbind commit (\<lambda>_.
     sret \<lparr>rs_raw_rows = raw_rows, rs_shadow_rows = 0, rs_derived_rows = derived,
           rs_next_generation = map_option (\<lambda>s. s_capture_generation s + 1) existing,
           rs_lifecycle = (if existing = None then ''not registered'' else ''RETIRED''),
           rs_registered = (existing \<noteq> None), rs_artifacts = None\<rparr>))))"

definition retire_body :: "contract \<Rightarrow> string \<Rightarrow> source_record option \<Rightarrow> string \<Rightarrow> string option \<Rightarrow> retire_summary dbop" where
  "retire_body ct sid existing actor approved_by =
     sbind (close_source sid existing) (\<lambda>_. empty_source ct sid existing actor approved_by)"

definition keep_tombstone :: "string \<Rightarrow> unit dbop" where
  "keep_tombstone sid = stmt (\<lambda>c. let d = k_working c in
     Inr ((), case map_of (d_registry d) sid of
        None \<Rightarrow> d
      | Some s \<Rightarrow> d\<lparr>d_registry := AList.update sid
          (s\<lparr>s_labels := AList.update ''forget_after_cleanup'' (LBool True) (s_labels s)\<rparr>) (d_registry d)\<rparr>))"

definition forget_or_keep :: "bool \<Rightarrow> bool \<Rightarrow> string \<Rightarrow> retire_summary \<Rightarrow> retire_summary dbop" where
  "forget_or_keep forget clean sid summary =
     (if \<not> forget then sret summary
      else if clean then
        sbind (stmt (\<lambda>c. rbind (delete_source sid (k_working c)) (\<lambda>d. Inr ((), d)))) (\<lambda>_.
        sbind commit (\<lambda>_. sret (summary\<lparr>rs_lifecycle := ''removed from registry''\<rparr>)))
      else
        sbind (keep_tombstone sid) (\<lambda>_.
        sbind commit (\<lambda>_. sret (summary\<lparr>rs_lifecycle :=
          ''RETIRED (kept as a tombstone until the replication slot is confirmed gone)''\<rparr>))))"

definition lookup_source :: "string \<Rightarrow> source_record option dbop" where
  "lookup_source sid = scatch (sbind (get_source sid) (\<lambda>s. sret (Some s)))
     (\<lambda>e. case e of RegistryError _ \<Rightarrow> sret None | _ \<Rightarrow> sraise e)"

definition admin_message :: string where
  "admin_message = ''retire-source purges data and unassigns ownership; run it under a database login '' @
     ''that is a member of fbi_platform_admin''"

text \<open>After the transaction: the connectors and slots outside, then the registry entry.\<close>

definition clean_up :: "os_env \<Rightarrow> 'w connect_api \<Rightarrow> cdc_settings option \<Rightarrow> nat \<Rightarrow> string \<Rightarrow> bool \<Rightarrow> source_record option \<Rightarrow>
    retire_summary \<Rightarrow> ('w sys, retire_summary) sx" where
  "clean_up env api settings attempts sid forget existing summary =
     (case existing of
        None \<Rightarrow> sret summary
      | Some s \<Rightarrow>
          sbind (case settings of
              None \<Rightarrow> sret (summary, True)
            | Some z \<Rightarrow> sbind (retire_artifacts env api z attempts s) (\<lambda>af.
                sbind (on_conn rollback) (\<lambda>_.
                sret (summary\<lparr>rs_artifacts := Some af\<rparr>, af_slots_remaining af = [] \<and> af_errors af = [])))) (\<lambda>(summary', clean).
          on_conn (forget_or_keep forget clean sid summary')))"

definition retire_source :: "os_env \<Rightarrow> 'w connect_api \<Rightarrow> contract \<Rightarrow> cdc_settings option \<Rightarrow> nat \<Rightarrow> string \<Rightarrow> bool \<Rightarrow> bool \<Rightarrow>
    string \<Rightarrow> string option \<Rightarrow> ('w sys, retire_summary) sx" where
  "retire_source env api ct settings attempts sid forget dry_run actor approved_by =
     sbind (on_conn (lookup_source sid)) (\<lambda>existing.
     sbind (on_conn rollback) (\<lambda>_.
     if dry_run then on_conn (dry_run_summary ct sid (existing \<noteq> None))
     else
       sbind (on_conn (sget k_admin)) (\<lambda>admin.
       if \<not> admin then sbind (on_conn rollback) (\<lambda>_. sraise (PermissionError admin_message))
       else
         sbind (on_conn (son_error (retire_body ct sid existing actor approved_by) rollback)) (\<lambda>summary.
         clean_up env api settings attempts sid forget existing summary))))"

section \<open>The lifecycle walk\<close>

fun legal_walk :: "string \<Rightarrow> string list \<Rightarrow> bool" where
  "legal_walk st [] = (st = ''RETIRED'')"
| "legal_walk st (n # ns) = (lifecycle_allowed st n \<and> legal_walk n ns)"

text \<open>
  Retirement can always be walked: from every known lifecycle state the path the code takes
  consists of transitions the lifecycle table allows and ends in RETIRED.
\<close>

theorem lifecycle_path_legal:
  assumes "lifecycle_known st"
  shows "legal_walk st (lifecycle_path st)"
proof -
  have "st \<in> set (map fst lifecycle_transitions)"
    using assms by (simp add: lifecycle_known_def map_of_eq_None_iff)
  then show ?thesis
    by (auto simp: lifecycle_transitions_def lifecycle_path_def lifecycle_allowed_def)
qed

theorem lifecycle_path_legal_witness: "legal_walk ''PAUSED'' (lifecycle_path ''PAUSED'')"
  by (rule lifecycle_path_legal) (simp add: lifecycle_known_iff)

lemma walk_Inr:
  assumes "sfor ns (set_lifecycle sid) c = (Inr us, c')" and "map_of (d_registry (k_working c)) sid = Some s"
  shows "\<exists>reg. k_working c' = (k_working c)\<lparr>d_registry := reg\<rparr> \<and>
    map_of reg = (map_of (d_registry (k_working c)))(sid \<mapsto> s\<lparr>s_lifecycle_state := last (s_lifecycle_state s # ns)\<rparr>) \<and>
    k_committed c' = k_committed c \<and> k_txn c' = k_txn c \<and> same_session c c'"
  using assms
proof (induction ns arbitrary: c s us)
  case Nil
  then have "c' = c" by (simp add: sx_simps)
  then show ?case using Nil(2) by (intro exI[of _ "d_registry (k_working c)"]) (simp add: same_session_def fun_upd_idem)
next
  case (Cons n ns)
  from Cons.prems(1) obtain u c1 us' where st: "set_lifecycle sid n c = (Inr u, c1)"
    and rest: "sfor ns (set_lifecycle sid) c1 = (Inr us', c')"
    by (auto simp: sx_simps elim!: sbind_InrE)
  from st obtain r where r: "map_of (d_registry (k_working c)) sid = Some r"
    "s_lifecycle_state r = n \<and> c1 = c \<or> lifecycle_allowed (s_lifecycle_state r) n \<and>
       c1 = c\<lparr>k_working := (k_working c)\<lparr>d_registry := AList.update sid (r\<lparr>s_lifecycle_state := n\<rparr>)
         (d_registry (k_working c))\<rparr>\<rparr>"
    by (rule set_lifecycle_Inr)
  with Cons.prems(2) have "r = s" by simp
  have reg1: "map_of (d_registry (k_working c1)) = (map_of (d_registry (k_working c)))(sid \<mapsto> s\<lparr>s_lifecycle_state := n\<rparr>)"
    and c1: "k_working c1 = (k_working c)\<lparr>d_registry := d_registry (k_working c1)\<rparr>" "k_committed c1 = k_committed c"
      "k_txn c1 = k_txn c" "same_session c c1"
    using r(2) Cons.prems(2) by (auto simp: \<open>r = s\<close> same_session_def fun_upd_idem)
  then have "map_of (d_registry (k_working c1)) sid = Some (s\<lparr>s_lifecycle_state := n\<rparr>)" by simp
  from Cons.IH[OF rest this] obtain reg where reg: "k_working c' = (k_working c1)\<lparr>d_registry := reg\<rparr>"
    "map_of reg = (map_of (d_registry (k_working c1)))(sid \<mapsto> (s\<lparr>s_lifecycle_state := n\<rparr>)
       \<lparr>s_lifecycle_state := last (s_lifecycle_state (s\<lparr>s_lifecycle_state := n\<rparr>) # ns)\<rparr>)"
    "k_committed c' = k_committed c1" "k_txn c' = k_txn c1" "same_session c1 c'"
    by (elim exE conjE) (rule that)
  have "k_working c' = (k_working c)\<lparr>d_registry := reg\<rparr>"
    unfolding reg(1) by (subst c1(1)) simp
  moreover have "map_of reg = (map_of (d_registry (k_working c)))(sid \<mapsto> s\<lparr>s_lifecycle_state := last (s_lifecycle_state s # n # ns)\<rparr>)"
    unfolding reg(2) reg1 by simp
  ultimately show ?case
    using reg(3-5) c1(2-4) by (intro exI[of _ reg]) (simp add: same_session_def)
qed

section \<open>Unassigning\<close>

text \<open>A row that nobody owns any more, one epoch later.\<close>

definition released :: "ownership_row \<Rightarrow> ownership_row option \<Rightarrow> bool" where
  "released old new \<longleftrightarrow> (\<exists>r. new = Some r \<and> o_engine (w_own r) = NONE \<and> o_shadow_engine (w_own r) = None \<and>
     o_epoch (w_own r) = o_epoch (w_own old) + 1)"

lemma unassign_rows_Inr:
  assumes "unassign_rows c ctx rows d = Inr d'" and "distinct (map fst rows)" and "list_all row_ok rows"
  shows "d' = d\<lparr>d_ownership := d_ownership d', d_audit := d_audit d'\<rparr> \<and>
    (\<forall>k. case map_of rows k of
       None \<Rightarrow> map_of (d_ownership d') k = map_of (d_ownership d) k
     | Some row \<Rightarrow> released row (map_of (d_ownership d') k))"
  using assms
proof (induction rows arbitrary: d)
  case (Cons kr rows)
  obtain k row where kr: "kr = (k, row)" by (cases kr)
  from Cons.prems(1) obtain d1 where up: "update_ownership_row c ctx row (unassigned row) d = Inr d1"
    and rest: "unassign_rows c ctx rows d1 = Inr d'"
    by (auto simp: kr rbind_Inr_iff)
  from up obtain new where g: "guard_ownership_update (c\<lparr>k_working := d\<rparr>) row (unassigned row) = Inr new"
    and d1: "d1 = d\<lparr>d_ownership := AList.update (own_key (w_own new)) new (d_ownership d),
             d_audit := d_audit d @ audit_ownership_change c ctx row new\<rparr>"
    by (rule update_ownership_row_Inr)
  have key: "own_key (w_own new) = k"
    using guard_ownership_update_facts(1)[OF g] Cons.prems(3) kr by (simp add: row_ok_def)
  have new: "released row (Some new)"
    using guard_ownership_update_facts(2,3,5)[OF g] by (simp add: unassigned_def released_def)
  have own1: "map_of (d_ownership d1) = (map_of (d_ownership d))(k \<mapsto> new)" by (simp add: d1 key)
  have IH: "d' = d1\<lparr>d_ownership := d_ownership d', d_audit := d_audit d'\<rparr> \<and>
    (\<forall>k. case map_of rows k of None \<Rightarrow> map_of (d_ownership d') k = map_of (d_ownership d1) k
     | Some row \<Rightarrow> released row (map_of (d_ownership d') k))"
    using Cons.prems(2,3) by (intro Cons.IH[OF rest]) simp_all
  have k: "map_of rows k = None" using Cons.prems(2) by (simp add: kr map_of_eq_None_iff)
  have "d' = d\<lparr>d_ownership := d_ownership d', d_audit := d_audit d'\<rparr>"
    by (subst IH[THEN conjunct1]) (simp add: d1)
  moreover have "case map_of (kr # rows) j of
       None \<Rightarrow> map_of (d_ownership d') j = map_of (d_ownership d) j
     | Some row \<Rightarrow> released row (map_of (d_ownership d') j)" for j
    using IH[THEN conjunct2, THEN spec, of j] k own1 new by (cases "j = k") (simp_all add: kr split: option.splits)
  ultimately show ?case by blast
qed simp

lemma unassign_source_Inr:
  assumes "unassign_source sid ctx c = (Inr u, c')" and "wf_db (k_working c)"
  obtains d' where "c' = c\<lparr>k_working := d'\<rparr>"
    "d' = (k_working c)\<lparr>d_ownership := d_ownership d', d_audit := d_audit d'\<rparr>"
    "\<And>k. fst k \<noteq> sid \<Longrightarrow> map_of (d_ownership d') k = map_of (d_ownership (k_working c)) k"
    "\<And>k old. fst k = sid \<Longrightarrow> map_of (d_ownership (k_working c)) k = Some old \<Longrightarrow> released old (map_of (d_ownership d') k)"
    "\<And>k. map_of (d_ownership (k_working c)) k = None \<Longrightarrow> map_of (d_ownership d') k = None"
proof -
  let ?rows = "filter (\<lambda>kr. fst (fst kr) = sid) (d_ownership (k_working c))"
  from assms(1) obtain d' where c': "c' = c\<lparr>k_working := d'\<rparr>"
    and un: "unassign_rows c ctx ?rows (k_working c) = Inr d'"
    by (auto simp: unassign_source_def sx_simps rbind_Inr_iff rbind_def split: sum.splits)
  have "distinct (map fst ?rows)" "list_all row_ok ?rows"
    using assms(2) by (auto simp: wf_db_def distinct_map_filter list_all_iff)
  note un' = unassign_rows_Inr[OF un this]
  have rows: "map_of ?rows k = (if fst k = sid then map_of (d_ownership (k_working c)) k else None)" for k
    using map_of_filter_fst[of "\<lambda>k. fst k = sid" "d_ownership (k_working c)" k] by simp
  show thesis
  proof (rule that[OF c' un'[THEN conjunct1]])
    fix k
    note at = un'[THEN conjunct2, THEN spec, of k]
    show "fst k \<noteq> sid \<Longrightarrow> map_of (d_ownership d') k = map_of (d_ownership (k_working c)) k"
      using at by (simp add: rows)
    show "fst k = sid \<Longrightarrow> map_of (d_ownership (k_working c)) k = Some old \<Longrightarrow> released old (map_of (d_ownership d') k)" for old
      using at by (simp add: rows)
    show "map_of (d_ownership (k_working c)) k = None \<Longrightarrow> map_of (d_ownership d') k = None"
      using at by (simp add: rows split: if_splits)
  qed
qed

section \<open>The retiring transaction\<close>

text \<open>
  What the transaction promises: every table of the source is released, its raw and shadow copies
  and its bookkeeping are gone, it is retired, a later registration starts above its generation;
  rows of other sources stay.
\<close>

definition retired :: "contract \<Rightarrow> string \<Rightarrow> db \<Rightarrow> db \<Rightarrow> bool" where
  "retired ct sid d d' \<longleftrightarrow>
     (\<forall>k. fst k \<noteq> sid \<or> map_of (d_ownership d) k = None \<longrightarrow> map_of (d_ownership d') k = map_of (d_ownership d) k) \<and>
     (\<forall>k old. fst k = sid \<and> map_of (d_ownership d) k = Some old \<longrightarrow> released old (map_of (d_ownership d') k)) \<and>
     (\<forall>k. map_of (d_raw d') k = (if purged_key ct sid k then None else map_of (d_raw d) k)) \<and>
     (\<forall>k. map_of (d_shadow d') k = (if purged_key ct sid k then None else map_of (d_shadow d) k)) \<and>
     (\<forall>k. map_of (d_watermarks d') k = (if fst k = sid then None else map_of (d_watermarks d) k)) \<and>
     (\<forall>x. x \<noteq> sid \<longrightarrow> map_of (d_registry d') x = map_of (d_registry d) x \<and> map_of (d_floor d') x = map_of (d_floor d) x) \<and>
     (case map_of (d_registry d) sid of
        None \<Rightarrow> map_of (d_registry d') sid = None
      | Some s \<Rightarrow> map_of (d_registry d') sid = Some (s\<lparr>s_lifecycle_state := ''RETIRED''\<rparr>) \<and>
          s_capture_generation s < generation_floor d' sid)"

lemma last_lifecycle_path: "last (st # lifecycle_path st) = ''RETIRED''"
  by (simp add: lifecycle_path_def)

lemma raise_floor_run:
  "raise_floor sid g c = (Inr (), c\<lparr>k_working := (k_working c)\<lparr>d_floor := AList.update sid
     (case map_of (d_floor (k_working c)) sid of None \<Rightarrow> g | Some f \<Rightarrow> max f g) (d_floor (k_working c))\<rparr>\<rparr>)"
  by (simp add: raise_floor_def sx_simps Let_def)

lemma close_source_Inr:
  assumes "close_source sid (map_of (d_registry (k_working c)) sid) c = (Inr u, c')"
  obtains reg fl where "k_working c' = (k_working c)\<lparr>d_registry := reg, d_floor := fl\<rparr>"
    "\<And>x. x \<noteq> sid \<Longrightarrow> map_of reg x = map_of (d_registry (k_working c)) x \<and> map_of fl x = map_of (d_floor (k_working c)) x"
    "case map_of (d_registry (k_working c)) sid of None \<Rightarrow> map_of reg sid = None
      | Some s \<Rightarrow> map_of reg sid = Some (s\<lparr>s_lifecycle_state := ''RETIRED''\<rparr>) \<and>
          (\<exists>g. map_of fl sid = Some g \<and> s_capture_generation s < g)"
proof (cases "map_of (d_registry (k_working c)) sid")
  case None
  with assms have "c' = c" by (simp add: close_source_def sx_simps)
  with None show thesis by (intro that[of "d_floor (k_working c)" "d_registry (k_working c)"]) simp_all
next
  case (Some s)
  define fl where "fl = AList.update sid (case map_of (d_floor (k_working c)) sid of None \<Rightarrow> s_capture_generation s + 1
    | Some f \<Rightarrow> max f (s_capture_generation s + 1)) (d_floor (k_working c))"
  let ?c1 = "c\<lparr>k_working := (k_working c)\<lparr>d_floor := fl\<rparr>\<rparr>"
  from assms obtain us where "sfor (lifecycle_path (s_lifecycle_state s)) (set_lifecycle sid) ?c1 = (Inr us, c')"
    by (auto simp: Some close_source_def sbind_def raise_floor_run fl_def[symmetric] sx_simps split: prod.splits sum.splits)
  from walk_Inr[OF this, of s] Some obtain reg where reg: "k_working c' = (k_working ?c1)\<lparr>d_registry := reg\<rparr>"
    "map_of reg = (map_of (d_registry (k_working c)))(sid \<mapsto> s\<lparr>s_lifecycle_state := ''RETIRED''\<rparr>)"
    by (auto simp only: last_lifecycle_path) auto
  show thesis
    by (rule that[of fl reg]) (auto simp: reg Some fl_def split: option.splits)
qed

lemma purge_source_run:
  "fst (purge_source ct sid c) = Inr (int (length (filter (\<lambda>kr. purged_key ct sid (fst kr)) (d_raw (k_working c)))),
     derived_counts sid (k_working c))"
  "k_committed (snd (purge_source ct sid c)) = k_committed c"
  "d_ownership (k_working (snd (purge_source ct sid c))) = d_ownership (k_working c)"
  "d_registry (k_working (snd (purge_source ct sid c))) = d_registry (k_working c)"
  "d_floor (k_working (snd (purge_source ct sid c))) = d_floor (k_working c)"
  "map_of (d_raw (k_working (snd (purge_source ct sid c)))) k =
     (if purged_key ct sid k then None else map_of (d_raw (k_working c)) k)"
  "map_of (d_shadow (k_working (snd (purge_source ct sid c)))) k =
     (if purged_key ct sid k then None else map_of (d_shadow (k_working c)) k)"
  "map_of (d_watermarks (k_working (snd (purge_source ct sid c)))) w =
     (if fst w = sid then None else map_of (d_watermarks (k_working c)) w)"
  using map_of_filter_fst[of "\<lambda>k. \<not> purged_key ct sid k" "d_raw (k_working c)" k]
    map_of_filter_fst[of "\<lambda>k. \<not> purged_key ct sid k" "d_shadow (k_working c)" k]
    map_of_filter_fst[of "\<lambda>k. fst k \<noteq> sid" "d_watermarks (k_working c)" w]
  by (simp_all add: purge_source_def sx_simps Let_def)

lemma audit_retirement_run:
  obtains au where "audit_retirement sid actor ap s c = (Inr (), c\<lparr>k_working := (k_working c)\<lparr>d_audit := au\<rparr>\<rparr>)"
  by (simp add: audit_retirement_def sx_simps Let_def)

lemma empty_source_Inr:
  assumes "empty_source ct sid existing actor ap c = (Inr summary, c')" and wf: "wf_db (k_working c)"
  obtains "k_working c' = k_committed c'" "d_registry (k_committed c') = d_registry (k_working c)"
    "d_floor (k_committed c') = d_floor (k_working c)"
    "\<And>k. fst k \<noteq> sid \<or> map_of (d_ownership (k_working c)) k = None \<Longrightarrow>
       map_of (d_ownership (k_committed c')) k = map_of (d_ownership (k_working c)) k"
    "\<And>k old. fst k = sid \<Longrightarrow> map_of (d_ownership (k_working c)) k = Some old \<Longrightarrow>
       released old (map_of (d_ownership (k_committed c')) k)"
    "\<And>k. map_of (d_raw (k_committed c')) k = (if purged_key ct sid k then None else map_of (d_raw (k_working c)) k)"
    "\<And>k. map_of (d_shadow (k_committed c')) k = (if purged_key ct sid k then None else map_of (d_shadow (k_working c)) k)"
    "\<And>k. map_of (d_watermarks (k_committed c')) k = (if fst k = sid then None else map_of (d_watermarks (k_working c)) k)"
proof -
  from assms(1) obtain u2 c2 where un: "unassign_source sid (retire_ctx actor ap) c = (Inr u2, c2)"
    unfolding empty_source_def by (rule sbind_InrE)
  from un wf obtain d2 where c2: "c2 = c\<lparr>k_working := d2\<rparr>"
    and d2: "d2 = (k_working c)\<lparr>d_ownership := d_ownership d2, d_audit := d_audit d2\<rparr>"
    and rel: "\<And>k. fst k \<noteq> sid \<Longrightarrow> map_of (d_ownership d2) k = map_of (d_ownership (k_working c)) k"
      "\<And>k old. fst k = sid \<Longrightarrow> map_of (d_ownership (k_working c)) k = Some old \<Longrightarrow> released old (map_of (d_ownership d2) k)"
      "\<And>k. map_of (d_ownership (k_working c)) k = None \<Longrightarrow> map_of (d_ownership d2) k = None"
    by (rule unassign_source_Inr) (rule that)
  have f2: "d_registry d2 = d_registry (k_working c)" "d_floor d2 = d_floor (k_working c)" "d_raw d2 = d_raw (k_working c)"
    "d_shadow d2 = d_shadow (k_working c)" "d_watermarks d2 = d_watermarks (k_working c)"
    by (subst d2, simp)+
  define c3 where "c3 = snd (purge_source ct sid c2)"
  have "purge_source ct sid c2 = (Inr (int (length (filter (\<lambda>kr. purged_key ct sid (fst kr)) (d_raw (k_working c2)))),
     derived_counts sid (k_working c2)), c3)"
    by (rule prod_eqI) (simp_all add: purge_source_run c3_def)
  moreover obtain au where "audit_retirement sid actor ap ((''raw_rows'',
      int (length (filter (\<lambda>kr. purged_key ct sid (fst kr)) (d_raw (k_working c2))))) # derived_counts sid (k_working c2)) c3 =
      (Inr (), c3\<lparr>k_working := (k_working c3)\<lparr>d_audit := au\<rparr>\<rparr>)"
    by (rule audit_retirement_run)
  ultimately have c': "c' = c3\<lparr>k_working := (k_working c3)\<lparr>d_audit := au\<rparr>,
      k_committed := (k_working c3)\<lparr>d_audit := au\<rparr>, k_txn := k_txn c3 + 1\<rparr>"
    using assms(1) un by (simp add: empty_source_def sbind_def sx_simps)
  note p3 = purge_source_run[of ct sid c2, folded c3_def]
  have own: "d_ownership (k_committed c') = d_ownership d2" using p3(3) by (simp add: c' c2)
  show thesis
  proof (rule that)
    show "fst k \<noteq> sid \<or> map_of (d_ownership (k_working c)) k = None \<Longrightarrow>
       map_of (d_ownership (k_committed c')) k = map_of (d_ownership (k_working c)) k" for k
      unfolding own using rel(1)[of k] rel(3)[of k] by (elim disjE) simp_all
    show "fst k = sid \<Longrightarrow> map_of (d_ownership (k_working c)) k = Some old \<Longrightarrow>
       released old (map_of (d_ownership (k_committed c')) k)" for k old
      unfolding own by (rule rel(2))
  qed (simp_all add: c' p3 c2 f2)
qed

lemma retire_body_Inr:
  assumes "retire_body ct sid (map_of (d_registry (k_working c)) sid) actor ap c = (Inr summary, c')"
    and wf: "wf_db (k_working c)"
  shows "retired ct sid (k_working c) (k_committed c')" and "k_working c' = k_committed c'"
proof -
  let ?d = "k_working c"
  from assms(1) obtain u1 c1 where cl: "close_source sid (map_of (d_registry ?d) sid) c = (Inr u1, c1)"
    and em: "empty_source ct sid (map_of (d_registry ?d) sid) actor ap c1 = (Inr summary, c')"
    unfolding retire_body_def by (rule sbind_InrE)
  from cl obtain reg fl where d1: "k_working c1 = ?d\<lparr>d_registry := reg, d_floor := fl\<rparr>"
    and other: "\<And>x. x \<noteq> sid \<Longrightarrow> map_of reg x = map_of (d_registry ?d) x \<and> map_of fl x = map_of (d_floor ?d) x"
    and own: "case map_of (d_registry ?d) sid of None \<Rightarrow> map_of reg sid = None
      | Some s \<Rightarrow> map_of reg sid = Some (s\<lparr>s_lifecycle_state := ''RETIRED''\<rparr>) \<and>
          (\<exists>g. map_of fl sid = Some g \<and> s_capture_generation s < g)"
    by (rule close_source_Inr) (rule that)
  have "wf_db (k_working c1)" using wf by (simp add: d1 wf_db_def)
  note em' = empty_source_Inr[OF em this]
  show "k_working c' = k_committed c'" by (rule em')
  show "retired ct sid ?d (k_committed c')"
    unfolding retired_def
  proof (rule em', intro conjI)
    assume "d_registry (k_committed c') = d_registry (k_working c1)" and "d_floor (k_committed c') = d_floor (k_working c1)"
    then show "case map_of (d_registry ?d) sid of None \<Rightarrow> map_of (d_registry (k_committed c')) sid = None
      | Some s \<Rightarrow> map_of (d_registry (k_committed c')) sid = Some (s\<lparr>s_lifecycle_state := ''RETIRED''\<rparr>) \<and>
          s_capture_generation s < generation_floor (k_committed c') sid"
      using own by (auto simp: generation_floor_def get_or_def d1 split: option.splits)
  qed (simp_all add: d1 other)
qed

lemma retire_body_Inl:
  assumes "retire_body ct sid existing actor ap c = (Inl e, c')"
  shows "k_committed c' = k_committed c"
proof -
  let ?I = "\<lambda>x. k_committed x = k_committed c"
  have floor: "keeps ?I (raise_floor sid g)" for g by (simp add: keeps_def raise_floor_run)
  have life: "keeps ?I (set_lifecycle sid st)" for st
    unfolding set_lifecycle_def get_source_def Let_def
    by (intro keeps_intros)
  have "keeps ?I (close_source sid existing)"
    unfolding close_source_def by (intro keeps_intros floor life)
  moreover have "keeps ?I (unassign_source sid (retire_ctx actor ap))"
    by (auto simp: keeps_def unassign_source_def sx_simps split: sum.splits prod.splits)
  ultimately show ?thesis
    using assms
    by (auto simp: retire_body_def empty_source_def sbind_def purge_source_def audit_retirement_def sx_simps Let_def
        split: prod.splits sum.splits dest: keeps_run)
qed

section \<open>Retiring a source\<close>

lemma lookup_source_run: "lookup_source sid c = (Inr (map_of (d_registry (k_working c)) sid), c)"
  by (simp add: lookup_source_def get_source_def scatch_def sbind_def sx_simps split: option.splits)

lemma keeps_conn_drop_slots [keeps_intros]: "keeps (\<lambda>y. y_conn y = c) (drop_slots env api s keep)"
  by (auto simp: keeps_def) (metis drop_slots_conn prod.collapse)

lemma keeps_conn_delete_names [keeps_intros]: "keeps (\<lambda>y. y_conn y = c) (delete_names api cl ns)"
  by (induction ns) (auto intro!: keeps_intros split: option.splits)

lemma keeps_conn_delete_connectors [keeps_intros]: "keeps (\<lambda>y. y_conn y = c) (delete_connectors api sid cl)"
  unfolding delete_connectors_def by (intro keeps_intros)

lemma keeps_conn_drop_until [keeps_intros]: "keeps (\<lambda>y. y_conn y = c) (drop_until env api s n)"
proof (induction n)
  case 0
  show ?case by (subst drop_until.simps) (auto intro!: keeps_intros)
next
  case (Suc n)
  show ?case by (subst drop_until.simps) (auto intro!: keeps_intros Suc.IH split: prod.splits)
qed

lemma keeps_conn_retire_artifacts: "keeps (\<lambda>y. y_conn y = c) (retire_artifacts env api z n s)"
  unfolding retire_artifacts_def by (auto intro!: keeps_intros split: prod.splits)

text \<open>What may still happen to the registry entry after the transaction.\<close>

definition tombstoned :: "string \<Rightarrow> db \<Rightarrow> db" where
  "tombstoned sid d = (case map_of (d_registry d) sid of None \<Rightarrow> d
     | Some s \<Rightarrow> d\<lparr>d_registry := AList.update sid
         (s\<lparr>s_labels := AList.update ''forget_after_cleanup'' (LBool True) (s_labels s)\<rparr>) (d_registry d)\<rparr>)"

definition entry_settled :: "bool \<Rightarrow> string \<Rightarrow> db \<Rightarrow> db \<Rightarrow> bool" where
  "entry_settled forget sid d d' \<longleftrightarrow>
     (if forget \<and> map_of (d_registry d) sid \<noteq> None then delete_source sid d = Inr d' \<or> d' = tombstoned sid d else d' = d)"

lemma forget_or_keep_settled:
  assumes "forget_or_keep forget clean sid sm c = (r, c')" and "k_working c = k_committed c"
    and "map_of (d_registry (k_committed c)) sid \<noteq> None"
  shows "k_committed c' = k_committed c \<and> (\<exists>e. r = Inl e) \<or> entry_settled forget sid (k_committed c) (k_committed c')"
  using assms
  by (auto simp: forget_or_keep_def entry_settled_def tombstoned_def keep_tombstone_def sbind_def sx_simps Let_def
      rbind_Inr_iff split: if_splits prod.splits sum.splits option.splits)

lemma released_deletable:
  assumes "retired ct sid d d'" and "wf_db d'"
  shows "\<exists>d''. delete_source sid d' = Inr d''"
proof -
  have "\<not> owns_something sid (k, row)" if "(k, row) \<in> set (d_ownership d')" for k row
  proof
    assume own: "owns_something sid (k, row)"
    have row: "map_of (d_ownership d') k = Some row" using that assms(2) by (simp add: wf_db_def)
    have k: "fst k = sid" using own by (simp add: owns_something_def)
    show False
    proof (cases "map_of (d_ownership d) k")
      case None
      with assms(1) have "map_of (d_ownership d') k = None" unfolding retired_def by metis
      with row show False by simp
    next
      case (Some old)
      with assms(1) k have "released old (map_of (d_ownership d') k)" unfolding retired_def by blast
      with row own show False by (simp add: released_def owns_something_def)
    qed
  qed
  then show ?thesis by (auto simp: delete_source_def list_ex_iff guard_def)
qed

lemma retired_registered: "retired ct sid d d' \<Longrightarrow> map_of (d_registry d') sid = None \<longleftrightarrow> map_of (d_registry d) sid = None"
  by (auto simp: retired_def split: option.splits)

lemma clean_up_settled:
  assumes "clean_up env api settings n sid forget existing sm y = (r, y')"
    and "k_working (y_conn y) = k_committed (y_conn y)"
    and "existing = None \<longleftrightarrow> map_of (d_registry (k_committed (y_conn y))) sid = None"
  shows "(\<exists>e. r = Inl e) \<and> k_committed (y_conn y') = k_committed (y_conn y) \<or>
    entry_settled forget sid (k_committed (y_conn y)) (k_committed (y_conn y'))"
proof (cases existing)
  case None
  with assms show ?thesis by (simp add: clean_up_def sx_simps entry_settled_def)
next
  case (Some s)
  define arts where "arts = (case settings of None \<Rightarrow> sret (sm, True)
     | Some z \<Rightarrow> sbind (retire_artifacts env api z n s) (\<lambda>af. sbind (on_conn rollback) (\<lambda>_.
         sret (sm\<lparr>rs_artifacts := Some af\<rparr>, af_slots_remaining af = [] \<and> af_errors af = []))))"
  let ?I = "\<lambda>x. k_committed (y_conn x) = k_committed (y_conn y) \<and> k_working (y_conn x) = k_committed (y_conn x)"
  have art: "keeps ?I (retire_artifacts env api z n s)" for z
    unfolding keeps_def using keeps_conn_retire_artifacts[THEN keepsD] by metis
  have roll: "keeps ?I (on_conn rollback)" by (simp add: keeps_def sx_simps)
  have "keeps ?I arts"
    unfolding arts_def by (intro keeps_intros art roll)
  then have keep: "arts y = (q, y1) \<Longrightarrow> ?I y1" for q y1 by (rule keeps_run) (simp_all add: assms(2))
  from assms(1) Some have run: "sbind arts (\<lambda>(summary', clean). on_conn (forget_or_keep forget clean sid summary')) y = (r, y')"
    by (simp add: clean_up_def arts_def)
  show ?thesis
  proof (cases "arts y")
    case (Pair q y1)
    note I1 = keep[OF Pair]
    show ?thesis
    proof (cases q)
      case (Inl e)
      with Pair run I1 show ?thesis by (auto simp: sbind_def)
    next
      case (Inr sc)
      with Pair run have "forget_or_keep forget (snd sc) sid (fst sc) (y_conn y1) = (r, y_conn y')"
        by (auto simp: sbind_def sx_simps split_beta)
      from forget_or_keep_settled[OF this] I1 assms(3) Some show ?thesis by auto
    qed
  qed
qed

lemma retire_source_run:
  assumes "k_working (y_conn y) = k_committed (y_conn y)"
  defines "c0 \<equiv> (y_conn y)\<lparr>k_working := k_committed (y_conn y), k_txn := k_txn (y_conn y) + 1\<rparr>"
  shows "retire_source env api ct settings n sid forget False actor ap y =
    (if \<not> k_admin (y_conn y) then (Inl (PermissionError admin_message), y\<lparr>y_conn := c0\<lparr>k_txn := k_txn c0 + 1\<rparr>\<rparr>)
     else sbind (on_conn (son_error (retire_body ct sid (map_of (d_registry (k_committed (y_conn y))) sid) actor ap) rollback))
       (clean_up env api settings n sid forget (map_of (d_registry (k_committed (y_conn y))) sid)) (y\<lparr>y_conn := c0\<rparr>))"
  using assms(1) by (simp add: retire_source_def sbind_def sx_simps lookup_source_run c0_def)

lemma retire_committed:
  assumes "on_conn (son_error (retire_body ct sid (map_of (d_registry (k_committed (y_conn y))) sid) actor ap) rollback) y = (r, y')"
    and "k_working (y_conn y) = k_committed (y_conn y)" and "wf_db (k_committed (y_conn y))"
  shows "case r of Inl e \<Rightarrow> k_committed (y_conn y') = k_committed (y_conn y)
    | Inr sm \<Rightarrow> retired ct sid (k_committed (y_conn y)) (k_committed (y_conn y')) \<and>
        k_working (y_conn y') = k_committed (y_conn y')"
proof -
  let ?m = "retire_body ct sid (map_of (d_registry (k_committed (y_conn y))) sid) actor ap"
  have run: "son_error ?m rollback (y_conn y) = (r, y_conn y')"
    using assms(1) by (auto simp: sx_simps)
  show ?thesis
  proof (cases r)
    case (Inl e)
    with run obtain c1 where "?m (y_conn y) = (Inl e, c1)"
      and "y_conn y' = c1\<lparr>k_working := k_committed c1, k_txn := k_txn c1 + 1\<rparr>"
      by (auto elim: son_error_rollback)
    with retire_body_Inl Inl show ?thesis by auto
  next
    case (Inr sm)
    with run have "?m (y_conn y) = (Inr sm, y_conn y')"
      by (auto simp: son_error_def split: prod.splits sum.splits)
    with retire_body_Inr[of ct sid "y_conn y" actor ap sm "y_conn y'"] assms(2,3) Inr show ?thesis by simp
  qed
qed


text \<open>
  Without the administrator role retirement is refused before anything happens: the committed
  database and everything outside stay as they were, also on the dry run, which only counts.
\<close>

theorem retire_needs_admin:
  assumes "dry_run \<or> \<not> k_admin (y_conn y)"
    and "k_working (y_conn y) = k_committed (y_conn y)"
  shows "k_committed (y_conn (snd (retire_source env api ct settings n sid forget dry_run actor ap y))) = k_committed (y_conn y) \<and>
    y_world (snd (retire_source env api ct settings n sid forget dry_run actor ap y)) = y_world y \<and>
    (dry_run \<or> fst (retire_source env api ct settings n sid forget dry_run actor ap y) = Inl (PermissionError admin_message))"
proof -
  have dry: "k_committed (y_conn (snd (retire_source env api ct settings n sid forget True actor ap y))) = k_committed (y_conn y)"
    "y_world (snd (retire_source env api ct settings n sid forget True actor ap y)) = y_world y"
    by (simp_all add: retire_source_def dry_run_summary_def sbind_def sx_simps lookup_source_run)
  note run = retire_source_run[OF assms(2), of env api ct settings n sid forget actor ap]
  show ?thesis using assms(1) dry run by (cases dry_run) simp_all
qed

end
