(* ===== verification/Tasks.thy ===== *)
theory Tasks
  imports Fencing Retire
begin

text \<open>
  \<^verbatim>\<open>src/controlplane/tasks.py\<close>, the entry points the Airflow DAGs call, and the function
  \<^verbatim>\<open>authenticated_actor\<close> of \<^verbatim>\<open>src/airflow/dags/fbi_source_lifecycle.py\<close>.

  Every task opens a warehouse connection of its own and closes it, which discards what is not committed.
  What onboarding asks the new source (version, views, tables, replication rights) and the
  contents of the sources are outside.  Messages that quote a Python list end before the list.

  Shown: the shards cover every source once; onboarding leaves registered sources and owned tables alone, validates
  before it writes, and on success ends with the source active and every table owned; two ways in
  which it does not do what the documentation says.
\<close>

section \<open>Sessions\<close>

text \<open>\<^verbatim>\<open>conn = _wh()\<close>, \<^verbatim>\<open>try: m finally: conn.close()\<close>; \<open>discard\<close> drops what the session did not commit.\<close>

definition session :: "os_env \<Rightarrow> ('s, unit) sx \<Rightarrow> ('s, 'a) sx \<Rightarrow> ('s, 'a) sx" where
  "session env discard m =
     sbind (slift (warehouse_config_from_env env ''fbi-airflow'' False)) (\<lambda>_.
     sbind discard (\<lambda>_. sfinally m discard))"

section \<open>Shards\<close>

definition or_env :: "os_env \<Rightarrow> int option \<Rightarrow> string \<Rightarrow> string \<Rightarrow> int result" where
  "or_env env n name dflt = (case n of None \<Rightarrow> env_int env name dflt | Some k \<Rightarrow> if k = 0 then env_int env name dflt else Inr k)"

text \<open>\<^verbatim>\<open>math.ceil(total / max(1, shard_size))\<close> for counts that a float represents.\<close>

definition shards_for :: "int \<Rightarrow> int \<Rightarrow> int \<Rightarrow> int" where
  "shards_for sources shard_size max_shards = max 1 (min max_shards (- ((- sources) div max 1 shard_size)))"

definition shard_plan :: "os_env \<Rightarrow> int option \<Rightarrow> int option \<Rightarrow> (int \<times> int) list dbop" where
  "shard_plan env shard_size max_shards =
     sbind (slift (or_env env shard_size ''FBI_SHARD_SIZE'' ''200'')) (\<lambda>size.
     sbind (slift (or_env env max_shards ''FBI_MAX_SHARDS'' ''32'')) (\<lambda>most.
     sbind (session env rollback
       (sbind (sget (\<lambda>c. int (length (d_registry (k_working c))))) (\<lambda>sources.
        sbind commit (\<lambda>_. sret sources)))) (\<lambda>sources.
     let shards = shards_for sources size most in
     sret (map (\<lambda>i. (i, shards)) [0..shards - 1]))))"

definition reconcile_connectors_shard :: "(string \<Rightarrow> int) \<Rightarrow> (string \<Rightarrow> (string \<times> string) list result) \<Rightarrow> os_env \<Rightarrow> 'w connect_api \<Rightarrow>
    contract \<Rightarrow> int \<Rightarrow> int \<Rightarrow> bool \<Rightarrow> ('w sys, reconcile_report) sx" where
  "reconcile_connectors_shard hashtext json_dict env api ct index shards dry_run =
     session env (on_conn rollback)
       (sbind (slift (settings_from_env json_dict env)) (\<lambda>z.
        reconcile hashtext env api ct z (Some index) (Some shards) dry_run))"

section \<open>Batch ingestion\<close>

record ingest_summary =
  is_mode :: string
  is_sources :: nat
  is_succeeded :: nat
  is_partial :: "string list"
  is_rows_applied :: int

fun report_status :: "source_report \<Rightarrow> string" where
  "report_status (RunDone so) = so_status so"
| "report_status (RunFailed sid mode msg) = ''failed''"

fun report_rows :: "source_report \<Rightarrow> int" where
  "report_rows (RunDone so) = sum_list (map to_rows_applied (so_tables so))"
| "report_rows (RunFailed sid mode msg) = 0"

definition summarise :: "string \<Rightarrow> source_report list \<Rightarrow> ingest_summary" where
  "summarise mode rs =
     \<lparr>is_mode = mode, is_sources = length rs,
      is_succeeded = length (filter (\<lambda>r. report_status r \<in> {''success'', ''skipped''}) rs),
      is_partial = map report_source (filter (\<lambda>r. report_status r = ''partial'') rs),
      is_rows_applied = sum_list (map report_rows rs)\<rparr>"

definition python_ingest :: "nat \<Rightarrow> sql_cast \<Rightarrow> row_hash \<Rightarrow> (string \<Rightarrow> int) \<Rightarrow> string \<Rightarrow> os_env \<Rightarrow> contract \<Rightarrow> (string \<times> bool) \<Rightarrow>
    (string \<Rightarrow> source_db) \<Rightarrow> (string \<Rightarrow> string) \<Rightarrow> string \<Rightarrow> int \<Rightarrow> int option \<Rightarrow> string list \<Rightarrow> (xstate, ingest_summary option) sx" where
  "python_ingest fuel cast hash hashtext hostname env ct control dbs run_ids mode index shards source_ids =
     obind (run_sources fuel cast hash hashtext hostname env ct control dbs run_ids mode source_ids
        (case shards of None \<Rightarrow> None | Some n \<Rightarrow> if n = 0 then None else Some (index, n)) None None) (\<lambda>rs.
     let failed = filter (\<lambda>r. report_status r = ''failed'') rs in
     if failed \<noteq> [] then sraise (RuntimeError (''Python ingestion failed for '' @ int_str (int (length failed)) @ '' source(s)''))
     else sret (Some (summarise mode rs)))"

section \<open>Freshness\<close>

text \<open>\<^verbatim>\<open>meta.v_table_freshness\<close> for the production copy, the cast of a label to boolean, and the age in seconds.\<close>

definition last_applied :: "db \<Rightarrow> string \<Rightarrow> string \<Rightarrow> int option" where
  "last_applied d sid table =
     (case map (\<lambda>kp. pg_last_applied_at (snd kp)) (filter (\<lambda>((s, t, target, w), p). s = sid \<and> t = table \<and> target = ''prod'') (d_progress d)) of
        [] \<Rightarrow> None
      | x # xs \<Rightarrow> Some (foldl max x xs))"

definition sql_boolean :: "string \<Rightarrow> bool result" where
  "sql_boolean s = (let v = py_lower (py_strip s) in
     if v \<in> {''t'', ''tr'', ''tru'', ''true'', ''y'', ''ye'', ''yes'', ''on'', ''1''} then Inr True
     else if v \<in> {''f'', ''fa'', ''fal'', ''fals'', ''false'', ''n'', ''no'', ''of'', ''off'', ''0''} then Inr False
     else Inl (DatabaseError ''22P02'' (''invalid input syntax for type boolean: '' @ s)))"

fun label_boolean :: "label option \<Rightarrow> bool result" where
  "label_boolean None = Inr False"
| "label_boolean (Some (LBool b)) = Inr b"
| "label_boolean (Some (LText s)) = sql_boolean s"

definition age_seconds :: "int \<Rightarrow> int" where
  "age_seconds us = (if 0 \<le> us then (2 * us + 1000000) div 2000000 else - ((- 2 * us + 1000000) div 2000000))"

record breach =
  br_source :: string
  br_table :: string
  br_engine :: engine
  br_last_applied :: "int option"
  br_age :: "int option"

definition breach_of :: "conn \<Rightarrow> int \<Rightarrow> tkey \<times> ownership_row \<Rightarrow> breach list result" where
  "breach_of c slo kr =
     (let d = k_working c; sid = fst (fst kr); table = snd (fst kr); o1 = w_own (snd kr); at = last_applied d sid table in
      case map_of (d_registry d) sid of
        None \<Rightarrow> Inr []
      | Some s \<Rightarrow>
          if s_lifecycle_state s = ''ACTIVE'' \<and> o_engine o1 \<in> {PYTHON, KAFKA} \<and> o_cutover_state o1 \<noteq> PAUSED then
            rbind (label_boolean (map_of (s_labels s) ''synthetic'')) (\<lambda>synthetic.
            Inr (if \<not> synthetic \<and> (case at of None \<Rightarrow> True | Some t \<Rightarrow> t < now c - slo * 1000000)
                 then [\<lparr>br_source = sid, br_table = table, br_engine = o_engine o1, br_last_applied = at,
                        br_age = map_option (\<lambda>t. age_seconds (now c - t)) at\<rparr>] else []))
          else Inr [])"

definition freshness_breaches :: "os_env \<Rightarrow> int option \<Rightarrow> breach list dbop" where
  "freshness_breaches env slo_seconds =
     sbind (slift (or_env env slo_seconds ''FBI_FRESHNESS_SLO_SECONDS'' ''900'')) (\<lambda>slo.
     session env rollback
       (sbind (query (\<lambda>c. rbind (rmap (breach_of c slo) (d_ownership (k_working c))) (\<lambda>bs.
          Inr (take 500 (sort_key (\<lambda>b. case br_age b of None \<Rightarrow> (0, 0) | Some a \<Rightarrow> (1 :: int, - a)) (concat bs)))))) (\<lambda>rows.
        sbind commit (\<lambda>_. sret rows))))"

section \<open>Ownership changes\<close>

datatype tables_arg = AllTables | TablesText string | TablesList "string list"

definition table_list :: "contract \<Rightarrow> tables_arg \<Rightarrow> string list" where
  "table_list ct arg = (case arg of
      AllTables \<Rightarrow> table_names ct
    | TablesText s \<Rightarrow> if s \<in> {[], ''all''} then table_names ct else map py_strip (split_char CHR '','' s)
    | TablesList ts \<Rightarrow> ts)"

definition ownership_request :: "string \<Rightarrow> string \<Rightarrow> string \<Rightarrow> string option \<Rightarrow> string option \<Rightarrow> transition_request result" where
  "ownership_request action actor reason engine approved_by =
     rbind (parse_action action) (\<lambda>a.
     rbind (if given engine then rbind (parse_engine (the engine)) (\<lambda>e. Inr (Some e)) else Inr None) (\<lambda>e.
     Inr ((new_request a actor reason)\<lparr>r_engine := e, r_approved_by := approved_by\<rparr>)))"

definition apply_ownership_action :: "os_env \<Rightarrow> contract \<Rightarrow> string \<Rightarrow> tables_arg \<Rightarrow> string \<Rightarrow> string \<Rightarrow> string \<Rightarrow> string option \<Rightarrow>
    string option \<Rightarrow> transition_result list dbop" where
  "apply_ownership_action env ct sid tables action actor reason engine approved_by =
     session env rollback
       (sbind (slift (ownership_request action actor reason engine approved_by)) (\<lambda>req.
        apply_ownership ct sid (table_list ct tables) req))"

definition cutover_gate :: "os_env \<Rightarrow> contract \<Rightarrow> row_digest \<Rightarrow> string \<Rightarrow> string \<Rightarrow> string \<Rightarrow> int \<Rightarrow> int \<Rightarrow> gate_outcome list dbop" where
  "cutover_gate env ct digest sid tables actor settle_seconds max_discrepancies =
     session env rollback
       (run_cutover_gate ct digest sid (table_list ct (TablesText tables)) actor settle_seconds max_discrepancies)"

definition authenticated_actor :: "os_env \<Rightarrow> string option \<Rightarrow> string \<Rightarrow> string result" where
  "authenticated_actor env triggering_user requested =
     (if given triggering_user then Inr (the triggering_user)
      else if py_lower (getenv env ''FBI_REQUIRE_AUTHENTICATED_ACTOR'' ''false'') = ''true''
        then Inl (RuntimeError ''No authenticated triggering user on this run; refusing to trust requested_by'')
      else Inr requested)"

section \<open>Onboarding\<close>

text \<open>What a new source answers.\<close>

record source_probe =
  sp_connect :: "unit result"
  sp_version :: "int result"
  sp_views :: "string \<Rightarrow> string list result"
  sp_tables :: "string \<Rightarrow> string list result"
  sp_wal_level :: "string result"
  sp_replication :: "bool result"

record source_checks =
  ck_version :: int
  ck_wal_level :: "string option"
  ck_replication :: "bool option"
  ck_missing :: "string list"
  ck_ok :: bool

definition missing_tables :: "contract \<Rightarrow> string list \<Rightarrow> string list" where
  "missing_tables ct present = sorted_set (filter (\<lambda>t. t \<notin> set present) (table_names ct))"

definition validate_source :: "os_env \<Rightarrow> contract \<Rightarrow> source_probe \<Rightarrow> source_record \<Rightarrow> string \<Rightarrow> source_checks result" where
  "validate_source env ct sp s engine =
     rbind (resolve env (s_secret_ref s) (s_source_id s)) (\<lambda>_.
     rbind (sp_connect sp) (\<lambda>_.
     rbind (sp_version sp) (\<lambda>version.
     if engine = ''PYTHON'' then
       rbind (sp_views sp (s_compat_schema s)) (\<lambda>present.
       let missing = missing_tables ct present in
       Inr \<lparr>ck_version = version, ck_wal_level = None, ck_replication = None, ck_missing = missing, ck_ok = (missing = [])\<rparr>)
     else
       rbind (sp_wal_level sp) (\<lambda>wal.
       rbind (sp_replication sp) (\<lambda>replication.
       rbind (sp_tables sp (s_db_schema s)) (\<lambda>present.
       let missing = missing_tables ct present in
       Inr \<lparr>ck_version = version, ck_wal_level = Some wal, ck_replication = Some replication, ck_missing = missing,
            ck_ok = (wal = ''logical'' \<and> replication \<and> missing = [])\<rparr>))))))"

text \<open>The parameters of a run: \<open>None\<close> where the key is absent.\<close>

record onboard_params =
  op_engine :: "string option"
  op_source_id :: "string option"
  op_tenant_id :: "string option"
  op_display_name :: "string option"
  op_region :: "string option"
  op_db_host :: "string option"
  op_db_port :: "int option"
  op_db_name :: "string option"
  op_db_user :: "string option"
  op_secret_ref :: "string option"
  op_compat_schema :: "string option"
  op_connect_cluster :: "string option"
  op_labels :: "(string \<times> label) list"

definition text_or :: "string option \<Rightarrow> string \<Rightarrow> string" where
  "text_or x dflt = (if given x then the x else dflt)"

definition onboard_record :: "onboard_params \<Rightarrow> source_record result" where
  "onboard_record p =
     (case op_source_id p of
        None \<Rightarrow> Inl (KeyError ''source_id'')
      | Some sid \<Rightarrow> Inr ((new_source sid (text_or (op_tenant_id p) sid))
          \<lparr>s_display_name := op_display_name p, s_region := text_or (op_region p) ''default'', s_db_host := op_db_host p,
           s_db_port := (case op_db_port p of None \<Rightarrow> 5432 | Some n \<Rightarrow> if n = 0 then 5432 else n), s_db_name := op_db_name p,
           s_db_user := op_db_user p, s_secret_ref := op_secret_ref p,
           s_compat_schema := text_or (op_compat_schema p) ''bi_connector_source'',
           s_connect_cluster := text_or (op_connect_cluster p) ''default'', s_lifecycle_state := ''REQUESTED'',
           s_labels := op_labels p\<rparr>))"

definition refuse_registered :: "string \<Rightarrow> unit dbop" where
  "refuse_registered sid =
     scatch (sbind (get_source sid) (\<lambda>_.
         sraise (RuntimeError (''Source '' @ sid @ '' is already registered; onboarding never modifies an existing source''))))
       (\<lambda>e. case e of RegistryError _ \<Rightarrow> rollback | _ \<Rightarrow> sraise e)"

definition register_new :: "os_env \<Rightarrow> contract \<Rightarrow> source_record \<Rightarrow> string \<Rightarrow> string \<Rightarrow> unit dbop" where
  "register_new env ct r engine actor =
     (let sid = s_source_id r in
      sbind (create_source env r) (\<lambda>_.
      sbind commit (\<lambda>_.
      sbind (set_lifecycle sid ''VALIDATING'') (\<lambda>_.
      sbind (set_lifecycle sid ''PROVISIONING'') (\<lambda>_.
      sbind (ensure_rows sid (table_names ct)) (\<lambda>_.
      sbind commit (\<lambda>_.
      sbind (assign_unowned ct sid engine actor ''onboarding'') (\<lambda>_.
      sbind (set_lifecycle sid ''ACTIVE'') (\<lambda>_.
      commit)))))))))"

definition onboard_record_checked :: "os_env \<Rightarrow> contract \<Rightarrow> source_probe \<Rightarrow> source_record \<Rightarrow> string \<Rightarrow> string \<Rightarrow>
    (string \<times> string \<times> source_checks) dbop" where
  "onboard_record_checked env ct sp r engine actor =
     sbind (refuse_registered (s_source_id r)) (\<lambda>_.
     sbind (slift (validate_source env ct sp r engine)) (\<lambda>checks.
     if \<not> ck_ok checks then sraise (RuntimeError (''Source '' @ s_source_id r @ '' failed validation''))
     else sbind (register_new env ct r engine actor) (\<lambda>_. sret (s_source_id r, engine, checks))))"

definition onboard_source :: "os_env \<Rightarrow> contract \<Rightarrow> source_probe \<Rightarrow> onboard_params \<Rightarrow> string \<Rightarrow>
    (string \<times> string \<times> source_checks) dbop" where
  "onboard_source env ct sp p actor =
     (let engine = py_upper (get_or ''PYTHON'' (op_engine p)) in
      sbind (slift (onboard_record p)) (\<lambda>r.
      sbind (slift (validate env r)) (\<lambda>_.
      session env rollback (onboard_record_checked env ct sp r engine actor))))"

section \<open>Comparing sources with the warehouse\<close>

record check_entry =
  ce_source :: string
  ce_table :: string
  ce_reconciliation_id :: int
  ce_compared_rows :: int
  ce_discrepancies :: int
  ce_passed :: bool

definition comparable_source :: "source_record \<Rightarrow> bool" where
  "comparable_source s \<longleftrightarrow> given (s_db_host s) \<and> given (s_secret_ref s) \<and>
     \<not> (case map_of (s_labels s) ''synthetic'' of None \<Rightarrow> False | Some l \<Rightarrow> label_truthy l)"

definition check_table :: "sql_cast \<Rightarrow> row_hash \<Rightarrow> os_env \<Rightarrow> (string \<Rightarrow> source_table result) \<Rightarrow> source_record \<Rightarrow> int \<Rightarrow> int \<Rightarrow>
    table_contract \<Rightarrow> check_entry dbop" where
  "check_table cast hash env contents s bucket max_discrepancies t =
     sbind (slift (contents (tc_table_name t))) (\<lambda>st.
     sbind (source_vs_warehouse cast hash env st (s_source_id s) t bucket 50 False ''raw'') (\<lambda>q.
     sbind (record_run q (if passed q max_discrepancies then ''PASSED'' else ''FAILED'')) (\<lambda>rid.
     sret \<lparr>ce_source = s_source_id s, ce_table = tc_table_name t, ce_reconciliation_id = rid, ce_compared_rows = q_compared q,
           ce_discrepancies = discrepancies q, ce_passed = passed q max_discrepancies\<rparr>)))"

definition check_source :: "sql_cast \<Rightarrow> row_hash \<Rightarrow> os_env \<Rightarrow> contract \<Rightarrow> (string \<Rightarrow> unit result) \<Rightarrow> (string \<Rightarrow> string \<Rightarrow> source_table result) \<Rightarrow>
    (string \<times> string) list \<Rightarrow> int \<Rightarrow> int \<Rightarrow> source_record \<Rightarrow> check_entry list dbop" where
  "check_source cast hash env ct reach contents owned bucket max_discrepancies s =
     (let sid = s_source_id s in
      sbind (slift (resolve env (s_secret_ref s) sid)) (\<lambda>_.
      sbind (slift (reach sid)) (\<lambda>_.
      sfor (filter (\<lambda>t. (sid, tc_table_name t) \<in> set owned) (ct_tables ct))
        (check_table cast hash env (contents sid) s bucket max_discrepancies))))"

definition source_reconcile_shard :: "(string \<Rightarrow> int) \<Rightarrow> sql_cast \<Rightarrow> row_hash \<Rightarrow> os_env \<Rightarrow> contract \<Rightarrow> (string \<Rightarrow> unit result) \<Rightarrow>
    (string \<Rightarrow> string \<Rightarrow> source_table result) \<Rightarrow> int \<Rightarrow> int \<Rightarrow> int \<Rightarrow> nat dbop" where
  "source_reconcile_shard hashtext cast hash env ct reach contents index shards max_discrepancies =
     sbind (slift (env_int env ''RECONCILE_BUCKET_SIZE'' ''100000'')) (\<lambda>bucket.
     sbind (session env rollback
       (sbind (list_sources hashtext running_states None (Some index) (Some shards)) (\<lambda>sources.
        sbind (list_ownership None None) (\<lambda>owns.
        let owned = map (\<lambda>o1. (o_source_id o1, o_table_name o1)) (filter (\<lambda>o1. o_engine o1 \<in> {PYTHON, KAFKA}) owns) in
        sbind commit (\<lambda>_.
        sfor (filter comparable_source sources) (check_source cast hash env ct reach contents owned bucket max_discrepancies)))))) (\<lambda>results.
     let failures = filter (\<lambda>e. \<not> ce_passed e) (concat results) in
     if failures \<noteq> [] then sraise (RuntimeError (int_str (int (length failures)) @ '' table(s) failed source reconciliation''))
     else sret (length (concat results))))"

section \<open>Sessions keep what their work keeps\<close>

lemma keeps_session: "keeps I discard \<Longrightarrow> keeps I m \<Longrightarrow> keeps I (session env discard m)"
  unfolding session_def by (intro keeps_intros)

lemma session_Inr:
  assumes "session env rollback m c = (Inr x, c')"
  obtains c1 where "m (c\<lparr>k_working := k_committed c, k_txn := k_txn c + 1\<rparr>) = (Inr x, c1)"
    "k_committed c' = k_committed c1" "k_working c' = k_committed c1"
proof -
  obtain r c1 where m: "m (c\<lparr>k_working := k_committed c, k_txn := k_txn c + 1\<rparr>) = (r, c1)" by fastforce
  from assms have "r = Inr x" "c' = c1\<lparr>k_working := k_committed c1, k_txn := k_txn c1 + 1\<rparr>"
    by (auto simp: session_def sbind_def sfinally_def sx_simps m[simplified] split: sum.splits)
  with m show thesis by (intro that) simp_all
qed

lemma session_committed:
  "k_committed (snd (session env rollback m c)) = k_committed c \<or>
   k_committed (snd (session env rollback m c)) = k_committed (snd (m (c\<lparr>k_working := k_committed c, k_txn := k_txn c + 1\<rparr>)))"
  by (auto simp: session_def sbind_def sfinally_def sx_simps split: sum.splits prod.splits)

section \<open>The shards of a run\<close>

lemma shard_plan_Inr:
  assumes "shard_plan env per most c = (Inr plan, c')"
  obtains n where "1 \<le> n" "plan = map (\<lambda>i. (i, n)) [0..n - 1]"
proof -
  from assms obtain sources a b where "plan = map (\<lambda>i. (i, shards_for sources a b)) [0..shards_for sources a b - 1]"
    unfolding shard_plan_def Let_def by (elim sbind_InrE) (auto simp: sx_simps)
  moreover have "1 \<le> shards_for sources a b" by (simp add: shards_for_def)
  ultimately show thesis by (rule that[rotated])
qed

text \<open>
  The shards of a run cover the registry: whatever the settings and the hash of the ids, every source
  belongs to exactly one shard of the plan, so a run over its shards handles each source once.
\<close>

theorem shard_plan_covers:
  assumes "shard_plan env per most c = (Inr plan, c')"
  shows "distinct plan \<and> (\<exists>!p. p \<in> set plan \<and> in_shard hashtext (Some (fst p)) (Some (snd p)) sid)"
  using assms
proof (rule shard_plan_Inr)
  fix n
  assume n: "1 \<le> n" and plan: "plan = map (\<lambda>i. (i, n)) [0..n - 1]"
  have "distinct plan" unfolding plan by (simp add: distinct_map inj_on_def)
  moreover have "\<exists>!p. p \<in> set plan \<and> in_shard hashtext (Some (fst p)) (Some (snd p)) sid"
    by (rule ex1I[of _ "(\<bar>hashtext sid\<bar> mod n, n)"]) (use n in \<open>auto simp: plan in_shard_def get_or_def\<close>)
  ultimately show ?thesis ..
qed

section \<open>What onboarding leaves alone\<close>

definition entries_kept :: "(string \<times> source_record) list \<Rightarrow> (string \<times> source_record) list \<Rightarrow> bool" where
  "entries_kept reg0 reg \<longleftrightarrow> (\<forall>s r. map_of reg0 s = Some r \<longrightarrow> map_of reg s = Some r)"

lemma keeps_register_new:
  assumes "map_of reg0 (s_source_id r) = None"
  shows "keeps (both (kept d0 (entries_kept reg0))) (register_new env ct r engine actor)"
proof -
  have new: "entries_kept reg0 (reg @ [(s_source_id r, r)])" if "entries_kept reg0 reg" for reg
    using that by (auto simp: entries_kept_def map_add_Some_iff)
  have old: "entries_kept reg0 (AList.update (s_source_id r) x reg)" if "entries_kept reg0 reg" for reg x
    using that assms by (auto simp: entries_kept_def update_conv')
  show ?thesis
    unfolding register_new_def Let_def by (intro keeps_intros keeps_owners new old)
qed

lemma refuse_registered_known:
  "map_of (d_registry (k_working c)) sid = Some r \<Longrightarrow> \<exists>msg. refuse_registered sid c = (Inl (RuntimeError msg), c)"
  by (simp add: refuse_registered_def scatch_def sbind_def get_source_def sx_simps)

lemma onboard_checked_kept:
  assumes "k_working c = d0" and "both (kept d0 (entries_kept (d_registry d0))) c"
  shows "both (kept d0 (entries_kept (d_registry d0))) (snd (onboard_record_checked env ct sp r engine actor c))"
proof (cases "map_of (d_registry d0) (s_source_id r)")
  case None
  have "keeps (both (kept d0 (entries_kept (d_registry d0)))) (onboard_record_checked env ct sp r engine actor)"
    unfolding onboard_record_checked_def refuse_registered_def
    by (auto intro!: keeps_intros keeps_owners keeps_register_new None split: py_exn.split)
  then show ?thesis using assms(2) by (rule keepsD)
next
  case (Some old)
  with refuse_registered_known[of c "s_source_id r" old] assms show ?thesis
    by (auto simp: onboard_record_checked_def sbind_def)
qed

text \<open>
  C12: Onboarding never modifies an existing source: whether it returns or raises, every registered source has the
  entry it had, and every table that has an owner keeps its ownership row, in what is committed.
\<close>

theorem onboarding_leaves_existing:
  assumes "wf_db (k_committed c)"
  shows "entries_kept (d_registry (k_committed c)) (d_registry (k_committed (snd (onboard_source env ct sp p actor c)))) \<and>
    owners_kept (k_committed c) (k_committed (snd (onboard_source env ct sp p actor c)))"
proof -
  let ?d0 = "k_committed c" and ?engine = "py_upper (get_or ''PYTHON'' (op_engine p))"
  have old: "kept ?d0 (entries_kept (d_registry ?d0)) ?d0" using assms by (simp add: kept_def entries_kept_def)
  have ses: "kept ?d0 (entries_kept (d_registry ?d0)) (k_committed (snd (session env rollback (onboard_record_checked env ct sp r ?engine actor) c)))" for r
    using session_committed[of env "onboard_record_checked env ct sp r ?engine actor" c]
      onboard_checked_kept[of "c\<lparr>k_working := ?d0, k_txn := k_txn c + 1\<rparr>" ?d0 env ct sp r ?engine actor] old
    by (auto simp: both_def)
  have "kept ?d0 (entries_kept (d_registry ?d0)) (k_committed (snd (onboard_source env ct sp p actor c)))"
    using old ses by (auto simp: onboard_source_def Let_def sbind_def sx_simps split: sum.splits)
  then show ?thesis by (simp add: kept_def)
qed

section \<open>What onboarding achieves\<close>

lemma create_source_Inr:
  assumes "create_source env r c = (Inr u, c')"
  shows "c' = c\<lparr>k_working := (k_working c)\<lparr>d_registry := d_registry (k_working c) @ [(s_source_id r, r)]\<rparr>\<rparr> \<and>
    map_of (d_registry (k_working c)) (s_source_id r) = None"
  using assms
  by (auto simp: create_source_def sbind_def sx_simps Let_def rbind_Inr_iff split: if_splits sum.splits)

lemma set_lifecycle_entry:
  assumes "set_lifecycle sid st c = (Inr u, c')" and "map_of (d_registry (k_working c)) sid = Some r"
  shows "map_of (d_registry (k_working c')) sid = Some (r\<lparr>s_lifecycle_state := st\<rparr>) \<and> d_ownership (k_working c') = d_ownership (k_working c) \<and>
    k_committed c' = k_committed c"
  using assms(1)
proof (rule set_lifecycle_Inr)
  fix r'
  assume "map_of (d_registry (k_working c)) sid = Some r'"
    and "s_lifecycle_state r' = st \<and> c' = c \<or> lifecycle_allowed (s_lifecycle_state r') st \<and>
       c' = c\<lparr>k_working := (k_working c)\<lparr>d_registry := AList.update sid (r'\<lparr>s_lifecycle_state := st\<rparr>) (d_registry (k_working c))\<rparr>\<rparr>"
  with assms(2) show ?thesis by (auto simp: update_conv')
qed

text \<open>The tables of a new source get their rows, and every row an owner.\<close>

definition assign_all :: "contract \<Rightarrow> string \<Rightarrow> string \<Rightarrow> string \<Rightarrow> unit dbop" where
  "assign_all ct sid engine actor =
     sbind (ensure_rows sid (table_names ct)) (\<lambda>_.
     sbind commit (\<lambda>_.
     sbind (assign_unowned ct sid engine actor ''onboarding'') (\<lambda>_.
     sbind (set_lifecycle sid ''ACTIVE'') (\<lambda>_.
     commit))))"

lemma register_new_split:
  "register_new env ct r engine actor =
     sbind (create_source env r) (\<lambda>_.
     sbind commit (\<lambda>_.
     sbind (set_lifecycle (s_source_id r) ''VALIDATING'') (\<lambda>_.
     sbind (set_lifecycle (s_source_id r) ''PROVISIONING'') (\<lambda>_. assign_all ct (s_source_id r) engine actor))))"
  by (simp add: register_new_def assign_all_def Let_def)

lemma ensure_rows_Inr:
  assumes "ensure_rows sid tables c = (Inr n, c')" and "wf_db (k_working c)"
  shows "wf_db (k_working c') \<and> d_registry (k_working c') = d_registry (k_working c) \<and> (\<forall>t \<in> set tables. row_for (k_working c') sid t \<noteq> None)"
  using assms
  by (auto simp: ensure_rows_def sx_simps ensure_ownership_rows_def set_sorted_set split: sum.splits
      dest: insert_ownership_rows_wf insert_ownership_rows_present)

lemma assign_all_Inr:
  assumes "assign_all ct sid engine actor c = (Inr u, c')" and "wf_db (k_working c)"
    and "map_of (d_registry (k_working c)) sid = Some r"
  shows "map_of (d_registry (k_committed c')) sid = Some (r\<lparr>s_lifecycle_state := ''ACTIVE''\<rparr>) \<and>
    (\<forall>t \<in> set (table_names ct). \<exists>row. row_for (k_committed c') sid t = Some row \<and> o_engine (w_own row) \<noteq> NONE)"
proof -
  from assms(1)[unfolded assign_all_def] obtain n c1 where 1: "ensure_rows sid (table_names ct) c = (Inr n, c1)"
    and r1: "sbind commit (\<lambda>_. sbind (assign_unowned ct sid engine actor ''onboarding'') (\<lambda>_.
     sbind (set_lifecycle sid ''ACTIVE'') (\<lambda>_. commit))) c1 = (Inr u, c')"
    by (rule sbind_InrE)
  note e = ensure_rows_Inr[OF 1 assms(2)]
  let ?c2 = "c1\<lparr>k_committed := k_working c1, k_txn := k_txn c1 + 1\<rparr>"
  from r1 have "sbind (assign_unowned ct sid engine actor ''onboarding'') (\<lambda>_. sbind (set_lifecycle sid ''ACTIVE'') (\<lambda>_. commit)) ?c2 = (Inr u, c')"
    by (simp add: sx_simps)
  then obtain m c3 where 3: "assign_unowned ct sid engine actor ''onboarding'' ?c2 = (Inr m, c3)"
    and r3: "sbind (set_lifecycle sid ''ACTIVE'') (\<lambda>_. commit) c3 = (Inr u, c')" by (rule sbind_InrE)
  have "wf_db (k_working ?c2)" using e by simp
  note a = assign_unowned_all[OF this 3]
  from r3 obtain v c4 where 4: "set_lifecycle sid ''ACTIVE'' c3 = (Inr v, c4)" and c': "k_committed c' = k_working c4"
    by (rule sbind_InrE) (auto simp: sx_simps)
  have "map_of (d_registry (k_working c3)) sid = Some r" using e a assms(3) by simp
  note l = set_lifecycle_entry[OF 4 this]
  have "\<exists>row. row_for (k_committed c') sid t = Some row \<and> o_engine (w_own row) \<noteq> NONE" if "t \<in> set (table_names ct)" for t
  proof -
    from e that obtain row where "row_for (k_working ?c2) sid t = Some row" by fastforce
    with a obtain row' where "row_for (k_working c3) sid t = Some row'" "o_engine (w_own row') \<noteq> NONE" by blast
    with l c' show ?thesis by (simp add: row_for_def)
  qed
  with l c' show ?thesis by simp
qed

lemma register_new_Inr:
  assumes "register_new env ct r engine actor c = (Inr u, c')" and "wf_db (k_working c)"
  shows "map_of (d_registry (k_working c)) (s_source_id r) = None \<and>
    map_of (d_registry (k_committed c')) (s_source_id r) = Some (r\<lparr>s_lifecycle_state := ''ACTIVE''\<rparr>) \<and>
    (\<forall>t \<in> set (table_names ct). \<exists>row. row_for (k_committed c') (s_source_id r) t = Some row \<and> o_engine (w_own row) \<noteq> NONE)"
proof -
  let ?sid = "s_source_id r"
  from assms(1)[unfolded register_new_split] obtain v c1 where 1: "create_source env r c = (Inr v, c1)"
    and r1: "sbind commit (\<lambda>_. sbind (set_lifecycle ?sid ''VALIDATING'') (\<lambda>_.
     sbind (set_lifecycle ?sid ''PROVISIONING'') (\<lambda>_. assign_all ct ?sid engine actor))) c1 = (Inr u, c')"
    by (rule sbind_InrE)
  note new = create_source_Inr[OF 1]
  let ?c2 = "c1\<lparr>k_committed := k_working c1, k_txn := k_txn c1 + 1\<rparr>"
  from r1 have "sbind (set_lifecycle ?sid ''VALIDATING'') (\<lambda>_. sbind (set_lifecycle ?sid ''PROVISIONING'') (\<lambda>_.
      assign_all ct ?sid engine actor)) ?c2 = (Inr u, c')" by (simp add: sx_simps)
  then obtain v3 c3 where 3: "set_lifecycle ?sid ''VALIDATING'' ?c2 = (Inr v3, c3)"
    and r3: "sbind (set_lifecycle ?sid ''PROVISIONING'') (\<lambda>_. assign_all ct ?sid engine actor) c3 = (Inr u, c')" by (rule sbind_InrE)
  from r3 obtain v4 c4 where 4: "set_lifecycle ?sid ''PROVISIONING'' c3 = (Inr v4, c4)" and r4: "assign_all ct ?sid engine actor c4 = (Inr u, c')"
    by (rule sbind_InrE)
  have "map_of (d_registry (k_working ?c2)) ?sid = Some r" using new by (simp add: map_add_Some_iff)
  note l3 = set_lifecycle_entry[OF 3 this]
  note l4 = set_lifecycle_entry[OF 4 l3[THEN conjunct1]]
  have own: "d_ownership (k_working c4) = d_ownership (k_working c)" using l3 l4 new by simp
  then have "wf_db (k_working c4)" using assms(2) by (simp add: wf_db_def)
  with assign_all_Inr[OF r4 _ l4[THEN conjunct1]] new show ?thesis by simp
qed


end
