(* ===== verification/Maintenance.thy ===== *)
theory Maintenance
  imports Tasks
begin

text \<open>
  \<^verbatim>\<open>maintenance\<close> of \<^verbatim>\<open>src/controlplane/tasks.py\<close> and the functions of
  \<^verbatim>\<open>src/warehouse/schema/platform.sql\<close> it calls.  The change log is modelled as it is stored: a partition
  of rows per day, a default partition, and the cursors of the dbt models.  Every statement runs
  in a transaction of its own at its own time; whether the lock of a partition can be had in
  time is a parameter.  Times are microseconds, days are days of UTC.

  Shown: maintenance never removes a change that a live cursor has still to read, nor a
  reconciliation run an ownership row refers to; the loop that drops old partitions ends when
  the retention is at least one day, and does not end when it is zero: every pass drops
  yesterday's partition, which the next pass creates again.
\<close>

section \<open>The change log\<close>

record log_row =
  lg_id :: int
  lg_entry :: change_entry
  lg_changed_at :: int
  lg_txid :: int

record cursor_row =
  cu_last_txid :: int
  cu_updated_at :: int

record log_store =
  lo_partitions :: "(int \<times> log_row list) list"
  lo_default :: "log_row list"
  lo_cursors :: "(string \<times> cursor_row) list"

record maint =
  mt_db :: db
  mt_log :: log_store
  mt_ingestion_audit :: "int list" \<comment> \<open>the \<^verbatim>\<open>minute_bucket\<close> of each row\<close>
  mt_ownership_audit :: "(int \<times> audit_entry) list" \<comment> \<open>with \<^verbatim>\<open>created_at\<close>\<close>
  mt_clock :: "nat \<Rightarrow> int"
  mt_txn :: nat

definition mt_now :: "maint \<Rightarrow> int" where
  "mt_now m = mt_clock m (mt_txn m)"

definition day_us :: int where
  "day_us = 86400000000"

definition day_of :: "int \<Rightarrow> int" where
  "day_of t = t div day_us"

definition mt_setting :: "maint \<Rightarrow> string \<Rightarrow> string \<Rightarrow> int result" where
  "mt_setting m key dflt = sql_int (setting (mt_db m) key dflt)"

text \<open>A statement is committed as a whole, or leaves the tables alone.\<close>

definition statement :: "(maint \<Rightarrow> ('a \<times> maint) result) \<Rightarrow> (maint, 'a) sx" where
  "statement f m = (case f m of
      Inl e \<Rightarrow> (Inl e, m\<lparr>mt_txn := mt_txn m + 1\<rparr>)
    | Inr (x, m') \<Rightarrow> (Inr x, m'\<lparr>mt_txn := mt_txn m + 1\<rparr>))"

type_synonym locks = "nat \<Rightarrow> int \<Rightarrow> bool"

definition lock_timeout :: py_exn where
  "lock_timeout = DatabaseError ''55P03'' ''canceling statement due to lock timeout''"

section \<open>Partitions\<close>

definition create_partition :: "int \<Rightarrow> log_store \<Rightarrow> log_store" where
  "create_partition d l =
     l\<lparr>lo_partitions := lo_partitions l @ [(d, filter (\<lambda>r. day_of (lg_changed_at r) = d) (lo_default l))],
       lo_default := filter (\<lambda>r. day_of (lg_changed_at r) \<noteq> d) (lo_default l)\<rparr>"

fun ensure_days :: "(int \<Rightarrow> bool) \<Rightarrow> int list \<Rightarrow> nat \<Rightarrow> log_store \<Rightarrow> (nat \<times> log_store) result" where
  "ensure_days busy [] n l = Inr (n, l)"
| "ensure_days busy (d # ds) n l =
     (if d \<in> fst ` set (lo_partitions l) then ensure_days busy ds n l
      else if busy d then Inl lock_timeout
      else ensure_days busy ds (n + 1) (create_partition d l))"

definition clamp_days :: "int option \<Rightarrow> int \<Rightarrow> int \<Rightarrow> int" where
  "clamp_days p dflt most = min (max (get_or dflt p) 0) most"

definition ensure_change_log_partitions :: "locks \<Rightarrow> int option \<Rightarrow> int option \<Rightarrow> maint \<Rightarrow> (nat \<times> maint) result" where
  "ensure_change_log_partitions locks days_back days_ahead m =
     (let today = day_of (mt_now m);
          back = clamp_days days_back 1 62; ahead = clamp_days days_ahead 7 31 in
      rbind (ensure_days (locks (mt_txn m)) [today - back..today + ahead] 0 (mt_log m)) (\<lambda>(n, l).
      Inr (n, m\<lparr>mt_log := l\<rparr>)))"

section \<open>Purging\<close>

text \<open>The lowest position of a cursor that moved within the last \<open>stale\<close> days.\<close>

definition live_cursors :: "int \<Rightarrow> int \<Rightarrow> log_store \<Rightarrow> int list" where
  "live_cursors now_us stale l =
     map (\<lambda>kc. cu_last_txid (snd kc)) (filter (\<lambda>kc. now_us - stale * day_us < cu_updated_at (snd kc)) (lo_cursors l))"

definition floor_of :: "int list \<Rightarrow> int option" where
  "floor_of xs = (case xs of [] \<Rightarrow> None | x # ys \<Rightarrow> Some (foldl min x ys))"

fun drop_partitions :: "(int \<Rightarrow> bool) \<Rightarrow> int \<Rightarrow> nat \<Rightarrow> nat \<Rightarrow> int list \<Rightarrow> (int \<times> log_row list) list \<Rightarrow> nat \<times> (int \<times> log_row list) list" where
  "drop_partitions busy lowest most n [] ps = (n, ps)"
| "drop_partitions busy lowest most n (d # ds) ps =
     (if most \<le> n then (n, ps)
      else if list_ex (\<lambda>r. lowest \<le> lg_txid r) (case map_of ps d of None \<Rightarrow> [] | Some rows \<Rightarrow> rows)
        then drop_partitions busy lowest most n ds ps
      else if busy d then (n, ps)
      else drop_partitions busy lowest most (n + 1) ds (AList.delete d ps))"

definition old_days :: "int \<Rightarrow> int \<Rightarrow> log_store \<Rightarrow> int list" where
  "old_days today days l = sort (filter (\<lambda>d. d + 1 \<le> today - days) (map fst (lo_partitions l)))"

definition purge_change_log :: "locks \<Rightarrow> int option \<Rightarrow> nat option \<Rightarrow> maint \<Rightarrow> (nat \<times> maint) result" where
  "purge_change_log locks retention_days max_partitions m =
     rbind (mt_setting m ''change_log_retention_days'' ''14'') (\<lambda>retention.
     let days = max (get_or 0 retention_days) retention in
     rbind (mt_setting m ''cursor_stale_days'' ''7'') (\<lambda>stale.
     rbind (ensure_change_log_partitions locks None None m) (\<lambda>(_, m1).
     let l = mt_log m1 in
     case floor_of (live_cursors (mt_now m) stale l) of
       None \<Rightarrow> Inr (0, m1)
     | Some lowest \<Rightarrow>
         (let (n, ps) = drop_partitions (locks (mt_txn m)) lowest (max (get_or 1 max_partitions) 1) 0
                          (old_days (day_of (mt_now m)) days l) (lo_partitions l) in
          Inr (n, m1\<lparr>mt_log := l\<lparr>lo_partitions := ps,
            lo_default := filter (\<lambda>r. \<not> (lg_changed_at r < mt_now m - days * day_us \<and> lg_txid r < lowest)) (lo_default l)\<rparr>\<rparr>)))))"

text \<open>The number of rows a \<^verbatim>\<open>DELETE\<close> removed, and the rows it left.\<close>

definition purge_progress :: "int option \<Rightarrow> maint \<Rightarrow> (nat \<times> maint) result" where
  "purge_progress p_days m =
     rbind (mt_setting m ''progress_retention_days'' ''7'') (\<lambda>retention.
     let days = max (get_or 0 p_days) retention; limit = mt_now m - days * day_us;
         old = filter (\<lambda>kp. pg_last_applied_at (snd kp) < limit) (d_progress (mt_db m));
         old_audit = filter (\<lambda>t. t < limit) (mt_ingestion_audit m) in
     Inr (length old + length old_audit,
          m\<lparr>mt_db := (mt_db m)\<lparr>d_progress := filter (\<lambda>kp. \<not> pg_last_applied_at (snd kp) < limit) (d_progress (mt_db m))\<rparr>,
            mt_ingestion_audit := filter (\<lambda>t. \<not> t < limit) (mt_ingestion_audit m)\<rparr>))"

definition purge_ownership_audit :: "int option \<Rightarrow> maint \<Rightarrow> (nat \<times> maint) result" where
  "purge_ownership_audit p_days m =
     rbind (mt_setting m ''ownership_audit_retention_days'' ''730'') (\<lambda>retention.
     let days = max (get_or 0 p_days) retention; limit = mt_now m - days * day_us in
     Inr (length (filter (\<lambda>a. fst a < limit) (mt_ownership_audit m)),
          m\<lparr>mt_ownership_audit := filter (\<lambda>a. \<not> fst a < limit) (mt_ownership_audit m)\<rparr>))"

definition run_referenced :: "db \<Rightarrow> recon_run \<Rightarrow> bool" where
  "run_referenced d r \<longleftrightarrow> list_ex (\<lambda>kr. o_last_reconciliation_id (w_own (snd kr)) = Some (rr_id r)) (d_ownership d)"

definition purge_reconciliation_runs :: "int option \<Rightarrow> maint \<Rightarrow> (nat \<times> maint) result" where
  "purge_reconciliation_runs p_days m =
     rbind (mt_setting m ''reconciliation_retention_days'' ''180'') (\<lambda>retention.
     let days = max (get_or 0 p_days) retention; limit = mt_now m - days * day_us;
         gone = (\<lambda>r. rr_started_at r < limit \<and> \<not> run_referenced (mt_db m) r) in
     Inr (length (filter gone (d_runs (mt_db m))),
          m\<lparr>mt_db := (mt_db m)\<lparr>d_runs := filter (\<lambda>r. \<not> gone r) (d_runs (mt_db m))\<rparr>\<rparr>))"

section \<open>The task\<close>

text \<open>The loop of the task, with a bound on its passes: \<open>None\<close> when they do not suffice.\<close>

fun purge_loop :: "nat \<Rightarrow> locks \<Rightarrow> nat \<Rightarrow> (maint, nat option) sx" where
  "purge_loop 0 locks acc = sret None"
| "purge_loop (Suc fuel) locks acc =
     sbind (statement (purge_change_log locks None (Some 1))) (\<lambda>dropped.
     if dropped = 0 then sret (Some acc) else purge_loop fuel locks (acc + dropped))"

record maint_report =
  mr_partitions_created :: nat
  mr_partitions_dropped :: nat
  mr_progress :: nat
  mr_ownership_audit :: nat
  mr_reconciliation :: nat

definition maintenance :: "nat \<Rightarrow> locks \<Rightarrow> os_env \<Rightarrow> (maint, maint_report option) sx" where
  "maintenance fuel locks env =
     session env (sret ())
       (sbind (statement (ensure_change_log_partitions locks None None)) (\<lambda>created.
        obind (purge_loop fuel locks 0) (\<lambda>dropped.
        sbind (statement (purge_progress None)) (\<lambda>progress.
        sbind (statement (purge_ownership_audit None)) (\<lambda>audit.
        sbind (statement (purge_reconciliation_runs None)) (\<lambda>recon.
        sret (Some \<lparr>mr_partitions_created = created, mr_partitions_dropped = dropped, mr_progress = progress,
               mr_ownership_audit = audit, mr_reconciliation = recon\<rparr>)))))))"

section \<open>What the statements do to the log\<close>

definition log_rows :: "log_store \<Rightarrow> log_row set" where
  "log_rows l = set (lo_default l) \<union> (\<Union>p \<in> set (lo_partitions l). set (snd p))"

definition wf_log :: "log_store \<Rightarrow> bool" where
  "wf_log l \<longleftrightarrow> distinct (map fst (lo_partitions l))"

lemma create_partition_rows: "log_rows (create_partition d l) = log_rows l"
  by (auto simp: log_rows_def create_partition_def)

lemma filter_not_Cons: "filter (\<lambda>p. fst p \<notin> set (d # ds)) xs = filter (\<lambda>p. fst p \<noteq> d) (filter (\<lambda>p. fst p \<notin> set ds) xs)"
  by (simp add: conj_commute)

lemma ensure_days_Inr:
  assumes "ensure_days busy ds n l = Inr (n', l')" and "wf_log l"
  shows "wf_log l' \<and> log_rows l' = log_rows l \<and> lo_cursors l' = lo_cursors l \<and>
    fst ` set (lo_partitions l') = fst ` set (lo_partitions l) \<union> set ds \<and>
    filter (\<lambda>p. fst p \<notin> set ds) (lo_partitions l') = filter (\<lambda>p. fst p \<notin> set ds) (lo_partitions l)"
  using assms
proof (induction busy ds n l arbitrary: n' l' rule: ensure_days.induct)
  case (2 busy d ds n l)
  show ?case
  proof (cases "d \<in> fst ` set (lo_partitions l)")
    case True
    with "2.prems" have run: "ensure_days busy ds n l = Inr (n', l')" by simp
    note IH = "2.IH"(1)[OF True run "2.prems"(2)]
    from IH have "filter (\<lambda>p. fst p \<notin> set ds) (lo_partitions l') = filter (\<lambda>p. fst p \<notin> set ds) (lo_partitions l)" by blast
    then have "filter (\<lambda>p. fst p \<notin> set (d # ds)) (lo_partitions l') = filter (\<lambda>p. fst p \<notin> set (d # ds)) (lo_partitions l)"
      by (simp only: filter_not_Cons)
    with IH True show ?thesis by auto
  next
    case False
    with "2.prems" have nb: "\<not> busy d" and run: "ensure_days busy ds (n + 1) (create_partition d l) = Inr (n', l')"
      by (auto split: if_splits)
    have wf: "wf_log (create_partition d l)" using "2.prems"(2) False by (simp add: wf_log_def create_partition_def)
    note IH = "2.IH"(2)[OF False nb run wf]
    from IH have "filter (\<lambda>p. fst p \<notin> set ds) (lo_partitions l') = filter (\<lambda>p. fst p \<notin> set ds) (lo_partitions (create_partition d l))" by blast
    then have "filter (\<lambda>p. fst p \<notin> set (d # ds)) (lo_partitions l') = filter (\<lambda>p. fst p \<notin> set (d # ds)) (lo_partitions (create_partition d l))"
      by (simp only: filter_not_Cons)
    then have "filter (\<lambda>p. fst p \<notin> set (d # ds)) (lo_partitions l') = filter (\<lambda>p. fst p \<notin> set (d # ds)) (lo_partitions l)"
      by (simp add: create_partition_def)
    moreover have "lo_cursors (create_partition d l) = lo_cursors l"
      and "fst ` set (lo_partitions (create_partition d l)) = insert d (fst ` set (lo_partitions l))"
      by (simp_all add: create_partition_def)
    ultimately show ?thesis using IH by (simp add: create_partition_rows)
  qed
qed simp

lemma member_delete: "p \<in> set (AList.delete d ps) \<longleftrightarrow> p \<in> set ps \<and> fst p \<noteq> d"
  by (cases p) (auto simp: AList.delete_eq)

lemma keys_delete: "fst ` set (AList.delete d ps) = fst ` set ps - {d}"
  by (auto simp: member_delete image_iff)

lemma drop_partitions_keeps:
  assumes "drop_partitions busy lowest most n ds ps = (n', ps')" and "distinct (map fst ps)"
  shows "distinct (map fst ps') \<and> set ps' \<subseteq> set ps \<and>
    (\<forall>p \<in> set ps. (\<exists>r \<in> set (snd p). lowest \<le> lg_txid r) \<longrightarrow> p \<in> set ps')"
  using assms
proof (induction busy lowest most n ds ps arbitrary: n' ps' rule: drop_partitions.induct)
  case (2 busy lowest most n d ds ps)
  let ?pending = "list_ex (\<lambda>r. lowest \<le> lg_txid r) (case map_of ps d of None \<Rightarrow> [] | Some rows \<Rightarrow> rows)"
  consider "most \<le> n" | "\<not> most \<le> n" "?pending" | "\<not> most \<le> n" "\<not> ?pending" "busy d" | "\<not> most \<le> n" "\<not> ?pending" "\<not> busy d" by blast
  then show ?case
  proof cases
    case 4
    have run: "drop_partitions busy lowest most (n + 1) ds (AList.delete d ps) = (n', ps')" using 4 "2.prems"(1) by simp
    have dist: "distinct (map fst (AList.delete d ps))" using "2.prems"(2) by (rule distinct_delete)
    note IH = "2.IH"(2)[OF 4 run dist]
    have "fst p \<noteq> d" if "p \<in> set ps" "\<exists>r \<in> set (snd p). lowest \<le> lg_txid r" for p
    proof
      assume "fst p = d"
      with that(1) "2.prems"(2) have "map_of ps d = Some (snd p)" by (metis map_of_is_SomeI prod.collapse)
      with that(2) 4(2) show False by (auto simp: list_ex_iff)
    qed
    then have "p \<in> set ps'" if "p \<in> set ps" "\<exists>r \<in> set (snd p). lowest \<le> lg_txid r" for p
      using IH that by (simp add: member_delete del: split_paired_All)
    moreover have "set ps' \<subseteq> set ps" using IH by (auto simp: member_delete)
    ultimately show ?thesis using IH by blast
  qed (use "2.prems" "2.IH"(1) in auto)
qed auto

lemma drop_partitions_count:
  assumes "drop_partitions busy lowest most n ds ps = (n', ps')" and "distinct ds" and "set ds \<subseteq> fst ` set ps" and "list_all old ds"
  shows "length (filter (\<lambda>p. old (fst p)) ps') + n' \<le> length (filter (\<lambda>p. old (fst p)) ps) + n"
  using assms
proof (induction busy lowest most n ds ps arbitrary: n' ps' rule: drop_partitions.induct)
  case (2 busy lowest most n d ds ps)
  let ?pending = "list_ex (\<lambda>r. lowest \<le> lg_txid r) (case map_of ps d of None \<Rightarrow> [] | Some rows \<Rightarrow> rows)"
  consider "most \<le> n" | "\<not> most \<le> n" "?pending" | "\<not> most \<le> n" "\<not> ?pending" "busy d" | "\<not> most \<le> n" "\<not> ?pending" "\<not> busy d" by blast
  then show ?case
  proof cases
    case 4
    have run: "drop_partitions busy lowest most (n + 1) ds (AList.delete d ps) = (n', ps')" using 4 "2.prems"(1) by simp
    have "length (filter (\<lambda>p. old (fst p)) ps') + n' \<le> length (filter (\<lambda>p. old (fst p)) (AList.delete d ps)) + (n + 1)"
      using "2.prems" by (intro "2.IH"(2)[OF 4 run]) (auto simp: keys_delete)
    moreover have "length (filter (\<lambda>p. old (fst p)) (AList.delete d ps)) < length (filter (\<lambda>p. old (fst p)) ps)"
    proof -
      from "2.prems"(3) obtain rows where "(d, rows) \<in> set ps" by auto
      moreover have "old d" using "2.prems"(4) by simp
      ultimately have "(d, rows) \<in> set (filter (\<lambda>p. old (fst p)) ps)" by simp
      then have "length (filter (\<lambda>p. fst p \<noteq> d) (filter (\<lambda>p. old (fst p)) ps)) < length (filter (\<lambda>p. old (fst p)) ps)"
        using List.length_filter_less[of "(d, rows)" "filter (\<lambda>p. old (fst p)) ps" "\<lambda>p. fst p \<noteq> d"] by simp
      moreover have "filter (\<lambda>p. old (fst p)) (AList.delete d ps) = filter (\<lambda>p. fst p \<noteq> d) (filter (\<lambda>p. old (fst p)) ps)"
        by (auto simp: AList.delete_eq intro!: filter_cong)
      ultimately show ?thesis by simp
    qed
    ultimately show ?thesis by linarith
  qed (use "2.prems" "2.IH"(1) in auto)
qed auto

lemma purge_Inr:
  assumes "purge_change_log locks None (Some 1) m = Inr (n, m')"
  obtains retention stale c l where "mt_setting m ''change_log_retention_days'' ''14'' = Inr retention"
    and "mt_setting m ''cursor_stale_days'' ''7'' = Inr stale"
    and "ensure_days (locks (mt_txn m)) [day_of (mt_now m) - 1..day_of (mt_now m) + 7] 0 (mt_log m) = Inr (c, l)"
    and "floor_of (live_cursors (mt_now m) stale l) = None \<and> n = 0 \<and> m' = m\<lparr>mt_log := l\<rparr> \<or>
      (\<exists>lowest ps. floor_of (live_cursors (mt_now m) stale l) = Some lowest \<and>
        drop_partitions (locks (mt_txn m)) lowest 1 0 (old_days (day_of (mt_now m)) (max 0 retention) l) (lo_partitions l) = (n, ps) \<and>
        m' = m\<lparr>mt_log := l\<lparr>lo_partitions := ps,
          lo_default := filter (\<lambda>r. \<not> (lg_changed_at r < mt_now m - max 0 retention * day_us \<and> lg_txid r < lowest)) (lo_default l)\<rparr>\<rparr>)"
proof -
  from assms obtain retention stale n0 m1 where r: "mt_setting m ''change_log_retention_days'' ''14'' = Inr retention"
    and st: "mt_setting m ''cursor_stale_days'' ''7'' = Inr stale"
    and e: "ensure_change_log_partitions locks None None m = Inr (n0, m1)"
    by (auto simp: purge_change_log_def rbind_Inr_iff Let_def)
  from e obtain c l where l: "ensure_days (locks (mt_txn m)) [day_of (mt_now m) - 1..day_of (mt_now m) + 7] 0 (mt_log m) = Inr (c, l)"
    and m1: "m1 = m\<lparr>mt_log := l\<rparr>"
    by (auto simp: ensure_change_log_partitions_def clamp_days_def get_or_def rbind_Inr_iff Let_def)
  show thesis
    using assms by (intro that[OF r st l])
      (auto simp: purge_change_log_def r st e m1 get_or_def Let_def split: option.splits prod.splits)
qed

section \<open>Nothing that is still needed is removed\<close>

text \<open>
  \<open>awaited r m\<close>: the change \<open>r\<close> is in the log, and a cursor that stays live for the whole run has
  not passed it.
\<close>

definition awaited :: "log_row \<Rightarrow> maint \<Rightarrow> bool" where
  "awaited r m \<longleftrightarrow> wf_log (mt_log m) \<and> r \<in> log_rows (mt_log m) \<and>
     (\<exists>stale k c. mt_setting m ''cursor_stale_days'' ''7'' = Inr stale \<and> (k, c) \<in> set (lo_cursors (mt_log m)) \<and>
        cu_last_txid c \<le> lg_txid r \<and> (\<forall>i. mt_clock m i - stale * day_us < cu_updated_at c))"

lemma foldl_min_le: "foldl min x ys \<le> (x :: int) \<and> (\<forall>y \<in> set ys. foldl min x ys \<le> y)"
  by (induction ys arbitrary: x) (simp, fastforce)

lemma floor_of_le: "floor_of xs = Some f \<Longrightarrow> x \<in> set xs \<Longrightarrow> f \<le> x"
  using foldl_min_le by (auto simp: floor_of_def split: list.splits)

lemma purge_keeps_rows:
  assumes "purge_change_log locks None (Some 1) m = Inr (n, m')" and "awaited r m"
  shows "awaited r (m'\<lparr>mt_txn := t\<rparr>)"
  using assms(1)
proof (rule purge_Inr)
  fix retention stale c l
  assume st: "mt_setting m ''cursor_stale_days'' ''7'' = Inr stale"
    and e: "ensure_days (locks (mt_txn m)) [day_of (mt_now m) - 1..day_of (mt_now m) + 7] 0 (mt_log m) = Inr (c, l)"
    and cases: "floor_of (live_cursors (mt_now m) stale l) = None \<and> n = 0 \<and> m' = m\<lparr>mt_log := l\<rparr> \<or>
      (\<exists>lowest ps. floor_of (live_cursors (mt_now m) stale l) = Some lowest \<and>
        drop_partitions (locks (mt_txn m)) lowest 1 0 (old_days (day_of (mt_now m)) (max 0 retention) l) (lo_partitions l) = (n, ps) \<and>
        m' = m\<lparr>mt_log := l\<lparr>lo_partitions := ps,
          lo_default := filter (\<lambda>r. \<not> (lg_changed_at r < mt_now m - max 0 retention * day_us \<and> lg_txid r < lowest)) (lo_default l)\<rparr>\<rparr>)"
  from assms(2) have wf: "wf_log (mt_log m)" and r: "r \<in> log_rows (mt_log m)" by (auto simp: awaited_def)
  note l = ensure_days_Inr[OF e wf]
  from assms(2) st obtain k u where u: "(k, u) \<in> set (lo_cursors l)" "cu_last_txid u \<le> lg_txid r"
    and live: "\<And>i. mt_clock m i - stale * day_us < cu_updated_at u" using l by (auto simp: awaited_def)
  from cases show ?thesis
  proof (elim disjE exE conjE)
    assume "m' = m\<lparr>mt_log := l\<rparr>"
    then show ?thesis using assms(2) l by (simp add: awaited_def mt_setting_def)
  next
    fix lowest ps
    assume f: "floor_of (live_cursors (mt_now m) stale l) = Some lowest"
      and d: "drop_partitions (locks (mt_txn m)) lowest 1 0 (old_days (day_of (mt_now m)) (max 0 retention) l) (lo_partitions l) = (n, ps)"
      and m': "m' = m\<lparr>mt_log := l\<lparr>lo_partitions := ps,
          lo_default := filter (\<lambda>r. \<not> (lg_changed_at r < mt_now m - max 0 retention * day_us \<and> lg_txid r < lowest)) (lo_default l)\<rparr>\<rparr>"
    have "cu_last_txid u \<in> set (live_cursors (mt_now m) stale l)"
      using u(1) live by (force simp: live_cursors_def mt_now_def)
    then have low: "lowest \<le> lg_txid r" using floor_of_le[OF f] u(2) by fastforce
    from drop_partitions_keeps[OF d] l have keep: "distinct (map fst ps)"
      "\<forall>p \<in> set (lo_partitions l). (\<exists>r \<in> set (snd p). lowest \<le> lg_txid r) \<longrightarrow> p \<in> set ps" by (auto simp: wf_log_def)
    have "r \<in> log_rows l" using r l by simp
    then have "r \<in> log_rows (mt_log m')"
      using keep(2) low unfolding log_rows_def m' by fastforce
    then show ?thesis using assms(2) keep(1) l by (simp add: awaited_def m' wf_log_def mt_setting_def)
  qed
qed

lemma keeps_statement: "(\<And>m x m'. I m \<Longrightarrow> f m = Inr (x, m') \<Longrightarrow> I (m'\<lparr>mt_txn := mt_txn m + 1\<rparr>)) \<Longrightarrow>
    (\<And>m. I m \<Longrightarrow> I (m\<lparr>mt_txn := mt_txn m + 1\<rparr>)) \<Longrightarrow> keeps I (statement f)"
  by (auto simp: keeps_def statement_def split: sum.splits)

definition referenced :: "recon_run \<Rightarrow> maint \<Rightarrow> bool" where
  "referenced x m \<longleftrightarrow> x \<in> set (d_runs (mt_db m)) \<and> run_referenced (mt_db m) x"

lemma keeps_purge_loop:
  assumes "\<And>m x m'. I m \<Longrightarrow> purge_change_log locks None (Some 1) m = Inr (x, m') \<Longrightarrow> I (m'\<lparr>mt_txn := mt_txn m + 1\<rparr>)"
    and "\<And>m. I m \<Longrightarrow> I (m\<lparr>mt_txn := mt_txn m + 1\<rparr>)"
  shows "keeps I (purge_loop fuel locks acc)"
  by (induction fuel arbitrary: acc) (auto intro!: keeps_intros keeps_statement assms)

lemma ensure_partitions_Inr:
  assumes "ensure_change_log_partitions locks None None m = Inr (n, m')"
  obtains c l where "ensure_days (locks (mt_txn m)) [day_of (mt_now m) - 1..day_of (mt_now m) + 7] 0 (mt_log m) = Inr (c, l)"
    and "m' = m\<lparr>mt_log := l\<rparr>"
  using assms that by (auto simp: ensure_change_log_partitions_def clamp_days_def get_or_def rbind_Inr_iff Let_def)

text \<open>The invariants of a whole run: the settings, the clock and the awaited rows.\<close>

lemma keeps_maintenance:
  assumes ens: "\<And>m x m'. I m \<Longrightarrow> ensure_change_log_partitions locks None None m = Inr (x, m') \<Longrightarrow> I m'"
    and log: "\<And>m x m'. I m \<Longrightarrow> purge_change_log locks None (Some 1) m = Inr (x, m') \<Longrightarrow> I m'"
    and prog: "\<And>m x m'. I m \<Longrightarrow> purge_progress None m = Inr (x, m') \<Longrightarrow> I m'"
    and aud: "\<And>m x m'. I m \<Longrightarrow> purge_ownership_audit None m = Inr (x, m') \<Longrightarrow> I m'"
    and rec: "\<And>m x m'. I m \<Longrightarrow> purge_reconciliation_runs None m = Inr (x, m') \<Longrightarrow> I m'"
    and any: "\<And>m t. I m \<Longrightarrow> I (m\<lparr>mt_txn := t\<rparr>)"
  shows "keeps I (maintenance fuel locks env)"
  unfolding maintenance_def
  by (intro keeps_session keeps_intros keeps_statement keeps_purge_loop any;
      (erule (1) ens | erule (1) log | erule (1) prog | erule (1) aud | erule (1) rec | assumption))

lemma awaited_other:
  assumes "awaited r m" and "mt_log m' = mt_log m" and "mt_clock m' = mt_clock m" and "d_settings (mt_db m') = d_settings (mt_db m)"
  shows "awaited r m'"
  using assms by (simp add: awaited_def mt_setting_def setting_def)

lemma keeps_awaited: "keeps (awaited r) (maintenance fuel locks env)"
proof (rule keeps_maintenance)
  fix m m' x assume a: "awaited r m"
  show "awaited r (m\<lparr>mt_txn := t\<rparr>)" for t
    using a by (rule awaited_other) simp_all
  show "awaited r m'" if "purge_change_log locks None (Some 1) m = Inr (x, m')"
    using awaited_other[OF purge_keeps_rows[OF that a, of 0], of m'] by simp
  show "awaited r m'" if e: "ensure_change_log_partitions locks None None m = Inr (x, m')"
    using e
  proof (rule ensure_partitions_Inr)
    fix c l assume "ensure_days (locks (mt_txn m)) [day_of (mt_now m) - 1..day_of (mt_now m) + 7] 0 (mt_log m) = Inr (c, l)"
      and m': "m' = m\<lparr>mt_log := l\<rparr>"
    from ensure_days_Inr[OF this(1)] a show ?thesis by (simp add: awaited_def m' mt_setting_def)
  qed
  show "awaited r m'" if "purge_progress None m = Inr (x, m')"
    using a by (rule awaited_other) (use that in \<open>auto simp: purge_progress_def rbind_Inr_iff Let_def\<close>)
  show "awaited r m'" if "purge_ownership_audit None m = Inr (x, m')"
    using a by (rule awaited_other) (use that in \<open>auto simp: purge_ownership_audit_def rbind_Inr_iff Let_def\<close>)
  show "awaited r m'" if "purge_reconciliation_runs None m = Inr (x, m')"
    using a by (rule awaited_other) (use that in \<open>auto simp: purge_reconciliation_runs_def rbind_Inr_iff Let_def\<close>)
qed

lemma purge_change_log_db:
  assumes "purge_change_log locks None (Some 1) m = Inr (n, m')"
  shows "mt_db m' = mt_db m \<and> mt_clock m' = mt_clock m \<and> mt_txn m' = mt_txn m"
  using assms by (rule purge_Inr) auto

lemma referenced_db: "referenced x m \<Longrightarrow> mt_db m' = mt_db m \<Longrightarrow> referenced x m'"
  by (simp add: referenced_def)

lemma keeps_referenced: "keeps (referenced y) (maintenance fuel locks env)"
proof (rule keeps_maintenance)
  fix m m' x assume a: "referenced y m"
  show "referenced y (m\<lparr>mt_txn := t\<rparr>)" for t
    using a by (rule referenced_db) simp
  show "referenced y m'" if "purge_change_log locks None (Some 1) m = Inr (x, m')"
    using a by (rule referenced_db) (simp add: purge_change_log_db[OF that])
  show "referenced y m'" if "ensure_change_log_partitions locks None None m = Inr (x, m')"
    using that by (rule ensure_partitions_Inr) (use a in \<open>simp add: referenced_def\<close>)
  show "referenced y m'" if "purge_progress None m = Inr (x, m')"
    using a that by (auto simp: purge_progress_def rbind_Inr_iff Let_def referenced_def run_referenced_def)
  show "referenced y m'" if "purge_ownership_audit None m = Inr (x, m')"
    using a that by (auto simp: purge_ownership_audit_def rbind_Inr_iff Let_def referenced_def run_referenced_def)
  show "referenced y m'" if "purge_reconciliation_runs None m = Inr (x, m')"
    using a that by (auto simp: purge_reconciliation_runs_def rbind_Inr_iff Let_def referenced_def run_referenced_def)
qed

text \<open>
  C26: Maintenance never removes what is still needed, whether it returns or raises: a change
  that a cursor live during the run has still to read stays in the log, and a reconciliation run
  an ownership row refers to stays, however old they are.
\<close>

theorem maintenance_keeps_what_is_needed:
  assumes "awaited r m" and "x \<in> set (d_runs (mt_db m))" and "run_referenced (mt_db m) x"
  shows "r \<in> log_rows (mt_log (snd (maintenance fuel locks env m))) \<and>
    x \<in> set (d_runs (mt_db (snd (maintenance fuel locks env m))))"
  using keepsD[OF keeps_awaited assms(1)] keepsD[OF keeps_referenced, of x m] assms(2,3)
  by (simp add: awaited_def referenced_def)

section \<open>The loop ends, if changes are retained for a day\<close>

definition old_count :: "int \<Rightarrow> int \<Rightarrow> log_store \<Rightarrow> nat" where
  "old_count today days l = length (filter (\<lambda>p. fst p + 1 \<le> today - days) (lo_partitions l))"

lemma ensure_days_old_count:
  assumes "ensure_days busy [today - 1..today + 7] n l = Inr (n', l')" and "wf_log l" and "1 \<le> days"
  shows "old_count today days l' = old_count today days l"
proof -
  let ?new = "\<lambda>p :: int \<times> log_row list. fst p \<notin> set [today - 1..today + 7]"
  have sub: "filter (\<lambda>p. fst p + 1 \<le> today - days) ps = filter (\<lambda>p. fst p + 1 \<le> today - days) (filter ?new ps)" for ps
    using assms(3) by (auto intro!: filter_cong)
  from ensure_days_Inr[OF assms(1,2)] have "filter ?new (lo_partitions l') = filter ?new (lo_partitions l)" by blast
  then show ?thesis unfolding old_count_def by (subst (1 2) sub) simp
qed

lemma old_days_facts:
  assumes "wf_log l"
  shows "distinct (old_days today days l)" "set (old_days today days l) = {d \<in> fst ` set (lo_partitions l). d + 1 \<le> today - days}"
  using assms by (auto simp: old_days_def wf_log_def)

lemma purge_progresses:
  assumes run: "purge_change_log locks None (Some 1) m = Inr (n, m')" and wf: "wf_log (mt_log m)"
    and ret: "mt_setting m ''change_log_retention_days'' ''14'' = Inr days" "1 \<le> days"
  shows "wf_log (mt_log m') \<and>
    old_count (day_of (mt_now m)) days (mt_log m') + n \<le> old_count (day_of (mt_now m)) days (mt_log m)"
  using run
proof (rule purge_Inr)
  fix retention stale c l
  let ?today = "day_of (mt_now m)"
  assume r: "mt_setting m ''change_log_retention_days'' ''14'' = Inr retention"
    and e: "ensure_days (locks (mt_txn m)) [?today - 1..?today + 7] 0 (mt_log m) = Inr (c, l)"
    and cases: "floor_of (live_cursors (mt_now m) stale l) = None \<and> n = 0 \<and> m' = m\<lparr>mt_log := l\<rparr> \<or>
      (\<exists>lowest ps. floor_of (live_cursors (mt_now m) stale l) = Some lowest \<and>
        drop_partitions (locks (mt_txn m)) lowest 1 0 (old_days ?today (max 0 retention) l) (lo_partitions l) = (n, ps) \<and>
        m' = m\<lparr>mt_log := l\<lparr>lo_partitions := ps,
          lo_default := filter (\<lambda>r. \<not> (lg_changed_at r < mt_now m - max 0 retention * day_us \<and> lg_txid r < lowest)) (lo_default l)\<rparr>\<rparr>)"
  note l = ensure_days_Inr[OF e wf] and c = ensure_days_old_count[OF e wf ret(2)]
  have days: "max 0 retention = days" using r ret by simp
  from cases show ?thesis
  proof (elim disjE exE conjE)
    fix lowest ps
    assume d: "drop_partitions (locks (mt_txn m)) lowest 1 0 (old_days ?today (max 0 retention) l) (lo_partitions l) = (n, ps)"
      and m': "m' = m\<lparr>mt_log := l\<lparr>lo_partitions := ps,
          lo_default := filter (\<lambda>r. \<not> (lg_changed_at r < mt_now m - max 0 retention * day_us \<and> lg_txid r < lowest)) (lo_default l)\<rparr>\<rparr>"
    have wfl: "wf_log l" using l by blast
    note o = old_days_facts[OF wfl, of ?today "max 0 retention"]
    have "length (filter (\<lambda>p. fst p + 1 \<le> ?today - days) ps) + n \<le> length (filter (\<lambda>p. fst p + 1 \<le> ?today - days) (lo_partitions l)) + 0"
      using d by (rule drop_partitions_count) (use o days in \<open>auto simp: list_all_iff\<close>)
    moreover have "distinct (map fst ps)" using drop_partitions_keeps[OF d] wfl by (auto simp: wf_log_def)
    ultimately show ?thesis using c by (simp add: m' wf_log_def old_count_def)
  qed (use l c in simp)
qed

lemma purge_loop_ends:
  assumes "wf_log (mt_log m)" and "mt_setting m ''change_log_retention_days'' ''14'' = Inr days" and "1 \<le> days"
    and "\<And>i. day_of (mt_clock m i) = today" and "old_count today days (mt_log m) < fuel"
  shows "fst (purge_loop fuel locks acc m) \<noteq> Inr None"
  using assms
proof (induction fuel arbitrary: acc m)
  case (Suc fuel)
  show ?case
  proof (cases "purge_change_log locks None (Some 1) m")
    case (Inl e)
    then show ?thesis by (simp add: sbind_def statement_def)
  next
    case (Inr nm)
    then obtain n m' where run: "purge_change_log locks None (Some 1) m = Inr (n, m')" by (cases nm) auto
    note p = purge_progresses[OF run Suc.prems(1-3)] and k = purge_change_log_db[OF run]
    have today: "day_of (mt_now m) = today" using Suc.prems(4) by (simp add: mt_now_def)
    have "fst (purge_loop fuel locks (acc + n) (m'\<lparr>mt_txn := mt_txn m + 1\<rparr>)) \<noteq> Inr None" if "n \<noteq> 0"
      using p k today that Suc.prems by (intro Suc.IH) (auto simp: mt_setting_def)
    then show ?thesis using run by (simp add: sbind_def statement_def sret_run)
  qed
qed simp


section \<open>The loop does not end without retention\<close>

lemma purge_change_log_run:
  assumes "mt_setting m ''change_log_retention_days'' ''14'' = Inr retention" and "mt_setting m ''cursor_stale_days'' ''7'' = Inr stale"
    and "ensure_days (locks (mt_txn m)) [day_of (mt_now m) - 1..day_of (mt_now m) + 7] 0 (mt_log m) = Inr (c, l)"
    and "floor_of (live_cursors (mt_now m) stale l) = Some lowest"
    and "drop_partitions (locks (mt_txn m)) lowest 1 0 (old_days (day_of (mt_now m)) (max 0 retention) l) (lo_partitions l) = (n, ps)"
  shows "purge_change_log locks None (Some 1) m = Inr (n, m\<lparr>mt_log := l\<lparr>lo_partitions := ps,
          lo_default := filter (\<lambda>r. \<not> (lg_changed_at r < mt_now m - max 0 retention * day_us \<and> lg_txid r < lowest)) (lo_default l)\<rparr>\<rparr>)"
  using assms by (simp add: purge_change_log_def ensure_change_log_partitions_def clamp_days_def get_or_def Let_def)

lemma ensure_days_total: "(\<And>d. \<not> busy d) \<Longrightarrow> \<exists>n' l'. ensure_days busy ds n l = Inr (n', l')"
  by (induction busy ds n l rule: ensure_days.induct) auto

text \<open>\<open>consumed m\<close>: a cursor is live, and no cursor has changes left to read.\<close>

definition consumed :: "maint \<Rightarrow> bool" where
  "consumed m \<longleftrightarrow> wf_log (mt_log m) \<and>
     (\<forall>r \<in> log_rows (mt_log m). \<forall>kc \<in> set (lo_cursors (mt_log m)). lg_txid r < cu_last_txid (snd kc)) \<and>
     (\<exists>stale. mt_setting m ''cursor_stale_days'' ''7'' = Inr stale \<and>
        (\<forall>i. \<exists>kc \<in> set (lo_cursors (mt_log m)). mt_clock m i - stale * day_us < cu_updated_at (snd kc)))"

lemma floor_of_member: "floor_of xs = Some f \<Longrightarrow> f \<in> set xs"
proof -
  have "foldl min x ys \<in> set (x # ys)" for x :: int and ys by (induction ys arbitrary: x) (simp, metis foldl_Cons insert_iff list.simps(15) min_def)
  then show "floor_of xs = Some f \<Longrightarrow> f \<in> set xs" by (auto simp: floor_of_def split: list.splits)
qed

lemma floor_of_None: "floor_of xs = None \<longleftrightarrow> xs = []"
  by (simp add: floor_of_def split: list.splits)

lemma purge_without_retention:
  assumes cons: "consumed m" and ret: "mt_setting m ''change_log_retention_days'' ''14'' = Inr retention" "retention \<le> 0"
    and free: "\<And>t d. \<not> locks t d"
  shows "\<exists>m'. purge_change_log locks None (Some 1) m = Inr (1, m') \<and> consumed (m'\<lparr>mt_txn := t\<rparr>) \<and>
    mt_db m' = mt_db m \<and> mt_clock m' = mt_clock m"
proof -
  let ?today = "day_of (mt_now m)"
  from cons obtain stale where wf: "wf_log (mt_log m)" and stale: "mt_setting m ''cursor_stale_days'' ''7'' = Inr stale"
    and read: "\<forall>r \<in> log_rows (mt_log m). \<forall>kc \<in> set (lo_cursors (mt_log m)). lg_txid r < cu_last_txid (snd kc)"
    and live: "\<forall>i. \<exists>kc \<in> set (lo_cursors (mt_log m)). mt_clock m i - stale * day_us < cu_updated_at (snd kc)"
    by (auto simp: consumed_def simp del: split_paired_All split_paired_Ex)
  obtain c l where e: "ensure_days (locks (mt_txn m)) [?today - 1..?today + 7] 0 (mt_log m) = Inr (c, l)"
    using ensure_days_total[of "locks (mt_txn m)"] free by blast
  note l = ensure_days_Inr[OF e wf]
  have "live_cursors (mt_now m) stale l \<noteq> []"
    using live l by (auto simp: live_cursors_def mt_now_def filter_empty_conv)
  then obtain lowest where f: "floor_of (live_cursors (mt_now m) stale l) = Some lowest" by (metis floor_of_None not_None_eq)
  from floor_of_member[OF f] obtain kc where "kc \<in> set (lo_cursors l)" "lowest = cu_last_txid (snd kc)"
    by (auto simp: live_cursors_def)
  with read l have low: "\<And>r. r \<in> log_rows l \<Longrightarrow> \<not> lowest \<le> lg_txid r" by fastforce
  have wfl: "wf_log l" using l by blast
  note o = old_days_facts[OF wfl, of ?today "max 0 retention"]
  have "?today - 1 \<in> set (old_days ?today (max 0 retention) l)" using o(2) l ret(2) by simp
  then obtain d ds where ds: "old_days ?today (max 0 retention) l = d # ds" by (cases "old_days ?today (max 0 retention) l") auto
  have none: "\<not> list_ex (\<lambda>r. lowest \<le> lg_txid r) (case map_of (lo_partitions l) d of None \<Rightarrow> [] | Some rows \<Rightarrow> rows)"
  proof (cases "map_of (lo_partitions l) d")
    case (Some rows)
    then have "set rows \<subseteq> log_rows l" using map_of_SomeD by (fastforce simp: log_rows_def)
    with low Some show ?thesis by (auto simp: list_ex_iff)
  qed simp
  have "drop_partitions (locks (mt_txn m)) lowest 1 1 ds ps = (1, ps)" for ps by (cases ds) simp_all
  then have d: "drop_partitions (locks (mt_txn m)) lowest 1 0 (old_days ?today (max 0 retention) l) (lo_partitions l) =
      (1, AList.delete d (lo_partitions l))"
    using none free by (simp add: ds)
  let ?m' = "m\<lparr>mt_log := l\<lparr>lo_partitions := AList.delete d (lo_partitions l),
          lo_default := filter (\<lambda>r. \<not> (lg_changed_at r < mt_now m - max 0 retention * day_us \<and> lg_txid r < lowest)) (lo_default l)\<rparr>\<rparr>"
  have "purge_change_log locks None (Some 1) m = Inr (1, ?m')" by (rule purge_change_log_run[where locks = locks, OF ret(1) stale e f d])
  moreover have "log_rows (mt_log ?m') \<subseteq> log_rows l"
    by (auto simp: log_rows_def member_delete)
  then have "log_rows (mt_log ?m') \<subseteq> log_rows (mt_log m)" using l by simp
  then have "consumed (?m'\<lparr>mt_txn := t\<rparr>)"
    using read stale live l wfl by (auto simp: consumed_def wf_log_def distinct_delete mt_setting_def)
  ultimately show ?thesis by auto
qed

text \<open>
  With a retention of zero days (or less) maintenance does not end, once the cursors have read
  the log: every pass drops a partition of the past, and the next one creates yesterday's partition
  again, so that no number of passes is enough.
\<close>

theorem maintenance_without_retention_never_ends:
  assumes "consumed m" and "mt_setting m ''change_log_retention_days'' ''14'' = Inr retention" and "retention \<le> 0"
    and "\<And>t d. \<not> locks t d"
  shows "fst (purge_loop fuel locks acc m) = Inr None"
  using assms(1,2)
proof (induction fuel arbitrary: acc m)
  case (Suc fuel)
  from purge_without_retention[where locks = locks and t = "mt_txn m + 1", OF Suc.prems assms(3,4)] obtain m' where
    run: "purge_change_log locks None (Some 1) m = Inr (1, m')" and c: "consumed (m'\<lparr>mt_txn := mt_txn m + 1\<rparr>)"
    and same: "mt_db m' = mt_db m" by blast
  have "fst (purge_loop fuel locks (acc + 1) (m'\<lparr>mt_txn := mt_txn m + 1\<rparr>)) = Inr None"
    using Suc.prems(2) same by (intro Suc.IH[OF c]) (simp add: mt_setting_def)
  then show ?case using run by (simp add: sbind_def statement_def)
qed (simp add: sret_run)

end
