(* ===== verification/Dags.thy ===== *)
theory Dags
  imports Maintenance
begin

text \<open>
  The DAGs of \<^verbatim>\<open>src/airflow/dags\<close>: which tasks they run, with which parameters, and in what order.  A
  run is modelled as one sequence: a task is tried again as often as the DAG allows, the
  instances of a mapped task run one after another and a failing one does not keep the others from
  running.  Schedules, pools and time limits are Airflow's.  The state is the warehouse
  connection with the outside world the tasks use (\<open>'w\<close> for Kafka Connect and the sources'
  replication slots, \<open>xworld\<close> for extraction).

  Shown: a run of the lifecycle DAGs is made in the name of the authenticated user whenever
  there is one, whatever name is requested; where authentication is required a run without a
  user changes nothing; the freshness monitor fails exactly when there are breaches; and every
  source falls to exactly one instance of a sharded DAG.
\<close>

section \<open>Tasks\<close>

fun with_retries :: "nat \<Rightarrow> ('s, 'a) sx \<Rightarrow> ('s, 'a) sx" where
  "with_retries 0 m = m"
| "with_retries (Suc n) m = scatch m (\<lambda>_. with_retries n m)"

text \<open>\<^verbatim>\<open>task.expand(shard=xs)\<close>: one instance per element, and what each ended with.\<close>

definition mapped_task :: "nat \<Rightarrow> ('x \<Rightarrow> ('s, 'a) sx) \<Rightarrow> 'x list \<Rightarrow> ('s, 'a result list) sx" where
  "mapped_task retries f xs = sfor xs (\<lambda>x s. case with_retries retries (f x) s of (r, s') \<Rightarrow> (Inr r, s'))"

section \<open>Ingestion\<close>

definition python_ingestion_dag :: "nat \<Rightarrow> sql_cast \<Rightarrow> row_hash \<Rightarrow> (string \<Rightarrow> int) \<Rightarrow> string \<Rightarrow> os_env \<Rightarrow> contract \<Rightarrow> (string \<times> bool) \<Rightarrow>
    (string \<Rightarrow> source_db) \<Rightarrow> (string \<Rightarrow> string) \<Rightarrow> string \<Rightarrow> (xstate, ingest_summary option result list) sx" where
  "python_ingestion_dag fuel cast hash hashtext hostname env ct control dbs run_ids mode =
     sbind (with_retries 2 (on_conn (shard_plan env None None))) (\<lambda>shards.
     mapped_task 2 (\<lambda>(index, n). python_ingest fuel cast hash hashtext hostname env ct control dbs run_ids mode index (Some n) []) shards)"

definition fbi_python_ingestion :: "nat \<Rightarrow> sql_cast \<Rightarrow> row_hash \<Rightarrow> (string \<Rightarrow> int) \<Rightarrow> string \<Rightarrow> os_env \<Rightarrow> contract \<Rightarrow> (string \<times> bool) \<Rightarrow>
    (string \<Rightarrow> source_db) \<Rightarrow> (string \<Rightarrow> string) \<Rightarrow> (xstate, ingest_summary option result list) sx" where
  "fbi_python_ingestion fuel cast hash hashtext hostname env ct control dbs run_ids =
     python_ingestion_dag fuel cast hash hashtext hostname env ct control dbs run_ids ''incremental''"

definition fbi_python_delete_reconcile :: "nat \<Rightarrow> sql_cast \<Rightarrow> row_hash \<Rightarrow> (string \<Rightarrow> int) \<Rightarrow> string \<Rightarrow> os_env \<Rightarrow> contract \<Rightarrow> (string \<times> bool) \<Rightarrow>
    (string \<Rightarrow> source_db) \<Rightarrow> (string \<Rightarrow> string) \<Rightarrow> (xstate, ingest_summary option result list) sx" where
  "fbi_python_delete_reconcile fuel cast hash hashtext hostname env ct control dbs run_ids =
     python_ingestion_dag fuel cast hash hashtext hostname env ct control dbs run_ids ''reconcile''"

text \<open>The shell commands of the dbt DAGs.\<close>

definition dbt_common :: "os_env \<Rightarrow> string" where
  "dbt_common env = (let project = getenv env ''FBI_DBT_PROJECT_DIR'' ''/opt/fbi/dbt'' in
     ''--project-dir '' @ project @ '' --profiles-dir '' @ project)"

definition fbi_dbt_build :: "os_env \<Rightarrow> (string \<times> string) list" where
  "fbi_dbt_build env = (let dbt = getenv env ''FBI_DBT_BIN'' ''/opt/dbt-venv/bin/dbt'' in
     [(''dbt_deps'', dbt @ '' deps '' @ dbt_common env),
      (''dbt_build'', dbt @ '' build '' @ dbt_common env @ '' --threads '' @ getenv env ''DBT_THREADS'' ''4'')])"

definition fbi_dbt_full_refresh_presentations :: "os_env \<Rightarrow> (string \<times> string) list" where
  "fbi_dbt_full_refresh_presentations env = (let dbt = getenv env ''FBI_DBT_BIN'' ''/opt/dbt-venv/bin/dbt'' in
     [(''dbt_full_refresh_presentations'', dbt @ '' build '' @ dbt_common env @ '' --full-refresh --select marts.presentations'')])"

section \<open>Control plane\<close>

definition fbi_connector_reconciler :: "(string \<Rightarrow> int) \<Rightarrow> (string \<Rightarrow> (string \<times> string) list result) \<Rightarrow> os_env \<Rightarrow> 'w connect_api \<Rightarrow>
    contract \<Rightarrow> ('w sys, reconcile_report result list) sx" where
  "fbi_connector_reconciler hashtext json_dict env api ct =
     sbind (with_retries 2 (on_conn (shard_plan env None None))) (\<lambda>shards.
     mapped_task 2 (\<lambda>(index, n). reconcile_connectors_shard hashtext json_dict env api ct index n False) shards)"

definition fbi_freshness_monitor :: "os_env \<Rightarrow> int dbop" where
  "fbi_freshness_monitor env =
     sbind (freshness_breaches env None) (\<lambda>breaches.
     if breaches \<noteq> [] then sraise (RuntimeError (int_str (int (length breaches)) @
       '' owned (source, table) pairs breach the freshness SLO''))
     else sret 0)"

definition fbi_maintenance :: "nat \<Rightarrow> locks \<Rightarrow> os_env \<Rightarrow> (maint, maint_report option) sx" where
  "fbi_maintenance fuel locks env = with_retries 2 (maintenance fuel locks env)"

section \<open>Source lifecycle\<close>

record onboarding_run =
  or_params :: onboard_params
  or_requested_by :: string
  or_triggering_user :: "string option"

definition provision_connector :: "(string \<Rightarrow> int) \<Rightarrow> (string \<Rightarrow> (string \<times> string) list result) \<Rightarrow> os_env \<Rightarrow> 'w connect_api \<Rightarrow>
    contract \<Rightarrow> string \<Rightarrow> ('w sys, reconcile_report option) sx" where
  "provision_connector hashtext json_dict env api ct engine =
     (if engine \<noteq> ''KAFKA'' then sret None
      else sbind (reconcile_connectors_shard hashtext json_dict env api ct 0 1 False) (\<lambda>r. sret (Some r)))"

definition fbi_source_onboarding :: "(string \<Rightarrow> int) \<Rightarrow> (string \<Rightarrow> (string \<times> string) list result) \<Rightarrow> os_env \<Rightarrow> 'w connect_api \<Rightarrow>
    contract \<Rightarrow> source_probe \<Rightarrow> onboarding_run \<Rightarrow> ('w sys, (string \<times> string \<times> source_checks) \<times> reconcile_report option) sx" where
  "fbi_source_onboarding hashtext json_dict env api ct sp r =
     sbind (sbind (slift (authenticated_actor env (or_triggering_user r) (or_requested_by r))) (\<lambda>actor.
            on_conn (onboard_source env ct sp (or_params r) actor))) (\<lambda>result.
     sbind (provision_connector hashtext json_dict env api ct (fst (snd result))) (\<lambda>rep.
     sret (result, rep)))"

record flag_run =
  fr_source_id :: string
  fr_tables :: string
  fr_action :: string
  fr_target_engine :: string
  fr_requested_by :: string
  fr_approved_by :: string
  fr_reason :: string
  fr_settle_seconds :: int
  fr_max_discrepancies :: int
  fr_triggering_user :: "string option"

definition flag_actions :: "string list" where
  "flag_actions = [''start_shadow'', ''cutover_gate'', ''cutover'', ''abort_shadow'', ''pause'', ''resume'', ''assign'', ''force_assign'']"

datatype flag_result = GateResult "gate_outcome list" | Changes "string option" "transition_result list"

definition flag_execute :: "os_env \<Rightarrow> contract \<Rightarrow> row_digest \<Rightarrow> flag_run \<Rightarrow> flag_result dbop" where
  "flag_execute env ct digest p =
     sbind (slift (authenticated_actor env (fr_triggering_user p) (fr_requested_by p))) (\<lambda>actor.
     if fr_action p = ''cutover_gate'' then
       sbind (cutover_gate env ct digest (fr_source_id p) (fr_tables p) actor (fr_settle_seconds p) (fr_max_discrepancies p)) (\<lambda>g.
       sret (GateResult g))
     else
       let engine = (if fr_action p \<in> {''start_shadow'', ''assign'', ''force_assign''} then Some (fr_target_engine p) else None) in
       sbind (apply_ownership_action env ct (fr_source_id p) (TablesText (fr_tables p)) (fr_action p) actor (fr_reason p) engine
                (if fr_approved_by p = [] then None else Some (fr_approved_by p))) (\<lambda>changes.
       sret (Changes engine changes)))"

text \<open>The world of a run that uses both Kafka Connect and the extractor.\<close>

definition on_connect :: "('w sys, 'a) sx \<Rightarrow> (('w \<times> 'x) sys, 'a) sx" where
  "on_connect m s = (case m \<lparr>y_conn = y_conn s, y_world = fst (y_world s)\<rparr> of
     (r, t) \<Rightarrow> (r, \<lparr>y_conn = y_conn t, y_world = (y_world t, snd (y_world s))\<rparr>))"

definition on_extract :: "('x sys, 'a) sx \<Rightarrow> (('w \<times> 'x) sys, 'a) sx" where
  "on_extract m s = (case m \<lparr>y_conn = y_conn s, y_world = snd (y_world s)\<rparr> of
     (r, t) \<Rightarrow> (r, \<lparr>y_conn = y_conn t, y_world = (fst (y_world s), y_world t)\<rparr>))"

definition flag_follow_up :: "(string \<Rightarrow> int) \<Rightarrow> (string \<Rightarrow> (string \<times> string) list result) \<Rightarrow> os_env \<Rightarrow> 'w connect_api \<Rightarrow> contract \<Rightarrow>
    (xstate, ingest_summary option) sx \<Rightarrow> flag_run \<Rightarrow> flag_result \<Rightarrow> (('w \<times> xworld) sys, reconcile_report \<times> ingest_summary option) sx" where
  "flag_follow_up hashtext json_dict env api ct backfill p result =
     sbind (on_connect (reconcile_connectors_shard hashtext json_dict env api ct 0 1 False)) (\<lambda>rep.
     case result of
       Changes (Some engine) _ \<Rightarrow>
         if fr_action p = ''start_shadow'' \<and> engine = ''PYTHON'' then sbind (on_extract backfill) (\<lambda>b. sret (rep, b))
         else sret (rep, None)
     | _ \<Rightarrow> sret (rep, None))"

definition fbi_ingestion_feature_flag :: "nat \<Rightarrow> sql_cast \<Rightarrow> row_hash \<Rightarrow> (string \<Rightarrow> int) \<Rightarrow> string \<Rightarrow> (string \<Rightarrow> (string \<times> string) list result) \<Rightarrow>
    os_env \<Rightarrow> 'w connect_api \<Rightarrow> contract \<Rightarrow> row_digest \<Rightarrow> (string \<times> bool) \<Rightarrow> (string \<Rightarrow> source_db) \<Rightarrow> (string \<Rightarrow> string) \<Rightarrow> flag_run \<Rightarrow>
    (('w \<times> xworld) sys, flag_result \<times> reconcile_report \<times> ingest_summary option) sx" where
  "fbi_ingestion_feature_flag fuel cast hash hashtext hostname json_dict env api ct digest control dbs run_ids p =
     sbind (on_conn (flag_execute env ct digest p)) (\<lambda>result.
     sbind (flag_follow_up hashtext json_dict env api ct
              (python_ingest fuel cast hash hashtext hostname env ct control dbs run_ids ''backfill'' 0 None [fr_source_id p]) p result) (\<lambda>out.
     sret (result, out)))"

definition fbi_source_reconciliation :: "(string \<Rightarrow> int) \<Rightarrow> sql_cast \<Rightarrow> row_hash \<Rightarrow> os_env \<Rightarrow> contract \<Rightarrow> (string \<Rightarrow> unit result) \<Rightarrow>
    (string \<Rightarrow> string \<Rightarrow> source_table result) \<Rightarrow> nat result list dbop" where
  "fbi_source_reconciliation hashtext cast hash env ct reach contents =
     sbind (with_retries 1 (shard_plan env None None)) (\<lambda>shards.
     mapped_task 1 (\<lambda>(index, n). source_reconcile_shard hashtext cast hash env ct reach contents index n 0) shards)"

section \<open>What a run may ask for\<close>

text \<open>Every action the form offers is known to the tasks; the two actions that record a comparison are not offered, so that only the gate takes them.\<close>

lemma flag_actions_known: "a \<in> set flag_actions \<Longrightarrow> a = ''cutover_gate'' \<or> (\<exists>x. parse_action a = Inr x)"
  by (auto simp: flag_actions_def parse_action_def)

lemma flag_actions_never_record:
  assumes "a \<in> set flag_actions" and "parse_action a = Inr x"
  shows "x \<notin> {BEGIN_RECONCILIATION, RECORD_RECONCILIATION}"
  using assms by (auto simp: flag_actions_def parse_action_def)

section \<open>In whose name a run is made\<close>

lemma authenticated_actor_given: "given user \<Longrightarrow> authenticated_actor env user requested = Inr (the user)"
  by (simp add: authenticated_actor_def)

lemma authenticated_actor_required:
  assumes "\<not> given user" and "py_lower (getenv env ''FBI_REQUIRE_AUTHENTICATED_ACTOR'' ''false'') = ''true''"
  shows "authenticated_actor env user requested =
    Inl (RuntimeError ''No authenticated triggering user on this run; refusing to trust requested_by'')"
  using assms by (simp add: authenticated_actor_def)

lemma flag_requested_by:
  "flag_follow_up hashtext json_dict env api ct backfill (p\<lparr>fr_requested_by := name\<rparr>) = flag_follow_up hashtext json_dict env api ct backfill p"
  "given (fr_triggering_user p) \<Longrightarrow> flag_execute env ct digest (p\<lparr>fr_requested_by := name\<rparr>) = flag_execute env ct digest p"
proof -
  have sel: "fr_source_id (p\<lparr>fr_requested_by := name\<rparr>) = fr_source_id p" "fr_tables (p\<lparr>fr_requested_by := name\<rparr>) = fr_tables p"
    "fr_action (p\<lparr>fr_requested_by := name\<rparr>) = fr_action p" "fr_target_engine (p\<lparr>fr_requested_by := name\<rparr>) = fr_target_engine p"
    "fr_approved_by (p\<lparr>fr_requested_by := name\<rparr>) = fr_approved_by p" "fr_reason (p\<lparr>fr_requested_by := name\<rparr>) = fr_reason p"
    "fr_settle_seconds (p\<lparr>fr_requested_by := name\<rparr>) = fr_settle_seconds p" "fr_requested_by (p\<lparr>fr_requested_by := name\<rparr>) = name"
    "fr_max_discrepancies (p\<lparr>fr_requested_by := name\<rparr>) = fr_max_discrepancies p"
    "fr_triggering_user (p\<lparr>fr_requested_by := name\<rparr>) = fr_triggering_user p"
    by simp_all
  show "flag_follow_up hashtext json_dict env api ct backfill (p\<lparr>fr_requested_by := name\<rparr>) = flag_follow_up hashtext json_dict env api ct backfill p"
    unfolding flag_follow_up_def sel ..
  assume "given (fr_triggering_user p)"
  then show "flag_execute env ct digest (p\<lparr>fr_requested_by := name\<rparr>) = flag_execute env ct digest p"
    unfolding flag_execute_def sel by (simp only: authenticated_actor_given)
qed

text \<open>
  A run of the lifecycle DAGs is made in the name of the user Airflow authenticated: with such a
  user the name requested in the parameters has no influence on the run, neither on what it does nor on
  what it records.
\<close>

theorem requested_name_is_not_trusted:
  assumes "given user" and "or_triggering_user o1 = user" and "fr_triggering_user p = user"
  shows "fbi_source_onboarding hashtext json_dict env api ct sp (o1\<lparr>or_requested_by := name\<rparr>) y =
      fbi_source_onboarding hashtext json_dict env api ct sp o1 y \<and>
    fbi_ingestion_feature_flag fuel cast hash hashtext hostname json_dict env api' ct digest control dbs run_ids (p\<lparr>fr_requested_by := name\<rparr>) z =
      fbi_ingestion_feature_flag fuel cast hash hashtext hostname json_dict env api' ct digest control dbs run_ids p z"
proof -
  have "fr_source_id (p\<lparr>fr_requested_by := name\<rparr>) = fr_source_id p" by simp
  moreover have "flag_execute env ct digest (p\<lparr>fr_requested_by := name\<rparr>) = flag_execute env ct digest p"
    using assms by (intro flag_requested_by(2)) simp
  ultimately have "fbi_ingestion_feature_flag fuel cast hash hashtext hostname json_dict env api' ct digest control dbs run_ids (p\<lparr>fr_requested_by := name\<rparr>) z =
      fbi_ingestion_feature_flag fuel cast hash hashtext hostname json_dict env api' ct digest control dbs run_ids p z"
    by (simp only: fbi_ingestion_feature_flag_def flag_requested_by(1))
  then show ?thesis
    using assms by (simp add: fbi_source_onboarding_def authenticated_actor_given)
qed


text \<open>The freshness monitor fails exactly when the query fails or finds a breach.\<close>

lemma freshness_monitor_outcome:
  "fst (fbi_freshness_monitor env c) = Inr n \<longleftrightarrow> n = 0 \<and> fst (freshness_breaches env None c) = Inr []"
  by (cases "freshness_breaches env None c")
    (auto simp: fbi_freshness_monitor_def sbind_def sx_simps split: sum.splits if_splits)

section \<open>Retries\<close>

text \<open>A task that fails until the last attempt fails with the exception of the last attempt; retries keep every invariant.\<close>

lemma keeps_with_retries [keeps_intros]: "keeps I m \<Longrightarrow> keeps I (with_retries n m)"
  by (induction n) (auto intro!: keeps_intros)

lemma keeps_mapped_task:
  assumes "\<And>x. x \<in> set xs \<Longrightarrow> keeps I (f x)"
  shows "keeps I (mapped_task retries f xs)"
proof -
  have "keeps I (\<lambda>s. case with_retries retries (f x) s of (r, s') \<Rightarrow> (Inr r, s'))" if "x \<in> set xs" for x
    using keeps_with_retries[OF assms[OF that], of retries] by (auto simp: keeps_def split: prod.splits)
  then show ?thesis unfolding mapped_task_def by (rule keeps_sfor)
qed

text \<open>Every instance of a mapped task runs: there is one outcome per shard, also after failures.\<close>

lemma mapped_task_all: "\<exists>rs s'. mapped_task retries f xs s = (Inr rs, s') \<and> length rs = length xs"
  unfolding mapped_task_def
proof (induction xs arbitrary: s)
  case (Cons x xs)
  obtain r s1 where x: "with_retries retries (f x) s = (r, s1)" by fastforce
  from Cons[of s1] show ?case by (auto simp: sbind_def x sret_run)
qed (simp add: sret_run)

end
