(* ===== verification/Json.thy ===== *)
theory Json
  imports Prelude "HOL-Library.AList"
begin

text \<open>
  Python's \<^verbatim>\<open>json\<close> module as the programs use it: \<^verbatim>\<open>json.dumps\<close> with its default separators and
  escapes, and \<^verbatim>\<open>json.loads\<close> as a recursive descent over the text.  Characters are those below
  256; a number with a fraction or an exponent is kept as its text.  A dictionary is an
  association list in insertion order.  The parser has fuel, twice the length of the text.

  Shown: the fuel never runs out, and a value that is printed is read back as itself.
\<close>

section \<open>Printing\<close>

datatype json =
    JNull
  | JBool bool
  | JInt int
  | JFloat string
  | JStr string
  | JArr "json list"
  | JObj "(string \<times> json) list"

definition dquote_char :: char where
  "dquote_char = CHR 0x22"

definition bslash_char :: char where
  "bslash_char = CHR 0x5C"

definition json_hex :: "nat \<Rightarrow> char" where
  "json_hex d = (if d < 10 then char_of (48 + d) else char_of (87 + d))"

definition json_escape :: "char \<Rightarrow> string" where
  "json_escape c =
     (let n = of_char c :: nat in
      if c = dquote_char then [bslash_char, dquote_char]
      else if c = bslash_char then [bslash_char, bslash_char]
      else if n = 10 then [bslash_char, CHR ''n'']
      else if n = 13 then [bslash_char, CHR ''r'']
      else if n = 9 then [bslash_char, CHR ''t'']
      else if n = 12 then [bslash_char, CHR ''f'']
      else if n = 8 then [bslash_char, CHR ''b'']
      else if n < 32 \<or> 126 < n then [bslash_char, CHR ''u'', CHR ''0'', CHR ''0'', json_hex (n div 16), json_hex (n mod 16)]
      else [c])"

definition json_string :: "string \<Rightarrow> string" where
  "json_string s = [dquote_char] @ concat (map json_escape s) @ [dquote_char]"

fun json_dumps :: "json \<Rightarrow> string" where
  "json_dumps JNull = ''null''"
| "json_dumps (JBool b) = (if b then ''true'' else ''false'')"
| "json_dumps (JInt i) = int_str i"
| "json_dumps (JFloat t) = t"
| "json_dumps (JStr s) = json_string s"
| "json_dumps (JArr xs) = ''['' @ py_join '', '' (map json_dumps xs) @ '']''"
| "json_dumps (JObj kvs) = ''{'' @ py_join '', '' (map (\<lambda>(k, v). json_string k @ '': '' @ json_dumps v) kvs) @ ''}''"

text \<open>\<^verbatim>\<open>{**d, **e}\<close>\<close>

definition dict_merge :: "(string \<times> 'v) list \<Rightarrow> (string \<times> 'v) list \<Rightarrow> (string \<times> 'v) list" where
  "dict_merge d e = fold (\<lambda>(k, v). AList.update k v) e d"

section \<open>Access\<close>

text \<open>\<^verbatim>\<open>v[k]\<close>, \<^verbatim>\<open>v.get(k, dflt)\<close>, iterating over a value, its truth, and \<^verbatim>\<open>str(v)\<close> of a text.\<close>

definition json_field :: "json \<Rightarrow> string \<Rightarrow> json result" where
  "json_field v k = (case v of
     JObj kvs \<Rightarrow> (case map_of kvs k of None \<Rightarrow> Inl (KeyError k) | Some x \<Rightarrow> Inr x)
   | _ \<Rightarrow> Inl (TypeError k))"

definition json_get :: "json \<Rightarrow> string \<Rightarrow> json \<Rightarrow> json result" where
  "json_get v k dflt = (case v of
     JObj kvs \<Rightarrow> Inr (case map_of kvs k of None \<Rightarrow> dflt | Some x \<Rightarrow> x)
   | _ \<Rightarrow> Inl (AttributeError ''get''))"

definition json_elements :: "json \<Rightarrow> json list result" where
  "json_elements v = (case v of
     JArr xs \<Rightarrow> Inr xs
   | JObj kvs \<Rightarrow> Inr (map (\<lambda>kv. JStr (fst kv)) kvs)
   | JStr s \<Rightarrow> Inr (map (\<lambda>c. JStr [c]) s)
   | _ \<Rightarrow> Inl (TypeError ''object is not iterable''))"

definition json_text :: "json \<Rightarrow> string" where
  "json_text v = (case v of JStr s \<Rightarrow> s | _ \<Rightarrow> json_dumps v)"

definition json_truthy :: "json \<Rightarrow> bool" where
  "json_truthy v = (case v of
     JNull \<Rightarrow> False | JBool b \<Rightarrow> b | JInt i \<Rightarrow> i \<noteq> 0
   | JFloat t \<Rightarrow> list_ex (\<lambda>c. c \<notin> {CHR ''0'', CHR ''.'', CHR ''-''}) (takeWhile (\<lambda>c. c \<notin> {CHR ''e'', CHR ''E''}) t)
   | JStr s \<Rightarrow> s \<noteq> [] | JArr xs \<Rightarrow> xs \<noteq> [] | JObj kvs \<Rightarrow> kvs \<noteq> [])"

text \<open>\<^verbatim>\<open>v or dflt\<close>, where \<open>None\<close> is Python's \<^verbatim>\<open>None\<close> in place of a value.\<close>

definition json_or :: "json option \<Rightarrow> json \<Rightarrow> json" where
  "json_or v dflt = (case v of None \<Rightarrow> dflt | Some x \<Rightarrow> if json_truthy x then x else dflt)"

section \<open>Reading\<close>

definition is_json_space :: "char \<Rightarrow> bool" where
  "is_json_space c \<longleftrightarrow> c \<in> {CHR 0x20, CHR 0x09, CHR 0x0A, CHR 0x0D}"

definition skip_space :: "string \<Rightarrow> string" where
  "skip_space = dropWhile is_json_space"

definition hex_value :: "char \<Rightarrow> nat option" where
  "hex_value c =
     (let n = of_char c :: nat in
      if 48 \<le> n \<and> n \<le> 57 then Some (n - 48)
      else if 97 \<le> n \<and> n \<le> 102 then Some (n - 87)
      else if 65 \<le> n \<and> n \<le> 70 then Some (n - 55) else None)"

definition hex4_value :: "char \<Rightarrow> char \<Rightarrow> char \<Rightarrow> char \<Rightarrow> nat option" where
  "hex4_value a b c d = (case (hex_value a, hex_value b, hex_value c, hex_value d) of
     (Some w, Some x, Some y, Some z) \<Rightarrow> Some (((w * 16 + x) * 16 + y) * 16 + z) | _ \<Rightarrow> None)"

definition short_escape :: "char \<Rightarrow> char option" where
  "short_escape c = map_of [(dquote_char, dquote_char), (bslash_char, bslash_char), (CHR ''/'', CHR ''/''),
     (CHR ''b'', CHR 0x08), (CHR ''f'', CHR 0x0C), (CHR ''n'', CHR 0x0A), (CHR ''r'', CHR 0x0D), (CHR ''t'', CHR 0x09)] c"

definition json_error :: "string \<Rightarrow> 'a result" where
  "json_error what = Inl (ValueError what)"

text \<open>The rest of a string after its opening quote, and the text behind it.\<close>

fun json_unescape :: "string \<Rightarrow> (string \<times> string) result" where
  "json_unescape [] = json_error ''Unterminated string''"
| "json_unescape (c # cs) =
     (if c = dquote_char then Inr ([], cs)
      else if c = bslash_char then
        (case cs of
           [] \<Rightarrow> json_error ''Unterminated string''
         | e # r \<Rightarrow>
             if e = CHR ''u'' then
               (case r of
                  w # x # y # z # r' \<Rightarrow>
                    (case hex4_value w x y z of
                       None \<Rightarrow> json_error ''Invalid escape''
                     | Some n \<Rightarrow>
                         if n < 256 then rbind (json_unescape r') (\<lambda>(s, t). Inr (char_of n # s, t))
                         else json_error ''character out of range'')
                | _ \<Rightarrow> json_error ''Invalid escape'')
             else
               (case short_escape e of
                  None \<Rightarrow> json_error ''Invalid escape''
                | Some x \<Rightarrow> rbind (json_unescape r) (\<lambda>(s, t). Inr (x # s, t))))
      else if (of_char c :: nat) < 32 then json_error ''Invalid control character''
      else rbind (json_unescape cs) (\<lambda>(s, t). Inr (c # s, t)))"

text \<open>The parts of a number: digits, a fraction, an exponent, each with the text behind it.\<close>

definition span_digits :: "string \<Rightarrow> string \<times> string" where
  "span_digits s = (takeWhile is_digit_char s, dropWhile is_digit_char s)"

definition int_part :: "string \<Rightarrow> (string \<times> string) option" where
  "int_part s = (case s of
     [] \<Rightarrow> None
   | c # r \<Rightarrow> if c = CHR ''0'' then Some ([c], r) else if is_digit_char c then Some (span_digits s) else None)"

definition frac_part :: "string \<Rightarrow> string \<times> string" where
  "frac_part s = (case s of
     [] \<Rightarrow> ([], s)
   | c # r \<Rightarrow> (case span_digits r of (ds, t) \<Rightarrow> if c = CHR ''.'' \<and> ds \<noteq> [] then (c # ds, t) else ([], s)))"

definition exp_part :: "string \<Rightarrow> string \<times> string" where
  "exp_part s = (case s of
     [] \<Rightarrow> ([], s)
   | c # r \<Rightarrow>
       (case (case r of d # u \<Rightarrow> if d \<in> {CHR ''+'', CHR ''-''} then ([d], u) else ([], r) | [] \<Rightarrow> ([], r)) of (sign, u) \<Rightarrow>
        case span_digits u of (ds, t) \<Rightarrow> if c \<in> {CHR ''e'', CHR ''E''} \<and> ds \<noteq> [] then (c # sign @ ds, t) else ([], s)))"

definition json_number :: "string \<Rightarrow> (json \<times> string) option" where
  "json_number s =
     (let (sign, u) = (case s of c # r \<Rightarrow> if c = CHR ''-'' then ([c], r) else ([], s) | [] \<Rightarrow> ([], s)) in
      case int_part u of
        None \<Rightarrow> None
      | Some (ds, r1) \<Rightarrow>
          (case frac_part r1 of (f, r2) \<Rightarrow> case exp_part r2 of (e, r3) \<Rightarrow>
             if f = [] \<and> e = [] then Some (JInt (if sign = [] then int (digits_value ds) else - int (digits_value ds)), r3)
             else Some (JFloat (sign @ ds @ f @ e), r3)))"

definition json_words :: "(string \<times> json) list" where
  "json_words = [(''null'', JNull), (''true'', JBool True), (''false'', JBool False),
     (''NaN'', JFloat ''NaN''), (''Infinity'', JFloat ''Infinity''), (''-Infinity'', JFloat ''-Infinity'')]"

definition json_scalar :: "string \<Rightarrow> (json \<times> string) result" where
  "json_scalar s =
     (case json_number s of
        Some x \<Rightarrow> Inr x
      | None \<Rightarrow>
          (case find (\<lambda>(w, _). starts_with w s) json_words of
             Some (w, v) \<Rightarrow> Inr (v, drop (length w) s)
           | None \<Rightarrow> json_error ''Expecting value''))"

fun json_value :: "nat \<Rightarrow> string \<Rightarrow> (json \<times> string) result"
  and json_items :: "nat \<Rightarrow> string \<Rightarrow> (json list \<times> string) result"
  and json_members :: "nat \<Rightarrow> string \<Rightarrow> ((string \<times> json) list \<times> string) result" where
  "json_value 0 s = json_error ''maximum recursion depth exceeded''"
| "json_value (Suc n) s =
     (case s of
        [] \<Rightarrow> json_error ''Expecting value''
      | c # r \<Rightarrow>
          if c = dquote_char then rbind (json_unescape r) (\<lambda>(t, u). Inr (JStr t, u))
          else if c = CHR ''['' then
            (if starts_with '']'' (skip_space r) then Inr (JArr [], tl (skip_space r))
             else rbind (json_items n (skip_space r)) (\<lambda>(xs, u). Inr (JArr xs, u)))
          else if c = CHR ''{'' then
            (if starts_with ''}'' (skip_space r) then Inr (JObj [], tl (skip_space r))
             else rbind (json_members n (skip_space r)) (\<lambda>(kvs, u). Inr (JObj (dict_merge [] kvs), u)))
          else json_scalar s)"
| "json_items 0 s = json_error ''maximum recursion depth exceeded''"
| "json_items (Suc n) s =
     rbind (json_value n s) (\<lambda>(v, r).
     case skip_space r of
       [] \<Rightarrow> json_error ''Expecting comma delimiter''
     | c # t \<Rightarrow>
         if c = CHR '']'' then Inr ([v], t)
         else if c = CHR '','' then rbind (json_items n (skip_space t)) (\<lambda>(vs, u). Inr (v # vs, u))
         else json_error ''Expecting comma delimiter'')"
| "json_members 0 s = json_error ''maximum recursion depth exceeded''"
| "json_members (Suc n) s =
     (case s of
        [] \<Rightarrow> json_error ''Expecting property name enclosed in double quotes''
      | q # r0 \<Rightarrow>
          if q \<noteq> dquote_char then json_error ''Expecting property name enclosed in double quotes''
          else rbind (json_unescape r0) (\<lambda>(k, r1).
            case skip_space r1 of
              [] \<Rightarrow> json_error ''Expecting colon delimiter''
            | d # r2 \<Rightarrow>
                if d \<noteq> CHR '':'' then json_error ''Expecting colon delimiter''
                else rbind (json_value n (skip_space r2)) (\<lambda>(v, r3).
                  case skip_space r3 of
                    [] \<Rightarrow> json_error ''Expecting comma delimiter''
                  | c # t \<Rightarrow>
                      if c = CHR ''}'' then Inr ([(k, v)], t)
                      else if c = CHR '','' then rbind (json_members n (skip_space t)) (\<lambda>(kvs, u). Inr ((k, v) # kvs, u))
                      else json_error ''Expecting comma delimiter'')))"

definition json_loads :: "string \<Rightarrow> json result" where
  "json_loads s =
     rbind (json_value (2 * length s + 1) (skip_space s)) (\<lambda>(v, r).
     if skip_space r = [] then Inr v else json_error ''Extra data'')"

section \<open>Reading what was printed\<close>

lemma json_escape_read:
  "json_unescape (json_escape c @ t) = rbind (json_unescape t) (\<lambda>(s, u). Inr (c # s, u))"
proof -
  have n: "(of_char c :: nat) < 256" by simp
  have hex: "hex_value (json_hex d) = Some d" if "d < 16" for d
  proof -
    have "of_char (json_hex d) = (if d < 10 then 48 + d else 87 + d)" using that by (simp add: json_hex_def)
    with that show ?thesis by (simp add: hex_value_def)
  qed
  have "hex_value CHR ''0'' = Some 0" by (simp add: hex_value_def)
  moreover have "(of_char c :: nat) div 16 < 16" using n by linarith
  ultimately have hex4: "hex4_value CHR ''0'' CHR ''0'' (json_hex (of_char c div 16)) (json_hex (of_char c mod 16)) = Some (of_char c)"
    by (simp add: hex4_value_def hex)
  have at: "c = k" if "of_char c = (of_char k :: nat)" for k using that by simp
  have esc: "CHR ''u'' \<noteq> bslash_char" "dquote_char \<noteq> CHR ''u''" "bslash_char \<noteq> CHR ''u''" "bslash_char \<noteq> dquote_char"
    by (simp_all add: bslash_char_def dquote_char_def)
  note short = json_escape_def short_escape_def bslash_char_def dquote_char_def
  consider "c = dquote_char" | "c = bslash_char" | "of_char c = (10::nat)" | "of_char c = (13::nat)" | "of_char c = (9::nat)"
    | "of_char c = (12::nat)" | "of_char c = (8::nat)"
    | "c \<noteq> dquote_char" "c \<noteq> bslash_char" "(of_char c :: nat) \<notin> {10, 13, 9, 12, 8}" "(of_char c :: nat) < 32 \<or> 126 < (of_char c :: nat)"
    | "c \<noteq> dquote_char" "c \<noteq> bslash_char" "\<not> ((of_char c :: nat) < 32 \<or> 126 < (of_char c :: nat))" by auto
  then show ?thesis
  proof cases
    case 3 then have "c = CHR 0x0A" by (intro at) simp
    then show ?thesis by (simp add: short)
  next
    case 4 then have "c = CHR 0x0D" by (intro at) simp
    then show ?thesis by (simp add: short)
  next
    case 5 then have "c = CHR 0x09" by (intro at) simp
    then show ?thesis by (simp add: short)
  next
    case 6 then have "c = CHR 0x0C" by (intro at) simp
    then show ?thesis by (simp add: short)
  next
    case 7 then have "c = CHR 0x08" by (intro at) simp
    then show ?thesis by (simp add: short)
  next
    case 8 then show ?thesis using hex4 n esc by (simp add: json_escape_def Let_def)
  next
    case 9 then show ?thesis by (simp add: json_escape_def Let_def)
  qed (simp_all add: short)
qed

lemma json_string_read: "json_unescape (concat (map json_escape s) @ dquote_char # rest) = Inr (s, rest)"
  by (induction s) (simp_all add: json_escape_read)

text \<open>\<open>delimited rest\<close>: the text behind a number does not continue it.\<close>

definition delimited :: "string \<Rightarrow> bool" where
  "delimited rest \<longleftrightarrow> (case rest of [] \<Rightarrow> True | c # _ \<Rightarrow> \<not> is_digit_char c \<and> c \<notin> {CHR ''.'', CHR ''e'', CHR ''E''})"

lemma nat_str_leading_zero: "nat_str n = CHR ''0'' # cs \<Longrightarrow> n = 0 \<and> cs = []"
proof (induction n arbitrary: cs rule: nat_str.induct)
  case (1 n)
  show ?case
  proof (cases "n < 10")
    case True
    have "of_char (digit_char n) = (48 :: nat)" using "1.prems" True by (simp add: nat_str_small)
    with True have "n = 0" by (simp add: of_char_digit)
    with "1.prems" show ?thesis by (simp add: nat_str_small)
  next
    case False
    then obtain cs' where "nat_str (n div 10) = CHR ''0'' # cs'"
      using "1.prems" by (cases "nat_str (n div 10)") (auto simp: nat_str_step)
    from "1.IH"[OF False this] have "n div 10 = 0" by simp
    with False show ?thesis by (simp add: div_eq_0_iff)
  qed
qed

lemma span_digits_nat_str: "delimited rest \<Longrightarrow> span_digits (nat_str n @ rest) = (nat_str n, rest)"
  using nat_str_digits[of n]
  by (auto simp: span_digits_def delimited_def list_all_iff takeWhile_append dropWhile_append split: list.splits)

lemma int_part_nat_str: "delimited rest \<Longrightarrow> int_part (nat_str n @ rest) = Some (nat_str n, rest)"
proof -
  assume d: "delimited rest"
  obtain c cs where n: "nat_str n = c # cs" by (cases "nat_str n") auto
  then have "is_digit_char c" using nat_str_digits[of n] by simp
  then show ?thesis
    using n nat_str_leading_zero[of n cs] span_digits_nat_str[OF d, of n] by (auto simp: int_part_def)
qed

lemma delimited_parts: "delimited rest \<Longrightarrow> frac_part rest = ([], rest) \<and> exp_part rest = ([], rest)"
  by (auto simp: frac_part_def exp_part_def delimited_def split: list.splits prod.splits)

lemma json_number_int: "delimited rest \<Longrightarrow> json_number (int_str i @ rest) = Some (JInt i, rest)"
proof -
  assume d: "delimited rest"
  obtain c cs where n: "nat_str (nat i) = c # cs" by (cases "nat_str (nat i)") auto
  then have "is_digit_char c" using nat_str_digits[of "nat i"] by simp
  then have "c \<noteq> CHR ''-''" using digit_not_space by blast
  with n have "json_number (nat_str (nat i) @ rest) = Some (JInt (int (nat i)), rest)"
    using int_part_nat_str[OF d, of "nat i"] digits_value_nat_str[of "nat i"] by (simp add: json_number_def delimited_parts[OF d])
  then show ?thesis
    by (simp add: int_str_def) (simp add: json_number_def int_part_nat_str[OF d] delimited_parts[OF d])
qed

text \<open>A printable value: dictionaries have every key once, and there are no fractions.\<close>

fun wf_json :: "json \<Rightarrow> bool" where
  "wf_json (JFloat _) = False"
| "wf_json (JArr xs) = list_all wf_json xs"
| "wf_json (JObj kvs) = (distinct (map fst kvs) \<and> list_all (\<lambda>kv. wf_json (snd kv)) kvs)"
| "wf_json _ = True"

lemma dict_merge_distinct: "distinct (map fst kvs) \<Longrightarrow> dict_merge [] kvs = kvs"
proof -
  have "distinct (map fst (acc @ kvs)) \<Longrightarrow> fold (\<lambda>(k, v). AList.update k v) kvs acc = acc @ kvs" for acc :: "(string \<times> 'a) list"
  proof (induction kvs arbitrary: acc)
    case (Cons kv kvs)
    obtain k v where kv: "kv = (k, v)" by (cases kv)
    have "AList.update k v xs = xs @ [(k, v)]" if "k \<notin> fst ` set xs" for xs :: "(string \<times> 'a) list"
      using that by (induction xs) auto
    moreover have "k \<notin> fst ` set acc" using Cons.prems kv by auto
    ultimately show ?case using Cons.IH[of "acc @ [(k, v)]"] Cons.prems kv by simp
  qed simp
  from this[of "[]"] show "distinct (map fst kvs) \<Longrightarrow> dict_merge [] kvs = kvs" by (simp add: dict_merge_def)
qed

lemma skip_space_Cons [simp]: "\<not> is_json_space c \<Longrightarrow> skip_space (c # r) = c # r"
  by (simp add: skip_space_def)

lemma skip_space_blank [simp]: "skip_space (CHR '' '' # r) = skip_space r"
  by (simp add: skip_space_def is_json_space_def)

lemma not_json_space [simp]:
  "\<not> is_json_space CHR '',''" "\<not> is_json_space CHR '']''" "\<not> is_json_space CHR ''}''" "\<not> is_json_space CHR '':''"
  "\<not> is_json_space CHR ''[''" "\<not> is_json_space CHR ''{''" "\<not> is_json_space dquote_char"
  by (simp_all add: is_json_space_def dquote_char_def)

text \<open>The first character of a printed value decides how it is read.\<close>

lemma dumps_first:
  assumes "wf_json v"
  shows "\<exists>c r. json_dumps v = c # r \<and> \<not> is_json_space c \<and> c \<noteq> CHR '']''"
proof (cases v)
  case (JInt i)
  obtain c cs where n: "nat_str (nat i) = c # cs" by (cases "nat_str (nat i)") auto
  then have "is_digit_char c" using nat_str_digits[of "nat i"] by simp
  then have "\<not> is_json_space c \<and> c \<noteq> CHR '']''" by (auto simp: is_digit_char_def less_eq_char_def is_json_space_def)
  with JInt n show ?thesis by (simp add: int_str_def is_json_space_def)
qed (use assms in \<open>auto simp: json_string_def is_json_space_def dquote_char_def\<close>)

lemma skip_space_dumps: "wf_json v \<Longrightarrow> skip_space (json_dumps v @ rest) = json_dumps v @ rest"
  using dumps_first[of v] by auto

lemma json_words_read:
  "json_value (Suc n) (''null'' @ rest) = Inr (JNull, rest)" "json_value (Suc n) (''true'' @ rest) = Inr (JBool True, rest)"
  "json_value (Suc n) (''false'' @ rest) = Inr (JBool False, rest)"
  by (simp_all add: json_scalar_def json_number_def int_part_def json_words_def starts_with_def is_digit_char_def less_eq_char_def dquote_char_def)

lemma json_int_read: "delimited rest \<Longrightarrow> json_value (Suc n) (int_str i @ rest) = Inr (JInt i, rest)"
proof -
  assume d: "delimited rest"
  obtain c cs where n: "int_str i = c # cs" and c: "is_digit_char c \<or> c = CHR ''-''"
  proof (cases "i < 0")
    case False
    obtain c cs where "nat_str (nat i) = c # cs" by (cases "nat_str (nat i)") auto
    with False nat_str_digits[of "nat i"] show ?thesis by (intro that[of c cs]) (auto simp: int_str_def)
  qed (simp add: int_str_def that)
  from c have "c \<noteq> dquote_char" "c \<noteq> CHR ''[''" "c \<noteq> CHR ''{''" by (auto simp: is_digit_char_def less_eq_char_def dquote_char_def)
  with n json_number_int[OF d, of i] show ?thesis by (simp add: json_scalar_def)
qed

definition value_reads :: "json \<Rightarrow> bool" where
  "value_reads v \<longleftrightarrow> (\<forall>n rest. 2 * length (json_dumps v) \<le> n \<longrightarrow> delimited rest \<longrightarrow> json_value n (json_dumps v @ rest) = Inr (v, rest))"

lemma value_readsD: "value_reads v \<Longrightarrow> 2 * length (json_dumps v) \<le> n \<Longrightarrow> delimited rest \<Longrightarrow> json_value n (json_dumps v @ rest) = Inr (v, rest)"
  unfolding value_reads_def by blast

lemma delimited_marks [simp]: "delimited (CHR '','' # r)" "delimited (CHR '']'' # r)" "delimited (CHR ''}'' # r)" "delimited []"
  by (simp_all add: delimited_def is_digit_char_def less_eq_char_def)

lemma json_items_read:
  assumes "list_all (\<lambda>v. wf_json v \<and> value_reads v) xs" and "xs \<noteq> []"
    and "2 * length (py_join '', '' (map json_dumps xs)) + 1 \<le> n"
  shows "json_items n (py_join '', '' (map json_dumps xs) @ CHR '']'' # rest) = Inr (xs, rest)"
  using assms
proof (induction xs arbitrary: n)
  case (Cons x xs)
  then obtain m where n: "n = Suc m" by (cases n) auto
  note x = value_readsD[of x m]
  show ?case
  proof (cases xs)
    case Nil
    with Cons.prems n x show ?thesis by simp
  next
    case (Cons y ys)
    have "json_items m (py_join '', '' (map json_dumps xs) @ CHR '']'' # rest) = Inr (xs, rest)"
      using Cons.prems n Cons by (intro Cons.IH) auto
    moreover have "skip_space (py_join '', '' (map json_dumps xs) @ t) = py_join '', '' (map json_dumps xs) @ t" for t
      using Cons.prems Cons skip_space_dumps[of y] by (cases ys) simp_all
    ultimately show ?thesis using Cons.prems n x Cons by simp
  qed
qed simp

abbreviation dumps_member :: "string \<times> json \<Rightarrow> string" where
  "dumps_member \<equiv> \<lambda>(k, v). json_string k @ '': '' @ json_dumps v"

lemma json_members_read:
  assumes "list_all (\<lambda>kv. wf_json (snd kv) \<and> value_reads (snd kv)) kvs" and "kvs \<noteq> []"
    and "2 * length (py_join '', '' (map dumps_member kvs)) + 1 \<le> n"
  shows "json_members n (py_join '', '' (map dumps_member kvs) @ CHR ''}'' # rest) = Inr (kvs, rest)"
  using assms
proof (induction kvs arbitrary: n)
  case (Cons kv kvs)
  then obtain m where n: "n = Suc m" by (cases n) auto
  obtain k v where kv: "kv = (k, v)" by (cases kv)
  note x = value_readsD[of v m]
  show ?case
  proof (cases kvs)
    case Nil
    with Cons.prems n x kv show ?thesis by (simp add: json_string_def json_string_read skip_space_dumps)
  next
    case (Cons y ys)
    have "json_members m (py_join '', '' (map dumps_member kvs) @ CHR ''}'' # rest) = Inr (kvs, rest)"
      using Cons.prems n Cons by (intro Cons.IH) auto
    moreover have "skip_space (py_join '', '' (map dumps_member kvs) @ t) = py_join '', '' (map dumps_member kvs) @ t" for t
      using Cons by (cases ys) (auto simp: json_string_def split: prod.splits)
    ultimately show ?thesis using Cons.prems n x Cons kv by (simp add: json_string_def json_string_read skip_space_dumps)
  qed
qed simp

lemma py_join_first: "xs \<noteq> [] \<Longrightarrow> \<exists>t. py_join sep xs = hd xs @ t"
  by (cases xs rule: remdups_adj.cases) auto

lemma value_readsI:
  assumes "json_dumps v \<noteq> []"
    and "\<And>m rest. 2 * length (json_dumps v) \<le> Suc m \<Longrightarrow> delimited rest \<Longrightarrow> json_value (Suc m) (json_dumps v @ rest) = Inr (v, rest)"
  shows "value_reads v"
  unfolding value_reads_def
proof (intro allI impI)
  fix n rest assume n: "2 * length (json_dumps v) \<le> n" and d: "delimited rest"
  with assms(1) obtain m where "n = Suc m" by (cases n) auto
  with assms(2) n d show "json_value n (json_dumps v @ rest) = Inr (v, rest)" by blast
qed

lemma bracket_not_quote [simp]: "CHR ''['' \<noteq> dquote_char" "CHR ''{'' \<noteq> dquote_char" "dquote_char \<noteq> CHR ''}''"
  by (simp_all add: dquote_char_def)

lemma dumps_value_reads: "wf_json v \<Longrightarrow> value_reads v"
proof (induction v)
  case (JArr xs)
  then have all: "list_all (\<lambda>v. wf_json v \<and> value_reads v) xs" by (auto simp: list_all_iff)
  show ?case
  proof (rule value_readsI)
    fix m rest assume m: "2 * length (json_dumps (JArr xs)) \<le> Suc m"
    show "json_value (Suc m) (json_dumps (JArr xs) @ rest) = Inr (JArr xs, rest)"
    proof (cases "xs = []")
      case False
      then obtain t where "py_join '', '' (map json_dumps xs) = json_dumps (hd xs) @ t"
        using py_join_first[of "map json_dumps xs" "'', ''"] by (auto simp: hd_map)
      moreover from all False have "wf_json (hd xs)" by (cases xs) auto
      then obtain c r where "json_dumps (hd xs) = c # r" "\<not> is_json_space c" "c \<noteq> CHR '']''" using dumps_first by blast
      ultimately show ?thesis
        using json_items_read[OF all False, of m rest] m by (simp add: starts_with_def)
    qed (simp add: starts_with_def)
  qed simp
next
  case (JObj kvs)
  then have all: "list_all (\<lambda>kv. wf_json (snd kv) \<and> value_reads (snd kv)) kvs"
    and dict: "dict_merge [] kvs = kvs" by (auto simp: list_all_iff dict_merge_distinct)
  show ?case
  proof (rule value_readsI)
    fix m rest assume m: "2 * length (json_dumps (JObj kvs)) \<le> Suc m"
    show "json_value (Suc m) (json_dumps (JObj kvs) @ rest) = Inr (JObj kvs, rest)"
    proof (cases "kvs = []")
      case False
      then obtain t where "py_join '', '' (map dumps_member kvs) = dumps_member (hd kvs) @ t"
        using py_join_first[of "map dumps_member kvs" "'', ''"] by (auto simp: hd_map)
      then obtain r where "py_join '', '' (map dumps_member kvs) = dquote_char # r"
        by (auto simp: json_string_def split: prod.splits)
      with json_members_read[OF all False, of m rest] m dict show ?thesis by (simp add: starts_with_def)
    qed (simp add: starts_with_def)
  qed simp
next
  case (JInt i)
  show ?case by (rule value_readsI) (use json_int_read in \<open>auto simp: int_str_def\<close>)
next
  case (JStr t)
  show ?case by (rule value_readsI) (simp_all add: json_string_def json_string_read)
next
  case JNull
  show ?case by (rule value_readsI) (use json_words_read(1) in auto)
next
  case (JBool b)
  show ?case by (rule value_readsI) (use json_words_read(2,3) in \<open>cases b; auto\<close>)+
qed simp

text \<open>
  A value that is printed is read back as itself: texts with any characters of the model,
  numbers, nested lists and dictionaries with their order.
\<close>

theorem json_roundtrip:
  assumes "wf_json v"
  shows "json_loads (json_dumps v) = Inr v"
proof -
  have "json_value (2 * length (json_dumps v) + 1) (json_dumps v) = Inr (v, [])"
    using value_readsD[OF dumps_value_reads[OF assms], of "2 * length (json_dumps v) + 1" "[]"] by (simp del: json_value.simps)
  moreover have "skip_space (json_dumps v) = json_dumps v" using skip_space_dumps[OF assms, of "[]"] by simp
  ultimately show ?thesis unfolding json_loads_def by (simp del: json_value.simps add: skip_space_def)
qed

section \<open>The fuel is enough\<close>

lemma skip_space_le: "length (skip_space s) \<le> length s"
  by (simp add: skip_space_def length_dropWhile_le)

lemma json_unescape_shrinks: "json_unescape s = Inr (t, r) \<Longrightarrow> length r < length s"
proof (induction s arbitrary: t r rule: measure_induct_rule[of length])
  case (less s)
  show ?case
  proof (cases s)
    case (Cons c cs)
    from less.prems show ?thesis unfolding Cons
      by (auto simp: json_error_def rbind_Inr_iff Cons split: if_splits list.splits option.splits dest!: less.IH[rotated])
  qed (use less.prems in \<open>simp add: json_error_def\<close>)
qed

lemma parts_shrink:
  "int_part s = Some (a, r) \<Longrightarrow> length r < length s" "frac_part s = (a, r) \<Longrightarrow> length r \<le> length s" "exp_part s = (a, r) \<Longrightarrow> length r \<le> length s"
proof -
  have span: "length (snd (span_digits u)) \<le> length u" for u by (simp add: span_digits_def length_dropWhile_le)
  show "int_part s = Some (a, r) \<Longrightarrow> length r < length s"
    by (auto simp: int_part_def span_digits_def less_Suc_eq_le length_dropWhile_le split: list.splits if_splits)
  show "frac_part s = (a, r) \<Longrightarrow> length r \<le> length s"
    using span[of "tl s"] by (auto simp: frac_part_def split: list.splits prod.splits if_splits)
  show "exp_part s = (a, r) \<Longrightarrow> length r \<le> length s"
    using span[of "tl s"] span[of "tl (tl s)"] by (auto simp: exp_part_def split: list.splits prod.splits if_splits)
qed

lemma json_scalar_shrinks: "json_scalar s = Inr (v, r) \<Longrightarrow> length r < length s"
proof -
  have num: "length r < length s" if "json_number s = Some (v, r)"
    using that parts_shrink
    by (fastforce simp: json_number_def Let_def split: list.splits if_splits option.splits prod.splits)
  have words: "length (drop (length w) s) < length s" if "find (\<lambda>(w, _). starts_with w s) json_words = Some (w, x)" for w x
  proof -
    from that have "(w, x) \<in> set json_words" "starts_with w s" by (auto simp: find_Some_iff in_set_conv_nth)
    then have "w \<noteq> []" "s \<noteq> []" by (auto simp: json_words_def starts_with_def)
    then show ?thesis by simp
  qed
  assume "json_scalar s = Inr (v, r)"
  with num words show ?thesis by (fastforce simp: json_scalar_def json_error_def split: option.splits)
qed

lemma json_members_InrE:
  assumes run: "json_members (Suc n) s = Inr (kvs, r)"
  obtains q r0 k r1 d r2 v b c t where "s = q # r0" "json_unescape r0 = Inr (k, r1)" "skip_space r1 = d # r2"
    "json_value n (skip_space r2) = Inr (v, b)" "skip_space b = c # t" "r = t \<or> (\<exists>ws. json_members n (skip_space t) = Inr (ws, r))"
proof -
  from run obtain q r0 where s: "s = q # r0" by (cases s) (auto simp: json_error_def)
  from run obtain k r1 where k: "json_unescape r0 = Inr (k, r1)"
    by (cases "json_unescape r0") (auto simp: s json_error_def split: if_splits)
  from run obtain d r2 where d: "skip_space r1 = d # r2"
    by (cases "skip_space r1") (auto simp: s k json_error_def split: if_splits)
  from run obtain v b where v: "json_value n (skip_space r2) = Inr (v, b)"
    by (cases "json_value n (skip_space r2)") (auto simp: s k d json_error_def split: if_splits)
  from run obtain c t where b: "skip_space b = c # t"
    by (cases "skip_space b") (auto simp: s k d v json_error_def split: if_splits)
  from run have "r = t \<or> (\<exists>ws. json_members n (skip_space t) = Inr (ws, r))"
    by (auto simp: s k d v b json_error_def rbind_Inr_iff split: if_splits)
  with s k d v b show ?thesis by (rule that)
qed

lemma json_shrinks_all:
  "(\<forall>s v r. json_value n s = Inr (v, r) \<longrightarrow> length r < length s) \<and>
   (\<forall>s vs r. json_items n s = Inr (vs, r) \<longrightarrow> length r < length s) \<and>
   (\<forall>s kvs r. json_members n s = Inr (kvs, r) \<longrightarrow> length r < length s)"
proof (induction n)
  case (Suc n)
  have val: "length r < length s" if "json_value n s = Inr (v, r)" for s v r using Suc that by blast
  have items: "length r < length s" if "json_items n s = Inr (vs, r)" for s vs r using Suc that by blast
  have members: "length r < length s" if "json_members n s = Inr (kvs, r)" for s kvs r using Suc that by blast
  have skip: "length c \<le> length r" if "skip_space r = c" for r c using skip_space_le[of r] that by simp
  show ?case
  proof (intro conjI allI impI)
    fix s v r assume run: "json_value (Suc n) s = Inr (v, r)"
    then obtain c t where s: "s = c # t" by (cases s) (auto simp: json_error_def)
    have "length (tl (skip_space t)) \<le> length t" using skip_space_le[of t] by simp
    then show "length r < length s" using run skip_space_le[of t]
      by (auto simp: s rbind_Inr_iff dest!: json_unescape_shrinks items members json_scalar_shrinks split: if_splits)
  next
    fix s vs r assume "json_items (Suc n) s = Inr (vs, r)"
    then obtain v b c t where v: "json_value n s = Inr (v, b)" and b: "skip_space b = c # t"
      and r: "r = t \<or> (\<exists>ws. json_items n (skip_space t) = Inr (ws, r))"
      by (cases "json_value n s") (auto simp: rbind_Inr_iff json_error_def split: list.split_asm if_split_asm)
    from r have "length r \<le> length t" using items skip_space_le[of t] by fastforce
    then show "length r < length s" using val[OF v] skip[OF b] by simp
  next
    fix s kvs r assume "json_members (Suc n) s = Inr (kvs, r)"
    then obtain q r0 k r1 d r2 v b c t where s: "s = q # r0" and k: "json_unescape r0 = Inr (k, r1)" and d: "skip_space r1 = d # r2"
      and v: "json_value n (skip_space r2) = Inr (v, b)" and b: "skip_space b = c # t"
      and r: "r = t \<or> (\<exists>ws. json_members n (skip_space t) = Inr (ws, r))"
      by (rule json_members_InrE)
    from r have "length r \<le> length t" using members skip_space_le[of t] by fastforce
    then show "length r < length s"
      using json_unescape_shrinks[OF k] skip[OF d] val[OF v] skip_space_le[of r2] skip[OF b] by (simp add: s)
  qed
qed (simp add: json_error_def)

text \<open>With at least the fuel \<open>json_loads\<close> takes, more fuel makes no difference.\<close>

lemma json_fuel_all:
  "(\<forall>s m. 2 * length s + 1 \<le> n \<longrightarrow> n \<le> m \<longrightarrow> json_value m s = json_value n s) \<and>
   (\<forall>s m. 2 * length s + 2 \<le> n \<longrightarrow> n \<le> m \<longrightarrow> json_items m s = json_items n s) \<and>
   (\<forall>s m. 2 * length s + 2 \<le> n \<longrightarrow> n \<le> m \<longrightarrow> json_members m s = json_members n s)"
proof (induction n)
  case (Suc n)
  have val: "json_value m s = json_value n s" if "2 * length s + 1 \<le> n" "n \<le> m" for s m using Suc that by blast
  have items: "json_items m s = json_items n s" if "2 * length s + 2 \<le> n" "n \<le> m" for s m using Suc that by blast
  have members: "json_members m s = json_members n s" if "2 * length s + 2 \<le> n" "n \<le> m" for s m using Suc that by blast
  show ?case
  proof (intro conjI allI impI)
    fix s :: string and m assume n: "2 * length s + 1 \<le> Suc n" and m: "Suc n \<le> m"
    then obtain k where k: "m = Suc k" "n \<le> k" by (cases m) auto
    show "json_value m s = json_value (Suc n) s"
    proof (cases s)
      case (Cons c r)
      then have r: "2 * length (skip_space r) + 2 \<le> n" using n skip_space_le[of r] by simp
      show ?thesis by (simp add: k(1) Cons items[OF r k(2)] members[OF r k(2)])
    qed (simp add: k)
  next
    fix s :: string and m assume n: "2 * length s + 2 \<le> Suc n" and m: "Suc n \<le> m"
    then obtain k where k: "m = Suc k" "n \<le> k" by (cases m) auto
    have v: "json_value k s = json_value n s" using n k(2) by (intro val) simp_all
    have "json_items k (skip_space t) = json_items n (skip_space t)" if "json_value n s = Inr (x, b)" "skip_space b = c # t" for x b c t
    proof (rule items[OF _ k(2)])
      have "length b < length s" using that(1) json_shrinks_all by blast
      then show "2 * length (skip_space t) + 2 \<le> n" using n that(2) skip_space_le[of b] skip_space_le[of t] by simp
    qed
    then show "json_items m s = json_items (Suc n) s"
      by (cases "json_value n s") (auto simp: k(1) v split: list.split)
  next
    fix s :: string and m assume n: "2 * length s + 2 \<le> Suc n" and m: "Suc n \<le> m"
    then obtain k where k: "m = Suc k" "n \<le> k" by (cases m) auto
    have len: "2 * length (skip_space r2) + 1 \<le> n" if "s = q # r0" "json_unescape r0 = Inr (x, r1)" "skip_space r1 = d # r2" for q r0 x r1 d r2
      using that n json_unescape_shrinks[OF that(2)] skip_space_le[of r1] skip_space_le[of r2] by simp
    have v: "json_value k (skip_space r2) = json_value n (skip_space r2)"
      if "s = q # r0" "json_unescape r0 = Inr (x, r1)" "skip_space r1 = d # r2" for q r0 x r1 d r2
      using len[OF that] k(2) by (rule val)
    have "json_members k (skip_space t) = json_members n (skip_space t)"
      if "s = q # r0" "json_unescape r0 = Inr (x, r1)" "skip_space r1 = d # r2" "json_value n (skip_space r2) = Inr (y, b)" "skip_space b = c # t"
      for q r0 x r1 d r2 y b c t
    proof (rule members[OF _ k(2)])
      have "length b < length (skip_space r2)" using that(4) json_shrinks_all by blast
      then show "2 * length (skip_space t) + 2 \<le> n" using len[OF that(1-3)] that(5) skip_space_le[of b] skip_space_le[of t] by simp
    qed
    note t = this
    show "json_members m s = json_members (Suc n) s"
    proof (cases "\<exists>q r0 x r1 d r2. s = q # r0 \<and> json_unescape r0 = Inr (x, r1) \<and> skip_space r1 = d # r2")
      case True
      then obtain q r0 x r1 d r2 where at: "s = q # r0" "json_unescape r0 = Inr (x, r1)" "skip_space r1 = d # r2" by blast
      show ?thesis
      proof (cases "json_value n (skip_space r2)")
        case (Inr yb)
        obtain y b where "yb = (y, b)" by (cases yb)
        with Inr have y: "json_value n (skip_space r2) = Inr (y, b)" by simp
        show ?thesis using t[OF at y] by (cases "skip_space b") (simp_all add: k(1) at v[OF at] y)
      qed (simp add: k(1) at v[OF at])
    next
      case False
      then show ?thesis by (cases s) (auto simp: k(1) rbind_def split: list.split sum.split)
    qed
  qed
qed simp

lemma json_fuel_enough: "2 * length s + 1 \<le> m \<Longrightarrow> json_value m (skip_space s) = json_value (2 * length s + 1) (skip_space s)"
  using json_fuel_all[of "2 * length s + 1"] skip_space_le[of s] by (metis add_le_mono1 mult_le_mono2)

end
