(* ===== verification/Http.thy ===== *)
theory Http
  imports Json
begin

text \<open>
  What the HTTP clients of the programs share: requests and replies of \<^verbatim>\<open>urllib.request\<close>, and the
  \<^verbatim>\<open>Authorization\<close> header of basic authentication (\<^verbatim>\<open>base64\<close> over UTF-8).

  Shown: decoding the header as a server does gives back the user and the password.
\<close>

section \<open>Requests\<close>

record http_req =
  hq_method :: string
  hq_url :: string
  hq_headers :: "(string \<times> string) list"
  hq_data :: "string option"

datatype http_reply = Reply string | HttpError int string

text \<open>\<^verbatim>\<open>s.rstrip("/")\<close>\<close>

definition rstrip_slash :: "string \<Rightarrow> string" where
  "rstrip_slash s = rev (dropWhile (\<lambda>c. c = CHR ''/'') (rev s))"

section \<open>Basic authentication\<close>

text \<open>\<^verbatim>\<open>s.encode()\<close> and back; the characters of the model take one or two bytes.\<close>

definition utf8_char :: "char \<Rightarrow> nat list" where
  "utf8_char c = (let n = of_char c in if n < 128 then [n] else [192 + n div 64, 128 + n mod 64])"

definition utf8_encode :: "string \<Rightarrow> nat list" where
  "utf8_encode s = concat (map utf8_char s)"

fun utf8_decode :: "nat list \<Rightarrow> string option" where
  "utf8_decode [] = Some []"
| "utf8_decode (b # bs) =
     (if b < 128 then map_option (\<lambda>s. char_of b # s) (utf8_decode bs)
      else case bs of
        [] \<Rightarrow> None
      | c # cs \<Rightarrow>
          if 192 \<le> b \<and> b < 196 \<and> 128 \<le> c \<and> c < 192 then map_option (\<lambda>s. char_of ((b - 192) * 64 + (c - 128)) # s) (utf8_decode cs)
          else None)"

definition b64_alphabet :: string where
  "b64_alphabet = ''ABCDEFGHIJKLMNOPQRSTUVWXYZabcdefghijklmnopqrstuvwxyz0123456789+/''"

definition b64_char :: "nat \<Rightarrow> char" where
  "b64_char n = b64_alphabet ! n"

definition b64_value :: "char \<Rightarrow> nat option" where
  "b64_value c = map_of (zip b64_alphabet [0..<64]) c"

fun b64_encode :: "nat list \<Rightarrow> string" where
  "b64_encode [] = []"
| "b64_encode [a] = [b64_char (a div 4), b64_char (a mod 4 * 16), CHR ''='', CHR ''='']"
| "b64_encode [a, b] = [b64_char (a div 4), b64_char (a mod 4 * 16 + b div 16), b64_char (b mod 16 * 4), CHR ''='']"
| "b64_encode (a # b # c # bs) =
     [b64_char (a div 4), b64_char (a mod 4 * 16 + b div 16), b64_char (b mod 16 * 4 + c div 64), b64_char (c mod 64)] @ b64_encode bs"

text \<open>One group of four characters: the bytes it stands for.\<close>

definition b64_group :: "char \<Rightarrow> char \<Rightarrow> char \<Rightarrow> char \<Rightarrow> nat list option" where
  "b64_group w x y z = (case (b64_value w, b64_value x) of
     (Some p, Some q) \<Rightarrow>
       (case b64_value y of
          None \<Rightarrow> if y = CHR ''='' \<and> z = CHR ''='' then Some [p * 4 + q div 16] else None
        | Some r \<Rightarrow>
            (case b64_value z of
               None \<Rightarrow> if z = CHR ''='' then Some [p * 4 + q div 16, q mod 16 * 16 + r div 4] else None
             | Some t \<Rightarrow> Some [p * 4 + q div 16, q mod 16 * 16 + r div 4, r mod 4 * 64 + t]))
   | _ \<Rightarrow> None)"

fun b64_decode :: "string \<Rightarrow> nat list option" where
  "b64_decode [] = Some []"
| "b64_decode (w # x # y # z # cs) =
     (case (b64_group w x y z, b64_decode cs) of (Some bs, Some rest) \<Rightarrow> Some (bs @ rest) | _ \<Rightarrow> None)"
| "b64_decode _ = None"

definition basic_auth :: "string \<Rightarrow> string \<Rightarrow> string" where
  "basic_auth user password = ''Basic '' @ b64_encode (utf8_encode (user @ '':'' @ password))"

text \<open>How a server reads the header (RFC 7617): the user ends at the first colon.\<close>

definition read_basic_auth :: "string \<Rightarrow> (string \<times> string) option" where
  "read_basic_auth header =
     (if starts_with ''Basic '' header then
        (case b64_decode (drop 6 header) of
           None \<Rightarrow> None
         | Some bs \<Rightarrow>
             (case utf8_decode bs of
                None \<Rightarrow> None
              | Some s \<Rightarrow>
                  (case dropWhile (\<lambda>c. c \<noteq> CHR '':'') s of
                     [] \<Rightarrow> None
                   | _ # password \<Rightarrow> Some (takeWhile (\<lambda>c. c \<noteq> CHR '':'') s, password))))
      else None)"

section \<open>Reading the header\<close>

lemma utf8_char_bytes: "list_all (\<lambda>b. b < 256) (utf8_char c)"
proof -
  have "(of_char c :: nat) < 256" by simp
  then have "(of_char c :: nat) div 64 < 4" by linarith
  moreover have "(of_char c :: nat) mod 64 < 128" using mod_less_divisor[of 64 "of_char c"] by linarith
  ultimately show ?thesis by (simp add: utf8_char_def Let_def)
qed

lemma utf8_bytes: "list_all (\<lambda>b. b < 256) (utf8_encode s)"
  by (induction s) (use utf8_char_bytes in \<open>auto simp: utf8_encode_def list_all_iff\<close>)

lemma utf8_char_read: "utf8_decode (utf8_char c @ bs) = map_option (\<lambda>s. c # s) (utf8_decode bs)"
proof (cases "(of_char c :: nat) < 128")
  case False
  have "(of_char c :: nat) < 256" by simp
  then have "(of_char c :: nat) div 64 < 4" by linarith
  moreover have "(of_char c :: nat) mod 64 < 64" by simp
  moreover have "(of_char c :: nat) div 64 * 64 + of_char c mod 64 = of_char c" by (rule div_mult_mod_eq)
  ultimately show ?thesis using False by (simp add: utf8_char_def Let_def)
qed (simp add: utf8_char_def)

lemma utf8_roundtrip: "utf8_decode (utf8_encode s) = Some s"
  by (induction s) (simp_all add: utf8_encode_def utf8_char_read)

lemma b64_alphabet_facts: "distinct b64_alphabet" "length b64_alphabet = 64" "CHR ''='' \<notin> set b64_alphabet"
  by code_simp+

lemma b64_value_char [simp]: "n < 64 \<Longrightarrow> b64_value (b64_char n) = Some n"
proof -
  assume "n < 64"
  then have "(b64_alphabet ! n, n) \<in> set (zip b64_alphabet [0..<64])"
    using b64_alphabet_facts(2) by (force simp: in_set_zip)
  moreover have "distinct (map fst (zip b64_alphabet [0..<64]))" using b64_alphabet_facts by simp
  ultimately show ?thesis by (simp add: b64_value_def b64_char_def)
qed

lemma b64_value_pad [simp]: "b64_value CHR ''='' = None"
  by code_simp

lemma byte_parts:
  fixes a b c :: nat
  shows "a < 256 \<Longrightarrow> a div 4 < 64" "a < 256 \<Longrightarrow> a div 16 < 16" "a < 256 \<Longrightarrow> a div 64 < 4"
    "b < 16 \<Longrightarrow> a mod 4 * 16 + b < 64" "c < 4 \<Longrightarrow> a mod 16 * 4 + c < 64"
proof -
  show "a < 256 \<Longrightarrow> a div 4 < 64" "a < 256 \<Longrightarrow> a div 16 < 16" "a < 256 \<Longrightarrow> a div 64 < 4" by linarith+
  have "a mod 4 < 4" by simp
  then show "b < 16 \<Longrightarrow> a mod 4 * 16 + b < 64" by linarith
  have "a mod 16 < 16" by simp
  then show "c < 4 \<Longrightarrow> a mod 16 * 4 + c < 64" by linarith
qed

lemma b64_roundtrip: "list_all (\<lambda>b. b < 256) bs \<Longrightarrow> b64_decode (b64_encode bs) = Some bs"
proof (induction bs rule: b64_encode.induct)
  case (2 a)
  then show ?case using byte_parts(4)[of 0 a] by (simp add: b64_group_def byte_parts)
next
  case (3 a b)
  then show ?case using byte_parts(5)[of 0 b] by (simp add: b64_group_def byte_parts)
next
  case (4 a b c bs)
  then show ?case by (simp add: b64_group_def byte_parts)
qed simp

lemma basic_auth_read: "CHR '':'' \<notin> set user \<Longrightarrow> read_basic_auth (basic_auth user password) = Some (user, password)"
proof -
  assume u: "CHR '':'' \<notin> set user"
  have "b64_decode (b64_encode (utf8_encode (user @ '':'' @ password))) = Some (utf8_encode (user @ '':'' @ password))"
    by (rule b64_roundtrip[OF utf8_bytes])
  then show ?thesis
    using u utf8_roundtrip[of "user @ '':'' @ password"]
    by (simp add: basic_auth_def read_basic_auth_def takeWhile_append dropWhile_append)
       (metis (full_types) starts_with_append append_Cons append_Nil)
qed

end
