(* ===== verification/Examples.thy ===== *)
theory Examples
  imports Retire Reconcile Extract_Config
begin

text \<open>
  A small installation on which the theorems of the components are applied: one source \<^verbatim>\<open>bank\<close>
  with one table \<^verbatim>\<open>m_loan\<close>, owned by the batch extractor or in the middle of a migration.  Every
  theorem with hypotheses is used here once, its hypotheses evaluated on these tables.
\<close>

section \<open>The tables\<close>

definition ex_column :: "string \<Rightarrow> bool \<Rightarrow> column_spec" where
  "ex_column n pii = \<lparr>c_name = n, c_type = ''bigint'', c_cdc = [], c_synthetic = False, c_pii = pii\<rparr>"

definition ex_table :: table_contract where
  "ex_table = \<lparr>tc_table_name = ''m_loan'', tc_raw_table = ''raw_loan'', tc_primary_key = ''id'',
     tc_columns = [ex_column ''id'' False, ex_column ''amount'' False, ex_column ''phone'' True],
     tc_python_cursor = Some ''amount'', tc_kafka_partitions = 3, tc_change_entity = None, tc_indexes = []\<rparr>"

definition ex_contract :: contract where
  "ex_contract = \<lparr>ct_version = 1, ct_topic_prefix = ''fineract'', ct_source_schema = ''public'', ct_tables = [ex_table]\<rparr>"

definition ex_source :: source_record where
  "ex_source = (new_source ''bank'' ''default'')\<lparr>s_lifecycle_state := ''ACTIVE'', s_capture_generation := 2\<rparr>"

definition ex_row :: "ownership \<Rightarrow> ownership_row" where
  "ex_row o1 = \<lparr>w_own = o1, w_shadow_db_user = (if o_shadow_engine o1 = None then None else Some ''ops''),
     w_shadow_started_at = (if o_shadow_engine o1 = None then None else Some 0), w_ever_owned = True,
     w_updated_by = ''ops'', w_change_reason = None\<rparr>"

definition ex_raw :: "int \<Rightarrow> raw_row" where
  "ex_raw v = \<lparr>x_cols = [(''id'', VInt 1), (''amount'', VInt v)], x_generation = 2, x_lsn = Some 10,
     x_source_ts = Some 5, x_ingested_at = 6, x_engine = ''KAFKA'', x_deleted = False\<rparr>"

definition ex_run :: recon_run where
  "ex_run = \<lparr>rr_id = 9, rr_source = ''bank'', rr_table = ''m_loan'', rr_comparison = ''shadow_vs_prod'',
     rr_status = ''PASSED'', rr_compared = 1, rr_mismatched = 0, rr_missing_left = 0, rr_missing_right = 0,
     rr_started_at = 1, rr_finished_at = Some 2\<rparr>"

definition ex_db :: "ownership \<Rightarrow> db" where
  "ex_db o1 = \<lparr>d_settings = [], d_contract = [\<lparr>cr_table = ex_table, cr_change_key = None, cr_change_date = None, cr_history = []\<rparr>],
     d_registry = [(''bank'', ex_source)], d_floor = [], d_ownership = [((''bank'', ''m_loan''), ex_row o1)],
     d_approvals = [], d_runs = [ex_run], d_audit = [],
     d_raw = [((''raw_loan'', ''bank'', ''default'', 1), ex_raw 7)],
     d_shadow = (if o_shadow_engine o1 = None then [] else [((''raw_loan'', ''bank'', ''default'', 1), ex_raw 7)]),
     d_changes = [], d_watermarks = [], d_progress = [], d_connectors = [], d_slot_checks = [], d_derived = [], d_pipeline = []\<rparr>"

definition ex_conn :: "bool \<Rightarrow> ownership \<Rightarrow> conn" where
  "ex_conn admin o1 = \<lparr>k_committed = ex_db o1, k_working = ex_db o1, k_txn = 0, k_clock = (\<lambda>n. int n + 3),
     k_session_user = ''ops'', k_admin = admin, k_run_seq = 10, k_approval_seq = 1\<rparr>"

text \<open>The result and the final state of a run that returns.\<close>

lemma returned: "\<not> isl (fst x) \<Longrightarrow> x = (Inr (projr (fst x)), snd x)"
  by (cases x) (auto simp: isl_def sum.collapse(2))

lemma ex_wf: "wf_db (ex_db demo_row)" "wf_db (ex_db demo_ready)"
  by code_simp+

section \<open>Ownership\<close>

definition ex_start_run :: "transition_result list result \<times> conn" where
  "ex_start_run = apply_ownership ex_contract ''bank'' [''m_loan''] demo_start (ex_conn False demo_row)"

definition ex_cutover_run :: "transition_result list result \<times> conn" where
  "ex_cutover_run = apply_ownership ex_contract ''bank'' [''m_loan''] demo_cutover (ex_conn False demo_ready)"

text \<open>A cutover of a table that is not ready, and a request on a table the source does not have.\<close>

definition ex_refused_run :: "transition_result list result \<times> conn" where
  "ex_refused_run = apply_ownership ex_contract ''bank'' [''m_loan''] demo_cutover (ex_conn False demo_row)"

definition ex_unknown_run :: "transition_result list result \<times> conn" where
  "ex_unknown_run = apply_ownership ex_contract ''bank'' [''m_client''] demo_start (ex_conn False demo_row)"

lemma refused: "isl (fst x) \<Longrightarrow> x = (Inl (projl (fst x)), snd x)"
  by (cases x) (auto simp: isl_def)

lemma ex_runs:
  "ex_start_run = (Inr (projr (fst ex_start_run)), snd ex_start_run)"
  "ex_cutover_run = (Inr (projr (fst ex_cutover_run)), snd ex_cutover_run)"
  by (rule returned, code_simp)+

lemma ex_failures:
  "ex_refused_run = (Inl (projl (fst ex_refused_run)), snd ex_refused_run)"
  "ex_unknown_run = (Inl (projl (fst ex_unknown_run)), snd ex_unknown_run)"
  by (rule refused, code_simp)+

lemma ex_conn_working [simp]: "k_working (ex_conn a o1) = ex_db o1" "k_committed (ex_conn a o1) = ex_db o1" "k_admin (ex_conn a o1) = a"
  by (simp_all add: ex_conn_def)

theorem repository_keeps_tables_witness: "both wf_db (snd ex_start_run)"
proof -
  have "both wf_db (ex_conn False demo_row)" by (simp add: both_def ex_wf)
  from repository_keeps_tables[OF this, of ex_contract "''bank''" "[''m_loan'']" demo_start] show ?thesis
    by (simp add: ex_start_run_def)
qed

theorem apply_all_or_nothing_witness: "k_committed (snd ex_unknown_run) = ex_db demo_row"
proof -
  have "r_action demo_start \<noteq> CUTOVER" by (simp add: demo_defs)
  from apply_all_or_nothing[OF ex_failures(2)[unfolded ex_unknown_run_def] this] show ?thesis
    by (simp add: ex_unknown_run_def)
qed

theorem accepted_request_effect_witness:
  "\<exists>new. row_for (k_committed (snd ex_cutover_run)) ''bank'' ''m_loan'' = Some new \<and> o_engine (w_own new) = KAFKA"
proof -
  have wf: "wf_db (k_working (ex_conn False demo_ready))" by (simp add: ex_wf)
  from accepted_request_effect[OF wf ex_runs(2)[unfolded ex_cutover_run_def]]
  obtain new where "row_for (k_committed (snd ex_cutover_run)) ''bank'' ''m_loan'' = Some new"
    by (auto simp: ex_cutover_run_def)
  moreover have "map_option (\<lambda>r. o_engine (w_own r)) (row_for (k_committed (snd ex_cutover_run)) ''bank'' ''m_loan'') = Some KAFKA"
    by code_simp
  ultimately show ?thesis by simp
qed


theorem failed_cutover_commits_prefix_witness:
  "k_working (snd ex_refused_run) = k_committed (snd ex_refused_run)"
proof -
  have wf: "wf_db (k_working (ex_conn False demo_row))" by (simp add: ex_wf)
  have act: "r_action demo_cutover = CUTOVER" by (simp add: demo_defs)
  from failed_cutover_commits_prefix[OF wf act ex_failures(1)[unfolded ex_refused_run_def]] show ?thesis
    by (simp add: ex_refused_run_def)
qed

section \<open>Raw rows\<close>

definition ex_staged :: "int \<Rightarrow> string \<Rightarrow> staged" where
  "ex_staged v target = \<lparr>st_source = ''bank'', st_tenant = ''default'', st_pk = 1,
     st_cols = [(''id'', VInt 1), (''amount'', VInt v)], st_generation = 2, st_lsn = (if target = ''prod'' then None else Some 11),
     st_ts = Some 6, st_op = CHR ''u'', st_unavailable = [], st_epoch = 4, st_target = target\<rparr>"

definition ex_batch :: "((string \<times> int \<times> int) list \<times> db) result" where
  "ex_batch = apply_staged_batch (ex_conn False demo_row) ''m_loan'' ''PYTHON'' [ex_staged 8 ''prod'']"

definition ex_stream :: "((string \<times> int \<times> int) list \<times> db) result" where
  "ex_stream = apply_staged_batch (ex_conn False demo_ready) ''m_loan'' ''KAFKA'' [ex_staged 8 ''shadow'']"

lemma returned_pair: "\<not> isl r \<Longrightarrow> r = Inr (fst (projr r), snd (projr r))"
  by (cases r) auto

lemma ex_batches:
  "ex_batch = Inr (fst (projr ex_batch), snd (projr ex_batch))"
  "ex_stream = Inr (fst (projr ex_stream), snd (projr ex_stream))"
  by (rule returned_pair, code_simp)+

lemma ex_table_row: "table_row (ex_db o1) ''m_loan'' =
    Some \<lparr>cr_table = ex_table, cr_change_key = None, cr_change_date = None, cr_history = []\<rparr>"
  by (simp add: table_row_def ex_db_def ex_table_def)

theorem staged_batch_fenced_and_framed_witness:
  "d_ownership (snd (projr ex_batch)) = d_ownership (ex_db demo_row)"
  using staged_batch_fenced_and_framed[OF ex_batches(1)[unfolded ex_batch_def]] by (simp add: ex_batch_def)

theorem kafka_rows_never_go_back_witness:
  "\<exists>new. map_of (raw_of ''shadow'' (snd (projr ex_stream))) (''raw_loan'', ''bank'', ''default'', 1) = Some new \<and>
     log_pos 2 (Some 10) \<le> log_pos (x_generation new) (x_lsn new)"
proof -
  have old: "map_of (raw_of ''shadow'' (k_working (ex_conn False demo_ready))) (''raw_loan'', ''bank'', ''default'', 1) = Some (ex_raw 7)"
    by (simp add: raw_of_def ex_db_def demo_defs)
  have "''shadow'' \<in> {''prod'', ''shadow''}" by simp
  from kafka_rows_never_go_back[OF ex_batches(2)[unfolded ex_stream_def] this old] show ?thesis
    by (simp add: ex_stream_def ex_raw_def)
qed

theorem python_batch_readback_witness:
  "\<exists>row w. map_of (raw_of ''prod'' (snd (projr ex_batch))) (''raw_loan'', ''bank'', ''default'', 1) = Some row \<and>
     w \<in> {ex_staged 8 ''prod''} \<and> col_val (x_cols row) ''amount'' = col_val (st_cols w) ''amount''"
proof -
  have "list_all (\<lambda>s. st_op s \<noteq> CHR ''d'' \<and> st_unavailable s = []) [ex_staged 8 ''prod'']"
    by (simp add: ex_staged_def)
  moreover have "ex_staged 8 ''prod'' \<in> set [ex_staged 8 ''prod'']" by simp
  moreover have "table_row (k_working (ex_conn False demo_row)) ''m_loan'' =
    Some \<lparr>cr_table = ex_table, cr_change_key = None, cr_change_date = None, cr_history = []\<rparr>" by (simp add: ex_table_row)
  ultimately show ?thesis
    using python_batch_readback[OF ex_batches(1)[unfolded ex_batch_def], of "ex_staged 8 ''prod''"]
    by (fastforce simp: ex_batch_def ex_staged_def raw_key_of_def ex_table_def column_names_def ex_column_def)
qed

definition ex_promoted :: "(int \<times> db) result" where
  "ex_promoted = promote_shadow ''bank'' ''m_loan'' (ex_db demo_ready)"

theorem promote_moves_shadow_witness:
  "map_of (d_raw (snd (projr ex_promoted))) (''raw_loan'', ''bank'', ''default'', 1) = Some (ex_raw 7) \<and>
   map_of (d_shadow (snd (projr ex_promoted))) (''raw_loan'', ''bank'', ''default'', 1) = None"
proof -
  have "ex_promoted = Inr (fst (projr ex_promoted), snd (projr ex_promoted))" by (rule returned_pair) code_simp
  from promote_moves_shadow[OF this[unfolded ex_promoted_def] ex_table_row] show ?thesis
    by (simp add: ex_promoted_def of_source_def ex_table_def ex_db_def demo_defs)
qed

definition ex_key :: raw_key where
  "ex_key = (''raw_loan'', ''bank'', ''default'', 1)"

definition ex_compared :: "shadow_counts result" where
  "ex_compared = sql_reconcile_shadow (\<lambda>vs. map (\<lambda>v. CHR ''x'') vs) 100 ''bank'' ''m_loan'' 0 (ex_db demo_ready)"

theorem clean_comparison_means_equal_rows_witness:
  "\<exists>v. ex_compared = Inr v \<and> sc_compared v = 1 \<and> (\<exists>x. map_of (live_rows ''raw_loan'' ''bank'' (d_shadow (ex_db demo_ready))) ex_key = Some x)"
proof -
  have ok: "ex_compared = Inr (projr ex_compared)" by (rule sum.collapse(2)[symmetric]) code_simp
  have zero: "sc_mismatched (projr ex_compared) + sc_missing_prod (projr ex_compared) + sc_missing_shadow (projr ex_compared) \<le> 0"
    and one: "sc_compared (projr ex_compared) = 1" by code_simp+
  have raw: "tc_raw_table ex_table = ''raw_loan''" by (simp add: ex_table_def)
  have ne: "map_of (live_rows ''raw_loan'' ''bank'' (d_raw (ex_db demo_ready))) ex_key \<noteq> None"
    "settled (100 - 0 * 1000000) (map_of (live_rows ''raw_loan'' ''bank'' (d_raw (ex_db demo_ready))) ex_key)
       (map_of (live_rows ''raw_loan'' ''bank'' (d_shadow (ex_db demo_ready))) ex_key)"
    by code_simp+
  note clean = clean_comparison_means_equal_rows[OF ok[unfolded ex_compared_def] ex_table_row zero[unfolded ex_compared_def],
      THEN spec, of ex_key, unfolded contract_row.select_convs raw]
  have "\<exists>x. map_of (live_rows ''raw_loan'' ''bank'' (d_shadow (ex_db demo_ready))) ex_key = Some x"
    using clean ne by blast
  with ok one show ?thesis by metis
qed

section \<open>Contract and registry\<close>

definition ex_raw_contract :: raw_contract where
  "ex_raw_contract = \<lparr>rw_contract_version = Some 1, rw_topic_prefix = None, rw_source_schema = None,
     rw_tables = Some [\<lparr>rt_table_name = Some ''m_loan'', rt_raw_table = Some ''raw_loan'', rt_primary_key = Some ''id'',
       rt_columns = Some [\<lparr>rc_name = Some ''id'', rc_type = Some ''bigint'', rc_cdc = None, rc_synthetic = None, rc_pii = None\<rparr>],
       rt_python_cursor = None, rt_kafka_partitions = None, rt_change_entity = None, rt_indexes = None\<rparr>]\<rparr>"

theorem parse_contract_total_witness: "\<exists>ct. parse_contract ex_raw_contract = Inr ct \<and> map Some (table_names ct) = [Some ''m_loan'']"
proof -
  have "complete_contract ex_raw_contract" by code_simp
  with parse_contract_total[of ex_raw_contract] obtain ct where "parse_contract ex_raw_contract = Inr ct"
    and "map Some (table_names ct) = map rt_table_name (the (rw_tables ex_raw_contract))" by blast
  then show ?thesis by (simp add: ex_raw_contract_def)
qed

definition ex_upsert :: "nat result \<times> conn" where
  "ex_upsert = upsert_sources demo_env [new_source ''bank'' ''default'', new_source ''mill'' ''default''] False (ex_conn False demo_row)"

theorem upsert_preserves_sources_witness:
  "map_option s_lifecycle_state (map_of (d_registry (k_working (snd ex_upsert))) ''bank'') = Some ''ACTIVE''"
proof -
  have "ex_upsert = (Inr (projr (fst ex_upsert)), snd ex_upsert)" by (rule returned) code_simp
  note up = upsert_preserves_sources[OF this[unfolded ex_upsert_def], THEN conjunct1, folded ex_upsert_def]
  have "map_of (d_registry (k_working (ex_conn False demo_row))) ''bank'' = Some ex_source" by (simp add: ex_db_def)
  with up obtain new where "map_of (d_registry (k_working (snd ex_upsert))) ''bank'' = Some new"
    and "s_lifecycle_state new = s_lifecycle_state ex_source" by blast
  then show ?thesis by (simp add: ex_source_def)
qed

section \<open>Retirement\<close>

text \<open>A world in which every cluster is empty and every source has no slot.\<close>

definition ex_api :: "unit connect_api" where
  "ex_api = \<lparr>api_list_names = (\<lambda>cl w. Inr []), api_describe = (\<lambda>cl n w. Inl (KeyError n)),
     api_execute = (\<lambda>cl req w. (Inr (), w)), api_slots = (\<lambda>s pw w. Inr []), api_drop_slot = (\<lambda>s n w. (Inr (), w))\<rparr>"

definition ex_sys :: "bool \<Rightarrow> ownership \<Rightarrow> unit sys" where
  "ex_sys admin o1 = \<lparr>y_conn = ex_conn admin o1, y_world = ()\<rparr>"

definition ex_retire :: "bool \<Rightarrow> retire_summary result \<times> unit sys" where
  "ex_retire admin = retire_source demo_env ex_api ex_contract None 0 ''bank'' True False ''alice'' None (ex_sys admin demo_ready)"


theorem retire_needs_admin_witness: "fst (ex_retire False) = Inl (PermissionError admin_message)"
proof -
  have "False \<or> \<not> k_admin (y_conn (ex_sys False demo_ready))" "k_working (y_conn (ex_sys False demo_ready)) = k_committed (y_conn (ex_sys False demo_ready))"
    by (simp_all add: ex_sys_def)
  from retire_needs_admin[OF this] show ?thesis by (simp add: ex_retire_def)
qed

section \<open>Comparisons\<close>

definition ex_source_table :: "int list \<Rightarrow> source_table" where
  "ex_source_table ks = \<lparr>src_columns = [''id'', ''amount''], src_rows = map (\<lambda>k. (k, [(''id'', VInt k), (''amount'', VInt 7)])) ks\<rparr>"

definition ex_compare :: "int list \<Rightarrow> bool \<Rightarrow> recon_result result \<times> conn" where
  "ex_compare ks ko = source_vs_warehouse (\<lambda>ty v. v) (\<lambda>vs. int (length vs)) demo_env (ex_source_table ks) ''bank'' ex_table 100 10 ko ''raw''
     (ex_conn False demo_row)"

lemma ex_compares:
  "ex_compare [] True = (Inr (projr (fst (ex_compare [] True))), snd (ex_compare [] True))"
  "ex_compare [1] False = (Inr (projr (fst (ex_compare [1] False))), snd (ex_compare [1] False))"
  by (rule returned, code_simp)+

lemma ex_copy_keys: "copy_keys ''raw'' ex_table ''bank'' (ex_db demo_row) = {1}" "source_keys (ex_source_table []) = {}"
  by code_simp+

theorem reported_keys_are_gone_witness:
  "set (q_missing_in_source_keys (projr (fst (ex_compare [] True)))) \<subseteq> {1}"
  using reported_keys_are_gone[OF ex_compares(1)[unfolded ex_compare_def]] by (simp add: ex_compare_def ex_copy_keys)

theorem report_complete_for_supersets_witness:
  "set (q_missing_in_source_keys (projr (fst (ex_compare [] True)))) = {1}"
proof -
  have "\<not> q_truncated (projr (fst (ex_compare [] True)))"
    "distinct (map fst (src_rows (ex_source_table [])))"
    "distinct (map fst (warehouse_rows ''raw'' (tc_raw_table ex_table) ''bank'' (ex_db demo_row)))"
    by code_simp+
  then show ?thesis
    using report_complete_for_supersets[OF ex_compares(1)[unfolded ex_compare_def]]
    by (simp add: ex_compare_def ex_copy_keys)
qed

theorem equal_tables_clean_report_witness: "discrepancies (projr (fst (ex_compare [1] False))) = 0"
proof -
  have "mset (map (\<lambda>(k, row). (k, source_row_values (\<lambda>ty v. v) demo_env ex_table (src_columns (ex_source_table [1])) row))
       (src_rows (ex_source_table [1]))) =
     mset (map (\<lambda>(k, r). (k, warehouse_row_values (\<lambda>ty v. v) demo_env ex_table (x_cols r)))
        (warehouse_rows ''raw'' (tc_raw_table ex_table) ''bank'' (k_working (ex_conn False demo_row))))"
    by code_simp
  from equal_tables_clean_report[OF ex_compares(2)[unfolded ex_compare_def] this] show ?thesis
    by (simp add: ex_compare_def)
qed

definition ex_shadowing :: ownership where
  "ex_shadowing = demo_ready\<lparr>o_cutover_state := SHADOWING\<rparr>"

definition ex_gate :: "gate_outcome list result \<times> conn" where
  "ex_gate = run_cutover_gate ex_contract (\<lambda>vs. map (\<lambda>v. CHR ''x'') vs) ''bank'' [''m_loan''] ''alice'' 0 0 (ex_conn False ex_shadowing)"

theorem cutover_gate_outcome_witness: "map go_table (projr (fst ex_gate)) = [''m_loan'']"
proof -
  have "wf_db (ex_db ex_shadowing)" by code_simp
  then have wf: "wf_db (k_working (ex_conn False ex_shadowing))" by simp
  have "ex_gate = (Inr (projr (fst ex_gate)), snd ex_gate)" by (rule returned) code_simp
  from cutover_gate_outcome[OF wf _ this[unfolded ex_gate_def]] show ?thesis by (simp add: ex_gate_def)
qed

section \<open>Connectors\<close>

definition ex_settings :: cdc_settings where
  "ex_settings = \<lparr>z_connect_clusters = [(''default'', ''http://connect'')], z_kafka_bootstrap = ''kafka'', z_snapshot_mode = ''initial'',
     z_snapshot_threads = 1, z_heartbeat_ms = 1000, z_max_batch_size = 2048, z_max_queue_size = 8192, z_poll_interval_ms = 500,
     z_publication_mode = ''filtered'', z_publication_name = ''fbi'', z_signal_topic = ''signals'', z_max_creates_per_run = 1,
     z_max_deletes_per_run = 1, z_delete_orphans = True, z_drop_stale_slots = True, z_exclude_pii = True,
     z_connect_user = [], z_connect_password = [], z_overrides = []\<rparr>"

definition ex_desired :: "desired_connector list" where
  "ex_desired = [\<lparr>dc_source_id = ''bank'', dc_name = ''fbi-src-bank-g2'', dc_cluster = ''default'', dc_config = [], dc_paused = False\<rparr>]"

definition ex_observed :: observed where
  "ex_observed = [(''default'', [(''fbi-src-mill-g1'', \<lparr>ob_name = ''fbi-src-mill-g1'', ob_config = [], ob_state = ''RUNNING'',
     ob_task_states = [], ob_trace = None\<rparr>)])]"

definition ex_plan :: "connector_action list \<times> string list" where
  "ex_plan = plan_actions ex_desired ex_observed ex_settings []"

lemma ex_plan_run: "plan_actions ex_desired ex_observed ex_settings [] = (fst ex_plan, snd ex_plan)"
  by (simp add: ex_plan_def)

theorem plan_bounded_and_careful_witness: "count_kind CREATE (fst ex_plan) \<le> 1 \<and> count_kind DELETE (fst ex_plan) \<le> 1"
  using plan_bounded_and_careful[OF ex_plan_run] by (simp add: ex_settings_def)

theorem plan_forgets_nothing_witness:
  "snd ex_plan = [] \<and> (\<exists>a \<in> set (fst ex_plan). ca_kind a = DELETE \<and> ca_name a = ''fbi-src-mill-g1'')"
proof
  show none: "snd ex_plan = []" by code_simp
  have orphan: "z_delete_orphans ex_settings" "orphan ex_desired [] ''default'' ''fbi-src-mill-g1''" by code_simp+
  have obs: "(''default'', snd (hd ex_observed)) \<in> set ex_observed" "''fbi-src-mill-g1'' \<in> fst ` set (snd (hd ex_observed))"
    by (simp_all add: ex_observed_def)
  note all = plan_forgets_nothing[OF ex_plan_run, THEN conjunct2, THEN mp, OF orphan(1), THEN bspec, OF obs(1), unfolded split_conv,
      THEN bspec, OF obs(2), THEN mp, OF orphan(2)]
  from all none show "\<exists>a \<in> set (fst ex_plan). ca_kind a = DELETE \<and> ca_name a = ''fbi-src-mill-g1''"
    by (elim disjE bexE) (blast, simp)
qed

theorem plan_empty_iff_converged_witness: "\<not> converged ex_desired ex_observed []"
proof -
  have orphans: "z_delete_orphans ex_settings" by code_simp
  have "fst ex_plan \<noteq> []" by code_simp
  then have "plan_actions ex_desired ex_observed ex_settings [] \<noteq> ([], [])" by (auto simp: ex_plan_def)
  with plan_empty_iff_converged[OF orphans] show ?thesis by simp
qed

definition ex_cdc_source :: source_record where
  "ex_cdc_source = (new_source ''bank-a'' ''default'')\<lparr>s_db_host := Some ''db'', s_db_name := Some ''fineract'', s_db_user := Some ''u'',
     s_secret_ref := Some ''env:FBI_SRC_BANK_A_PASSWORD'', s_capture_generation := 2\<rparr>"

definition ex_config :: "config result" where
  "ex_config = build_connector_config demo_env ex_cdc_source ex_contract ex_settings"

theorem config_is_the_sources_own_witness: "map_of (projr ex_config) ''slot.name'' = Some (slot_name ex_cdc_source)"
proof -
  have req: "given (s_db_host ex_cdc_source) \<and> given (s_db_name ex_cdc_source) \<and> given (s_db_user ex_cdc_source)"
    "\<not> isl (connect_placeholder demo_env (s_secret_ref ex_cdc_source) (s_source_id ex_cdc_source))"
    by code_simp+
  then obtain pw where "connect_placeholder demo_env (s_secret_ref ex_cdc_source) (s_source_id ex_cdc_source) = Inr pw"
    by (metis sum.collapse(2))
  moreover have "with_heartbeat ex_cdc_source cfg = Inr cfg" "with_signal ex_cdc_source cfg = Inr cfg" for cfg
    by (simp_all add: with_heartbeat_def with_signal_def label_set_def ex_cdc_source_def new_source_def)
  ultimately have ok: "ex_config = Inr (projr ex_config)"
    using req(1) by (simp add: ex_config_def build_connector_config_def)
  have "fst ` set (z_overrides ex_settings) \<inter> {''slot.name'', ''topic.prefix'', ''database.password'', ''slot.drop.on.stop''} = {}"
    by (simp add: ex_settings_def)
  from config_is_the_sources_own[OF ok[unfolded ex_config_def] this] show ?thesis by (simp add: ex_config_def)
qed

theorem captured_columns_allowed_witness:
  "\<exists>t \<in> set (ct_tables ex_contract). \<exists>c \<in> set (tc_columns t). \<exists>cand \<in> set (cdc_candidates c).
     ''public.m_loan.amount'' = ''public'' @ ''.'' @ tc_table_name t @ ''.'' @ cand \<and> \<not> c_pii c"
proof -
  have "''public.m_loan.amount'' \<in> set (capture_columns ex_settings ''public'' ex_contract)" by code_simp
  moreover have "z_exclude_pii ex_settings" by code_simp
  ultimately show ?thesis using captured_columns_allowed[of "''public.m_loan.amount''" ex_settings "''public''" ex_contract] by blast
qed

section \<open>The reconciler\<close>

definition ex_state :: desired_state where
  "ex_state = \<lparr>ds_connectors = ex_desired, ds_shard_source_ids = [''bank''], ds_errors = [], ds_unknown_sources = []\<rparr>"

definition ex_reconcile_plan :: "connector_action list \<times> string list" where
  "ex_reconcile_plan = reconcile_plan ex_state ex_observed ex_settings"

theorem unseen_is_untouched_witness: "fst ex_reconcile_plan \<noteq> [] \<and> list_all (\<lambda>a. ca_cluster a = ''default'') (fst ex_reconcile_plan)"
proof
  show "fst ex_reconcile_plan \<noteq> []" by code_simp
  have run: "reconcile_plan ex_state ex_observed ex_settings = (fst ex_reconcile_plan, snd ex_reconcile_plan)"
    by (simp add: ex_reconcile_plan_def)
  show "list_all (\<lambda>a. ca_cluster a = ''default'') (fst ex_reconcile_plan)"
  proof (unfold list_all_iff, rule ballI)
    fix a
    assume "a \<in> set (fst ex_reconcile_plan)"
    from unseen_is_untouched[OF run this] show "ca_cluster a = ''default''" by (simp add: ex_observed_def)
  qed
qed

theorem dropped_slots_are_stale_witness: "(''fbi_bank_g1'', False) \<in> {(''fbi_bank_g1'', False), (''fbi_bank_g2'', True)}"
proof -
  have "''fbi_bank_g1'' \<in> set (stale_slots [(''fbi_bank_g1'', False), (''fbi_bank_g2'', True)] ''bank'' (Some ''fbi_bank_g2''))" by code_simp
  from dropped_slots_are_stale[OF this] show ?thesis by simp
qed

definition ex_tombstone :: source_record where
  "ex_tombstone = ex_cdc_source\<lparr>s_lifecycle_state := ''RETIRED'', s_labels := [(''forget_after_cleanup'', LBool True)]\<rparr>"

definition ex_tomb_sys :: "unit sys" where
  "ex_tomb_sys = (let d = (ex_db demo_row)\<lparr>d_registry := [(''bank-a'', ex_tombstone)]\<rparr> in
     \<lparr>y_conn = (ex_conn False demo_row)\<lparr>k_committed := d, k_working := d\<rparr>, y_world = ()\<rparr>)"

definition ex_forget :: "cleanup_report result \<times> unit sys" where
  "ex_forget = cleanup_source demo_env ex_api [] [] [] [] True 0 0 ex_tombstone ex_tomb_sys"

theorem forgotten_source_is_gone_witness:
  "map_of (d_registry (k_committed (y_conn (snd ex_forget)))) ''bank-a'' = None \<and> ''bank-a'' = s_source_id ex_tombstone"
proof
  show gone: "map_of (d_registry (k_committed (y_conn (snd ex_forget)))) ''bank-a'' = None" by code_simp
  have run: "cleanup_source demo_env ex_api [] [] [] [] True 0 0 ex_tombstone ex_tomb_sys = (fst ex_forget, snd ex_forget)"
    by (simp add: ex_forget_def)
  have "map_of (d_registry (k_committed (y_conn ex_tomb_sys))) ''bank-a'' = Some ex_tombstone"
    "d_registry (k_committed (y_conn ex_tomb_sys)) = d_registry (k_working (y_conn ex_tomb_sys))"
    by (simp_all add: ex_tomb_sys_def Let_def)
  with gone forgotten_source_is_gone[OF run, of "''bank-a''"] show "''bank-a'' = s_source_id ex_tombstone" by simp
qed

end
