(* ===== verification/Extract_Examples.thy ===== *)
theory Extract_Examples
  imports Examples Fencing
begin

text \<open>
  The extractor on the small installation of \<open>Examples\<close>: a source whose table has one row without a cursor
  value and two with one, read in pages of one row, and a copy that still has a row the source lost.
\<close>

section \<open>A source and its extractor\<close>

definition ex_src_row :: "int \<Rightarrow> val \<Rightarrow> src_row" where
  "ex_src_row k cur = (k, [(''id'', VInt k), (''amount'', cur), (''phone'', VText ''555'')])"

definition ex_src_rows :: "src_row list" where
  "ex_src_rows = [ex_src_row 4 (VTime 200), ex_src_row 2 VNull, ex_src_row 3 (VTime 100)]"

definition ex_sdb :: source_db where
  "ex_sdb = \<lparr>sd_connect = (\<lambda>_. Inr ()), sd_table = (\<lambda>_ _. Inr \<lparr>src_columns = [''id'', ''amount'', ''phone''], src_rows = ex_src_rows\<rparr>),
     sd_lag = (\<lambda>_. Inr (Some 0)), sd_cob = (\<lambda>_ _. Inr (Some 0)), sd_clock = (\<lambda>n. int n + 50)\<rparr>"

definition ex_xe :: "int \<Rightarrow> extractor" where
  "ex_xe n = \<lparr>xe_source = ex_source, xe_settings = \<lparr>es_page_size = n, es_lookback_seconds = 0, es_replica_lag_threshold = 30,
     es_cob_gate_enabled = False, es_cob_lookback_hours = 24, es_reconcile_bucket_size = 10, es_parallelism = 1,
     es_default_engine = ''PYTHON'', es_writer_id = ''w1'', es_exclude_pii = True\<rparr>, xe_contract = ex_contract, xe_tables = None\<rparr>"

definition ex_assignment :: "int \<Rightarrow> assignment" where
  "ex_assignment epoch = \<lparr>as_table = ex_table, as_target = ''prod'', as_epoch = epoch\<rparr>"

definition ex_outcome :: table_outcome where
  "ex_outcome = new_outcome (ex_assignment 4)"

definition ex_xsys :: xstate where
  "ex_xsys = \<lparr>y_conn = ex_conn False demo_row, y_world = \<lparr>xw_queries = 0, xw_out = ex_outcome, xw_tables = []\<rparr>\<rparr>"

lemma ex_xsys_conn [simp]: "k_working (y_conn ex_xsys) = ex_db demo_row" "k_committed (y_conn ex_xsys) = ex_db demo_row"
  by (simp_all add: ex_xsys_def)

lemma ex_cursor: "table_cursor ex_table = Inr (Some ''amount'')"
  by code_simp

lemma ex_table_ok: "table_ok ex_table True"
  by (auto simp: table_ok_def ex_cursor) (code_simp | simp add: ex_table_def ex_column_def withheld_column_def)+

lemma ex_run_ok: "run_ok (ex_xe n) ex_sdb (ex_assignment e) (Some ''amount'')"
proof -
  have "distinct (map fst ex_src_rows) \<and> list_all (keyed_row ex_table) ex_src_rows \<and> list_all (typed_row (Some ''amount'')) ex_src_rows"
    by code_simp
  then show ?thesis
    using ex_table_ok by (simp add: run_ok_def ex_xe_def ex_assignment_def ex_cursor sound_source_def ex_sdb_def)
qed

lemma ex_contract_ok: "contract_ok (ex_assignment e) (ex_db demo_row)"
  using ex_table_row[of demo_row] by (simp add: contract_ok_def ex_assignment_def ex_table_def)

lemma ex_honest: "honest (ex_xe n) ex_sdb (ex_assignment e) cur (ex_db demo_row)"
  by (simp add: honest_def ex_db_def)

section \<open>Extraction\<close>

definition ex_extract :: "nat \<Rightarrow> unit option result \<times> xstate" where
  "ex_extract fuel = extract_table fuel (ex_xe 1) ex_sdb (ex_assignment 4) ex_xsys"

lemma ex_extract_done: "ex_extract 5 = (Inr (Some ()), snd (ex_extract 5))"
  using returned[of "ex_extract 5"] by (simp add: prod_eq_iff) code_simp

text \<open>A run that is cut short after two pages.\<close>

theorem watermark_never_ahead_witness:
  "honest (ex_xe 1) ex_sdb (ex_assignment 4) (Some ''amount'') (k_committed (y_conn (snd (ex_extract 2))))"
  unfolding ex_extract_def
  by (rule watermark_never_ahead[OF ex_run_ok]) (simp_all add: ex_contract_ok ex_honest)


theorem extraction_terminates_witness: "fst (ex_extract 5) \<noteq> Inr None"
proof -
  have "unchanging ex_sdb (as_table (ex_assignment 4)) ex_src_rows" by (simp add: unchanging_def ex_sdb_def)
  from extraction_terminates[OF ex_run_ok[of 1] _ this] show ?thesis
    unfolding ex_extract_def by (simp add: ex_xe_def ex_src_rows_def)
qed

theorem page_size_zero_never_ends_witness:
  "fst (extract_table 1000 (ex_xe 0) ex_sdb (ex_assignment 4) ex_xsys) = Inr None"
proof -
  have "tc_primary_key ex_table \<in> set (column_names ex_table)" by code_simp
  moreover have "set (selected_names ex_table True) \<subseteq> {''id'', ''amount'', ''phone''}" by code_simp
  ultimately show ?thesis
    using page_size_zero_never_ends[of "ex_assignment 4" "Some ''amount''" "ex_xe 0" ex_sdb
        "\<lambda>_. \<lparr>src_columns = [''id'', ''amount'', ''phone''], src_rows = ex_src_rows\<rparr>" 1000 ex_xsys]
    by (simp add: ex_assignment_def ex_cursor ex_xe_def ex_sdb_def)
qed

section \<open>Fencing and deletes\<close>

text \<open>An assignment of the epoch before.\<close>

definition ex_stale_run :: "table_outcome option result \<times> xstate" where
  "ex_stale_run = process 5 (\<lambda>_ v. v) (\<lambda>vs. int (length vs)) demo_env (ex_xe 1) ex_sdb ''backfill'' (ex_assignment 3) ex_xsys"

theorem stale_writer_changes_nothing_witness:
  "map_of (raw_of ''prod'' (k_committed (y_conn (snd ex_stale_run)))) ex_key = Some (ex_raw 7)"
proof -
  have stale: "\<not> may_write (ex_xe 1) (ex_assignment 3) (k_committed (y_conn ex_xsys))" by code_simp
  from stale_writer_changes_nothing[OF this, of "''prod''"] show ?thesis
    unfolding ex_stale_run_def by (simp add: raw_of_def ex_db_def ex_key_def)
qed

text \<open>The reconciliation of deletes, step by step: the comparison reports the key 1, and the second look does not find it.\<close>

definition ex_snapshot :: source_table where
  "ex_snapshot = \<lparr>src_columns = [''id'', ''amount'', ''phone''], src_rows = ex_src_rows\<rparr>"

lemma ex_comparison: "dr_missing_in_src (compare_rows 10 10000 [(4, 0), (2, 0), (3, 0)] [(1, 0)]) = [1]"
proof -
  have "mismatched_buckets 10 [(4, 0), (2, 0), (3, 0)] [(1, 0)] = [0]" by code_simp
  then have "compare_rows 10 10000 [(4, 0), (2, 0), (3, 0)] [(1, 0)] = compare_rows 10 1 [(4, 0), (2, 0), (3, 0)] [(1, 0)]"
    by (simp add: compare_rows_def)
  moreover have "dr_missing_in_src (compare_rows 10 1 [(4, 0), (2, 0), (3, 0)] [(1, 0)]) = [1]" by code_simp
  ultimately show ?thesis by simp
qed

lemma ex_compared_deletes:
  assumes "k_working c = ex_db demo_row"
  shows "\<exists>q. source_vs_warehouse cast hash env ex_snapshot ''bank'' ex_table 10 10000 True ''raw'' c =
    (Inr q, c\<lparr>k_committed := k_working c, k_txn := k_txn c + 2\<rparr>) \<and> q_missing_in_source_keys q = [1]"
proof -
  have "warehouse_rows ''raw'' (tc_raw_table ex_table) ''bank'' (ex_db demo_row) = [(1, ex_raw 7)]" by code_simp
  then show ?thesis
    using assms ex_comparison
    by (simp add: source_vs_warehouse_def sbind_def sx_simps guard_def Let_def ex_snapshot_def ex_src_rows_def ex_src_row_def)
qed

definition ex_deletes :: "unit result \<times> xstate" where
  "ex_deletes = reconcile_deletes (\<lambda>_ v. v) (\<lambda>vs. int (length vs)) demo_env (ex_xe 1) ex_sdb (ex_assignment 4) ex_xsys"

definition ex_before_delete :: xstate where
  "ex_before_delete = \<lparr>y_conn = (ex_conn False demo_row)\<lparr>k_txn := 2\<rparr>, y_world = \<lparr>xw_queries = 2, xw_out = ex_outcome, xw_tables = []\<rparr>\<rparr>"

lemma ex_deletes_run: "ex_deletes = delete_missing (ex_xe 1) ex_sdb (ex_assignment 4) [1] ex_before_delete"
proof -
  obtain q where q: "source_vs_warehouse (\<lambda>_ v. v) (\<lambda>vs. int (length vs)) demo_env ex_snapshot ''bank'' ex_table 10 10000 True ''raw''
      (ex_conn False demo_row) = (Inr q, (ex_conn False demo_row)\<lparr>k_txn := 2\<rparr>)" "q_missing_in_source_keys q = [1]"
    using ex_compared_deletes[of "ex_conn False demo_row" "\<lambda>_ v. v" "\<lambda>vs. int (length vs)" demo_env]
    by (auto simp: ex_conn_def numeral_2_eq_2)
  have "sd_table ex_sdb t n = Inr ex_snapshot" for t n by (simp add: ex_sdb_def ex_snapshot_def)
  moreover have "filter (\<lambda>k. k \<in> {1}) (map fst (src_rows ex_snapshot)) = []" by code_simp
  moreover have "chunks 5000 [1::int] = [[1]]" by (simp add: chunks.simps)
  moreover have "s_source_id (xe_source (ex_xe 1)) = ''bank''" "es_reconcile_bucket_size (xe_settings (ex_xe 1)) = 10"
    "as_table (ex_assignment 4) = ex_table" "warehouse_schema (as_target (ex_assignment 4)) = ''raw''"
    by code_simp+
  ultimately show ?thesis
    using q by (simp add: ex_deletes_def reconcile_deletes_def still_missing_def probe_keys_def source_query_def sbind_def sx_simps
        ex_xsys_def ex_before_delete_def numeral_2_eq_2)
qed


end
