(* ===== verification/Cli.thy ===== *)
theory Cli
  imports Tasks
begin

text \<open>
  The command lines: \<^verbatim>\<open>src/controlplane/cli.py\<close> (the functions behind its commands) and
  \<^verbatim>\<open>src/extractor/cli.py\<close>.  The options arrive as values; their parsers, the commands that only read and the
  main programs are in \<open>Cli_Main\<close>.  Inventory files are read and JSON labels decoded by parameters.

  Shown: registering sources never takes a table from its owner; a retirement that dual control does not
  cover is refused before anything happens; the shard of the extractor's command line is in range; the exit
  code of \<^verbatim>\<open>reconcile-source\<close> tells whether every table passed.
\<close>

section \<open>Options\<close>

text \<open>\<^verbatim>\<open>s.split(c, 1)\<close>\<close>

definition split_once :: "char \<Rightarrow> string \<Rightarrow> string list" where
  "split_once c s = (case dropWhile (\<lambda>x. x \<noteq> c) s of [] \<Rightarrow> [s] | _ # rest \<Rightarrow> [takeWhile (\<lambda>x. x \<noteq> c) s, rest])"

definition tables_option :: "contract \<Rightarrow> string option \<Rightarrow> string list result" where
  "tables_option ct value =
     (if \<not> given value \<or> value = Some ''all'' then Inr (table_names ct)
      else
        let tables = filter (\<lambda>t. t \<noteq> []) (map py_strip (split_char CHR '','' (the value))) in
        rbind (rmap (contract_table ct) tables) (\<lambda>_. Inr tables))"

definition shard_option :: "string option \<Rightarrow> (int option \<times> int option) result" where
  "shard_option value =
     (if \<not> given value then Inr (None, None)
      else rbind (rmap py_int (split_once CHR ''/'' (the value))) (\<lambda>ns.
        case ns of [i, n] \<Rightarrow> Inr (Some i, Some n)
        | _ \<Rightarrow> Inl (ValueError ''not enough values to unpack (expected 2, got 1)'')))"

section \<open>Registration\<close>

definition register_and_assign :: "os_env \<Rightarrow> contract \<Rightarrow> source_record list \<Rightarrow> string \<Rightarrow> string \<Rightarrow> bool \<Rightarrow> (nat \<times> nat) dbop" where
  "register_and_assign env ct records engine actor allow_connection_change =
     sbind (upsert_sources env records allow_connection_change) (\<lambda>_.
     sbind (sfor records (\<lambda>r. ensure_rows (s_source_id r) (table_names ct))) (\<lambda>_.
     sbind commit (\<lambda>_.
     sbind (if engine = ''NONE'' then sret []
            else sfor records (\<lambda>r. assign_unowned ct (s_source_id r) engine actor ''registered'')) (\<lambda>assigned.
     sret (length records, sum_list assigned)))))"

record register_args =
  ra_source_id :: string
  ra_tenant_id :: string
  ra_display_name :: "string option"
  ra_region :: string
  ra_host :: "string option"
  ra_port :: int
  ra_db :: "string option"
  ra_user :: "string option"
  ra_secret_ref :: "string option"
  ra_compat_schema :: string
  ra_connect_cluster :: string
  ra_lifecycle :: string
  ra_labels :: string
  ra_engine :: string
  ra_allow_connection_change :: bool

definition cmd_register_source :: "os_env \<Rightarrow> contract \<Rightarrow> (string \<Rightarrow> (string \<times> label) list result) \<Rightarrow> string \<Rightarrow> register_args \<Rightarrow> (nat \<times> nat) dbop" where
  "cmd_register_source env ct json_labels actor a =
     sbind (slift (json_labels (ra_labels a))) (\<lambda>labels.
     register_and_assign env ct
       [(new_source (ra_source_id a) (ra_tenant_id a))
          \<lparr>s_display_name := ra_display_name a, s_region := ra_region a, s_db_host := ra_host a, s_db_port := ra_port a,
           s_db_name := ra_db a, s_db_user := ra_user a, s_secret_ref := ra_secret_ref a, s_compat_schema := ra_compat_schema a,
           s_connect_cluster := ra_connect_cluster a, s_lifecycle_state := ra_lifecycle a, s_labels := labels\<rparr>]
       (ra_engine a) actor (ra_allow_connection_change a))"

text \<open>A row of an inventory: the texts of its columns, \<open>None\<close> where the column is absent.\<close>

type_synonym inventory_row = "string \<Rightarrow> string option"

definition bulk_record :: "inventory_row \<Rightarrow> source_record result" where
  "bulk_record row =
     (case row ''source_id'' of
        None \<Rightarrow> Inl (KeyError ''source_id'')
      | Some sid \<Rightarrow>
          rbind (py_int (text_or (row ''db_port'') ''5432'')) (\<lambda>port.
          Inr ((new_source sid (text_or (row ''tenant_id'') sid))
            \<lparr>s_display_name := row ''display_name'', s_region := text_or (row ''region'') ''default'', s_tier := text_or (row ''tier'') ''standard'',
             s_db_host := row ''db_host'', s_db_port := port, s_db_name := row ''db_name'', s_db_user := row ''db_user'',
             s_secret_ref := row ''secret_ref'', s_compat_schema := text_or (row ''compat_schema'') ''bi_connector_source'',
             s_connect_cluster := text_or (row ''connect_cluster'') ''default'',
             s_lifecycle_state := text_or (row ''lifecycle_state'') ''ACTIVE''\<rparr>)))"

definition batches :: "int \<Rightarrow> 'a list \<Rightarrow> 'a list list result" where
  "batches n xs = (if n = 0 then Inl (ValueError ''range() arg 3 must not be zero'') else Inr (chunks (nat n) xs))"

definition register_batches :: "os_env \<Rightarrow> contract \<Rightarrow> int \<Rightarrow> string \<Rightarrow> string \<Rightarrow> source_record list \<Rightarrow> (nat \<times> nat) dbop" where
  "register_batches env ct n engine actor records =
     sbind (slift (batches n records)) (\<lambda>parts.
     sbind (sfor parts (\<lambda>part. register_and_assign env ct part engine actor False)) (\<lambda>results.
     sret (sum_list (map fst results), sum_list (map snd results))))"

definition cmd_register_bulk :: "os_env \<Rightarrow> contract \<Rightarrow> string \<Rightarrow> inventory_row list \<Rightarrow> string \<Rightarrow> int \<Rightarrow> (nat \<times> nat) dbop" where
  "cmd_register_bulk env ct actor rows engine batch_size =
     sbind (slift (rmap bulk_record rows)) (register_batches env ct batch_size engine actor)"

text \<open>\<^verbatim>\<open>f"{i:0wd}"\<close>\<close>

definition zero_padded :: "nat \<Rightarrow> int \<Rightarrow> string" where
  "zero_padded w i = (if i < 0 then CHR ''-'' # pad (w - 1) (nat (- i)) else pad w (nat i))"

definition synthetic_record :: "string \<Rightarrow> int \<Rightarrow> int \<Rightarrow> source_record result" where
  "synthetic_record prefix regions i =
     (if regions = 0 then Inl (ZeroDivisionError ''integer modulo by zero'')
      else Inr ((new_source (prefix @ ''-'' @ zero_padded 5 i) (''tenant-'' @ zero_padded 5 i))
        \<lparr>s_display_name := Some (''Synthetic branch database '' @ int_str i), s_region := ''region-'' @ zero_padded 2 (i mod regions),
         s_lifecycle_state := ''ACTIVE'', s_labels := [(''synthetic'', LBool True)]\<rparr>))"

definition cmd_register_synthetic :: "os_env \<Rightarrow> contract \<Rightarrow> string \<Rightarrow> string \<Rightarrow> int \<Rightarrow> int \<Rightarrow> string \<Rightarrow> (nat \<times> nat) dbop" where
  "cmd_register_synthetic env ct actor prefix regions n engine =
     sbind (slift (rmap (synthetic_record prefix regions) [0..n - 1])) (register_batches env ct 200 engine actor)"

section \<open>Ownership, connectors and lifecycle\<close>

definition cmd_ownership_apply :: "contract \<Rightarrow> string \<Rightarrow> string \<Rightarrow> string option \<Rightarrow> string \<Rightarrow> string \<Rightarrow> string option \<Rightarrow> string option \<Rightarrow>
    transition_result list dbop" where
  "cmd_ownership_apply ct actor sid tables action reason engine approved_by =
     sbind (slift (ownership_request action actor reason engine approved_by)) (\<lambda>req.
     sbind (slift (tables_option ct tables)) (\<lambda>ts.
     apply_ownership ct sid ts req))"

definition cmd_cutover_gate :: "contract \<Rightarrow> row_digest \<Rightarrow> string \<Rightarrow> string \<Rightarrow> string option \<Rightarrow> int \<Rightarrow> int \<Rightarrow> gate_outcome list dbop" where
  "cmd_cutover_gate ct digest actor sid tables settle_seconds max_discrepancies =
     sbind (slift (tables_option ct tables)) (\<lambda>ts.
     run_cutover_gate ct digest sid ts actor settle_seconds max_discrepancies)"

definition cmd_reconcile_connectors :: "(string \<Rightarrow> int) \<Rightarrow> (string \<Rightarrow> (string \<times> string) list result) \<Rightarrow> os_env \<Rightarrow> 'w connect_api \<Rightarrow>
    contract \<Rightarrow> string option \<Rightarrow> bool \<Rightarrow> ('w sys, reconcile_report) sx" where
  "cmd_reconcile_connectors hashtext json_dict env api ct shard dry_run =
     sbind (slift (shard_option shard)) (\<lambda>(i, n).
     sbind (slift (settings_from_env json_dict env)) (\<lambda>z.
     reconcile hashtext env api ct z i n dry_run))"

definition cmd_connector_config :: "(string \<Rightarrow> (string \<times> string) list result) \<Rightarrow> os_env \<Rightarrow> contract \<Rightarrow> string \<Rightarrow> config dbop" where
  "cmd_connector_config json_dict env ct sid =
     sbind (get_source sid) (\<lambda>s.
     sbind (slift (settings_from_env json_dict env)) (\<lambda>z.
     slift (build_connector_config env s ct z)))"

definition cmd_reconcile_source :: "sql_cast \<Rightarrow> row_hash \<Rightarrow> os_env \<Rightarrow> contract \<Rightarrow> (string \<Rightarrow> unit result) \<Rightarrow>
    (string \<Rightarrow> string \<Rightarrow> source_table result) \<Rightarrow> string \<Rightarrow> string option \<Rightarrow> int \<Rightarrow> int \<Rightarrow> check_entry list dbop" where
  "cmd_reconcile_source cast hash env ct reach contents sid tables bucket_size max_discrepancies =
     sbind (get_source sid) (\<lambda>s.
     sbind commit (\<lambda>_.
     sbind (slift (resolve env (s_secret_ref s) (s_source_id s))) (\<lambda>_.
     sbind (slift (reach (s_source_id s))) (\<lambda>_.
     sbind (slift (tables_option ct tables)) (\<lambda>ts.
     sfor ts (\<lambda>name. sbind (slift (contract_table ct name)) (\<lambda>t.
       check_table cast hash env (contents sid) s bucket_size max_discrepancies t)))))))"

definition cmd_lifecycle :: "string \<Rightarrow> string \<Rightarrow> unit dbop" where
  "cmd_lifecycle sid st = sbind (set_lifecycle sid st) (\<lambda>_. commit)"

definition cmd_approve_cutover :: "contract \<Rightarrow> string \<Rightarrow> string option \<Rightarrow> string option \<Rightarrow> nat dbop" where
  "cmd_approve_cutover ct sid tables label =
     sbind (slift (tables_option ct tables)) (\<lambda>ts.
     sbind (approve_cutover sid ts label) (\<lambda>ids. sret (length ids)))"

definition cmd_bump_generation :: "string \<Rightarrow> int dbop" where
  "cmd_bump_generation sid = sbind (bump_capture_generation sid) (\<lambda>g. sbind commit (\<lambda>_. sret g))"

section \<open>Retirement\<close>

definition is_registered :: "string \<Rightarrow> bool dbop" where
  "is_registered sid =
     sbind (scatch (sbind (get_source sid) (\<lambda>_. sret True)) (\<lambda>e. case e of RegistryError _ \<Rightarrow> sret False | _ \<Rightarrow> sraise e)) (\<lambda>b.
     sbind rollback (\<lambda>_. sret b))"

definition second_person :: "string \<Rightarrow> string option \<Rightarrow> unit dbop" where
  "second_person actor approved_by =
     sbind dual_control_required (\<lambda>dual.
     if \<not> dual then sret ()
     else if \<not> given approved_by
       then sraise (SystemExit ''retire-source purges data in every layer and needs --approved-by (dual control)'')
     else if approved_by = Some actor then sraise (SystemExit ''--approved-by must differ from --actor'')
     else sret ())"

definition cmd_retire_source :: "(string \<Rightarrow> (string \<times> string) list result) \<Rightarrow> os_env \<Rightarrow> 'w connect_api \<Rightarrow> contract \<Rightarrow> nat \<Rightarrow>
    string \<Rightarrow> string \<Rightarrow> bool \<Rightarrow> bool \<Rightarrow> string option \<Rightarrow> bool \<Rightarrow> ('w sys, retire_summary) sx" where
  "cmd_retire_source json_dict env api ct attempts actor sid forget dry_run approved_by allow_unregistered =
     sbind (on_conn (is_registered sid)) (\<lambda>registered.
     if \<not> registered \<and> \<not> allow_unregistered
       then sraise (SystemExit (sid @ '' is not registered. Pass --allow-unregistered to purge leftover data of a removed source.''))
     else
       sbind (swhen (\<not> dry_run) (on_conn (second_person actor approved_by))) (\<lambda>_.
       sbind (slift (settings_from_env json_dict env)) (\<lambda>z.
       retire_source env api ct (Some z) attempts sid forget dry_run actor approved_by)))"

section \<open>Exit codes\<close>

text \<open>
  \<^verbatim>\<open>main\<close> fails when a value of the printed dictionary is itself a dictionary whose \<^verbatim>\<open>status\<close> is \<^verbatim>\<open>FAILED\<close>; the
  statuses of the values, \<open>None\<close> for a value without one.
\<close>

definition exit_code :: "string option list \<Rightarrow> int" where
  "exit_code statuses = (if Some ''FAILED'' \<in> set statuses then 1 else 0)"

definition check_status :: "check_entry \<Rightarrow> string option" where
  "check_status e = Some (if ce_passed e then ''PASSED'' else ''FAILED'')"

text \<open>The entries of the gate have the keys \<^verbatim>\<open>reconciliation_id\<close>, \<^verbatim>\<open>passed\<close>, \<^verbatim>\<open>compared_rows\<close>, \<^verbatim>\<open>discrepancies\<close>, \<^verbatim>\<open>sample_keys\<close>.\<close>

definition gate_status :: "gate_outcome \<Rightarrow> string option" where
  "gate_status out = None"

section \<open>The extractor's command line\<close>

definition parse_shard :: "string \<Rightarrow> string + (int \<times> int)" where
  "parse_shard value =
     (case rmap py_int (split_once CHR ''/'' value) of
        Inr [index, n] \<Rightarrow>
          if n < 1 \<or> \<not> (0 \<le> index \<and> index < n) then Inl ''shard index must be in [0, COUNT)'' else Inr (index, n)
      | _ \<Rightarrow> Inl ''shard must look like INDEX/COUNT, e.g. 0/8'')"

definition extractor_main :: "nat \<Rightarrow> sql_cast \<Rightarrow> row_hash \<Rightarrow> (string \<Rightarrow> int) \<Rightarrow> string \<Rightarrow> os_env \<Rightarrow> contract \<Rightarrow> (string \<times> bool) \<Rightarrow>
    (string \<Rightarrow> source_db) \<Rightarrow> (string \<Rightarrow> string) \<Rightarrow> string \<Rightarrow> string list \<Rightarrow> (int \<times> int) option \<Rightarrow> string list \<Rightarrow> (xstate, int option) sx" where
  "extractor_main fuel cast hash hashtext hostname env ct control dbs run_ids mode source_ids shard tables =
     obind (run_sources fuel cast hash hashtext hostname env ct control dbs run_ids mode source_ids shard
        (if tables = [] then None else Some tables) None) (\<lambda>rs.
     sret (Some (if list_ex (\<lambda>r. report_status r = ''failed'') rs then 1 else 0)))"

section \<open>Registering takes nothing away\<close>

lemma keeps_register_and_assign:
  "keeps (both (kept d0 (\<lambda>_. True))) (register_and_assign env ct records engine actor allow)"
  unfolding register_and_assign_def by (intro keeps_intros keeps_owners) simp_all

text \<open>
  Registering sources, one or many at a time, again or for the first time, never takes a table from its owner:
  whether the command returns or raises, every table that had an owner has the ownership row it had.
\<close>

theorem registering_keeps_owners:
  assumes "both wf_db c" and "k_working c = k_committed c"
  shows "owners_kept (k_committed c) (k_committed (snd (register_batches env ct n engine actor records c)))"
proof -
  have "keeps (both (kept (k_committed c) (\<lambda>_. True))) (register_batches env ct n engine actor records)"
    unfolding register_batches_def by (intro keeps_intros keeps_register_and_assign)
  from keepsD[OF this, of c] assms show ?thesis by (simp add: both_def kept_def)
qed

section \<open>Dual control of a retirement\<close>

text \<open>
  With dual control a retirement that is not a dry run needs a second person: without an approver, or with the
  actor as approver, the command exits before it does anything, and the committed database and everything
  outside are as they were.
\<close>

theorem retirement_needs_second_person:
  assumes "py_lower (setting (k_committed (y_conn y)) ''require_dual_control'' ''true'') = ''true''"
    and "\<not> given approved_by \<or> approved_by = Some actor"
  shows "(\<exists>msg. fst (cmd_retire_source json_dict env api ct attempts actor sid forget False approved_by allow y) = Inl (SystemExit msg)) \<and>
    k_committed (y_conn (snd (cmd_retire_source json_dict env api ct attempts actor sid forget False approved_by allow y))) = k_committed (y_conn y) \<and>
    y_world (snd (cmd_retire_source json_dict env api ct attempts actor sid forget False approved_by allow y)) = y_world y"
  using assms
  by (auto simp: cmd_retire_source_def is_registered_def second_person_def dual_control_required_def get_source_def
      sbind_def scatch_def sx_simps split: option.splits)

section \<open>Shards on the command line\<close>

lemma split_once_append: "c \<notin> set a \<Longrightarrow> split_once c (a @ c # b) = [a, b]"
  by (induction a) (auto simp: split_once_def split: list.splits)

lemma no_slash_in_number: "0 \<le> i \<Longrightarrow> CHR ''/'' \<notin> set (int_str i)"
  using py_isdigit_int_str[of i] by (auto simp: py_isdigit_def list_all_iff is_digit_char_def less_eq_char_def)

lemma parse_shard_Inr: "parse_shard value = Inr (i, n) \<Longrightarrow> 0 \<le> i \<and> i < n"
  by (auto simp: parse_shard_def split: sum.splits list.splits if_splits)

text \<open>
  The shard option of the extractor denotes a shard: a text is accepted only with an index in range, and every shard
  in range, written as index/count, is read back as itself.
\<close>

theorem parse_shard_exact:
  "(\<forall>i n. parse_shard value = Inr (i, n) \<longrightarrow> 0 \<le> i \<and> i < n) \<and>
   (0 \<le> j \<and> j < m \<longrightarrow> parse_shard (int_str j @ ''/'' @ int_str m) = Inr (j, m))"
proof -
  have "parse_shard (int_str j @ ''/'' @ int_str m) = Inr (j, m)" if "0 \<le> j" "j < m"
    using that split_once_append[OF no_slash_in_number[OF that(1)], of "int_str m"]
    by (simp add: parse_shard_def py_int_def)
  with parse_shard_Inr show ?thesis by blast
qed

section \<open>Exit codes tell the result\<close>

lemma check_table_Inr:
  "check_table cast hash env contents s bucket m t c = (Inr e, c') \<Longrightarrow> ce_table e = tc_table_name t \<and> (ce_passed e \<longleftrightarrow> ce_discrepancies e \<le> m)"
  unfolding check_table_def by (elim sbind_InrE) (auto simp: sx_simps passed_def)

lemma contract_table_name: "contract_table ct name = Inr t \<Longrightarrow> tc_table_name t = name"
  by (auto simp: contract_table_def find_Some_iff split: option.splits)

lemma checked_tables:
  "sfor ts (\<lambda>name. sbind (slift (contract_table ct name)) (\<lambda>t. check_table cast hash env contents s bucket m t)) c = (Inr es, c') \<Longrightarrow>
   map ce_table es = ts \<and> list_all (\<lambda>e. ce_passed e \<longleftrightarrow> ce_discrepancies e \<le> m) es"
proof (induction ts arbitrary: c es)
  case (Cons name ts)
  from Cons.prems[unfolded sfor.simps] obtain e c1 where
    e: "sbind (slift (contract_table ct name)) (\<lambda>t. check_table cast hash env contents s bucket m t) c = (Inr e, c1)"
    and r: "sbind (sfor ts (\<lambda>name. sbind (slift (contract_table ct name)) (\<lambda>t. check_table cast hash env contents s bucket m t)))
      (\<lambda>ys. sret (e # ys)) c1 = (Inr es, c')"
    by (rule sbind_InrE)
  from e obtain t c0 where "slift (contract_table ct name) c = (Inr t, c0)" "check_table cast hash env contents s bucket m t c0 = (Inr e, c1)"
    by (rule sbind_InrE)
  then have "ce_table e = name \<and> (ce_passed e \<longleftrightarrow> ce_discrepancies e \<le> m)"
    using check_table_Inr contract_table_name by (fastforce simp: sx_simps)
  moreover from r obtain es' where "sfor ts (\<lambda>name. sbind (slift (contract_table ct name)) (\<lambda>t. check_table cast hash env contents s bucket m t)) c1 = (Inr es', c')"
      "es = e # es'"
    by (rule sbind_InrE) (auto simp: sx_simps)
  ultimately show ?case using Cons.IH by auto
qed (simp add: sx_simps)

lemma exit_code_checks: "exit_code (map check_status es) = 0 \<longleftrightarrow> list_all ce_passed es"
  by (auto simp: exit_code_def check_status_def list_all_iff split: if_splits)

text \<open>
  \<^verbatim>\<open>reconcile-source\<close> reports one comparison for every chosen table, in their order, and exits with 0 exactly when every
  table has at most the allowed number of discrepancies.
\<close>

theorem reconcile_source_outcome:
  assumes "cmd_reconcile_source cast hash env ct reach contents sid tables bucket m c = (Inr es, c')"
    and "tables_option ct tables = Inr ts"
  shows "map ce_table es = ts \<and> (exit_code (map check_status es) = 0 \<longleftrightarrow> list_all (\<lambda>e. ce_discrepancies e \<le> m) es)"
proof -
  from assms obtain s c1 where "sfor ts (\<lambda>name. sbind (slift (contract_table ct name)) (\<lambda>t. check_table cast hash env (contents sid) s bucket m t)) c1 = (Inr es, c')"
    unfolding cmd_reconcile_source_def by (elim sbind_InrE) (auto simp: sx_simps)
  from checked_tables[OF this] show ?thesis by (auto simp: exit_code_checks list_all_iff)
qed

text \<open>The gate's results carry no status, so the command exits with 0 also when tables failed.\<close>

lemma failed_gate_exits_zero: "exit_code (map gate_status outs) = 0"
  by (auto simp: exit_code_def gate_status_def)

end
