(* ===== verification/Task_Examples.thy ===== *)
theory Task_Examples
  imports Examples Cli
begin

text \<open>
  The entry points on the small installation of \<open>Examples\<close>: a new source \<^verbatim>\<open>bank-a\<close> is onboarded whose id was retired
  before, which left the generation floor 3.
\<close>

section \<open>Tasks\<close>

definition ex_plan_shards :: "(int \<times> int) list result \<times> conn" where
  "ex_plan_shards = shard_plan demo_env (Some 1) (Some 8) (ex_conn False demo_row)"

theorem shard_plan_covers_witness: "\<exists>!p. p \<in> {(0, 1)} \<and> in_shard (\<lambda>s. - 7) (Some (fst p)) (Some (snd p)) ''bank''"
proof -
  have run: "ex_plan_shards = (Inr (projr (fst ex_plan_shards)), snd ex_plan_shards)" by (rule returned, code_simp)
  have "projr (fst ex_plan_shards) = [(0, 1)]" by code_simp
  with shard_plan_covers[OF run[unfolded ex_plan_shards_def], of "\<lambda>s. - 7" "''bank''"] show ?thesis
    by (simp add: ex_plan_shards_def)
qed

definition ex_floor_conn :: conn where
  "ex_floor_conn = (let d = (ex_db demo_row)\<lparr>d_floor := [(''bank-a'', 3)]\<rparr> in
     (ex_conn False demo_row)\<lparr>k_committed := d, k_working := d\<rparr>)"

definition ex_probe :: source_probe where
  "ex_probe = \<lparr>sp_connect = Inr (), sp_version = Inr 160000, sp_views = (\<lambda>_. Inr [''m_loan'', ''m_client'']), sp_tables = (\<lambda>_. Inr []),
     sp_wal_level = Inr ''replica'', sp_replication = Inr False\<rparr>"

definition ex_params :: "string \<Rightarrow> onboard_params" where
  "ex_params sid = \<lparr>op_engine = None, op_source_id = Some sid, op_tenant_id = None, op_display_name = None, op_region = None,
     op_db_host = Some ''db'', op_db_port = None, op_db_name = Some ''fineract'', op_db_user = Some ''reader'',
     op_secret_ref = Some ''env:FBI_SRC_BANK_A_PASSWORD'', op_compat_schema = None, op_connect_cluster = None, op_labels = []\<rparr>"

definition ex_onboard :: "(string \<times> string \<times> source_checks) result \<times> conn" where
  "ex_onboard = onboard_source demo_env ex_contract ex_probe (ex_params ''bank-a'') ''alice'' ex_floor_conn"

lemma ex_onboard_run: "ex_onboard = (Inr (''bank-a'', fst (snd (projr (fst ex_onboard))), snd (snd (projr (fst ex_onboard)))), snd ex_onboard)"
proof -
  have "ex_onboard = (Inr (projr (fst ex_onboard)), snd ex_onboard)" by (rule returned, code_simp)
  moreover have "fst (projr (fst ex_onboard)) = ''bank-a''" by code_simp
  ultimately show ?thesis by (metis prod.collapse)
qed

lemma ex_floor_wf: "wf_db (k_committed ex_floor_conn)"
  by code_simp


theorem onboarding_leaves_existing_witness:
  "map_of (d_registry (k_committed (snd ex_onboard))) ''bank'' = Some ex_source"
proof -
  have "map_of (d_registry (k_committed ex_floor_conn)) ''bank'' = Some ex_source"
    by (simp add: ex_floor_conn_def ex_db_def Let_def)
  with onboarding_leaves_existing[OF ex_floor_wf, of demo_env ex_contract ex_probe "ex_params ''bank-a''" "''alice''"] show ?thesis
    unfolding ex_onboard_def entries_kept_def by blast
qed

section \<open>Commands\<close>

theorem registering_keeps_owners_witness:
  "row_for (k_committed (snd (register_batches demo_env ex_contract 200 ''KAFKA'' ''alice'' [ex_source] (ex_conn False demo_row)))) ''bank'' ''m_loan'' =
     Some (ex_row demo_row)"
proof -
  have "both wf_db (ex_conn False demo_row)" by (simp add: both_def ex_wf)
  moreover have "row_for (ex_db demo_row) ''bank'' ''m_loan'' = Some (ex_row demo_row)" by (simp add: row_for_def ex_db_def)
  moreover have "o_engine (w_own (ex_row demo_row)) \<noteq> NONE" by (simp add: ex_row_def demo_defs)
  ultimately show ?thesis
    using registering_keeps_owners[of "ex_conn False demo_row" demo_env ex_contract 200 "''KAFKA''" "''alice''" "[ex_source]"]
    by (simp add: owners_kept_def)
qed

definition ex_cmd_retire :: "retire_summary result \<times> unit sys" where
  "ex_cmd_retire = cmd_retire_source (\<lambda>_. Inr []) demo_env ex_api ex_contract 0 ''alice'' ''bank'' True False (Some ''alice'') False (ex_sys True demo_row)"

theorem retirement_needs_second_person_witness: "k_committed (y_conn (snd ex_cmd_retire)) = ex_db demo_row"
proof -
  have dual: "py_lower (setting (k_committed (y_conn (ex_sys True demo_row))) ''require_dual_control'' ''true'') = ''true''" by code_simp
  have "\<not> given (Some ''alice'') \<or> Some ''alice'' = Some ''alice''" by simp
  from retirement_needs_second_person[OF dual this] show ?thesis
    unfolding ex_cmd_retire_def by (simp add: ex_sys_def)
qed

theorem parse_shard_exact_witness: "parse_shard ''0/8'' = Inr (0, 8)"
proof -
  have "int_str 0 @ ''/'' @ int_str 8 = ''0/8''" by code_simp
  with parse_shard_exact[of "''0/8''" 0 8] show ?thesis by simp
qed

end
