(* ===== verification/Ops_Examples.thy ===== *)
theory Ops_Examples
  imports Dags Connect_Client Extract_Examples Task_Examples
begin

text \<open>
  Maintenance and the lifecycle DAGs on the small installation of \<open>Examples\<close>: a change log of two old days with one
  cursor, and requests by a user who claims another name.  Kafka Connect has one connector.
\<close>

section \<open>Maintenance\<close>

definition ex_log_row :: "int \<Rightarrow> log_row" where
  "ex_log_row i = \<lparr>lg_id = i, lg_entry = change_entry.make ''bank'' ''default'' ''loan'' i i,
     lg_changed_at = i * day_us, lg_txid = i\<rparr>"

definition ex_log :: "int \<Rightarrow> log_store" where
  "ex_log txid = \<lparr>lo_partitions = [(1, [ex_log_row 1]), (2, [ex_log_row 2])], lo_default = [],
     lo_cursors = [(''fct_loan'', \<lparr>cu_last_txid = txid, cu_updated_at = 100 * day_us\<rparr>)]\<rparr>"

definition ex_maint :: "int \<Rightarrow> (string \<times> string) list \<Rightarrow> maint" where
  "ex_maint txid cfg = \<lparr>mt_db = (ex_db demo_ready)\<lparr>d_settings := cfg\<rparr>, mt_log = ex_log txid, mt_ingestion_audit = [], mt_ownership_audit = [],
     mt_clock = (\<lambda>_. 100 * day_us), mt_txn = 0\<rparr>"

theorem maintenance_keeps_what_is_needed_witness:
  "ex_log_row 2 \<in> log_rows (mt_log (snd (maintenance 5 (\<lambda>_ _. False) demo_env (ex_maint 2 []))))"
proof -
  have "awaited (ex_log_row 2) (ex_maint 2 [])"
  proof -
    have "mt_setting (ex_maint 2 []) ''cursor_stale_days'' ''7'' = Inr 7" by code_simp
    then show ?thesis
      by (auto simp: awaited_def wf_log_def log_rows_def ex_maint_def ex_log_def ex_log_row_def day_us_def)
  qed
  moreover have "ex_run \<in> set (d_runs (mt_db (ex_maint 2 [])))" by (simp add: ex_maint_def ex_db_def)
  moreover have "run_referenced (mt_db (ex_maint 2 [])) ex_run" by code_simp
  ultimately show ?thesis using maintenance_keeps_what_is_needed by blast
qed

lemma ex_maint_day: "day_of (mt_clock (ex_maint txid cfg) i) = 100"
  by (simp add: ex_maint_def day_of_def day_us_def)

lemma ex_maint_wf: "wf_log (mt_log (ex_maint txid cfg))"
  by (simp add: ex_maint_def ex_log_def wf_log_def)


theorem maintenance_without_retention_never_ends_witness:
  "fst (purge_loop 1000 (\<lambda>_ _. False) 0 (ex_maint 9 [(''change_log_retention_days'', ''0'')])) = Inr None"
proof (rule maintenance_without_retention_never_ends)
  have "mt_setting (ex_maint 9 [(''change_log_retention_days'', ''0'')]) ''cursor_stale_days'' ''7'' = Inr 7" by code_simp
  then show "consumed (ex_maint 9 [(''change_log_retention_days'', ''0'')])"
    by (auto simp: consumed_def ex_maint_wf log_rows_def)
      (auto simp: ex_maint_def ex_log_def ex_log_row_def day_us_def)
  show "mt_setting (ex_maint 9 [(''change_log_retention_days'', ''0'')]) ''change_log_retention_days'' ''14'' = Inr 0" by code_simp
qed simp_all

section \<open>Lifecycle\<close>

definition ex_flag :: "string option \<Rightarrow> flag_run" where
  "ex_flag user = \<lparr>fr_source_id = ''bank'', fr_tables = ''m_loan'', fr_action = ''pause'', fr_target_engine = ''KAFKA'',
     fr_requested_by = ''alice'', fr_approved_by = [], fr_reason = ''test'', fr_settle_seconds = 0, fr_max_discrepancies = 0,
     fr_triggering_user = user\<rparr>"

definition ex_onboarding :: "string option \<Rightarrow> onboarding_run" where
  "ex_onboarding user = \<lparr>or_params = ex_params ''bank-a'', or_requested_by = ''alice'', or_triggering_user = user\<rparr>"

definition ex_flag_run :: "os_env \<Rightarrow> flag_run \<Rightarrow> (flag_result \<times> reconcile_report \<times> ingest_summary option) result \<times> (unit \<times> xworld) sys" where
  "ex_flag_run env p = fbi_ingestion_feature_flag 5 (\<lambda>_ v. v) (\<lambda>vs. int (length vs)) (\<lambda>_. 0) ''host'' (\<lambda>_. Inr []) env ex_api ex_contract
     (\<lambda>_. []) (''PYTHON'', True) (\<lambda>_. ex_sdb) id p \<lparr>y_conn = ex_conn True demo_row, y_world = ((), y_world ex_xsys)\<rparr>"

definition ex_auth_env :: os_env where
  "ex_auth_env = demo_env\<lparr>e_vars := (e_vars demo_env)(''FBI_REQUIRE_AUTHENTICATED_ACTOR'' \<mapsto> ''TRUE'')\<rparr>"

theorem requested_name_is_not_trusted_witness:
  "ex_flag_run demo_env ((ex_flag (Some ''bob''))\<lparr>fr_requested_by := ''root''\<rparr>) = ex_flag_run demo_env (ex_flag (Some ''bob''))"
proof -
  have g: "given (Some ''bob'')" "or_triggering_user (ex_onboarding (Some ''bob'')) = Some ''bob''"
    "fr_triggering_user (ex_flag (Some ''bob'')) = Some ''bob''" by code_simp+
  show ?thesis unfolding ex_flag_run_def using requested_name_is_not_trusted[OF g] by blast
qed


section \<open>Kafka Connect\<close>

definition ex_kc_desired :: desired_connector where
  "ex_kc_desired = \<lparr>dc_source_id = ''bank'', dc_name = ''fbi-src-bank-g2'', dc_cluster = ''default'',
     dc_config = [(''slot.name'', ''fbi_bank''), (''tasks.max'', ''1'')], dc_paused = False\<rparr>"

definition ex_info :: "(string \<times> json) list" where
  "ex_info = [(''config'', JObj [(''slot.name'', JStr ''fbi_bank''), (''tasks.max'', JStr ''1''), (''name'', JStr ''fbi-src-bank-g2'')])]"

definition ex_status :: "(string \<times> json) list" where
  "ex_status = [(''connector'', JObj [(''state'', JStr ''RUNNING'')]), (''tasks'', JArr [JObj [(''id'', JInt 0), (''state'', JStr ''FAILED''), (''trace'', JStr ''boom'')]])]"

definition ex_client :: connect_client where
  "ex_client = connect_client_init ''http://connect:8083/'' ''ops'' ''pw:1''"

definition ex_connect :: "unit http" where
  "ex_connect q w = (Inr (Reply (json_dumps (
     if hq_url q = ''http://connect:8083/connectors?expand=status&expand=info''
       then JObj [(''fbi-src-bank-g2'', JObj [(''status'', JObj ex_status), (''info'', JObj ex_info)])]
     else if hq_url q = ''http://connect:8083/connectors/fbi-src-bank-g2/status'' then JObj ex_status
     else JObj ex_info))), w)"

definition ex_kc_observed :: observed_connector where
  "ex_kc_observed = \<lparr>ob_name = ''fbi-src-bank-g2'', ob_config = [(''slot.name'', ''fbi_bank''), (''tasks.max'', ''1''), (''name'', ''fbi-src-bank-g2'')],
     ob_state = ''RUNNING'', ob_task_states = [''FAILED''], ob_trace = Some ''boom''\<rparr>"

lemma ex_answers:
  "answers ex_connect ex_client () ''/connectors?expand=status&expand=info''
     (JObj (map (\<lambda>(name, info, status). (name, JObj [(''status'', JObj status), (''info'', JObj info)])) [(''fbi-src-bank-g2'', ex_info, ex_status)]))"
  "answers ex_connect ex_client () (connector_path ''fbi-src-bank-g2'') (JObj ex_info)"
  "answers ex_connect ex_client () (connector_path ''fbi-src-bank-g2'' @ ''/status'') (JObj ex_status)"
  by code_simp+

lemma ex_describe: "describe ex_connect ex_client ''fbi-src-bank-g2'' () = (Inr ex_kc_observed, ())"
  unfolding describe_answer[OF ex_answers(2,3)] by code_simp



theorem credentials_arrive_witness:
  "map_option read_basic_auth (map_of (hq_headers (client_req ex_client ''GET'' ''/connectors'' None)) ''Authorization'') = Some (Some (''ops'', ''pw:1''))"
  using credentials_arrive[of "''ops''" "''http://connect:8083/''" "''pw:1''" "''GET''" "''/connectors''" None] by (simp add: ex_client_def)

end
