(* ===== verification/Asset_Specs.thy ===== *)
theory Asset_Specs
  imports Json
begin

text \<open>
  \<^verbatim>\<open>src/docker/superset/asset_specs.py\<close>: the descriptions of metrics, filters, dataset columns
  and the dashboard layout.  The
  layout under construction (\<^verbatim>\<open>position\<close>) is an association list in insertion order, as the
  dictionary of the code.

  Shown: for rows with their own names and charts placed once, \<open>build_layout\<close> prints the tree
  given in closed form by \<open>layout_of\<close>, and that layout is a tree: every child named by a node is a
  node whose parents are the path to it, and every node but the root is a child of its parent.
\<close>

section \<open>Metrics and filters\<close>

definition adhoc_metric :: "string \<Rightarrow> string \<Rightarrow> json" where
  "adhoc_metric label expression = JObj
     [(''expressionType'', JStr ''SQL''), (''sqlExpression'', JStr expression),
      (''label'', JStr label), (''hasCustomLabel'', JBool True)]"

definition sql_filter :: "string \<Rightarrow> json" where
  "sql_filter sql_expression = JObj
     [(''clause'', JStr ''WHERE''), (''expressionType'', JStr ''SQL''), (''sqlExpression'', JStr sql_expression)]"

section \<open>The dashboard layout\<close>

text \<open>What the layout reads of a chart (\<^verbatim>\<open>_ChartLike\<close>).\<close>

record chart_like =
  cl_id :: int
  cl_slice_name :: string

record row_spec =
  rs_id :: string
  rs_charts :: "string list"
  rs_default_width :: "int option"
  rs_default_height :: "int option"
  rs_chart_sizes :: "(string \<times> (string \<times> int) list) list"

text \<open>A node of \<^verbatim>\<open>position\<close>; the root has no \<^verbatim>\<open>parents\<close>, only rows and charts have \<^verbatim>\<open>meta\<close>.\<close>

record node =
  nd_id :: string
  nd_type :: string
  nd_parents :: "string list option"
  nd_children :: "string list"
  nd_meta :: "(string \<times> json) list option"

type_synonym position = "(string \<times> node) list"

definition initial_position :: position where
  "initial_position =
     [(''ROOT_ID'', \<lparr>nd_id = ''ROOT_ID'', nd_type = ''ROOT'', nd_parents = None, nd_children = [''GRID_ID''], nd_meta = None\<rparr>),
      (''GRID_ID'', \<lparr>nd_id = ''GRID_ID'', nd_type = ''GRID'', nd_parents = Some [''ROOT_ID''], nd_children = [], nd_meta = None\<rparr>)]"

definition component_id :: "int \<Rightarrow> string" where
  "component_id i = ''CHART-explore-'' @ int_str i"

type_synonym chart_lookup = "string \<Rightarrow> chart_like option"

definition lookup_chart :: "chart_lookup \<Rightarrow> string \<Rightarrow> chart_like result" where
  "lookup_chart lk name = (case lk name of None \<Rightarrow> Inl (KeyError name) | Some c \<Rightarrow> Inr c)"

definition row_node :: "string \<Rightarrow> string list \<Rightarrow> node" where
  "row_node row_id component_ids =
     \<lparr>nd_id = row_id, nd_type = ''ROW'', nd_parents = Some [''ROOT_ID'', ''GRID_ID''], nd_children = component_ids,
      nd_meta = Some [(''background'', JStr ''BACKGROUND_TRANSPARENT'')]\<rparr>"

definition chart_size :: "row_spec \<Rightarrow> string \<Rightarrow> string \<Rightarrow> int option" where
  "chart_size r name key = (case map_of (rs_chart_sizes r) name of None \<Rightarrow> None | Some sz \<Rightarrow> map_of sz key)"

definition default_to :: "int \<Rightarrow> int option \<Rightarrow> int" where
  "default_to d v = (case v of None \<Rightarrow> d | Some x \<Rightarrow> x)"

definition chart_width :: "row_spec \<Rightarrow> string \<Rightarrow> int" where
  "chart_width r name = default_to (default_to 4 (rs_default_width r)) (chart_size r name ''width'')"

definition chart_height :: "row_spec \<Rightarrow> string \<Rightarrow> int" where
  "chart_height r name = default_to (default_to 36 (rs_default_height r)) (chart_size r name ''height'')"

definition chart_node :: "row_spec \<Rightarrow> string \<Rightarrow> chart_like \<Rightarrow> node" where
  "chart_node r name c =
     \<lparr>nd_id = component_id (cl_id c), nd_type = ''CHART'', nd_parents = Some [''ROOT_ID'', ''GRID_ID'', rs_id r], nd_children = [],
      nd_meta = Some [(''chartId'', JInt (cl_id c)), (''sliceName'', JStr (cl_slice_name c)),
                      (''width'', JInt (chart_width r name)), (''height'', JInt (chart_height r name))]\<rparr>"

text \<open>\<^verbatim>\<open>position["GRID_ID"]["children"].append(row_id)\<close>\<close>

definition append_child :: "string \<Rightarrow> string \<Rightarrow> position \<Rightarrow> position" where
  "append_child k c pos = AList.map_entry k (\<lambda>n. n\<lparr>nd_children := nd_children n @ [c]\<rparr>) pos"

fun place_charts :: "chart_lookup \<Rightarrow> row_spec \<Rightarrow> string list \<Rightarrow> position \<Rightarrow> position result" where
  "place_charts lk r [] pos = Inr pos"
| "place_charts lk r (name # names) pos =
     rbind (lookup_chart lk name) (\<lambda>c.
       place_charts lk r names (AList.update (component_id (cl_id c)) (chart_node r name c) pos))"

definition place_row :: "chart_lookup \<Rightarrow> row_spec \<Rightarrow> position \<Rightarrow> position result" where
  "place_row lk r pos =
     rbind (rmap (\<lambda>name. rbind (lookup_chart lk name) (\<lambda>c. Inr (component_id (cl_id c)))) (rs_charts r)) (\<lambda>component_ids.
       place_charts lk r (rs_charts r)
         (AList.update (rs_id r) (row_node (rs_id r) component_ids) (append_child ''GRID_ID'' (rs_id r) pos)))"

fun place_rows :: "chart_lookup \<Rightarrow> row_spec list \<Rightarrow> position \<Rightarrow> position result" where
  "place_rows lk [] pos = Inr pos"
| "place_rows lk (r # rs) pos = rbind (place_row lk r pos) (place_rows lk rs)"

definition build_position :: "row_spec list \<Rightarrow> chart_lookup \<Rightarrow> position result" where
  "build_position row_specs lk = place_rows lk row_specs initial_position"

definition node_json :: "node \<Rightarrow> json" where
  "node_json n = JObj
     ([(''id'', JStr (nd_id n)), (''type'', JStr (nd_type n))] @
      (case nd_parents n of None \<Rightarrow> [] | Some ps \<Rightarrow> [(''parents'', JArr (map JStr ps))]) @
      [(''children'', JArr (map JStr (nd_children n)))] @
      (case nd_meta n of None \<Rightarrow> [] | Some m \<Rightarrow> [(''meta'', JObj m)]))"

definition position_text :: "position \<Rightarrow> string" where
  "position_text pos = json_dumps (JObj (map (\<lambda>(k, n). (k, node_json n)) pos))"

definition build_layout :: "row_spec list \<Rightarrow> chart_lookup \<Rightarrow> string result" where
  "build_layout row_specs lk = rbind (build_position row_specs lk) (\<lambda>pos. Inr (position_text pos))"

section \<open>Columns and metrics of the datasets\<close>

record column_def =
  cd_name :: string
  cd_type :: string
  cd_is_dttm :: bool

definition col :: "string \<Rightarrow> string \<Rightarrow> column_def" where
  "col n t = \<lparr>cd_name = n, cd_type = t, cd_is_dttm = False\<rparr>"

definition dttm_col :: "string \<Rightarrow> string \<Rightarrow> column_def" where
  "dttm_col n t = \<lparr>cd_name = n, cd_type = t, cd_is_dttm = True\<rparr>"

definition delinquency_columns :: "column_def list" where
  "delinquency_columns =
     [dttm_col ''snapshot_date'' ''DATE'',
      col ''source_id'' ''TEXT'',
      col ''tenant_id'' ''TEXT'',
      col ''office_id'' ''BIGINT'',
      col ''office_name'' ''TEXT'',
      col ''product_id'' ''BIGINT'',
      col ''product_name'' ''TEXT'',
      col ''currency_code'' ''TEXT'',
      col ''bucket_key'' ''BIGINT'',
      col ''bucket_name'' ''TEXT'',
      col ''standard_par_band'' ''TEXT'',
      col ''bucket_loan_count'' ''BIGINT'',
      col ''bucket_outstanding_amount'' ''NUMERIC'',
      col ''total_loan_count'' ''BIGINT'',
      col ''total_portfolio_amount'' ''NUMERIC'',
      col ''watch_list_amount'' ''NUMERIC'',
      col ''par_30_59_amount'' ''NUMERIC'',
      col ''par_60_89_amount'' ''NUMERIC'',
      col ''par_90_plus_amount'' ''NUMERIC'',
      col ''par_30_amount'' ''NUMERIC'',
      col ''par_60_amount'' ''NUMERIC'',
      col ''par_90_amount'' ''NUMERIC'',
      col ''npa_amount'' ''NUMERIC'',
      col ''current_amount'' ''NUMERIC'',
      col ''watch_list_loan_count'' ''BIGINT'',
      col ''par_30_loan_count'' ''BIGINT'',
      col ''par_60_loan_count'' ''BIGINT'',
      col ''par_90_loan_count'' ''BIGINT'',
      col ''npa_loan_count'' ''BIGINT'',
      col ''current_loan_count'' ''BIGINT'',
      col ''par_30_ratio'' ''NUMERIC'',
      col ''par_60_ratio'' ''NUMERIC'',
      col ''par_90_ratio'' ''NUMERIC'',
      col ''npa_ratio'' ''NUMERIC'',
      col ''par_30_rate'' ''NUMERIC'',
      col ''par_60_rate'' ''NUMERIC'',
      col ''par_90_rate'' ''NUMERIC'',
      col ''average_loan_outstanding'' ''NUMERIC'']"

definition portfolio_columns :: "column_def list" where
  "portfolio_columns =
     [dttm_col ''snapshot_date'' ''DATE'',
      col ''source_id'' ''TEXT'',
      col ''tenant_id'' ''TEXT'',
      col ''office_id'' ''BIGINT'',
      col ''office_name'' ''TEXT'',
      col ''product_id'' ''BIGINT'',
      col ''product_name'' ''TEXT'',
      col ''currency_code'' ''TEXT'',
      col ''active_loan_count'' ''BIGINT'',
      col ''active_borrower_count'' ''BIGINT'',
      col ''gross_loan_portfolio'' ''NUMERIC'',
      col ''total_outstanding_amount'' ''NUMERIC'',
      col ''interest_outstanding_amount'' ''NUMERIC'',
      col ''average_loan_size'' ''NUMERIC'',
      col ''average_exposure_per_borrower'' ''NUMERIC'',
      col ''npa_outstanding_amount'' ''NUMERIC'',
      col ''npa_loan_count'' ''BIGINT'',
      col ''npa_ratio'' ''NUMERIC'',
      col ''par_outstanding_amount'' ''NUMERIC'',
      col ''par_loan_count'' ''BIGINT'',
      col ''par_ratio'' ''NUMERIC'',
      col ''performing_outstanding_amount'' ''NUMERIC'',
      col ''performing_loan_count'' ''BIGINT'',
      col ''performing_ratio'' ''NUMERIC'',
      col ''disbursed_amount_on_date'' ''NUMERIC'',
      col ''disbursed_loan_count_on_date'' ''BIGINT'',
      col ''principal_collected_on_date'' ''NUMERIC'',
      col ''collected_amount_on_date'' ''NUMERIC'',
      col ''writeoff_amount_on_date'' ''NUMERIC'',
      col ''writeoff_count_on_date'' ''BIGINT'']"

definition repayment_columns :: "column_def list" where
  "repayment_columns =
     [dttm_col ''reporting_date'' ''DATE'',
      col ''source_id'' ''TEXT'',
      col ''tenant_id'' ''TEXT'',
      col ''client_hash'' ''TEXT'',
      col ''office_id'' ''BIGINT'',
      col ''office_name'' ''TEXT'',
      col ''product_id'' ''BIGINT'',
      col ''product_name'' ''TEXT'',
      col ''currency_code'' ''TEXT'',
      col ''repayment_transaction_count'' ''BIGINT'',
      col ''repaid_loan_count'' ''BIGINT'',
      col ''repaying_borrower_count'' ''BIGINT'',
      col ''repayment_amount'' ''NUMERIC'',
      col ''actual_collected_amount'' ''NUMERIC'',
      col ''contractually_due_amount'' ''NUMERIC'',
      col ''collection_efficiency_ratio'' ''NUMERIC'',
      col ''post_transaction_outstanding_balance'' ''NUMERIC'',
      col ''principal_collected'' ''NUMERIC'',
      col ''interest_collected'' ''NUMERIC'',
      col ''fee_collected'' ''NUMERIC'',
      col ''penalty_collected'' ''NUMERIC'',
      col ''overpayment_collected'' ''NUMERIC'',
      col ''waived_amount'' ''NUMERIC'',
      col ''paid_in_advance_amount'' ''NUMERIC'',
      col ''paid_late_amount'' ''NUMERIC'',
      col ''early_payment_count'' ''BIGINT'',
      col ''on_time_payment_count'' ''BIGINT'',
      col ''late_payment_count'' ''BIGINT'',
      col ''restructured_installment_count'' ''BIGINT'',
      col ''overdue_penalty_charged'' ''NUMERIC'',
      col ''overdue_penalty_waived'' ''NUMERIC'',
      col ''total_installments_due'' ''BIGINT'',
      col ''recovery_repayment_amount'' ''NUMERIC'',
      col ''recovery_loan_count'' ''BIGINT'']"

definition delinquency_metrics :: "(string \<times> string) list" where
  "delinquency_metrics =
     [(''par_30_ratio_metric'',
       ''SUM(par_30_amount) / NULLIF(SUM(total_portfolio_amount), 0)''),
      (''par_60_ratio_metric'',
       ''SUM(par_60_amount) / NULLIF(SUM(total_portfolio_amount), 0)''),
      (''par_90_ratio_metric'',
       ''SUM(par_90_amount) / NULLIF(SUM(total_portfolio_amount), 0)''),
      (''npa_ratio_metric'',
       ''SUM(npa_amount) / NULLIF(SUM(total_portfolio_amount), 0)'')]"

section \<open>The layout in closed form\<close>

text \<open>
  \<open>placeable\<close>: the charts are known, rows have distinct names that no other node has, and no
  chart is placed twice.
\<close>

definition placeable :: "chart_lookup \<Rightarrow> row_spec list \<Rightarrow> bool" where
  "placeable lk rows \<longleftrightarrow>
     list_all (\<lambda>name. lk name \<noteq> None) (concat (map rs_charts rows)) \<and>
     distinct (map rs_id rows) \<and>
     distinct (map (\<lambda>name. map_option cl_id (lk name)) (concat (map rs_charts rows))) \<and>
     list_all (\<lambda>r. rs_id r \<notin> {''ROOT_ID'', ''GRID_ID''} \<and> \<not> starts_with ''CHART-explore-'' (rs_id r)) rows"

definition row_layout :: "chart_lookup \<Rightarrow> row_spec \<Rightarrow> position" where
  "row_layout lk r =
     (rs_id r, row_node (rs_id r) (map (\<lambda>name. component_id (cl_id (the (lk name)))) (rs_charts r))) #
     map (\<lambda>name. (component_id (cl_id (the (lk name))), chart_node r name (the (lk name)))) (rs_charts r)"

definition layout_of :: "chart_lookup \<Rightarrow> row_spec list \<Rightarrow> position" where
  "layout_of lk rows =
     [(''ROOT_ID'', \<lparr>nd_id = ''ROOT_ID'', nd_type = ''ROOT'', nd_parents = None, nd_children = [''GRID_ID''], nd_meta = None\<rparr>),
      (''GRID_ID'', \<lparr>nd_id = ''GRID_ID'', nd_type = ''GRID'', nd_parents = Some [''ROOT_ID''], nd_children = map rs_id rows, nd_meta = None\<rparr>)] @
     concat (map (row_layout lk) rows)"

text \<open>
  \<open>layout_tree\<close>: the children a node names are nodes whose parents are the path to them, and every
  node but the root is a child of the last of its parents.
\<close>

definition node_path :: "node \<Rightarrow> string list" where
  "node_path n = (case nd_parents n of None \<Rightarrow> [] | Some ps \<Rightarrow> ps)"

definition layout_tree :: "position \<Rightarrow> bool" where
  "layout_tree pos \<longleftrightarrow>
     distinct (map fst pos) \<and>
     list_all (\<lambda>(k, n). nd_id n = k \<and> distinct (nd_children n) \<and>
       list_all (\<lambda>c. case map_of pos c of None \<Rightarrow> False | Some m \<Rightarrow> nd_parents m = Some (node_path n @ [k])) (nd_children n)) pos \<and>
     list_all (\<lambda>(k, n). if k = ''ROOT_ID'' then nd_parents n = None
       else node_path n \<noteq> [] \<and>
         (case map_of pos (last (node_path n)) of None \<Rightarrow> False | Some m \<Rightarrow> k \<in> set (nd_children m))) pos"

lemma update_fresh: "k \<notin> fst ` set al \<Longrightarrow> AList.update k v al = al @ [(k, v)]"
  by (induction al) auto

lemma component_id_inject [simp]: "component_id i = component_id j \<longleftrightarrow> i = j"
  by (simp add: component_id_def) (metis int_of_str_int_str option.inject)

lemma component_id_prefix [simp]: "starts_with ''CHART-explore-'' (component_id i)"
  unfolding component_id_def by (rule starts_with_append)

lemma component_id_names [simp]:
  "component_id i \<noteq> ''ROOT_ID''" "component_id i \<noteq> ''GRID_ID''"
  "''ROOT_ID'' \<noteq> component_id i" "''GRID_ID'' \<noteq> component_id i"
  by (simp_all add: component_id_def)

lemma place_charts_append:
  "list_all (\<lambda>name. lk name \<noteq> None) names \<Longrightarrow>
   distinct (map (\<lambda>name. cl_id (the (lk name))) names) \<Longrightarrow>
   (\<And>name. name \<in> set names \<Longrightarrow> component_id (cl_id (the (lk name))) \<notin> fst ` set pos) \<Longrightarrow>
   place_charts lk r names pos =
     Inr (pos @ map (\<lambda>name. (component_id (cl_id (the (lk name))), chart_node r name (the (lk name)))) names)"
proof (induction names arbitrary: pos)
  case (Cons name names)
  from Cons.prems(1) obtain c where c: "lk name = Some c" by auto
  have "component_id (cl_id c) \<notin> fst ` set pos" using Cons.prems(3)[of name] c by simp
  then have upd: "AList.update (component_id (cl_id c)) (chart_node r name c) pos =
      pos @ [(component_id (cl_id c), chart_node r name c)]" by (rule update_fresh)
  have "component_id (cl_id (the (lk n))) \<notin> fst ` set (pos @ [(component_id (cl_id c), chart_node r name c)])"
    if "n \<in> set names" for n
    using Cons.prems(2) Cons.prems(3)[of n] that c by (auto simp: image_iff)
  with Cons.IH[of "pos @ [(component_id (cl_id c), chart_node r name c)]"] Cons.prems(1,2) c upd
  show ?case by (simp add: lookup_chart_def)
qed simp

lemma keys_row_layout:
  "fst ` set (row_layout lk r) = insert (rs_id r) ((\<lambda>name. component_id (cl_id (the (lk name)))) ` set (rs_charts r))"
  by (simp add: row_layout_def image_image)

lemma keys_layout_of:
  "fst ` set (layout_of lk rows) =
     {''ROOT_ID'', ''GRID_ID''} \<union> rs_id ` set rows \<union>
     (\<Union>r \<in> set rows. (\<lambda>name. component_id (cl_id (the (lk name)))) ` set (rs_charts r))"
  by (auto simp: layout_of_def image_Un image_UN keys_row_layout)

lemma distinct_the_ids:
  assumes "list_all (\<lambda>name. lk name \<noteq> None) names"
  shows "distinct (map (\<lambda>name. map_option cl_id (lk name)) names) \<longleftrightarrow> distinct (map (\<lambda>name. cl_id (the (lk name))) names)"
proof -
  have "map (\<lambda>name. map_option cl_id (lk name)) names = map (Some \<circ> (\<lambda>name. cl_id (the (lk name)))) names"
    using assms by (auto simp: list_all_iff)
  then show ?thesis by (metis distinct_map inj_Some list.map_comp)
qed

text \<open>The keys of a row are new to the rows before it, and distinct.\<close>

lemma row_keys_fresh:
  assumes ok: "placeable lk (rows @ [r])"
  shows "rs_id r \<notin> fst ` set (layout_of lk rows)"
    and "name \<in> set (rs_charts r) \<Longrightarrow> component_id (cl_id (the (lk name))) \<notin> fst ` set (layout_of lk rows)"
    and "component_id i \<noteq> rs_id r"
    and "distinct (map (\<lambda>name. cl_id (the (lk name))) (rs_charts r))"
proof -
  from ok have known: "list_all (\<lambda>name. lk name \<noteq> None) (concat (map rs_charts (rows @ [r])))"
    and fresh: "rs_id r \<notin> rs_id ` set rows" "rs_id r \<notin> {''ROOT_ID'', ''GRID_ID''}"
      "\<not> starts_with ''CHART-explore-'' (rs_id r)"
    and rows: "\<And>q. q \<in> set rows \<Longrightarrow> \<not> starts_with ''CHART-explore-'' (rs_id q)"
    by (auto simp: placeable_def list_all_iff)
  from ok known have dist: "distinct (map (\<lambda>name. cl_id (the (lk name))) (concat (map rs_charts (rows @ [r]))))"
    unfolding placeable_def using distinct_the_ids by blast
  then show "distinct (map (\<lambda>name. cl_id (the (lk name))) (rs_charts r))" by simp
  have not_chart: "component_id i \<noteq> rs_id q" if "q = r \<or> q \<in> set rows" for i q
    using that fresh(3) rows component_id_prefix by metis
  then show "component_id i \<noteq> rs_id r" by simp
  show "rs_id r \<notin> fst ` set (layout_of lk rows)"
    using fresh not_chart by (auto simp: keys_layout_of)
  assume name: "name \<in> set (rs_charts r)"
  have "cl_id (the (lk name)) \<noteq> cl_id (the (lk n))" if "n \<in> set (rs_charts q)" "q \<in> set rows" for n q
    using that dist name by (fastforce simp: image_iff)
  then show "component_id (cl_id (the (lk name))) \<notin> fst ` set (layout_of lk rows)"
    using not_chart by (auto simp: keys_layout_of)
qed

lemma place_row_layout:
  assumes ok: "placeable lk (rows @ [r])"
  shows "place_row lk r (layout_of lk rows) = Inr (layout_of lk (rows @ [r]))"
proof -
  let ?ids = "map (\<lambda>name. component_id (cl_id (the (lk name)))) (rs_charts r)"
  let ?grown = "append_child ''GRID_ID'' (rs_id r) (layout_of lk rows)"
  from ok have known: "list_all (\<lambda>name. lk name \<noteq> None) (rs_charts r)"
    by (simp add: placeable_def)
  have ids: "rmap (\<lambda>name. rbind (lookup_chart lk name) (\<lambda>c. Inr (component_id (cl_id c)))) (rs_charts r) = Inr ?ids"
    using known by (intro rmap_all_Inr) (auto simp: list_all_iff lookup_chart_def)
  have keys: "fst ` set ?grown = fst ` set (layout_of lk rows)"
    by (simp add: append_child_def dom_map_entry)
  then have row: "AList.update (rs_id r) (row_node (rs_id r) ?ids) ?grown = ?grown @ [(rs_id r, row_node (rs_id r) ?ids)]"
    using row_keys_fresh(1)[OF ok] by (intro update_fresh) simp
  have "component_id (cl_id (the (lk name))) \<notin> fst ` set (?grown @ [(rs_id r, row_node (rs_id r) ?ids)])"
    if "name \<in> set (rs_charts r)" for name
    using that row_keys_fresh(2,3)[OF ok] keys by simp
  then have "place_charts lk r (rs_charts r) (?grown @ [(rs_id r, row_node (rs_id r) ?ids)]) =
      Inr ((?grown @ [(rs_id r, row_node (rs_id r) ?ids)]) @
        map (\<lambda>name. (component_id (cl_id (the (lk name))), chart_node r name (the (lk name)))) (rs_charts r))"
    using known row_keys_fresh(4)[OF ok] by (intro place_charts_append) simp_all
  then have "place_row lk r (layout_of lk rows) = Inr (?grown @ row_layout lk r)"
    by (simp add: place_row_def ids row row_layout_def)
  moreover have "?grown @ row_layout lk r = layout_of lk (rows @ [r])"
    by (simp add: append_child_def layout_of_def)
  ultimately show ?thesis by simp
qed

lemma placeable_prefix: "placeable lk (a @ b) \<Longrightarrow> placeable lk a"
  by (simp add: placeable_def)

lemma place_rows_layout:
  "placeable lk (done @ rows) \<Longrightarrow> place_rows lk rows (layout_of lk done) = Inr (layout_of lk (done @ rows))"
proof (induction rows arbitrary: "done")
  case (Cons r rows)
  then have "placeable lk ((done @ [r]) @ rows)" by simp
  then have "placeable lk (done @ [r])" by (rule placeable_prefix)
  then have "place_row lk r (layout_of lk done) = Inr (layout_of lk (done @ [r]))"
    by (rule place_row_layout)
  with Cons.IH[of "done @ [r]"] Cons.prems show ?case by simp
qed simp

lemma build_layout_placeable:
  assumes "placeable lk rows"
  shows "build_layout rows lk = Inr (position_text (layout_of lk rows))"
  using place_rows_layout[of lk "[]" rows] assms
  by (simp add: build_layout_def build_position_def layout_of_def initial_position_def)

lemma build_position_known:
  assumes "build_layout rows lk = Inr text" and "r \<in> set rows" and "name \<in> set (rs_charts r)"
  shows "lk name \<noteq> None"
proof -
  have one: "lk name \<noteq> None" if "place_row lk r pos = Inr pos'" "name \<in> set (rs_charts r)" for r pos pos'
  proof -
    from that(1) obtain ids where
      ids: "rmap (\<lambda>name. rbind (lookup_chart lk name) (\<lambda>c. Inr (component_id (cl_id c)))) (rs_charts r) = Inr ids"
      by (auto simp: place_row_def rbind_Inr_iff)
    from that(2) obtain i where "i < length (rs_charts r)" "rs_charts r ! i = name" by (auto simp: in_set_conv_nth)
    with rmap_Inr_nth[OF ids] show ?thesis
      by (force simp: rbind_Inr_iff lookup_chart_def split: option.splits)
  qed
  have "lk name \<noteq> None" if "place_rows lk rows pos = Inr pos'" "r \<in> set rows" for rows pos pos'
    using that assms(3) by (induction rows arbitrary: pos) (auto simp: rbind_Inr_iff dest: one)
  with assms(1,2) show ?thesis by (auto simp: build_layout_def build_position_def rbind_Inr_iff)
qed

lemma layout_of_snoc: "layout_of lk (rows @ [r]) =
    append_child ''GRID_ID'' (rs_id r) (layout_of lk rows) @ row_layout lk r"
  by (simp add: append_child_def layout_of_def)

lemma distinct_keys_layout:
  assumes "placeable lk rows"
  shows "distinct (map fst (layout_of lk rows))"
  using assms
proof (induction rows rule: rev_induct)
  case (snoc r rows)
  have own: "distinct (map fst (row_layout lk r))"
    using row_keys_fresh(3,4)[OF snoc.prems]
    by (auto simp: row_layout_def comp_def distinct_map inj_on_def) (metis row_keys_fresh(3)[OF snoc.prems])
  have "x \<notin> fst ` set (layout_of lk rows)" if "x \<in> fst ` set (row_layout lk r)" for x
    using that unfolding keys_row_layout
    by (elim insertE imageE) (simp_all only: row_keys_fresh(1,2)[OF snoc.prems] not_False_eq_True)
  then have apart: "fst ` set (layout_of lk rows) \<inter> fst ` set (row_layout lk r) = {}" by blast
  have "map fst (layout_of lk (rows @ [r])) = map fst (layout_of lk rows) @ map fst (row_layout lk r)"
    by (simp add: layout_of_def)
  then show ?case
    using own apart snoc.IH[OF placeable_prefix[OF snoc.prems]] by (metis distinct_append list.set_map)
qed (simp add: layout_of_def)

lemma layout_node:
  assumes "placeable lk rows" and "(k, n) \<in> set (layout_of lk rows)"
  shows "map_of (layout_of lk rows) k = Some n"
  using distinct_keys_layout[OF assms(1)] assms(2) by (rule map_of_is_SomeI)

lemma layout_of_cases:
  assumes "(k, n) \<in> set (layout_of lk rows)"
  obtains (root) "k = ''ROOT_ID''" "nd_parents n = None" "nd_children n = [''GRID_ID'']" "nd_id n = k"
  | (grid) "k = ''GRID_ID''" "nd_parents n = Some [''ROOT_ID'']" "nd_children n = map rs_id rows" "nd_id n = k"
  | (row) r where "r \<in> set rows" "k = rs_id r" "nd_parents n = Some [''ROOT_ID'', ''GRID_ID'']"
      "nd_children n = map (\<lambda>name. component_id (cl_id (the (lk name)))) (rs_charts r)" "nd_id n = k"
  | (chart) r name where "r \<in> set rows" "name \<in> set (rs_charts r)" "k = component_id (cl_id (the (lk name)))"
      "nd_parents n = Some [''ROOT_ID'', ''GRID_ID'', rs_id r]" "nd_children n = []" "nd_id n = k"
  using assms by (auto simp: layout_of_def row_layout_def row_node_def chart_node_def)

lemma layout_tree_layout_of:
  assumes ok: "placeable lk rows"
  shows "layout_tree (layout_of lk rows)"
proof -
  let ?pos = "layout_of lk rows"
  have root: "map_of ?pos ''ROOT_ID'' = Some \<lparr>nd_id = ''ROOT_ID'', nd_type = ''ROOT'', nd_parents = None,
      nd_children = [''GRID_ID''], nd_meta = None\<rparr>"
    and grid: "map_of ?pos ''GRID_ID'' = Some \<lparr>nd_id = ''GRID_ID'', nd_type = ''GRID'',
      nd_parents = Some [''ROOT_ID''], nd_children = map rs_id rows, nd_meta = None\<rparr>"
    by (simp_all add: layout_of_def)
  have row: "map_of ?pos (rs_id r) =
      Some (row_node (rs_id r) (map (\<lambda>name. component_id (cl_id (the (lk name)))) (rs_charts r)))"
    if "r \<in> set rows" for r
    using that by (intro layout_node ok) (auto simp: layout_of_def row_layout_def)
  have chart: "map_of ?pos (component_id (cl_id (the (lk name)))) = Some (chart_node r name (the (lk name)))"
    if "r \<in> set rows" "name \<in> set (rs_charts r)" for r name
    using that by (intro layout_node ok) (auto simp: layout_of_def row_layout_def)
  have dist: "distinct (map (\<lambda>name. component_id (cl_id (the (lk name)))) (rs_charts r))" if "r \<in> set rows" for r
  proof -
    from that obtain xs ys where "rows = (xs @ [r]) @ ys" by (metis append.assoc append_Cons append_Nil split_list)
    with ok have "placeable lk (xs @ [r])" by (metis placeable_prefix)
    from row_keys_fresh(4)[OF this] show ?thesis by (auto simp: distinct_map inj_on_def)
  qed
  have ids: "distinct (map rs_id rows)" and named: "\<And>r. r \<in> set rows \<Longrightarrow> rs_id r \<noteq> ''ROOT_ID''"
    using ok by (auto simp: placeable_def list_all_iff)
  have "nd_id n = k \<and> distinct (nd_children n) \<and>
      list_all (\<lambda>c. case map_of ?pos c of None \<Rightarrow> False | Some m \<Rightarrow> nd_parents m = Some (node_path n @ [k])) (nd_children n)"
    if "(k, n) \<in> set ?pos" for k n
    using that by (cases rule: layout_of_cases)
      (auto simp: list_all_iff node_path_def root grid row chart row_node_def chart_node_def ids dist)
  moreover have "if k = ''ROOT_ID'' then nd_parents n = None
       else node_path n \<noteq> [] \<and>
         (case map_of ?pos (last (node_path n)) of None \<Rightarrow> False | Some m \<Rightarrow> k \<in> set (nd_children m))"
    if "(k, n) \<in> set ?pos" for k n
    using that by (cases rule: layout_of_cases)
      (auto simp: node_path_def root grid row named row_node_def)
  ultimately show ?thesis
    unfolding layout_tree_def using distinct_keys_layout[OF ok] by (auto simp: list_all_iff)
qed

lemma wf_json_layout:
  assumes "placeable lk rows"
  shows "wf_json (JObj (map (\<lambda>(k, n). (k, node_json n)) (layout_of lk rows)))"
proof -
  have "wf_json (node_json n)" if "(k, n) \<in> set (layout_of lk rows)" for k n
    using that by (auto simp: layout_of_def row_layout_def row_node_def chart_node_def node_json_def list_all_iff)
  then show ?thesis
    using distinct_keys_layout[OF assms] by (fastforce simp: list_all_iff comp_def case_prod_unfold)
qed

text \<open>
  C31: For rows with their own names whose charts are known and placed once, \<open>build_layout\<close> prints
  the layout given in closed form, the text is read back as this layout, and the layout is a tree: every
  child a node names is a node whose parents are the path to it, and every node but the root is a child
  of the last of its parents.
\<close>

theorem build_layout_is_tree:
  assumes "placeable lk rows"
  shows "\<exists>txt. build_layout rows lk = Inr txt \<and> json_loads txt = Inr (JObj (map (\<lambda>(k, n). (k, node_json n)) (layout_of lk rows))) \<and>
    layout_tree (layout_of lk rows)"
  using json_roundtrip[OF wf_json_layout[OF assms]] build_layout_placeable[OF assms] layout_tree_layout_of[OF assms]
  by (simp add: position_text_def)

end
