(* ===== verification/Superset_Assets.thy ===== *)
theory Superset_Assets
  imports Asset_Specs
begin

text \<open>
  The charts and dashboards \<^verbatim>\<open>src/docker/superset/bootstrap_superset_assets.py\<close> describes: for each of
  its three dashboards the chart calls of \<^verbatim>\<open>create_..._assets\<close> in order, with the dataset each chart
  reads (all dates, or the latest ones) and its parameters, and the rows of the layout.  The
  titles and slugs are those of \<^verbatim>\<open>src/superset/dashboards\<close>.

  Shown: every column a chart names in a metric, a grouping, a filter or as its time column is a
  column the bootstrap declares for the dataset of the chart, and no chart name is used twice.
\<close>

record chart_spec =
  cs_name :: string
  cs_viz_type :: string
  cs_latest :: bool
  cs_params :: "(string \<times> json) list"

definition latest_chart :: "string \<Rightarrow> string \<Rightarrow> (string \<times> json) list \<Rightarrow> chart_spec" where
  "latest_chart n v p = \<lparr>cs_name = n, cs_viz_type = v, cs_latest = True, cs_params = p\<rparr>"

definition history_chart :: "string \<Rightarrow> string \<Rightarrow> (string \<times> json) list \<Rightarrow> chart_spec" where
  "history_chart n v p = \<lparr>cs_name = n, cs_viz_type = v, cs_latest = False, cs_params = p\<rparr>"

section \<open>The charts and rows of the dashboards\<close>

definition delinquency_charts :: "chart_spec list" where
  "delinquency_charts =
     [latest_chart ''PAR 30 KPI'' ''big_number_total''
       [(''metric'', adhoc_metric ''PAR 30 %'' ''(SUM(par_30_amount)*100)/NULLIF(SUM(total_portfolio_amount),0)''),
        (''metrics'', JArr
           [adhoc_metric ''PAR 30 %'' ''(SUM(par_30_amount)*100)/NULLIF(SUM(total_portfolio_amount),0)'']),
        (''adhoc_filters'', JArr [sql_filter ''bucket_key = -1'']),
        (''number_format'', JStr '',.2f%''),
        (''subheader'', JStr ''% of portfolio overdue > 30 days'')],
      latest_chart ''PAR 60 KPI'' ''big_number_total''
       [(''metric'', adhoc_metric ''PAR 60 %'' ''(SUM(par_60_amount)*100)/NULLIF(SUM(total_portfolio_amount),0)''),
        (''metrics'', JArr
           [adhoc_metric ''PAR 60 %'' ''(SUM(par_60_amount)*100)/NULLIF(SUM(total_portfolio_amount),0)'']),
        (''adhoc_filters'', JArr [sql_filter ''bucket_key = -1'']),
        (''number_format'', JStr '',.2f%''),
        (''subheader'', JStr ''% of portfolio overdue > 60 days'')],
      latest_chart ''PAR 90 KPI'' ''big_number_total''
       [(''metric'', adhoc_metric ''PAR 90 %'' ''(SUM(par_90_amount)*100)/NULLIF(SUM(total_portfolio_amount),0)''),
        (''metrics'', JArr
           [adhoc_metric ''PAR 90 %'' ''(SUM(par_90_amount)*100)/NULLIF(SUM(total_portfolio_amount),0)'']),
        (''adhoc_filters'', JArr [sql_filter ''bucket_key = -1'']),
        (''number_format'', JStr '',.2f%''),
        (''subheader'', JStr ''% of portfolio overdue > 90 days'')],
      latest_chart ''NPA Exposure KPI'' ''big_number_total''
       [(''metric'', adhoc_metric ''NPA Amount ($)'' ''SUM(npa_amount)''),
        (''metrics'', JArr [adhoc_metric ''NPA Amount ($)'' ''SUM(npa_amount)'']),
        (''adhoc_filters'', JArr [sql_filter ''bucket_key = -1'']),
        (''number_format'', JStr ''$,.0f''),
        (''subheader'', JStr ''Outstanding principal in non-performing loans'')],
      history_chart ''PAR Trend Line'' ''line''
       [(''granularity_sqla'', JStr ''snapshot_date''),
        (''time_grain_sqla'', JStr ''P1D''),
        (''metrics'', JArr
           [adhoc_metric ''PAR 30'' ''SUM(par_30_amount)/NULLIF(SUM(total_portfolio_amount),0)'',
            adhoc_metric ''PAR 60'' ''SUM(par_60_amount)/NULLIF(SUM(total_portfolio_amount),0)'',
            adhoc_metric ''PAR 90'' ''SUM(par_90_amount)/NULLIF(SUM(total_portfolio_amount),0)'']),
        (''adhoc_filters'', JArr [sql_filter ''bucket_key = -1'']),
        (''row_limit'', JInt 5000),
        (''y_axis_format'', JStr ''.1%''),
        (''x_axis_format'', JStr ''%b %Y''),
        (''zoomable'', JBool False),
        (''show_brush'', JStr ''no''),
        (''bottom_margin'', JInt 60)],
      history_chart ''At-Risk Outstanding Trend'' ''area''
       [(''granularity_sqla'', JStr ''snapshot_date''),
        (''time_grain_sqla'', JStr ''P1D''),
        (''metrics'', JArr
           [adhoc_metric ''PAR 30 Amt'' ''SUM(par_30_amount)'',
            adhoc_metric ''PAR 60 Amt'' ''SUM(par_60_amount)'',
            adhoc_metric ''PAR 90 Amt'' ''SUM(par_90_amount)'']),
        (''adhoc_filters'', JArr [sql_filter ''bucket_key = -1'']),
        (''row_limit'', JInt 5000),
        (''y_axis_format'', JStr ''$,.0f''),
        (''stacked_style'', JStr ''stack''),
        (''x_axis_format'', JStr ''%b %Y''),
        (''zoomable'', JBool False),
        (''bottom_margin'', JInt 60)],
      latest_chart ''Outstanding Principal by Delinquency Band'' ''dist_bar''
       [(''groupby'', JArr [JStr ''standard_par_band'']),
        (''metrics'', JArr [adhoc_metric ''Outstanding Principal'' ''SUM(bucket_outstanding_amount)'']),
        (''adhoc_filters'', JArr [sql_filter ''bucket_key != -1'']),
        (''y_axis_format'', JStr ''$,.0f''),
        (''bar_stacked'', JBool False),
        (''show_bar_value'', JBool True),
        (''rich_tooltip'', JBool True),
        (''order_bars'', JBool True),
        (''bottom_margin'', JInt 80),
        (''left_margin'', JInt 80)],
      latest_chart ''Loan Count by Delinquency Band'' ''dist_bar''
       [(''groupby'', JArr [JStr ''standard_par_band'']),
        (''metrics'', JArr [adhoc_metric ''Loan Count'' ''SUM(bucket_loan_count)'']),
        (''adhoc_filters'', JArr [sql_filter ''bucket_key != -1'']),
        (''y_axis_format'', JStr '',d''),
        (''bar_stacked'', JBool False),
        (''show_bar_value'', JBool True),
        (''rich_tooltip'', JBool True),
        (''order_bars'', JBool True),
        (''bottom_margin'', JInt 80),
        (''left_margin'', JInt 80)],
      latest_chart ''PAR by Branch'' ''dist_bar''
       [(''groupby'', JArr [JStr ''office_name'']),
        (''metrics'', JArr
           [adhoc_metric ''Watch-list'' ''SUM(watch_list_amount)/NULLIF(SUM(total_portfolio_amount),0)'',
            adhoc_metric ''PAR 30'' ''SUM(par_30_amount)/NULLIF(SUM(total_portfolio_amount),0)'',
            adhoc_metric ''PAR 60'' ''SUM(par_60_amount)/NULLIF(SUM(total_portfolio_amount),0)'',
            adhoc_metric ''PAR 90'' ''SUM(par_90_amount)/NULLIF(SUM(total_portfolio_amount),0)'']),
        (''adhoc_filters'', JArr [sql_filter ''bucket_key = -1'']),
        (''y_axis_format'', JStr ''.1%''),
        (''bottom_margin'', JInt 100),
        (''left_margin'', JInt 80),
        (''color_scheme'', JStr ''googleCategory10c'')],
      latest_chart ''PAR by Product'' ''dist_bar''
       [(''groupby'', JArr [JStr ''product_name'']),
        (''metrics'', JArr
           [adhoc_metric ''Watch-list'' ''SUM(watch_list_amount)/NULLIF(SUM(total_portfolio_amount),0)'',
            adhoc_metric ''PAR 30'' ''SUM(par_30_amount)/NULLIF(SUM(total_portfolio_amount),0)'',
            adhoc_metric ''PAR 60'' ''SUM(par_60_amount)/NULLIF(SUM(total_portfolio_amount),0)'',
            adhoc_metric ''PAR 90'' ''SUM(par_90_amount)/NULLIF(SUM(total_portfolio_amount),0)'']),
        (''color_scheme'', JStr ''googleCategory10c''),
        (''adhoc_filters'', JArr [sql_filter ''bucket_key = -1'']),
        (''y_axis_format'', JStr ''.1%''),
        (''bottom_margin'', JInt 150),
        (''left_margin'', JInt 80)],
      latest_chart ''PAR Summary Table'' ''table''
       [(''groupby'', JArr [JStr ''office_name'', JStr ''product_name'']),
        (''metrics'', JArr
           [adhoc_metric ''Outstanding Principal ($)'' ''SUM(total_portfolio_amount)'',
            adhoc_metric ''PAR 30 %'' ''(SUM(par_30_amount)*100)/NULLIF(SUM(total_portfolio_amount),0)'',
            adhoc_metric ''PAR 60 %'' ''(SUM(par_60_amount)*100)/NULLIF(SUM(total_portfolio_amount),0)'',
            adhoc_metric ''PAR 90 %'' ''(SUM(par_90_amount)*100)/NULLIF(SUM(total_portfolio_amount),0)'',
            adhoc_metric ''NPA Loans (#)'' ''SUM(npa_loan_count)'',
            adhoc_metric ''NPA Ratio %'' ''(SUM(npa_amount)*100)/NULLIF(SUM(total_portfolio_amount),0)'']),
        (''adhoc_filters'', JArr [sql_filter ''bucket_key = -1'']),
        (''table_timestamp_format'', JStr ''%Y-%m-%d'')]]"

definition delinquency_rows :: "row_spec list" where
  "delinquency_rows =
     [\<lparr>rs_id = ''ROW-KPIS'',
       rs_charts = [''PAR 30 KPI'', ''PAR 60 KPI'', ''PAR 90 KPI'', ''NPA Exposure KPI''],
       rs_default_width = Some 3, rs_default_height = Some 20,
       rs_chart_sizes = []\<rparr>,
      \<lparr>rs_id = ''ROW-TREND'',
       rs_charts = [''PAR Trend Line'', ''At-Risk Outstanding Trend''],
       rs_default_width = Some 6, rs_default_height = Some 42,
       rs_chart_sizes = []\<rparr>,
      \<lparr>rs_id = ''ROW-DIST'',
       rs_charts = [''Outstanding Principal by Delinquency Band'', ''Loan Count by Delinquency Band''],
       rs_default_width = Some 6, rs_default_height = Some 36,
       rs_chart_sizes = []\<rparr>,
      \<lparr>rs_id = ''ROW-BRANCH'',
       rs_charts = [''PAR by Branch'', ''PAR by Product''],
       rs_default_width = Some 6, rs_default_height = Some 42,
       rs_chart_sizes = []\<rparr>,
      \<lparr>rs_id = ''ROW-TABLE'',
       rs_charts = [''PAR Summary Table''],
       rs_default_width = Some 12, rs_default_height = Some 36,
       rs_chart_sizes = []\<rparr>]"

definition npa_ratio_expr :: string where
  "npa_ratio_expr = ''(SUM(npa_outstanding_amount)*100)/NULLIF(SUM(gross_loan_portfolio),0)''"

definition portfolio_charts :: "chart_spec list" where
  "portfolio_charts =
     [latest_chart ''Gross Loan Portfolio'' ''big_number_total''
       [(''metric'', adhoc_metric ''GLP'' ''SUM(gross_loan_portfolio)''),
        (''metrics'', JArr [adhoc_metric ''GLP'' ''SUM(gross_loan_portfolio)'']),
        (''number_format'', JStr ''$,.0f''),
        (''subheader'', JStr ''Active principal outstanding'')],
      latest_chart ''Active Loans'' ''big_number_total''
       [(''metric'', adhoc_metric ''Loans'' ''SUM(active_loan_count)''),
        (''metrics'', JArr [adhoc_metric ''Loans'' ''SUM(active_loan_count)'']),
        (''number_format'', JStr '',d''),
        (''subheader'', JStr ''Active loan accounts'')],
      latest_chart ''Active Borrowers'' ''big_number_total''
       [(''metric'', adhoc_metric ''Borrowers'' ''SUM(active_borrower_count)''),
        (''metrics'', JArr [adhoc_metric ''Borrowers'' ''SUM(active_borrower_count)'']),
        (''number_format'', JStr '',d''),
        (''subheader'', JStr ''Unique active borrowers'')],
      latest_chart ''NPA Ratio'' ''big_number_total''
       [(''metric'', adhoc_metric ''NPA Ratio %'' npa_ratio_expr),
        (''metrics'', JArr [adhoc_metric ''NPA Ratio %'' npa_ratio_expr]),
        (''number_format'', JStr '',.2f%''),
        (''subheader'', JStr ''Non-performing loans as % of total outstanding principal'')],
      latest_chart ''Average Loan Size'' ''big_number_total''
       [(''metric'', adhoc_metric ''Avg Loan Size ($)'' ''SUM(gross_loan_portfolio)/NULLIF(SUM(active_loan_count),0)''),
        (''metrics'', JArr
           [adhoc_metric ''Avg Loan Size ($)'' ''SUM(gross_loan_portfolio)/NULLIF(SUM(active_loan_count),0)'']),
        (''number_format'', JStr ''$,.0f''),
        (''subheader'', JStr ''Average outstanding principal per active loan'')],
      history_chart ''Portfolio Composition Trend'' ''area''
       [(''granularity_sqla'', JStr ''snapshot_date''),
        (''time_grain_sqla'', JStr ''P1D''),
        (''metrics'', JArr
           [adhoc_metric ''Performing'' ''SUM(performing_outstanding_amount)'',
            adhoc_metric ''At Risk'' ''SUM(par_outstanding_amount)'',
            adhoc_metric ''NPA'' ''SUM(npa_outstanding_amount)'']),
        (''row_limit'', JInt 5000),
        (''y_axis_format'', JStr ''$,.0f''),
        (''x_axis_format'', JStr ''%b %Y''),
        (''stacked_style'', JStr ''stack''),
        (''zoomable'', JBool False),
        (''bottom_margin'', JInt 60)],
      history_chart ''Portfolio Quality Trend'' ''line''
       [(''granularity_sqla'', JStr ''snapshot_date''),
        (''time_grain_sqla'', JStr ''P1D''),
        (''metrics'', JArr
           [adhoc_metric ''GLP'' ''SUM(gross_loan_portfolio)'',
            adhoc_metric ''Performing'' ''SUM(performing_outstanding_amount)'',
            adhoc_metric ''At Risk'' ''SUM(par_outstanding_amount)'']),
        (''row_limit'', JInt 5000),
        (''y_axis_format'', JStr ''$,.0f''),
        (''x_axis_format'', JStr ''%b %Y''),
        (''zoomable'', JBool False),
        (''show_brush'', JStr ''no''),
        (''bottom_margin'', JInt 60)],
      history_chart ''Active Borrowers & Loans Trend'' ''line''
       [(''granularity_sqla'', JStr ''snapshot_date''),
        (''time_grain_sqla'', JStr ''P1D''),
        (''metrics'', JArr
           [adhoc_metric ''Borrowers'' ''SUM(active_borrower_count)'',
            adhoc_metric ''Loans'' ''SUM(active_loan_count)'']),
        (''row_limit'', JInt 5000),
        (''y_axis_format'', JStr '',d''),
        (''x_axis_format'', JStr ''%b %Y''),
        (''zoomable'', JBool False),
        (''show_brush'', JStr ''no''),
        (''bottom_margin'', JInt 60)],
      history_chart ''Disbursement vs Collection Trend'' ''line''
       [(''granularity_sqla'', JStr ''snapshot_date''),
        (''time_grain_sqla'', JStr ''P1D''),
        (''metrics'', JArr
           [adhoc_metric ''Disbursed'' ''SUM(disbursed_amount_on_date)'',
            adhoc_metric ''Collected'' ''SUM(collected_amount_on_date)'']),
        (''row_limit'', JInt 5000),
        (''y_axis_format'', JStr ''$,.0f''),
        (''x_axis_format'', JStr ''%b %Y''),
        (''zoomable'', JBool False),
        (''show_brush'', JStr ''no''),
        (''bottom_margin'', JInt 60)],
      history_chart ''Net Portfolio Flow'' ''bar''
       [(''granularity_sqla'', JStr ''snapshot_date''),
        (''time_grain_sqla'', JStr ''P1D''),
        (''metrics'', JArr
           [adhoc_metric ''Net Flow'' ''SUM(disbursed_amount_on_date) - SUM(collected_amount_on_date)'']),
        (''row_limit'', JInt 5000),
        (''y_axis_format'', JStr ''$,.0f''),
        (''x_axis_format'', JStr ''%b %Y''),
        (''show_brush'', JBool False),
        (''bottom_margin'', JInt 60)],
      latest_chart ''Portfolio by Branch'' ''dist_bar''
       [(''groupby'', JArr [JStr ''office_name'']),
        (''metrics'', JArr
           [adhoc_metric ''GLP'' ''SUM(gross_loan_portfolio)'',
            adhoc_metric ''At Risk'' ''SUM(par_outstanding_amount)'',
            adhoc_metric ''NPA'' ''SUM(npa_outstanding_amount)'']),
        (''y_axis_format'', JStr ''$,.0f''),
        (''bottom_margin'', JInt 100),
        (''left_margin'', JInt 80)],
      latest_chart ''Portfolio by Product'' ''dist_bar''
       [(''groupby'', JArr [JStr ''product_name'']),
        (''metrics'', JArr
           [adhoc_metric ''GLP'' ''SUM(gross_loan_portfolio)'',
            adhoc_metric ''At Risk'' ''SUM(par_outstanding_amount)'',
            adhoc_metric ''NPA'' ''SUM(npa_outstanding_amount)'']),
        (''y_axis_format'', JStr ''$,.0f''),
        (''bottom_margin'', JInt 150),
        (''left_margin'', JInt 80)],
      latest_chart ''Portfolio Concentration by Branch'' ''pie''
       [(''groupby'', JArr [JStr ''office_name'']),
        (''metric'', adhoc_metric ''GLP'' ''SUM(gross_loan_portfolio)''),
        (''metrics'', JArr [adhoc_metric ''GLP'' ''SUM(gross_loan_portfolio)'']),
        (''number_format'', JStr ''$,.0f'')],
      latest_chart ''Portfolio Health Summary Table'' ''table''
       [(''groupby'', JArr [JStr ''office_name'', JStr ''product_name'']),
        (''metrics'', JArr
           [adhoc_metric ''Outstanding Principal ($)'' ''SUM(gross_loan_portfolio)'',
            adhoc_metric ''Active Loans (#)'' ''SUM(active_loan_count)'',
            adhoc_metric ''Active Borrowers (#)'' ''SUM(active_borrower_count)'',
            adhoc_metric ''Avg Loan Size ($)'' ''SUM(gross_loan_portfolio)/NULLIF(SUM(active_loan_count),0)'',
            adhoc_metric ''NPA Loans (#)'' ''SUM(npa_loan_count)'',
            adhoc_metric ''NPA Ratio %'' ''(SUM(npa_outstanding_amount)*100)/NULLIF(SUM(gross_loan_portfolio),0)'']),
        (''table_timestamp_format'', JStr ''%Y-%m-%d'')]]"

definition portfolio_rows :: "row_spec list" where
  "portfolio_rows =
     [\<lparr>rs_id = ''ROW-PH-KPIS'',
       rs_charts = [''Gross Loan Portfolio'', ''Active Loans'', ''Active Borrowers'', ''NPA Ratio'', ''Average Loan Size''],
       rs_default_width = Some 2, rs_default_height = Some 20,
       rs_chart_sizes = [(''Gross Loan Portfolio'', [(''width'', 4), (''height'', 20)])]\<rparr>,
      \<lparr>rs_id = ''ROW-PH-COMPOSITION'',
       rs_charts = [''Portfolio Composition Trend'', ''Portfolio Quality Trend''],
       rs_default_width = Some 6, rs_default_height = Some 42,
       rs_chart_sizes = []\<rparr>,
      \<lparr>rs_id = ''ROW-PH-FLOW'',
       rs_charts = [''Disbursement vs Collection Trend'', ''Net Portfolio Flow''],
       rs_default_width = Some 6, rs_default_height = Some 42,
       rs_chart_sizes = []\<rparr>,
      \<lparr>rs_id = ''ROW-PH-GROWTH'',
       rs_charts = [''Active Borrowers & Loans Trend'', ''Portfolio Concentration by Branch''],
       rs_default_width = Some 6, rs_default_height = Some 42,
       rs_chart_sizes = []\<rparr>,
      \<lparr>rs_id = ''ROW-PH-BREAKDOWN'',
       rs_charts = [''Portfolio by Branch'', ''Portfolio by Product''],
       rs_default_width = Some 6, rs_default_height = Some 42,
       rs_chart_sizes = []\<rparr>,
      \<lparr>rs_id = ''ROW-PH-TABLE'',
       rs_charts = [''Portfolio Health Summary Table''],
       rs_default_width = Some 12, rs_default_height = Some 40,
       rs_chart_sizes = []\<rparr>]"

definition eff_expr :: string where
  "eff_expr = ''SUM(actual_collected_amount)/NULLIF(SUM(contractually_due_amount),0)''"

definition repayment_charts :: "chart_spec list" where
  "repayment_charts =
     [latest_chart ''Collection Efficiency KPI'' ''big_number_total''
       [(''metric'', adhoc_metric ''Efficiency %'' (''('' @ eff_expr @ '')*100'')),
        (''metrics'', JArr [adhoc_metric ''Efficiency %'' (''('' @ eff_expr @ '')*100'')]),
        (''number_format'', JStr '',.2f''),
        (''subheader'', JStr ''% of due amount collected (principal + interest + fees + penalties)'')],
      latest_chart ''Collected Amount KPI'' ''big_number_total''
       [(''metric'', adhoc_metric ''Collected'' ''SUM(actual_collected_amount)''),
        (''metrics'', JArr [adhoc_metric ''Collected'' ''SUM(actual_collected_amount)'']),
        (''number_format'', JStr ''$,.0f''),
        (''subheader'', JStr ''Total cash collected (principal + interest + fees + penalties)'')],
      latest_chart ''Repayment Transactions KPI'' ''big_number_total''
       [(''metric'', adhoc_metric ''Txns'' ''SUM(repayment_transaction_count)''),
        (''metrics'', JArr [adhoc_metric ''Txns'' ''SUM(repayment_transaction_count)'']),
        (''number_format'', JStr '',d''),
        (''subheader'', JStr ''Total payment events (one borrower can have multiple)'')],
      latest_chart ''Repaying Borrowers KPI'' ''big_number_total''
       [(''metric'', adhoc_metric ''Borrowers'' ''COUNT(DISTINCT client_hash)''),
        (''metrics'', JArr [adhoc_metric ''Borrowers'' ''COUNT(DISTINCT client_hash)'']),
        (''number_format'', JStr '',d''),
        (''subheader'', JStr ''Unique clients who made a payment (not loan count)'')],
      history_chart ''Repayment Collection Trend'' ''line''
       [(''granularity_sqla'', JStr ''reporting_date''),
        (''time_grain_sqla'', JStr ''P1D''),
        (''metrics'', JArr
           [adhoc_metric ''Collected'' ''SUM(actual_collected_amount)'',
            adhoc_metric ''Due'' ''SUM(contractually_due_amount)'']),
        (''row_limit'', JInt 5000),
        (''y_axis_format'', JStr ''$,.0f''),
        (''zoomable'', JBool False),
        (''show_brush'', JStr ''no''),
        (''bottom_margin'', JInt 60)],
      history_chart ''Collection Efficiency Trend'' ''line''
       [(''granularity_sqla'', JStr ''reporting_date''),
        (''time_grain_sqla'', JStr ''P1D''),
        (''metrics'', JArr [adhoc_metric ''Efficiency %'' (''('' @ eff_expr @ '')*100'')]),
        (''row_limit'', JInt 5000),
        (''y_axis_format'', JStr '',.1f''),
        (''zoomable'', JBool False),
        (''show_brush'', JStr ''no''),
        (''bottom_margin'', JInt 60)],
      history_chart ''Repayment Component Breakdown'' ''area''
       [(''granularity_sqla'', JStr ''reporting_date''),
        (''time_grain_sqla'', JStr ''P1D''),
        (''metrics'', JArr
           [adhoc_metric ''Principal'' ''SUM(principal_collected)'',
            adhoc_metric ''Interest'' ''SUM(interest_collected)'',
            adhoc_metric ''Fees'' ''SUM(fee_collected)'',
            adhoc_metric ''Penalties'' ''SUM(penalty_collected)'']),
        (''row_limit'', JInt 5000),
        (''y_axis_format'', JStr ''$,.0f''),
        (''stacked_style'', JStr ''stack''),
        (''zoomable'', JBool False),
        (''bottom_margin'', JInt 60)],
      latest_chart ''Collection Mix'' ''pie''
       [(''groupby'', JArr [JStr ''office_name'']),
        (''metric'', adhoc_metric ''Collected'' ''SUM(actual_collected_amount)''),
        (''metrics'', JArr [adhoc_metric ''Collected'' ''SUM(actual_collected_amount)'']),
        (''number_format'', JStr ''$,.0f'')],
      latest_chart ''Collected Amount by Branch'' ''dist_bar''
       [(''groupby'', JArr [JStr ''office_name'']),
        (''metrics'', JArr
           [adhoc_metric ''Collected'' ''SUM(actual_collected_amount)'',
            adhoc_metric ''Due'' ''SUM(contractually_due_amount)'']),
        (''y_axis_format'', JStr ''$,.0f''),
        (''bottom_margin'', JInt 100),
        (''left_margin'', JInt 80)],
      latest_chart ''Collected Amount by Product'' ''dist_bar''
       [(''groupby'', JArr [JStr ''product_name'']),
        (''metrics'', JArr
           [adhoc_metric ''Collected'' ''SUM(actual_collected_amount)'',
            adhoc_metric ''Due'' ''SUM(contractually_due_amount)'']),
        (''y_axis_format'', JStr ''$,.0f''),
        (''bottom_margin'', JInt 150),
        (''left_margin'', JInt 80)],
      history_chart ''Payment Discipline Trend'' ''bar''
       [(''granularity_sqla'', JStr ''reporting_date''),
        (''time_grain_sqla'', JStr ''P1D''),
        (''metrics'', JArr
           [adhoc_metric ''Early'' ''SUM(early_payment_count)'',
            adhoc_metric ''On Time'' ''SUM(on_time_payment_count)'',
            adhoc_metric ''Late'' ''SUM(late_payment_count)'']),
        (''row_limit'', JInt 5000),
        (''y_axis_format'', JStr '',d''),
        (''x_axis_format'', JStr ''%b %Y''),
        (''bottom_margin'', JInt 60)],
      history_chart ''Waiver & Late Payment Trend'' ''line''
       [(''granularity_sqla'', JStr ''reporting_date''),
        (''time_grain_sqla'', JStr ''P1D''),
        (''metrics'', JArr
           [adhoc_metric ''Waived'' ''SUM(waived_amount)'',
            adhoc_metric ''Paid Late'' ''SUM(paid_late_amount)'',
            adhoc_metric ''Paid Early'' ''SUM(paid_in_advance_amount)'']),
        (''row_limit'', JInt 5000),
        (''y_axis_format'', JStr ''$,.0f''),
        (''x_axis_format'', JStr ''%b %Y''),
        (''zoomable'', JBool False),
        (''show_brush'', JStr ''no''),
        (''bottom_margin'', JInt 60)],
      latest_chart ''Collection Efficiency by Branch'' ''dist_bar''
       [(''groupby'', JArr [JStr ''office_name'']),
        (''metrics'', JArr [adhoc_metric ''Efficiency %'' (''('' @ eff_expr @ '')*100'')]),
        (''y_axis_format'', JStr ''.1f''),
        (''bottom_margin'', JInt 100),
        (''left_margin'', JInt 80),
        (''color_scheme'', JStr ''googleCategory10c'')],
      latest_chart ''Collection Efficiency by Product'' ''dist_bar''
       [(''groupby'', JArr [JStr ''product_name'']),
        (''metrics'', JArr [adhoc_metric ''Efficiency %'' (''('' @ eff_expr @ '')*100'')]),
        (''y_axis_format'', JStr ''.1f''),
        (''bottom_margin'', JInt 150),
        (''left_margin'', JInt 80),
        (''color_scheme'', JStr ''googleCategory10c'')],
      latest_chart ''Repayment Summary Table'' ''table''
       [(''groupby'', JArr [JStr ''office_name'', JStr ''product_name'']),
        (''metrics'', JArr
           [adhoc_metric ''Collected ($)'' ''SUM(actual_collected_amount)'',
            adhoc_metric ''Due ($)'' ''SUM(contractually_due_amount)'',
            adhoc_metric ''Efficiency %'' (''ROUND(('' @ eff_expr @ '')*100, 2)''),
            adhoc_metric ''Principal ($)'' ''SUM(principal_collected)'',
            adhoc_metric ''Interest ($)'' ''SUM(interest_collected)'',
            adhoc_metric ''Waived ($)'' ''SUM(waived_amount)'',
            adhoc_metric ''Penalty Charged ($)'' ''SUM(overdue_penalty_charged)'',
            adhoc_metric ''Restructured (#)'' ''SUM(restructured_installment_count)'',
            adhoc_metric ''Late Count (#)'' ''SUM(late_payment_count)'',
            adhoc_metric ''On-Time Count (#)'' ''SUM(on_time_payment_count)'',
            adhoc_metric ''Recovery ($)'' ''SUM(recovery_repayment_amount)'',
            adhoc_metric ''Txns (#)'' ''SUM(repayment_transaction_count)'']),
        (''table_timestamp_format'', JStr ''%Y-%m-%d'')]]"

definition repayment_rows :: "row_spec list" where
  "repayment_rows =
     [\<lparr>rs_id = ''ROW-RP-KPIS'',
       rs_charts = [''Collection Efficiency KPI'', ''Collected Amount KPI'', ''Repayment Transactions KPI'', ''Repaying Borrowers KPI''],
       rs_default_width = Some 3, rs_default_height = Some 20,
       rs_chart_sizes = []\<rparr>,
      \<lparr>rs_id = ''ROW-RP-TRENDS1'',
       rs_charts = [''Repayment Collection Trend'', ''Collection Efficiency Trend''],
       rs_default_width = Some 6, rs_default_height = Some 42,
       rs_chart_sizes = []\<rparr>,
      \<lparr>rs_id = ''ROW-RP-TRENDS2'',
       rs_charts = [''Repayment Component Breakdown'', ''Collection Mix''],
       rs_default_width = Some 6, rs_default_height = Some 42,
       rs_chart_sizes = []\<rparr>,
      \<lparr>rs_id = ''ROW-RP-BREAKDOWN'',
       rs_charts = [''Collected Amount by Branch'', ''Collected Amount by Product''],
       rs_default_width = Some 6, rs_default_height = Some 42,
       rs_chart_sizes = []\<rparr>,
      \<lparr>rs_id = ''ROW-RP-DISCIPLINE'',
       rs_charts = [''Payment Discipline Trend'', ''Waiver & Late Payment Trend''],
       rs_default_width = Some 6, rs_default_height = Some 42,
       rs_chart_sizes = []\<rparr>,
      \<lparr>rs_id = ''ROW-RP-EFFBRANCH'',
       rs_charts = [''Collection Efficiency by Branch'', ''Collection Efficiency by Product''],
       rs_default_width = Some 6, rs_default_height = Some 42,
       rs_chart_sizes = []\<rparr>,
      \<lparr>rs_id = ''ROW-RP-TABLE'',
       rs_charts = [''Repayment Summary Table''],
       rs_default_width = Some 12, rs_default_height = Some 40,
       rs_chart_sizes = []\<rparr>]"

text \<open>
  What one \<^verbatim>\<open>create_..._assets\<close> function passes on: its datasets, charts, dashboard file and rows.
\<close>

record asset_group =
  ag_all_dates :: string
  ag_latest :: string
  ag_main_dttm_col :: string
  ag_columns :: "column_def list"
  ag_metrics :: "(string \<times> string) list"
  ag_charts :: "chart_spec list"
  ag_meta_file :: string
  ag_rows :: "row_spec list"

definition delinquency_group :: asset_group where
  "delinquency_group =
     \<lparr>ag_all_dates = ''delinquency_par_secure_all_dates'', ag_latest = ''delinquency_par_secure_latest'',
      ag_main_dttm_col = ''snapshot_date'', ag_columns = delinquency_columns, ag_metrics = delinquency_metrics,
      ag_charts = delinquency_charts, ag_meta_file = ''delinquency_par_dashboard.json'', ag_rows = delinquency_rows\<rparr>"

definition portfolio_group :: asset_group where
  "portfolio_group =
     \<lparr>ag_all_dates = ''portfolio_health_secure_all_dates'', ag_latest = ''portfolio_health_secure_latest'',
      ag_main_dttm_col = ''snapshot_date'', ag_columns = portfolio_columns, ag_metrics = [],
      ag_charts = portfolio_charts, ag_meta_file = ''portfolio_health_dashboard.json'', ag_rows = portfolio_rows\<rparr>"

definition repayment_group :: asset_group where
  "repayment_group =
     \<lparr>ag_all_dates = ''repayment_behavior_secure_all_dates'', ag_latest = ''repayment_behavior_secure_latest'',
      ag_main_dttm_col = ''reporting_date'', ag_columns = repayment_columns, ag_metrics = [],
      ag_charts = repayment_charts, ag_meta_file = ''repayment_behavior_dashboard.json'', ag_rows = repayment_rows\<rparr>"

definition all_groups :: "asset_group list" where
  "all_groups = [delinquency_group, portfolio_group, repayment_group]"

text \<open>The \<^verbatim>\<open>dashboard_title\<close> and \<^verbatim>\<open>slug\<close> of the dashboard files.\<close>

definition dashboard_meta :: "string \<Rightarrow> (string \<times> string) result" where
  "dashboard_meta f =
     (if f = ''delinquency_par_dashboard.json'' then Inr (''Delinquency and PAR Dashboard'', ''delinquency-par-dashboard'')
      else if f = ''portfolio_health_dashboard.json'' then Inr (''Portfolio Health Dashboard'', ''portfolio-health-dashboard'')
      else if f = ''repayment_behavior_dashboard.json'' then Inr (''Repayment Behavior Dashboard'', ''repayment-behavior-dashboard'')
      else Inl (RuntimeError f))"

section \<open>Columns the charts name\<close>

definition word_char :: "char \<Rightarrow> bool" where
  "word_char c \<longleftrightarrow> is_alpha_char c \<or> is_digit_char c \<or> c = CHR ''_''"

text \<open>The maximal runs of word characters of an SQL expression.\<close>

fun sql_words :: "string \<Rightarrow> string \<Rightarrow> string list" where
  "sql_words acc [] = (if acc = [] then [] else [rev acc])"
| "sql_words acc (c # cs) =
     (if word_char c then sql_words (c # acc) cs
      else if acc = [] then sql_words [] cs else rev acc # sql_words [] cs)"

text \<open>In the expressions of the charts functions and keywords are written in capitals, columns in
  small letters.\<close>

definition sql_columns :: "string \<Rightarrow> string list" where
  "sql_columns s = filter (\<lambda>w. case w of [] \<Rightarrow> False | c # _ \<Rightarrow> is_lower_char c) (sql_words [] s)"

fun json_sql :: "json \<Rightarrow> string list" where
  "json_sql (JObj kvs) = concat (map (\<lambda>(k, v). if k = ''sqlExpression'' then (case v of JStr s \<Rightarrow> sql_columns s | _ \<Rightarrow> []) else []) kvs)"
| "json_sql _ = []"

fun param_columns :: "string \<times> json \<Rightarrow> string list" where
  "param_columns (k, JArr vs) =
     (if k \<in> {''metrics'', ''adhoc_filters''} then concat (map json_sql vs)
      else if k = ''groupby'' then concat (map (\<lambda>v. case v of JStr s \<Rightarrow> [s] | _ \<Rightarrow> []) vs) else [])"
| "param_columns (k, JStr s) = (if k = ''granularity_sqla'' then [s] else [])"
| "param_columns (k, v) = (if k = ''metric'' then json_sql v else [])"

definition chart_columns :: "chart_spec \<Rightarrow> string list" where
  "chart_columns c = concat (map param_columns (cs_params c))"

definition columns_resolve :: "asset_group \<Rightarrow> bool" where
  "columns_resolve g \<longleftrightarrow>
     (let names = map cd_name (ag_columns g);
          dates = map cd_name (filter cd_is_dttm (ag_columns g)) in
      ag_main_dttm_col g \<in> set dates \<and>
      list_all (\<lambda>m. list_all (\<lambda>w. w \<in> set names) (sql_columns (snd m))) (ag_metrics g) \<and>
      list_all (\<lambda>c. chart_columns c \<noteq> [] \<and> list_all (\<lambda>w. w \<in> set names) (chart_columns c)) (ag_charts g))"

lemma delinquency_columns_resolve: "columns_resolve delinquency_group"
  by code_simp

lemma portfolio_columns_resolve: "columns_resolve portfolio_group"
  by code_simp

lemma repayment_columns_resolve: "columns_resolve repayment_group"
  by code_simp

text \<open>The rows of a dashboard place each of its charts once and fill the twelve columns of the grid.\<close>

definition rows_complete :: "asset_group \<Rightarrow> bool" where
  "rows_complete g \<longleftrightarrow>
     (let placed = concat (map rs_charts (ag_rows g)); names = map cs_name (ag_charts g) in
      distinct names \<and> distinct placed \<and> length placed = length names \<and> list_all (\<lambda>n. n \<in> set names) placed \<and>
      list_all (\<lambda>r. sum_list (map (chart_width r) (rs_charts r)) = 12) (ag_rows g))"

lemma groups_rows_complete: "rows_complete delinquency_group" "rows_complete portfolio_group" "rows_complete repayment_group"
  by code_simp+

text \<open>
  The descriptions fit together: every column a chart or metric of a dashboard names is
  declared for its dataset, its time column is a date, no chart name is used twice, and the rows
  of the dashboard place each chart once and fill the twelve columns of the grid.
\<close>

theorem dashboards_well_described: "list_all (\<lambda>g. columns_resolve g \<and> rows_complete g) all_groups"
  by (simp add: all_groups_def delinquency_columns_resolve portfolio_columns_resolve repayment_columns_resolve groups_rows_complete)

end
