(* ===== verification/Superset_Bootstrap.thy ===== *)
theory Superset_Bootstrap
  imports Superset_Assets Secrets
begin

text \<open>
  \<^verbatim>\<open>src/docker/superset/bootstrap_superset_assets.py\<close>: creating or updating the database, datasets,
  charts and dashboards in the metadata of Superset.  The state is the committed content of the
  metadata tables the script touches; the columns and metrics of a dataset and the charts of a
  dashboard are lists of the row they belong to.  Every function of the script commits what it
  changed, so a computation that raises keeps the state of the last commit.  Parameters: the
  allocation of primary keys (\<open>fresh\<close>, which gives a key not in use), the user names of
  Superset, the tables of the warehouse, and the text of the dataset files.

  Also here: \<^verbatim>\<open>bootstrap_superset_security.py\<close>, whose user store is a parameter, and the settings
  of \<^verbatim>\<open>superset_config.py\<close>.
\<close>

section \<open>The metadata tables\<close>

record ss_database =
  db_id :: int
  db_name :: string
  db_uri :: string
  db_expose_in_sqllab :: bool
  db_allow_run_async :: bool
  db_allow_ctas :: bool
  db_allow_cvas :: bool

record ss_column =
  sc_name :: string
  sc_type :: string
  sc_is_dttm :: bool
  sc_expression :: "string option"
  sc_verbose_name :: string

record ss_dataset =
  ds_id :: int
  ds_database_id :: int
  ds_table_name :: string
  ds_sql :: string
  ds_schema :: "string option"
  ds_main_dttm_col :: string
  ds_owners :: "string list"
  ds_columns :: "ss_column list"
  ds_metrics :: "(string \<times> string) list"

record ss_chart =
  ch_id :: int
  ch_slice_name :: string
  ch_viz_type :: string
  ch_datasource_type :: string
  ch_datasource_id :: int
  ch_params :: string
  ch_query_context :: "string option"
  ch_owners :: "string list"
  ch_cache_timeout :: "int option"

record ss_dashboard =
  dh_id :: int
  dh_title :: string
  dh_slug :: string
  dh_published :: bool
  dh_owners :: "string list"
  dh_css :: string
  dh_json_metadata :: string
  dh_position_json :: string
  dh_slices :: "int list"

record superset =
  ss_databases :: "ss_database list"
  ss_datasets :: "ss_dataset list"
  ss_charts :: "ss_chart list"
  ss_dashboards :: "ss_dashboard list"

type_synonym 'a ssx = "(superset, 'a) sx"

section \<open>Finding or adding a row\<close>

definition one_or_none :: "'r list \<Rightarrow> 'r option result" where
  "one_or_none rows = (case rows of [] \<Rightarrow> Inr None | [r] \<Rightarrow> Inr (Some r)
     | _ \<Rightarrow> Inl (MultipleResultsFound ''Multiple rows were found when one or none was required''))"

text \<open>The rows a \<^verbatim>\<open>filter_by\<close> finds.\<close>

definition rows_at :: "('r \<Rightarrow> 'k) \<Rightarrow> 'k \<Rightarrow> 'r list \<Rightarrow> 'r list" where
  "rows_at key k rows = filter (\<lambda>r. key r = k) rows"

definition put_row :: "('r \<Rightarrow> int) \<Rightarrow> 'r \<Rightarrow> 'r list \<Rightarrow> 'r list" where
  "put_row rid r rows = map (\<lambda>x. if rid x = rid r then r else x) rows"

text \<open>
  The shape the \<^verbatim>\<open>ensure_...\<close> functions share: find the row by its name, add it when there is none,
  assign its fields otherwise.
\<close>

definition ensure_row :: "('r \<Rightarrow> 'k) \<Rightarrow> ('r \<Rightarrow> int) \<Rightarrow> (int list \<Rightarrow> int) \<Rightarrow> 'k \<Rightarrow> (int \<Rightarrow> 'r) \<Rightarrow> ('r \<Rightarrow> 'r) \<Rightarrow>
    'r list \<Rightarrow> ('r \<times> 'r list) result" where
  "ensure_row key rid fresh k mk upd rows =
     rbind (one_or_none (rows_at key k rows)) (\<lambda>found. case found of
       None \<Rightarrow> (let r = mk (fresh (map rid rows)) in Inr (r, rows @ [r]))
     | Some r \<Rightarrow> Inr (upd r, put_row rid (upd r) rows))"

definition on_table :: "('s \<Rightarrow> 'r list) \<Rightarrow> ('r list \<Rightarrow> 's \<Rightarrow> 's) \<Rightarrow> ('r list \<Rightarrow> ('x \<times> 'r list) result) \<Rightarrow> ('s, 'x) sx" where
  "on_table get put_rows f s = (case f (get s) of Inl e \<Rightarrow> (Inl e, s) | Inr (x, rows) \<Rightarrow> (Inr x, put_rows rows s))"

section \<open>The operations\<close>

definition mart_exists :: "(string \<times> string) list \<Rightarrow> string \<Rightarrow> bool" where
  "mart_exists tables t \<longleftrightarrow> list_ex (\<lambda>(schema, name). schema = ''analytics'' \<and> name = t) tables"

definition new_database :: "string \<Rightarrow> int \<Rightarrow> ss_database" where
  "new_database uri i = \<lparr>db_id = i, db_name = ''Analytics Warehouse'', db_uri = uri, db_expose_in_sqllab = True,
     db_allow_run_async = False, db_allow_ctas = False, db_allow_cvas = False\<rparr>"

definition set_database :: "string \<Rightarrow> ss_database \<Rightarrow> ss_database" where
  "set_database uri d = d\<lparr>db_uri := uri, db_expose_in_sqllab := True\<rparr>"

definition ensure_database :: "(int list \<Rightarrow> int) \<Rightarrow> string \<Rightarrow> ss_database ssx" where
  "ensure_database fresh uri =
     on_table ss_databases (\<lambda>rows. ss_databases_update (\<lambda>_. rows))
       (ensure_row db_name db_id fresh ''Analytics Warehouse'' (new_database uri) (set_database uri))"

definition table_column :: "column_def \<Rightarrow> ss_column" where
  "table_column c = \<lparr>sc_name = cd_name c, sc_type = cd_type c, sc_is_dttm = cd_is_dttm c, sc_expression = None,
     sc_verbose_name = cd_name c\<rparr>"

definition new_dataset :: "int \<Rightarrow> string \<Rightarrow> string \<Rightarrow> string \<Rightarrow> string \<Rightarrow> column_def list \<Rightarrow> (string \<times> string) list \<Rightarrow> int \<Rightarrow> ss_dataset" where
  "new_dataset database_id name sql owner dttm columns metrics i =
     \<lparr>ds_id = i, ds_database_id = database_id, ds_table_name = name, ds_sql = sql, ds_schema = None, ds_main_dttm_col = dttm,
      ds_owners = [owner], ds_columns = map table_column columns, ds_metrics = metrics\<rparr>"

definition set_dataset :: "string \<Rightarrow> string \<Rightarrow> string \<Rightarrow> column_def list \<Rightarrow> (string \<times> string) list \<Rightarrow> ss_dataset \<Rightarrow> ss_dataset" where
  "set_dataset sql owner dttm columns metrics d =
     d\<lparr>ds_sql := sql, ds_main_dttm_col := dttm, ds_owners := [owner], ds_columns := map table_column columns, ds_metrics := metrics\<rparr>"

definition ds_key :: "ss_dataset \<Rightarrow> int \<times> string" where
  "ds_key d = (ds_database_id d, ds_table_name d)"

definition ensure_dataset :: "(int list \<Rightarrow> int) \<Rightarrow> int \<Rightarrow> string \<Rightarrow> string \<Rightarrow> string \<Rightarrow> string \<Rightarrow> column_def list \<Rightarrow>
    (string \<times> string) list \<Rightarrow> ss_dataset ssx" where
  "ensure_dataset fresh database_id name sql owner dttm columns metrics =
     on_table ss_datasets (\<lambda>rows. ss_datasets_update (\<lambda>_. rows))
       (ensure_row ds_key ds_id fresh (database_id, name) (new_dataset database_id name sql owner dttm columns metrics)
          (set_dataset sql owner dttm columns metrics))"

definition full_params :: "int \<Rightarrow> string \<Rightarrow> (string \<times> json) list \<Rightarrow> string" where
  "full_params datasource_id viz params = json_dumps (JObj (dict_merge
     [(''datasource'', JStr (int_str datasource_id @ ''__table'')), (''viz_type'', JStr viz)] params))"

definition new_chart :: "string \<Rightarrow> string \<Rightarrow> int \<Rightarrow> (string \<times> json) list \<Rightarrow> string \<Rightarrow> int \<Rightarrow> ss_chart" where
  "new_chart name viz datasource_id params owner i =
     \<lparr>ch_id = i, ch_slice_name = name, ch_viz_type = viz, ch_datasource_type = ''table'', ch_datasource_id = datasource_id,
      ch_params = full_params datasource_id viz params, ch_query_context = None, ch_owners = [owner], ch_cache_timeout = None\<rparr>"

definition set_chart :: "string \<Rightarrow> int \<Rightarrow> (string \<times> json) list \<Rightarrow> string \<Rightarrow> ss_chart \<Rightarrow> ss_chart" where
  "set_chart viz datasource_id params owner c =
     c\<lparr>ch_viz_type := viz, ch_datasource_type := ''table'', ch_datasource_id := datasource_id,
       ch_params := full_params datasource_id viz params, ch_query_context := Some [], ch_owners := [owner]\<rparr>"

definition ensure_chart :: "(int list \<Rightarrow> int) \<Rightarrow> string \<Rightarrow> string \<Rightarrow> int \<Rightarrow> (string \<times> json) list \<Rightarrow> string \<Rightarrow> ss_chart ssx" where
  "ensure_chart fresh name viz datasource_id params owner =
     on_table ss_charts (\<lambda>rows. ss_charts_update (\<lambda>_. rows))
       (ensure_row ch_slice_name ch_id fresh name (new_chart name viz datasource_id params owner)
          (set_chart viz datasource_id params owner))"

definition new_dashboard :: "string \<Rightarrow> string \<Rightarrow> string \<Rightarrow> int \<Rightarrow> ss_dashboard" where
  "new_dashboard title slug owner i =
     \<lparr>dh_id = i, dh_title = title, dh_slug = slug, dh_published = True, dh_owners = [owner], dh_css = [],
      dh_json_metadata = json_dumps (JObj [(''timed_refresh_immune_slices'', JArr []), (''expanded_slices'', JObj [])]),
      dh_position_json = ''{}'', dh_slices = []\<rparr>"

definition set_dashboard :: "string \<Rightarrow> string \<Rightarrow> int list \<Rightarrow> ss_dashboard \<Rightarrow> ss_dashboard" where
  "set_dashboard owner position_json slices h =
     h\<lparr>dh_owners := [owner], dh_published := True, dh_position_json := position_json, dh_slices := slices\<rparr>"

definition lookup_of :: "ss_chart list \<Rightarrow> chart_lookup" where
  "lookup_of charts = map_of (rev (map (\<lambda>c. (ch_slice_name c, \<lparr>cl_id = ch_id c, cl_slice_name = ch_slice_name c\<rparr>)) charts))"

definition ensure_dashboard :: "(int list \<Rightarrow> int) \<Rightarrow> string \<Rightarrow> string \<Rightarrow> ss_chart list \<Rightarrow> row_spec list \<Rightarrow> ss_dashboard ssx" where
  "ensure_dashboard fresh meta_filename owner charts row_specs =
     sbind (slift (dashboard_meta meta_filename)) (\<lambda>(title, slug).
     sbind (on_table ss_dashboards (\<lambda>rows. ss_dashboards_update (\<lambda>_. rows))
              (ensure_row dh_title dh_id fresh title (new_dashboard title slug owner) (\<lambda>h. h))) (\<lambda>h.
     sbind (slift (build_layout row_specs (lookup_of charts))) (\<lambda>position_json.
     let h' = set_dashboard owner position_json (map ch_id charts) h in
     sseq (sput (\<lambda>s. s\<lparr>ss_dashboards := put_row dh_id h' (ss_dashboards s)\<rparr>)) (sret h'))))"

definition untitled_dashboard :: string where
  "untitled_dashboard = ''[ untitled dashboard ]''"

definition cleanup_empty_default_dashboards :: "unit ssx" where
  "cleanup_empty_default_dashboards =
     sput (\<lambda>s. s\<lparr>ss_dashboards := filter (\<lambda>h. \<not> (dh_title h = untitled_dashboard \<and> dh_slices h = [])) (ss_dashboards s)\<rparr>)"

text \<open>The body the three \<^verbatim>\<open>create_..._assets\<close> functions share.\<close>

definition create_assets :: "(int list \<Rightarrow> int) \<Rightarrow> (string \<Rightarrow> string result) \<Rightarrow> asset_group \<Rightarrow> string \<Rightarrow> int \<Rightarrow> unit ssx" where
  "create_assets fresh read_text g owner database_id =
     sbind (slift (read_text (ag_all_dates g @ ''.sql''))) (\<lambda>all_sql.
     sbind (ensure_dataset fresh database_id (ag_all_dates g) all_sql owner (ag_main_dttm_col g) (ag_columns g) (ag_metrics g)) (\<lambda>all_ds.
     sbind (slift (read_text (ag_latest g @ ''.sql''))) (\<lambda>lat_sql.
     sbind (ensure_dataset fresh database_id (ag_latest g) lat_sql owner (ag_main_dttm_col g) (ag_columns g) (ag_metrics g)) (\<lambda>lat_ds.
     sbind (sfor (ag_charts g) (\<lambda>c. ensure_chart fresh (cs_name c) (cs_viz_type c)
              (ds_id (if cs_latest c then lat_ds else all_ds)) (cs_params c) owner)) (\<lambda>charts.
     sbind (ensure_dashboard fresh (ag_meta_file g) owner charts (ag_rows g)) (\<lambda>_. sret ()))))))"

definition create_delinquency_assets :: "(int list \<Rightarrow> int) \<Rightarrow> (string \<Rightarrow> string result) \<Rightarrow> string \<Rightarrow> int \<Rightarrow> unit ssx" where
  "create_delinquency_assets fresh read_text = create_assets fresh read_text delinquency_group"

definition create_portfolio_assets :: "(int list \<Rightarrow> int) \<Rightarrow> (string \<Rightarrow> string result) \<Rightarrow> string \<Rightarrow> int \<Rightarrow> unit ssx" where
  "create_portfolio_assets fresh read_text = create_assets fresh read_text portfolio_group"

definition create_repayment_assets :: "(int list \<Rightarrow> int) \<Rightarrow> (string \<Rightarrow> string result) \<Rightarrow> string \<Rightarrow> int \<Rightarrow> unit ssx" where
  "create_repayment_assets fresh read_text = create_assets fresh read_text repayment_group"

definition bootstrap_assets :: "(int list \<Rightarrow> int) \<Rightarrow> os_env \<Rightarrow> string list \<Rightarrow> (string \<times> string) list \<Rightarrow>
    (string \<Rightarrow> string result) \<Rightarrow> unit ssx" where
  "bootstrap_assets fresh env users tables read_text =
     (let admin = getenv env ''SUPERSET_ADMIN_USERNAME'' ''admin'' in
      if admin \<notin> set users
      then sraise (RuntimeError ''Superset admin user not found. Run 'superset init' first.'')
      else case e_vars env ''SUPERSET_WAREHOUSE_URI'' of
        None \<Rightarrow> sraise (KeyError ''SUPERSET_WAREHOUSE_URI'')
      | Some uri \<Rightarrow>
          sbind (ensure_database fresh uri) (\<lambda>database.
          sseq (create_delinquency_assets fresh read_text admin (db_id database))
         (sseq (swhen (mart_exists tables ''mart_portfolio_health'')
                  (create_portfolio_assets fresh read_text admin (db_id database)))
         (sseq (swhen (mart_exists tables ''mart_repayment_behavior'')
                  (create_repayment_assets fresh read_text admin (db_id database)))
                cleanup_empty_default_dashboards))))"

section \<open>Users\<close>

text \<open>
  \<^verbatim>\<open>bootstrap_superset_security.py\<close>.  The security manager is a parameter over its own state.
\<close>

record branch_user =
  bu_username :: string
  bu_firstname :: string
  bu_lastname :: string
  bu_email :: string
  bu_password_env :: string
  bu_role :: string

definition branch_users :: "branch_user list" where
  "branch_users =
     [\<lparr>bu_username = ''north_manager'', bu_firstname = ''North'', bu_lastname = ''Manager'',
       bu_email = ''north_manager@example.com'', bu_password_env = ''SUPERSET_NORTH_MANAGER_PASSWORD'', bu_role = ''Gamma''\<rparr>,
      \<lparr>bu_username = ''south_manager'', bu_firstname = ''South'', bu_lastname = ''Manager'',
       bu_email = ''south_manager@example.com'', bu_password_env = ''SUPERSET_SOUTH_MANAGER_PASSWORD'', bu_role = ''Gamma''\<rparr>]"

record new_user =
  nu_username :: string
  nu_first_name :: string
  nu_last_name :: string
  nu_email :: string
  nu_role :: "string option"
  nu_password :: string

record 'w security_manager =
  sm_find_user :: "'w \<Rightarrow> string \<Rightarrow> bool"
  sm_find_role :: "'w \<Rightarrow> string \<Rightarrow> string option"
  sm_add_user :: "new_user \<Rightarrow> 'w \<Rightarrow> 'w"

definition ensure_user :: "'w security_manager \<Rightarrow> os_env \<Rightarrow> branch_user \<Rightarrow> ('w, unit) sx" where
  "ensure_user sm env u =
     sbind (sget (\<lambda>w. sm_find_user sm w (bu_username u))) (\<lambda>found.
     if found then sret ()
     else case e_vars env (bu_password_env u) of
       None \<Rightarrow> sraise (RuntimeError (''Required environment variable '' @ [CHR 0x27] @ bu_password_env u @ [CHR 0x27] @ '' is not set.''))
     | Some password \<Rightarrow>
         if password = [] then sraise (RuntimeError (''Required environment variable '' @ [CHR 0x27] @ bu_password_env u @ [CHR 0x27] @ '' is not set.''))
         else sput (\<lambda>w. sm_add_user sm \<lparr>nu_username = bu_username u, nu_first_name = bu_firstname u,
                nu_last_name = bu_lastname u, nu_email = bu_email u, nu_role = sm_find_role sm w (bu_role u),
                nu_password = password\<rparr> w))"

definition bootstrap_users :: "'w security_manager \<Rightarrow> os_env \<Rightarrow> ('w, unit) sx" where
  "bootstrap_users sm env = sbind (sfor branch_users (ensure_user sm env)) (\<lambda>_. sret ())"

lemma ensure_user_existing: "sm_find_user sm w (bu_username u) \<Longrightarrow> ensure_user sm env u w = (Inr (), w)"
  by (simp add: ensure_user_def sbind_def sget_run sret_run)

text \<open>
  With a store in which an added user is found, and found users stay, a run that returns has
  both branch managers, and the next run adds nobody, whatever the passwords are by then.
\<close>

lemma bootstrap_users_once:
  assumes "\<And>u w n. sm_find_user sm (sm_add_user sm u w) n \<longleftrightarrow> n = nu_username u \<or> sm_find_user sm w n"
    and "bootstrap_users sm env w = (Inr (), w')"
  shows "list_all (\<lambda>u. sm_find_user sm w' (bu_username u)) branch_users \<and> bootstrap_users sm env' w' = (Inr (), w')"
proof -
  have step: "sm_find_user sm w2 (bu_username u) \<and> (\<forall>n. sm_find_user sm w1 n \<longrightarrow> sm_find_user sm w2 n)"
    if "ensure_user sm env u w1 = (Inr (), w2)" for u w1 w2
    using that by (auto simp: ensure_user_def sbind_def sget_run sret_run sput_run sraise_run assms(1) split: if_splits option.splits)
  obtain n t where users: "branch_users = [n, t]" by (simp add: branch_users_def)
  from assms(2) obtain w1 where "ensure_user sm env n w = (Inr (), w1)" "ensure_user sm env t w1 = (Inr (), w')"
    unfolding bootstrap_users_def users by (auto simp: sx_simps elim!: sbind_InrE)
  then have "sm_find_user sm w' (bu_username n)" "sm_find_user sm w' (bu_username t)" using step by blast+
  then show ?thesis
    unfolding bootstrap_users_def users by (simp add: sbind_def sret_run ensure_user_existing)
qed

section \<open>Settings\<close>

text \<open>\<^verbatim>\<open>superset_config.py\<close>: required settings, and the cache behind four prefixes.\<close>

definition require_env_var :: "os_env \<Rightarrow> string \<Rightarrow> string result" where
  "require_env_var env name = (case e_vars env name of
     None \<Rightarrow> Inl (RuntimeError (''Required environment variable '' @ [CHR 0x27] @ name @ [CHR 0x27] @ '' is not set.''))
   | Some v \<Rightarrow> guard (v \<noteq> []) (RuntimeError (''Required environment variable '' @ [CHR 0x27] @ name @ [CHR 0x27] @ '' is not set.'')) (Inr v))"

record cache_config =
  cc_type :: string
  cc_timeout :: int
  cc_redis_url :: "string option"
  cc_key_prefix :: string

record superset_config =
  sg_metadata_uri :: string
  sg_secret_key :: string
  sg_row_limit :: int
  sg_caches :: "cache_config list"

definition config_int :: "os_env \<Rightarrow> string \<Rightarrow> string \<Rightarrow> int result" where
  "config_int env name d = (case int_of_str (getenv env name d) of
     None \<Rightarrow> Inl (ValueError (''invalid literal for int() with base 10: '' @ getenv env name d)) | Some i \<Rightarrow> Inr i)"

definition cache_with :: "string \<Rightarrow> int \<Rightarrow> string \<Rightarrow> cache_config" where
  "cache_with redis_url timeout prefix =
     (if redis_url \<noteq> [] then \<lparr>cc_type = ''RedisCache'', cc_timeout = timeout, cc_redis_url = Some redis_url, cc_key_prefix = prefix\<rparr>
      else \<lparr>cc_type = ''SimpleCache'', cc_timeout = timeout, cc_redis_url = None, cc_key_prefix = prefix\<rparr>)"

definition superset_settings :: "os_env \<Rightarrow> superset_config result" where
  "superset_settings env =
     rbind (require_env_var env ''SUPERSET_METADATA_URI'') (\<lambda>uri.
     rbind (require_env_var env ''SUPERSET_SECRET_KEY'') (\<lambda>secret.
     rbind (config_int env ''SUPERSET_ROW_LIMIT'' ''5000'') (\<lambda>row_limit.
     rbind (config_int env ''SUPERSET_CACHE_DEFAULT_TIMEOUT'' ''300'') (\<lambda>timeout.
     let redis_url = getenv env ''SUPERSET_CACHE_REDIS_URL'' [] in
     Inr \<lparr>sg_metadata_uri = uri, sg_secret_key = secret, sg_row_limit = row_limit,
          sg_caches = map (cache_with redis_url timeout) [''fbi_cache_'', ''fbi_data_'', ''fbi_filter_'', ''fbi_explore_'']\<rparr>))))"

text \<open>The four caches never share a key: they have one backend and four prefixes, none a prefix of another.\<close>

lemma cache_prefixes_apart:
  assumes "superset_settings env = Inr c" and "x \<in> set (sg_caches c)" and "y \<in> set (sg_caches c)" and "cc_key_prefix x \<noteq> cc_key_prefix y"
  shows "cc_key_prefix x @ k \<noteq> cc_key_prefix y @ k'"
  using assms by (auto simp: superset_settings_def rbind_Inr_iff Let_def cache_with_def split: if_splits)

end
