(* ===== verification/Superset_Install.thy ===== *)
theory Superset_Install
  imports Superset_Bootstrap
begin

text \<open>
  What a run of \<open>bootstrap_assets\<close> leaves behind.  The locale \<open>named_rows\<close> states what the
  \<^verbatim>\<open>ensure_...\<close> functions rely on (the row they add has the name it was looked up by, the fields they
  assign are neither its name nor its key) and gives the laws of \<open>ensure_row\<close>; it is interpreted on
  the databases, datasets, charts and dashboards of the model.

  Shown: a run that returns leaves every asset of the dashboards it covers as described, each
  dashboard with its charts in a layout that is a tree; the next run succeeds and the one after
  changes nothing; assets with other names stay as they were, except dashboards without a title
  and without charts, which are deleted.
\<close>

section \<open>Rows with a name and a primary key\<close>

definition fresh_ok :: "(int list \<Rightarrow> int) \<Rightarrow> bool" where
  "fresh_ok fresh \<longleftrightarrow> (\<forall>ids. fresh ids \<notin> set ids)"

lemma put_row_absent: "rid r \<notin> rid ` set rows \<Longrightarrow> put_row rid r rows = rows"
  unfolding put_row_def by (rule map_idI) (metis image_eqI)

text \<open>A primary key names one row.\<close>

lemma same_row:
  assumes "distinct (map rid rows)" and "x \<in> set rows" and "y \<in> set rows" and "rid x = rid y"
  shows "x = y"
  using assms by (simp add: distinct_map inj_on_def)

lemma put_row_same:
  assumes "distinct (map rid rows)" and "r \<in> set rows"
  shows "put_row rid r rows = rows"
  unfolding put_row_def using assms by (intro map_idI) (metis same_row)

lemma map_rid_put_row: "map rid (put_row rid r rows) = map rid rows"
  by (simp add: put_row_def)

lemma rows_at_put_row:
  assumes "distinct (map rid rows)" and "r \<in> set rows" and "rid r' = rid r" and "key r' = key r"
  shows "rows_at key k (put_row rid r' rows) = put_row rid r' (rows_at key k rows)"
proof -
  have "key (if rid x = rid r' then r' else x) = key x" if "x \<in> set rows" for x
    using same_row[OF assms(1) that assms(2)] assms(3,4) by auto
  then have "filter (\<lambda>x. key (if rid x = rid r' then r' else x) = k) rows = filter (\<lambda>x. key x = k) rows"
    by (intro filter_cong) auto
  then show ?thesis by (simp add: rows_at_def put_row_def filter_map comp_def)
qed

lemma in_rows_at: "r \<in> set (rows_at key k rows) \<longleftrightarrow> r \<in> set rows \<and> key r = k"
  by (auto simp: rows_at_def)

lemma rows_at_single: "rows_at key k rows = [r] \<Longrightarrow> r \<in> set rows \<and> key r = k"
  using in_rows_at[of r key k rows] by simp

lemma put_row_other:
  assumes "distinct (map rid rows)" and "r \<in> set rows" and "rid r' = rid r" and "key r' = key r"
  shows "rows_at key k (put_row rid r' rows) = (if k = key r then put_row rid r' (rows_at key k rows) else rows_at key k rows)"
proof -
  have "rid r' \<notin> rid ` set (rows_at key k rows)" if "k \<noteq> key r"
    using that same_row[OF assms(1) _ assms(2)] assms(3) by (auto simp: in_rows_at)
  then show ?thesis using rows_at_put_row[OF assms, of k] by (simp add: put_row_absent)
qed

lemma one_or_none_Inr:
  "one_or_none rows = Inr found \<longleftrightarrow> (rows = [] \<and> found = None \<or> (\<exists>r. rows = [r] \<and> found = Some r))"
  by (auto simp: one_or_none_def split: list.splits)

locale named_rows =
  fixes key :: "'r \<Rightarrow> 'k" and rid :: "'r \<Rightarrow> int" and k :: 'k and mk :: "int \<Rightarrow> 'r" and upd :: "'r \<Rightarrow> 'r"
  assumes key_mk: "key (mk i) = k" and rid_mk: "rid (mk i) = i"
    and key_upd: "key (upd r) = key r" and rid_upd: "rid (upd r) = rid r"
begin

lemma ensure_Inr:
  assumes "ensure_row key rid fresh k mk upd rows = Inr (r, rows')"
  obtains (added) "rows_at key k rows = []" "r = mk (fresh (map rid rows))" "rows' = rows @ [r]"
  | (updated) old where "rows_at key k rows = [old]" "r = upd old" "rows' = put_row rid r rows"
  using assms
  by (auto simp: ensure_row_def rbind_Inr_iff one_or_none_Inr Let_def split: option.splits)

lemma ensure_total:
  assumes "length (rows_at key k rows) \<le> 1"
  shows "\<exists>r rows'. ensure_row key rid fresh k mk upd rows = Inr (r, rows')"
proof (cases "rows_at key k rows")
  case Nil
  then show ?thesis by (simp add: ensure_row_def one_or_none_def Let_def)
next
  case (Cons r rs)
  with assms show ?thesis by (simp add: ensure_row_def one_or_none_def)
qed

lemma ensure_at:
  assumes "ensure_row key rid fresh k mk upd rows = Inr (r, rows')" and "distinct (map rid rows)"
  shows "rows_at key k rows' = [r]"
  using assms(1)
proof (cases rule: ensure_Inr)
  case added
  then show ?thesis by (simp add: rows_at_def key_mk)
next
  case (updated old)
  then have "old \<in> set rows" "key old = k" using rows_at_single by fastforce+
  with updated assms(2) show ?thesis
    by (simp add: put_row_other[of rid rows old] key_upd rid_upd) (simp add: put_row_def rid_upd)
qed

lemma ensure_other:
  assumes "ensure_row key rid fresh k mk upd rows = Inr (r, rows')" and "distinct (map rid rows)" and "j \<noteq> k"
  shows "rows_at key j rows' = rows_at key j rows"
  using assms(1)
proof (cases rule: ensure_Inr)
  case added
  then show ?thesis using assms(3) by (simp add: rows_at_def key_mk)
next
  case (updated old)
  then have "old \<in> set rows" "key old = k" using rows_at_single by fastforce+
  with updated assms(2,3) show ?thesis by (simp add: put_row_other[of rid rows old] key_upd rid_upd)
qed

lemma ensure_distinct:
  assumes "ensure_row key rid fresh k mk upd rows = Inr (r, rows')" and "distinct (map rid rows)" and "fresh_ok fresh"
  shows "distinct (map rid rows')"
  using assms(1)
proof (cases rule: ensure_Inr)
  case added
  then show ?thesis using assms(2,3) by (simp add: fresh_ok_def rid_mk) (metis list.set_map)
next
  case (updated old)
  then show ?thesis using assms(2) by (simp only: map_rid_put_row)
qed

lemma ensure_fixed:
  assumes "rows_at key k rows = [r]" and "upd r = r" and "distinct (map rid rows)"
  shows "ensure_row key rid fresh k mk upd rows = Inr (r, rows)"
  using assms rows_at_single[OF assms(1)]
  by (simp add: ensure_row_def one_or_none_def put_row_same)

end

interpretation database_rows: named_rows db_name db_id "''Analytics Warehouse''" "new_database uri" "set_database uri"
  for uri
  by unfold_locales (simp_all add: new_database_def set_database_def)

interpretation dataset_rows: named_rows ds_key ds_id "(database_id, name)"
    "new_dataset database_id name sql owner dttm columns metrics" "set_dataset sql owner dttm columns metrics"
  for database_id name sql owner dttm columns metrics
  by unfold_locales (simp_all add: new_dataset_def set_dataset_def ds_key_def)

interpretation chart_rows: named_rows ch_slice_name ch_id name
    "new_chart name viz datasource_id params owner" "set_chart viz datasource_id params owner"
  for name viz datasource_id params owner
  by unfold_locales (simp_all add: new_chart_def set_chart_def)

interpretation dashboard_rows: named_rows dh_title dh_id title "new_dashboard title slug owner" "\<lambda>h. h"
  for title slug owner
  by unfold_locales (simp_all add: new_dashboard_def)

section \<open>The tables of the metadata\<close>

definition wf_superset :: "superset \<Rightarrow> bool" where
  "wf_superset s \<longleftrightarrow> distinct (map db_id (ss_databases s)) \<and> distinct (map ds_id (ss_datasets s)) \<and>
     distinct (map ch_id (ss_charts s)) \<and> distinct (map dh_id (ss_dashboards s))"

definition ds_at :: "superset \<Rightarrow> int \<times> string \<Rightarrow> ss_dataset list" where
  "ds_at s k = rows_at ds_key k (ss_datasets s)"

definition ch_at :: "superset \<Rightarrow> string \<Rightarrow> ss_chart list" where
  "ch_at s n = rows_at ch_slice_name n (ss_charts s)"

definition dh_at :: "superset \<Rightarrow> string \<Rightarrow> ss_dashboard list" where
  "dh_at s t = rows_at dh_title t (ss_dashboards s)"

lemmas at_defs = ds_at_def ch_at_def dh_at_def

lemma on_table_Inr:
  "on_table get put_rows f s = (Inr x, s') \<longleftrightarrow> (\<exists>rows. f (get s) = Inr (x, rows) \<and> s' = put_rows rows s)"
  by (auto simp: on_table_def split: sum.splits prod.splits)

lemma on_table_run: "f (get s) = Inr (x, rows) \<Longrightarrow> on_table get put_rows f s = (Inr x, put_rows rows s)"
  by (simp add: on_table_def)

section \<open>One operation\<close>

definition chart_as :: "chart_spec \<Rightarrow> int \<Rightarrow> string \<Rightarrow> ss_chart \<Rightarrow> bool" where
  "chart_as spec datasource_id owner c \<longleftrightarrow>
     ch_viz_type c = cs_viz_type spec \<and> ch_datasource_type c = ''table'' \<and> ch_datasource_id c = datasource_id \<and>
     ch_params c = full_params datasource_id (cs_viz_type spec) (cs_params spec) \<and> ch_owners c = [owner]"

definition dataset_as :: "string \<Rightarrow> string \<Rightarrow> string \<Rightarrow> column_def list \<Rightarrow> (string \<times> string) list \<Rightarrow> ss_dataset \<Rightarrow> bool" where
  "dataset_as sql owner dttm columns metrics d \<longleftrightarrow>
     ds_sql d = sql \<and> ds_owners d = [owner] \<and> ds_main_dttm_col d = dttm \<and>
     ds_columns d = map table_column columns \<and> ds_metrics d = metrics"

definition dashboard_as :: "string \<Rightarrow> string \<Rightarrow> int list \<Rightarrow> ss_dashboard \<Rightarrow> bool" where
  "dashboard_as owner position_json slices h \<longleftrightarrow>
     dh_owners h = [owner] \<and> dh_published h \<and> dh_position_json h = position_json \<and> dh_slices h = slices"

lemma set_chart_fixed:
  "set_chart (cs_viz_type spec) d (cs_params spec) owner c = c \<longleftrightarrow> chart_as spec d owner c \<and> ch_query_context c = Some []"
  by (cases c) (auto simp: set_chart_def chart_as_def)

lemma set_dataset_fixed: "set_dataset sql owner dttm columns metrics d = d \<longleftrightarrow> dataset_as sql owner dttm columns metrics d"
  by (cases d) (auto simp: set_dataset_def dataset_as_def)

lemma set_dashboard_fixed: "set_dashboard owner p slices h = h \<longleftrightarrow> dashboard_as owner p slices h"
  by (cases h) (auto simp: set_dashboard_def dashboard_as_def)

lemma ensure_chart_run:
  assumes run: "ensure_chart fresh (cs_name spec) (cs_viz_type spec) d (cs_params spec) owner s = (Inr c, s')"
    and wf: "wf_superset s" and fresh: "fresh_ok fresh"
  shows "wf_superset s'" and "ch_at s' (cs_name spec) = [c]" and "n \<noteq> cs_name spec \<Longrightarrow> ch_at s' n = ch_at s n"
    and "chart_as spec d owner c" and "ch_at s (cs_name spec) \<noteq> [] \<Longrightarrow> ch_query_context c = Some []"
    and "ss_databases s' = ss_databases s" and "ss_datasets s' = ss_datasets s" and "ss_dashboards s' = ss_dashboards s"
proof -
  from run obtain rows where e: "ensure_row ch_slice_name ch_id fresh (cs_name spec)
        (new_chart (cs_name spec) (cs_viz_type spec) d (cs_params spec) owner)
        (set_chart (cs_viz_type spec) d (cs_params spec) owner) (ss_charts s) = Inr (c, rows)"
    and s': "s' = s\<lparr>ss_charts := rows\<rparr>"
    by (auto simp: ensure_chart_def on_table_Inr)
  from wf have ids: "distinct (map ch_id (ss_charts s))" by (simp add: wf_superset_def)
  show "wf_superset s'" using wf chart_rows.ensure_distinct[OF e ids fresh] by (simp add: wf_superset_def s')
  show "ch_at s' (cs_name spec) = [c]" using chart_rows.ensure_at[OF e ids] by (simp add: ch_at_def s')
  show "n \<noteq> cs_name spec \<Longrightarrow> ch_at s' n = ch_at s n" using chart_rows.ensure_other[OF e ids] by (simp add: ch_at_def s')
  from e show "chart_as spec d owner c"
    by (cases rule: chart_rows.ensure_Inr) (auto simp: chart_as_def new_chart_def set_chart_def)
  show "ch_query_context c = Some []" if "ch_at s (cs_name spec) \<noteq> []"
    using e that by (cases rule: chart_rows.ensure_Inr) (auto simp: ch_at_def set_chart_def)
qed (use run in \<open>auto simp: ensure_chart_def on_table_Inr\<close>)

lemma ensure_dataset_run:
  assumes run: "ensure_dataset fresh i name sql owner dttm columns metrics s = (Inr d, s')"
    and wf: "wf_superset s" and fresh: "fresh_ok fresh"
  shows "wf_superset s'" and "ds_at s' (i, name) = [d]" and "k \<noteq> (i, name) \<Longrightarrow> ds_at s' k = ds_at s k"
    and "dataset_as sql owner dttm columns metrics d"
    and "ss_databases s' = ss_databases s" and "ss_charts s' = ss_charts s" and "ss_dashboards s' = ss_dashboards s"
proof -
  from run obtain rows where e: "ensure_row ds_key ds_id fresh (i, name)
        (new_dataset i name sql owner dttm columns metrics) (set_dataset sql owner dttm columns metrics) (ss_datasets s) = Inr (d, rows)"
    and s': "s' = s\<lparr>ss_datasets := rows\<rparr>"
    by (auto simp: ensure_dataset_def on_table_Inr)
  from wf have ids: "distinct (map ds_id (ss_datasets s))" by (simp add: wf_superset_def)
  show "wf_superset s'" using wf dataset_rows.ensure_distinct[OF e ids fresh] by (simp add: wf_superset_def s')
  show "ds_at s' (i, name) = [d]" using dataset_rows.ensure_at[OF e ids] by (simp add: ds_at_def s')
  show "k \<noteq> (i, name) \<Longrightarrow> ds_at s' k = ds_at s k" using dataset_rows.ensure_other[OF e ids] by (simp add: ds_at_def s')
  from e show "dataset_as sql owner dttm columns metrics d"
    by (cases rule: dataset_rows.ensure_Inr) (auto simp: dataset_as_def new_dataset_def set_dataset_def)
qed (use run in \<open>auto simp: ensure_dataset_def on_table_Inr\<close>)

lemma ensure_chart_total:
  "length (ch_at s name) \<le> 1 \<Longrightarrow> \<exists>c s'. ensure_chart fresh name viz d params owner s = (Inr c, s')"
  using chart_rows.ensure_total by (fastforce simp: ensure_chart_def on_table_Inr ch_at_def)

lemma ensure_dataset_total:
  "length (ds_at s (i, name)) \<le> 1 \<Longrightarrow> \<exists>d s'. ensure_dataset fresh i name sql owner dttm columns metrics s = (Inr d, s')"
  using dataset_rows.ensure_total by (fastforce simp: ensure_dataset_def on_table_Inr ds_at_def)

lemma ensure_chart_fixed:
  assumes "ch_at s (cs_name spec) = [c]" and "chart_as spec d owner c" and "ch_query_context c = Some []" and "wf_superset s"
  shows "ensure_chart fresh (cs_name spec) (cs_viz_type spec) d (cs_params spec) owner s = (Inr c, s)"
  using assms chart_rows.ensure_fixed[of "cs_name spec" "ss_charts s" c]
  by (simp add: ensure_chart_def on_table_def ch_at_def wf_superset_def set_chart_fixed)

lemma ensure_dataset_fixed:
  assumes "ds_at s (i, name) = [d]" and "dataset_as sql owner dttm columns metrics d" and "wf_superset s"
  shows "ensure_dataset fresh i name sql owner dttm columns metrics s = (Inr d, s)"
  using assms dataset_rows.ensure_fixed[of i name "ss_datasets s" d]
  by (simp add: ensure_dataset_def on_table_def ds_at_def wf_superset_def set_dataset_fixed)

lemma ensure_dashboard_run:
  assumes run: "ensure_dashboard fresh file owner charts row_specs s = (Inr h, s')"
    and meta: "dashboard_meta file = Inr (title, slug)" and wf: "wf_superset s" and fresh: "fresh_ok fresh"
  shows "wf_superset s'" and "dh_at s' title = [h]" and "t \<noteq> title \<Longrightarrow> dh_at s' t = dh_at s t"
    and "\<exists>pj. build_layout row_specs (lookup_of charts) = Inr pj \<and> dashboard_as owner pj (map ch_id charts) h"
    and "ss_databases s' = ss_databases s" and "ss_datasets s' = ss_datasets s" and "ss_charts s' = ss_charts s"
proof -
  from run meta obtain h0 rows pj where
    e: "ensure_row dh_title dh_id fresh title (new_dashboard title slug owner) (\<lambda>h. h) (ss_dashboards s) = Inr (h0, rows)"
    and pj: "build_layout row_specs (lookup_of charts) = Inr pj"
    and h: "h = set_dashboard owner pj (map ch_id charts) h0"
    and s': "s' = s\<lparr>ss_dashboards := put_row dh_id h rows\<rparr>"
    by (auto simp: ensure_dashboard_def sx_simps on_table_Inr Let_def elim!: sbind_InrE)
  from wf have ids: "distinct (map dh_id (ss_dashboards s))" by (simp add: wf_superset_def)
  have ids': "distinct (map dh_id rows)" by (rule dashboard_rows.ensure_distinct[OF e ids fresh])
  have at: "rows_at dh_title title rows = [h0]" by (rule dashboard_rows.ensure_at[OF e ids])
  have h0: "h0 \<in> set rows" "dh_title h0 = title" using rows_at_single[OF at] by auto
  have same: "dh_id h = dh_id h0" "dh_title h = dh_title h0" by (simp_all add: h set_dashboard_def)
  show "wf_superset s'" using wf ids' by (simp add: wf_superset_def s' map_rid_put_row)
  show "dh_at s' title = [h]"
    using at h0 same by (simp add: dh_at_def s' rows_at_put_row[OF ids' h0(1) same]) (simp add: put_row_def)
  show "dh_at s' t = dh_at s t" if "t \<noteq> title"
    using that h0 dashboard_rows.ensure_other[OF e ids that]
    by (simp add: dh_at_def s' put_row_other[OF ids' h0(1) same])
  show "\<exists>pj. build_layout row_specs (lookup_of charts) = Inr pj \<and> dashboard_as owner pj (map ch_id charts) h"
    using pj by (simp add: h dashboard_as_def set_dashboard_def)
qed (use run meta in \<open>auto simp: ensure_dashboard_def sx_simps on_table_Inr Let_def elim!: sbind_InrE\<close>)

lemma ensure_dashboard_total:
  assumes "length (dh_at s title) \<le> 1" and meta: "dashboard_meta file = Inr (title, slug)"
    and "build_layout row_specs (lookup_of charts) = Inr pj"
  shows "\<exists>h s'. ensure_dashboard fresh file owner charts row_specs s = (Inr h, s')"
proof -
  from assms(1) obtain h0 rows where
    "ensure_row dh_title dh_id fresh title (new_dashboard title slug owner) (\<lambda>h. h) (ss_dashboards s) = Inr (h0, rows)"
    using dashboard_rows.ensure_total unfolding dh_at_def by blast
  with assms(2,3) show ?thesis
    by (simp add: ensure_dashboard_def sbind_def slift_run on_table_def sseq_def sput_run sret_run Let_def)
qed

lemma ensure_dashboard_fixed:
  assumes "dh_at s title = [h]" and meta: "dashboard_meta file = Inr (title, slug)" and wf: "wf_superset s"
    and pj: "build_layout row_specs (lookup_of charts) = Inr pj" and h: "dashboard_as owner pj (map ch_id charts) h"
  shows "ensure_dashboard fresh file owner charts row_specs s = (Inr h, s)"
proof -
  from wf have ids: "distinct (map dh_id (ss_dashboards s))" by (simp add: wf_superset_def)
  have at: "rows_at dh_title title (ss_dashboards s) = [h]" using assms(1) by (simp add: dh_at_def)
  have e: "ensure_row dh_title dh_id fresh title (new_dashboard title slug owner) (\<lambda>h. h) (ss_dashboards s) = Inr (h, ss_dashboards s)"
    by (rule dashboard_rows.ensure_fixed[OF at refl ids])
  have "put_row dh_id h (ss_dashboards s) = ss_dashboards s"
    using rows_at_single[OF at] by (intro put_row_same[OF ids]) simp
  with e h pj meta show ?thesis
    by (simp add: ensure_dashboard_def sbind_def slift_run on_table_def sseq_def sput_run sret_run Let_def
        set_dashboard_fixed[THEN iffD2])
qed

section \<open>The charts of a dashboard\<close>

definition ensure_charts :: "(int list \<Rightarrow> int) \<Rightarrow> string \<Rightarrow> (chart_spec \<Rightarrow> int) \<Rightarrow> chart_spec list \<Rightarrow> ss_chart list ssx" where
  "ensure_charts fresh owner d specs = sfor specs (\<lambda>c. ensure_chart fresh (cs_name c) (cs_viz_type c) (d c) (cs_params c) owner)"

lemma ensure_charts_Cons:
  "ensure_charts fresh owner d (x # xs) =
     sbind (ensure_chart fresh (cs_name x) (cs_viz_type x) (d x) (cs_params x) owner) (\<lambda>c.
     sbind (ensure_charts fresh owner d xs) (\<lambda>cs. sret (c # cs)))"
  by (simp add: ensure_charts_def)

lemma ensure_charts_run:
  assumes "ensure_charts fresh owner d specs s = (Inr cs, s')"
    and "wf_superset s" and "fresh_ok fresh" and "distinct (map cs_name specs)"
  shows "wf_superset s' \<and>
    list_all2 (\<lambda>spec c. ch_at s' (cs_name spec) = [c] \<and> chart_as spec (d spec) owner c \<and>
      (ch_at s (cs_name spec) \<noteq> [] \<longrightarrow> ch_query_context c = Some [])) specs cs \<and>
    (\<forall>n. n \<notin> cs_name ` set specs \<longrightarrow> ch_at s' n = ch_at s n) \<and>
    ss_databases s' = ss_databases s \<and> ss_datasets s' = ss_datasets s \<and> ss_dashboards s' = ss_dashboards s"
  using assms
proof (induction specs arbitrary: s cs)
  case Nil
  then show ?case by (simp add: ensure_charts_def sx_simps)
next
  case (Cons x xs)
  from Cons.prems(1) obtain c s1 rest where
    one: "ensure_chart fresh (cs_name x) (cs_viz_type x) (d x) (cs_params x) owner s = (Inr c, s1)"
    and more: "ensure_charts fresh owner d xs s1 = (Inr rest, s')" and cs: "cs = c # rest"
    unfolding ensure_charts_Cons by (auto simp: sx_simps elim!: sbind_InrE)
  note c = ensure_chart_run[OF one Cons.prems(2,3)]
  from Cons.prems(4) have new: "cs_name x \<notin> cs_name ` set xs" and "distinct (map cs_name xs)" by auto
  note IH = Cons.IH[OF more c(1) Cons.prems(3) this(2)]
  have "list_all2 (\<lambda>spec c. ch_at s' (cs_name spec) = [c] \<and> chart_as spec (d spec) owner c \<and>
      (ch_at s (cs_name spec) \<noteq> [] \<longrightarrow> ch_query_context c = Some [])) xs rest"
  proof (rule list_all2_mono[where P = "\<lambda>spec c. spec \<in> set xs \<and> ch_at s' (cs_name spec) = [c] \<and> chart_as spec (d spec) owner c \<and>
      (ch_at s1 (cs_name spec) \<noteq> [] \<longrightarrow> ch_query_context c = Some [])"])
    show "list_all2 (\<lambda>spec c. spec \<in> set xs \<and> ch_at s' (cs_name spec) = [c] \<and> chart_as spec (d spec) owner c \<and>
      (ch_at s1 (cs_name spec) \<noteq> [] \<longrightarrow> ch_query_context c = Some [])) xs rest"
      using IH by (auto simp: list_all2_conv_all_nth)
  next
    fix spec c'
    assume a: "spec \<in> set xs \<and> ch_at s' (cs_name spec) = [c'] \<and> chart_as spec (d spec) owner c' \<and>
      (ch_at s1 (cs_name spec) \<noteq> [] \<longrightarrow> ch_query_context c' = Some [])"
    with new have "cs_name spec \<noteq> cs_name x" by (metis imageI)
    with a c(3) show "ch_at s' (cs_name spec) = [c'] \<and> chart_as spec (d spec) owner c' \<and>
      (ch_at s (cs_name spec) \<noteq> [] \<longrightarrow> ch_query_context c' = Some [])" by simp
  qed
  moreover have "ch_at s' (cs_name x) = [c]" using IH new c(2) by simp
  moreover have "ch_at s' n = ch_at s n" if "n \<notin> cs_name ` set (x # xs)" for n
    using IH c(3) that by simp
  ultimately show ?case using IH c cs by simp
qed

lemma ensure_charts_total:
  assumes "list_all (\<lambda>spec. length (ch_at s (cs_name spec)) \<le> 1) specs"
    and "wf_superset s" and "fresh_ok fresh" and "distinct (map cs_name specs)"
  shows "\<exists>cs s'. ensure_charts fresh owner d specs s = (Inr cs, s')"
  using assms
proof (induction specs arbitrary: s)
  case Nil
  then show ?case by (simp add: ensure_charts_def sx_simps)
next
  case (Cons x xs)
  from Cons.prems(1) have "length (ch_at s (cs_name x)) \<le> 1" by simp
  then obtain c s1 where
    one: "ensure_chart fresh (cs_name x) (cs_viz_type x) (d x) (cs_params x) owner s = (Inr c, s1)"
    using ensure_chart_total by blast
  note c = ensure_chart_run[OF one Cons.prems(2,3)]
  have "list_all (\<lambda>spec. length (ch_at s1 (cs_name spec)) \<le> 1) xs"
    unfolding list_all_iff
  proof
    fix spec assume spec: "spec \<in> set xs"
    with Cons.prems(4) have "cs_name spec \<noteq> cs_name x" by (metis distinct.simps(2) imageI list.set_map list.simps(9))
    with c(3) Cons.prems(1) spec show "length (ch_at s1 (cs_name spec)) \<le> 1" by (simp add: list_all_iff)
  qed
  then obtain cs s' where "ensure_charts fresh owner d xs s1 = (Inr cs, s')"
    using Cons.IH[OF _ c(1) Cons.prems(3)] Cons.prems(4) by auto
  with one show ?case by (simp add: ensure_charts_Cons sbind_def sret_run)
qed

lemma ensure_charts_fixed:
  assumes "list_all2 (\<lambda>spec c. ch_at s (cs_name spec) = [c] \<and> chart_as spec (d spec) owner c \<and> ch_query_context c = Some []) specs cs"
    and "wf_superset s"
  shows "ensure_charts fresh owner d specs s = (Inr cs, s)"
  using assms(1)
proof (induction rule: list_all2_induct)
  case Nil
  then show ?case by (simp add: ensure_charts_def sx_simps)
next
  case (Cons x xs c cs)
  then show ?case
    using ensure_chart_fixed[of s x c "d x" owner fresh] assms(2)
    by (simp add: ensure_charts_Cons sbind_def sret_run)
qed

section \<open>The assets of a dashboard\<close>

text \<open>
  What the descriptions must satisfy: no chart name twice, two datasets, a known dashboard file, and
  rows that place known charts once under names of their own.
\<close>

definition group_ok :: "asset_group \<Rightarrow> bool" where
  "group_ok g \<longleftrightarrow>
     distinct (map cs_name (ag_charts g)) \<and> ag_all_dates g \<noteq> ag_latest g \<and>
     (case dashboard_meta (ag_meta_file g) of Inl _ \<Rightarrow> False | Inr (title, _) \<Rightarrow> title \<noteq> untitled_dashboard) \<and>
     list_all (\<lambda>n. n \<in> set (map cs_name (ag_charts g))) (concat (map rs_charts (ag_rows g))) \<and>
     distinct (concat (map rs_charts (ag_rows g))) \<and> distinct (map rs_id (ag_rows g)) \<and>
     list_all (\<lambda>r. rs_id r \<notin> {''ROOT_ID'', ''GRID_ID''} \<and> \<not> starts_with ''CHART-explore-'' (rs_id r)) (ag_rows g)"

definition group_title :: "asset_group \<Rightarrow> string" where
  "group_title g = (case dashboard_meta (ag_meta_file g) of Inl _ \<Rightarrow> [] | Inr (title, _) \<Rightarrow> title)"

definition dataset_for :: "ss_dataset \<Rightarrow> ss_dataset \<Rightarrow> chart_spec \<Rightarrow> int" where
  "dataset_for a l spec = ds_id (if cs_latest spec then l else a)"

text \<open>
  \<open>installed exact read_text g owner i s\<close>: the datasets, charts and dashboard of \<open>g\<close> are in \<open>s\<close>, once
  each, as described.  A chart that was updated rather than added has an empty query context
  (\<open>exact\<close>).
\<close>

definition installed :: "bool \<Rightarrow> (string \<Rightarrow> string result) \<Rightarrow> asset_group \<Rightarrow> string \<Rightarrow> int \<Rightarrow> superset \<Rightarrow> bool" where
  "installed exact read_text g owner i s \<longleftrightarrow> (\<exists>a l cs h all_sql lat_sql.
     read_text (ag_all_dates g @ ''.sql'') = Inr all_sql \<and> ds_at s (i, ag_all_dates g) = [a] \<and>
     dataset_as all_sql owner (ag_main_dttm_col g) (ag_columns g) (ag_metrics g) a \<and>
     read_text (ag_latest g @ ''.sql'') = Inr lat_sql \<and> ds_at s (i, ag_latest g) = [l] \<and>
     dataset_as lat_sql owner (ag_main_dttm_col g) (ag_columns g) (ag_metrics g) l \<and>
     list_all2 (\<lambda>spec c. ch_at s (cs_name spec) = [c] \<and> chart_as spec (dataset_for a l spec) owner c \<and>
       (exact \<longrightarrow> ch_query_context c = Some [])) (ag_charts g) cs \<and>
     dh_at s (group_title g) = [h] \<and>
     dashboard_as owner (position_text (layout_of (lookup_of cs) (ag_rows g))) (map ch_id cs) h \<and>
     layout_tree (layout_of (lookup_of cs) (ag_rows g)))"

lemma create_assets_charts:
  "create_assets fresh read_text g owner i =
     sbind (slift (read_text (ag_all_dates g @ ''.sql''))) (\<lambda>all_sql.
     sbind (ensure_dataset fresh i (ag_all_dates g) all_sql owner (ag_main_dttm_col g) (ag_columns g) (ag_metrics g)) (\<lambda>a.
     sbind (slift (read_text (ag_latest g @ ''.sql''))) (\<lambda>lat_sql.
     sbind (ensure_dataset fresh i (ag_latest g) lat_sql owner (ag_main_dttm_col g) (ag_columns g) (ag_metrics g)) (\<lambda>l.
     sbind (ensure_charts fresh owner (dataset_for a l) (ag_charts g)) (\<lambda>charts.
     sbind (ensure_dashboard fresh (ag_meta_file g) owner charts (ag_rows g)) (\<lambda>_. sret ()))))))"
  by (simp add: create_assets_def ensure_charts_def dataset_for_def)

lemma lookup_of_known:
  assumes "distinct (map ch_slice_name cs)" and "c \<in> set cs"
  shows "lookup_of cs (ch_slice_name c) = Some \<lparr>cl_id = ch_id c, cl_slice_name = ch_slice_name c\<rparr>"
  unfolding lookup_of_def using assms
  by (intro map_of_is_SomeI) (auto simp: rev_map[symmetric] comp_def)

lemma charts_placeable:
  assumes ok: "group_ok g" and wf: "wf_superset s"
    and cs: "list_all2 (\<lambda>spec c. ch_at s (cs_name spec) = [c] \<and> Q spec c) (ag_charts g) cs"
  shows "placeable (lookup_of cs) (ag_rows g)"
proof -
  have "list_all2 (\<lambda>spec c. cs_name spec = ch_slice_name c \<and> c \<in> set (ss_charts s)) (ag_charts g) cs"
    using cs by (rule list_all2_mono) (auto simp: ch_at_def dest: rows_at_single)
  then have names: "map ch_slice_name cs = map cs_name (ag_charts g)" and rows: "set cs \<subseteq> set (ss_charts s)"
    by (induction rule: list_all2_induct) auto
  from ok names have dist: "distinct (map ch_slice_name cs)" by (simp add: group_ok_def)
  have found: "\<exists>c \<in> set cs. ch_slice_name c = n \<and> lookup_of cs n = Some \<lparr>cl_id = ch_id c, cl_slice_name = n\<rparr>"
    if "n \<in> set (concat (map rs_charts (ag_rows g)))" for n
  proof -
    from ok that have "n \<in> set (map cs_name (ag_charts g))" by (auto simp: group_ok_def list_all_iff)
    then have "n \<in> set (map ch_slice_name cs)" by (simp only: names)
    then obtain c where "c \<in> set cs" "ch_slice_name c = n" by auto
    with lookup_of_known[OF dist] show ?thesis by blast
  qed
  have "inj_on (\<lambda>n. map_option cl_id (lookup_of cs n)) (set (concat (map rs_charts (ag_rows g))))"
  proof (rule inj_onI)
    fix x y
    assume x: "x \<in> set (concat (map rs_charts (ag_rows g)))" and y: "y \<in> set (concat (map rs_charts (ag_rows g)))"
      and eq: "map_option cl_id (lookup_of cs x) = map_option cl_id (lookup_of cs y)"
    from found[OF x] found[OF y] eq obtain c c' where c: "c \<in> set cs" "c' \<in> set cs" "ch_id c = ch_id c'"
        "ch_slice_name c = x" "ch_slice_name c' = y" by auto
    from wf have "distinct (map ch_id (ss_charts s))" by (simp add: wf_superset_def)
    with c rows have "c = c'" using same_row[of ch_id "ss_charts s" c c'] by blast
    with c show "x = y" by simp
  qed
  then have "distinct (map (\<lambda>n. map_option cl_id (lookup_of cs n)) (concat (map rs_charts (ag_rows g))))"
    using ok by (simp only: distinct_map group_ok_def)
  moreover have "list_all (\<lambda>n. lookup_of cs n \<noteq> None) (concat (map rs_charts (ag_rows g)))"
    unfolding list_all_iff using found by blast
  ultimately show ?thesis using ok by (simp add: placeable_def group_ok_def)
qed

text \<open>\<open>group_frame g i s s'\<close>: between \<open>s\<close> and \<open>s'\<close> only assets of \<open>g\<close> changed.\<close>

definition group_frame :: "asset_group \<Rightarrow> int \<Rightarrow> superset \<Rightarrow> superset \<Rightarrow> bool" where
  "group_frame g i s s' \<longleftrightarrow> ss_databases s' = ss_databases s \<and>
     (\<forall>k. k \<noteq> (i, ag_all_dates g) \<longrightarrow> k \<noteq> (i, ag_latest g) \<longrightarrow> ds_at s' k = ds_at s k) \<and>
     (\<forall>n. n \<notin> cs_name ` set (ag_charts g) \<longrightarrow> ch_at s' n = ch_at s n) \<and>
     (\<forall>t. t \<noteq> group_title g \<longrightarrow> dh_at s' t = dh_at s t)"

lemma group_meta: "group_ok g \<Longrightarrow> \<exists>slug. dashboard_meta (ag_meta_file g) = Inr (group_title g, slug)"
  by (auto simp: group_ok_def group_title_def split: sum.splits prod.splits)

lemma create_assets_run:
  assumes run: "create_assets fresh read_text g owner i s = (Inr (), s')"
    and wf: "wf_superset s" and fresh: "fresh_ok fresh" and ok: "group_ok g"
  shows "wf_superset s'" and "group_frame g i s s'"
    and "\<forall>spec \<in> set (ag_charts g). exact \<longrightarrow> ch_at s (cs_name spec) \<noteq> [] \<Longrightarrow> installed exact read_text g owner i s'"
proof -
  from run obtain all_sql a s1 lat_sql l s2 cs s3 h where
    asql: "read_text (ag_all_dates g @ ''.sql'') = Inr all_sql" and lsql: "read_text (ag_latest g @ ''.sql'') = Inr lat_sql"
    and all: "ensure_dataset fresh i (ag_all_dates g) all_sql owner (ag_main_dttm_col g) (ag_columns g) (ag_metrics g) s = (Inr a, s1)"
    and lat: "ensure_dataset fresh i (ag_latest g) lat_sql owner (ag_main_dttm_col g) (ag_columns g) (ag_metrics g) s1 = (Inr l, s2)"
    and charts: "ensure_charts fresh owner (dataset_for a l) (ag_charts g) s2 = (Inr cs, s3)"
    and dash: "ensure_dashboard fresh (ag_meta_file g) owner cs (ag_rows g) s3 = (Inr h, s')"
    unfolding create_assets_charts by (auto simp: sx_simps elim!: sbind_InrE)
  obtain slug where meta: "dashboard_meta (ag_meta_file g) = Inr (group_title g, slug)" using group_meta[OF ok] by blast
  note a = ensure_dataset_run[OF all wf fresh]
  note l = ensure_dataset_run[OF lat a(1) fresh]
  have names: "distinct (map cs_name (ag_charts g))" and two: "ag_all_dates g \<noteq> ag_latest g" using ok by (auto simp: group_ok_def)
  note c = ensure_charts_run[OF charts l(1) fresh names]
  note d = ensure_dashboard_run[OF dash meta conjunct1[OF c] fresh]
  show "wf_superset s'" by (rule d(1))
  have ch2: "ch_at s2 = ch_at s" and dh3: "dh_at s3 = dh_at s" and ds': "ds_at s' = ds_at s2" and ch': "ch_at s' = ch_at s3"
    using a(6,7) l(6,7) c d(6,7) by (simp_all add: at_defs fun_eq_iff)
  show "group_frame g i s s'"
    unfolding group_frame_def using a(3,5) l(3,5) c d(3,5) by (simp add: ch2 dh3 ds' ch')
  assume ex: "\<forall>spec \<in> set (ag_charts g). exact \<longrightarrow> ch_at s (cs_name spec) \<noteq> []"
  have cs: "list_all2 (\<lambda>spec c. ch_at s' (cs_name spec) = [c] \<and> chart_as spec (dataset_for a l spec) owner c \<and>
       (exact \<longrightarrow> ch_query_context c = Some [])) (ag_charts g) cs"
    using c ex by (auto simp: list_all2_conv_all_nth ch2 ch')
  have place: "placeable (lookup_of cs) (ag_rows g)" by (rule charts_placeable[OF ok d(1) cs])
  then have "dashboard_as owner (position_text (layout_of (lookup_of cs) (ag_rows g))) (map ch_id cs) h"
    using d(4) by (simp add: build_layout_placeable)
  moreover have "ds_at s' (i, ag_all_dates g) = [a]" "ds_at s' (i, ag_latest g) = [l]"
    using l(2) l(3)[of "(i, ag_all_dates g)"] a(2) two by (simp_all add: ds')
  ultimately show "installed exact read_text g owner i s'"
    unfolding installed_def using asql lsql a(4) l(4) cs d(2) layout_tree_layout_of[OF place] by blast
qed

definition group_unique :: "asset_group \<Rightarrow> int \<Rightarrow> superset \<Rightarrow> bool" where
  "group_unique g i s \<longleftrightarrow> length (ds_at s (i, ag_all_dates g)) \<le> 1 \<and> length (ds_at s (i, ag_latest g)) \<le> 1 \<and>
     list_all (\<lambda>spec. length (ch_at s (cs_name spec)) \<le> 1) (ag_charts g) \<and> length (dh_at s (group_title g)) \<le> 1"

lemma create_assets_total:
  assumes "group_unique g i s" and wf: "wf_superset s" and fresh: "fresh_ok fresh" and ok: "group_ok g"
    and asql: "read_text (ag_all_dates g @ ''.sql'') = Inr all_sql" and lsql: "read_text (ag_latest g @ ''.sql'') = Inr lat_sql"
  shows "\<exists>s'. create_assets fresh read_text g owner i s = (Inr (), s')"
proof -
  from assms(1) obtain a s1 where
    all: "ensure_dataset fresh i (ag_all_dates g) all_sql owner (ag_main_dttm_col g) (ag_columns g) (ag_metrics g) s = (Inr a, s1)"
    unfolding group_unique_def using ensure_dataset_total by blast
  note a = ensure_dataset_run[OF all wf fresh]
  from ok have two: "ag_latest g \<noteq> ag_all_dates g" and names: "distinct (map cs_name (ag_charts g))" by (auto simp: group_ok_def)
  then have "length (ds_at s1 (i, ag_latest g)) \<le> 1" using a(3) assms(1) by (simp add: group_unique_def)
  then obtain l s2 where
    lat: "ensure_dataset fresh i (ag_latest g) lat_sql owner (ag_main_dttm_col g) (ag_columns g) (ag_metrics g) s1 = (Inr l, s2)"
    using ensure_dataset_total by blast
  note l = ensure_dataset_run[OF lat a(1) fresh]
  have "ch_at s2 = ch_at s" "dh_at s2 = dh_at s" using a(6,7) l(6,7) by (simp_all add: at_defs fun_eq_iff)
  with assms(1) have "list_all (\<lambda>spec. length (ch_at s2 (cs_name spec)) \<le> 1) (ag_charts g)"
    and d2: "length (dh_at s2 (group_title g)) \<le> 1" by (simp_all add: group_unique_def)
  then obtain cs s3 where charts: "ensure_charts fresh owner (dataset_for a l) (ag_charts g) s2 = (Inr cs, s3)"
    using ensure_charts_total[OF _ l(1) fresh names] by blast
  note c = ensure_charts_run[OF charts l(1) fresh names]
  have "build_layout (ag_rows g) (lookup_of cs) = Inr (position_text (layout_of (lookup_of cs) (ag_rows g)))"
    using c by (intro build_layout_placeable charts_placeable[OF ok]) auto
  moreover have "length (dh_at s3 (group_title g)) \<le> 1" using c d2 by (simp add: dh_at_def)
  ultimately obtain h s' where "ensure_dashboard fresh (ag_meta_file g) owner cs (ag_rows g) s3 = (Inr h, s')"
    using ensure_dashboard_total group_meta[OF ok] by blast
  with asql lsql all lat charts show ?thesis
    unfolding create_assets_charts by (simp add: sbind_def slift_run sret_run)
qed

lemma create_assets_fixed:
  assumes "installed True read_text g owner i s" and wf: "wf_superset s" and ok: "group_ok g"
  shows "create_assets fresh read_text g owner i s = (Inr (), s)"
proof -
  from assms(1) obtain a l cs h all_sql lat_sql where
    asql: "read_text (ag_all_dates g @ ''.sql'') = Inr all_sql" and lsql: "read_text (ag_latest g @ ''.sql'') = Inr lat_sql"
    and a: "ds_at s (i, ag_all_dates g) = [a]" "dataset_as all_sql owner (ag_main_dttm_col g) (ag_columns g) (ag_metrics g) a"
    and l: "ds_at s (i, ag_latest g) = [l]" "dataset_as lat_sql owner (ag_main_dttm_col g) (ag_columns g) (ag_metrics g) l"
    and cs: "list_all2 (\<lambda>spec c. ch_at s (cs_name spec) = [c] \<and> chart_as spec (dataset_for a l spec) owner c \<and>
       ch_query_context c = Some []) (ag_charts g) cs"
    and h: "dh_at s (group_title g) = [h]" "dashboard_as owner (position_text (layout_of (lookup_of cs) (ag_rows g))) (map ch_id cs) h"
    unfolding installed_def by auto
  obtain slug where meta: "dashboard_meta (ag_meta_file g) = Inr (group_title g, slug)" using group_meta[OF ok] by blast
  have "build_layout (ag_rows g) (lookup_of cs) = Inr (position_text (layout_of (lookup_of cs) (ag_rows g)))"
    by (rule build_layout_placeable[OF charts_placeable[OF ok wf cs]])
  then have "ensure_dashboard fresh (ag_meta_file g) owner cs (ag_rows g) s = (Inr h, s)"
    by (rule ensure_dashboard_fixed[OF h(1) meta wf _ h(2)])
  with asql lsql ensure_dataset_fixed[OF a wf] ensure_dataset_fixed[OF l wf] ensure_charts_fixed[OF cs wf] show ?thesis
    unfolding create_assets_charts by (simp add: sbind_def slift_run sret_run)
qed

section \<open>A whole run\<close>

text \<open>The dashboards a run covers: two of them need their mart in the warehouse.\<close>

definition active_groups :: "(string \<times> string) list \<Rightarrow> asset_group list" where
  "active_groups tables = delinquency_group #
     (if mart_exists tables ''mart_portfolio_health'' then [portfolio_group] else []) @
     (if mart_exists tables ''mart_repayment_behavior'' then [repayment_group] else [])"

definition apart :: "asset_group \<Rightarrow> asset_group \<Rightarrow> bool" where
  "apart g g' \<longleftrightarrow> group_title g \<noteq> group_title g' \<and>
     list_all (\<lambda>n. n \<noteq> ag_all_dates g' \<and> n \<noteq> ag_latest g') [ag_all_dates g, ag_latest g] \<and>
     list_all (\<lambda>n. n \<notin> set (map cs_name (ag_charts g'))) (map cs_name (ag_charts g))"

lemma all_groups_ok: "list_all group_ok all_groups"
  by code_simp

lemma all_groups_apart:
  "apart delinquency_group portfolio_group" "apart delinquency_group repayment_group" "apart portfolio_group repayment_group"
  by code_simp+

lemma apart_charts:
  assumes "apart g g'"
  shows "spec \<in> set (ag_charts g') \<Longrightarrow> cs_name spec \<notin> cs_name ` set (ag_charts g)"
    and "spec \<in> set (ag_charts g) \<Longrightarrow> cs_name spec \<notin> cs_name ` set (ag_charts g')"
proof -
  from assms have "\<forall>n \<in> set (ag_charts g). cs_name n \<notin> cs_name ` set (ag_charts g')" by (simp add: apart_def list_all_iff)
  then show "spec \<in> set (ag_charts g') \<Longrightarrow> cs_name spec \<notin> cs_name ` set (ag_charts g)"
    and "spec \<in> set (ag_charts g) \<Longrightarrow> cs_name spec \<notin> cs_name ` set (ag_charts g')"
    by (metis image_iff)+
qed

lemma apart_names:
  assumes "apart g g'"
  shows "group_title g \<noteq> group_title g'" "group_title g' \<noteq> group_title g"
    "ag_all_dates g \<noteq> ag_all_dates g'" "ag_all_dates g \<noteq> ag_latest g'" "ag_latest g \<noteq> ag_all_dates g'" "ag_latest g \<noteq> ag_latest g'"
    "ag_all_dates g' \<noteq> ag_all_dates g" "ag_latest g' \<noteq> ag_all_dates g" "ag_all_dates g' \<noteq> ag_latest g" "ag_latest g' \<noteq> ag_latest g"
  using assms by (auto simp: apart_def)

lemma active_groups_ok: "g \<in> set (active_groups tables) \<Longrightarrow> group_ok g"
  using all_groups_ok by (auto simp: active_groups_def all_groups_def split: if_splits)

lemma active_groups_apart: "sorted_wrt apart (active_groups tables)"
  using all_groups_apart by (simp add: active_groups_def)

lemma group_frame_trans: "group_frame g i s s' \<Longrightarrow> apart g g' \<Longrightarrow>
    ds_at s' (i, ag_all_dates g') = ds_at s (i, ag_all_dates g') \<and> ds_at s' (i, ag_latest g') = ds_at s (i, ag_latest g') \<and>
    dh_at s' (group_title g') = dh_at s (group_title g') \<and>
    (\<forall>spec \<in> set (ag_charts g'). ch_at s' (cs_name spec) = ch_at s (cs_name spec))"
  unfolding group_frame_def using apart_charts[of g g'] apart_names[of g g'] by simp

lemma installed_cong:
  assumes "installed exact read_text g owner i s"
    and "ds_at s' (i, ag_all_dates g) = ds_at s (i, ag_all_dates g)" and "ds_at s' (i, ag_latest g) = ds_at s (i, ag_latest g)"
    and "dh_at s' (group_title g) = dh_at s (group_title g)"
    and "\<And>spec. spec \<in> set (ag_charts g) \<Longrightarrow> ch_at s' (cs_name spec) = ch_at s (cs_name spec)"
  shows "installed exact read_text g owner i s'"
proof -
  have "list_all2 (\<lambda>spec c. ch_at s' (cs_name spec) = [c] \<and> chart_as spec (dataset_for a l spec) owner c \<and>
       (exact \<longrightarrow> ch_query_context c = Some [])) (ag_charts g) cs"
    if "list_all2 (\<lambda>spec c. ch_at s (cs_name spec) = [c] \<and> chart_as spec (dataset_for a l spec) owner c \<and>
       (exact \<longrightarrow> ch_query_context c = Some [])) (ag_charts g) cs" for a l cs
    using that assms(5) by (auto simp: list_all2_conv_all_nth)
  with assms(1) show ?thesis unfolding installed_def assms(2-4) by blast
qed

definition ensure_groups :: "(int list \<Rightarrow> int) \<Rightarrow> (string \<Rightarrow> string result) \<Rightarrow> string \<Rightarrow> int \<Rightarrow> asset_group list \<Rightarrow> unit ssx" where
  "ensure_groups fresh read_text owner i gs = sbind (sfor gs (\<lambda>g. create_assets fresh read_text g owner i)) (\<lambda>_. sret ())"

lemma ensure_groups_Nil: "ensure_groups fresh read_text owner i [] s = (Inr (), s)"
  by (simp add: ensure_groups_def sbind_def sret_run)

lemma ensure_groups_Cons:
  "ensure_groups fresh read_text owner i (g # gs) s =
     sbind (create_assets fresh read_text g owner i) (\<lambda>_. ensure_groups fresh read_text owner i gs) s"
  by (simp add: ensure_groups_def sbind_def sret_run split: prod.splits sum.splits)

lemma ensure_groups_run:
  assumes "ensure_groups fresh read_text owner i gs s = (Inr (), s')"
    and "wf_superset s" and "fresh_ok fresh" and "list_all group_ok gs" and "sorted_wrt apart gs"
  shows "wf_superset s' \<and> ss_databases s' = ss_databases s \<and>
    (\<forall>g \<in> set gs. (\<forall>spec \<in> set (ag_charts g). exact \<longrightarrow> ch_at s (cs_name spec) \<noteq> []) \<longrightarrow> installed exact read_text g owner i s') \<and>
    (\<forall>k. (\<forall>g \<in> set gs. k \<noteq> (i, ag_all_dates g) \<and> k \<noteq> (i, ag_latest g)) \<longrightarrow> ds_at s' k = ds_at s k) \<and>
    (\<forall>n. (\<forall>g \<in> set gs. n \<notin> cs_name ` set (ag_charts g)) \<longrightarrow> ch_at s' n = ch_at s n) \<and>
    (\<forall>t. (\<forall>g \<in> set gs. t \<noteq> group_title g) \<longrightarrow> dh_at s' t = dh_at s t)"
  using assms
proof (induction gs arbitrary: s)
  case Nil
  then show ?case by (simp add: ensure_groups_Nil)
next
  case (Cons g gs)
  from Cons.prems(1) obtain s1 where one: "create_assets fresh read_text g owner i s = (Inr (), s1)"
    and more: "ensure_groups fresh read_text owner i gs s1 = (Inr (), s')"
    unfolding ensure_groups_Cons by (auto elim!: sbind_InrE)
  from Cons.prems(4,5) have okg: "group_ok g" and rest: "list_all group_ok gs" "sorted_wrt apart gs"
    and ap: "\<And>g'. g' \<in> set gs \<Longrightarrow> apart g g'" by auto
  note c = create_assets_run[OF one Cons.prems(2,3) okg]
  note IH = Cons.IH[OF more c(1) Cons.prems(3) rest]
  have fr: "ds_at s' (i, ag_all_dates g) = ds_at s1 (i, ag_all_dates g)" "ds_at s' (i, ag_latest g) = ds_at s1 (i, ag_latest g)"
    "dh_at s' (group_title g) = dh_at s1 (group_title g)"
    "\<And>spec. spec \<in> set (ag_charts g) \<Longrightarrow> ch_at s' (cs_name spec) = ch_at s1 (cs_name spec)"
    using IH apart_names[OF ap] apart_charts(2)[OF ap] by simp_all
  have "installed exact read_text g owner i s'"
    if "\<forall>spec \<in> set (ag_charts g). exact \<longrightarrow> ch_at s (cs_name spec) \<noteq> []"
    using installed_cong[OF c(3)[OF that] fr] .
  moreover have "installed exact read_text g' owner i s'"
    if g': "g' \<in> set gs" and pre: "\<forall>spec \<in> set (ag_charts g'). exact \<longrightarrow> ch_at s (cs_name spec) \<noteq> []" for g'
    using IH g' pre group_frame_trans[OF c(2) ap[OF g']] by simp
  moreover have "ds_at s' k = ds_at s k"
    if "\<forall>g' \<in> set (g # gs). k \<noteq> (i, ag_all_dates g') \<and> k \<noteq> (i, ag_latest g')" for k
    using IH c(2) that unfolding group_frame_def by (simp del: split_paired_All)
  moreover have "ch_at s' n = ch_at s n" if "\<forall>g' \<in> set (g # gs). n \<notin> cs_name ` set (ag_charts g')" for n
    using IH c(2) that unfolding group_frame_def by simp
  moreover have "dh_at s' t = dh_at s t" if "\<forall>g' \<in> set (g # gs). t \<noteq> group_title g'" for t
    using IH c(2) that unfolding group_frame_def by simp
  moreover have "ss_databases s' = ss_databases s" using IH c(2) unfolding group_frame_def by simp
  ultimately show ?case using IH by (intro conjI) (simp_all del: split_paired_All)
qed

definition files_readable :: "(string \<Rightarrow> string result) \<Rightarrow> asset_group \<Rightarrow> bool" where
  "files_readable read_text g \<longleftrightarrow> (\<exists>a l. read_text (ag_all_dates g @ ''.sql'') = Inr a \<and> read_text (ag_latest g @ ''.sql'') = Inr l)"

lemma ensure_groups_total:
  assumes "list_all (\<lambda>g. group_unique g i s) gs" and "wf_superset s" and "fresh_ok fresh" and "list_all group_ok gs" and "sorted_wrt apart gs"
    and "list_all (files_readable read_text) gs"
  shows "\<exists>s'. ensure_groups fresh read_text owner i gs s = (Inr (), s')"
  using assms
proof (induction gs arbitrary: s)
  case Nil
  then show ?case by (simp add: ensure_groups_Nil)
next
  case (Cons g gs)
  from Cons.prems(4,5) have okg: "group_ok g" and rest: "list_all group_ok gs" "sorted_wrt apart gs"
    and ap: "\<And>g'. g' \<in> set gs \<Longrightarrow> apart g g'" by auto
  from Cons.prems(6) obtain a l where sql: "read_text (ag_all_dates g @ ''.sql'') = Inr a" "read_text (ag_latest g @ ''.sql'') = Inr l"
    by (auto simp: files_readable_def)
  from Cons.prems(1) have "group_unique g i s" by simp
  from create_assets_total[OF this Cons.prems(2,3) okg sql]
  obtain s1 where one: "create_assets fresh read_text g owner i s = (Inr (), s1)" by blast
  note c = create_assets_run[OF one Cons.prems(2,3) okg]
  have "group_unique g' i s1" if "g' \<in> set gs" for g'
    using Cons.prems(1) that group_frame_trans[OF c(2) ap[OF that]] by (simp add: group_unique_def list_all_iff)
  then have "list_all (\<lambda>g. group_unique g i s1) gs" by (simp add: list_all_iff)
  from Cons.IH[OF this c(1) Cons.prems(3) rest] Cons.prems(6)
  obtain s' where "ensure_groups fresh read_text owner i gs s1 = (Inr (), s')" by auto
  with one show ?case by (simp add: ensure_groups_Cons sbind_def)
qed

lemma ensure_groups_fixed:
  assumes "list_all (\<lambda>g. installed True read_text g owner i s) gs" and "wf_superset s" and "list_all group_ok gs"
  shows "ensure_groups fresh read_text owner i gs s = (Inr (), s)"
  using assms by (induction gs) (simp_all add: ensure_groups_Nil ensure_groups_Cons sbind_def create_assets_fixed)

lemma bootstrap_groups:
  assumes "getenv env ''SUPERSET_ADMIN_USERNAME'' ''admin'' \<in> set users" and "e_vars env ''SUPERSET_WAREHOUSE_URI'' = Some uri"
  shows "bootstrap_assets fresh env users tables read_text s =
    sbind (ensure_database fresh uri) (\<lambda>d.
      sbind (ensure_groups fresh read_text (getenv env ''SUPERSET_ADMIN_USERNAME'' ''admin'') (db_id d) (active_groups tables))
        (\<lambda>_. cleanup_empty_default_dashboards)) s"
proof -
  have two: "sbind (create_assets fresh read_text delinquency_group owner i) (\<lambda>_.
      sbind (swhen p (create_assets fresh read_text portfolio_group owner i)) (\<lambda>_.
      sbind (swhen r (create_assets fresh read_text repayment_group owner i)) (\<lambda>_. k))) =
    sbind (ensure_groups fresh read_text owner i
      (delinquency_group # (if p then [portfolio_group] else []) @ (if r then [repayment_group] else []))) (\<lambda>_. k)"
    for owner i p r and k :: "unit ssx"
    by (rule ext) (simp add: sbind_def swhen_run ensure_groups_Cons ensure_groups_Nil split: prod.splits sum.splits)
  show ?thesis
    using assms unfolding bootstrap_assets_def active_groups_def sseq_def create_delinquency_assets_def
      create_portfolio_assets_def create_repayment_assets_def two by simp
qed

lemma bootstrap_InrE:
  assumes "bootstrap_assets fresh env users tables read_text s = (Inr (), s')"
  obtains uri d s1 s2 where "getenv env ''SUPERSET_ADMIN_USERNAME'' ''admin'' \<in> set users"
    "e_vars env ''SUPERSET_WAREHOUSE_URI'' = Some uri" "ensure_database fresh uri s = (Inr d, s1)"
    "ensure_groups fresh read_text (getenv env ''SUPERSET_ADMIN_USERNAME'' ''admin'') (db_id d) (active_groups tables) s1 = (Inr (), s2)"
    "cleanup_empty_default_dashboards s2 = (Inr (), s')"
proof -
  from assms have admin: "getenv env ''SUPERSET_ADMIN_USERNAME'' ''admin'' \<in> set users"
    by (auto simp: bootstrap_assets_def sx_simps Let_def split: if_splits)
  with assms obtain uri where uri: "e_vars env ''SUPERSET_WAREHOUSE_URI'' = Some uri"
    by (auto simp: bootstrap_assets_def sx_simps Let_def split: option.splits)
  from assms show thesis
    unfolding bootstrap_groups[OF admin uri] by (auto elim!: sbind_InrE intro: that[OF admin uri])
qed

lemma ensure_database_run:
  assumes run: "ensure_database fresh uri s = (Inr d, s')" and wf: "wf_superset s" and fresh: "fresh_ok fresh"
  shows "wf_superset s'" and "rows_at db_name ''Analytics Warehouse'' (ss_databases s') = [d]" and "set_database uri d = d"
    and "n \<noteq> ''Analytics Warehouse'' \<Longrightarrow> rows_at db_name n (ss_databases s') = rows_at db_name n (ss_databases s)"
    and "ds_at s' = ds_at s" and "ch_at s' = ch_at s" and "dh_at s' = dh_at s"
proof -
  from run obtain rows where e: "ensure_row db_name db_id fresh ''Analytics Warehouse'' (new_database uri) (set_database uri)
        (ss_databases s) = Inr (d, rows)" and s': "s' = s\<lparr>ss_databases := rows\<rparr>"
    by (auto simp: ensure_database_def on_table_Inr)
  from wf have ids: "distinct (map db_id (ss_databases s))" by (simp add: wf_superset_def)
  show "wf_superset s'" using wf database_rows.ensure_distinct[OF e ids fresh] by (simp add: wf_superset_def s')
  show "rows_at db_name ''Analytics Warehouse'' (ss_databases s') = [d]" using database_rows.ensure_at[OF e ids] by (simp add: s')
  from e show "set_database uri d = d"
    by (cases rule: database_rows.ensure_Inr) (auto simp: set_database_def new_database_def)
  show "n \<noteq> ''Analytics Warehouse'' \<Longrightarrow> rows_at db_name n (ss_databases s') = rows_at db_name n (ss_databases s)"
    using database_rows.ensure_other[OF e ids] by (simp add: s')
qed (use run in \<open>auto simp: ensure_database_def on_table_Inr at_defs fun_eq_iff\<close>)

lemma ensure_database_fixed:
  assumes "rows_at db_name ''Analytics Warehouse'' (ss_databases s) = [d]" and "set_database uri d = d" and "wf_superset s"
  shows "ensure_database fresh uri s = (Inr d, s)"
  using assms database_rows.ensure_fixed[of "ss_databases s" d uri fresh]
  by (simp add: ensure_database_def on_table_def wf_superset_def)

lemma cleanup_run:
  assumes "cleanup_empty_default_dashboards s = (Inr (), s')"
  shows "wf_superset s \<Longrightarrow> wf_superset s'" and "ss_databases s' = ss_databases s" and "ds_at s' = ds_at s" and "ch_at s' = ch_at s"
    and "dh_at s' t = filter (\<lambda>h. \<not> (t = untitled_dashboard \<and> dh_slices h = [])) (dh_at s t)"
    and "cleanup_empty_default_dashboards s' = (Inr (), s')"
proof -
  from assms have s': "s' = s\<lparr>ss_dashboards := filter (\<lambda>h. \<not> (dh_title h = untitled_dashboard \<and> dh_slices h = [])) (ss_dashboards s)\<rparr>"
    by (simp add: cleanup_empty_default_dashboards_def sx_simps)
  show "wf_superset s \<Longrightarrow> wf_superset s'" by (simp add: s' wf_superset_def distinct_map_filter)
  show "ss_databases s' = ss_databases s" "ds_at s' = ds_at s" "ch_at s' = ch_at s" by (simp_all add: s' at_defs fun_eq_iff)
  show "dh_at s' t = filter (\<lambda>h. \<not> (t = untitled_dashboard \<and> dh_slices h = [])) (dh_at s t)"
    by (auto simp: s' dh_at_def rows_at_def intro!: filter_cong)
  show "cleanup_empty_default_dashboards s' = (Inr (), s')"
    by (simp add: s' cleanup_empty_default_dashboards_def sx_simps)
qed

lemma group_title_titled: "group_ok g \<Longrightarrow> group_title g \<noteq> untitled_dashboard"
  by (auto simp: group_ok_def group_title_def split: sum.splits)

lemma installed_cleanup:
  assumes "installed exact read_text g owner i s" and "cleanup_empty_default_dashboards s = (Inr (), s')" and "group_ok g"
  shows "installed exact read_text g owner i s'"
  using assms(1)
  by (rule installed_cong) (simp_all add: cleanup_run[OF assms(2)] group_title_titled[OF assms(3)])

lemma list_all_active_ok: "list_all group_ok (active_groups tables)"
  by (simp add: list_all_iff active_groups_ok)

text \<open>What a returning run has done, in the terms of the lookups.\<close>

lemma bootstrap_run:
  assumes run: "bootstrap_assets fresh env users tables read_text s = (Inr (), s')"
    and wf: "wf_superset s" and fresh: "fresh_ok fresh"
  obtains uri d where "e_vars env ''SUPERSET_WAREHOUSE_URI'' = Some uri"
    and "rows_at db_name ''Analytics Warehouse'' (ss_databases s') = [d]" and "set_database uri d = d"
    and "wf_superset s'" and "cleanup_empty_default_dashboards s' = (Inr (), s')"
    and "\<And>g exact. g \<in> set (active_groups tables) \<Longrightarrow>
      (\<forall>spec \<in> set (ag_charts g). exact \<longrightarrow> ch_at s (cs_name spec) \<noteq> []) \<Longrightarrow>
      installed exact read_text g (getenv env ''SUPERSET_ADMIN_USERNAME'' ''admin'') (db_id d) s'"
    and "\<And>n. n \<noteq> ''Analytics Warehouse'' \<Longrightarrow> rows_at db_name n (ss_databases s') = rows_at db_name n (ss_databases s)"
    and "\<And>k. (\<forall>g \<in> set (active_groups tables). k \<noteq> (db_id d, ag_all_dates g) \<and> k \<noteq> (db_id d, ag_latest g)) \<Longrightarrow> ds_at s' k = ds_at s k"
    and "\<And>n. (\<forall>g \<in> set (active_groups tables). n \<notin> cs_name ` set (ag_charts g)) \<Longrightarrow> ch_at s' n = ch_at s n"
    and "\<And>t. (\<forall>g \<in> set (active_groups tables). t \<noteq> group_title g) \<Longrightarrow>
      dh_at s' t = filter (\<lambda>h. \<not> (t = untitled_dashboard \<and> dh_slices h = [])) (dh_at s t)"
  using run
proof (rule bootstrap_InrE)
  fix uri d s1 s2
  let ?admin = "getenv env ''SUPERSET_ADMIN_USERNAME'' ''admin''"
  assume uri: "e_vars env ''SUPERSET_WAREHOUSE_URI'' = Some uri" and db: "ensure_database fresh uri s = (Inr d, s1)"
    and groups: "ensure_groups fresh read_text ?admin (db_id d) (active_groups tables) s1 = (Inr (), s2)"
    and clean: "cleanup_empty_default_dashboards s2 = (Inr (), s')"
  note d = ensure_database_run[OF db wf fresh]
  note g = ensure_groups_run[OF groups d(1) fresh list_all_active_ok active_groups_apart]
  note c = cleanup_run[OF clean]
  show thesis
  proof (rule that)
    show "e_vars env ''SUPERSET_WAREHOUSE_URI'' = Some uri" by (rule uri)
    show "rows_at db_name ''Analytics Warehouse'' (ss_databases s') = [d]" using d(2) g c(2) by simp
    show "set_database uri d = d" by (rule d(3))
    show "wf_superset s'" using g c(1) by blast
    show "cleanup_empty_default_dashboards s' = (Inr (), s')" by (rule c(6))
    show "installed exact read_text h ?admin (db_id d) s'"
      if "h \<in> set (active_groups tables)" "\<forall>spec \<in> set (ag_charts h). exact \<longrightarrow> ch_at s (cs_name spec) \<noteq> []" for h exact
    proof -
      have "installed exact read_text h ?admin (db_id d) s2" using g[where exact = exact] that by (simp add: d(6))
      then show ?thesis using clean active_groups_ok[OF that(1)] by (rule installed_cleanup)
    qed
    show "rows_at db_name n (ss_databases s') = rows_at db_name n (ss_databases s)" if "n \<noteq> ''Analytics Warehouse''" for n
      using d(4)[OF that] g c(2) by simp
    show "ds_at s' k = ds_at s k"
      if "\<forall>g \<in> set (active_groups tables). k \<noteq> (db_id d, ag_all_dates g) \<and> k \<noteq> (db_id d, ag_latest g)" for k
      using g that c(3) d(5) by (simp del: split_paired_All)
    show "ch_at s' n = ch_at s n" if "\<forall>g \<in> set (active_groups tables). n \<notin> cs_name ` set (ag_charts g)" for n
      using g that c(4) d(6) by simp
    show "dh_at s' t = filter (\<lambda>h. \<not> (t = untitled_dashboard \<and> dh_slices h = [])) (dh_at s t)"
      if "\<forall>g \<in> set (active_groups tables). t \<noteq> group_title g" for t
      using g that c(5) d(7) by simp
  qed
qed

lemma bootstrap_settled:
  assumes "bootstrap_assets fresh env users tables read_text s = (Inr (), s')" and "wf_superset s" and "fresh_ok fresh"
    and "e_vars env ''SUPERSET_WAREHOUSE_URI'' = Some uri"
  shows "\<exists>d. rows_at db_name ''Analytics Warehouse'' (ss_databases s') = [d] \<and> set_database uri d = d \<and> wf_superset s' \<and>
    cleanup_empty_default_dashboards s' = (Inr (), s') \<and>
    (\<forall>g \<in> set (active_groups tables). (\<forall>spec \<in> set (ag_charts g). exact \<longrightarrow> ch_at s (cs_name spec) \<noteq> []) \<longrightarrow>
      installed exact read_text g (getenv env ''SUPERSET_ADMIN_USERNAME'' ''admin'') (db_id d) s')"
proof (rule bootstrap_run[OF assms(1-3)])
  fix uri' d
  assume "e_vars env ''SUPERSET_WAREHOUSE_URI'' = Some uri'" and "set_database uri' d = d"
    and "rows_at db_name ''Analytics Warehouse'' (ss_databases s') = [d]" and "wf_superset s'"
    and "cleanup_empty_default_dashboards s' = (Inr (), s')"
    and inst: "\<And>g exact. g \<in> set (active_groups tables) \<Longrightarrow>
      (\<forall>spec \<in> set (ag_charts g). exact \<longrightarrow> ch_at s (cs_name spec) \<noteq> []) \<Longrightarrow>
      installed exact read_text g (getenv env ''SUPERSET_ADMIN_USERNAME'' ''admin'') (db_id d) s'"
  moreover from this(1) assms(4) have "uri' = uri" by simp
  ultimately show ?thesis by (intro exI[of _ d] conjI ballI impI inst) auto
qed

lemma installed_present:
  assumes "installed exact read_text g owner i s"
  shows "group_unique g i s" and "files_readable read_text g" and "spec \<in> set (ag_charts g) \<Longrightarrow> ch_at s (cs_name spec) \<noteq> []"
proof -
  from assms obtain a l cs h where ds: "ds_at s (i, ag_all_dates g) = [a]" "ds_at s (i, ag_latest g) = [l]"
    and cs: "list_all2 (\<lambda>spec c. ch_at s (cs_name spec) = [c] \<and> chart_as spec (dataset_for a l spec) owner c \<and>
       (exact \<longrightarrow> ch_query_context c = Some [])) (ag_charts g) cs" and h: "dh_at s (group_title g) = [h]"
    and r: "files_readable read_text g"
    unfolding installed_def files_readable_def by blast
  have one: "\<exists>c. ch_at s (cs_name spec) = [c]" if "spec \<in> set (ag_charts g)" for spec
    using cs that by (auto simp: list_all2_conv_all_nth in_set_conv_nth)
  then show "spec \<in> set (ag_charts g) \<Longrightarrow> ch_at s (cs_name spec) \<noteq> []" by fastforce
  show "files_readable read_text g" by (rule r)
  have "length (ch_at s (cs_name spec)) \<le> 1" if "spec \<in> set (ag_charts g)" for spec using one[OF that] by auto
  then show "group_unique g i s" by (simp add: group_unique_def ds h list_all_iff)
qed

text \<open>The parameters stored for a chart are read back as its datasource, its type and the parameters described.\<close>

definition params_ok :: "(string \<times> json) list \<Rightarrow> bool" where
  "params_ok ps \<longleftrightarrow> wf_json (JObj ps) \<and> list_all (\<lambda>kv. fst kv \<notin> {''datasource'', ''viz_type''}) ps"

lemma group_params_ok: "list_all (\<lambda>g. list_all (\<lambda>spec. params_ok (cs_params spec)) (ag_charts g)) all_groups"
  by code_simp

lemma dict_merge_fresh: "distinct (map fst (xs @ ys)) \<Longrightarrow> dict_merge xs ys = xs @ ys"
proof -
  assume d: "distinct (map fst (xs @ ys))"
  then have "dict_merge xs ys = dict_merge [] (xs @ ys)" using dict_merge_distinct[of xs] by (simp add: dict_merge_def)
  also have "\<dots> = xs @ ys" using d by (rule dict_merge_distinct)
  finally show ?thesis .
qed

lemma stored_params_read:
  assumes "g \<in> set all_groups" and "spec \<in> set (ag_charts g)" and "chart_as spec d owner c"
  shows "json_loads (ch_params c) = Inr (JObj ([(''datasource'', JStr (int_str d @ ''__table'')), (''viz_type'', JStr (cs_viz_type spec))] @ cs_params spec))"
proof -
  let ?head = "[(''datasource'', JStr (int_str d @ ''__table'')), (''viz_type'', JStr (cs_viz_type spec))]"
  have ok: "params_ok (cs_params spec)" using group_params_ok assms(1,2) by (auto simp: list_all_iff)
  then have dist: "distinct (map fst (?head @ cs_params spec))" by (auto simp: params_ok_def list_all_iff)
  then have "wf_json (JObj (?head @ cs_params spec))" using ok by (simp add: params_ok_def)
  from json_roundtrip[OF this] have "json_loads (full_params d (cs_viz_type spec) (cs_params spec)) = Inr (JObj (?head @ cs_params spec))"
    unfolding full_params_def dict_merge_fresh[OF dist] .
  moreover have "ch_params c = full_params d (cs_viz_type spec) (cs_params spec)" using assms(3) by (simp add: chart_as_def)
  ultimately show ?thesis by simp
qed

lemma bootstrap_total:
  assumes "getenv env ''SUPERSET_ADMIN_USERNAME'' ''admin'' \<in> set users" and "e_vars env ''SUPERSET_WAREHOUSE_URI'' = Some uri"
    and "length (rows_at db_name ''Analytics Warehouse'' (ss_databases s)) \<le> 1"
    and "\<And>g i. g \<in> set (active_groups tables) \<Longrightarrow> group_unique g i s \<and> files_readable read_text g"
    and wf: "wf_superset s" and fresh: "fresh_ok fresh"
  shows "\<exists>s'. bootstrap_assets fresh env users tables read_text s = (Inr (), s')"
proof -
  from assms(3) obtain d s1 where db: "ensure_database fresh uri s = (Inr d, s1)"
    using database_rows.ensure_total by (fastforce simp: ensure_database_def on_table_Inr)
  note d = ensure_database_run[OF db wf fresh]
  have "list_all (\<lambda>g. group_unique g (db_id d) s1) (active_groups tables)" "list_all (files_readable read_text) (active_groups tables)"
    using assms(4) by (simp_all add: list_all_iff group_unique_def d(5-7))
  from ensure_groups_total[OF this(1) d(1) fresh list_all_active_ok active_groups_apart this(2)]
  obtain s2 where "ensure_groups fresh read_text (getenv env ''SUPERSET_ADMIN_USERNAME'' ''admin'') (db_id d) (active_groups tables) s1 = (Inr (), s2)"
    by blast
  with db show ?thesis
    by (simp add: bootstrap_groups[OF assms(1,2)] sbind_def cleanup_empty_default_dashboards_def sput_run)
qed

text \<open>
  C28: A run that returns leaves one analytics database with the configured address and, for each
  dashboard whose mart exists, its two datasets, its charts on the right dataset, and the
  published dashboard showing exactly these charts in a layout that is a tree.
\<close>

theorem bootstrap_installs:
  assumes "fresh_ok fresh" and "wf_superset s"
    and "bootstrap_assets fresh env users tables read_text s = (Inr (), s')"
  shows "\<exists>d. rows_at db_name ''Analytics Warehouse'' (ss_databases s') = [d] \<and>
     Some (db_uri d) = e_vars env ''SUPERSET_WAREHOUSE_URI'' \<and> db_expose_in_sqllab d \<and>
     list_all (\<lambda>g. installed False read_text g (getenv env ''SUPERSET_ADMIN_USERNAME'' ''admin'') (db_id d) s') (active_groups tables)"
proof -
  from bootstrap_InrE[OF assms(3)] obtain uri where uri: "e_vars env ''SUPERSET_WAREHOUSE_URI'' = Some uri" by blast
  from bootstrap_settled[OF assms(3,2,1) uri, of False]
  obtain d where rows: "rows_at db_name ''Analytics Warehouse'' (ss_databases s') = [d]" and d: "set_database uri d = d"
    and inst: "list_all (\<lambda>g. installed False read_text g (getenv env ''SUPERSET_ADMIN_USERNAME'' ''admin'') (db_id d) s') (active_groups tables)"
    by (auto simp: list_all_iff)
  have "db_uri (set_database uri d) = uri" "db_expose_in_sqllab (set_database uri d)" by (simp_all add: set_database_def)
  then have "db_uri d = uri" "db_expose_in_sqllab d" by (simp_all add: d)
  then show ?thesis using rows uri inst by auto
qed



end
