(* ===== verification/Airflow_Trigger.thy ===== *)
theory Airflow_Trigger
  imports Http Secrets
begin

text \<open>
  \<^verbatim>\<open>src/scripts/airflow_trigger.py\<close>: starting a DAG run over the REST API of Airflow and waiting for
  its end.  The HTTP transport and the clock (in microseconds) are parameters over
  the state of the outside world; what the script prints is left out.  The waiting loop has a bound
  on its passes, with \<open>None\<close> when they do not suffice.

  Shown: whatever Airflow answers, the script stops polling once the time is up, so a bound given by the time-out is enough;
  and it reports success only when the last state it read is \<open>success\<close>.
\<close>

record 'w trigger_api =
  ta_http :: "http_req \<Rightarrow> ('w, http_reply) sx"
  ta_time :: "'w \<Rightarrow> int"
  ta_sleep :: "int \<Rightarrow> 'w \<Rightarrow> 'w"

definition base_url :: "os_env \<Rightarrow> string" where
  "base_url env = rstrip_slash (getenv env ''AIRFLOW_URL'' ''http://localhost:8080'')"

definition airflow_call :: "'w trigger_api \<Rightarrow> os_env \<Rightarrow> string \<Rightarrow> string \<Rightarrow> string option \<Rightarrow> json option \<Rightarrow> ('w, json) sx" where
  "airflow_call api env method path tok body =
     sbind (ta_http api \<lparr>hq_method = method, hq_url = base_url env @ path,
        hq_headers = (''Content-Type'', ''application/json'') #
          (case tok of None \<Rightarrow> [] | Some t \<Rightarrow> if t = [] then [] else [(''Authorization'', ''Bearer '' @ t)]),
        hq_data = map_option json_dumps body\<rparr>) (\<lambda>reply.
     case reply of
       Reply raw \<Rightarrow> if raw = [] then sret (JObj []) else slift (json_loads raw)
     | HttpError code text \<Rightarrow> sraise (SystemExit (method @ '' '' @ path @ '' -> '' @ int_str code @ '': '' @ take 500 text)))"

definition airflow_token :: "'w trigger_api \<Rightarrow> os_env \<Rightarrow> ('w, string) sx" where
  "airflow_token api env =
     sbind (airflow_call api env ''POST'' ''/auth/token'' None (Some (JObj
        [(''username'', JStr (getenv env ''AIRFLOW_ADMIN_USERNAME'' ''admin'')),
         (''password'', JStr (getenv env ''AIRFLOW_ADMIN_PASSWORD'' ''admin_dev_only''))]))) (\<lambda>r.
     sbind (slift (json_field r ''access_token'')) (\<lambda>t. sret (json_text t)))"

record trigger_args =
  tg_dag_id :: string
  tg_conf :: string
  tg_wait :: bool
  tg_timeout :: int

definition dag_path :: "trigger_args \<Rightarrow> string" where
  "dag_path a = ''/api/v2/dags/'' @ tg_dag_id a"

definition run_path :: "trigger_args \<Rightarrow> string \<Rightarrow> string" where
  "run_path a run_id = dag_path a @ ''/dagRuns/'' @ run_id"

definition run_ended :: "json \<Rightarrow> bool" where
  "run_ended state \<longleftrightarrow> state \<in> {JStr ''success'', JStr ''failed''}"

definition seconds :: "int \<Rightarrow> int" where
  "seconds n = n * 1000000"

fun poll_run :: "nat \<Rightarrow> 'w trigger_api \<Rightarrow> os_env \<Rightarrow> trigger_args \<Rightarrow> string \<Rightarrow> string \<Rightarrow> int \<Rightarrow> json \<Rightarrow> ('w, json option) sx" where
  "poll_run 0 api env a tok run_id deadline state = sret None"
| "poll_run (Suc fuel) api env a tok run_id deadline state =
     sbind (sget (ta_time api)) (\<lambda>t.
     if deadline \<le> t then sret (Some state)
     else sbind (airflow_call api env ''GET'' (run_path a run_id) (Some tok) None) (\<lambda>r.
       sbind (slift (json_field r ''state'')) (\<lambda>state'.
       if run_ended state' then sret (Some state')
       else sseq (sput (ta_sleep api (seconds 5))) (poll_run fuel api env a tok run_id deadline state'))))"

text \<open>The requests for the results of the task instances.\<close>

definition map_index :: "json \<Rightarrow> int result" where
  "map_index ti = rbind (json_get ti ''map_index'' (JInt (- 1))) (\<lambda>v. case v of JInt i \<Rightarrow> Inr i | _ \<Rightarrow> Inl (TypeError ''map_index''))"

definition fetch_result :: "'w trigger_api \<Rightarrow> os_env \<Rightarrow> trigger_args \<Rightarrow> string \<Rightarrow> string \<Rightarrow> json \<Rightarrow> ('w, unit) sx" where
  "fetch_result api env a tok run_id ti =
     sbind (slift (json_field ti ''task_id'')) (\<lambda>task_id.
     sbind (slift (map_index ti)) (\<lambda>index.
     sbind (slift (json_field ti ''state'')) (\<lambda>state.
     if state = JStr ''success'' \<and> index < 0 \<and> json_text task_id \<noteq> [] then
       sbind (airflow_call api env ''GET'' (run_path a run_id @ ''/taskInstances/'' @ json_text task_id @
                ''/xcomEntries/return_value?deserialize=true'') (Some tok) None) (\<lambda>xcom.
       sbind (slift (json_get xcom ''value'' JNull)) (\<lambda>_. sret ()))
     else sret ())))"

definition finish_run :: "'w trigger_api \<Rightarrow> os_env \<Rightarrow> trigger_args \<Rightarrow> string \<Rightarrow> string \<Rightarrow> json \<Rightarrow> ('w, int) sx" where
  "finish_run api env a tok run_id state =
     sbind (airflow_call api env ''GET'' (run_path a run_id @ ''/taskInstances'') (Some tok) None) (\<lambda>tis.
     sbind (slift (rbind (json_get tis ''task_instances'' (JArr [])) json_elements)) (\<lambda>instances.
     sbind (sfor instances (fetch_result api env a tok run_id)) (\<lambda>_.
     sret (if state = JStr ''success'' then 0 else 1))))"

definition trigger_main :: "nat \<Rightarrow> 'w trigger_api \<Rightarrow> os_env \<Rightarrow> trigger_args \<Rightarrow> ('w, int option) sx" where
  "trigger_main fuel api env a =
     sbind (airflow_token api env) (\<lambda>tok.
     sbind (airflow_call api env ''PATCH'' (dag_path a) (Some tok) (Some (JObj [(''is_paused'', JBool False)]))) (\<lambda>_.
     sbind (slift (json_loads (tg_conf a))) (\<lambda>conf.
     sbind (airflow_call api env ''POST'' (dag_path a @ ''/dagRuns'') (Some tok)
              (Some (JObj [(''logical_date'', JNull), (''conf'', conf)]))) (\<lambda>run.
     sbind (slift (json_field run ''dag_run_id'')) (\<lambda>rid.
     if \<not> tg_wait a then sret (Some 0)
     else sbind (sget (ta_time api)) (\<lambda>t.
       sbind (slift (json_get run ''state'' JNull)) (\<lambda>state.
       sbind (poll_run fuel api env a tok (json_text rid) (t + seconds (tg_timeout a)) state) (\<lambda>last.
       case last of
         None \<Rightarrow> sret None
       | Some state' \<Rightarrow> sbind (finish_run api env a tok (json_text rid) state') (\<lambda>code. sret (Some code))))))))))"

section \<open>The script stops waiting\<close>

text \<open>Documented of the outside: time does not go back, and sleeping takes the time asked for.\<close>

definition clock_ok :: "'w trigger_api \<Rightarrow> bool" where
  "clock_ok api \<longleftrightarrow> (\<forall>q w. ta_time api w \<le> ta_time api (snd (ta_http api q w))) \<and>
     (\<forall>d w. 0 \<le> d \<longrightarrow> ta_time api w + d \<le> ta_time api (ta_sleep api d w))"

lemma airflow_call_time:
  assumes "clock_ok api" and "airflow_call api env method path tok body w = (r, w')"
  shows "ta_time api w \<le> ta_time api w'"
proof -
  let ?q = "\<lparr>hq_method = method, hq_url = base_url env @ path,
        hq_headers = (''Content-Type'', ''application/json'') #
          (case tok of None \<Rightarrow> [] | Some t \<Rightarrow> if t = [] then [] else [(''Authorization'', ''Bearer '' @ t)]),
        hq_data = map_option json_dumps body\<rparr>"
  obtain a w1 where h: "ta_http api ?q w = (a, w1)" by fastforce
  then have "w' = w1"
    using assms(2) by (auto simp: airflow_call_def sbind_def sx_simps split: sum.splits http_reply.splits if_splits)
  moreover have "ta_time api w \<le> ta_time api (snd (ta_http api ?q w))"
    using assms(1) unfolding clock_ok_def by blast
  ultimately show ?thesis using h by simp
qed

lemma poll_run_ends:
  assumes "clock_ok api" and "(deadline - ta_time api w) div seconds 5 + 1 < int fuel" and "0 < fuel"
  shows "fst (poll_run fuel api env a tok rid deadline state w) \<noteq> Inr None"
  using assms(2,3)
proof (induction fuel arbitrary: state w)
  case (Suc fuel)
  show ?case
  proof (cases "deadline \<le> ta_time api w")
    case True
    then show ?thesis by (simp add: sbind_def sget_run sret_run)
  next
    case False
    obtain r w1 where c: "airflow_call api env ''GET'' (run_path a rid) (Some tok) None w = (r, w1)" by fastforce
    note t1 = airflow_call_time[OF assms(1) c]
    let ?w2 = "ta_sleep api (seconds 5) w1"
    have "ta_time api w1 + seconds 5 \<le> ta_time api ?w2" using assms(1) by (simp add: clock_ok_def seconds_def)
    with t1 have "deadline - ta_time api ?w2 \<le> deadline - ta_time api w - seconds 5" by simp
    then have "(deadline - ta_time api ?w2) div seconds 5 \<le> (deadline - ta_time api w - seconds 5) div seconds 5"
      by (intro zdiv_mono1) (simp_all add: seconds_def)
    also have "\<dots> = (deadline - ta_time api w) div seconds 5 - 1" by (simp add: seconds_def)
    finally have less: "(deadline - ta_time api ?w2) div seconds 5 + 1 < int fuel" using Suc.prems(1) by simp
    have "0 < fuel"
    proof -
      have "0 \<le> (deadline - ta_time api w) div seconds 5" using False by (simp add: seconds_def pos_imp_zdiv_nonneg_iff)
      with Suc.prems(1) show ?thesis by simp
    qed
    from Suc.IH[OF less this] False show ?thesis
      by (auto simp: sbind_def sget_run c slift_run sret_run sseq_run sput_run split: sum.splits)
  qed
qed simp

text \<open>
  The script ends: when time passes, a number of passes given by the time-out is enough, whatever
  Airflow answers, so waiting for a run never takes longer than asked for by more than one request.
\<close>

theorem trigger_ends:
  assumes "clock_ok api" and "seconds (max 0 (tg_timeout a)) div seconds 5 + 1 < int fuel"
  shows "fst (trigger_main fuel api env a w) \<noteq> Inr None"
proof -
  have poll: "fst (poll_run fuel api env a tok rid (t + seconds (tg_timeout a)) state w') \<noteq> Inr None" if "t = ta_time api w'" for tok rid t state w'
  proof (rule poll_run_ends[OF assms(1)])
    have "(t + seconds (tg_timeout a) - ta_time api w') div seconds 5 \<le> seconds (max 0 (tg_timeout a)) div seconds 5"
      using that by (intro zdiv_mono1) (simp_all add: seconds_def)
    with assms(2) show "(t + seconds (tg_timeout a) - ta_time api w') div seconds 5 + 1 < int fuel" by simp
    have "0 \<le> seconds (max 0 (tg_timeout a)) div seconds 5" by (simp add: seconds_def pos_imp_zdiv_nonneg_iff)
    with assms(2) show "0 < fuel" by simp
  qed
  have tail: "fst (sbind (sget (ta_time api)) (\<lambda>t. sbind (slift st) (\<lambda>state.
      sbind (poll_run fuel api env a tok rid (t + seconds (tg_timeout a)) state) (\<lambda>last.
       case last of None \<Rightarrow> sret None | Some state' \<Rightarrow> sbind (finish_run api env a tok rid state') (\<lambda>code. sret (Some code))))) v) \<noteq> Inr None"
    for st tok rid v
    using poll[of "ta_time api v" v tok rid] by (auto simp: sbind_def sget_run slift_run sret_run split: sum.splits prod.splits option.splits) (metis fst_conv)
  have bind: "fst (sbind m k v) \<noteq> Inr None" if "\<And>x u. fst (k x u) \<noteq> Inr None"
    for m :: "('a, 'b) sx" and k :: "'b \<Rightarrow> ('a, int option) sx" and v
    using that by (auto simp: sbind_def split: prod.splits sum.splits)
  show ?thesis
    unfolding trigger_main_def by (intro bind) (auto simp: sret_run intro!: bind tail)
qed

text \<open>Success is reported only for a run whose last state is success.\<close>

lemma finish_run_code: "fst (finish_run api env a tok rid state w) = Inr code \<Longrightarrow> code = 0 \<longleftrightarrow> state = JStr ''success''"
  by (auto simp: finish_run_def sbind_def sret_run split: sum.splits prod.splits if_splits)

end
