(* ===== verification/Superset_Examples.thy ===== *)
theory Superset_Examples
  imports Superset_Install Airflow_Trigger
begin

text \<open>
  The theorems on the Superset bootstrap and on the trigger script applied: an empty Superset next
  to a warehouse with the marts of two dashboards, a layout of two rows, and an Airflow that never answers with an end.
\<close>

section \<open>Layouts\<close>

definition ex_lookup :: chart_lookup where
  "ex_lookup = map_of [(''Arrears'', \<lparr>cl_id = 7, cl_slice_name = ''Arrears''\<rparr>), (''Buckets'', \<lparr>cl_id = 8, cl_slice_name = ''Buckets''\<rparr>)]"

definition ex_rows :: "row_spec list" where
  "ex_rows = [\<lparr>rs_id = ''ROW-1'', rs_charts = [''Arrears''], rs_default_width = None, rs_default_height = Some 50, rs_chart_sizes = []\<rparr>,
              \<lparr>rs_id = ''ROW-2'', rs_charts = [''Buckets''], rs_default_width = None, rs_default_height = Some 50, rs_chart_sizes = []\<rparr>]"

theorem build_layout_is_tree_witness: "\<not> isl (build_layout ex_rows ex_lookup) \<and> layout_tree (layout_of ex_lookup ex_rows)"
proof -
  have "placeable ex_lookup ex_rows" by code_simp
  from build_layout_is_tree[OF this] show ?thesis by auto
qed

section \<open>Bootstrap\<close>

definition ex_fresh :: "int list \<Rightarrow> int" where
  "ex_fresh ids = 1 + foldr max ids 0"

lemma ex_fresh_ok: "fresh_ok ex_fresh"
proof -
  have "x \<le> foldr max ids 0" if "x \<in> set ids" for x :: int and ids
    using that by (induction ids) auto
  then show ?thesis unfolding fresh_ok_def ex_fresh_def by fastforce
qed

definition ex_superset :: superset where
  "ex_superset = \<lparr>ss_databases = [], ss_datasets = [], ss_charts = [],
     ss_dashboards = [\<lparr>dh_id = 3, dh_title = ''Mine'', dh_slug = ''mine'', dh_published = False, dh_owners = [], dh_css = [],
       dh_json_metadata = ''{}'', dh_position_json = [], dh_slices = []\<rparr>]\<rparr>"

definition ex_superset_env :: os_env where
  "ex_superset_env = \<lparr>e_vars = map_of [(''SUPERSET_WAREHOUSE_URI'', ''postgresql://warehouse'')], e_fullmatch = (\<lambda>_ _. False),
     e_realpath = id, e_read_lines = (\<lambda>_. None)\<rparr>"

definition ex_marts :: "(string \<times> string) list" where
  "ex_marts = [(''analytics'', ''mart_portfolio_health'')]"

definition ex_bootstrap :: "superset \<Rightarrow> unit result \<times> superset" where
  "ex_bootstrap = bootstrap_assets ex_fresh ex_superset_env [''admin''] ex_marts (\<lambda>_. Inr ''SELECT 1'')"

lemma ex_superset_wf: "wf_superset ex_superset"
  by code_simp

lemma ex_bootstrap_run: "ex_bootstrap ex_superset = (Inr (), snd (ex_bootstrap ex_superset))"
proof -
  have unique: "group_unique g i ex_superset" if "group_title g \<noteq> ''Mine''" for g i
    using that by (simp add: group_unique_def ds_at_def ch_at_def dh_at_def ex_superset_def rows_at_def list_all_iff)
  have db: "rows_at db_name n (ss_databases ex_superset) = []" for n by (simp add: ex_superset_def rows_at_def)
  have "list_all (\<lambda>g. group_title g \<noteq> ''Mine'') (active_groups ex_marts)" by code_simp
  then have "\<exists>s'. ex_bootstrap ex_superset = (Inr (), s')" unfolding ex_bootstrap_def
    by (intro bootstrap_total[where uri = "''postgresql://warehouse''"] ex_superset_wf ex_fresh_ok)
      (auto simp: list_all_iff files_readable_def unique ex_superset_env_def getenv_def db)
  then show ?thesis by auto
qed

theorem bootstrap_installs_witness:
  "\<exists>d. rows_at db_name ''Analytics Warehouse'' (ss_databases (snd (ex_bootstrap ex_superset))) = [d] \<and> db_uri d = ''postgresql://warehouse'' \<and>
     installed False (\<lambda>_. Inr ''SELECT 1'') portfolio_group ''admin'' (db_id d) (snd (ex_bootstrap ex_superset))"
proof -
  have "portfolio_group \<in> set (active_groups ex_marts)" by (simp add: active_groups_def ex_marts_def mart_exists_def)
  moreover have "e_vars ex_superset_env ''SUPERSET_WAREHOUSE_URI'' = Some ''postgresql://warehouse''"
    "getenv ex_superset_env ''SUPERSET_ADMIN_USERNAME'' ''admin'' = ''admin''" by code_simp+
  ultimately show ?thesis
    using bootstrap_installs[OF ex_fresh_ok ex_superset_wf ex_bootstrap_run[unfolded ex_bootstrap_def]]
    unfolding ex_bootstrap_def list_all_iff by auto
qed



section \<open>Waiting for a run\<close>

text \<open>The outside world is the time; every request takes a second and is answered the same way.\<close>

definition ex_trigger_api :: "int trigger_api" where
  "ex_trigger_api = \<lparr>ta_http = (\<lambda>q w. (Inr (Reply (json_dumps (JObj
        [(''access_token'', JStr ''t''), (''dag_run_id'', JStr ''r''), (''state'', JStr ''running'')]))), w + seconds 1)),
     ta_time = id, ta_sleep = (\<lambda>d w. w + d)\<rparr>"

definition ex_trigger_args :: trigger_args where
  "ex_trigger_args = \<lparr>tg_dag_id = ''fbi_maintenance'', tg_conf = ''{}'', tg_wait = True, tg_timeout = 60\<rparr>"

theorem trigger_ends_witness: "fst (trigger_main 14 ex_trigger_api ex_superset_env ex_trigger_args 0) \<noteq> Inr None"
proof (rule trigger_ends)
  show "clock_ok ex_trigger_api" by (simp add: clock_ok_def ex_trigger_api_def seconds_def)
  show "seconds (max 0 (tg_timeout ex_trigger_args)) div seconds 5 + 1 < int 14" by code_simp
qed

end
