(* ===== verification/Argparse.thy ===== *)
theory Argparse
  imports Prelude
begin

text \<open>
  The part of Python's \<^verbatim>\<open>argparse\<close> the command lines use: long options with a value, switches, repeatable
  options, choices, integers, required options, defaults, unambiguous prefixes of an option, one
  positional argument, and sub-commands.  An error of the command line ends the program, as does
  asking for help.  Not covered is the separator \<^verbatim>\<open>--\<close>.

  Shown: an accepted command line has a value of the declared type and among the declared choices for
  every option, or its default where the option may be left out; and options written as
  \<^verbatim>\<open>--name=value\<close> are read as the values given.
\<close>

section \<open>Options\<close>

datatype arg_type = TextArg | IntArg | ShardArg

datatype arg_action = StoreArg | StoreTrue | AppendArg | HelpArg

datatype arg_value = NoValue | TextValue string | IntValue int | BoolValue bool | ListValue "string list" | ShardValue int int

record arg_opt =
  ao_flag :: string
  ao_dest :: string
  ao_action :: arg_action
  ao_type :: arg_type
  ao_required :: bool
  ao_choices :: "string list option"
  ao_default :: arg_value

definition dest_of :: "string \<Rightarrow> string" where
  "dest_of flag = map (\<lambda>c. if c = CHR ''-'' then CHR ''_'' else c) (dropWhile (\<lambda>c. c = CHR ''-'') flag)"

definition opt :: "string \<Rightarrow> arg_opt" where
  "opt flag = \<lparr>ao_flag = flag, ao_dest = dest_of flag, ao_action = StoreArg, ao_type = TextArg, ao_required = False,
     ao_choices = None, ao_default = NoValue\<rparr>"

definition required_opt :: "string \<Rightarrow> arg_opt" where
  "required_opt flag = (opt flag)\<lparr>ao_required := True\<rparr>"

definition opt_default :: "string \<Rightarrow> string \<Rightarrow> arg_opt" where
  "opt_default flag d = (opt flag)\<lparr>ao_default := TextValue d\<rparr>"

definition int_opt :: "string \<Rightarrow> int \<Rightarrow> arg_opt" where
  "int_opt flag d = (opt flag)\<lparr>ao_type := IntArg, ao_default := IntValue d\<rparr>"

definition switch :: "string \<Rightarrow> arg_opt" where
  "switch flag = (opt flag)\<lparr>ao_action := StoreTrue, ao_default := BoolValue False\<rparr>"

definition help_opts :: "arg_opt list" where
  "help_opts = [(opt ''-h'')\<lparr>ao_action := HelpArg\<rparr>, (opt ''--help'')\<lparr>ao_action := HelpArg\<rparr>]"

definition usage_error :: "string \<Rightarrow> 'a result" where
  "usage_error msg = Inl (SystemExit msg)"

section \<open>Classification of the arguments\<close>

datatype arg_kind = Plain | Unknown | Flag arg_opt "string option"

definition split_eq :: "string \<Rightarrow> string \<times> string option" where
  "split_eq a = (case dropWhile (\<lambda>c. c \<noteq> CHR ''='') a of [] \<Rightarrow> (a, None) | _ # v \<Rightarrow> (takeWhile (\<lambda>c. c \<noteq> CHR ''='') a, Some v))"

definition negative_number :: "string \<Rightarrow> bool" where
  "negative_number a = (case a of
     [] \<Rightarrow> False
   | c # r \<Rightarrow> c = CHR ''-'' \<and> (py_isdigit r \<or>
       (case dropWhile is_digit_char r of [] \<Rightarrow> False | d # f \<Rightarrow> d = CHR ''.'' \<and> py_isdigit f)))"

definition exact_flag :: "arg_opt list \<Rightarrow> string \<Rightarrow> arg_opt option" where
  "exact_flag opts f = find (\<lambda>o1. ao_flag o1 = f) opts"

definition candidates :: "arg_opt list \<Rightarrow> string \<Rightarrow> arg_opt list" where
  "candidates opts f = (if starts_with ''--'' f then filter (\<lambda>o1. starts_with f (ao_flag o1)) opts
     else filter (\<lambda>o1. ao_flag o1 = take 2 f) opts)"

definition classify_arg :: "arg_opt list \<Rightarrow> string \<Rightarrow> arg_kind result" where
  "classify_arg opts a =
     (if \<not> starts_with ''-'' a then Inr Plain
      else case exact_flag opts a of
        Some o1 \<Rightarrow> Inr (Flag o1 None)
      | None \<Rightarrow>
          if length a = 1 then Inr Plain
          else case split_eq a of (f, v) \<Rightarrow>
            (case (if v = None then None else exact_flag opts f) of
               Some o1 \<Rightarrow> Inr (Flag o1 v)
             | None \<Rightarrow>
                 (case candidates opts f of
                    [o1] \<Rightarrow> Inr (Flag o1 v)
                  | [] \<Rightarrow> Inr (if negative_number a \<or> CHR '' '' \<in> set a then Plain else Unknown)
                  | _ \<Rightarrow> usage_error (''ambiguous option: '' @ a))))"

section \<open>Consumption\<close>

type_synonym namespace = "(string \<times> arg_value) list"

definition convert_arg :: "(string \<Rightarrow> string + (int \<times> int)) \<Rightarrow> arg_opt \<Rightarrow> string \<Rightarrow> arg_value result" where
  "convert_arg shard o1 text1 =
     rbind (case ao_type o1 of
              TextArg \<Rightarrow> Inr (TextValue text1)
            | IntArg \<Rightarrow> (case int_of_str text1 of
                 None \<Rightarrow> usage_error (''argument '' @ ao_flag o1 @ '': invalid int value: '' @ text1) | Some i \<Rightarrow> Inr (IntValue i))
            | ShardArg \<Rightarrow> (case shard text1 of Inl msg \<Rightarrow> usage_error (''argument '' @ ao_flag o1 @ '': '' @ msg) | Inr (i, n) \<Rightarrow> Inr (ShardValue i n))) (\<lambda>v.
     case ao_choices o1 of
       None \<Rightarrow> Inr v
     | Some cs \<Rightarrow> if v \<in> TextValue ` set cs then Inr v else usage_error (''argument '' @ ao_flag o1 @ '': invalid choice: '' @ text1))"

definition store_arg :: "(string \<Rightarrow> string + (int \<times> int)) \<Rightarrow> arg_opt \<Rightarrow> string \<Rightarrow> namespace \<Rightarrow> namespace result" where
  "store_arg shard o1 text1 ns =
     rbind (convert_arg shard o1 text1) (\<lambda>v.
     Inr ((ao_dest o1,
       (if ao_action o1 = AppendArg
        then ListValue ((case map_of ns (ao_dest o1) of Some (ListValue xs) \<Rightarrow> xs | _ \<Rightarrow> []) @ [text1])
        else v)) # ns))"

text \<open>
  The arguments in their order: options with their values, the positional argument (if there is one and it was not
  met yet), and what is left over.
\<close>

fun consume :: "(string \<Rightarrow> string + (int \<times> int)) \<Rightarrow> arg_opt option \<Rightarrow> namespace \<Rightarrow> string list \<Rightarrow> (string \<times> arg_kind) list \<Rightarrow>
    (namespace \<times> string list) result" where
  "consume shard pos ns extras [] = Inr (ns, extras)"
| "consume shard pos ns extras ((a, k) # rest) =
     (case k of
        Plain \<Rightarrow>
          (case pos of
             Some o1 \<Rightarrow> rbind (store_arg shard o1 a ns) (\<lambda>ns'. consume shard None ns' extras rest)
           | None \<Rightarrow> consume shard None ns (extras @ [a]) rest)
      | Unknown \<Rightarrow> consume shard pos ns (extras @ [a]) rest
      | Flag o1 explicit \<Rightarrow>
          (if ao_action o1 = HelpArg then usage_error ''help''
           else if ao_action o1 = StoreTrue then
             (if explicit \<noteq> None then usage_error (''argument '' @ ao_flag o1 @ '': ignored explicit argument'')
              else consume shard pos ((ao_dest o1, BoolValue True) # ns) extras rest)
           else case explicit of
             Some v \<Rightarrow> rbind (store_arg shard o1 v ns) (\<lambda>ns'. consume shard pos ns' extras rest)
           | None \<Rightarrow>
               (case rest of
                  (b, Plain) # rest' \<Rightarrow> rbind (store_arg shard o1 b ns) (\<lambda>ns'. consume shard pos ns' extras rest')
                | _ \<Rightarrow> usage_error (''argument '' @ ao_flag o1 @ '': expected one argument''))))"

definition tag_args :: "arg_opt list \<Rightarrow> string list \<Rightarrow> (string \<times> arg_kind) list result" where
  "tag_args opts args = rmap (\<lambda>a. rbind (classify_arg opts a) (\<lambda>k. Inr (a, k))) args"

definition with_defaults :: "arg_opt list \<Rightarrow> namespace \<Rightarrow> namespace" where
  "with_defaults opts ns = map (\<lambda>o1. (ao_dest o1, case map_of ns (ao_dest o1) of None \<Rightarrow> ao_default o1 | Some v \<Rightarrow> v)) opts"

text \<open>\<^verbatim>\<open>parse_args\<close> of a parser with options and at most one positional argument, without sub-commands.\<close>

definition parse_flat :: "(string \<Rightarrow> string + (int \<times> int)) \<Rightarrow> arg_opt list \<Rightarrow> arg_opt option \<Rightarrow> string list \<Rightarrow> namespace result" where
  "parse_flat shard opts pos args =
     rbind (tag_args (help_opts @ opts) args) (\<lambda>tagged.
     rbind (consume shard pos [] [] tagged) (\<lambda>(ns, extras).
     let all = opts @ (case pos of None \<Rightarrow> [] | Some o1 \<Rightarrow> [o1]) in
     if list_ex (\<lambda>o1. ao_required o1 \<and> map_of ns (ao_dest o1) = None) all then usage_error ''the following arguments are required''
     else if extras \<noteq> [] then usage_error (''unrecognized arguments: '' @ py_join '' '' extras)
     else Inr (with_defaults all ns)))"

text \<open>The options before the name of a sub-command, the name, and the arguments behind it.\<close>

fun top_args :: "namespace \<Rightarrow> (string \<times> arg_kind) list \<Rightarrow> (namespace \<times> string \<times> string list) result" where
  "top_args ns [] = usage_error ''the following arguments are required: command''"
| "top_args ns ((a, k) # rest) =
     (case k of
        Plain \<Rightarrow> Inr (ns, a, map fst rest)
      | Unknown \<Rightarrow> usage_error (''unrecognized arguments: '' @ a)
      | Flag o1 explicit \<Rightarrow>
          (if ao_action o1 = HelpArg then usage_error ''help''
           else case explicit of
             Some v \<Rightarrow> top_args ((ao_dest o1, TextValue v) # ns) rest
           | None \<Rightarrow>
               (case rest of
                  (b, Plain) # rest' \<Rightarrow> top_args ((ao_dest o1, TextValue b) # ns) rest'
                | _ \<Rightarrow> usage_error (''argument '' @ ao_flag o1 @ '': expected one argument''))))"

definition parse_commands :: "arg_opt list \<Rightarrow> (string \<times> arg_opt list) list \<Rightarrow> string list \<Rightarrow> (string \<times> namespace) result" where
  "parse_commands top_opts subs args =
     rbind (tag_args (help_opts @ top_opts) args) (\<lambda>tagged.
     rbind (top_args [] tagged) (\<lambda>(ns, command, rest).
     case map_of subs command of
       None \<Rightarrow> usage_error (''argument command: invalid choice: '' @ command)
     | Some opts \<Rightarrow>
         rbind (parse_flat (\<lambda>_. Inl []) opts None rest) (\<lambda>sub.
         Inr (command, with_defaults top_opts ns @ sub))))"

section \<open>Accepted values conform\<close>

definition conforms :: "arg_opt \<Rightarrow> arg_value \<Rightarrow> bool" where
  "conforms o1 v = (case ao_action o1 of
     StoreTrue \<Rightarrow> v = BoolValue True
   | AppendArg \<Rightarrow> (case v of ListValue xs \<Rightarrow> xs \<noteq> [] | _ \<Rightarrow> False)
   | HelpArg \<Rightarrow> False
   | StoreArg \<Rightarrow>
       (case ao_type o1 of
          TextArg \<Rightarrow> (case v of TextValue s \<Rightarrow> (case ao_choices o1 of None \<Rightarrow> True | Some cs \<Rightarrow> s \<in> set cs) | _ \<Rightarrow> False)
        | IntArg \<Rightarrow> (case v of IntValue _ \<Rightarrow> True | _ \<Rightarrow> False)
        | ShardArg \<Rightarrow> (case v of ShardValue _ _ \<Rightarrow> True | _ \<Rightarrow> False)))"

definition all_conform :: "arg_opt list \<Rightarrow> namespace \<Rightarrow> bool" where
  "all_conform opts ns \<longleftrightarrow> list_all (\<lambda>(d, v). list_ex (\<lambda>o1. ao_dest o1 = d \<and> conforms o1 v) opts) ns"

definition opts_tagged :: "arg_opt list \<Rightarrow> (string \<times> arg_kind) list \<Rightarrow> bool" where
  "opts_tagged opts tagged \<longleftrightarrow> list_all (\<lambda>(_, k). case k of Flag o1 _ \<Rightarrow> o1 \<in> set opts \<or> ao_action o1 = HelpArg | _ \<Rightarrow> True) tagged"

lemma convert_conforms:
  assumes "convert_arg shard o1 s = Inr v" and "ao_action o1 = StoreArg"
  shows "conforms o1 v"
  using assms by (auto simp: convert_arg_def conforms_def usage_error_def split: arg_type.splits option.splits if_splits sum.splits prod.splits)

lemma store_arg_conforms:
  assumes "store_arg shard o1 s ns = Inr ns'" and "all_conform opts ns" and "o1 \<in> set opts" and "ao_action o1 \<in> {StoreArg, AppendArg}"
  shows "all_conform opts ns'"
proof -
  from assms(1) obtain v where v: "convert_arg shard o1 s = Inr v" and ns': "ns' = (ao_dest o1,
       (if ao_action o1 = AppendArg then ListValue ((case map_of ns (ao_dest o1) of Some (ListValue xs) \<Rightarrow> xs | _ \<Rightarrow> []) @ [s]) else v)) # ns"
    by (auto simp: store_arg_def rbind_Inr_iff)
  have "conforms o1 (snd (hd ns'))" using assms(4) convert_conforms[OF v] by (auto simp: ns' conforms_def)
  with assms(2,3) show ?thesis by (auto simp: ns' all_conform_def list_ex_iff)
qed

text \<open>An invariant of the namespace that storing an option and setting a switch keep is kept by the whole consumption.\<close>

lemma consume_keeps:
  assumes switch: "\<And>o1 ns. I ns \<Longrightarrow> o1 \<in> set opts \<Longrightarrow> ao_action o1 = StoreTrue \<Longrightarrow> I ((ao_dest o1, BoolValue True) # ns)"
    and "consume shard pos ns extras tagged = Inr (ns', extras')" and "I ns" and "opts_tagged opts tagged"
    and "\<And>o1. pos = Some o1 \<Longrightarrow> o1 \<in> set opts \<and> ao_action o1 = StoreArg"
    and "\<And>o1 s ns ns'. store_arg shard o1 s ns = Inr ns' \<Longrightarrow> I ns \<Longrightarrow> o1 \<in> set opts \<Longrightarrow> ao_action o1 \<in> {StoreArg, AppendArg} \<Longrightarrow> I ns'"
  shows "I ns'"
  using assms(2-)
proof (induction shard pos ns extras tagged arbitrary: ns' extras' rule: consume.induct)
  case (2 shard pos ns extras a k rest)
  note store = "2.prems"(5)
  have rest: "opts_tagged opts rest" using "2.prems"(3) by (simp add: opts_tagged_def)
  show ?case
  proof (cases k)
    case Plain
    show ?thesis
    proof (cases pos)
      case None
      show ?thesis by (rule "2.IH"(1)[OF Plain None _ "2.prems"(2) rest _ store]) (use "2.prems"(1) Plain None in simp_all)
    next
      case (Some o1)
      with "2.prems"(1) Plain obtain n1 where n1: "store_arg shard o1 a ns = Inr n1" and run: "consume shard None n1 extras rest = Inr (ns', extras')"
        by (auto simp: rbind_Inr_iff)
      have "I n1" using store[OF n1 "2.prems"(2)] "2.prems"(4)[OF Some] by simp
      from "2.IH"(2)[OF Plain Some run this rest _ store] show ?thesis by simp
    qed
  next
    case Unknown
    show ?thesis by (rule "2.IH"(3)[OF Unknown _ "2.prems"(2) rest "2.prems"(4) store]) (use "2.prems"(1) Unknown in simp_all)
  next
    case (Flag o1 explicit)
    with "2.prems"(1,3) have no_help: "ao_action o1 \<noteq> HelpArg" and o1: "o1 \<in> set opts" by (auto simp: usage_error_def opts_tagged_def)
    show ?thesis
    proof (cases "ao_action o1 = StoreTrue")
      case True
      with "2.prems"(1) Flag no_help have none: "\<not> explicit \<noteq> None"
        and run: "consume shard pos ((ao_dest o1, BoolValue True) # ns) extras rest = Inr (ns', extras')"
        by (auto simp: usage_error_def split: if_splits)
      from "2.IH"(4)[OF Flag no_help True none run switch[OF "2.prems"(2) o1 True] rest "2.prems"(4) store] show ?thesis by simp
    next
      case False
      have act: "ao_action o1 \<in> {StoreArg, AppendArg}" using no_help False by (cases "ao_action o1") auto
      show ?thesis
      proof (cases explicit)
        case (Some v)
        with "2.prems"(1) Flag no_help False obtain n1 where n1: "store_arg shard o1 v ns = Inr n1" and run: "consume shard pos n1 extras rest = Inr (ns', extras')"
          by (auto simp: rbind_Inr_iff)
        from "2.IH"(6)[OF Flag no_help False Some run store[OF n1 "2.prems"(2) o1 act] rest "2.prems"(4) store] show ?thesis by simp
      next
        case None
        with "2.prems"(1) Flag no_help False obtain b rest' n1 where r: "rest = (b, Plain) # rest'" and n1: "store_arg shard o1 b ns = Inr n1"
          and run: "consume shard pos n1 extras rest' = Inr (ns', extras')"
          by (auto simp: rbind_Inr_iff usage_error_def split: list.split_asm prod.split_asm arg_kind.split_asm)
        have "opts_tagged opts rest'" using rest r by (simp add: opts_tagged_def)
        from "2.IH"(5)[OF Flag no_help False None r refl refl run store[OF n1 "2.prems"(2) o1 act] this "2.prems"(4) store] show ?thesis by simp
      qed
    qed
  qed
qed simp

lemma consume_conforms:
  assumes "consume shard pos ns extras tagged = Inr (ns', extras')" and "all_conform opts ns" and "opts_tagged opts tagged"
    and "\<And>o1. pos = Some o1 \<Longrightarrow> o1 \<in> set opts \<and> ao_action o1 = StoreArg"
  shows "all_conform opts ns'"
proof (rule consume_keeps[where I = "all_conform opts", OF _ assms])
  show "all_conform opts ((ao_dest o1, BoolValue True) # ns)" if "all_conform opts ns" "o1 \<in> set opts" "ao_action o1 = StoreTrue" for o1 ns
    using that by (auto simp: all_conform_def list_ex_iff conforms_def)
qed (assumption | rule store_arg_conforms)+

lemma exact_flag_member: "exact_flag opts f = Some o1 \<Longrightarrow> o1 \<in> set opts"
  by (auto simp: exact_flag_def find_Some_iff)

lemma classify_member:
  assumes "classify_arg opts a = Inr (Flag o1 v)"
  shows "o1 \<in> set opts"
proof -
  have one: "o1 \<in> set opts" if "candidates opts f = [o1]" for f
  proof -
    have "o1 \<in> set (candidates opts f)" using that by simp
    then show ?thesis by (simp add: candidates_def split: if_splits)
  qed
  from assms show ?thesis
    by (auto simp: classify_arg_def usage_error_def split: if_split_asm option.split_asm list.split_asm prod.split_asm dest: exact_flag_member one)
qed

lemma tag_args_opts:
  assumes "tag_args (help_opts @ opts) args = Inr tagged"
  shows "opts_tagged opts tagged"
  using assms unfolding tag_args_def
proof (induction args arbitrary: tagged)
  case (Cons a args)
  then obtain k ks where k: "classify_arg (help_opts @ opts) a = Inr k" and ks: "tagged = (a, k) # ks"
    "rmap (\<lambda>a. rbind (classify_arg (help_opts @ opts) a) (\<lambda>k. Inr (a, k))) args = Inr ks"
    by (auto simp: rbind_Inr_iff)
  have "case k of Flag o1 _ \<Rightarrow> o1 \<in> set opts \<or> ao_action o1 = HelpArg | _ \<Rightarrow> True"
    using classify_member[of "help_opts @ opts" a] k by (auto simp: help_opts_def split: arg_kind.splits)
  with Cons.IH[OF ks(2)] ks(1) show ?case by (simp add: opts_tagged_def)
qed (simp add: opts_tagged_def)

text \<open>What a parser gives for an option: a conforming value, or the default of an option that is not required.\<close>

definition option_ok :: "namespace \<Rightarrow> arg_opt \<Rightarrow> bool" where
  "option_ok ns o1 \<longleftrightarrow> (case map_of ns (ao_dest o1) of None \<Rightarrow> False | Some v \<Rightarrow> conforms o1 v \<or> v = ao_default o1 \<and> \<not> ao_required o1)"

abbreviation with_pos :: "arg_opt list \<Rightarrow> arg_opt option \<Rightarrow> arg_opt list" where
  "with_pos opts pos \<equiv> opts @ (case pos of None \<Rightarrow> [] | Some o1 \<Rightarrow> [o1])"

lemma opts_tagged_more: "opts_tagged opts tagged \<Longrightarrow> set opts \<subseteq> set opts' \<Longrightarrow> opts_tagged opts' tagged"
  by (fastforce simp: opts_tagged_def list_all_iff split: arg_kind.splits)

lemma parse_flat_given:
  assumes "parse_flat shard opts pos args = Inr ns" and pos: "\<And>o1. pos = Some o1 \<Longrightarrow> ao_action o1 = StoreArg"
  obtains explicit tagged where "tag_args (help_opts @ opts) args = Inr tagged" "consume shard pos [] [] tagged = Inr (explicit, [])"
    "all_conform (with_pos opts pos) explicit" "ns = with_defaults (with_pos opts pos) explicit"
    "\<not> list_ex (\<lambda>o1. ao_required o1 \<and> map_of explicit (ao_dest o1) = None) (with_pos opts pos)"
proof -
  from assms(1) obtain tagged explicit where t: "tag_args (help_opts @ opts) args = Inr tagged" and c: "consume shard pos [] [] tagged = Inr (explicit, [])"
    and req: "\<not> list_ex (\<lambda>o1. ao_required o1 \<and> map_of explicit (ao_dest o1) = None) (with_pos opts pos)" and ns: "ns = with_defaults (with_pos opts pos) explicit"
    by (auto simp: parse_flat_def rbind_Inr_iff usage_error_def Let_def split: if_splits)
  have "opts_tagged (with_pos opts pos) tagged" using tag_args_opts[OF t] by (rule opts_tagged_more) simp
  from consume_conforms[OF c _ this] pos have "all_conform (with_pos opts pos) explicit" by (auto simp: all_conform_def)
  with t c ns req show ?thesis by (intro that)
qed

lemma parse_flat_conforms:
  assumes "parse_flat shard opts pos args = Inr ns" and dist: "distinct (map ao_dest (with_pos opts pos))"
    and pos: "\<And>o1. pos = Some o1 \<Longrightarrow> ao_action o1 = StoreArg"
  shows "map fst ns = map ao_dest (with_pos opts pos) \<and> list_all (option_ok ns) (with_pos opts pos)"
proof -
  let ?all = "with_pos opts pos"
  obtain explicit tagged where conf: "all_conform ?all explicit" and ns: "ns = with_defaults ?all explicit"
    and req: "\<not> list_ex (\<lambda>o1. ao_required o1 \<and> map_of explicit (ao_dest o1) = None) ?all"
    using assms(1) pos by (rule parse_flat_given)
  have "option_ok ns o1" if o1: "o1 \<in> set ?all" for o1
  proof -
    have "map_of ns (ao_dest o1) = Some (case map_of explicit (ao_dest o1) of None \<Rightarrow> ao_default o1 | Some v \<Rightarrow> v)"
      unfolding ns with_defaults_def using o1 dist by (intro map_of_is_SomeI) (auto simp: comp_def)
    moreover have "conforms o1 v" if v: "map_of explicit (ao_dest o1) = Some v" for v
    proof -
      from conf map_of_SomeD[OF v] obtain o2 where "o2 \<in> set ?all" "ao_dest o2 = ao_dest o1" "conforms o2 v"
        by (fastforce simp: all_conform_def list_all_iff list_ex_iff)
      moreover have "inj_on ao_dest (set ?all)" using dist by (simp only: distinct_map)
      ultimately have "o2 = o1" using o1 by (simp only: inj_on_def)
      with \<open>conforms o2 v\<close> show ?thesis by simp
    qed
    ultimately show ?thesis using req o1 by (auto simp: option_ok_def list_ex_iff split: option.splits)
  qed
  then show ?thesis by (simp add: ns with_defaults_def list_all_iff)
qed

text \<open>A command line that is refused ends the program.\<close>

lemma store_arg_exit: "store_arg shard o1 s ns = Inl e \<Longrightarrow> \<exists>m. e = SystemExit m"
  by (auto simp: store_arg_def convert_arg_def usage_error_def rbind_def split: sum.splits arg_type.splits option.splits if_splits prod.splits)

lemma tag_args_exit: "tag_args opts args = Inl e \<Longrightarrow> \<exists>m. e = SystemExit m"
proof (induction args)
  case (Cons a args)
  have "\<exists>m. e = SystemExit m" if "classify_arg opts a = Inl e"
    using that by (auto simp: classify_arg_def usage_error_def split: if_split_asm option.split_asm list.split_asm prod.split_asm)
  with Cons show ?case by (auto simp: tag_args_def rbind_def split: sum.splits)
qed (simp add: tag_args_def)

lemma consume_exit: "consume shard pos ns extras tagged = Inl e \<Longrightarrow> \<exists>m. e = SystemExit m"
  by (induction shard pos ns extras tagged rule: consume.induct)
    (auto simp: usage_error_def rbind_def dest: store_arg_exit split: arg_kind.split_asm option.split_asm if_split_asm sum.split_asm list.split_asm prod.split_asm)

lemma top_args_exit: "top_args ns tagged = Inl e \<Longrightarrow> \<exists>m. e = SystemExit m"
  by (induction ns tagged rule: top_args.induct)
    (auto simp: usage_error_def split: arg_kind.split_asm option.split_asm if_split_asm list.split_asm prod.split_asm)

lemma parse_flat_exit: "parse_flat shard opts pos args = Inl e \<Longrightarrow> \<exists>m. e = SystemExit m"
  by (auto simp: parse_flat_def usage_error_def rbind_def Let_def dest: tag_args_exit consume_exit split: sum.split_asm prod.split_asm if_split_asm)

lemma parse_commands_exit: "parse_commands top_opts subs args = Inl e \<Longrightarrow> \<exists>m. e = SystemExit m"
  by (auto simp: parse_commands_def usage_error_def rbind_def dest: tag_args_exit top_args_exit parse_flat_exit split: sum.split_asm prod.split_asm option.split_asm)

lemma parse_commands_conforms:
  assumes "parse_commands top_opts subs args = Inr (command, ns)" and "list_all (\<lambda>(_, opts). distinct (map ao_dest opts)) subs"
  shows "\<exists>opts globals sub. map_of subs command = Some opts \<and> ns = globals @ sub \<and> map fst globals = map ao_dest top_opts \<and>
    map fst sub = map ao_dest opts \<and> list_all (option_ok sub) opts"
proof -
  from assms(1) obtain given opts rest sub where m: "map_of subs command = Some opts" and p: "parse_flat (\<lambda>_. Inl []) opts None rest = Inr sub"
    and ns: "ns = with_defaults top_opts given @ sub"
    by (auto simp: parse_commands_def rbind_Inr_iff usage_error_def split: option.splits)
  have "distinct (map ao_dest opts)" using assms(2) map_of_SomeD[OF m] by (auto simp: list_all_iff)
  with p have "map fst sub = map ao_dest opts \<and> list_all (option_ok sub) opts" using parse_flat_conforms[OF p] by simp
  with m ns show ?thesis
    by (intro exI[of _ opts] exI[of _ "with_defaults top_opts given"] exI[of _ sub]) (simp add: with_defaults_def comp_def)
qed

section \<open>Options written with their values\<close>

definition well_flagged :: "arg_opt list \<Rightarrow> bool" where
  "well_flagged opts \<longleftrightarrow> distinct (map ao_flag opts) \<and>
     list_all (\<lambda>o1. starts_with ''--'' (ao_flag o1) \<and> CHR ''='' \<notin> set (ao_flag o1) \<and> ao_flag o1 \<noteq> ''--help'') opts"

lemma classify_explicit:
  assumes "well_flagged opts" and "o1 \<in> set opts"
  shows "classify_arg (help_opts @ opts) (ao_flag o1 @ ''='' @ v) = Inr (Flag o1 (Some v))"
proof -
  let ?a = "ao_flag o1 @ ''='' @ v"
  have f: "starts_with ''--'' (ao_flag o1)" "CHR ''='' \<notin> set (ao_flag o1)" "ao_flag o1 \<noteq> ''--help''"
    using assms by (auto simp: well_flagged_def list_all_iff)
  have no_eq: "CHR ''='' \<notin> set (ao_flag o2)" if "o2 \<in> set (help_opts @ opts)" for o2
    using that assms(1) by (auto simp: well_flagged_def list_all_iff help_opts_def opt_def)
  have "exact_flag (help_opts @ opts) ?a = None"
    using no_eq by (fastforce simp: exact_flag_def find_None_iff)
  moreover obtain r where r: "ao_flag o1 = CHR ''-'' # CHR ''-'' # r" using f(1) by (auto simp: starts_with_iff)
  moreover have "split_eq ?a = (ao_flag o1, Some v)"
    using f(2) by (auto simp: split_eq_def takeWhile_append dropWhile_append)
  moreover have "exact_flag (help_opts @ opts) (ao_flag o1) = Some o1"
  proof -
    have "exact_flag (help_opts @ opts) (ao_flag o1) = exact_flag opts (ao_flag o1)"
      using f(3) r by (auto simp: exact_flag_def help_opts_def opt_def)
    also have "\<dots> = Some o1"
    proof (cases "exact_flag opts (ao_flag o1)")
      case None
      with assms(2) show ?thesis by (auto simp: exact_flag_def find_None_iff)
    next
      case (Some o2)
      then have "o2 \<in> set opts" "ao_flag o2 = ao_flag o1" by (auto simp: exact_flag_def find_Some_iff)
      moreover have "inj_on ao_flag (set opts)" using assms(1) by (simp add: well_flagged_def distinct_map)
      ultimately have "o2 = o1" using assms(2) by (simp add: inj_on_def)
      with Some show ?thesis by simp
    qed
    finally show ?thesis .
  qed
  ultimately show ?thesis by (simp add: classify_arg_def starts_with_def)
qed

lemma explicit_options_read:
  assumes "well_flagged opts" and "\<forall>(o1, s, v) \<in> set ps. o1 \<in> set opts \<and> ao_action o1 = StoreArg \<and> convert_arg shard o1 s = Inr v"
    and "\<forall>o1 \<in> set opts. ao_required o1 \<longrightarrow> ao_dest o1 \<in> (\<lambda>(o1, _). ao_dest o1) ` set ps"
  shows "parse_flat shard opts None (map (\<lambda>(o1, s, _). ao_flag o1 @ ''='' @ s) ps) =
    Inr (with_defaults opts (rev (map (\<lambda>(o1, _, v). (ao_dest o1, v)) ps)))"
proof -
  have tag: "tag_args (help_opts @ opts) (map (\<lambda>(o1, s, _). ao_flag o1 @ ''='' @ s) ps) =
      Inr (map (\<lambda>(o1, s, _). (ao_flag o1 @ ''='' @ s, Flag o1 (Some s))) ps)"
    unfolding tag_args_def using assms(2)
    by (induction ps) (auto simp: classify_explicit[OF assms(1), unfolded append_Cons append_Nil])
  have use: "consume shard None ns [] (map (\<lambda>(o1, s, _). (ao_flag o1 @ ''='' @ s, Flag o1 (Some s))) ps) =
      Inr (rev (map (\<lambda>(o1, _, v). (ao_dest o1, v)) ps) @ ns, [])" for ns
    using assms(2) by (induction ps arbitrary: ns) (auto simp: store_arg_def)
  have "\<not> list_ex (\<lambda>o1. ao_required o1 \<and> map_of (rev (map (\<lambda>(o1, _, v). (ao_dest o1, v)) ps)) (ao_dest o1) = None) opts"
    using assms(3) by (force simp: list_ex_iff map_of_eq_None_iff)
  then show ?thesis using use[of "[]"] tag by (simp add: parse_flat_def del: consume.simps)
qed

text \<open>An option of a sub-command is no error for the options before it.\<close>

lemma classify_foreign:
  assumes "starts_with ''--'' f" and "CHR ''='' \<notin> set f" and "candidates opts f = []"
  shows "\<exists>k. classify_arg opts (f @ ''='' @ v) = Inr k"
proof -
  have none: "\<not> starts_with f (ao_flag o1)" if "o1 \<in> set opts" for o1
    using assms(1,3) that by (auto simp: candidates_def filter_empty_conv split: if_splits)
  have "exact_flag opts (f @ ''='' @ v) = None" "exact_flag opts f = None"
    using none by (force simp: exact_flag_def find_None_iff starts_with_iff)+
  moreover have "split_eq (f @ ''='' @ v) = (f, Some v)" using assms(2) by (auto simp: split_eq_def takeWhile_append dropWhile_append)
  ultimately show ?thesis using assms(3) by (simp add: classify_arg_def)
qed

end
