(* ===== verification/Cli_Main.thy ===== *)
theory Cli_Main
  imports Cli Argparse
begin

text \<open>
  The command lines as a whole: the options of \<^verbatim>\<open>src/controlplane/cli.py\<close> and \<^verbatim>\<open>src/extractor/cli.py\<close> as their
  \<^verbatim>\<open>build_parser\<close> declares them, the read-only commands, and \<^verbatim>\<open>main\<close>, which parses the arguments, opens a session
  on the warehouse and runs one command.  What the commands need from outside is gathered in
  \<open>cli_deps\<close>; printing is left out, and of the result only what the exit code depends on is kept.

  Shown: a command runs only with options of their declared types and among their choices; a command line that
  is refused changes nothing; the shard the extractor runs with is in range.
\<close>

section \<open>Options of the control plane\<close>

definition engine_opt :: "string list \<Rightarrow> arg_opt" where
  "engine_opt choices = (opt ''--engine'')\<lparr>ao_choices := Some choices\<rparr>"

definition all_actions :: "action list" where
  "all_actions = [ASSIGN, START_SHADOW, BEGIN_RECONCILIATION, RECORD_RECONCILIATION, CUTOVER, ABORT_SHADOW, PAUSE, RESUME, FORCE_ASSIGN]"

definition register_source_opts :: "os_env \<Rightarrow> arg_opt list" where
  "register_source_opts env =
     [required_opt ''--source-id'', required_opt ''--tenant-id'', opt ''--display-name'', opt_default ''--region'' ''default'',
      opt ''--host'', int_opt ''--port'' 5432, opt ''--db'', opt ''--user'', opt ''--secret-ref'',
      opt_default ''--compat-schema'' ''bi_connector_source'', opt_default ''--connect-cluster'' ''default'',
      opt_default ''--lifecycle'' ''ACTIVE'', opt_default ''--labels'' ''{}'',
      (engine_opt [''PYTHON'', ''KAFKA'', ''NONE''])\<lparr>ao_default := TextValue (getenv env ''INGESTION_ENGINE_DEFAULT'' ''PYTHON'')\<rparr>,
      switch ''--allow-connection-change'']"

definition register_bulk_opts :: "arg_opt list" where
  "register_bulk_opts =
     [required_opt ''--file'', (engine_opt [''PYTHON'', ''KAFKA'', ''NONE''])\<lparr>ao_default := TextValue ''NONE''\<rparr>, int_opt ''--batch-size'' 200]"

definition register_synthetic_opts :: "arg_opt list" where
  "register_synthetic_opts =
     [(required_opt ''--count'')\<lparr>ao_type := IntArg\<rparr>, opt_default ''--prefix'' ''loadsrc'', int_opt ''--regions'' 4,
      (engine_opt [''PYTHON'', ''KAFKA''])\<lparr>ao_default := TextValue ''KAFKA''\<rparr>]"

definition ownership_apply_opts :: "arg_opt list" where
  "ownership_apply_opts =
     [required_opt ''--source-id'', opt_default ''--tables'' ''all'',
      (required_opt ''--action'')\<lparr>ao_choices := Some (map action_value all_actions)\<rparr>,
      engine_opt [''PYTHON'', ''KAFKA'', ''NONE''], required_opt ''--reason'', opt ''--approved-by'']"

definition cutover_gate_opts :: "int \<Rightarrow> arg_opt list" where
  "cutover_gate_opts settle =
     [required_opt ''--source-id'', opt_default ''--tables'' ''all'', int_opt ''--settle-seconds'' settle, int_opt ''--max-discrepancies'' 0]"

definition reconcile_source_opts :: "arg_opt list" where
  "reconcile_source_opts =
     [required_opt ''--source-id'', opt_default ''--tables'' ''all'', int_opt ''--bucket-size'' 100000, int_opt ''--max-discrepancies'' 0]"

definition retire_source_opts :: "arg_opt list" where
  "retire_source_opts =
     [required_opt ''--source-id'', switch ''--forget'', switch ''--dry-run'', opt ''--approved-by'', switch ''--allow-unregistered'']"

text \<open>The options before the command, and those of each command; the default of an integer option may itself be refused.\<close>

definition build_parser :: "os_env \<Rightarrow> (arg_opt list \<times> (string \<times> arg_opt list) list) result" where
  "build_parser env =
     rbind (py_int (getenv env ''FBI_CUTOVER_SETTLE_SECONDS'' ''900'')) (\<lambda>settle.
     Inr ([opt_default ''--actor'' (getenv env ''FBI_ACTOR'' (getenv env ''USER'' ''operator''))],
       [(''register-source'', register_source_opts env),
        (''register-bulk'', register_bulk_opts),
        (''register-synthetic'', register_synthetic_opts),
        (''ownership-list'', [opt ''--source-id'']),
        (''ownership-apply'', ownership_apply_opts),
        (''cutover-gate'', cutover_gate_opts settle),
        (''reconcile-connectors'', [switch ''--dry-run'', opt ''--shard'']),
        (''connector-config'', [required_opt ''--source-id'']),
        (''reconcile-source'', reconcile_source_opts),
        (''lifecycle'', [required_opt ''--source-id'', required_opt ''--state'']),
        (''retire-source'', retire_source_opts),
        (''approve-cutover'', [required_opt ''--source-id'', opt_default ''--tables'' ''all'', opt ''--label'']),
        (''bump-generation'', [required_opt ''--source-id'']),
        (''status'', [int_opt ''--limit'' 20])]))"

section \<open>Read-only commands\<close>

definition cmd_ownership_list :: "string option \<Rightarrow> ownership list dbop" where
  "cmd_ownership_list sid = list_ownership sid None"

record overview_row =
  ov_region :: string
  ov_engine :: engine
  ov_shadow :: "engine option"
  ov_state :: cutover_state
  ov_sources :: nat
  ov_source_tables :: nat

definition overview_groups :: "db \<Rightarrow> ((string \<times> engine \<times> engine option \<times> cutover_state) \<times> string) list" where
  "overview_groups d = concat (map (\<lambda>((sid, _), r). case map_of (d_registry d) sid of
       None \<Rightarrow> []
     | Some s \<Rightarrow> [((s_region s, o_engine (w_own r), o_shadow_engine (w_own r), o_cutover_state (w_own r)), sid)]) (d_ownership d))"

definition ownership_overview :: "db \<Rightarrow> overview_row list" where
  "ownership_overview d =
     (let groups = overview_groups d in
      sort_key ov_region (sort_key (\<lambda>o1. engine_value (ov_engine o1)) (map (\<lambda>(region, engine, shadow, state).
        let members = map snd (filter (\<lambda>g. fst g = (region, engine, shadow, state)) groups) in
        \<lparr>ov_region = region, ov_engine = engine, ov_shadow = shadow, ov_state = state,
         ov_sources = length (remdups members), ov_source_tables = length members\<rparr>) (remdups (map fst groups)))))"

definition lifecycle_counts :: "db \<Rightarrow> (string \<times> nat) list" where
  "lifecycle_counts d =
     (let states = map (\<lambda>sr. s_lifecycle_state (snd sr)) (d_registry d) in
      map (\<lambda>st. (st, length (filter (\<lambda>x. x = st) states))) (sort (remdups states)))"

text \<open>The view of the freshness: one row for each table and copy over its writers (its column \<^verbatim>\<open>engine\<close> is left out); the oldest first.\<close>

record freshness_row =
  fw_source :: string
  fw_table :: string
  fw_target :: string
  fw_rows_applied :: int
  fw_last_source_ts :: "int option"
  fw_seconds :: int

definition newest :: "int option list \<Rightarrow> int option" where
  "newest ts = (case concat (map (\<lambda>t. case t of None \<Rightarrow> [] | Some x \<Rightarrow> [x]) ts) of [] \<Rightarrow> None | x # xs \<Rightarrow> Some (foldl max x xs))"

definition table_freshness :: "int \<Rightarrow> db \<Rightarrow> freshness_row list" where
  "table_freshness now_us d =
     map (\<lambda>(sid, table, target).
       let ps = map snd (filter (\<lambda>((s, t, g, _), _). (s, t, g) = (sid, table, target)) (d_progress d)) in
       \<lparr>fw_source = sid, fw_table = table, fw_target = target, fw_rows_applied = sum_list (map pg_rows_applied ps),
        fw_last_source_ts = newest (map pg_last_source_ts ps),
        fw_seconds = age_seconds (now_us - (case newest (map (\<lambda>p. Some (pg_last_applied_at p)) ps) of None \<Rightarrow> 0 | Some t \<Rightarrow> t))\<rparr>)
       (remdups (map (\<lambda>((s, t, g, _), _). (s, t, g)) (d_progress d)))"

definition cmd_status :: "int \<Rightarrow> ((string \<times> nat) list \<times> overview_row list \<times> freshness_row list) dbop" where
  "cmd_status limit =
     sbind (sget (\<lambda>c. ownership_overview (k_working c))) (\<lambda>overview.
     if limit < 0 then sraise (DatabaseError ''2201W'' ''LIMIT must not be negative'')
     else sbind (sget (\<lambda>c. take (nat limit) (sort_key (\<lambda>f. - fw_seconds f) (table_freshness (now c) (k_working c))))) (\<lambda>stalest.
       sbind (sget (\<lambda>c. lifecycle_counts (k_working c))) (\<lambda>lifecycle.
       sbind commit (\<lambda>_. sret (lifecycle, overview, stalest)))))"

section \<open>Running a command\<close>

record 'w cli_deps =
  cd_hashtext :: "string \<Rightarrow> int"
  cd_json_dict :: "string \<Rightarrow> (string \<times> string) list result"
  cd_json_labels :: "string \<Rightarrow> (string \<times> label) list result"
  cd_api :: "'w connect_api"
  cd_contract :: contract
  cd_digest :: row_digest
  cd_cast :: sql_cast
  cd_hash :: row_hash
  cd_reach :: "string \<Rightarrow> unit result"
  cd_contents :: "string \<Rightarrow> string \<Rightarrow> source_table result"
  cd_attempts :: nat
  cd_inventory :: "string \<Rightarrow> inventory_row list result"

definition text_arg :: "namespace \<Rightarrow> string \<Rightarrow> string option" where
  "text_arg ns d = (case map_of ns d of Some (TextValue s) \<Rightarrow> Some s | _ \<Rightarrow> None)"

definition the_text :: "namespace \<Rightarrow> string \<Rightarrow> string" where
  "the_text ns d = get_or [] (text_arg ns d)"

definition int_arg :: "namespace \<Rightarrow> string \<Rightarrow> int" where
  "int_arg ns d = (case map_of ns d of Some (IntValue i) \<Rightarrow> i | _ \<Rightarrow> 0)"

definition bool_arg :: "namespace \<Rightarrow> string \<Rightarrow> bool" where
  "bool_arg ns d = (case map_of ns d of Some (BoolValue b) \<Rightarrow> b | _ \<Rightarrow> False)"

definition register_args_of :: "namespace \<Rightarrow> register_args" where
  "register_args_of ns = \<lparr>ra_source_id = the_text ns ''source_id'', ra_tenant_id = the_text ns ''tenant_id'',
     ra_display_name = text_arg ns ''display_name'', ra_region = the_text ns ''region'', ra_host = text_arg ns ''host'',
     ra_port = int_arg ns ''port'', ra_db = text_arg ns ''db'', ra_user = text_arg ns ''user'', ra_secret_ref = text_arg ns ''secret_ref'',
     ra_compat_schema = the_text ns ''compat_schema'', ra_connect_cluster = the_text ns ''connect_cluster'',
     ra_lifecycle = the_text ns ''lifecycle'', ra_labels = the_text ns ''labels'', ra_engine = the_text ns ''engine'',
     ra_allow_connection_change = bool_arg ns ''allow_connection_change''\<rparr>"

definition no_status :: "('s, 'a) sx \<Rightarrow> ('s, string option list) sx" where
  "no_status m = sbind m (\<lambda>_. sret [])"

text \<open>\<^verbatim>\<open>args.func(conn, args)\<close>: the statuses of the values of its result.\<close>

definition run_command :: "'w cli_deps \<Rightarrow> os_env \<Rightarrow> string \<Rightarrow> namespace \<Rightarrow> ('w sys, string option list) sx" where
  "run_command p env command ns =
     (let actor = the_text ns ''actor''; sid = the_text ns ''source_id''; tables = text_arg ns ''tables''; ct = cd_contract p in
      if command = ''register-source'' then
        no_status (on_conn (cmd_register_source env ct (cd_json_labels p) actor (register_args_of ns)))
      else if command = ''register-bulk'' then
        sbind (slift (cd_inventory p (the_text ns ''file''))) (\<lambda>rows.
        no_status (on_conn (cmd_register_bulk env ct actor rows (the_text ns ''engine'') (int_arg ns ''batch_size''))))
      else if command = ''register-synthetic'' then
        no_status (on_conn (cmd_register_synthetic env ct actor (the_text ns ''prefix'') (int_arg ns ''regions'') (int_arg ns ''count'') (the_text ns ''engine'')))
      else if command = ''ownership-list'' then no_status (on_conn (cmd_ownership_list (text_arg ns ''source_id'')))
      else if command = ''ownership-apply'' then
        no_status (on_conn (cmd_ownership_apply ct actor sid tables (the_text ns ''action'') (the_text ns ''reason'')
          (text_arg ns ''engine'') (text_arg ns ''approved_by'')))
      else if command = ''cutover-gate'' then
        sbind (on_conn (cmd_cutover_gate ct (cd_digest p) actor sid tables (int_arg ns ''settle_seconds'') (int_arg ns ''max_discrepancies''))) (\<lambda>outs.
        sret (map gate_status outs))
      else if command = ''reconcile-connectors'' then
        no_status (cmd_reconcile_connectors (cd_hashtext p) (cd_json_dict p) env (cd_api p) ct (text_arg ns ''shard'') (bool_arg ns ''dry_run''))
      else if command = ''connector-config'' then no_status (on_conn (cmd_connector_config (cd_json_dict p) env ct sid))
      else if command = ''reconcile-source'' then
        sbind (on_conn (cmd_reconcile_source (cd_cast p) (cd_hash p) env ct (cd_reach p) (cd_contents p) sid tables
          (int_arg ns ''bucket_size'') (int_arg ns ''max_discrepancies''))) (\<lambda>es. sret (map check_status es))
      else if command = ''lifecycle'' then no_status (on_conn (cmd_lifecycle sid (the_text ns ''state'')))
      else if command = ''retire-source'' then
        no_status (cmd_retire_source (cd_json_dict p) env (cd_api p) ct (cd_attempts p) actor sid (bool_arg ns ''forget'') (bool_arg ns ''dry_run'')
          (text_arg ns ''approved_by'') (bool_arg ns ''allow_unregistered''))
      else if command = ''approve-cutover'' then no_status (on_conn (cmd_approve_cutover ct sid tables (text_arg ns ''label'')))
      else if command = ''bump-generation'' then no_status (on_conn (cmd_bump_generation sid))
      else no_status (on_conn (cmd_status (int_arg ns ''limit''))))"

definition cli_main :: "'w cli_deps \<Rightarrow> os_env \<Rightarrow> string list \<Rightarrow> ('w sys, int) sx" where
  "cli_main p env argv =
     sbind (slift (build_parser env)) (\<lambda>(top_opts, subs).
     sbind (slift (parse_commands top_opts subs argv)) (\<lambda>(command, ns).
     sbind (session env (on_conn rollback) (run_command p env command ns)) (\<lambda>statuses.
     sret (exit_code statuses))))"

section \<open>The extractor\<close>

definition extractor_opts :: "arg_opt list" where
  "extractor_opts =
     [(opt ''--source-id'')\<lparr>ao_action := AppendArg, ao_dest := ''source_ids''\<rparr>,
      (opt ''--shard'')\<lparr>ao_type := ShardArg\<rparr>,
      (opt ''--table'')\<lparr>ao_action := AppendArg, ao_dest := ''tables''\<rparr>]"

definition mode_arg :: arg_opt where
  "mode_arg = (required_opt ''command'')\<lparr>ao_choices := Some [''backfill'', ''incremental'', ''reconcile'']\<rparr>"

definition list_arg :: "namespace \<Rightarrow> string \<Rightarrow> string list" where
  "list_arg ns d = (case map_of ns d of Some (ListValue xs) \<Rightarrow> xs | _ \<Rightarrow> [])"

definition shard_arg :: "namespace \<Rightarrow> (int \<times> int) option" where
  "shard_arg ns = (case map_of ns ''shard'' of Some (ShardValue i n) \<Rightarrow> Some (i, n) | _ \<Rightarrow> None)"

definition extractor_cli :: "nat \<Rightarrow> sql_cast \<Rightarrow> row_hash \<Rightarrow> (string \<Rightarrow> int) \<Rightarrow> string \<Rightarrow> os_env \<Rightarrow> contract \<Rightarrow> (string \<times> bool) \<Rightarrow>
    (string \<Rightarrow> source_db) \<Rightarrow> (string \<Rightarrow> string) \<Rightarrow> string list \<Rightarrow> (xstate, int option) sx" where
  "extractor_cli fuel cast hash hashtext hostname env ct control dbs run_ids argv =
     sbind (slift (parse_flat parse_shard extractor_opts (Some mode_arg) argv)) (\<lambda>ns.
     extractor_main fuel cast hash hashtext hostname env ct control dbs run_ids (the_text ns ''command'') (list_arg ns ''source_ids'')
       (shard_arg ns) (list_arg ns ''tables''))"

section \<open>What a command runs with\<close>

lemma parser_dests_distinct:
  assumes "build_parser env = Inr (top_opts, subs)"
  shows "list_all (\<lambda>(_, opts). distinct (map ao_dest opts)) subs"
proof -
  have facts: "map ao_dest (register_source_opts env) = [''source_id'', ''tenant_id'', ''display_name'', ''region'', ''host'', ''port'', ''db'', ''user'',
      ''secret_ref'', ''compat_schema'', ''connect_cluster'', ''lifecycle'', ''labels'', ''engine'', ''allow_connection_change'']"
    "map ao_dest (cutover_gate_opts n) = [''source_id'', ''tables'', ''settle_seconds'', ''max_discrepancies'']"
    "map ao_dest register_bulk_opts = [''file'', ''engine'', ''batch_size'']"
    "map ao_dest register_synthetic_opts = [''count'', ''prefix'', ''regions'', ''engine'']"
    "map ao_dest ownership_apply_opts = [''source_id'', ''tables'', ''action'', ''engine'', ''reason'', ''approved_by'']"
    "map ao_dest reconcile_source_opts = [''source_id'', ''tables'', ''bucket_size'', ''max_discrepancies'']"
    "map ao_dest retire_source_opts = [''source_id'', ''forget'', ''dry_run'', ''approved_by'', ''allow_unregistered'']" for n
    by code_simp+
  have other: "map ao_dest [switch ''--dry-run'', opt ''--shard''] = [''dry_run'', ''shard'']"
    "map ao_dest [required_opt ''--source-id'', required_opt ''--state''] = [''source_id'', ''state'']"
    "map ao_dest [required_opt ''--source-id'', opt_default ''--tables'' ''all'', opt ''--label''] = [''source_id'', ''tables'', ''label'']"
    by code_simp+
  from assms obtain settle where "subs = [(''register-source'', register_source_opts env), (''register-bulk'', register_bulk_opts),
        (''register-synthetic'', register_synthetic_opts), (''ownership-list'', [opt ''--source-id'']), (''ownership-apply'', ownership_apply_opts),
        (''cutover-gate'', cutover_gate_opts settle), (''reconcile-connectors'', [switch ''--dry-run'', opt ''--shard'']),
        (''connector-config'', [required_opt ''--source-id'']), (''reconcile-source'', reconcile_source_opts),
        (''lifecycle'', [required_opt ''--source-id'', required_opt ''--state'']), (''retire-source'', retire_source_opts),
        (''approve-cutover'', [required_opt ''--source-id'', opt_default ''--tables'' ''all'', opt ''--label'']),
        (''bump-generation'', [required_opt ''--source-id'']), (''status'', [int_opt ''--limit'' 20])]"
    by (auto simp: build_parser_def rbind_Inr_iff)
  then show ?thesis by (simp only: list.pred_inject prod.case facts other) simp
qed


text \<open>
  C37: A command line that is refused ends the program before anything happens: no session is opened, and the
  warehouse and everything outside stay as they were.
\<close>

theorem refused_command_changes_nothing:
  assumes "build_parser env = Inr (top_opts, subs)" and "parse_commands top_opts subs argv = Inl e"
  shows "\<exists>msg. cli_main p env argv y = (Inl (SystemExit msg), y)"
  using parse_commands_exit[OF assms(2)] by (auto simp: cli_main_def assms sbind_def slift_run)

section \<open>From the command line to the request\<close>

definition apply_argv :: "string \<Rightarrow> string \<Rightarrow> string \<Rightarrow> action \<Rightarrow> engine \<Rightarrow> string \<Rightarrow> string \<Rightarrow> string list" where
  "apply_argv actor sid tables a e reason approver =
     [''--actor='' @ actor, ''ownership-apply'', ''--source-id='' @ sid, ''--tables='' @ tables, ''--action='' @ action_value a,
      ''--engine='' @ engine_value e, ''--reason='' @ reason, ''--approved-by='' @ approver]"

lemma ownership_apply_flagged: "well_flagged ownership_apply_opts"
  by code_simp

lemma ownership_apply_nth:
  "ownership_apply_opts = [required_opt ''--source-id'', opt_default ''--tables'' ''all'',
      (required_opt ''--action'')\<lparr>ao_choices := Some (map action_value all_actions)\<rparr>,
      engine_opt [''PYTHON'', ''KAFKA'', ''NONE''], required_opt ''--reason'', opt ''--approved-by'']"
  by (rule ownership_apply_opts_def)

lemma sbind_slift_Inr: "sbind (slift (Inr x)) k = k x"
  by (simp add: sbind_def slift_run fun_eq_iff)

lemma all_actions_UNIV: "a \<in> set all_actions"
  by (cases a) (simp_all add: all_actions_def)

lemma apply_sub_parse:
  "parse_flat (\<lambda>_. Inl []) ownership_apply_opts None
     [''--source-id='' @ sid, ''--tables='' @ tables, ''--action='' @ action_value a,
      ''--engine='' @ engine_value e, ''--reason='' @ reason, ''--approved-by='' @ approver] =
   Inr [(''source_id'', TextValue sid), (''tables'', TextValue tables), (''action'', TextValue (action_value a)),
      (''engine'', TextValue (engine_value e)), (''reason'', TextValue reason), (''approved_by'', TextValue approver)]"
proof -
  let ?ps = "[(ownership_apply_opts ! 0, sid, TextValue sid), (ownership_apply_opts ! 1, tables, TextValue tables),
    (ownership_apply_opts ! 2, action_value a, TextValue (action_value a)), (ownership_apply_opts ! 3, engine_value e, TextValue (engine_value e)),
    (ownership_apply_opts ! 4, reason, TextValue reason), (ownership_apply_opts ! 5, approver, TextValue approver)]"
  have "\<forall>(o1, s, v) \<in> set ?ps. o1 \<in> set ownership_apply_opts \<and> ao_action o1 = StoreArg \<and> convert_arg (\<lambda>_. Inl []) o1 s = Inr v"
    using all_actions_UNIV by (cases e) (auto simp: ownership_apply_nth required_opt_def opt_default_def opt_def engine_opt_def convert_arg_def)
  moreover have "\<forall>o1 \<in> set ownership_apply_opts. ao_required o1 \<longrightarrow> ao_dest o1 \<in> (\<lambda>(o1, _). ao_dest o1) ` set ?ps"
    by (simp add: ownership_apply_nth)
  ultimately have "parse_flat (\<lambda>_. Inl []) ownership_apply_opts None (map (\<lambda>(o1, s, _). ao_flag o1 @ ''='' @ s) ?ps) =
      Inr (with_defaults ownership_apply_opts (rev (map (\<lambda>(o1, _, v). (ao_dest o1, v)) ?ps)))"
    by (rule explicit_options_read[OF ownership_apply_flagged])
  then show ?thesis
    by (simp add: ownership_apply_nth with_defaults_def required_opt_def opt_default_def opt_def engine_opt_def dest_of_def)
qed

text \<open>
  C35: A request given on the command line is the request that is made: with the options written with their values,
  any texts, any action and any engine, \<^verbatim>\<open>ownership-apply\<close> asks for exactly this transition in the name of the actor.
\<close>

theorem apply_command_makes_the_request:
  assumes "build_parser env = Inr (top_opts, subs)"
  shows "\<exists>ns. parse_commands top_opts subs (apply_argv actor sid tables a e reason approver) = Inr (''ownership-apply'', ns) \<and>
    run_command p env ''ownership-apply'' ns = no_status (on_conn (sbind (slift (tables_option (cd_contract p) (Some tables))) (\<lambda>ts.
      apply_ownership (cd_contract p) sid ts ((new_request a actor reason)\<lparr>r_engine := Some e, r_approved_by := Some approver\<rparr>))))"
proof -
  let ?top = "help_opts @ top_opts"
  obtain d where tops: "top_opts = [opt_default ''--actor'' d]" and sub: "map_of subs ''ownership-apply'' = Some ownership_apply_opts"
    using assms by (auto simp: build_parser_def rbind_Inr_iff)
  have "well_flagged top_opts" unfolding tops by (simp add: well_flagged_def opt_default_def opt_def starts_with_def)
  then have actor: "classify_arg ?top (''--actor='' @ actor) = Inr (Flag (opt_default ''--actor'' d) (Some actor))"
    using classify_explicit[of top_opts "opt_default ''--actor'' d" actor] by (simp add: tops opt_default_def opt_def)
  have name: "classify_arg ?top ''ownership-apply'' = Inr Plain" by (simp add: classify_arg_def starts_with_def)
  have foreign: "\<exists>k. classify_arg ?top (f @ ''='' @ v) = Inr k"
    if "f \<in> {''--source-id'', ''--tables'', ''--action'', ''--engine'', ''--reason'', ''--approved-by''}" for f v
    using that by (intro classify_foreign) (auto simp: starts_with_def candidates_def tops help_opts_def opt_default_def opt_def)
  obtain k1 k2 k3 k4 k5 k6 where k: "classify_arg ?top (''--source-id'' @ ''='' @ sid) = Inr k1" "classify_arg ?top (''--tables'' @ ''='' @ tables) = Inr k2"
    "classify_arg ?top (''--action'' @ ''='' @ action_value a) = Inr k3" "classify_arg ?top (''--engine'' @ ''='' @ engine_value e) = Inr k4"
    "classify_arg ?top (''--reason'' @ ''='' @ reason) = Inr k5" "classify_arg ?top (''--approved-by'' @ ''='' @ approver) = Inr k6"
    using foreign by (metis insertI1 insertI2)
  let ?rest = "[''--source-id='' @ sid, ''--tables='' @ tables, ''--action='' @ action_value a,
      ''--engine='' @ engine_value e, ''--reason='' @ reason, ''--approved-by='' @ approver]"
  let ?ns = "[(''actor'', TextValue actor), (''source_id'', TextValue sid), (''tables'', TextValue tables), (''action'', TextValue (action_value a)),
      (''engine'', TextValue (engine_value e)), (''reason'', TextValue reason), (''approved_by'', TextValue approver)]"
  have tag: "tag_args ?top (apply_argv actor sid tables a e reason approver) =
      Inr ((''--actor='' @ actor, Flag (opt_default ''--actor'' d) (Some actor)) # (''ownership-apply'', Plain) # zip ?rest [k1, k2, k3, k4, k5, k6])"
    using actor name k by (simp add: tag_args_def apply_argv_def)
  have act: "top_args [] ((''--actor='' @ actor, Flag (opt_default ''--actor'' d) (Some actor)) # (''ownership-apply'', Plain) # zip ?rest [k1, k2, k3, k4, k5, k6]) =
      Inr ([(''actor'', TextValue actor)], ''ownership-apply'', ?rest)"
    by (simp add: opt_default_def opt_def dest_of_def)
  have "parse_commands top_opts subs (apply_argv actor sid tables a e reason approver) = Inr (''ownership-apply'', ?ns)"
    unfolding parse_commands_def tag rbind_simps act prod.case sub option.case apply_sub_parse
    by (simp add: tops with_defaults_def opt_default_def opt_def dest_of_def)
  moreover have "run_command p env ''ownership-apply'' ?ns = no_status (on_conn (sbind (slift (tables_option (cd_contract p) (Some tables))) (\<lambda>ts.
      apply_ownership (cd_contract p) sid ts ((new_request a actor reason)\<lparr>r_engine := Some e, r_approved_by := Some approver\<rparr>))))"
  proof -
    have "given (Some (engine_value e))" by (cases e) simp_all
    then have "ownership_request (action_value a) actor reason (Some (engine_value e)) (Some approver) =
        Inr ((new_request a actor reason)\<lparr>r_engine := Some e, r_approved_by := Some approver\<rparr>)" by (simp add: ownership_request_def)
    then show ?thesis
      by (simp add: sbind_slift_Inr run_command_def Let_def cmd_ownership_apply_def the_text_def text_arg_def get_or_def)
  qed
  ultimately show ?thesis by blast
qed

section \<open>What the extractor runs with\<close>

definition shards_in_range :: "namespace \<Rightarrow> bool" where
  "shards_in_range ns \<longleftrightarrow> list_all (\<lambda>(_, v). case v of ShardValue i n \<Rightarrow> 0 \<le> i \<and> i < n | _ \<Rightarrow> True) ns"

lemma store_arg_in_range:
  assumes "store_arg parse_shard o1 s ns = Inr ns'" and "shards_in_range ns"
  shows "shards_in_range ns'"
proof -
  have "case v of ShardValue i n \<Rightarrow> 0 \<le> i \<and> i < n | _ \<Rightarrow> True" if "convert_arg parse_shard o1 s = Inr v" for v
    using that by (auto simp: convert_arg_def usage_error_def rbind_Inr_iff dest: parse_shard_Inr split: arg_type.splits option.splits sum.splits prod.splits if_splits)
  with assms show ?thesis by (auto simp: store_arg_def rbind_Inr_iff shards_in_range_def)
qed

text \<open>
  C38: The extractor runs in one of its three modes, and on a shard only if its index is in range.
\<close>

theorem extractor_runs_in_range:
  assumes "parse_flat parse_shard extractor_opts (Some mode_arg) argv = Inr ns"
  shows "the_text ns ''command'' \<in> {''backfill'', ''incremental'', ''reconcile''} \<and>
    (case shard_arg ns of None \<Rightarrow> True | Some (i, n) \<Rightarrow> 0 \<le> i \<and> i < n)"
proof -
  have pos: "ao_action o1 = StoreArg" if "Some mode_arg = Some o1" for o1 using that by (auto simp: mode_arg_def required_opt_def opt_def)
  obtain explicit tagged where t: "tag_args (help_opts @ extractor_opts) argv = Inr tagged" and c: "consume parse_shard (Some mode_arg) [] [] tagged = Inr (explicit, [])"
    and ns: "ns = with_defaults (with_pos extractor_opts (Some mode_arg)) explicit"
    using assms pos by (rule parse_flat_given)
  have "opts_tagged (with_pos extractor_opts (Some mode_arg)) tagged" using tag_args_opts[OF t] by (rule opts_tagged_more) auto
  from consume_keeps[where I = shards_in_range, OF _ c _ this] store_arg_in_range
  have "shards_in_range explicit" using pos by (auto simp: shards_in_range_def)
  then have "shards_in_range ns"
    by (auto simp: ns with_defaults_def shards_in_range_def list_all_iff extractor_opts_def mode_arg_def required_opt_def opt_def
        split: option.splits dest!: map_of_SomeD)
  then have shard: "case shard_arg ns of None \<Rightarrow> True | Some (i, n) \<Rightarrow> 0 \<le> i \<and> i < n"
    by (auto simp: shard_arg_def shards_in_range_def list_all_iff dest!: map_of_SomeD split: option.splits arg_value.splits)
  have "distinct (map ao_dest (with_pos extractor_opts (Some mode_arg)))" by code_simp
  from parse_flat_conforms[OF assms this pos] have "option_ok ns mode_arg" by simp
  then have "the_text ns ''command'' \<in> {''backfill'', ''incremental'', ''reconcile''}"
    by (auto simp: option_ok_def conforms_def mode_arg_def required_opt_def opt_def dest_of_def the_text_def text_arg_def get_or_def
        split: option.splits arg_value.splits)
  with shard show ?thesis by blast
qed

end
