(* ===== verification/Cli_Examples.thy ===== *)
theory Cli_Examples
  imports Cli_Main Examples
begin

text \<open>
  The theorems on the command lines applied: command lines of both programs, one of them refused, on the small
  installation of \<open>Examples\<close>.
\<close>

definition ex_parser :: "arg_opt list \<times> (string \<times> arg_opt list) list" where
  "ex_parser = projr (build_parser demo_env)"

lemma ex_parser_run: "build_parser demo_env = Inr (fst ex_parser, snd ex_parser)"
proof -
  have "\<not> isl (build_parser demo_env)" by code_simp
  then show ?thesis by (simp add: ex_parser_def sum.collapse(2))
qed

definition ex_deps :: "unit cli_deps" where
  "ex_deps = \<lparr>cd_hashtext = (\<lambda>_. 0), cd_json_dict = (\<lambda>_. Inr []), cd_json_labels = (\<lambda>_. Inr []), cd_api = ex_api, cd_contract = ex_contract,
     cd_digest = (\<lambda>_. []), cd_cast = (\<lambda>_ v. v), cd_hash = (\<lambda>vs. int (length vs)), cd_reach = (\<lambda>_. Inr ()),
     cd_contents = (\<lambda>_ _. Inl (KeyError ''table'')), cd_attempts = 0, cd_inventory = (\<lambda>_. Inr [])\<rparr>"

definition ex_gate_line :: "(string \<times> namespace) result" where
  "ex_gate_line = parse_commands (fst ex_parser) (snd ex_parser) [''cutover-gate'', ''--source'', ''bank'', ''--settle-seconds=60'']"


theorem refused_command_changes_nothing_witness:
  "snd (cli_main ex_deps demo_env [''ownership-apply'', ''--source-id'', ''bank'', ''--action'', ''seize'', ''--reason'', ''x''] (ex_sys True demo_row)) =
     ex_sys True demo_row"
proof -
  let ?line = "[''ownership-apply'', ''--source-id'', ''bank'', ''--action'', ''seize'', ''--reason'', ''x'']"
  have "isl (parse_commands (fst ex_parser) (snd ex_parser) ?line)" by code_simp
  then obtain e where "parse_commands (fst ex_parser) (snd ex_parser) ?line = Inl e" by (auto simp: isl_def)
  from refused_command_changes_nothing[OF ex_parser_run this, of ex_deps "ex_sys True demo_row"] show ?thesis by auto
qed

theorem apply_command_makes_the_request_witness:
  "\<exists>ns. run_command ex_deps demo_env ''ownership-apply'' ns = no_status (on_conn (sbind (slift (tables_option ex_contract (Some ''m_loan''))) (\<lambda>ts.
     apply_ownership ex_contract ''bank'' ts ((new_request START_SHADOW ''alice'' ''move it'')\<lparr>r_engine := Some KAFKA, r_approved_by := Some ''bob''\<rparr>))))"
proof -
  have "cd_contract ex_deps = ex_contract" by (simp add: ex_deps_def)
  with apply_command_makes_the_request[OF ex_parser_run, of "''alice''" "''bank''" "''m_loan''" START_SHADOW KAFKA "''move it''" "''bob''" ex_deps]
  show ?thesis by auto
qed

definition ex_extract_line :: "namespace result" where
  "ex_extract_line = parse_flat parse_shard extractor_opts (Some mode_arg) [''--shard=3/8'', ''incremental'', ''--table'', ''m_loan'']"

theorem extractor_runs_in_range_witness:
  "the_text (projr ex_extract_line) ''command'' \<in> {''backfill'', ''incremental'', ''reconcile''} \<and> shard_arg (projr ex_extract_line) = Some (3, 8)"
proof
  have "\<not> isl ex_extract_line" by code_simp
  then have run: "ex_extract_line = Inr (projr ex_extract_line)" by (simp add: sum.collapse(2))
  from extractor_runs_in_range[OF run[unfolded ex_extract_line_def]]
  show "the_text (projr ex_extract_line) ''command'' \<in> {''backfill'', ''incremental'', ''reconcile''}" by (simp add: ex_extract_line_def)
  show "shard_arg (projr ex_extract_line) = Some (3, 8)" by code_simp
qed

end
