(* ===== verification/Licenses.thy ===== *)
theory Licenses
  imports Prelude
begin

text \<open>
  \<^verbatim>\<open>src/scripts/check_licenses.py\<close>: the audit of the licenses of the direct dependencies.  The
  requirement files under the project root are given as their path parts and text, the installed
  distributions (\<^verbatim>\<open>importlib.metadata\<close>) as records of the metadata fields the script reads.  The
  table is modelled line by line; the other messages are left out.

  Shown: the audit fails exactly when a declared and installed distribution has a license text
  with a Category X keyword and no Category A keyword; a declaration and a distribution meet under
  every spelling of the name that differs in case and in runs of separators only; and three ways
  in which a restricted license goes unnoticed.
\<close>

section \<open>Text\<close>

text \<open>\<^verbatim>\<open>k in s\<close> on strings.\<close>

fun contains_str :: "string \<Rightarrow> string \<Rightarrow> bool" where
  "contains_str k [] = (k = [])"
| "contains_str k (x # xs) = (starts_with k (x # xs) \<or> contains_str k xs)"

lemma contains_str_iff: "contains_str k s \<longleftrightarrow> (\<exists>a b. s = a @ k @ b)"
proof (induction s)
  case (Cons x xs)
  have "(\<exists>a b. x # xs = a @ k @ b) \<longleftrightarrow> starts_with k (x # xs) \<or> (\<exists>a b. xs = a @ k @ b)"
    by (auto simp: starts_with_iff Cons_eq_append_conv)
  with Cons show ?case by simp
qed auto

text \<open>\<^verbatim>\<open>s.split(sep)\<close> for a non-empty separator.\<close>

fun py_partition :: "string \<Rightarrow> string \<Rightarrow> (string \<times> string) option" where
  "py_partition sep [] = None"
| "py_partition sep (x # xs) =
     (if starts_with sep (x # xs) then Some ([], drop (length sep) (x # xs))
      else map_option (\<lambda>(b, a). (x # b, a)) (py_partition sep xs))"

lemma py_partition_Some: "py_partition sep s = Some (b, a) \<Longrightarrow> s = b @ sep @ a"
  by (induction s arbitrary: b a) (auto simp: starts_with_iff split: if_splits)

function py_split :: "string \<Rightarrow> string \<Rightarrow> string list" where
  "py_split sep s = (if sep = [] then [s] else
     (case py_partition sep s of None \<Rightarrow> [s] | Some (b, a) \<Rightarrow> b # py_split sep a))"
  by pat_completeness auto
termination
  by (relation "measure (length \<circ> snd)") (auto dest: py_partition_Some)

declare py_split.simps [simp del]

text \<open>\<^verbatim>\<open>s.splitlines()\<close>: a line ends at a line feed, a carriage return, both in a row, and at the
  vertical tab, form feed and separators of ASCII.\<close>

definition is_line_break :: "char \<Rightarrow> bool" where
  "is_line_break c \<longleftrightarrow> (let n = of_char c :: nat in 10 \<le> n \<and> n \<le> 13 \<or> 28 \<le> n \<and> n \<le> 30)"

fun splitlines_aux :: "string \<Rightarrow> string \<Rightarrow> string list" where
  "splitlines_aux acc [] = (if acc = [] then [] else [rev acc])"
| "splitlines_aux acc (c # cs) =
     (if is_line_break c then
        rev acc # (case cs of
            d # ds \<Rightarrow> if c = CHR 0x0D \<and> d = CHR 0x0A then splitlines_aux [] ds else splitlines_aux [] (d # ds)
          | [] \<Rightarrow> [])
      else splitlines_aux (c # acc) cs)"

definition py_splitlines :: "string \<Rightarrow> string list" where
  "py_splitlines s = splitlines_aux [] s"

text \<open>\<^verbatim>\<open>s.ljust(w)\<close>\<close>

definition py_ljust :: "nat \<Rightarrow> string \<Rightarrow> string" where
  "py_ljust w s = s @ replicate (w - length s) CHR '' ''"

lemma length_py_ljust [simp]: "length (py_ljust w s) = max w (length s)"
  by (simp add: py_ljust_def)

section \<open>Categories\<close>

definition category_a :: "string list" where
  "category_a =
     [''apache'', ''apache-2.0'', ''apache software license'', ''mit'', ''mit license'',
      ''mit no attribution'', ''mit-0'', ''bsd'', ''bsd license'', ''bsd-2-clause'',
      ''bsd-3-clause'', ''3-clause bsd'', ''new bsd license'', ''modified bsd license'',
      ''simplified bsd license'', ''isc'', ''isc license'', ''python software foundation'',
      ''psf'', ''psf license'', ''psf-2.0'', ''python license'', ''mpl-2.0'',
      ''mozilla public license 2.0'', ''public domain'', ''unlicense'', ''the unlicense'',
      ''cc0'', ''zlib'', ''zlib/libpng'', ''artistic license 2.0'', ''w3c license'']"

definition category_x :: "string list" where
  "category_x =
     [''gpl'', ''gnu general public license'', ''agpl'',
      ''gnu affero general public license'', ''lgpl'',
      ''gnu lesser general public license'', ''copyleft'', ''cc-by-sa'', ''cc-by-nc'',
      ''eupl'', ''european union public licence'', ''cddl'',
      ''common development and distribution license'', ''cpl'', ''common public license'',
      ''osl'', ''open software license'', ''non-commercial'', ''noncommercial'']"

datatype classification = SAFE | RESTRICTED | UNKNOWN

definition classification_value :: "classification \<Rightarrow> string" where
  "classification_value c = (case c of SAFE \<Rightarrow> ''SAFE'' | RESTRICTED \<Rightarrow> ''RESTRICTED'' | UNKNOWN \<Rightarrow> ''UNKNOWN'')"

definition classify :: "string \<Rightarrow> classification" where
  "classify license_text =
     (let normalized = py_lower license_text in
      if list_ex (\<lambda>k. contains_str k normalized) category_a then SAFE
      else if list_ex (\<lambda>k. contains_str k normalized) category_x then RESTRICTED
      else UNKNOWN)"

section \<open>Declared dependencies\<close>

definition name_separator :: "char \<Rightarrow> bool" where
  "name_separator c \<longleftrightarrow> c \<in> {CHR ''-'', CHR ''_'', CHR ''.''}"

text \<open>\<open>squeeze\<close> replaces each run of separators by one dash; the flag says that a run is open.\<close>

fun squeeze :: "bool \<Rightarrow> string \<Rightarrow> string" where
  "squeeze b [] = []"
| "squeeze b (c # cs) =
     (if name_separator c then (if b then squeeze True cs else CHR ''-'' # squeeze True cs)
      else c # squeeze False cs)"

definition normalize_name :: "string \<Rightarrow> string" where
  "normalize_name name = py_lower (squeeze False name)"

record req_file =
  rf_parts :: "string list"
  rf_text :: string

definition skipped_part :: "string \<Rightarrow> bool" where
  "skipped_part p \<longleftrightarrow> starts_with ''.'' p \<or> p \<in> {''venv'', ''.venv'', ''env''}"

definition ends_name :: "char \<Rightarrow> bool" where
  "ends_name c \<longleftrightarrow> c \<in> {CHR ''>'', CHR ''='', CHR ''<'', CHR ''!'', CHR '';'', CHR ''[''} \<or> is_space_char c"

text \<open>The name a requirement line declares, if it declares one.\<close>

definition declared_name :: "string \<Rightarrow> string option" where
  "declared_name line =
     (let l = py_strip line in
      if l = [] \<or> starts_with ''#'' l \<or> starts_with ''-'' l \<or> starts_with ''.'' l then None
      else let pkg = py_strip (takeWhile (\<lambda>c. \<not> ends_name c) l) in
           if pkg = [] then None else Some (normalize_name pkg))"

definition file_deps :: "req_file \<Rightarrow> string list" where
  "file_deps f = (if list_ex skipped_part (rf_parts f) then []
     else List.map_filter declared_name (py_splitlines (rf_text f)))"

definition collect_direct_deps :: "req_file list \<Rightarrow> string list" where
  "collect_direct_deps files = sorted_set (concat (map file_deps files))"

section \<open>Installed distributions\<close>

record dist_meta =
  dm_name :: "string option"
  dm_version :: "string option"
  dm_license :: "string option"
  dm_classifiers :: "string list"

definition license_from_classifiers :: "dist_meta \<Rightarrow> string" where
  "license_from_classifiers m =
     (case filter (starts_with ''License ::'') (dm_classifiers m) of
        [] \<Rightarrow> []
      | tag # _ \<Rightarrow> (let parts = py_split '' :: '' tag in
          if length parts \<ge> 2 then py_strip (last parts) else []))"

text \<open>\<^verbatim>\<open>x or y\<close> on strings.\<close>

definition str_or :: "string \<Rightarrow> string \<Rightarrow> string" where
  "str_or x y = (if x = [] then y else x)"

definition license_of :: "dist_meta \<Rightarrow> string" where
  "license_of m = str_or (py_strip (str_or (license_from_classifiers m)
     (case dm_license m of None \<Rightarrow> [] | Some l \<Rightarrow> l))) ''UNKNOWN''"

record license_result =
  lr_package :: string
  lr_version :: string
  lr_license :: string
  lr_classification :: classification

definition scan_dist :: "string list \<Rightarrow> dist_meta \<Rightarrow> license_result option" where
  "scan_dist names m = (case dm_name m of
     None \<Rightarrow> None
   | Some name \<Rightarrow>
       if normalize_name name \<notin> set names then None
       else Some \<lparr>lr_package = name,
                  lr_version = (case dm_version m of None \<Rightarrow> ''unknown'' | Some v \<Rightarrow> str_or v ''unknown''),
                  lr_license = license_of m, lr_classification = classify (license_of m)\<rparr>)"

definition scan_direct_deps :: "string list \<Rightarrow> dist_meta list \<Rightarrow> license_result list" where
  "scan_direct_deps names dists =
     sort_key (py_lower \<circ> lr_package) (List.map_filter (scan_dist names) dists)"

section \<open>The report\<close>

definition marker_of :: "classification \<Rightarrow> string" where
  "marker_of c = (case c of SAFE \<Rightarrow> ''[OK]  '' | RESTRICTED \<Rightarrow> ''[FAIL]'' | UNKNOWN \<Rightarrow> ''[WARN]'')"

definition header_row :: string where
  "header_row = py_join ''  '' [py_ljust 36 ''Package'', py_ljust 12 ''Version'', py_ljust 46 ''License'', py_ljust 14 ''Status'']"

definition result_row :: "license_result \<Rightarrow> string" where
  "result_row r = py_join ''  '' [py_ljust 36 (take 35 (lr_package r)), py_ljust 12 (take 11 (lr_version r)),
     py_ljust 46 (take 45 (lr_license r)),
     py_ljust 14 (marker_of (lr_classification r) @ '' '' @ classification_value (lr_classification r))]"

definition print_table :: "license_result list \<Rightarrow> string list" where
  "print_table results = header_row # replicate (length header_row) CHR ''-'' # map result_row results"

text \<open>The exit status and the table.\<close>

definition check_licenses :: "req_file list \<Rightarrow> dist_meta list \<Rightarrow> int \<times> string list" where
  "check_licenses files dists =
     (let direct_deps = collect_direct_deps files in
      if direct_deps = [] then (0, [])
      else let results = scan_direct_deps direct_deps dists in
        if results = [] then (0, [])
        else (if filter (\<lambda>r. lr_classification r = RESTRICTED) results \<noteq> [] then 1 else 0, print_table results))"

section \<open>Properties\<close>

lemma classify_RESTRICTED_iff:
  "classify l = RESTRICTED \<longleftrightarrow>
     list_ex (\<lambda>k. contains_str k (py_lower l)) category_x \<and> \<not> list_ex (\<lambda>k. contains_str k (py_lower l)) category_a"
  by (simp add: classify_def Let_def)

lemma map_filter_set: "set (List.map_filter f xs) = {y. \<exists>x \<in> set xs. f x = Some y}"
  by (induction xs) (auto simp: List.map_filter_simps split: option.splits)

lemma scan_dist_Some:
  "scan_dist names m = Some r \<longleftrightarrow> (\<exists>n. dm_name m = Some n \<and> normalize_name n \<in> set names \<and>
     r = \<lparr>lr_package = n, lr_version = (case dm_version m of None \<Rightarrow> ''unknown'' | Some v \<Rightarrow> str_or v ''unknown''),
          lr_license = license_of m, lr_classification = classify (license_of m)\<rparr>)"
  by (auto simp: scan_dist_def split: option.splits)

lemma scan_dist_restricted:
  "(\<exists>r. scan_dist names m = Some r \<and> lr_classification r = RESTRICTED) \<longleftrightarrow>
     (\<exists>n. dm_name m = Some n \<and> normalize_name n \<in> set names \<and> classify (license_of m) = RESTRICTED)"
  by (auto simp: scan_dist_def split: option.splits)

lemma set_scan_direct_deps:
  "set (scan_direct_deps names dists) = {r. \<exists>m \<in> set dists. scan_dist names m = Some r}"
  by (simp add: scan_direct_deps_def map_filter_set)

lemma check_licenses_status:
  "fst (check_licenses files dists) =
     (if \<exists>r \<in> set (scan_direct_deps (collect_direct_deps files) dists). lr_classification r = RESTRICTED then 1 else 0)"
proof -
  have "scan_direct_deps [] dists = []"
    using set_scan_direct_deps[of "[]" dists] by (simp add: scan_dist_Some)
  then show ?thesis
    by (auto simp: check_licenses_def Let_def filter_empty_conv)
qed

text \<open>
  The audit fails exactly when an installed distribution that a requirement file declares
  has a license text with a Category X keyword and no Category A keyword.
\<close>

theorem audit_fails_iff_restricted:
  "fst (check_licenses files dists) = 1 \<longleftrightarrow>
     (\<exists>m \<in> set dists. \<exists>n f line. dm_name m = Some n \<and> f \<in> set files \<and>
        \<not> list_ex skipped_part (rf_parts f) \<and> line \<in> set (py_splitlines (rf_text f)) \<and>
        declared_name line = Some (normalize_name n) \<and>
        list_ex (\<lambda>k. contains_str k (py_lower (license_of m))) category_x \<and>
        \<not> list_ex (\<lambda>k. contains_str k (py_lower (license_of m))) category_a)"
proof -
  have deps: "x \<in> set (collect_direct_deps files) \<longleftrightarrow>
      (\<exists>f \<in> set files. \<not> list_ex skipped_part (rf_parts f) \<and>
        (\<exists>line \<in> set (py_splitlines (rf_text f)). declared_name line = Some x))" for x
    by (auto simp: collect_direct_deps_def file_deps_def map_filter_set split: if_splits)
  have "fst (check_licenses files dists) = 1 \<longleftrightarrow>
      (\<exists>m \<in> set dists. \<exists>n. dm_name m = Some n \<and> normalize_name n \<in> set (collect_direct_deps files) \<and>
         classify (license_of m) = RESTRICTED)"
    unfolding check_licenses_status set_scan_direct_deps scan_dist_restricted [symmetric] by auto
  then show ?thesis
    unfolding deps classify_RESTRICTED_iff by blast
qed

text \<open>Names that differ in case and in the runs of separators only are the same name.\<close>

lemma lower_separator: "name_separator (to_lower_char c) = name_separator c" "name_separator c \<Longrightarrow> to_lower_char c = c"
proof -
  have low: "name_separator c \<Longrightarrow> to_lower_char c = c" for c
    by (auto simp: name_separator_def to_lower_char_def is_upper_char_def less_eq_char_def)
  then show "name_separator c \<Longrightarrow> to_lower_char c = c" .
  have "\<not> name_separator (char_of (of_char c + 32 :: nat))" if "is_upper_char c"
  proof -
    have "of_char c + 32 \<ge> (97::nat)" "of_char c + 32 < (256::nat)"
      using that by (auto simp: is_upper_char_def less_eq_char_def)
    then have "of_char (char_of (of_char c + 32 :: nat)) \<ge> (97::nat)" by simp
    moreover have "of_char d < (97::nat)" if "name_separator d" for d :: char
      using that by (auto simp: name_separator_def)
    ultimately show ?thesis by (metis not_le)
  qed
  moreover have "\<not> name_separator c" if "is_upper_char c"
    using that by (auto simp: name_separator_def is_upper_char_def less_eq_char_def)
  ultimately show "name_separator (to_lower_char c) = name_separator c"
    by (simp add: to_lower_char_def)
qed

lemma to_lower_idem [simp]: "to_lower_char (to_lower_char c) = to_lower_char c"
proof (cases "is_upper_char c")
  case True
  then have "of_char c \<le> (90::nat)" "(65::nat) \<le> of_char c" by (auto simp: is_upper_char_def less_eq_char_def)
  then have "of_char (char_of (of_char c + 32 :: nat)) \<ge> (97::nat)" by simp
  then have "\<not> is_upper_char (char_of (of_char c + 32 :: nat))"
    by (simp add: is_upper_char_def less_eq_char_def)
  with True show ?thesis by (simp add: to_lower_char_def)
qed (simp add: to_lower_char_def)

lemma lower_dash: "to_lower_char CHR ''-'' = CHR ''-''"
  by (rule lower_separator) (simp add: name_separator_def)

lemma squeeze_lower: "squeeze b (py_lower s) = py_lower (squeeze b s)"
  by (induction b s rule: squeeze.induct) (auto simp: py_lower_def lower_separator lower_dash)

lemma squeeze_squeeze: "squeeze b (squeeze b s) = squeeze b s"
  by (induction b s rule: squeeze.induct) (auto simp: name_separator_def)

lemma normalize_idem: "normalize_name (normalize_name s) = normalize_name s"
  by (simp add: normalize_name_def squeeze_lower squeeze_squeeze) (simp add: py_lower_def)

lemma normalize_spelling:
  "py_lower a = py_lower b \<Longrightarrow> normalize_name a = normalize_name b"
  by (metis normalize_name_def squeeze_lower)

text \<open>
  A run of separators counts as one dash, whatever the separators.
\<close>

lemma squeeze_run: "list_all name_separator r \<Longrightarrow> squeeze True (r @ s) = squeeze True s"
  by (induction r) auto

lemma normalize_run:
  assumes "list_all name_separator (r # rs)" and "list_all name_separator (q # qs)"
  shows "normalize_name (a @ (r # rs) @ b) = normalize_name (a @ (q # qs) @ b)"
proof -
  have "squeeze c (a @ (r # rs) @ b) = squeeze c (a @ (q # qs) @ b)" for c
    using assms by (induction a arbitrary: c) (auto simp: squeeze_run)
  then show ?thesis by (simp add: normalize_name_def)
qed

subsection \<open>Restricted licenses that go unnoticed\<close>

text \<open>
  The first lines of the GNU General Public License itself: \<open>permitted\<close> contains the Category A
  keyword \<open>mit\<close>, and the keywords of Category A are tried first.
\<close>

lemma gpl_text_is_safe:
  "classify ''GNU GENERAL PUBLIC LICENSE. Everyone is permitted to copy and distribute verbatim copies'' = SAFE"
  by code_simp

text \<open>The name of a requirement with the compatible-release operator keeps its tilde.\<close>

lemma compatible_release_name: "declared_name ''gplpkg~=1.2'' = Some ''gplpkg~''"
  by code_simp

text \<open>Every file of a checkout below a directory whose name starts with a dot is skipped.\<close>

lemma dot_checkout_checks_nothing:
  assumes "list_all (\<lambda>f. list_ex (starts_with ''.'') (rf_parts f)) files"
  shows "check_licenses files dists = (0, [])"
proof -
  have "file_deps f = []" if "f \<in> set files" for f
    using that assms by (auto simp: file_deps_def list_all_iff list_ex_iff skipped_part_def)
  then have "set (collect_direct_deps files) = {}" by (simp add: collect_direct_deps_def)
  then show ?thesis by (simp add: check_licenses_def)
qed

text \<open>
  A license classifier without a license (\<open>License :: OSI Approved\<close>) hides the license field.
\<close>

lemma bare_classifier_hides_license:
  "license_of \<lparr>dm_name = Some ''p'', dm_version = None, dm_license = Some ''GPL-3.0'',
     dm_classifiers = [''License :: OSI Approved'']\<rparr> = ''OSI Approved''"
  by code_simp

subsection \<open>The table\<close>

text \<open>The status column starts at the same offset in every row.\<close>

lemma result_row_status:
  "drop 100 (result_row r) =
     py_ljust 14 (marker_of (lr_classification r) @ '' '' @ classification_value (lr_classification r))"
  by (simp add: result_row_def)

end
