(* ===== verification/Contract_File.thy ===== *)
theory Contract_File
  imports Json Table_Extract
begin

text \<open>
  The contract as a file: \<^verbatim>\<open>load_contract\<close> of \<^verbatim>\<open>src/controlplane/contract.py\<close>, from the text of the document to the
  contract, and the document the repository ships, \<^verbatim>\<open>src/contracts/fineract_tables.json\<close>.  Python's dataclasses do not
  check the types of their fields; a document with a value of another type than the contract
  has there (or a number with a fraction) is refused by this model, everything else is decoded as the code
  does it: keys that may be missing, \<^verbatim>\<open>null\<close> for an optional value, the truth of a flag, \<^verbatim>\<open>int\<close> of a count.  Reading a
  file is a parameter.  The cache of the code returns what the first call with a path read.

  Shown: a contract that is written out is loaded as itself; the shipped document loads, and
  each of its tables meets what the theorems on extraction assume of a table.
\<close>

section \<open>Decoding\<close>

definition doc_text :: "json \<Rightarrow> string result" where
  "doc_text v = (case v of JStr s \<Rightarrow> Inr s | _ \<Rightarrow> Inl (TypeError ''text expected''))"

definition doc_text_opt :: "json \<Rightarrow> string option result" where
  "doc_text_opt v = (case v of JNull \<Rightarrow> Inr None | _ \<Rightarrow> rbind (doc_text v) (\<lambda>s. Inr (Some s)))"

definition doc_int :: "json \<Rightarrow> int result" where
  "doc_int v = (case v of
     JInt i \<Rightarrow> Inr i
   | JBool b \<Rightarrow> Inr (if b then 1 else 0)
   | JStr s \<Rightarrow> py_int s
   | _ \<Rightarrow> Inl (TypeError ''int() argument must be a string or a number''))"

definition doc_texts :: "json \<Rightarrow> string list result" where
  "doc_texts v = rbind (json_elements v) (rmap doc_text)"

text \<open>\<open>None\<close> where the key is missing.\<close>

definition doc_key :: "(json \<Rightarrow> 'a result) \<Rightarrow> json \<Rightarrow> string \<Rightarrow> 'a option result" where
  "doc_key decode v k = (case v of
     JObj kvs \<Rightarrow> (case map_of kvs k of None \<Rightarrow> Inr None | Some x \<Rightarrow> rbind (decode x) (\<lambda>y. Inr (Some y)))
   | _ \<Rightarrow> Inl (TypeError k))"

definition raw_column_of :: "json \<Rightarrow> raw_column result" where
  "raw_column_of c =
     rbind (doc_key doc_text c ''name'') (\<lambda>name.
     rbind (doc_key doc_text c ''type'') (\<lambda>ty.
     rbind (doc_key doc_texts c ''cdc'') (\<lambda>cdc.
     rbind (doc_key (\<lambda>v. Inr (json_truthy v)) c ''synthetic'') (\<lambda>synthetic.
     rbind (doc_key (\<lambda>v. Inr (json_truthy v)) c ''pii'') (\<lambda>pii.
     Inr \<lparr>rc_name = name, rc_type = ty, rc_cdc = cdc, rc_synthetic = synthetic, rc_pii = pii\<rparr>)))))"

text \<open>\<^verbatim>\<open>t.get("change_tracking") or {}\<close>\<close>

definition change_tracking :: "json \<Rightarrow> json result" where
  "change_tracking t = rbind (json_get t ''change_tracking'' JNull) (\<lambda>v. Inr (json_or (Some v) (JObj [])))"

definition raw_table_of :: "json \<Rightarrow> raw_table_doc result" where
  "raw_table_of t =
     rbind (doc_key (\<lambda>v. rbind (json_elements v) (rmap raw_column_of)) t ''columns'') (\<lambda>columns.
     rbind (change_tracking t) (\<lambda>change.
     rbind (doc_key doc_text t ''table_name'') (\<lambda>name.
     rbind (doc_key doc_text t ''raw_table'') (\<lambda>raw.
     rbind (doc_key doc_text t ''primary_key'') (\<lambda>pk.
     rbind (doc_key doc_text_opt t ''python_cursor'') (\<lambda>cursor.
     rbind (doc_key doc_int t ''kafka_partitions'') (\<lambda>partitions.
     rbind (doc_key doc_text_opt change ''entity'') (\<lambda>entity.
     rbind (doc_key (\<lambda>v. rbind (json_elements v) (rmap doc_texts)) t ''indexes'') (\<lambda>indexes.
     Inr \<lparr>rt_table_name = name, rt_raw_table = raw, rt_primary_key = pk, rt_columns = columns,
          rt_python_cursor = get_or None cursor, rt_kafka_partitions = partitions,
          rt_change_entity = get_or None entity, rt_indexes = indexes\<rparr>)))))))))"

definition raw_contract_of :: "json \<Rightarrow> raw_contract result" where
  "raw_contract_of v =
     rbind (doc_key (\<lambda>ts. rbind (json_elements ts) (rmap raw_table_of)) v ''tables'') (\<lambda>tables.
     rbind (doc_key doc_int v ''contract_version'') (\<lambda>version.
     rbind (doc_key doc_text v ''topic_prefix'') (\<lambda>prefix.
     rbind (doc_key doc_text v ''source_schema'') (\<lambda>schema.
     Inr \<lparr>rw_contract_version = version, rw_topic_prefix = prefix, rw_source_schema = schema, rw_tables = tables\<rparr>))))"

definition contract_path :: "os_env \<Rightarrow> string \<Rightarrow> string option \<Rightarrow> string" where
  "contract_path env default_path path =
     (if truthy path then the path
      else if truthy (e_vars env ''FBI_CONTRACT_PATH'') then the (e_vars env ''FBI_CONTRACT_PATH'') else default_path)"

definition load_contract :: "os_env \<Rightarrow> (string \<Rightarrow> string result) \<Rightarrow> string \<Rightarrow> string option \<Rightarrow> contract result" where
  "load_contract env read_file default_path path =
     rbind (read_file (contract_path env default_path path)) (\<lambda>doc.
     rbind (json_loads doc) (\<lambda>v.
     rbind (raw_contract_of v) parse_contract))"

section \<open>Writing a contract out\<close>

definition text_opt_doc :: "string option \<Rightarrow> json" where
  "text_opt_doc v = (case v of None \<Rightarrow> JNull | Some s \<Rightarrow> JStr s)"

definition column_doc :: "column_spec \<Rightarrow> json" where
  "column_doc c = JObj [(''name'', JStr (c_name c)), (''type'', JStr (c_type c)), (''cdc'', JArr (map JStr (c_cdc c))),
     (''synthetic'', JBool (c_synthetic c)), (''pii'', JBool (c_pii c))]"

definition table_doc :: "table_contract \<Rightarrow> json" where
  "table_doc t = JObj [(''table_name'', JStr (tc_table_name t)), (''raw_table'', JStr (tc_raw_table t)),
     (''primary_key'', JStr (tc_primary_key t)), (''python_cursor'', text_opt_doc (tc_python_cursor t)),
     (''kafka_partitions'', JInt (tc_kafka_partitions t)),
     (''change_tracking'', JObj [(''entity'', text_opt_doc (tc_change_entity t))]),
     (''columns'', JArr (map column_doc (tc_columns t))),
     (''indexes'', JArr (map (\<lambda>i. JArr (map JStr i)) (tc_indexes t)))]"

definition contract_doc :: "contract \<Rightarrow> json" where
  "contract_doc ct = JObj [(''contract_version'', JInt (ct_version ct)), (''topic_prefix'', JStr (ct_topic_prefix ct)),
     (''source_schema'', JStr (ct_source_schema ct)), (''tables'', JArr (map table_doc (ct_tables ct)))]"

lemma doc_text_simps [simp]: "doc_text (JStr s) = Inr s" "doc_text_opt (text_opt_doc v) = Inr v" "doc_int (JInt i) = Inr i"
  by (auto simp: doc_text_def doc_text_opt_def text_opt_doc_def doc_int_def split: option.splits)

lemma doc_texts_list [simp]: "doc_texts (JArr (map JStr xs)) = Inr xs"
proof -
  have "rmap doc_text (map JStr xs) = Inr xs" by (induction xs) simp_all
  then show ?thesis by (simp add: doc_texts_def json_elements_def)
qed

text \<open>Decoding and parsing are inverse to writing, element by element.\<close>

lemma rmap_inverse: "(\<And>x. rbind (f (h x)) g = Inr x) \<Longrightarrow> \<exists>ys. rmap f (map h xs) = Inr ys \<and> rmap g ys = Inr xs"
proof (induction xs)
  case (Cons x xs)
  then obtain ys where "rmap f (map h xs) = Inr ys" "rmap g ys = Inr xs" by blast
  moreover obtain y where "f (h x) = Inr y" "g y = Inr x" using Cons.prems[of x] by (auto simp: rbind_Inr_iff)
  ultimately show ?case by simp
qed simp

lemma column_doc_read: "rbind (raw_column_of (column_doc c)) parse_column = Inr c"
  by (simp add: raw_column_of_def column_doc_def doc_key_def parse_column_def need_def get_or_def json_truthy_def)

lemma index_docs_read: "rmap doc_texts (map (\<lambda>i. JArr (map JStr i)) xs) = Inr xs"
  by (induction xs) simp_all

lemma table_doc_read: "rbind (raw_table_of (table_doc t)) parse_table = Inr t"
proof -
  obtain cs where "rmap raw_column_of (map column_doc (tc_columns t)) = Inr cs" "rmap parse_column cs = Inr (tc_columns t)"
    using rmap_inverse[of raw_column_of column_doc parse_column, OF column_doc_read] by blast
  then show ?thesis
    by (simp add: raw_table_of_def table_doc_def doc_key_def change_tracking_def json_get_def json_or_def json_truthy_def
        json_elements_def index_docs_read parse_table_def need_def get_or_def)
qed

lemma contract_doc_read: "rbind (raw_contract_of (contract_doc ct)) parse_contract = Inr ct"
proof -
  obtain ts where "rmap raw_table_of (map table_doc (ct_tables ct)) = Inr ts" "rmap parse_table ts = Inr (ct_tables ct)"
    using rmap_inverse[of raw_table_of table_doc parse_table, OF table_doc_read] by blast
  then show ?thesis
    by (simp add: raw_contract_of_def contract_doc_def doc_key_def json_elements_def parse_contract_def need_def get_or_def)
qed

lemma wf_text_opt_doc: "wf_json (text_opt_doc v)"
  by (simp add: text_opt_doc_def split: option.splits)

lemma wf_contract_doc: "wf_json (contract_doc ct)"
  by (simp add: contract_doc_def table_doc_def column_doc_def wf_text_opt_doc list_all_iff)

lemma load_contract_document:
  assumes "wf_json v"
  shows "load_contract env (\<lambda>_. Inr (json_dumps v)) default_path path = rbind (raw_contract_of v) parse_contract"
  by (simp add: load_contract_def json_roundtrip[OF assms])

text \<open>
  A contract that is written as a document is loaded as itself, from whatever path the
  environment and the caller give: the text names every table, column, cursor, index and flag,
  and parsing keeps all of it and the order.
\<close>

theorem contract_file_roundtrip:
  "load_contract env (\<lambda>_. Inr (json_dumps (contract_doc ct))) default_path path = Inr ct"
  by (simp add: load_contract_document[OF wf_contract_doc] contract_doc_read)

section \<open>The shipped contract\<close>

text \<open>\<^verbatim>\<open>fineract_tables.json\<close>, without its two keys for readers (license and description).\<close>

definition doc_m_office :: json where
  "doc_m_office = JObj [
     (''table_name'', JStr ''m_office''),
     (''raw_table'', JStr ''raw_m_office''),
     (''primary_key'', JStr ''id''),
     (''python_cursor'', JNull),
     (''kafka_partitions'', JInt 3),
     (''change_tracking'', JObj [(''entity'', JStr ''global'')]),
     (''columns'', JArr [
       JObj [(''name'', JStr ''id''), (''type'', JStr ''bigint'')],
       JObj [(''name'', JStr ''parent_id''), (''type'', JStr ''bigint'')],
       JObj [(''name'', JStr ''hierarchy''), (''type'', JStr ''text'')],
       JObj [(''name'', JStr ''external_id''), (''type'', JStr ''text'')],
       JObj [(''name'', JStr ''name''), (''type'', JStr ''text'')],
       JObj [(''name'', JStr ''opening_date''), (''type'', JStr ''date'')],
       JObj [(''name'', JStr ''created_on_utc''), (''type'', JStr ''timestamptz''), (''synthetic'', JBool True)],
       JObj [(''name'', JStr ''last_modified_on_utc''), (''type'', JStr ''timestamptz''), (''synthetic'', JBool True)]])]"

definition doc_m_currency :: json where
  "doc_m_currency = JObj [
     (''table_name'', JStr ''m_currency''),
     (''raw_table'', JStr ''raw_m_currency''),
     (''primary_key'', JStr ''id''),
     (''python_cursor'', JNull),
     (''kafka_partitions'', JInt 1),
     (''change_tracking'', JNull),
     (''columns'', JArr [
       JObj [(''name'', JStr ''id''), (''type'', JStr ''bigint'')],
       JObj [(''name'', JStr ''code''), (''type'', JStr ''text'')],
       JObj [(''name'', JStr ''decimal_places''), (''type'', JStr ''smallint'')],
       JObj [(''name'', JStr ''currency_multiplesof''), (''type'', JStr ''smallint'')],
       JObj [(''name'', JStr ''display_symbol''), (''type'', JStr ''text'')],
       JObj [(''name'', JStr ''name''), (''type'', JStr ''text'')],
       JObj [(''name'', JStr ''internationalized_name_code''), (''type'', JStr ''text'')],
       JObj [(''name'', JStr ''created_on_utc''), (''type'', JStr ''timestamptz''), (''synthetic'', JBool True)],
       JObj [(''name'', JStr ''last_modified_on_utc''), (''type'', JStr ''timestamptz''), (''synthetic'', JBool True)]])]"

definition doc_m_client :: json where
  "doc_m_client = JObj [
     (''table_name'', JStr ''m_client''),
     (''raw_table'', JStr ''raw_m_client''),
     (''primary_key'', JStr ''id''),
     (''python_cursor'', JStr ''last_modified_on_utc''),
     (''kafka_partitions'', JInt 12),
     (''change_tracking'', JObj [(''entity'', JStr ''client''), (''key'', JStr ''id''), (''date'', JNull), (''history_columns'', JArr [
       JStr ''office_id''])]),
     (''columns'', JArr [
       JObj [(''name'', JStr ''id''), (''type'', JStr ''bigint'')],
       JObj [(''name'', JStr ''account_no''), (''type'', JStr ''text'')],
       JObj [(''name'', JStr ''external_id''), (''type'', JStr ''text'')],
       JObj [(''name'', JStr ''status_enum''), (''type'', JStr ''integer'')],
       JObj [(''name'', JStr ''activation_date''), (''type'', JStr ''date'')],
       JObj [(''name'', JStr ''office_joining_date''), (''type'', JStr ''date'')],
       JObj [(''name'', JStr ''office_id''), (''type'', JStr ''bigint'')],
       JObj [(''name'', JStr ''staff_id''), (''type'', JStr ''bigint'')],
       JObj [(''name'', JStr ''gender_cv_id''), (''type'', JStr ''integer'')],
       JObj [(''name'', JStr ''date_of_birth''), (''type'', JStr ''date''), (''pii'', JBool True)],
       JObj [(''name'', JStr ''legal_form_enum''), (''type'', JStr ''integer'')],
       JObj [(''name'', JStr ''submittedon_date''), (''type'', JStr ''date'')],
       JObj [(''name'', JStr ''updated_on''), (''type'', JStr ''date'')],
       JObj [(''name'', JStr ''created_on_utc''), (''type'', JStr ''timestamptz'')],
       JObj [(''name'', JStr ''last_modified_on_utc''), (''type'', JStr ''timestamptz'')]])]"

definition doc_m_product_loan :: json where
  "doc_m_product_loan = JObj [
     (''table_name'', JStr ''m_product_loan''),
     (''raw_table'', JStr ''raw_m_product_loan''),
     (''primary_key'', JStr ''id''),
     (''python_cursor'', JNull),
     (''kafka_partitions'', JInt 1),
     (''change_tracking'', JNull),
     (''columns'', JArr [
       JObj [(''name'', JStr ''id''), (''type'', JStr ''bigint'')],
       JObj [(''name'', JStr ''short_name''), (''type'', JStr ''text'')],
       JObj [(''name'', JStr ''currency_code''), (''type'', JStr ''text'')],
       JObj [(''name'', JStr ''currency_digits''), (''type'', JStr ''smallint'')],
       JObj [(''name'', JStr ''currency_multiplesof''), (''type'', JStr ''smallint'')],
       JObj [(''name'', JStr ''principal_amount''), (''type'', JStr ''numeric(19,6)'')],
       JObj [(''name'', JStr ''min_principal_amount''), (''type'', JStr ''numeric(19,6)'')],
       JObj [(''name'', JStr ''max_principal_amount''), (''type'', JStr ''numeric(19,6)'')],
       JObj [(''name'', JStr ''arrearstolerance_amount''), (''type'', JStr ''numeric(19,6)'')],
       JObj [(''name'', JStr ''name''), (''type'', JStr ''text'')],
       JObj [(''name'', JStr ''description''), (''type'', JStr ''text'')],
       JObj [(''name'', JStr ''nominal_interest_rate_per_period''), (''type'', JStr ''numeric(19,6)'')],
       JObj [(''name'', JStr ''annual_nominal_interest_rate''), (''type'', JStr ''numeric(19,6)'')],
       JObj [(''name'', JStr ''repay_every''), (''type'', JStr ''smallint'')],
       JObj [(''name'', JStr ''repayment_period_frequency_enum''), (''type'', JStr ''smallint'')],
       JObj [(''name'', JStr ''number_of_repayments''), (''type'', JStr ''smallint'')],
       JObj [(''name'', JStr ''overdue_days_for_npa''), (''type'', JStr ''smallint'')],
       JObj [(''name'', JStr ''start_date''), (''type'', JStr ''date'')],
       JObj [(''name'', JStr ''close_date''), (''type'', JStr ''date'')],
       JObj [(''name'', JStr ''created_on_utc''), (''type'', JStr ''timestamptz''), (''synthetic'', JBool True)],
       JObj [(''name'', JStr ''last_modified_on_utc''), (''type'', JStr ''timestamptz''), (''synthetic'', JBool True)]])]"

definition doc_m_loan :: json where
  "doc_m_loan = JObj [
     (''table_name'', JStr ''m_loan''),
     (''raw_table'', JStr ''raw_m_loan''),
     (''primary_key'', JStr ''id''),
     (''python_cursor'', JStr ''last_modified_on_utc''),
     (''kafka_partitions'', JInt 24),
     (''change_tracking'', JObj [(''entity'', JStr ''loan''), (''key'', JStr ''id''), (''date'', JStr ''disbursedon_date''), (''history_columns'', JArr [
       JStr ''client_id'', JStr ''product_id'', JStr ''currency_code'', JStr ''loan_status_id'',
       JStr ''principal_amount'', JStr ''principal_disbursed_derived'', JStr ''total_expected_repayment_derived'', JStr ''disbursedon_date'',
       JStr ''maturedon_date'', JStr ''expected_maturedon_date'', JStr ''is_npa''])]),
     (''columns'', JArr [
       JObj [(''name'', JStr ''id''), (''type'', JStr ''bigint'')],
       JObj [(''name'', JStr ''account_no''), (''type'', JStr ''text'')],
       JObj [(''name'', JStr ''external_id''), (''type'', JStr ''text'')],
       JObj [(''name'', JStr ''client_id''), (''type'', JStr ''bigint'')],
       JObj [(''name'', JStr ''product_id''), (''type'', JStr ''bigint'')],
       JObj [(''name'', JStr ''loan_status_id''), (''type'', JStr ''smallint'')],
       JObj [(''name'', JStr ''loan_type_enum''), (''type'', JStr ''smallint'')],
       JObj [(''name'', JStr ''currency_code''), (''type'', JStr ''text'')],
       JObj [(''name'', JStr ''currency_digits''), (''type'', JStr ''smallint'')],
       JObj [(''name'', JStr ''currency_multiplesof''), (''type'', JStr ''smallint'')],
       JObj [(''name'', JStr ''principal_amount_proposed''), (''type'', JStr ''numeric(19,6)'')],
       JObj [(''name'', JStr ''principal_amount''), (''type'', JStr ''numeric(19,6)'')],
       JObj [(''name'', JStr ''approved_principal''), (''type'', JStr ''numeric(19,6)'')],
       JObj [(''name'', JStr ''net_disbursal_amount''), (''type'', JStr ''numeric(19,6)'')],
       JObj [(''name'', JStr ''annual_nominal_interest_rate''), (''type'', JStr ''numeric(19,6)'')],
       JObj [(''name'', JStr ''nominal_interest_rate_per_period''), (''type'', JStr ''numeric(19,6)'')],
       JObj [(''name'', JStr ''interest_method_enum''), (''type'', JStr ''smallint'')],
       JObj [(''name'', JStr ''interest_calculated_in_period_enum''), (''type'', JStr ''smallint'')],
       JObj [(''name'', JStr ''term_frequency''), (''type'', JStr ''smallint'')],
       JObj [(''name'', JStr ''term_period_frequency_enum''), (''type'', JStr ''smallint'')],
       JObj [(''name'', JStr ''repay_every''), (''type'', JStr ''smallint'')],
       JObj [(''name'', JStr ''repayment_period_frequency_enum''), (''type'', JStr ''smallint'')],
       JObj [(''name'', JStr ''number_of_repayments''), (''type'', JStr ''smallint'')],
       JObj [(''name'', JStr ''amortization_method_enum''), (''type'', JStr ''smallint'')],
       JObj [(''name'', JStr ''submittedon_date''), (''type'', JStr ''date'')],
       JObj [(''name'', JStr ''approvedon_date''), (''type'', JStr ''date'')],
       JObj [(''name'', JStr ''expected_disbursedon_date''), (''type'', JStr ''date'')],
       JObj [(''name'', JStr ''expected_firstrepaymenton_date''), (''type'', JStr ''date'')],
       JObj [(''name'', JStr ''disbursedon_date''), (''type'', JStr ''date'')],
       JObj [(''name'', JStr ''expected_maturedon_date''), (''type'', JStr ''date'')],
       JObj [(''name'', JStr ''maturedon_date''), (''type'', JStr ''date'')],
       JObj [(''name'', JStr ''principal_disbursed_derived''), (''type'', JStr ''numeric(19,6)'')],
       JObj [(''name'', JStr ''principal_repaid_derived''), (''type'', JStr ''numeric(19,6)'')],
       JObj [(''name'', JStr ''principal_writtenoff_derived''), (''type'', JStr ''numeric(19,6)'')],
       JObj [(''name'', JStr ''principal_outstanding_derived''), (''type'', JStr ''numeric(19,6)'')],
       JObj [(''name'', JStr ''interest_charged_derived''), (''type'', JStr ''numeric(19,6)'')],
       JObj [(''name'', JStr ''interest_repaid_derived''), (''type'', JStr ''numeric(19,6)'')],
       JObj [(''name'', JStr ''interest_writtenoff_derived''), (''type'', JStr ''numeric(19,6)'')],
       JObj [(''name'', JStr ''interest_outstanding_derived''), (''type'', JStr ''numeric(19,6)'')],
       JObj [(''name'', JStr ''fee_charges_outstanding_derived''), (''type'', JStr ''numeric(19,6)'')],
       JObj [(''name'', JStr ''penalty_charges_outstanding_derived''), (''type'', JStr ''numeric(19,6)'')],
       JObj [(''name'', JStr ''total_expected_repayment_derived''), (''type'', JStr ''numeric(19,6)'')],
       JObj [(''name'', JStr ''total_repayment_derived''), (''type'', JStr ''numeric(19,6)'')],
       JObj [(''name'', JStr ''total_writtenoff_derived''), (''type'', JStr ''numeric(19,6)'')],
       JObj [(''name'', JStr ''total_outstanding_derived''), (''type'', JStr ''numeric(19,6)'')],
       JObj [(''name'', JStr ''loan_counter''), (''type'', JStr ''smallint'')],
       JObj [(''name'', JStr ''is_npa''), (''type'', JStr ''boolean'')],
       JObj [(''name'', JStr ''created_on_utc''), (''type'', JStr ''timestamptz'')],
       JObj [(''name'', JStr ''last_modified_on_utc''), (''type'', JStr ''timestamptz'')]])]"

definition doc_m_loan_transaction :: json where
  "doc_m_loan_transaction = JObj [
     (''table_name'', JStr ''m_loan_transaction''),
     (''raw_table'', JStr ''raw_m_loan_transaction''),
     (''primary_key'', JStr ''id''),
     (''python_cursor'', JStr ''last_modified_on_utc''),
     (''kafka_partitions'', JInt 48),
     (''change_tracking'', JObj [(''entity'', JStr ''loan''), (''key'', JStr ''loan_id''), (''date'', JStr ''transaction_date''), (''history_columns'', JArr [
       JStr ''loan_id'', JStr ''office_id'', JStr ''is_reversed'', JStr ''transaction_type_enum'',
       JStr ''transaction_date'', JStr ''amount'', JStr ''principal_portion_derived'', JStr ''interest_portion_derived'',
       JStr ''fee_charges_portion_derived'', JStr ''penalty_charges_portion_derived'', JStr ''overpayment_portion_derived'', JStr ''outstanding_loan_balance_derived''])]),
     (''indexes'', JArr [JArr [JStr ''loan_id'', JStr ''transaction_date'']]),
     (''columns'', JArr [
       JObj [(''name'', JStr ''id''), (''type'', JStr ''bigint'')],
       JObj [(''name'', JStr ''loan_id''), (''type'', JStr ''bigint'')],
       JObj [(''name'', JStr ''office_id''), (''type'', JStr ''bigint'')],
       JObj [(''name'', JStr ''is_reversed''), (''type'', JStr ''boolean'')],
       JObj [(''name'', JStr ''transaction_type_enum''), (''type'', JStr ''smallint'')],
       JObj [(''name'', JStr ''transaction_date''), (''type'', JStr ''date'')],
       JObj [(''name'', JStr ''amount''), (''type'', JStr ''numeric(19,6)'')],
       JObj [(''name'', JStr ''principal_portion_derived''), (''type'', JStr ''numeric(19,6)'')],
       JObj [(''name'', JStr ''interest_portion_derived''), (''type'', JStr ''numeric(19,6)'')],
       JObj [(''name'', JStr ''fee_charges_portion_derived''), (''type'', JStr ''numeric(19,6)'')],
       JObj [(''name'', JStr ''penalty_charges_portion_derived''), (''type'', JStr ''numeric(19,6)'')],
       JObj [(''name'', JStr ''overpayment_portion_derived''), (''type'', JStr ''numeric(19,6)'')],
       JObj [(''name'', JStr ''outstanding_loan_balance_derived''), (''type'', JStr ''numeric(19,6)'')],
       JObj [(''name'', JStr ''submitted_on_date''), (''type'', JStr ''date'')],
       JObj [(''name'', JStr ''created_on_utc''), (''type'', JStr ''timestamptz'')],
       JObj [(''name'', JStr ''last_modified_on_utc''), (''type'', JStr ''timestamptz'')]])]"

definition doc_m_loan_repayment_schedule :: json where
  "doc_m_loan_repayment_schedule = JObj [
     (''table_name'', JStr ''m_loan_repayment_schedule''),
     (''raw_table'', JStr ''raw_m_loan_repayment_schedule''),
     (''primary_key'', JStr ''id''),
     (''python_cursor'', JStr ''lastmodified_date''),
     (''kafka_partitions'', JInt 48),
     (''change_tracking'', JObj [(''entity'', JStr ''loan''), (''key'', JStr ''loan_id''), (''date'', JStr ''duedate''), (''history_columns'', JArr [
       JStr ''loan_id'', JStr ''fromdate'', JStr ''duedate'', JStr ''installment'',
       JStr ''principal_amount'', JStr ''principal_completed_derived'', JStr ''principal_writtenoff_derived'', JStr ''interest_amount'',
       JStr ''interest_completed_derived'', JStr ''interest_writtenoff_derived'', JStr ''interest_waived_derived'', JStr ''fee_charges_amount'',
       JStr ''fee_charges_completed_derived'', JStr ''fee_charges_writtenoff_derived'', JStr ''fee_charges_waived_derived'', JStr ''penalty_charges_amount'',
       JStr ''penalty_charges_completed_derived'', JStr ''penalty_charges_writtenoff_derived'', JStr ''penalty_charges_waived_derived'', JStr ''completed_derived'',
       JStr ''obligations_met_on_date'', JStr ''is_re_aged''])]),
     (''indexes'', JArr [JArr [JStr ''loan_id'', JStr ''duedate'']]),
     (''columns'', JArr [
       JObj [(''name'', JStr ''id''), (''type'', JStr ''bigint'')],
       JObj [(''name'', JStr ''loan_id''), (''type'', JStr ''bigint'')],
       JObj [(''name'', JStr ''fromdate''), (''type'', JStr ''date'')],
       JObj [(''name'', JStr ''duedate''), (''type'', JStr ''date'')],
       JObj [(''name'', JStr ''installment''), (''type'', JStr ''smallint'')],
       JObj [(''name'', JStr ''principal_amount''), (''type'', JStr ''numeric(19,6)'')],
       JObj [(''name'', JStr ''principal_completed_derived''), (''type'', JStr ''numeric(19,6)'')],
       JObj [(''name'', JStr ''principal_writtenoff_derived''), (''type'', JStr ''numeric(19,6)'')],
       JObj [(''name'', JStr ''interest_amount''), (''type'', JStr ''numeric(19,6)'')],
       JObj [(''name'', JStr ''interest_completed_derived''), (''type'', JStr ''numeric(19,6)'')],
       JObj [(''name'', JStr ''interest_writtenoff_derived''), (''type'', JStr ''numeric(19,6)'')],
       JObj [(''name'', JStr ''interest_waived_derived''), (''type'', JStr ''numeric(19,6)'')],
       JObj [(''name'', JStr ''fee_charges_amount''), (''type'', JStr ''numeric(19,6)'')],
       JObj [(''name'', JStr ''fee_charges_completed_derived''), (''type'', JStr ''numeric(19,6)'')],
       JObj [(''name'', JStr ''fee_charges_writtenoff_derived''), (''type'', JStr ''numeric(19,6)'')],
       JObj [(''name'', JStr ''fee_charges_waived_derived''), (''type'', JStr ''numeric(19,6)'')],
       JObj [(''name'', JStr ''penalty_charges_amount''), (''type'', JStr ''numeric(19,6)'')],
       JObj [(''name'', JStr ''penalty_charges_completed_derived''), (''type'', JStr ''numeric(19,6)'')],
       JObj [(''name'', JStr ''penalty_charges_writtenoff_derived''), (''type'', JStr ''numeric(19,6)'')],
       JObj [(''name'', JStr ''penalty_charges_waived_derived''), (''type'', JStr ''numeric(19,6)'')],
       JObj [(''name'', JStr ''total_paid_in_advance_derived''), (''type'', JStr ''numeric(19,6)'')],
       JObj [(''name'', JStr ''total_paid_late_derived''), (''type'', JStr ''numeric(19,6)'')],
       JObj [(''name'', JStr ''completed_derived''), (''type'', JStr ''boolean'')],
       JObj [(''name'', JStr ''obligations_met_on_date''), (''type'', JStr ''date'')],
       JObj [(''name'', JStr ''is_re_aged''), (''type'', JStr ''boolean'')],
       JObj [(''name'', JStr ''lastmodified_date''), (''type'', JStr ''timestamptz''), (''cdc'', JArr [JStr ''last_modified_on_utc'', JStr ''lastmodified_date''])]])]"

definition doc_m_delinquency_range :: json where
  "doc_m_delinquency_range = JObj [
     (''table_name'', JStr ''m_delinquency_range''),
     (''raw_table'', JStr ''raw_m_delinquency_range''),
     (''primary_key'', JStr ''id''),
     (''python_cursor'', JStr ''last_modified_on_utc''),
     (''kafka_partitions'', JInt 1),
     (''change_tracking'', JObj [(''entity'', JStr ''global'')]),
     (''columns'', JArr [
       JObj [(''name'', JStr ''id''), (''type'', JStr ''bigint'')],
       JObj [(''name'', JStr ''classification''), (''type'', JStr ''text'')],
       JObj [(''name'', JStr ''min_age_days''), (''type'', JStr ''bigint'')],
       JObj [(''name'', JStr ''max_age_days''), (''type'', JStr ''bigint'')],
       JObj [(''name'', JStr ''created_on_utc''), (''type'', JStr ''timestamptz'')],
       JObj [(''name'', JStr ''last_modified_on_utc''), (''type'', JStr ''timestamptz'')]])]"

definition doc_m_delinquency_bucket :: json where
  "doc_m_delinquency_bucket = JObj [
     (''table_name'', JStr ''m_delinquency_bucket''),
     (''raw_table'', JStr ''raw_m_delinquency_bucket''),
     (''primary_key'', JStr ''id''),
     (''python_cursor'', JStr ''last_modified_on_utc''),
     (''kafka_partitions'', JInt 1),
     (''change_tracking'', JObj [(''entity'', JStr ''global'')]),
     (''columns'', JArr [
       JObj [(''name'', JStr ''id''), (''type'', JStr ''bigint'')],
       JObj [(''name'', JStr ''name''), (''type'', JStr ''text'')],
       JObj [(''name'', JStr ''created_on_utc''), (''type'', JStr ''timestamptz'')],
       JObj [(''name'', JStr ''last_modified_on_utc''), (''type'', JStr ''timestamptz'')]])]"

definition doc_m_delinquency_bucket_mappings :: json where
  "doc_m_delinquency_bucket_mappings = JObj [
     (''table_name'', JStr ''m_delinquency_bucket_mappings''),
     (''raw_table'', JStr ''raw_m_delinquency_bucket_mappings''),
     (''primary_key'', JStr ''id''),
     (''python_cursor'', JStr ''last_modified_on_utc''),
     (''kafka_partitions'', JInt 1),
     (''change_tracking'', JObj [(''entity'', JStr ''global'')]),
     (''columns'', JArr [
       JObj [(''name'', JStr ''id''), (''type'', JStr ''bigint'')],
       JObj [(''name'', JStr ''delinquency_range_id''), (''type'', JStr ''bigint'')],
       JObj [(''name'', JStr ''delinquency_bucket_id''), (''type'', JStr ''bigint'')],
       JObj [(''name'', JStr ''created_on_utc''), (''type'', JStr ''timestamptz'')],
       JObj [(''name'', JStr ''last_modified_on_utc''), (''type'', JStr ''timestamptz'')]])]"

definition doc_m_loan_delinquency_tag_history :: json where
  "doc_m_loan_delinquency_tag_history = JObj [
     (''table_name'', JStr ''m_loan_delinquency_tag_history''),
     (''raw_table'', JStr ''raw_m_loan_delinquency_tag_history''),
     (''primary_key'', JStr ''id''),
     (''python_cursor'', JStr ''last_modified_on_utc''),
     (''kafka_partitions'', JInt 12),
     (''change_tracking'', JObj [(''entity'', JStr ''loan''), (''key'', JStr ''loan_id''), (''date'', JStr ''addedon_date''), (''history_columns'', JArr [
       JStr ''delinquency_range_id'', JStr ''loan_id'', JStr ''addedon_date'', JStr ''liftedon_date''])]),
     (''indexes'', JArr [JArr [JStr ''loan_id'']]),
     (''columns'', JArr [
       JObj [(''name'', JStr ''id''), (''type'', JStr ''bigint'')],
       JObj [(''name'', JStr ''delinquency_range_id''), (''type'', JStr ''bigint'')],
       JObj [(''name'', JStr ''loan_id''), (''type'', JStr ''bigint'')],
       JObj [(''name'', JStr ''addedon_date''), (''type'', JStr ''date'')],
       JObj [(''name'', JStr ''liftedon_date''), (''type'', JStr ''date'')],
       JObj [(''name'', JStr ''created_on_utc''), (''type'', JStr ''timestamptz'')],
       JObj [(''name'', JStr ''last_modified_on_utc''), (''type'', JStr ''timestamptz'')]])]"

definition doc_batch_job_execution :: json where
  "doc_batch_job_execution = JObj [
     (''table_name'', JStr ''batch_job_execution''),
     (''raw_table'', JStr ''raw_batch_job_execution''),
     (''primary_key'', JStr ''job_execution_id''),
     (''python_cursor'', JStr ''last_modified_on_utc''),
     (''kafka_partitions'', JInt 1),
     (''change_tracking'', JNull),
     (''columns'', JArr [
       JObj [(''name'', JStr ''job_execution_id''), (''type'', JStr ''bigint'')],
       JObj [(''name'', JStr ''job_instance_id''), (''type'', JStr ''bigint'')],
       JObj [(''name'', JStr ''status''), (''type'', JStr ''text'')],
       JObj [(''name'', JStr ''start_time''), (''type'', JStr ''timestamptz'')],
       JObj [(''name'', JStr ''end_time''), (''type'', JStr ''timestamptz'')],
       JObj [(''name'', JStr ''exit_code''), (''type'', JStr ''text'')],
       JObj [(''name'', JStr ''exit_message''), (''type'', JStr ''text'')],
       JObj [(''name'', JStr ''created_on_utc''), (''type'', JStr ''timestamptz''), (''cdc'', JArr [JStr ''create_time''])],
       JObj [(''name'', JStr ''last_modified_on_utc''), (''type'', JStr ''timestamptz''), (''cdc'', JArr [JStr ''last_updated''])]])]"

definition doc_batch_job_instance :: json where
  "doc_batch_job_instance = JObj [
     (''table_name'', JStr ''batch_job_instance''),
     (''raw_table'', JStr ''raw_batch_job_instance''),
     (''primary_key'', JStr ''job_instance_id''),
     (''python_cursor'', JNull),
     (''kafka_partitions'', JInt 1),
     (''change_tracking'', JNull),
     (''columns'', JArr [
       JObj [(''name'', JStr ''job_instance_id''), (''type'', JStr ''bigint'')],
       JObj [(''name'', JStr ''job_name''), (''type'', JStr ''text'')],
       JObj [(''name'', JStr ''job_key''), (''type'', JStr ''text'')]])]"

definition shipped_doc :: json where
  "shipped_doc = JObj [
     (''contract_version'', JInt 2),
     (''topic_prefix'', JStr ''fineract.cdc''),
     (''source_schema'', JStr ''public''),
     (''tables'', JArr [doc_m_office, doc_m_currency, doc_m_client, doc_m_product_loan, doc_m_loan,
       doc_m_loan_transaction, doc_m_loan_repayment_schedule, doc_m_delinquency_range, doc_m_delinquency_bucket,
       doc_m_delinquency_bucket_mappings, doc_m_loan_delinquency_tag_history, doc_batch_job_execution, doc_batch_job_instance])]"

definition shipped_contract :: "contract result" where
  "shipped_contract = rbind (raw_contract_of shipped_doc) parse_contract"

text \<open>What the warehouse and the extractor need of a contract.\<close>

definition executable_table_ok :: "table_contract \<Rightarrow> bool" where
  "executable_table_ok t \<longleftrightarrow> distinct (column_names t) \<and>
     list_ex (\<lambda>c. c_name c = tc_primary_key t \<and> \<not> withheld_column True c) (tc_columns t) \<and>
     (case table_cursor t of
        Inl _ \<Rightarrow> False
      | Inr None \<Rightarrow> True
      | Inr (Some cur) \<Rightarrow> list_ex (\<lambda>c. c_name c = cur \<and> \<not> withheld_column True c) (tc_columns t)) \<and>
     1 \<le> tc_kafka_partitions t \<and> tc_kafka_partitions t \<le> 1024 \<and>
     list_all (\<lambda>i. list_all (\<lambda>c. c \<in> set (column_names t)) i) (tc_indexes t)"

lemma executable_table_okD: "executable_table_ok t \<Longrightarrow> table_ok t exclude \<and> (\<exists>cur. table_cursor t = Inr cur)"
  by (auto simp: executable_table_ok_def table_ok_def list_ex_iff withheld_column_def split: sum.splits option.splits)

lemma shipped_doc_ok:
  "wf_json shipped_doc \<and> (case shipped_contract of Inl _ \<Rightarrow> False
     | Inr ct \<Rightarrow> ct_version ct = 2 \<and> distinct (table_names ct) \<and> list_all executable_table_ok (ct_tables ct))"
  by code_simp


end
