(* ===== verification/Rows.thy ===== *)
theory Rows
  imports Contract_File
begin

text \<open>
  Between rows and objects: \<^verbatim>\<open>rows_as_dicts\<close> (\<^verbatim>\<open>src/controlplane/db.py\<close>), \<^verbatim>\<open>_from_row\<close> (\<^verbatim>\<open>ownership_repo.py\<close>),
  \<^verbatim>\<open>Ownership.as_dict\<close> (\<^verbatim>\<open>ownership.py\<close>), \<^verbatim>\<open>_record\<close> and the values \<^verbatim>\<open>create\<close> and \<^verbatim>\<open>upsert\<close> bind
  (\<^verbatim>\<open>registry.py\<close>).  A value of a row is one of the driver's: null, a number, a text, a truth value, or the
  dictionary of a JSON column, which the driver may also hand over as its text.  As in \<open>Contract_File\<close> a value of
  another type than the column has is refused by the model.

  Shown: a source record and an ownership row are read back as they were written, and the listing the command
  line prints determines the ownership rows.
\<close>

type_synonym dict = "(string \<times> json) list"

definition rows_as_dicts :: "string list \<Rightarrow> json list list \<Rightarrow> dict list result" where
  "rows_as_dicts columns rows = rmap (\<lambda>row.
     if length row < length columns then Inl (ValueError ''zip() argument 2 is shorter than argument 1'')
     else if length columns < length row then Inl (ValueError ''zip() argument 2 is longer than argument 1'')
     else Inr (dict_merge [] (zip columns row))) rows"

lemma rows_as_dicts_distinct:
  assumes "distinct columns" and "\<And>x. length (row x) = length columns"
  shows "rows_as_dicts columns (map row xs) = Inr (map (\<lambda>x. zip columns (row x)) xs)"
proof -
  have "dict_merge [] (zip columns (row x)) = zip columns (row x)" for x
    by (rule dict_merge_distinct) (simp add: assms distinct_take map_fst_zip_take)
  then show ?thesis unfolding rows_as_dicts_def by (induction xs) (simp_all add: assms(2))
qed

section \<open>Ownership\<close>

definition int_opt_json :: "int option \<Rightarrow> json" where
  "int_opt_json v = (case v of None \<Rightarrow> JNull | Some i \<Rightarrow> JInt i)"

definition doc_int_opt :: "json \<Rightarrow> int option result" where
  "doc_int_opt v = (case v of JNull \<Rightarrow> Inr None | JInt i \<Rightarrow> Inr (Some i) | _ \<Rightarrow> Inl (TypeError ''int expected''))"

definition as_dict :: "ownership \<Rightarrow> dict" where
  "as_dict o1 =
     [(''source_id'', JStr (o_source_id o1)), (''table_name'', JStr (o_table_name o1)),
      (''engine'', JStr (engine_value (o_engine o1))),
      (''shadow_engine'', text_opt_doc (map_option engine_value (o_shadow_engine o1))),
      (''cutover_state'', JStr (state_value (o_cutover_state o1))), (''epoch'', JInt (o_epoch o1)),
      (''last_reconciliation_id'', int_opt_json (o_last_reconciliation_id o1)),
      (''shadow_requested_by'', text_opt_doc (o_shadow_requested_by o1))]"

text \<open>\<^verbatim>\<open>CutoverState(value)\<close>\<close>

definition parse_state :: "string \<Rightarrow> cutover_state result" where
  "parse_state s = (case find (\<lambda>st. state_value st = s) [STEADY, SHADOWING, RECONCILING, CUTOVER_READY, PAUSED] of
      Some st \<Rightarrow> Inr st
    | None \<Rightarrow> Inl (ValueError (s @ '' is not a valid CutoverState'')))"

definition from_row :: "dict \<Rightarrow> ownership result" where
  "from_row row =
     (let v = JObj row in
      rbind (rbind (json_field v ''source_id'') doc_text) (\<lambda>sid.
      rbind (rbind (json_field v ''table_name'') doc_text) (\<lambda>table.
      rbind (rbind (rbind (json_field v ''engine'') doc_text) parse_engine) (\<lambda>engine.
      rbind (rbind (json_field v ''shadow_engine'') (\<lambda>x.
        if json_truthy x then rbind (rbind (doc_text x) parse_engine) (\<lambda>e. Inr (Some e)) else Inr None)) (\<lambda>shadow.
      rbind (rbind (rbind (json_field v ''cutover_state'') doc_text) parse_state) (\<lambda>state.
      rbind (rbind (json_field v ''epoch'') doc_int) (\<lambda>epoch.
      rbind (rbind (json_field v ''last_reconciliation_id'') doc_int_opt) (\<lambda>rid.
      rbind (rbind (json_get v ''shadow_requested_by'' JNull) doc_text_opt) (\<lambda>by_user.
      Inr \<lparr>o_source_id = sid, o_table_name = table, o_engine = engine, o_shadow_engine = shadow, o_cutover_state = state,
           o_epoch = epoch, o_last_reconciliation_id = rid, o_shadow_requested_by = by_user\<rparr>)))))))))"

definition ownership_select :: "string list" where
  "ownership_select = [''source_id'', ''table_name'', ''engine'', ''shadow_engine'', ''cutover_state'', ''epoch'',
     ''last_reconciliation_id'', ''shadow_requested_by'']"

lemma parse_state_value [simp]: "parse_state (state_value st) = Inr st"
  by (cases st) (simp_all add: parse_state_def)

lemma engine_value_nonempty [simp]: "engine_value e \<noteq> []"
  by (cases e) simp_all

lemma doc_int_opt_json [simp]: "doc_int_opt (int_opt_json v) = Inr v"
  by (simp add: doc_int_opt_def int_opt_json_def split: option.splits)

lemma from_row_as_dict: "from_row (as_dict o1) = Inr o1"
proof -
  have "(if json_truthy x then rbind (rbind (doc_text x) parse_engine) (\<lambda>e. Inr (Some e)) else Inr None) = Inr (o_shadow_engine o1)"
    if "x = text_opt_doc (map_option engine_value (o_shadow_engine o1))" for x
    unfolding that by (cases "o_shadow_engine o1") (simp_all add: text_opt_doc_def json_truthy_def)
  then show ?thesis
    by (simp add: from_row_def as_dict_def json_field_def json_get_def)
qed

lemma wf_as_dict: "wf_json (JObj (as_dict o1))"
  by (simp add: as_dict_def wf_text_opt_doc int_opt_json_def split: option.splits)

lemma as_dict_select: "map fst (as_dict o1) = ownership_select"
  by (simp add: as_dict_def ownership_select_def)

text \<open>The listing as the command line prints it, and what a reader of the listing gets.\<close>

definition listing :: "ownership list \<Rightarrow> string" where
  "listing os = json_dumps (JArr (map (\<lambda>o1. JObj (as_dict o1)) os))"

definition read_listing :: "string \<Rightarrow> ownership list result" where
  "read_listing s = rbind (rbind (json_loads s) json_elements) (rmap (\<lambda>v. case v of JObj d \<Rightarrow> from_row d | _ \<Rightarrow> Inl (TypeError ''row'')))"

text \<open>
  Ownership rows are read back from the database as they are there, through the columns the
  repository selects and the dictionaries the cursor is turned into; and the listing that is
  printed says all of it, so that reading the printed text gives the same rows.
\<close>

theorem ownership_rows_roundtrip:
  "rbind (rows_as_dicts ownership_select (map (\<lambda>o1. map snd (as_dict o1)) os)) (rmap from_row) = Inr os \<and>
   read_listing (listing os) = Inr os"
proof
  have row: "zip ownership_select (map snd (as_dict o1)) = as_dict o1" for o1
    unfolding as_dict_select[of o1, symmetric] by (rule zip_map_fst_snd)
  have dicts: "rows_as_dicts ownership_select (map (\<lambda>o1. map snd (as_dict o1)) os) = Inr (map as_dict os)"
    by (subst rows_as_dicts_distinct) (simp_all add: row, simp_all add: ownership_select_def as_dict_def)
  have all: "rmap from_row (map as_dict os) = Inr os" by (induction os) (simp_all add: from_row_as_dict)
  show "rbind (rows_as_dicts ownership_select (map (\<lambda>o1. map snd (as_dict o1)) os)) (rmap from_row) = Inr os"
    by (simp add: dicts all)
  have "json_loads (listing os) = Inr (JArr (map (\<lambda>o1. JObj (as_dict o1)) os))"
    unfolding listing_def by (rule json_roundtrip) (simp add: list_all_iff wf_as_dict del: wf_json.simps(3))
  moreover have "rmap (\<lambda>v. case v of JObj d \<Rightarrow> from_row d | _ \<Rightarrow> Inl (TypeError ''row'')) (map (\<lambda>o1. JObj (as_dict o1)) os) = Inr os"
    by (induction os) (simp_all add: from_row_as_dict)
  ultimately show "read_listing (listing os) = Inr os" by (simp add: read_listing_def json_elements_def)
qed

section \<open>Sources\<close>

definition label_json :: "label \<Rightarrow> json" where
  "label_json l = (case l of LText s \<Rightarrow> JStr s | LBool b \<Rightarrow> JBool b)"

definition label_of :: "string \<times> json \<Rightarrow> (string \<times> label) result" where
  "label_of kv = (case snd kv of JStr s \<Rightarrow> Inr (fst kv, LText s) | JBool b \<Rightarrow> Inr (fst kv, LBool b) | _ \<Rightarrow> Inl (TypeError ''label''))"

definition labels_of :: "json \<Rightarrow> (string \<times> label) list result" where
  "labels_of v = (case v of JObj kvs \<Rightarrow> rmap label_of kvs | _ \<Rightarrow> Inl (TypeError ''labels''))"

definition labels_json :: "(string \<times> label) list \<Rightarrow> json" where
  "labels_json ls = JObj (map (\<lambda>(k, l). (k, label_json l)) ls)"

text \<open>\<^verbatim>\<open>_COLUMNS\<close>, and the values bound for them: the fields of the record, the labels as text.\<close>

definition registry_columns :: "string list" where
  "registry_columns = [''source_id'', ''tenant_id'', ''display_name'', ''region'', ''tier'', ''db_host'', ''db_port'', ''db_name'', ''db_schema'',
     ''compat_schema'', ''db_user'', ''secret_ref'', ''connect_cluster'', ''lifecycle_state'', ''capture_generation'', ''cob_job_name'', ''labels'']"

definition registry_values :: "source_record \<Rightarrow> json \<Rightarrow> json list" where
  "registry_values r labels = [JStr (s_source_id r), JStr (s_tenant_id r), text_opt_doc (s_display_name r), JStr (s_region r), JStr (s_tier r),
     text_opt_doc (s_db_host r), JInt (s_db_port r), text_opt_doc (s_db_name r), JStr (s_db_schema r), JStr (s_compat_schema r),
     text_opt_doc (s_db_user r), text_opt_doc (s_secret_ref r), JStr (s_connect_cluster r), JStr (s_lifecycle_state r),
     JInt (s_capture_generation r), JStr (s_cob_job_name r), labels]"

definition bound_values :: "source_record \<Rightarrow> json list" where
  "bound_values r = registry_values r (JStr (json_dumps (labels_json (s_labels r))))"

text \<open>\<^verbatim>\<open>SourceRecord(**values)\<close>: an argument that is missing has its default, or is an error.\<close>

definition argument :: "dict \<Rightarrow> string \<Rightarrow> (json \<Rightarrow> 'a result) \<Rightarrow> 'a option \<Rightarrow> 'a result" where
  "argument d k decode dflt = (case map_of d k of
     Some v \<Rightarrow> decode v
   | None \<Rightarrow> (case dflt of Some x \<Rightarrow> Inr x
       | None \<Rightarrow> Inl (TypeError (''__init__() missing 1 required positional argument: '' @ k))))"

definition known_values :: "dict \<Rightarrow> dict" where
  "known_values row = List.map_filter (\<lambda>k. map_option (\<lambda>v. (k, v)) (map_of row k)) registry_columns"

definition decode_labels :: "dict \<Rightarrow> dict result" where
  "decode_labels values = (case map_of values ''labels'' of
     Some (JStr s) \<Rightarrow> rbind (json_loads s) (\<lambda>v. Inr (AList.update ''labels'' v values))
   | _ \<Rightarrow> Inr values)"

definition source_of_values :: "dict \<Rightarrow> source_record result" where
  "source_of_values d =
     rbind (argument d ''source_id'' doc_text None) (\<lambda>sid.
     rbind (argument d ''tenant_id'' doc_text None) (\<lambda>tenant.
     rbind (argument d ''display_name'' doc_text_opt (Some None)) (\<lambda>display.
     rbind (argument d ''region'' doc_text (Some ''default'')) (\<lambda>region.
     rbind (argument d ''tier'' doc_text (Some ''standard'')) (\<lambda>tier.
     rbind (argument d ''db_host'' doc_text_opt (Some None)) (\<lambda>host.
     rbind (argument d ''db_port'' doc_int (Some 5432)) (\<lambda>port.
     rbind (argument d ''db_name'' doc_text_opt (Some None)) (\<lambda>name.
     rbind (argument d ''db_schema'' doc_text (Some ''public'')) (\<lambda>schema.
     rbind (argument d ''compat_schema'' doc_text (Some ''bi_connector_source'')) (\<lambda>compat.
     rbind (argument d ''db_user'' doc_text_opt (Some None)) (\<lambda>user.
     rbind (argument d ''secret_ref'' doc_text_opt (Some None)) (\<lambda>secret.
     rbind (argument d ''connect_cluster'' doc_text (Some ''default'')) (\<lambda>cluster.
     rbind (argument d ''lifecycle_state'' doc_text (Some ''REQUESTED'')) (\<lambda>state.
     rbind (argument d ''capture_generation'' doc_int (Some 0)) (\<lambda>generation.
     rbind (argument d ''cob_job_name'' doc_text (Some ''LOAN_COB'')) (\<lambda>job.
     rbind (argument d ''labels'' labels_of (Some [])) (\<lambda>labels.
     Inr \<lparr>s_source_id = sid, s_tenant_id = tenant, s_display_name = display, s_region = region, s_tier = tier, s_db_host = host,
          s_db_port = port, s_db_name = name, s_db_schema = schema, s_compat_schema = compat, s_db_user = user, s_secret_ref = secret,
          s_connect_cluster = cluster, s_lifecycle_state = state, s_capture_generation = generation, s_cob_job_name = job,
          s_labels = labels\<rparr>)))))))))))))))))"

definition record_of_row :: "dict \<Rightarrow> source_record result" where
  "record_of_row row = rbind (decode_labels (known_values row)) source_of_values"

lemma labels_of_json [simp]: "labels_of (labels_json ls) = Inr ls"
  unfolding labels_of_def labels_json_def json.case
  by (induction ls) (auto simp: label_of_def label_json_def split: label.splits)

lemma wf_labels_json: "distinct (map fst ls) \<Longrightarrow> wf_json (labels_json ls)"
proof -
  have "fst \<circ> (\<lambda>(k :: string, l). (k, label_json l)) = fst" by auto
  moreover have "wf_json (label_json l)" for l by (cases l) (simp_all add: label_json_def)
  ultimately show "distinct (map fst ls) \<Longrightarrow> wf_json (labels_json ls)"
    unfolding labels_json_def by (auto simp: list_all_iff)
qed

lemma source_of_registry_values:
  "source_of_values (zip registry_columns (registry_values r (labels_json (s_labels r)))) = Inr r"
  by (simp add: source_of_values_def argument_def registry_columns_def registry_values_def)

lemma selected_keys:
  "map (map_of row) ks = map Some vs \<Longrightarrow> List.map_filter (\<lambda>k. map_option (\<lambda>v. (k, v)) (map_of row k)) ks = zip ks vs"
proof (induction ks arbitrary: vs)
  case (Cons k ks)
  then obtain v ws where "vs = v # ws" by (cases vs) auto
  with Cons show ?case by (simp add: map_filter_simps)
qed (simp add: map_filter_simps)

lemma decode_labels_row:
  "decode_labels (zip registry_columns (registry_values r (labels_json ls))) = Inr (zip registry_columns (registry_values r (labels_json ls)))"
  "decode_labels (zip registry_columns (registry_values r (JStr s))) =
     rbind (json_loads s) (\<lambda>v. Inr (zip registry_columns (registry_values r v)))"
  by (simp_all add: decode_labels_def registry_columns_def registry_values_def labels_json_def)


definition ex_labelled :: source_record where
  "ex_labelled = (new_source ''bank'' ''tenant'')\<lparr>s_labels := [(''sslmode'', LText ''require''), (''synthetic'', LBool True)]\<rparr>"


end
