(* ===== verification/Spec2Isabelle.thy ===== *)
theory Spec2Isabelle
  imports Ops_Examples Superset_Examples Cli_Examples Licenses Rows
begin

text \<open>
  Apache Fineract Business Intelligence copies the tables of many Fineract databases (\<^emph>\<open>sources\<close>) into a warehouse.
  Two engines may write a table of a source: a batch extractor in Python and a streaming engine over Kafka.  A
  control plane decides which engine owns which table, moves tables from one engine to the other through a
  shadow copy that is compared with production before the cutover, registers, onboards and retires sources, and keeps
  the capture connectors of Kafka Connect in line with the registry.  Airflow runs the periodic work, Superset shows
  the marts.  This development models the Python code of the repository (control plane, extractor, DAGs, Superset
  bootstrap, scripts) with the functions of the warehouse schema it calls, and proves the properties the operation of
  such an installation rests on.

  \<^bold>\<open>The parts and their theories\<close> (paths under \<^verbatim>\<open>src/\<close>)

  \<^item> \<open>Prelude\<close>: exceptions as values (\<open>py_exn\<close>, \<open>'a result\<close>), computations over a state that return or raise (\<open>sx\<close>)
    with sequencing, loops and handlers, invariants of computations (\<open>keeps\<close>), Python's string functions.
  \<^item> \<open>Ownership\<close>: \<^verbatim>\<open>controlplane/ownership.py\<close>, the state machine of a table: engine, shadow engine, state, epoch.
  \<^item> \<open>Json\<close>, \<open>Http\<close>: Python's \<^verbatim>\<open>json\<close> module, and requests with basic authentication, as the programs use them.
  \<^item> \<open>Contract\<close>, \<open>Contract_File\<close>: \<^verbatim>\<open>controlplane/contract.py\<close>, the tables and columns to copy, and \<^verbatim>\<open>contracts/fineract_tables.json\<close>.
  \<^item> \<open>Secrets\<close>, \<open>Registry\<close>: \<^verbatim>\<open>controlplane/secrets.py\<close> and the data of \<^verbatim>\<open>controlplane/registry.py\<close>.
  \<^item> \<open>Warehouse\<close>, \<open>Raw_Store\<close>: the tables and functions of \<^verbatim>\<open>warehouse/schema/platform.sql\<close> that the Python code calls: connections with
    a committed and a working copy of the tables, the triggers on ownership rows, staged batches, promotion, comparison.
  \<^item> \<open>Registry_Store\<close>, \<open>Ownership_Repo\<close>: the classes \<^verbatim>\<open>SourceRegistry\<close> and \<^verbatim>\<open>OwnershipRepository\<close>; \<open>Owners\<close>: giving unowned tables an owner;
    \<open>Rows\<close>: what they write to rows and make of them.
  \<^item> \<open>Pg\<close>, \<open>Reconcile\<close>: \<^verbatim>\<open>controlplane/db.py\<close>, \<^verbatim>\<open>controlplane/reconcile.py\<close> (comparisons and the cutover gate).
  \<^item> \<open>Connectors\<close>, \<open>Connect_Client\<close>, \<open>Reconciler\<close>: \<^verbatim>\<open>controlplane/connectors.py\<close> (planning, and the class \<^verbatim>\<open>ConnectClient\<close>),
    \<^verbatim>\<open>controlplane/reconciler.py\<close>.
  \<^item> \<open>Retire\<close>: \<^verbatim>\<open>controlplane/retire.py\<close>.
  \<^item> \<open>Extract_Config\<close>, \<open>Copy_Payload\<close>, \<open>Paging\<close>, \<open>Extractor\<close>: \<^verbatim>\<open>extractor/config.py\<close>, \<^verbatim>\<open>extractor/watermark_manager.py\<close>,
    \<^verbatim>\<open>extractor/extractor.py\<close>, \<^verbatim>\<open>extractor/replica_lag_check.py\<close>; \<open>Table_Extract\<close> and \<open>Fencing\<close> prove what the extractor does.
  \<^item> \<open>Tasks\<close>, \<open>Maintenance\<close>: \<^verbatim>\<open>controlplane/tasks.py\<close> with the retention of the change log and of the audit tables
    (\<^verbatim>\<open>platform.sql\<close>); \<open>Dags\<close>: \<^verbatim>\<open>airflow/dags\<close>.
  \<^item> \<open>Cli\<close>, \<open>Argparse\<close>, \<open>Cli_Main\<close>: \<^verbatim>\<open>controlplane/cli.py\<close> and \<^verbatim>\<open>extractor/cli.py\<close>, from the arguments to the exit code.
  \<^item> \<open>Asset_Specs\<close>, \<open>Superset_Assets\<close>, \<open>Superset_Bootstrap\<close>, \<open>Superset_Install\<close>: \<^verbatim>\<open>docker/superset\<close>, the descriptions of datasets, charts
    and dashboards, and their installation.
  \<^item> \<open>Licenses\<close>, \<open>Airflow_Trigger\<close>: \<^verbatim>\<open>scripts/check_licenses.py\<close>, \<^verbatim>\<open>scripts/airflow_trigger.py\<close>.
  \<^item> \<open>Examples\<close>, \<open>Extract_Examples\<close>, \<open>Task_Examples\<close>, \<open>Ops_Examples\<close>, \<open>Superset_Examples\<close>, \<open>Cli_Examples\<close>: a small installation on which the
    theorems are applied.

  \<^bold>\<open>State and effects.\<close>  The warehouse is the record \<open>db\<close>, one field per table; a connection (\<open>conn\<close>) has the committed tables, the
  tables its transaction sees, the clock of its transactions and the login.  A statement fails or replaces the tables of
  the transaction, \<open>commit\<close> and \<open>rollback\<close> copy one way or the other.  An operation of the code is a computation
  over a connection (\<open>'a dbop\<close>) or over a connection and the outside world (\<open>'w sys\<close>), composed as the code composes it.
  One session runs at a time; what other sessions do between two operations is covered because the theorems hold
  for every state an operation starts in, and what the source databases do during an extraction is covered
  because each query of the extractor is answered by an arbitrary function of the number of the query.
  Outside code is a parameter: Kafka Connect and the slots of a source (\<open>connect_api\<close>; an HTTP transport in \<open>Connect_Client\<close>
  and \<open>Airflow_Trigger\<close>), the source databases, PostgreSQL's hash functions and casts, the file system, the installed
  distributions, the decoding of JSON where the code hands it to another component.

  \<^bold>\<open>What is shown.\<close>  Ownership: the only ways the owner of a table changes, the order of a migration, epochs, refinement of an abstract
  protocol, the effect of a request on the tables, what a failed request leaves.  Warehouse: batches are applied only for the
  current epoch and touch only their keys, newer rows are never overwritten by older ones, promotion and comparison do
  what they promise.  Sources: registration, retirement and onboarding leave other sources alone and end as they
  should.  Connectors: plans are bounded, complete and empty exactly when nothing is to do; only confirmed leftovers are removed.
  Extractor: the watermark never runs ahead of the copy, a finished extraction has copied every row that was there throughout,
  it ends over a source that does not change, it deletes only what is gone, and it writes nothing once the table was handed over.
  The last is the theorem of this theory, across the repository, the batch function and the extractor.
  Client and command line: what is sent to Kafka Connect is what is observed afterwards, an accepted command line has
  options of their types and makes the request it says, a refused one does nothing.  Documents and rows: contracts, sources
  and ownership rows are read back as they were written, and the shipped contract meets the assumptions on tables.
  Maintenance: nothing is purged that is still needed, and the loop ends.  Superset: the bootstrap installs what is
  described, reaches a fixed point and leaves foreign assets alone.  DAGs: runs are made in the name of the authenticated user.

  \<^bold>\<open>Fuel.\<close>  The loop of the extractor over the pages has fuel and yields \<open>None\<close> when it runs out; \<open>extraction_terminates\<close> shows
  that two turns more than the source has rows are enough when the page size is positive, and \<open>page_size_zero_never_ends\<close> that none is
  enough when it is zero.  The purge loop of the maintenance has fuel as well: one pass more than there are partitions is enough with a
  retention of at least a day (\<open>maintenance_ends\<close>), and none is with a retention of zero.  The polling of the trigger script ends
  within passes given by its time-out (\<open>trigger_ends\<close>).  The fuel of \<open>json_loads\<close>, from the length of the text, is always enough
  (\<open>json_fuel_enough\<close>).  The retries of the slot cleanup take their number from the code.  Every other definition is total.

  \<^bold>\<open>Not modelled.\<close>  The streaming engine (Java) and the dbt models, which are in other languages; the installation of the
  warehouse schema with its roles and grants; the driver and its socket options; schedules, pools, time limits and forms of Airflow; what Superset does
  with its tables; advisory locks and the concurrent execution of threads; the maintenance (VACUUM, ANALYZE) after a promotion;
  the reading of files; logging and printing; the text of SQL other than the page query.
\<close>

section \<open>Handing a table over\<close>

lemma write_rights_bump_epoch:
  "transition o1 req = Inr res \<Longrightarrow> r_action req \<notin> {BEGIN_RECONCILIATION, RECORD_RECONCILIATION} \<Longrightarrow>
   o_epoch (t_current res) = o_epoch o1 + 1"
  by (cases "r_action req") (auto simp: transition_def require_cond_def mk_result_def bump_def Let_def split: if_splits)

lemma moved_row_epoch:
  assumes "wf_db (k_working c)" and "apply_ownership ct sid tables req c = (Inr rs, c')" and "t \<in> set tables"
    and "row_for (k_working c) sid t = Some old" and "r_action req \<notin> {BEGIN_RECONCILIATION, RECORD_RECONCILIATION}"
  shows "k_committed c' = k_working c' \<and> (\<exists>new. row_for (k_committed c') sid t = Some new \<and> o_epoch (w_own new) = o_epoch (w_own old) + 1)"
  using assms(1,2)
proof (rule apply_ownership_moved)
  fix d
  assume am: "all_moved c sid (dual_of c) req (sorted_set tables) (k_working c) d" and cw: "k_committed c' = k_working c'"
    and "k_working c' = d \<or> r_action req = START_SHADOW \<and> k_working c' = bump_generation sid d"
  then have same: "row_for (k_working c') sid t = row_for d sid t" by auto
  from am assms(3) obtain res where "moved c sid (dual_of c) req t res (k_working c) d"
    unfolding all_moved_def by (auto simp: set_sorted_set)
  then show ?thesis
  proof (rule movedE)
    fix old' new treq
    assume "row_for (k_working c) sid t = Some old'" "row_for d sid t = Some new" "same_request (dual_of c) req treq"
      "transition (w_own old') treq = Inr res" "w_own new = t_current res"
    with write_rights_bump_epoch[of "w_own old'" treq res] assms(4,5) same cw show ?thesis
      by (auto simp: same_request_def)
  qed
qed

text \<open>
  C4: A handover fences the writer before it: once a request that changes who may write a table (any request but the two
  of a comparison) is accepted, an extraction that was planned under the row before, whatever its mode, its source
  and its progress, leaves every row of both copies of the warehouse as the handover left it.
\<close>

theorem handover_fences_old_writer:
  assumes "wf_db (k_working c)" and "apply_ownership ct sid tables req c = (Inr rs, c')" and "t \<in> set tables"
    and "row_for (k_working c) sid t = Some old" and "r_action req \<notin> {BEGIN_RECONCILIATION, RECORD_RECONCILIATION}"
    and "s_source_id (xe_source xe) = sid" and "tc_table_name (as_table a) = t" and "as_epoch a = o_epoch (w_own old)"
    and "y_conn y = c'" and "target \<in> {''prod'', ''shadow''}"
  shows "map_of (raw_of target (k_committed (y_conn (snd (process fuel cast hash env xe db mode a y))))) k =
    map_of (raw_of target (k_committed c')) k"
proof -
  note new = moved_row_epoch[OF assms(1-5)]
  then have "\<not> may_write xe a (k_committed (y_conn y))"
    using assms(6-9) by (auto simp: may_write_def row_for_def)
  from stale_process_keeps[OF this _ assms(10)] new assms(9) show ?thesis by simp
qed

definition ex_after_cutover :: xstate where
  "ex_after_cutover = \<lparr>y_conn = snd ex_cutover_run, y_world = y_world ex_xsys\<rparr>"

theorem handover_fences_old_writer_witness:
  "map_of (raw_of ''prod'' (k_committed (y_conn (snd (process 5 (\<lambda>_ v. v) (\<lambda>vs. int (length vs)) demo_env (ex_xe 1) ex_sdb ''backfill''
     (ex_assignment 4) ex_after_cutover))))) ex_key = map_of (raw_of ''prod'' (k_committed (snd ex_cutover_run))) ex_key"
proof -
  have wf: "wf_db (k_working (ex_conn False demo_ready))" by (simp add: ex_wf)
  have old: "row_for (k_working (ex_conn False demo_ready)) ''bank'' ''m_loan'' = Some (ex_row demo_ready)"
    by (simp add: row_for_def ex_db_def)
  have act: "r_action demo_cutover \<notin> {BEGIN_RECONCILIATION, RECORD_RECONCILIATION}" by (simp add: demo_defs)
  have sid: "s_source_id (xe_source (ex_xe 1)) = ''bank''" and table: "tc_table_name (as_table (ex_assignment 4)) = ''m_loan''"
    and epoch: "as_epoch (ex_assignment 4) = o_epoch (w_own (ex_row demo_ready))"
    by code_simp+
  have run: "apply_ownership ex_contract ''bank'' [''m_loan''] demo_cutover (ex_conn False demo_ready) =
      (Inr (projr (fst ex_cutover_run)), snd ex_cutover_run)"
    using ex_runs(2) by (simp add: ex_cutover_run_def)
  show ?thesis
    by (rule handover_fences_old_writer[OF wf run _ old act sid table epoch])
      (simp_all add: ex_after_cutover_def)
qed

end
